(* ===== verification/Prelude.thy ===== *)
theory Prelude
  imports Complex_Main "HOL-Library.Char_ord" "HOL-Library.List_Lexorder"
    "HOL-Library.Product_Lexorder" "HOL-Library.Multiset"
begin

text \<open>
  What every component of the model shares.

  \<^item> Python's exceptions as the datatype \<open>py_error\<close>; an operation that may raise returns
    \<open>py_error + 'a\<close>, with \<open>Inl\<close> for the exception. For a database transaction \<open>Inl\<close> also
    means that the transaction was rolled back: no new state is returned.
  \<^item> JSON values, the part of \<^verbatim>\<open>str.strip\<close> and of decimal printing the sources use. A Python
    string is a list of characters (code points below 256), compared and sorted by code point.
  \<^item> A database table is the list of its rows in insertion order. \<open>row_by\<close> is a primary-key
    \<^verbatim>\<open>SELECT\<close>, \<open>upd_by\<close> a primary-key \<^verbatim>\<open>UPDATE\<close>, \<open>upd_where\<close> an \<^verbatim>\<open>UPDATE ... WHERE\<close> and
    \<open>upsert_by\<close> an \<^verbatim>\<open>INSERT ... ON CONFLICT(key) DO UPDATE\<close>.
  \<^item> Reachability under a step relation, and the rule that lifts a one-step invariant to it.
\<close>

section \<open>Collections of facts\<close>

named_theorems row_simps \<open>lookups and updates in tables of rows\<close>
named_theorems value_simps \<open>the wire names of enumerations\<close>

section \<open>Errors\<close>

datatype py_error =
    KeyError string
  | ValueError string
  | RuntimeError string
  | ZeroDivisionError
  | OverflowError string
  | TypeError string
  | IntegrityError string
  | InvalidTransition string string
  | ExecutionLeaseLostError string string int
  | VerificationPolicyError string
  | GoalLeaseUnavailable string
  | GoalLeaseLost string
  | HostIdentityInUse string
  | RecoveryLeaseUnavailable string
  | RecoveryLeaseLost string
  | RecoveryMonitorIdentityInUse string
  | DecisionDriverError string
  | AdapterReconstructionError string
  | BridgeValidationError string
  | RegistryUnavailable string
  | IdempotencyConflict string
  | ConfigurationError string
  | LaunchRejected int string \<comment> \<open>\<^verbatim>\<open>WorkerJobLaunchRejected\<close>: its status code and its text\<close>
  | OutcomeUncertain string string \<comment> \<open>\<^verbatim>\<open>WorkerJobOutcomeUncertain\<close>: the name of its state and its text\<close>
  | WorkerError string string \<comment> \<open>another exception of an adapter: its class and its text\<close>

type_synonym 'a result = "py_error + 'a"

definition is_ok :: "'a result \<Rightarrow> bool" where
  "is_ok r = (case r of Inl _ \<Rightarrow> False | Inr _ \<Rightarrow> True)"

lemma is_ok_simps [simp]: "\<not> is_ok (Inl e)" "is_ok (Inr x)"
  by (simp_all add: is_ok_def)

lemma is_ok_iff: "is_ok r \<longleftrightarrow> (\<exists>x. r = Inr x)"
  by (cases r) simp_all

text \<open>A list comprehension whose element expression may raise.\<close>

fun map_result :: "('a \<Rightarrow> 'b result) \<Rightarrow> 'a list \<Rightarrow> 'b list result" where
  "map_result f [] = Inr []"
| "map_result f (x # xs) =
     (case f x of
        Inl e \<Rightarrow> Inl e
      | Inr y \<Rightarrow> (case map_result f xs of Inl e \<Rightarrow> Inl e | Inr ys \<Rightarrow> Inr (y # ys)))"

lemma map_result_Inr_iff:
  "map_result f xs = Inr ys \<longleftrightarrow> list_all2 (\<lambda>x y. f x = Inr y) xs ys"
  by (induction xs arbitrary: ys) (auto split: sum.splits simp: list_all2_Cons1, metis sum.inject(2))

lemma map_result_total:
  "(\<And>x. x \<in> set xs \<Longrightarrow> f x = Inr (g x)) \<Longrightarrow> map_result f xs = Inr (map g xs)"
  by (induction xs) auto

lemma map_result_Inl: "map_result f xs = Inl e \<Longrightarrow> \<exists>x \<in> set xs. f x = Inl e"
  by (induction xs) (auto split: sum.splits)

text \<open>Sequencing of computations that may raise, and an early \<^verbatim>\<open>raise\<close>.\<close>

definition bindR :: "'a result \<Rightarrow> ('a \<Rightarrow> 'b result) \<Rightarrow> 'b result" where
  "bindR m f = (case m of Inl e \<Rightarrow> Inl e | Inr x \<Rightarrow> f x)"

definition raise_if :: "bool \<Rightarrow> py_error \<Rightarrow> unit result" where
  "raise_if c e = (if c then Inl e else Inr ())"

lemma bindR_simps [simp]: "bindR (Inl e) f = Inl e" "bindR (Inr x) f = f x"
  by (simp_all add: bindR_def)

lemma bindR_Inr_iff [simp]: "bindR m f = Inr y \<longleftrightarrow> (\<exists>x. m = Inr x \<and> f x = Inr y)"
  by (cases m) simp_all

lemma bindR_Inl_iff: "bindR m f = Inl e \<longleftrightarrow> m = Inl e \<or> (\<exists>x. m = Inr x \<and> f x = Inl e)"
  by (cases m) simp_all

lemma raise_if_Inr_iff [simp]: "raise_if c e = Inr u \<longleftrightarrow> \<not> c"
  by (simp add: raise_if_def)

lemma raise_if_Inl_iff [simp]: "raise_if c e = Inl e' \<longleftrightarrow> c \<and> e' = e"
  by (auto simp: raise_if_def)

lemma raise_if_simps [simp]: "raise_if True e = Inl e" "raise_if False e = Inr ()"
  by (simp_all add: raise_if_def)

section \<open>Strings and JSON values\<close>

text \<open>\<^verbatim>\<open>str.isspace\<close> on the code points below 256.\<close>

definition py_isspace :: "char \<Rightarrow> bool" where
  "py_isspace c = (let n = (of_char c :: nat)
     in (9 \<le> n \<and> n \<le> 13) \<or> (28 \<le> n \<and> n \<le> 32) \<or> n = 133 \<or> n = 160)"

text \<open>The truth value of \<^verbatim>\<open>s.strip()\<close>: some character is not white space.\<close>

definition nonblank :: "string \<Rightarrow> bool" where
  "nonblank s = list_ex (\<lambda>c. \<not> py_isspace c) s"

lemma not_nonblank_Nil [simp]: "\<not> nonblank []"
  by (simp add: nonblank_def)

lemma nonblank_Cons [simp]: "nonblank (c # s) \<longleftrightarrow> \<not> py_isspace c \<or> nonblank s"
  by (simp add: nonblank_def)

lemma nonblank_ne: "nonblank s \<Longrightarrow> s \<noteq> []"
  by auto

text \<open>The truth value of an optional string: \<^verbatim>\<open>None\<close> and the empty string are false.\<close>

definition truthy :: "string option \<Rightarrow> bool" where
  "truthy v = (case v of None \<Rightarrow> False | Some s \<Rightarrow> s \<noteq> [])"

text \<open>\<^verbatim>\<open>str(n)\<close> for integers.\<close>

fun show_nat :: "nat \<Rightarrow> string" where
  "show_nat n =
     (if n < 10 then [char_of (48 + n)] else show_nat (n div 10) @ [char_of (48 + n mod 10)])"

declare show_nat.simps [simp del]

definition show_int :: "int \<Rightarrow> string" where
  "show_int i = (if i < 0 then CHR ''-'' # show_nat (nat (- i)) else show_nat (nat i))"

lemma show_nat_ne [simp]: "show_nat n \<noteq> []"
  by (subst show_nat.simps) simp

text \<open>\<^verbatim>\<open>sep.join(parts)\<close>\<close>

fun join_strings :: "string \<Rightarrow> string list \<Rightarrow> string" where
  "join_strings sep [] = []"
| "join_strings sep [x] = x"
| "join_strings sep (x # y # ys) = x @ sep @ join_strings sep (y # ys)"

text \<open>The slice \<^verbatim>\<open>xs[:k]\<close>; a negative bound counts from the end.\<close>

definition slice_to :: "int \<Rightarrow> 'a list \<Rightarrow> 'a list" where
  "slice_to k xs = take (nat (if k < 0 then int (length xs) + k else k)) xs"

lemma set_slice_to: "set (slice_to k xs) \<subseteq> set xs"
  by (simp add: slice_to_def set_take_subset)

lemma distinct_slice_to [simp]: "distinct xs \<Longrightarrow> distinct (slice_to k xs)"
  by (simp add: slice_to_def)

datatype json =
    JNull
  | JBool bool
  | JInt int
  | JNum rat
  | JStr string
  | JList "json list"
  | JTime int \<comment> \<open>the ISO 8601 text of an instant, kept as the instant\<close>
  | JMicros int \<comment> \<open>the same with microseconds in the text, kept as the instant in microseconds\<close>
  | JObj "(string \<times> json) list"

text \<open>
  \<^verbatim>\<open>int(s)\<close> of a string: optional white space and sign, decimal digits with single underscores
  between them; \<^verbatim>\<open>int(v)\<close> of a JSON value. \<open>None\<close> is the exception.
\<close>

definition digit_value :: "char \<Rightarrow> int option" where
  "digit_value c = (let n = (of_char c :: nat) in if 48 \<le> n \<and> n \<le> 57 then Some (int n - 48) else None)"

fun py_digits :: "int \<Rightarrow> string \<Rightarrow> int option" where
  "py_digits acc [] = None"
| "py_digits acc [c] = map_option (\<lambda>d. 10 * acc + d) (digit_value c)"
| "py_digits acc (c # d # cs) =
     (case digit_value c of
        None \<Rightarrow> None
      | Some v \<Rightarrow> py_digits (10 * acc + v) (if d = CHR ''_'' then cs else d # cs))"

definition strip :: "string \<Rightarrow> string" where
  "strip s = rev (dropWhile py_isspace (rev (dropWhile py_isspace s)))"

definition py_int_of_string :: "string \<Rightarrow> int option" where
  "py_int_of_string s =
     (case strip s of
        [] \<Rightarrow> None
      | c # cs \<Rightarrow>
          if c = CHR ''-'' then map_option uminus (py_digits 0 cs)
          else if c = CHR ''+'' then py_digits 0 cs else py_digits 0 (c # cs))"

definition py_int :: "json \<Rightarrow> int option" where
  "py_int v =
     (case v of
        JInt n \<Rightarrow> Some n
      | JBool b \<Rightarrow> Some (if b then 1 else 0)
      | JNum r \<Rightarrow> Some (if r < 0 then \<lceil>r\<rceil> else \<lfloor>r\<rfloor>)
      | JStr s \<Rightarrow> py_int_of_string s
      | _ \<Rightarrow> None)"

definition json_opt :: "('a \<Rightarrow> json) \<Rightarrow> 'a option \<Rightarrow> json" where
  "json_opt f v = (case v of None \<Rightarrow> JNull | Some x \<Rightarrow> f x)"

text \<open>\<^verbatim>\<open>COALESCE(new, old)\<close> of a nullable parameter and a nullable column.\<close>

definition coalesce :: "'a option \<Rightarrow> 'a option \<Rightarrow> 'a option" where
  "coalesce new old = (case new of None \<Rightarrow> old | Some v \<Rightarrow> Some v)"

lemma coalesce_simps [simp]: "coalesce None old = old" "coalesce (Some v) old = Some v"
  by (simp_all add: coalesce_def)

lemma coalesce_eq_None_iff [simp]: "coalesce a b = None \<longleftrightarrow> a = None \<and> b = None"
  by (cases a) simp_all

text \<open>\<^verbatim>\<open>dict.fromkeys(xs)\<close>: the distinct elements in order of first occurrence.\<close>

fun first_occurrences_from :: "'a list \<Rightarrow> 'a list \<Rightarrow> 'a list" where
  "first_occurrences_from seen [] = []"
| "first_occurrences_from seen (x # xs) =
     (if x \<in> set seen then first_occurrences_from seen xs
      else x # first_occurrences_from (x # seen) xs)"

definition dict_fromkeys :: "'a list \<Rightarrow> 'a list" where
  "dict_fromkeys xs = first_occurrences_from [] xs"

lemma first_occurrences_from_props:
  "distinct (first_occurrences_from seen xs)"
  "set (first_occurrences_from seen xs) = set xs - set seen"
  by (induction xs arbitrary: seen) (auto split: if_splits)

lemma dict_fromkeys_distinct [simp]: "distinct (dict_fromkeys xs)"
  by (simp add: dict_fromkeys_def first_occurrences_from_props)

lemma dict_fromkeys_set [simp]: "set (dict_fromkeys xs) = set xs"
  by (simp add: dict_fromkeys_def first_occurrences_from_props)

lemma first_occurrences_from_id:
  "distinct xs \<Longrightarrow> set xs \<inter> set seen = {} \<Longrightarrow> first_occurrences_from seen xs = xs"
  by (induction xs arbitrary: seen) auto

lemma dict_fromkeys_id: "distinct xs \<Longrightarrow> dict_fromkeys xs = xs"
  by (simp add: dict_fromkeys_def first_occurrences_from_id)

lemma dict_fromkeys_Nil_iff [simp]: "dict_fromkeys xs = [] \<longleftrightarrow> xs = []"
  by (metis dict_fromkeys_set set_empty)

section \<open>Lists\<close>

lemma map_result_Inr_member:
  "map_result f xs = Inr ys \<Longrightarrow> y \<in> set ys \<Longrightarrow> \<exists>x \<in> set xs. f x = Inr y"
  by (induction xs arbitrary: ys) (auto split: sum.splits)

lemma find_SomeD: "List.find P xs = Some x \<Longrightarrow> x \<in> set xs \<and> P x"
  by (induction xs) (auto split: if_splits)

lemma hd_sort_key_in: "xs \<noteq> [] \<Longrightarrow> hd (sort_key k xs) \<in> set xs"
  by (metis hd_in_set length_0_conv length_sort set_sort)

lemma map_insort_key_comp:
  "map f (insort_key (\<lambda>x. k (f x)) x xs) = insort_key k (f x) (map f xs)"
  by (induction xs) auto

lemma sort_key_map: "map f (sort_key (\<lambda>x. k (f x)) xs) = sort_key k (map f xs)"
  by (induction xs) (auto simp: map_insort_key_comp)

lemma insort_key_cong2:
  "k x = k' x \<Longrightarrow> (\<And>y. y \<in> set xs \<Longrightarrow> k y = k' y) \<Longrightarrow> insort_key k x xs = insort_key k' x xs"
  by (induction xs) auto

lemma sort_key_cong2: "(\<And>y. y \<in> set xs \<Longrightarrow> k y = k' y) \<Longrightarrow> sort_key k xs = sort_key k' xs"
  by (induction xs) (auto intro: insort_key_cong2)

lemma distinct_map_mset: "mset xs = mset ys \<Longrightarrow> distinct (map f xs) \<longleftrightarrow> distinct (map f ys)"
  by (metis mset_eq_imp_distinct_iff mset_map)

lemma slice_to_pos: "0 \<le> k \<Longrightarrow> slice_to k xs = take (nat k) xs"
  by (simp add: slice_to_def)

lemma map_slice_to: "map f (slice_to k xs) = slice_to k (map f xs)"
  by (simp add: slice_to_def take_map)

section \<open>String enumerations\<close>

text \<open>
  A \<^verbatim>\<open>StrEnum\<close> is its members in declaration order with their wire values; calling the class on a
  string (\<^verbatim>\<open>TaskState("ready")\<close>) finds the member of that value or raises, here \<open>None\<close>.
\<close>

definition enum_of :: "'a list \<Rightarrow> ('a \<Rightarrow> string) \<Rightarrow> string \<Rightarrow> 'a option" where
  "enum_of members val v = List.find (\<lambda>x. val x = v) members"

locale wire_enum =
  fixes members :: "'a list"
    and val :: "'a \<Rightarrow> string"
  assumes complete: "x \<in> set members"
    and distinct_values: "distinct (map val members)"
begin

lemma value_inject [simp]: "val x = val y \<longleftrightarrow> x = y"
  using distinct_values complete by (auto simp: distinct_map inj_on_def)

lemma decode_encode [simp]: "enum_of members val (val x) = Some x"
proof -
  have "List.find (\<lambda>y. y = x) ys = (if x \<in> set ys then Some x else None)" for ys
    by (induction ys) auto
  then show ?thesis by (simp add: enum_of_def complete)
qed

lemma encode_decode: "enum_of members val v = Some x \<Longrightarrow> val x = v"
  by (auto simp: enum_of_def find_Some_iff)

end

section \<open>Tables of rows\<close>

definition row_by :: "('r \<Rightarrow> 'k) \<Rightarrow> 'k \<Rightarrow> 'r list \<Rightarrow> 'r option" where
  "row_by key k rows = List.find (\<lambda>r. key r = k) rows"

definition upd_where :: "('r \<Rightarrow> bool) \<Rightarrow> ('r \<Rightarrow> 'r) \<Rightarrow> 'r list \<Rightarrow> 'r list" where
  "upd_where P f rows = map (\<lambda>r. if P r then f r else r) rows"

definition upd_by :: "('r \<Rightarrow> 'k) \<Rightarrow> 'k \<Rightarrow> ('r \<Rightarrow> 'r) \<Rightarrow> 'r list \<Rightarrow> 'r list" where
  "upd_by key k f rows = upd_where (\<lambda>r. key r = k) f rows"

text \<open>The row to insert, and what to do with an existing row of the same key.\<close>

definition upsert_by :: "('r \<Rightarrow> 'k) \<Rightarrow> 'r \<Rightarrow> ('r \<Rightarrow> 'r) \<Rightarrow> 'r list \<Rightarrow> 'r list" where
  "upsert_by key row f rows =
     (if row_by key (key row) rows = None then rows @ [row] else upd_by key (key row) f rows)"

definition unique_key :: "('r \<Rightarrow> 'k) \<Rightarrow> 'r list \<Rightarrow> bool" where
  "unique_key key rows = distinct (map key rows)"

lemma row_by_Nil [row_simps, simp]: "row_by key k [] = None"
  by (simp add: row_by_def)

lemma row_by_Cons [row_simps]:
  "row_by key k (r # rows) = (if key r = k then Some r else row_by key k rows)"
  by (simp add: row_by_def)

lemma row_by_append [row_simps]:
  "row_by key k (xs @ ys) = (case row_by key k xs of None \<Rightarrow> row_by key k ys | Some r \<Rightarrow> Some r)"
  by (induction xs) (simp_all add: row_simps)

lemma row_by_SomeD: "row_by key k rows = Some r \<Longrightarrow> r \<in> set rows \<and> key r = k"
  by (induction rows) (auto simp: row_simps split: if_splits)

lemma row_by_key: "row_by key k rows = Some r \<Longrightarrow> key r = k"
  by (drule row_by_SomeD) simp

lemma row_by_None_iff: "row_by key k rows = None \<longleftrightarrow> k \<notin> key ` set rows"
  by (induction rows) (auto simp: row_simps)

lemma row_by_in:
  "unique_key key rows \<Longrightarrow> r \<in> set rows \<Longrightarrow> row_by key (key r) rows = Some r"
  by (induction rows) (auto simp: row_simps unique_key_def)

lemma upd_where_simps [row_simps]:
  "upd_where P f [] = []"
  "upd_where P f (r # rows) = (if P r then f r else r) # upd_where P f rows"
  by (simp_all add: upd_where_def)

lemma set_upd_where: "set (upd_where P f rows) = (\<lambda>r. if P r then f r else r) ` set rows"
  by (simp add: upd_where_def)

lemma upd_where_append [row_simps]: "upd_where P f (xs @ ys) = upd_where P f xs @ upd_where P f ys"
  by (simp add: upd_where_def)

lemma map_key_upd_where:
  "(\<And>r. r \<in> set rows \<Longrightarrow> P r \<Longrightarrow> g (f r) = g r) \<Longrightarrow> map g (upd_where P f rows) = map g rows"
  by (simp add: upd_where_def)

lemma unique_key_upd_where:
  "(\<And>r. r \<in> set rows \<Longrightarrow> P r \<Longrightarrow> key (f r) = key r) \<Longrightarrow>
   unique_key key (upd_where P f rows) = unique_key key rows"
  by (simp add: unique_key_def map_key_upd_where)

lemma row_by_upd_where:
  "(\<And>r. P r \<Longrightarrow> key (f r) = key r) \<Longrightarrow>
   row_by key k (upd_where P f rows) = map_option (\<lambda>r. if P r then f r else r) (row_by key k rows)"
  by (induction rows) (auto simp: row_simps)

lemma row_by_upd_by:
  "(\<And>r. key r = k \<Longrightarrow> key (f r) = key r) \<Longrightarrow>
   row_by key k' (upd_by key k f rows) =
     (if k' = k then map_option f (row_by key k rows) else row_by key k' rows)"
  unfolding upd_by_def by (induction rows) (auto simp: row_simps)

lemma upd_by_simps [row_simps]:
  "upd_by key k f [] = []"
  "upd_by key k f (r # rows) = (if key r = k then f r else r) # upd_by key k f rows"
  by (simp_all add: upd_by_def row_simps)

lemma set_upd_by: "set (upd_by key k f rows) = (\<lambda>r. if key r = k then f r else r) ` set rows"
  by (simp add: upd_by_def set_upd_where)

lemma in_upd_byE:
  assumes "r \<in> set (upd_by key k f rows)"
  obtains "r \<in> set rows" "key r \<noteq> k" | r0 where "r0 \<in> set rows" "key r0 = k" "r = f r0"
  using assms unfolding set_upd_by by auto

lemma in_upd_whereE:
  assumes "r \<in> set (upd_where P f rows)"
  obtains "r \<in> set rows" "\<not> P r" | r0 where "r0 \<in> set rows" "P r0" "r = f r0"
  using assms unfolding set_upd_where by auto

lemma map_key_upd_by:
  "(\<And>r. key r = k \<Longrightarrow> g (f r) = g r) \<Longrightarrow> map g (upd_by key k f rows) = map g rows"
  by (simp add: upd_by_def map_key_upd_where)

lemma unique_key_upd_by:
  "(\<And>r. key r = k \<Longrightarrow> key (f r) = key r) \<Longrightarrow>
   unique_key key (upd_by key k f rows) = unique_key key rows"
  by (simp add: unique_key_def map_key_upd_by)

lemma unique_key_snoc:
  "unique_key key (rows @ [r]) \<longleftrightarrow> unique_key key rows \<and> row_by key (key r) rows = None"
  by (auto simp: unique_key_def row_by_None_iff)

lemma row_by_upsert_by:
  "(\<And>r. key r = key row \<Longrightarrow> key (f r) = key r) \<Longrightarrow>
   row_by key k (upsert_by key row f rows) =
     (if k = key row
      then (case row_by key k rows of None \<Rightarrow> Some row | Some r \<Rightarrow> Some (f r))
      else row_by key k rows)"
  by (auto simp: upsert_by_def row_by_append row_by_Cons row_by_upd_by split: option.splits)

lemma unique_key_upsert_by:
  "(\<And>r. key r = key row \<Longrightarrow> key (f r) = key r) \<Longrightarrow> unique_key key rows \<Longrightarrow>
   unique_key key (upsert_by key row f rows)"
  by (simp add: upsert_by_def unique_key_snoc unique_key_upd_by)

lemma filter_unique_key:
  assumes "unique_key key rows" and "row_by key k rows = Some r"
  shows "filter (\<lambda>x. key x = k \<and> P x) rows = (if P r then [r] else [])"
  using assms
proof (induction rows)
  case (Cons a rows)
  show ?case
  proof (cases "key a = k")
    case True
    then have "key x \<noteq> k" if "x \<in> set rows" for x
      using Cons.prems(1) that by (metis distinct.simps(2) imageI list.set_map list.simps(9) unique_key_def)
    then have "filter (\<lambda>x. key x = k \<and> P x) rows = []" by (auto simp: filter_empty_conv)
    with True Cons.prems(2) show ?thesis by (simp add: row_simps)
  next
    case False
    then show ?thesis using Cons by (simp add: unique_key_def row_simps)
  qed
qed simp

text \<open>A \<^verbatim>\<open>SELECT\<close> by key whose missing row is an error.\<close>

definition fetch :: "('r \<Rightarrow> 'k) \<Rightarrow> 'k \<Rightarrow> 'r list \<Rightarrow> py_error \<Rightarrow> 'r result" where
  "fetch key k rows e = (case row_by key k rows of None \<Rightarrow> Inl e | Some r \<Rightarrow> Inr r)"

lemma fetch_Inr_iff [simp]: "fetch key k rows e = Inr r \<longleftrightarrow> row_by key k rows = Some r"
  by (simp add: fetch_def split: option.split)

lemma fetch_Inl_iff [simp]: "fetch key k rows e = Inl e' \<longleftrightarrow> row_by key k rows = None \<and> e' = e"
  by (auto simp: fetch_def split: option.split)

section \<open>Reachability\<close>

text \<open>States reached from \<open>init\<close> by steps; a step relation is a predicate on pairs of states.\<close>

inductive reach :: "('s \<Rightarrow> bool) \<Rightarrow> ('s \<Rightarrow> 's \<Rightarrow> bool) \<Rightarrow> 's \<Rightarrow> bool" for init step where
  reach_init: "init s \<Longrightarrow> reach init step s"
| reach_step: "reach init step s \<Longrightarrow> step s t \<Longrightarrow> reach init step t"

lemma reach_invariant:
  assumes "reach init step s"
    and "\<And>s. init s \<Longrightarrow> Inv s"
    and "\<And>s t. Inv s \<Longrightarrow> step s t \<Longrightarrow> Inv t"
  shows "Inv s"
  using assms by (induction rule: reach.induct) auto

lemma rtranclp_invariant:
  assumes "step\<^sup>*\<^sup>* s t" and "Inv s" and "\<And>s t. Inv s \<Longrightarrow> step s t \<Longrightarrow> Inv t"
  shows "Inv t"
  using assms by (induction rule: rtranclp_induct) auto

lemma reach_rtranclp: "reach init step s \<Longrightarrow> step\<^sup>*\<^sup>* s t \<Longrightarrow> reach init step t"
  by (rotate_tac, induction rule: rtranclp_induct) (auto intro: reach_step)

end
