(* ===== verification/Domain.thy ===== *)
theory Domain
  imports Prelude
begin

text \<open>
  The domain model of \<^verbatim>\<open>src/project_supervisor/domain.py\<close>: its string enumerations, each a
  datatype with its members in source order and their wire values (\<open>..._value\<close>), and its frozen
  data classes as records. A \<^verbatim>\<open>datetime\<close> is an instant, an \<open>int\<close> counting seconds; a \<^verbatim>\<open>float\<close> is the
  rational number it denotes.
\<close>

section \<open>Instants\<close>

text \<open>A \<^verbatim>\<open>datetime\<close> that may lack a time zone, where the code checks for one.\<close>

datatype datetime = Aware int | Naive int

primrec tz_aware :: "datetime \<Rightarrow> bool" where
  "tz_aware (Aware t) = True"
| "tz_aware (Naive t) = False"

primrec instant :: "datetime \<Rightarrow> int" where
  "instant (Aware t) = t"
| "instant (Naive t) = t"

section \<open>Enumerations\<close>

datatype project_phase =
    PHASE_INITIALIZING | PHASE_PLANNING | PHASE_DISPATCHING | PHASE_WORKING
  | PHASE_REVIEWING | PHASE_REPLANNING | PHASE_WAITING_FOR_HUMAN | PHASE_PAUSED
  | PHASE_BLOCKED | PHASE_DONE | PHASE_FAILED

definition all_project_phase :: "project_phase list" where
  "all_project_phase =
    [PHASE_INITIALIZING, PHASE_PLANNING, PHASE_DISPATCHING, PHASE_WORKING, PHASE_REVIEWING
     , PHASE_REPLANNING, PHASE_WAITING_FOR_HUMAN, PHASE_PAUSED, PHASE_BLOCKED
     , PHASE_DONE, PHASE_FAILED]"

primrec project_phase_value :: "project_phase \<Rightarrow> string" where
  "project_phase_value PHASE_INITIALIZING = ''initializing''"
| "project_phase_value PHASE_PLANNING = ''planning''"
| "project_phase_value PHASE_DISPATCHING = ''dispatching''"
| "project_phase_value PHASE_WORKING = ''working''"
| "project_phase_value PHASE_REVIEWING = ''reviewing''"
| "project_phase_value PHASE_REPLANNING = ''replanning''"
| "project_phase_value PHASE_WAITING_FOR_HUMAN = ''waitingForHuman''"
| "project_phase_value PHASE_PAUSED = ''paused''"
| "project_phase_value PHASE_BLOCKED = ''blocked''"
| "project_phase_value PHASE_DONE = ''done''"
| "project_phase_value PHASE_FAILED = ''failed''"

datatype task_state =
    TASK_DRAFT | TASK_QUEUED | TASK_READY | TASK_RUNNING | TASK_WAITING | TASK_REVIEWING
  | TASK_BLOCKED | TASK_INTERRUPTED | TASK_SUCCEEDED | TASK_FAILED | TASK_CANCELLED

definition all_task_state :: "task_state list" where
  "all_task_state =
    [TASK_DRAFT, TASK_QUEUED, TASK_READY, TASK_RUNNING, TASK_WAITING, TASK_REVIEWING
     , TASK_BLOCKED, TASK_INTERRUPTED, TASK_SUCCEEDED, TASK_FAILED, TASK_CANCELLED]"

primrec task_state_value :: "task_state \<Rightarrow> string" where
  "task_state_value TASK_DRAFT = ''draft''"
| "task_state_value TASK_QUEUED = ''queued''"
| "task_state_value TASK_READY = ''ready''"
| "task_state_value TASK_RUNNING = ''running''"
| "task_state_value TASK_WAITING = ''waiting''"
| "task_state_value TASK_REVIEWING = ''reviewing''"
| "task_state_value TASK_BLOCKED = ''blocked''"
| "task_state_value TASK_INTERRUPTED = ''interrupted''"
| "task_state_value TASK_SUCCEEDED = ''succeeded''"
| "task_state_value TASK_FAILED = ''failed''"
| "task_state_value TASK_CANCELLED = ''cancelled''"

datatype run_state =
    RUN_STARTING | RUN_RUNNING | RUN_WAITING | RUN_COMPLETED | RUN_FAILED | RUN_CANCELLED
  | RUN_TIMED_OUT | RUN_INTERRUPTED | RUN_AUTH_REQUIRED | RUN_RATE_LIMITED

definition all_run_state :: "run_state list" where
  "all_run_state =
    [RUN_STARTING, RUN_RUNNING, RUN_WAITING, RUN_COMPLETED, RUN_FAILED, RUN_CANCELLED
     , RUN_TIMED_OUT, RUN_INTERRUPTED, RUN_AUTH_REQUIRED, RUN_RATE_LIMITED]"

primrec run_state_value :: "run_state \<Rightarrow> string" where
  "run_state_value RUN_STARTING = ''starting''"
| "run_state_value RUN_RUNNING = ''running''"
| "run_state_value RUN_WAITING = ''waiting''"
| "run_state_value RUN_COMPLETED = ''completed''"
| "run_state_value RUN_FAILED = ''failed''"
| "run_state_value RUN_CANCELLED = ''cancelled''"
| "run_state_value RUN_TIMED_OUT = ''timedOut''"
| "run_state_value RUN_INTERRUPTED = ''interrupted''"
| "run_state_value RUN_AUTH_REQUIRED = ''authRequired''"
| "run_state_value RUN_RATE_LIMITED = ''rateLimited''"

datatype worker_state =
    WORKER_IDLE | WORKER_STARTING | WORKER_RUNNING | WORKER_WAITING | WORKER_RATE_LIMITED
  | WORKER_STOPPING | WORKER_OFFLINE | WORKER_FAILED

definition all_worker_state :: "worker_state list" where
  "all_worker_state =
    [WORKER_IDLE, WORKER_STARTING, WORKER_RUNNING, WORKER_WAITING, WORKER_RATE_LIMITED
     , WORKER_STOPPING, WORKER_OFFLINE, WORKER_FAILED]"

primrec worker_state_value :: "worker_state \<Rightarrow> string" where
  "worker_state_value WORKER_IDLE = ''idle''"
| "worker_state_value WORKER_STARTING = ''starting''"
| "worker_state_value WORKER_RUNNING = ''running''"
| "worker_state_value WORKER_WAITING = ''waiting''"
| "worker_state_value WORKER_RATE_LIMITED = ''rateLimited''"
| "worker_state_value WORKER_STOPPING = ''stopping''"
| "worker_state_value WORKER_OFFLINE = ''offline''"
| "worker_state_value WORKER_FAILED = ''failed''"

datatype node_state =
    NODE_ONLINE | NODE_DEGRADED | NODE_OFFLINE | NODE_UNPROVISIONED

definition all_node_state :: "node_state list" where
  "all_node_state =
    [NODE_ONLINE, NODE_DEGRADED, NODE_OFFLINE, NODE_UNPROVISIONED]"

primrec node_state_value :: "node_state \<Rightarrow> string" where
  "node_state_value NODE_ONLINE = ''online''"
| "node_state_value NODE_DEGRADED = ''degraded''"
| "node_state_value NODE_OFFLINE = ''offline''"
| "node_state_value NODE_UNPROVISIONED = ''unprovisioned''"

datatype resource_state =
    RES_AVAILABLE | RES_WARNING | RES_RATE_LIMITED | RES_BUDGET_EXHAUSTED | RES_COOLDOWN
  | RES_UNKNOWN

definition all_resource_state :: "resource_state list" where
  "all_resource_state =
    [RES_AVAILABLE, RES_WARNING, RES_RATE_LIMITED, RES_BUDGET_EXHAUSTED, RES_COOLDOWN
     , RES_UNKNOWN]"

primrec resource_state_value :: "resource_state \<Rightarrow> string" where
  "resource_state_value RES_AVAILABLE = ''available''"
| "resource_state_value RES_WARNING = ''warning''"
| "resource_state_value RES_RATE_LIMITED = ''rateLimited''"
| "resource_state_value RES_BUDGET_EXHAUSTED = ''budgetExhausted''"
| "resource_state_value RES_COOLDOWN = ''cooldown''"
| "resource_state_value RES_UNKNOWN = ''unknown''"

datatype evidence_confidence =
    CONF_EXACT | CONF_VERIFIED | CONF_PROVIDER_REPORTED | CONF_INFERRED | CONF_UNKNOWN

definition all_evidence_confidence :: "evidence_confidence list" where
  "all_evidence_confidence =
    [CONF_EXACT, CONF_VERIFIED, CONF_PROVIDER_REPORTED, CONF_INFERRED, CONF_UNKNOWN]"

primrec evidence_confidence_value :: "evidence_confidence \<Rightarrow> string" where
  "evidence_confidence_value CONF_EXACT = ''exact''"
| "evidence_confidence_value CONF_VERIFIED = ''verified''"
| "evidence_confidence_value CONF_PROVIDER_REPORTED = ''providerReported''"
| "evidence_confidence_value CONF_INFERRED = ''inferred''"
| "evidence_confidence_value CONF_UNKNOWN = ''unknown''"

datatype unavailable_reason =
    UNAVAIL_NOT_REPORTED | UNAVAIL_NOT_SUPPORTED | UNAVAIL_PERMISSION_DENIED | UNAVAIL_STALE
  | UNAVAIL_OFFLINE | UNAVAIL_UNKNOWN

definition all_unavailable_reason :: "unavailable_reason list" where
  "all_unavailable_reason =
    [UNAVAIL_NOT_REPORTED, UNAVAIL_NOT_SUPPORTED, UNAVAIL_PERMISSION_DENIED, UNAVAIL_STALE
     , UNAVAIL_OFFLINE, UNAVAIL_UNKNOWN]"

primrec unavailable_reason_value :: "unavailable_reason \<Rightarrow> string" where
  "unavailable_reason_value UNAVAIL_NOT_REPORTED = ''notReported''"
| "unavailable_reason_value UNAVAIL_NOT_SUPPORTED = ''notSupported''"
| "unavailable_reason_value UNAVAIL_PERMISSION_DENIED = ''permissionDenied''"
| "unavailable_reason_value UNAVAIL_STALE = ''stale''"
| "unavailable_reason_value UNAVAIL_OFFLINE = ''offline''"
| "unavailable_reason_value UNAVAIL_UNKNOWN = ''unknown''"

datatype execution_topology =
    TOPO_SINGLE | TOPO_PRIMARY_REVIEWER | TOPO_PARALLEL_PANEL | TOPO_CHEAP_FIRST_ESCALATION
  | TOPO_FALLBACK

definition all_execution_topology :: "execution_topology list" where
  "all_execution_topology =
    [TOPO_SINGLE, TOPO_PRIMARY_REVIEWER, TOPO_PARALLEL_PANEL, TOPO_CHEAP_FIRST_ESCALATION
     , TOPO_FALLBACK]"

primrec execution_topology_value :: "execution_topology \<Rightarrow> string" where
  "execution_topology_value TOPO_SINGLE = ''single''"
| "execution_topology_value TOPO_PRIMARY_REVIEWER = ''primaryReviewer''"
| "execution_topology_value TOPO_PARALLEL_PANEL = ''parallelPanel''"
| "execution_topology_value TOPO_CHEAP_FIRST_ESCALATION = ''cheapFirstEscalation''"
| "execution_topology_value TOPO_FALLBACK = ''fallback''"

datatype task_label =
    LABEL_CODING | LABEL_ARCHITECTURE | LABEL_RESEARCH | LABEL_FAST_ROUTING | LABEL_RAG
  | LABEL_REVIEW | LABEL_CREATIVE | LABEL_LONG_CONTEXT | LABEL_PRIVACY_SENSITIVE
  | LABEL_HIGH_UNCERTAINTY

definition all_task_label :: "task_label list" where
  "all_task_label =
    [LABEL_CODING, LABEL_ARCHITECTURE, LABEL_RESEARCH, LABEL_FAST_ROUTING, LABEL_RAG
     , LABEL_REVIEW, LABEL_CREATIVE, LABEL_LONG_CONTEXT, LABEL_PRIVACY_SENSITIVE
     , LABEL_HIGH_UNCERTAINTY]"

primrec task_label_value :: "task_label \<Rightarrow> string" where
  "task_label_value LABEL_CODING = ''coding''"
| "task_label_value LABEL_ARCHITECTURE = ''architecture''"
| "task_label_value LABEL_RESEARCH = ''research''"
| "task_label_value LABEL_FAST_ROUTING = ''fastRouting''"
| "task_label_value LABEL_RAG = ''rag''"
| "task_label_value LABEL_REVIEW = ''review''"
| "task_label_value LABEL_CREATIVE = ''creative''"
| "task_label_value LABEL_LONG_CONTEXT = ''longContext''"
| "task_label_value LABEL_PRIVACY_SENSITIVE = ''privacySensitive''"
| "task_label_value LABEL_HIGH_UNCERTAINTY = ''highUncertainty''"

datatype permission_class =
    PERM_GREEN | PERM_YELLOW | PERM_RED

definition all_permission_class :: "permission_class list" where
  "all_permission_class =
    [PERM_GREEN, PERM_YELLOW, PERM_RED]"

primrec permission_class_value :: "permission_class \<Rightarrow> string" where
  "permission_class_value PERM_GREEN = ''green''"
| "permission_class_value PERM_YELLOW = ''yellow''"
| "permission_class_value PERM_RED = ''red''"

datatype approval_state =
    APPROVAL_NOT_REQUIRED | APPROVAL_PENDING | APPROVAL_APPROVED | APPROVAL_REJECTED
  | APPROVAL_EXPIRED

definition all_approval_state :: "approval_state list" where
  "all_approval_state =
    [APPROVAL_NOT_REQUIRED, APPROVAL_PENDING, APPROVAL_APPROVED, APPROVAL_REJECTED
     , APPROVAL_EXPIRED]"

primrec approval_state_value :: "approval_state \<Rightarrow> string" where
  "approval_state_value APPROVAL_NOT_REQUIRED = ''notRequired''"
| "approval_state_value APPROVAL_PENDING = ''pending''"
| "approval_state_value APPROVAL_APPROVED = ''approved''"
| "approval_state_value APPROVAL_REJECTED = ''rejected''"
| "approval_state_value APPROVAL_EXPIRED = ''expired''"

datatype failure_class =
    FAIL_BLOCKED_BY_HUMAN | FAIL_TRANSIENT | FAIL_IMPLEMENTATION_BUG
  | FAIL_VERSION_DIFFERENCE | FAIL_INFRASTRUCTURE | FAIL_DESIGN_CHANGE_REQUIRED
  | FAIL_UNSAFE_TO_CONTINUE | FAIL_AUTH | FAIL_RATE_LIMIT | FAIL_TIMEOUT
  | FAIL_CANCELLED

definition all_failure_class :: "failure_class list" where
  "all_failure_class =
    [FAIL_BLOCKED_BY_HUMAN, FAIL_TRANSIENT, FAIL_IMPLEMENTATION_BUG, FAIL_VERSION_DIFFERENCE
     , FAIL_INFRASTRUCTURE, FAIL_DESIGN_CHANGE_REQUIRED, FAIL_UNSAFE_TO_CONTINUE
     , FAIL_AUTH, FAIL_RATE_LIMIT, FAIL_TIMEOUT, FAIL_CANCELLED]"

primrec failure_class_value :: "failure_class \<Rightarrow> string" where
  "failure_class_value FAIL_BLOCKED_BY_HUMAN = ''blockedByHuman''"
| "failure_class_value FAIL_TRANSIENT = ''transient''"
| "failure_class_value FAIL_IMPLEMENTATION_BUG = ''implementationBug''"
| "failure_class_value FAIL_VERSION_DIFFERENCE = ''versionDifference''"
| "failure_class_value FAIL_INFRASTRUCTURE = ''infrastructure''"
| "failure_class_value FAIL_DESIGN_CHANGE_REQUIRED = ''designChangeRequired''"
| "failure_class_value FAIL_UNSAFE_TO_CONTINUE = ''unsafeToContinue''"
| "failure_class_value FAIL_AUTH = ''auth''"
| "failure_class_value FAIL_RATE_LIMIT = ''rateLimit''"
| "failure_class_value FAIL_TIMEOUT = ''timeout''"
| "failure_class_value FAIL_CANCELLED = ''cancelled''"

datatype harness =
    HARNESS_CODEX | HARNESS_CLAUDE_CODE | HARNESS_GROK_BUILD | HARNESS_GOOGLE_AGY
  | HARNESS_LOCAL_WORKER | HARNESS_MOCK

definition all_harness :: "harness list" where
  "all_harness =
    [HARNESS_CODEX, HARNESS_CLAUDE_CODE, HARNESS_GROK_BUILD, HARNESS_GOOGLE_AGY
     , HARNESS_LOCAL_WORKER, HARNESS_MOCK]"

primrec harness_value :: "harness \<Rightarrow> string" where
  "harness_value HARNESS_CODEX = ''codex''"
| "harness_value HARNESS_CLAUDE_CODE = ''claudeCode''"
| "harness_value HARNESS_GROK_BUILD = ''grokBuild''"
| "harness_value HARNESS_GOOGLE_AGY = ''googleAGY''"
| "harness_value HARNESS_LOCAL_WORKER = ''localWorker''"
| "harness_value HARNESS_MOCK = ''mock''"

datatype provider =
    PROVIDER_OPENAI | PROVIDER_ANTHROPIC | PROVIDER_XAI | PROVIDER_GOOGLE | PROVIDER_LOCAL
  | PROVIDER_MOCK

definition all_provider :: "provider list" where
  "all_provider =
    [PROVIDER_OPENAI, PROVIDER_ANTHROPIC, PROVIDER_XAI, PROVIDER_GOOGLE, PROVIDER_LOCAL
     , PROVIDER_MOCK]"

primrec provider_value :: "provider \<Rightarrow> string" where
  "provider_value PROVIDER_OPENAI = ''openai''"
| "provider_value PROVIDER_ANTHROPIC = ''anthropic''"
| "provider_value PROVIDER_XAI = ''xai''"
| "provider_value PROVIDER_GOOGLE = ''google''"
| "provider_value PROVIDER_LOCAL = ''local''"
| "provider_value PROVIDER_MOCK = ''mock''"

datatype event_severity =
    SEV_DEBUG | SEV_INFO | SEV_NOTICE | SEV_WARNING | SEV_ERROR | SEV_CRITICAL

definition all_event_severity :: "event_severity list" where
  "all_event_severity =
    [SEV_DEBUG, SEV_INFO, SEV_NOTICE, SEV_WARNING, SEV_ERROR, SEV_CRITICAL]"

primrec event_severity_value :: "event_severity \<Rightarrow> string" where
  "event_severity_value SEV_DEBUG = ''debug''"
| "event_severity_value SEV_INFO = ''info''"
| "event_severity_value SEV_NOTICE = ''notice''"
| "event_severity_value SEV_WARNING = ''warning''"
| "event_severity_value SEV_ERROR = ''error''"
| "event_severity_value SEV_CRITICAL = ''critical''"

section \<open>Telemetry values\<close>

record telemetry_value =
  tv_value :: "rat option"
  tv_confidence :: evidence_confidence
  tv_reason :: "unavailable_reason option"

text \<open>The constructor with its \<^verbatim>\<open>__post_init__\<close> checks.\<close>

definition mk_telemetry_value ::
    "rat option \<Rightarrow> evidence_confidence \<Rightarrow> unavailable_reason option \<Rightarrow> telemetry_value result" where
  "mk_telemetry_value v c r =
     (if v = None \<and> r = None then Inl (ValueError ''unavailable telemetry requires a reason'')
      else if v \<noteq> None \<and> r \<noteq> None
        then Inl (ValueError ''known telemetry cannot have an unavailable reason'')
      else Inr \<lparr>tv_value = v, tv_confidence = c, tv_reason = r\<rparr>)"

definition telemetry_known :: "telemetry_value \<Rightarrow> bool" where
  "telemetry_known t = (tv_value t \<noteq> None)"

definition telemetry_to_api :: "telemetry_value \<Rightarrow> (string \<times> json) list" where
  "telemetry_to_api t =
     (case tv_value t of
        Some v \<Rightarrow>
          [(''state'', JStr ''known''), (''value'', JNum v),
           (''confidence'', JStr (evidence_confidence_value (tv_confidence t)))]
      | None \<Rightarrow>
          [(''state'', JStr ''unavailable''),
           (''reason'', JStr (unavailable_reason_value
              (case tv_reason t of None \<Rightarrow> UNAVAIL_UNKNOWN | Some r \<Rightarrow> r))),
           (''confidence'', JStr (evidence_confidence_value (tv_confidence t)))])"

section \<open>Data classes\<close>

record model_descriptor =
  md_identifier :: string
  md_display_name :: string
  md_provider :: provider
  md_context_variant :: "string option"
  md_context_window_tokens :: "int option"

record task_requirements =
  rq_labels :: "task_label set"
  rq_required_capabilities :: "string set"
  rq_permission_class :: permission_class
  rq_approval_state :: approval_state
  rq_minimum_context_tokens :: "int option"
  rq_privacy_sensitive :: bool
  rq_code_write_required :: bool
  rq_panel_size :: int
  rq_preferred_workers :: "string list"

record worker_snapshot =
  ws_id :: string
  ws_node_id :: string
  ws_harness :: harness
  ws_provider :: provider
  ws_model :: model_descriptor
  ws_state :: worker_state
  ws_node_state :: node_state
  ws_resource_state :: resource_state
  ws_capabilities :: "string set"
  ws_code_write_allowed :: bool
  ws_privacy_allowed :: bool
  ws_quality_score :: rat
  ws_reliability_score :: rat
  ws_expected_latency_seconds :: rat
  ws_monetary_cost_score :: rat
  ws_node_load :: rat
  ws_running_tasks :: int

record rejection =
  rj_worker_id :: string
  rj_reason_code :: string
  rj_detail :: string

record candidate_score =
  cs_worker_id :: string
  cs_score :: rat
  cs_components :: "(string \<times> rat) list"

record routing_decision =
  rd_topology :: execution_topology
  rd_selected_worker_ids :: "string list"
  rd_candidates :: "candidate_score list"
  rd_rejected :: "rejection list"
  rd_policy_version :: string
  rd_explanation :: "(string \<times> json) list"

record task_record =
  tr_id :: string
  tr_project_id :: string
  tr_title :: string
  tr_description :: string
  tr_state :: task_state
  tr_topology :: execution_topology
  tr_requirements :: task_requirements
  tr_priority :: int
  tr_attempt_count :: int
  tr_created_at :: int
  tr_updated_at :: int

section \<open>Wire values are a bijection with the members\<close>

interpretation project_phase_wire: wire_enum all_project_phase project_phase_value
proof
  show "x \<in> set all_project_phase" for x
    by (cases x) (simp_all add: all_project_phase_def)
  show "distinct (map project_phase_value all_project_phase)"
    by (simp add: all_project_phase_def)
qed

interpretation task_state_wire: wire_enum all_task_state task_state_value
proof
  show "x \<in> set all_task_state" for x
    by (cases x) (simp_all add: all_task_state_def)
  show "distinct (map task_state_value all_task_state)"
    by (simp add: all_task_state_def)
qed

interpretation run_state_wire: wire_enum all_run_state run_state_value
proof
  show "x \<in> set all_run_state" for x
    by (cases x) (simp_all add: all_run_state_def)
  show "distinct (map run_state_value all_run_state)"
    by (simp add: all_run_state_def)
qed

interpretation worker_state_wire: wire_enum all_worker_state worker_state_value
proof
  show "x \<in> set all_worker_state" for x
    by (cases x) (simp_all add: all_worker_state_def)
  show "distinct (map worker_state_value all_worker_state)"
    by (simp add: all_worker_state_def)
qed

interpretation node_state_wire: wire_enum all_node_state node_state_value
proof
  show "x \<in> set all_node_state" for x
    by (cases x) (simp_all add: all_node_state_def)
  show "distinct (map node_state_value all_node_state)"
    by (simp add: all_node_state_def)
qed

interpretation resource_state_wire: wire_enum all_resource_state resource_state_value
proof
  show "x \<in> set all_resource_state" for x
    by (cases x) (simp_all add: all_resource_state_def)
  show "distinct (map resource_state_value all_resource_state)"
    by (simp add: all_resource_state_def)
qed

interpretation evidence_confidence_wire: wire_enum all_evidence_confidence evidence_confidence_value
proof
  show "x \<in> set all_evidence_confidence" for x
    by (cases x) (simp_all add: all_evidence_confidence_def)
  show "distinct (map evidence_confidence_value all_evidence_confidence)"
    by (simp add: all_evidence_confidence_def)
qed

interpretation unavailable_reason_wire: wire_enum all_unavailable_reason unavailable_reason_value
proof
  show "x \<in> set all_unavailable_reason" for x
    by (cases x) (simp_all add: all_unavailable_reason_def)
  show "distinct (map unavailable_reason_value all_unavailable_reason)"
    by (simp add: all_unavailable_reason_def)
qed

interpretation execution_topology_wire: wire_enum all_execution_topology execution_topology_value
proof
  show "x \<in> set all_execution_topology" for x
    by (cases x) (simp_all add: all_execution_topology_def)
  show "distinct (map execution_topology_value all_execution_topology)"
    by (simp add: all_execution_topology_def)
qed

interpretation task_label_wire: wire_enum all_task_label task_label_value
proof
  show "x \<in> set all_task_label" for x
    by (cases x) (simp_all add: all_task_label_def)
  show "distinct (map task_label_value all_task_label)"
    by (simp add: all_task_label_def)
qed

interpretation permission_class_wire: wire_enum all_permission_class permission_class_value
proof
  show "x \<in> set all_permission_class" for x
    by (cases x) (simp_all add: all_permission_class_def)
  show "distinct (map permission_class_value all_permission_class)"
    by (simp add: all_permission_class_def)
qed

interpretation approval_state_wire: wire_enum all_approval_state approval_state_value
proof
  show "x \<in> set all_approval_state" for x
    by (cases x) (simp_all add: all_approval_state_def)
  show "distinct (map approval_state_value all_approval_state)"
    by (simp add: all_approval_state_def)
qed

interpretation failure_class_wire: wire_enum all_failure_class failure_class_value
proof
  show "x \<in> set all_failure_class" for x
    by (cases x) (simp_all add: all_failure_class_def)
  show "distinct (map failure_class_value all_failure_class)"
    by (simp add: all_failure_class_def)
qed

interpretation harness_wire: wire_enum all_harness harness_value
proof
  show "x \<in> set all_harness" for x
    by (cases x) (simp_all add: all_harness_def)
  show "distinct (map harness_value all_harness)"
    by (simp add: all_harness_def)
qed

interpretation provider_wire: wire_enum all_provider provider_value
proof
  show "x \<in> set all_provider" for x
    by (cases x) (simp_all add: all_provider_def)
  show "distinct (map provider_value all_provider)"
    by (simp add: all_provider_def)
qed

interpretation event_severity_wire: wire_enum all_event_severity event_severity_value
proof
  show "x \<in> set all_event_severity" for x
    by (cases x) (simp_all add: all_event_severity_def)
  show "distinct (map event_severity_value all_event_severity)"
    by (simp add: all_event_severity_def)
qed

section \<open>Telemetry\<close>

text \<open>A missing measurement is never read as zero: it carries a reason instead of a value.\<close>

lemma mk_telemetry_value_ok_iff:
  "mk_telemetry_value v c r = Inr t \<longleftrightarrow>
     t = \<lparr>tv_value = v, tv_confidence = c, tv_reason = r\<rparr> \<and> (v = None \<longleftrightarrow> r \<noteq> None)"
  by (auto simp: mk_telemetry_value_def)

lemma telemetry_to_api_value:
  "mk_telemetry_value v c r = Inr t \<Longrightarrow>
   map_of (telemetry_to_api t) ''value'' = map_option JNum v \<and>
   map_of (telemetry_to_api t) ''reason'' = map_option (JStr \<circ> unavailable_reason_value) r"
  by (auto simp: mk_telemetry_value_ok_iff telemetry_to_api_def split: option.splits)

end
