(* ===== verification/Hybrid.thy ===== *)
theory Hybrid
  imports Domain
begin

text \<open>
  The frozen inputs of a routing decision, \<^verbatim>\<open>src/project_supervisor/hybrid.py\<close>: resource evidence
  per worker, the routing input snapshot and the execution history record, each with the checks of
  its \<^verbatim>\<open>__post_init__\<close> in source order.
\<close>

section \<open>Resource evidence\<close>

record resource_routing_evidence =
  re_worker_id :: string
  re_quota_pool_id :: string
  re_provider :: string
  re_quota_state :: string
  re_freshness :: string
  re_provenance :: string
  re_source :: string
  re_confidence :: string
  re_health_score :: rat
  re_observed_at :: "datetime option"
  re_reason :: "string option"

definition quota_states :: "string list" where
  "quota_states = [''available'', ''warning'', ''critical'', ''exhausted'', ''unknown'']"

definition freshness_states :: "string list" where
  "freshness_states = [''fresh'', ''stale'', ''unknown'']"

definition provenance_kinds :: "string list" where
  "provenance_kinds = [''PROVIDER_REPORTED'', ''LOCALLY_MEASURED'', ''INFERRED'', ''UNKNOWN'']"

definition check_resource_evidence :: "resource_routing_evidence \<Rightarrow> unit result" where
  "check_resource_evidence e =
     (if \<not> list_all nonblank
           [re_worker_id e, re_quota_pool_id e, re_provider e, re_source e, re_confidence e]
        then Inl (ValueError ''resource routing evidence identifiers must not be empty'')
      else if re_quota_state e \<notin> set quota_states then Inl (ValueError ''unsupported quota state'')
      else if re_freshness e \<notin> set freshness_states
        then Inl (ValueError ''unsupported resource evidence freshness'')
      else if re_provenance e \<notin> set provenance_kinds
        then Inl (ValueError ''unsupported resource evidence provenance'')
      else if \<not> (0 \<le> re_health_score e \<and> re_health_score e \<le> 1)
        then Inl (ValueError ''resource health_score must be between zero and one'')
      else if (case re_observed_at e of None \<Rightarrow> False | Some d \<Rightarrow> \<not> tz_aware d)
        then Inl (ValueError ''resource observed_at must be timezone-aware'')
      else if re_quota_state e = ''unknown'' \<and> \<not> truthy (re_reason e)
        then Inl (ValueError ''unknown resource evidence requires an explicit reason'')
      else Inr ())"

definition resource_evidence_to_protocol :: "resource_routing_evidence \<Rightarrow> (string \<times> json) list" where
  "resource_evidence_to_protocol e =
     [(''workerID'', JStr (re_worker_id e)), (''quotaPoolID'', JStr (re_quota_pool_id e)),
      (''provider'', JStr (re_provider e)), (''quotaState'', JStr (re_quota_state e)),
      (''freshness'', JStr (re_freshness e)), (''provenance'', JStr (re_provenance e)),
      (''source'', JStr (re_source e)), (''confidence'', JStr (re_confidence e)),
      (''healthScore'', JNum (re_health_score e)),
      (''observedAt'', json_opt (\<lambda>d. JTime (instant d)) (re_observed_at e)),
      (''reason'', json_opt JStr (re_reason e))]"

section \<open>The routing snapshot\<close>

record routing_input_snapshot =
  sn_snapshot_id :: string
  sn_task_id :: string
  sn_requirements :: task_requirements
  sn_topology :: execution_topology
  sn_workers :: "worker_snapshot list"
  sn_observed_at :: int
  sn_facts :: "(string \<times> json) list"
  sn_resource_evidence :: "resource_routing_evidence list"

definition check_routing_snapshot :: "routing_input_snapshot \<Rightarrow> unit result" where
  "check_routing_snapshot sn =
     (let worker_ids = map ws_id (sn_workers sn);
          evidence_ids = map re_worker_id (sn_resource_evidence sn)
      in if \<not> nonblank (sn_snapshot_id sn) \<or> \<not> nonblank (sn_task_id sn)
           then Inl (ValueError ''routing snapshot_id and task_id must not be empty'')
         else if \<not> distinct worker_ids
           then Inl (ValueError ''routing snapshot workers must be unique'')
         else if \<not> distinct evidence_ids
           then Inl (ValueError ''routing resource evidence must be unique by Worker'')
         else if \<not> set evidence_ids \<subseteq> set worker_ids
           then Inl (ValueError ''routing resource evidence references an unknown Worker'')
         else Inr ())"

definition routing_snapshot_explanation :: "routing_input_snapshot \<Rightarrow> (string \<times> json) list" where
  "routing_snapshot_explanation sn =
     [(''snapshotID'', JStr (sn_snapshot_id sn)), (''observedAt'', JTime (sn_observed_at sn)),
      (''workerIDs'', JList (map JStr (sort (map ws_id (sn_workers sn))))),
      (''facts'', JObj (sort_key fst (sn_facts sn))),
      (''resourceEvidence'',
        JList (map (\<lambda>e. JObj (resource_evidence_to_protocol e))
          (sort_key re_worker_id (sn_resource_evidence sn)))),
      (''adaptiveLearning'', JBool False)]"

section \<open>Execution history\<close>

record execution_history_record =
  eh_id :: string
  eh_task_id :: string
  eh_task_type :: string
  eh_worker_id :: string
  eh_provider :: string
  eh_model :: string
  eh_node_id :: string
  eh_topology :: execution_topology
  eh_latency_seconds :: rat
  eh_succeeded :: bool
  eh_retry_count :: int
  eh_failure_class :: "string option"
  eh_input_tokens :: "int option"
  eh_output_tokens :: "int option"
  eh_cost_usd :: "rat option"
  eh_review_outcome :: "string option"
  eh_human_accepted :: "bool option"
  eh_recorded_at :: int

definition check_execution_history :: "execution_history_record \<Rightarrow> unit result" where
  "check_execution_history h =
     (if \<not> list_all nonblank
           [eh_id h, eh_task_id h, eh_task_type h, eh_worker_id h, eh_provider h, eh_model h,
            eh_node_id h]
        then Inl (ValueError ''execution history identifiers must not be empty'')
      else if eh_latency_seconds h < 0 \<or> eh_retry_count h < 0
        then Inl (ValueError ''latency_seconds and retry_count must not be negative'')
      else if list_ex (\<lambda>v. case v of None \<Rightarrow> False | Some n \<Rightarrow> n < 0)
                [eh_input_tokens h, eh_output_tokens h]
        then Inl (ValueError ''token counts must not be negative'')
      else if (case eh_cost_usd h of None \<Rightarrow> False | Some c \<Rightarrow> c < 0)
        then Inl (ValueError ''cost_usd must not be negative'')
      else if eh_succeeded h \<and> eh_failure_class h \<noteq> None
        then Inl (ValueError ''successful history cannot carry a failure_class'')
      else Inr ())"

definition execution_history_to_protocol :: "execution_history_record \<Rightarrow> (string \<times> json) list" where
  "execution_history_to_protocol h =
     [(''id'', JStr (eh_id h)), (''taskID'', JStr (eh_task_id h)),
      (''taskType'', JStr (eh_task_type h)), (''workerID'', JStr (eh_worker_id h)),
      (''provider'', JStr (eh_provider h)), (''model'', JStr (eh_model h)),
      (''nodeID'', JStr (eh_node_id h)),
      (''topology'', JStr (execution_topology_value (eh_topology h))),
      (''latencySeconds'', JNum (eh_latency_seconds h)), (''succeeded'', JBool (eh_succeeded h)),
      (''failureClass'', json_opt JStr (eh_failure_class h)),
      (''retryCount'', JInt (eh_retry_count h)),
      (''inputTokens'', json_opt JInt (eh_input_tokens h)),
      (''outputTokens'', json_opt JInt (eh_output_tokens h)),
      (''costUSD'', json_opt JNum (eh_cost_usd h)),
      (''reviewOutcome'', json_opt JStr (eh_review_outcome h)),
      (''humanAccepted'', json_opt JBool (eh_human_accepted h)),
      (''recordedAt'', JTime (eh_recorded_at h))]"

section \<open>What an accepted value guarantees\<close>

lemma check_resource_evidence_ok:
  "check_resource_evidence e = Inr u \<longleftrightarrow>
     list_all nonblank
       [re_worker_id e, re_quota_pool_id e, re_provider e, re_source e, re_confidence e] \<and>
     re_quota_state e \<in> set quota_states \<and> re_freshness e \<in> set freshness_states \<and>
     re_provenance e \<in> set provenance_kinds \<and> 0 \<le> re_health_score e \<and> re_health_score e \<le> 1 \<and>
     (case re_observed_at e of None \<Rightarrow> True | Some d \<Rightarrow> tz_aware d) \<and>
     (re_quota_state e = ''unknown'' \<longrightarrow> truthy (re_reason e))"
  by (auto simp: check_resource_evidence_def split: option.splits if_splits)

lemma check_routing_snapshot_ok:
  "check_routing_snapshot sn = Inr u \<longleftrightarrow>
     nonblank (sn_snapshot_id sn) \<and> nonblank (sn_task_id sn) \<and>
     distinct (map ws_id (sn_workers sn)) \<and> distinct (map re_worker_id (sn_resource_evidence sn)) \<and>
     set (map re_worker_id (sn_resource_evidence sn)) \<subseteq> set (map ws_id (sn_workers sn))"
  by (auto simp: check_routing_snapshot_def Let_def)

lemma check_execution_history_ok:
  "check_execution_history h = Inr u \<Longrightarrow>
     0 \<le> eh_latency_seconds h \<and> 0 \<le> eh_retry_count h \<and>
     (\<forall>n. eh_input_tokens h = Some n \<or> eh_output_tokens h = Some n \<longrightarrow> 0 \<le> n) \<and>
     (\<forall>c. eh_cost_usd h = Some c \<longrightarrow> 0 \<le> c) \<and>
     (eh_succeeded h \<longrightarrow> eh_failure_class h = None)"
  by (auto simp: check_execution_history_def split: option.splits if_splits)

end
