(* ===== verification/Scheduler.thy ===== *)
theory Scheduler
  imports Hybrid
begin

text \<open>
  The deterministic scheduler of \<^verbatim>\<open>src/project_supervisor/scheduler.py\<close>: hard constraints first,
  weighted scoring second, ties broken by worker id.

  Float arithmetic is a parameter \<open>F\<close>: \<open>fl F\<close> rounds the exact result of one operation to a float
  and \<open>fsum F\<close> is the built-in \<^verbatim>\<open>sum\<close> (which compensates rounding errors since Python 3.12).
  The theorems hold for every such arithmetic on finite floats; \<open>exact_flt\<close> computes without
  rounding and is what examples evaluate. Python's \<^verbatim>\<open>sorted\<close> is the stable \<open>sort_key\<close>.
\<close>

section \<open>Float arithmetic\<close>

record flt =
  fl :: "rat \<Rightarrow> rat"
  fsum :: "rat list \<Rightarrow> rat"

definition exact_flt :: flt where
  "exact_flt = \<lparr>fl = (\<lambda>x. x), fsum = sum_list\<rparr>"

text \<open>\<^verbatim>\<open>round(x, 9)\<close>: the nearest multiple of 1e-9, halves to even, as a float.\<close>

definition round_half_even :: "rat \<Rightarrow> int" where
  "round_half_even x =
     (let f = \<lfloor>x\<rfloor>; d = x - of_int f
      in if d < 1/2 then f else if d > 1/2 then f + 1 else if even f then f else f + 1)"

definition round9 :: "flt \<Rightarrow> rat \<Rightarrow> rat" where
  "round9 F x = fl F (of_int (round_half_even (x * 10 ^ 9)) / 10 ^ 9)"

section \<open>Configuration\<close>

record scheduler_weights =
  sw_capability_fit :: rat
  sw_expected_quality :: rat
  sw_availability :: rat
  sw_quota_health :: rat
  sw_monetary_cost :: rat
  sw_latency :: rat
  sw_historical_reliability :: rat
  sw_node_load :: rat
  sw_privacy :: rat
  sw_context_fit :: rat

definition default_weights :: scheduler_weights where
  "default_weights =
     \<lparr>sw_capability_fit = 3, sw_expected_quality = 2, sw_availability = 2, sw_quota_health = 3/2,
      sw_monetary_cost = 1, sw_latency = 1, sw_historical_reliability = 3/2, sw_node_load = 1,
      sw_privacy = 2, sw_context_fit = 3/2\<rparr>"

definition weights_as_dict :: "scheduler_weights \<Rightarrow> (string \<times> rat) list" where
  "weights_as_dict w =
     [(''capabilityFit'', sw_capability_fit w), (''expectedQuality'', sw_expected_quality w),
      (''availability'', sw_availability w), (''quotaHealth'', sw_quota_health w),
      (''monetaryCost'', sw_monetary_cost w), (''latency'', sw_latency w),
      (''historicalReliability'', sw_historical_reliability w), (''nodeLoad'', sw_node_load w),
      (''privacy'', sw_privacy w), (''contextFit'', sw_context_fit w)]"

record scheduler_config =
  sc_policy_version :: string
  sc_weights :: scheduler_weights

definition default_config :: scheduler_config where
  "default_config = \<lparr>sc_policy_version = ''v0.4-resource-aware'', sc_weights = default_weights\<rparr>"

section \<open>Hard constraints\<close>

definition reject :: "worker_snapshot \<Rightarrow> bool \<Rightarrow> string \<Rightarrow> string \<Rightarrow> rejection list" where
  "reject w cond code detail =
     (if cond then [\<lparr>rj_worker_id = ws_id w, rj_reason_code = code, rj_detail = detail\<rparr>] else [])"

definition context_rejections :: "task_requirements \<Rightarrow> worker_snapshot \<Rightarrow> rejection list" where
  "context_rejections req w =
     (case rq_minimum_context_tokens req of
        None \<Rightarrow> []
      | Some needed \<Rightarrow>
          (case md_context_window_tokens (ws_model w) of
             None \<Rightarrow> reject w True ''CONTEXT_UNKNOWN'' ''task requires a verified context window''
           | Some context \<Rightarrow>
               reject w (context < needed) ''CONTEXT_INSUFFICIENT''
                 (''requires '' @ show_int needed @ '', worker reports '' @ show_int context)))"

definition hard_constraints :: "task_requirements \<Rightarrow> worker_snapshot \<Rightarrow> rejection list" where
  "hard_constraints req w =
     (let missing = rq_required_capabilities req - ws_capabilities w in
      reject w (ws_node_state w \<noteq> NODE_ONLINE) ''NODE_UNAVAILABLE''
        (''node state is '' @ node_state_value (ws_node_state w)) @
      reject w (ws_state w \<noteq> WORKER_IDLE) ''WORKER_UNAVAILABLE''
        (''worker state is '' @ worker_state_value (ws_state w)) @
      reject w (ws_resource_state w \<in> {RES_RATE_LIMITED, RES_BUDGET_EXHAUSTED, RES_COOLDOWN})
        ''RESOURCE_UNAVAILABLE'' (''resource state is '' @ resource_state_value (ws_resource_state w)) @
      reject w (missing \<noteq> {}) ''CAPABILITY_MISMATCH''
        (''missing capabilities: '' @ join_strings '','' (sorted_list_of_set missing)) @
      reject w (rq_code_write_required req \<and> \<not> ws_code_write_allowed w) ''CODE_WRITE_FORBIDDEN''
        ''worker policy forbids production code mutation'' @
      reject w (rq_privacy_sensitive req \<and> \<not> ws_privacy_allowed w) ''PRIVACY_MISMATCH''
        ''worker is not authorized for privacy-sensitive tasks'' @
      context_rejections req w @
      reject w (rq_permission_class req = PERM_RED \<and> rq_approval_state req \<noteq> APPROVAL_APPROVED)
        ''HUMAN_APPROVAL_REQUIRED'' ''RED task lacks a durable approved record'')"

section \<open>Scoring\<close>

definition clamp :: "rat \<Rightarrow> rat" where
  "clamp v = min 1 (max 0 v)"

definition resource_health :: "worker_snapshot \<Rightarrow> resource_routing_evidence option \<Rightarrow> rat" where
  "resource_health w ev =
     (case ev of
        Some e \<Rightarrow> re_health_score e
      | None \<Rightarrow>
          (case ws_resource_state w of
             RES_AVAILABLE \<Rightarrow> 1 | RES_WARNING \<Rightarrow> 1/2 | RES_UNKNOWN \<Rightarrow> 1/4 | _ \<Rightarrow> 0))"

definition capability_fit :: "flt \<Rightarrow> task_requirements \<Rightarrow> worker_snapshot \<Rightarrow> rat" where
  "capability_fit F req w =
     (let required = rq_required_capabilities req in
      if required = {} then 1
      else fl F (of_nat (card (required \<inter> ws_capabilities w)) / of_nat (card required)))"

definition context_fit :: "flt \<Rightarrow> task_requirements \<Rightarrow> worker_snapshot \<Rightarrow> rat" where
  "context_fit F req w =
     (case rq_minimum_context_tokens req of
        None \<Rightarrow> 1
      | Some needed \<Rightarrow>
          if needed = 0 then 1
          else min 1 (fl F (of_int (case md_context_window_tokens (ws_model w) of
                                      None \<Rightarrow> 0 | Some c \<Rightarrow> c) / of_int needed)))"

definition score_components ::
    "flt \<Rightarrow> task_requirements \<Rightarrow> worker_snapshot \<Rightarrow> resource_routing_evidence option \<Rightarrow>
     (string \<times> rat) list" where
  "score_components F req w ev =
     [(''capabilityFit'', capability_fit F req w),
      (''expectedQuality'', clamp (ws_quality_score w)),
      (''availability'', if ws_state w = WORKER_IDLE then 1 else 0),
      (''quotaHealth'', resource_health w ev),
      (''monetaryCost'', clamp (ws_monetary_cost_score w)),
      (''latency'', fl F (1 / fl F (1 + fl F (max (ws_expected_latency_seconds w) 0 / 60)))),
      (''historicalReliability'', clamp (ws_reliability_score w)),
      (''nodeLoad'', fl F (1 - clamp (ws_node_load w))),
      (''privacy'', if \<not> rq_privacy_sensitive req \<or> ws_privacy_allowed w then 1 else 0),
      (''contextFit'', context_fit F req w)]"

definition score_value :: "flt \<Rightarrow> scheduler_weights \<Rightarrow> (string \<times> rat) list \<Rightarrow> rat result" where
  "score_value F weights components =
     (let ws = weights_as_dict weights;
          denominator = fsum F (map snd ws)
      in if denominator = 0 then Inl ZeroDivisionError
         else Inr (round9 F (fl F
           (fsum F (map (\<lambda>(key, c). fl F (c * the (map_of ws key))) components) / denominator))))"

definition score ::
    "flt \<Rightarrow> scheduler_config \<Rightarrow> task_requirements \<Rightarrow> worker_snapshot \<Rightarrow>
     resource_routing_evidence option \<Rightarrow> candidate_score result" where
  "score F cfg req w ev =
     (let components = score_components F req w ev in
      case score_value F (sc_weights cfg) components of
        Inl e \<Rightarrow> Inl e
      | Inr v \<Rightarrow> Inr \<lparr>cs_worker_id = ws_id w, cs_score = v, cs_components = components\<rparr>)"

text \<open>A dict by worker id: a repeated id is refused here, a later score replaces an earlier one.\<close>

fun resource_evidence_dict ::
    "(string \<times> resource_routing_evidence) list \<Rightarrow> resource_routing_evidence list \<Rightarrow>
     (string \<times> resource_routing_evidence) list result" where
  "resource_evidence_dict acc [] = Inr acc"
| "resource_evidence_dict acc (v # vs) =
     (if re_worker_id v \<in> fst ` set acc
        then Inl (ValueError ''resource routing evidence must be unique by Worker'')
      else resource_evidence_dict (acc @ [(re_worker_id v, v)]) vs)"

definition score_by_id :: "candidate_score list \<Rightarrow> string \<Rightarrow> rat" where
  "score_by_id scores wid =
     (case map_of (rev (map (\<lambda>c. (cs_worker_id c, cs_score c)) scores)) wid of
        None \<Rightarrow> 0 | Some v \<Rightarrow> v)"

section \<open>Selection\<close>

definition preferred_rank :: "string list \<Rightarrow> string \<Rightarrow> nat" where
  "preferred_rank preferred wid =
     (case map_of (rev (zip preferred [0..<length preferred])) wid of
        None \<Rightarrow> card (set preferred) | Some i \<Rightarrow> i)"

definition select ::
    "execution_topology \<Rightarrow> task_requirements \<Rightarrow> worker_snapshot list \<Rightarrow> (string \<Rightarrow> rat) \<Rightarrow> string list"
  where
  "select topology req ranked sc =
     (case ranked of
        [] \<Rightarrow> []
      | primary # _ \<Rightarrow>
          (case topology of
             TOPO_SINGLE \<Rightarrow> [ws_id primary]
           | TOPO_FALLBACK \<Rightarrow>
               [ws_id (hd (sort_key
                  (\<lambda>w. (preferred_rank (rq_preferred_workers req) (ws_id w), - sc (ws_id w), ws_id w))
                  ranked))]
           | TOPO_CHEAP_FIRST_ESCALATION \<Rightarrow>
               [ws_id (hd (sort_key
                  (\<lambda>w. (- ws_monetary_cost_score w, - sc (ws_id w), ws_id w)) ranked))]
           | TOPO_PRIMARY_REVIEWER \<Rightarrow>
               (case List.find (\<lambda>w. ws_id w \<noteq> ws_id primary \<and> ''review'' \<in> ws_capabilities w) ranked of
                  None \<Rightarrow> [ws_id primary]
                | Some reviewer \<Rightarrow> [ws_id primary, ws_id reviewer])
           | TOPO_PARALLEL_PANEL \<Rightarrow> map ws_id (slice_to (rq_panel_size req) ranked)))"

definition topology_rejection :: "string \<Rightarrow> string \<Rightarrow> rejection" where
  "topology_rejection code detail =
     \<lparr>rj_worker_id = ''__topology__'', rj_reason_code = code, rj_detail = detail\<rparr>"

text \<open>The topology's minimum is checked after selection; missing it empties the selection.\<close>

definition enforce_topology ::
    "execution_topology \<Rightarrow> task_requirements \<Rightarrow> string list \<Rightarrow> string list \<times> rejection list" where
  "enforce_topology topology req selected =
     (if topology = TOPO_PRIMARY_REVIEWER \<and> length selected < 2
        then ([], [topology_rejection ''REVIEWER_UNAVAILABLE''
          ''PRIMARY_REVIEWER requires two distinct eligible workers and a review capability''])
      else if topology = TOPO_PARALLEL_PANEL \<and> int (length selected) < rq_panel_size req
        then ([], [topology_rejection ''PANEL_SIZE_UNAVAILABLE''
          (''requested panel size '' @ show_int (rq_panel_size req) @ '', eligible workers '' @
           show_nat (length selected))])
      else (selected, []))"

section \<open>Scheduling\<close>

definition eligible_workers :: "task_requirements \<Rightarrow> worker_snapshot list \<Rightarrow> worker_snapshot list" where
  "eligible_workers req ws = filter (\<lambda>w. hard_constraints req w = []) (sort_key ws_id ws)"

definition rejected_workers :: "task_requirements \<Rightarrow> worker_snapshot list \<Rightarrow> rejection list" where
  "rejected_workers req ws = concat (map (hard_constraints req) (sort_key ws_id ws))"

definition ranked_workers :: "(string \<Rightarrow> rat) \<Rightarrow> worker_snapshot list \<Rightarrow> worker_snapshot list" where
  "ranked_workers sc eligible = sort_key (\<lambda>w. (- sc (ws_id w), ws_id w)) eligible"

definition decision_explanation ::
    "scheduler_config \<Rightarrow> string \<Rightarrow> execution_topology \<Rightarrow> string list \<Rightarrow> rejection list \<Rightarrow>
     (string \<times> resource_routing_evidence) list \<Rightarrow> (string \<times> json) list" where
  "decision_explanation cfg task_id topology selected rejected evidence =
     [(''taskID'', JStr task_id), (''topology'', JStr (execution_topology_value topology)),
      (''policyVersion'', JStr (sc_policy_version cfg)),
      (''weights'', JObj (map (\<lambda>(k, v). (k, JNum v)) (weights_as_dict (sc_weights cfg)))),
      (''selected'', JList (map JStr selected)),
      (''rejected'', JList (map (\<lambda>r. JObj [(''workerID'', JStr (rj_worker_id r)),
          (''reasonCode'', JStr (rj_reason_code r)), (''detail'', JStr (rj_detail r))]) rejected)),
      (''resourceEvidence'', JList (map (\<lambda>e. JObj (resource_evidence_to_protocol e))
          (sort_key re_worker_id (map snd evidence)))),
      (''tieBreak'', JStr ''workerID ascending after score'')]"

definition schedule ::
    "flt \<Rightarrow> scheduler_config \<Rightarrow> string \<Rightarrow> task_requirements \<Rightarrow> execution_topology \<Rightarrow>
     worker_snapshot list \<Rightarrow> resource_routing_evidence list \<Rightarrow> routing_decision result" where
  "schedule F cfg task_id req topology workers evidence =
     (case resource_evidence_dict [] evidence of
        Inl e \<Rightarrow> Inl e
      | Inr by_worker \<Rightarrow>
          (let eligible = eligible_workers req workers in
           case map_result (\<lambda>w. score F cfg req w (map_of by_worker (ws_id w))) eligible of
             Inl e \<Rightarrow> Inl e
           | Inr scores \<Rightarrow>
               (let sc = score_by_id scores;
                    ranked = ranked_workers sc eligible;
                    checked = enforce_topology topology req (select topology req ranked sc);
                    selected = fst checked;
                    rejected = rejected_workers req workers @ snd checked
                in Inr
                  \<lparr>rd_topology = topology,
                   rd_selected_worker_ids = selected,
                   rd_candidates = sort_key (\<lambda>c. (- cs_score c, cs_worker_id c)) scores,
                   rd_rejected = rejected,
                   rd_policy_version = sc_policy_version cfg,
                   rd_explanation =
                     decision_explanation cfg task_id topology selected rejected by_worker\<rparr>)))"

definition schedule_snapshot ::
    "flt \<Rightarrow> scheduler_config \<Rightarrow> routing_input_snapshot \<Rightarrow> routing_decision result" where
  "schedule_snapshot F cfg sn =
     (case schedule F cfg (sn_task_id sn) (sn_requirements sn) (sn_topology sn) (sn_workers sn)
             (sn_resource_evidence sn) of
        Inl e \<Rightarrow> Inl e
      | Inr d \<Rightarrow>
          Inr (d\<lparr>rd_explanation :=
            rd_explanation d @ [(''routingInput'', JObj (routing_snapshot_explanation sn))]\<rparr>))"

section \<open>What the theorems speak of\<close>

text \<open>What a worker must satisfy to be a candidate at all.\<close>

definition admissible :: "task_requirements \<Rightarrow> worker_snapshot \<Rightarrow> bool" where
  "admissible req w \<longleftrightarrow>
     ws_node_state w = NODE_ONLINE \<and> ws_state w = WORKER_IDLE \<and>
     ws_resource_state w \<in> {RES_AVAILABLE, RES_WARNING, RES_UNKNOWN} \<and>
     rq_required_capabilities req \<subseteq> ws_capabilities w \<and>
     (rq_code_write_required req \<longrightarrow> ws_code_write_allowed w) \<and>
     (rq_privacy_sensitive req \<longrightarrow> ws_privacy_allowed w) \<and>
     (\<forall>n. rq_minimum_context_tokens req = Some n \<longrightarrow>
        (\<exists>c. md_context_window_tokens (ws_model w) = Some c \<and> n \<le> c)) \<and>
     (rq_permission_class req = PERM_RED \<longrightarrow> rq_approval_state req = APPROVAL_APPROVED)"

text \<open>
  Rounding that is monotone and exact on 0 and 1, as IEEE rounding is; a \<^verbatim>\<open>sum\<close> that is monotone in
  its terms and maps zeros to zero; and non-negative weights that are floats.
\<close>

definition monotone_flt :: "flt \<Rightarrow> scheduler_weights \<Rightarrow> bool" where
  "monotone_flt F w \<longleftrightarrow>
     mono (fl F) \<and> fl F 0 = 0 \<and> fl F 1 = 1 \<and>
     (\<forall>xs ys. list_all2 (\<le>) xs ys \<longrightarrow> fsum F xs \<le> fsum F ys) \<and>
     (\<forall>n. fsum F (replicate n 0) = 0) \<and>
     (\<forall>v \<in> snd ` set (weights_as_dict w). 0 \<le> v \<and> fl F v = v)"

section \<open>Hard constraints\<close>

lemma reject_Nil_iff [simp]: "reject w c code d = [] \<longleftrightarrow> \<not> c"
  by (simp add: reject_def)

lemma context_rejections_Nil_iff:
  "context_rejections req w = [] \<longleftrightarrow>
     (\<forall>n. rq_minimum_context_tokens req = Some n \<longrightarrow>
        (\<exists>c. md_context_window_tokens (ws_model w) = Some c \<and> n \<le> c))"
  by (auto simp: context_rejections_def not_less split: option.splits)

lemma hard_constraints_Nil_iff: "hard_constraints req w = [] \<longleftrightarrow> admissible req w"
proof -
  have "ws_resource_state w \<notin> {RES_RATE_LIMITED, RES_BUDGET_EXHAUSTED, RES_COOLDOWN} \<longleftrightarrow>
      ws_resource_state w \<in> {RES_AVAILABLE, RES_WARNING, RES_UNKNOWN}"
    by (cases "ws_resource_state w") simp_all
  then show ?thesis
    by (auto simp: hard_constraints_def Let_def context_rejections_Nil_iff admissible_def)
qed

lemma hard_constraints_worker: "r \<in> set (hard_constraints req w) \<Longrightarrow> rj_worker_id r = ws_id w"
  by (auto simp: hard_constraints_def Let_def reject_def context_rejections_def
      split: if_splits option.splits)

lemma set_eligible_workers: "set (eligible_workers req ws) = {w \<in> set ws. admissible req w}"
  by (auto simp: eligible_workers_def hard_constraints_Nil_iff)

lemma set_ranked_workers [simp]: "set (ranked_workers sc es) = set es"
  by (simp add: ranked_workers_def)

lemma mset_ranked_workers [simp]: "mset (ranked_workers sc es) = mset es"
  by (simp add: ranked_workers_def)

lemma distinct_eligible_workers:
  "distinct (map ws_id ws) \<Longrightarrow> distinct (map ws_id (eligible_workers req ws))"
  unfolding eligible_workers_def
  by (rule distinct_map_filter) (simp add: distinct_map_mset [of "sort_key ws_id ws" ws])

lemma distinct_ranked_workers:
  "distinct (map ws_id es) \<Longrightarrow> distinct (map ws_id (ranked_workers sc es))"
  by (simp add: distinct_map_mset [of "ranked_workers sc es" es])

section \<open>Evidence\<close>

lemma resource_evidence_dict_eq:
  "resource_evidence_dict acc vs =
     (if distinct (map re_worker_id vs) \<and> fst ` set acc \<inter> re_worker_id ` set vs = {}
      then Inr (acc @ map (\<lambda>v. (re_worker_id v, v)) vs)
      else Inl (ValueError ''resource routing evidence must be unique by Worker''))"
  by (induction vs arbitrary: acc) (auto)

lemma map_of_evidence_perm:
  assumes "mset vs = mset vs'" and "distinct (map re_worker_id vs)"
  shows "map_of (map (\<lambda>v. (re_worker_id v, v)) vs) = map_of (map (\<lambda>v. (re_worker_id v, v)) vs')"
proof -
  have "distinct (map re_worker_id vs')" and "set vs = set vs'"
    using assms distinct_map_mset mset_eq_setD by blast+
  then show ?thesis using assms(2)
    by (intro map_of_eqI) (auto simp: comp_def intro!: map_of_eq_Some_iff[THEN iffD2] simp: image_iff)
qed

section \<open>Scores and ranking\<close>

lemma score_worker: "score F cfg req w ev = Inr c \<Longrightarrow> cs_worker_id c = ws_id w"
  by (auto simp: score_def Let_def split: sum.splits)

lemma scores_ids:
  "map_result (\<lambda>w. score F cfg req w (g w)) es = Inr cs \<Longrightarrow> map cs_worker_id cs = map ws_id es"
  unfolding map_result_Inr_iff
  by (induction rule: list_all2_induct) (auto dest: score_worker)

lemma score_by_id_eq:
  assumes "distinct (map cs_worker_id cs)" and "c \<in> set cs"
  shows "score_by_id cs (cs_worker_id c) = cs_score c"
proof -
  have "map_of (rev (map (\<lambda>c. (cs_worker_id c, cs_score c)) cs)) (cs_worker_id c) = Some (cs_score c)"
    using assms by (intro map_of_is_SomeI) (auto simp: rev_map [symmetric] comp_def distinct_rev
        simp flip: rev_map)
  then show ?thesis by (simp add: score_by_id_def)
qed

text \<open>
  With distinct worker ids, the ranking of the workers is the order of the reported candidates.
\<close>

lemma ranked_ids:
  assumes "map cs_worker_id cs = map ws_id es" and "distinct (map ws_id es)"
  shows "map ws_id (ranked_workers (score_by_id cs) es) =
         map cs_worker_id (sort_key (\<lambda>c. (- cs_score c, cs_worker_id c)) cs)"
proof -
  let ?k = "\<lambda>i. (- score_by_id cs i, i)"
  have "map ws_id (ranked_workers (score_by_id cs) es) = sort_key ?k (map cs_worker_id cs)"
    by (simp add: ranked_workers_def sort_key_map [of ws_id ?k] assms(1))
  also have "\<dots> = map cs_worker_id (sort_key (\<lambda>c. ?k (cs_worker_id c)) cs)"
    by (rule sort_key_map [of cs_worker_id ?k, symmetric])
  also have "\<dots> = map cs_worker_id (sort_key (\<lambda>c. (- cs_score c, cs_worker_id c)) cs)"
    using assms by (intro arg_cong [where f = "map cs_worker_id"] sort_key_cong2)
      (simp add: score_by_id_eq)
  finally show ?thesis .
qed

section \<open>Selection\<close>

lemma select_Nil: "select topology req [] sc = []"
  by (simp add: select_def)

lemma select_topology:
  assumes "ranked \<noteq> []"
  shows "select TOPO_SINGLE req ranked sc = [ws_id (hd ranked)]"
    and "select TOPO_FALLBACK req ranked sc = [ws_id (hd (sort_key
      (\<lambda>w. (preferred_rank (rq_preferred_workers req) (ws_id w), - sc (ws_id w), ws_id w)) ranked))]"
    and "select TOPO_CHEAP_FIRST_ESCALATION req ranked sc = [ws_id (hd (sort_key
      (\<lambda>w. (- ws_monetary_cost_score w, - sc (ws_id w), ws_id w)) ranked))]"
    and "select TOPO_PRIMARY_REVIEWER req ranked sc =
      ws_id (hd ranked) # (case List.find
        (\<lambda>w. ws_id w \<noteq> ws_id (hd ranked) \<and> ''review'' \<in> ws_capabilities w) ranked of
          None \<Rightarrow> [] | Some reviewer \<Rightarrow> [ws_id reviewer])"
    and "select TOPO_PARALLEL_PANEL req ranked sc = map ws_id (slice_to (rq_panel_size req) ranked)"
  using assms by (cases ranked; simp add: select_def del: sort_key_simps split: option.splits)+

lemma set_select: "set (select topology req ranked sc) \<subseteq> ws_id ` set ranked"
proof (cases "ranked = []")
  case False
  then show ?thesis
    using set_slice_to [of "rq_panel_size req" ranked]
    by (cases topology)
      (auto simp: select_topology dest: find_SomeD [OF sym] intro!: imageI hd_sort_key_in split: option.splits)
qed (simp add: select_Nil)

lemma enforce_topology_subset: "set (fst (enforce_topology topology req sel)) \<subseteq> set sel"
  by (simp add: enforce_topology_def)

lemma scheduleE:
  assumes "schedule F cfg tid req topology ws ev = Inr d"
  obtains scores where
    "map_result (\<lambda>w. score F cfg req w (map_of (map (\<lambda>v. (re_worker_id v, v)) ev) (ws_id w)))
       (eligible_workers req ws) = Inr scores"
    "rd_selected_worker_ids d = fst (enforce_topology topology req
       (select topology req (ranked_workers (score_by_id scores) (eligible_workers req ws))
          (score_by_id scores)))"
    "rd_candidates d = sort_key (\<lambda>c. (- cs_score c, cs_worker_id c)) scores"
    "rd_rejected d = rejected_workers req ws @ snd (enforce_topology topology req
       (select topology req (ranked_workers (score_by_id scores) (eligible_workers req ws))
          (score_by_id scores)))"
  using assms
  by (auto simp: schedule_def Let_def resource_evidence_dict_eq split: sum.splits if_splits)

lemma selected_workers_admissible:
  assumes "schedule F cfg tid req topology ws ev = Inr d" and "wid \<in> set (rd_selected_worker_ids d)"
  shows "\<exists>w \<in> set ws. ws_id w = wid \<and> admissible req w"
proof -
  obtain scores where "wid \<in> set (select topology req
      (ranked_workers (score_by_id scores) (eligible_workers req ws)) (score_by_id scores))"
    using assms enforce_topology_subset by (elim scheduleE) (metis subsetD)
  then have "wid \<in> ws_id ` set (eligible_workers req ws)"
    using set_select by fastforce
  then show ?thesis by (auto simp: set_eligible_workers)
qed

text \<open>
  C2. Every worker a routing decision selects is one of the given workers and satisfies all hard
  constraints: its node is online and it is idle, its resources are not exhausted, it has every
  required capability, it may write code and see private data when the task needs that, its known
  context window is large enough, and a \<^verbatim>\<open>RED\<close> task carries an approval.
\<close>

theorem schedule_selects_admissible:
  assumes "schedule F cfg tid req topology ws ev = Inr d" and "wid \<in> set (rd_selected_worker_ids d)"
  shows "\<exists>w. w \<in> set ws \<and> ws_id w = wid \<and>
    ws_node_state w = NODE_ONLINE \<and> ws_state w = WORKER_IDLE \<and>
    ws_resource_state w \<notin> {RES_RATE_LIMITED, RES_BUDGET_EXHAUSTED, RES_COOLDOWN} \<and>
    rq_required_capabilities req \<subseteq> ws_capabilities w \<and>
    (rq_code_write_required req \<longrightarrow> ws_code_write_allowed w) \<and>
    (rq_privacy_sensitive req \<longrightarrow> ws_privacy_allowed w) \<and>
    (\<forall>n. rq_minimum_context_tokens req = Some n \<longrightarrow>
       (\<exists>c. md_context_window_tokens (ws_model w) = Some c \<and> n \<le> c)) \<and>
    (rq_permission_class req = PERM_RED \<longrightarrow> rq_approval_state req = APPROVAL_APPROVED)"
  using selected_workers_admissible [OF assms] by (auto simp: admissible_def)

text \<open>
  C3. Routing does not depend on the order in which workers and evidence are supplied: permuting
  them gives the same decision, or the same error.
\<close>

theorem schedule_order_independent:
  assumes "mset ws' = mset ws" and "distinct (map ws_id ws)" and "mset ev' = mset ev"
  shows "schedule F cfg tid req topology ws' ev' = schedule F cfg tid req topology ws ev"
proof -
  have sorted: "sort_key ws_id ws' = sort_key ws_id ws"
    using assms by (intro sort_key_inj_key_eq)
      (auto simp: distinct_map dest: mset_eq_setD)
  then have el: "eligible_workers req ws' = eligible_workers req ws"
    and rej: "rejected_workers req ws' = rejected_workers req ws"
    by (simp_all add: eligible_workers_def rejected_workers_def)
  show ?thesis
  proof (cases "distinct (map re_worker_id ev)")
    case True
    then have d': "distinct (map re_worker_id ev')"
      using assms(3) distinct_map_mset by blast
    have "map_of (map (\<lambda>v. (re_worker_id v, v)) ev') = map_of (map (\<lambda>v. (re_worker_id v, v)) ev)"
      using map_of_evidence_perm [OF assms(3) d'] by simp
    moreover have "sort_key re_worker_id ev' = sort_key re_worker_id ev"
      using assms(3) True by (intro sort_key_inj_key_eq)
        (auto simp: distinct_map dest: mset_eq_setD)
    ultimately show ?thesis
      using True d' by (simp add: schedule_def resource_evidence_dict_eq el rej
          decision_explanation_def comp_def Let_def split: sum.split)
  next
    case False
    then show ?thesis
      using assms(3) distinct_map_mset [of ev' ev re_worker_id]
      by (simp add: schedule_def resource_evidence_dict_eq)
  qed
qed

text \<open>Topologies that select from the front of the ranking select the front of the candidates.\<close>

lemma schedule_ranked_ids:
  assumes "map_result (\<lambda>w. score F cfg req w (g w)) (eligible_workers req ws) = Inr scores"
    and "distinct (map ws_id ws)"
  shows "map ws_id (ranked_workers (score_by_id scores) (eligible_workers req ws)) =
    map cs_worker_id (sort_key (\<lambda>c. (- cs_score c, cs_worker_id c)) scores)"
  using ranked_ids [OF scores_ids [OF assms(1)] distinct_eligible_workers [OF assms(2)]] .

text \<open>
  C4. The candidates of a decision are ordered by descending score with ties by ascending worker
  id. \<^verbatim>\<open>SINGLE\<close> selects the first of them, and a \<^verbatim>\<open>PARALLEL_PANEL\<close> either the first
  \<^verbatim>\<open>panel_size\<close> of them, all distinct, or nobody.
\<close>

theorem schedule_selects_best:
  assumes "schedule F cfg tid req topology ws ev = Inr d" and "distinct (map ws_id ws)"
    and "0 < rq_panel_size req"
  shows "sorted (map (\<lambda>c. (- cs_score c, cs_worker_id c)) (rd_candidates d)) \<and>
    (topology = TOPO_SINGLE \<longrightarrow>
       rd_selected_worker_ids d = take 1 (map cs_worker_id (rd_candidates d))) \<and>
    (topology = TOPO_PARALLEL_PANEL \<longrightarrow>
       rd_selected_worker_ids d =
         (if rq_panel_size req \<le> int (length (rd_candidates d))
          then take (nat (rq_panel_size req)) (map cs_worker_id (rd_candidates d)) else []) \<and>
       distinct (rd_selected_worker_ids d))"
proof -
  obtain scores where scores: "map_result (\<lambda>w. score F cfg req w
        (map_of (map (\<lambda>v. (re_worker_id v, v)) ev) (ws_id w))) (eligible_workers req ws) = Inr scores"
    and sel: "rd_selected_worker_ids d = fst (enforce_topology topology req
       (select topology req (ranked_workers (score_by_id scores) (eligible_workers req ws))
          (score_by_id scores)))"
    and cands: "rd_candidates d = sort_key (\<lambda>c. (- cs_score c, cs_worker_id c)) scores"
    using assms(1) by (rule scheduleE)
  let ?ranked = "ranked_workers (score_by_id scores) (eligible_workers req ws)"
  have ids: "map ws_id ?ranked = map cs_worker_id (rd_candidates d)"
    using schedule_ranked_ids [OF scores assms(2)] by (simp add: cands)
  then have len: "length (rd_candidates d) = length ?ranked"
    by (metis length_map)
  have dist: "distinct (map ws_id ?ranked)"
    by (intro distinct_ranked_workers distinct_eligible_workers assms)
  show ?thesis
  proof (intro conjI impI)
    show "sorted (map (\<lambda>c. (- cs_score c, cs_worker_id c)) (rd_candidates d))"
      by (simp add: cands)
    show "rd_selected_worker_ids d = take 1 (map cs_worker_id (rd_candidates d))"
      if "topology = TOPO_SINGLE"
      using that unfolding sel ids [symmetric]
      by (cases ?ranked) (simp_all add: select_Nil select_topology enforce_topology_def)
    assume panel: "topology = TOPO_PARALLEL_PANEL"
    have "select topology req ?ranked (score_by_id scores) =
        take (nat (rq_panel_size req)) (map ws_id ?ranked)"
      using assms(3) panel
      by (cases "?ranked = []") (simp_all add: select_Nil select_topology slice_to_pos take_map)
    then show "rd_selected_worker_ids d =
        (if rq_panel_size req \<le> int (length (rd_candidates d))
         then take (nat (rq_panel_size req)) (map cs_worker_id (rd_candidates d)) else [])"
      using assms(3) panel unfolding sel len ids [symmetric] by (auto simp: enforce_topology_def)
    then show "distinct (rd_selected_worker_ids d)"
      using dist by (simp add: ids)
  qed
qed

text \<open>
  C5. A \<^verbatim>\<open>PRIMARY_REVIEWER\<close> decision selects nobody, with the reason \<^verbatim>\<open>REVIEWER_UNAVAILABLE\<close>, or
  exactly two different workers, the second of which has the review capability.
\<close>

theorem schedule_primary_reviewer:
  assumes "schedule F cfg tid req TOPO_PRIMARY_REVIEWER ws ev = Inr d"
  shows "rd_selected_worker_ids d = [] \<and>
      ''REVIEWER_UNAVAILABLE'' \<in> rj_reason_code ` set (rd_rejected d) \<or>
    (\<exists>p r. rd_selected_worker_ids d = [ws_id p, ws_id r] \<and> ws_id p \<noteq> ws_id r \<and>
       p \<in> set ws \<and> r \<in> set ws \<and> ''review'' \<in> ws_capabilities r \<and>
       admissible req p \<and> admissible req r)"
proof -
  obtain scores where sel: "rd_selected_worker_ids d = fst (enforce_topology TOPO_PRIMARY_REVIEWER req
       (select TOPO_PRIMARY_REVIEWER req
          (ranked_workers (score_by_id scores) (eligible_workers req ws)) (score_by_id scores)))"
    and rej: "rd_rejected d = rejected_workers req ws @ snd (enforce_topology TOPO_PRIMARY_REVIEWER req
       (select TOPO_PRIMARY_REVIEWER req
          (ranked_workers (score_by_id scores) (eligible_workers req ws)) (score_by_id scores)))"
    using assms by (rule scheduleE)
  define ranked where "ranked = ranked_workers (score_by_id scores) (eligible_workers req ws)"
  have members: "w \<in> set ws \<and> admissible req w" if "w \<in> set ranked" for w
    using that by (simp add: ranked_def set_eligible_workers)
  show ?thesis
  proof (cases "ranked = []")
    case True
    then show ?thesis
      by (simp add: sel rej select_Nil enforce_topology_def topology_rejection_def ranked_def [symmetric])
  next
    case False
    then show ?thesis
    proof (cases "List.find (\<lambda>w. ws_id w \<noteq> ws_id (hd ranked) \<and> ''review'' \<in> ws_capabilities w) ranked")
      case None
      then show ?thesis using False
        by (simp add: sel rej select_topology enforce_topology_def topology_rejection_def
            ranked_def [symmetric])
    next
      case (Some r)
      note r = find_SomeD [OF Some]
      have "rd_selected_worker_ids d = [ws_id (hd ranked), ws_id r]"
        using Some False by (simp add: sel select_topology enforce_topology_def ranked_def [symmetric])
      then show ?thesis
        using r members [of r] members [of "hd ranked"] False
        by (intro disjI2 exI [of _ "hd ranked"] exI [of _ r]) auto
    qed
  qed
qed

section \<open>Score bounds\<close>

lemma monotone_flt_unit:
  assumes "monotone_flt F w" and "0 \<le> x" and "x \<le> 1"
  shows "0 \<le> fl F x" and "fl F x \<le> 1"
  using assms monoD [of "fl F" 0 x] monoD [of "fl F" x 1] by (auto simp: monotone_flt_def)

lemma round9_unit:
  assumes "monotone_flt F w" and "0 \<le> x" and "x \<le> 1"
  shows "0 \<le> round9 F x" and "round9 F x \<le> 1"
proof -
  let ?y = "x * 10 ^ 9"
  have y: "0 \<le> ?y" "?y \<le> 1000000000" using assms by simp_all
  have "0 \<le> round_half_even ?y"
    using y(1) by (auto simp: round_half_even_def Let_def)
  moreover have "round_half_even ?y \<le> 1000000000"
  proof (cases "\<lfloor>?y\<rfloor> = 1000000000")
    case True
    with y(2) have "?y - of_int \<lfloor>?y\<rfloor> \<le> 0" by simp
    then have "round_half_even ?y = \<lfloor>?y\<rfloor>" by (simp add: round_half_even_def Let_def)
    with True show ?thesis by simp
  next
    case False
    have "\<lfloor>?y\<rfloor> \<le> 1000000000" using y(2) by (simp add: floor_le_iff)
    with False have "\<lfloor>?y\<rfloor> + 1 \<le> 1000000000" by linarith
    moreover have "round_half_even ?y \<le> \<lfloor>?y\<rfloor> + 1" by (simp add: round_half_even_def Let_def)
    ultimately show ?thesis by linarith
  qed
  ultimately have "0 \<le> (of_int (round_half_even ?y) :: rat)"
      and "(of_int (round_half_even ?y) :: rat) \<le> 1000000000"
    by (simp_all)
  then show "0 \<le> round9 F x" and "round9 F x \<le> 1"
    unfolding round9_def by (intro monotone_flt_unit [OF assms(1)]; simp)+
qed

lemma score_components_unit:
  assumes F: "monotone_flt F w" and ev: "\<And>e. ev = Some e \<Longrightarrow> 0 \<le> re_health_score e \<and> re_health_score e \<le> 1"
    and ctx: "\<And>n. rq_minimum_context_tokens req = Some n \<Longrightarrow> 0 < n"
    and win: "\<And>n. md_context_window_tokens (ws_model wk) = Some n \<Longrightarrow> 0 \<le> n"
    and fin: "finite (rq_required_capabilities req)"
    and c: "(k, c) \<in> set (score_components F req wk ev)"
  shows "0 \<le> c \<and> c \<le> 1"
proof -
  note unit = monotone_flt_unit [OF F]
  have clamp: "0 \<le> clamp v" "clamp v \<le> 1" for v by (simp_all add: clamp_def)
  have "0 \<le> capability_fit F req wk \<and> capability_fit F req wk \<le> 1"
    using fin card_mono [OF fin, of "rq_required_capabilities req \<inter> ws_capabilities wk"]
    by (auto simp: capability_fit_def Let_def divide_le_eq card_gt_0_iff intro!: unit)
  moreover have "0 \<le> resource_health wk ev \<and> resource_health wk ev \<le> 1"
    using ev by (auto simp: resource_health_def split: option.splits resource_state.splits)
  moreover have "0 \<le> context_fit F req wk \<and> context_fit F req wk \<le> 1"
  proof (cases "rq_minimum_context_tokens req")
    case (Some n)
    let ?q = "of_int (case md_context_window_tokens (ws_model wk) of None \<Rightarrow> 0 | Some c \<Rightarrow> c) / of_int n :: rat"
    have "0 \<le> ?q" using ctx [OF Some] win by (auto split: option.splits)
    then have "0 \<le> fl F ?q" using F monoD [of "fl F" 0 ?q] by (auto simp: monotone_flt_def)
    with Some show ?thesis by (simp add: context_fit_def)
  qed (simp add: context_fit_def)
  moreover have "0 \<le> fl F (1 / fl F (1 + fl F (max (ws_expected_latency_seconds wk) 0 / 60))) \<and>
      fl F (1 / fl F (1 + fl F (max (ws_expected_latency_seconds wk) 0 / 60))) \<le> 1"
  proof -
    let ?a = "fl F (max (ws_expected_latency_seconds wk) 0 / 60)"
    have "0 \<le> ?a" using F monoD [of "fl F" 0 "max (ws_expected_latency_seconds wk) 0 / 60"]
      by (auto simp: monotone_flt_def)
    then have "1 \<le> fl F (1 + ?a)" using F monoD [of "fl F" 1 "1 + ?a"] by (auto simp: monotone_flt_def)
    then show ?thesis by (intro conjI unit) (simp_all)
  qed
  moreover have "0 \<le> fl F (1 - clamp (ws_node_load wk)) \<and> fl F (1 - clamp (ws_node_load wk)) \<le> 1"
    using clamp by (intro conjI unit) simp_all
  ultimately show ?thesis
    using c clamp by (auto simp: score_components_def)
qed

lemma score_value_unit:
  assumes F: "monotone_flt F w" and keys: "map fst comps = map fst (weights_as_dict w)"
    and unit: "\<And>k c. (k, c) \<in> set comps \<Longrightarrow> 0 \<le> c \<and> c \<le> 1"
    and v: "score_value F w comps = Inr v"
  shows "0 \<le> v \<and> v \<le> 1"
proof -
  let ?ws = "weights_as_dict w"
  let ?terms = "map (\<lambda>(k, c). fl F (c * the (map_of ?ws k))) comps"
  have dist: "distinct (map fst ?ws)" by (simp add: weights_as_dict_def)
  have weight: "map_of ?ws k = Some x \<Longrightarrow> 0 \<le> x \<and> fl F x = x" for k x
    using F by (force simp: monotone_flt_def dest: map_of_SomeD)
  have len: "length comps = length ?ws" using keys by (metis length_map)
  have nth: "map_of ?ws (fst (comps ! i)) = Some (snd (?ws ! i))" if "i < length comps" for i
    using that keys len dist
    by (metis (no_types, opaque_lifting) map_of_eq_Some_iff nth_map nth_mem prod.collapse)
  have bnd: "0 \<le> ?terms ! i \<and> ?terms ! i \<le> snd (?ws ! i)" if i: "i < length comps" for i
  proof -
    obtain k c where kc: "comps ! i = (k, c)" by fastforce
    have c: "0 \<le> c \<and> c \<le> 1" using unit i kc by (metis nth_mem)
    let ?x = "snd (?ws ! i)"
    have x: "0 \<le> ?x" "fl F ?x = ?x" using weight nth [OF i] kc by auto
    have "0 \<le> c * ?x" "c * ?x \<le> ?x" using c x by (simp_all add: mult_left_le_one_le)
    moreover have "mono (fl F)" using F by (simp add: monotone_flt_def)
    ultimately have "fl F 0 \<le> fl F (c * ?x)" "fl F (c * ?x) \<le> fl F ?x"
      by (simp_all only: monoD)
    then show ?thesis using F x nth [OF i] kc i by (simp add: monotone_flt_def)
  qed
  let ?den = "fsum F (map snd ?ws)"
  have le: "list_all2 (\<le>) ?terms (map snd ?ws)" "list_all2 (\<le>) (replicate (length comps) 0) ?terms"
    using bnd len by (auto simp: list_all2_conv_all_nth)
  have "fsum F ?terms \<le> ?den" "fsum F (replicate (length comps) 0) \<le> fsum F ?terms"
    using F le unfolding monotone_flt_def by blast+
  then have "0 \<le> fsum F ?terms" "fsum F ?terms \<le> ?den"
    using F by (simp_all add: monotone_flt_def)
  moreover have "?den \<noteq> 0" "v = round9 F (fl F (fsum F ?terms / ?den))"
    using v by (auto simp: score_value_def Let_def split: if_splits)
  ultimately show ?thesis
    by (auto intro!: round9_unit [OF F] monotone_flt_unit [OF F] simp: divide_le_eq)
qed


section \<open>Examples\<close>

definition sample_worker :: "string \<Rightarrow> worker_snapshot" where
  "sample_worker wid =
     \<lparr>ws_id = wid, ws_node_id = ''n1'', ws_harness = HARNESS_CODEX, ws_provider = PROVIDER_OPENAI,
      ws_model = \<lparr>md_identifier = ''m'', md_display_name = ''M'', md_provider = PROVIDER_OPENAI,
        md_context_variant = None, md_context_window_tokens = Some 1000\<rparr>,
      ws_state = WORKER_IDLE, ws_node_state = NODE_ONLINE, ws_resource_state = RES_AVAILABLE,
      ws_capabilities = {''review''}, ws_code_write_allowed = True, ws_privacy_allowed = True,
      ws_quality_score = 1/2, ws_reliability_score = 1/2, ws_expected_latency_seconds = 30,
      ws_monetary_cost_score = 1/2, ws_node_load = 0, ws_running_tasks = 0\<rparr>"

definition sample_requirements :: task_requirements where
  "sample_requirements =
     \<lparr>rq_labels = {}, rq_required_capabilities = {''review''}, rq_permission_class = PERM_GREEN,
      rq_approval_state = APPROVAL_NOT_REQUIRED, rq_minimum_context_tokens = Some 500,
      rq_privacy_sensitive = False, rq_code_write_required = True, rq_panel_size = 2,
      rq_preferred_workers = []\<rparr>"

lemma sample_admissible: "admissible sample_requirements (sample_worker wid)"
  by (simp add: admissible_def sample_requirements_def sample_worker_def)

lemma sample_score:
  "\<exists>v comps. \<forall>wid. score exact_flt default_config sample_requirements (sample_worker wid) None
    = Inr \<lparr>cs_worker_id = wid, cs_score = v, cs_components = comps\<rparr>"
proof -
  let ?c = "score_components exact_flt sample_requirements (sample_worker []) None"
  have c: "score_components exact_flt sample_requirements (sample_worker wid) None = ?c" for wid
    by (simp add: score_components_def sample_worker_def capability_fit_def context_fit_def
        resource_health_def Let_def split: option.split)
  have "score_value exact_flt default_weights comps \<noteq> Inl e" for comps e
    by (simp add: score_value_def exact_flt_def default_weights_def weights_as_dict_def Let_def)
  then obtain v where "score_value exact_flt default_weights ?c = Inr v"
    by (cases "score_value exact_flt default_weights ?c") auto
  then have "score exact_flt default_config sample_requirements (sample_worker wid) None
    = Inr \<lparr>cs_worker_id = wid, cs_score = v, cs_components = ?c\<rparr>" for wid
    by (simp add: score_def Let_def c [of wid] default_config_def) (simp add: sample_worker_def)
  then show ?thesis by blast
qed

lemma sample_schedule:
  obtains d where "schedule exact_flt default_config ''t'' sample_requirements topology
     [sample_worker ''a'', sample_worker ''b''] [] = Inr d"
     "map cs_worker_id (rd_candidates d) = [''a'', ''b'']"
     "rd_selected_worker_ids d =
       (if topology \<in> {TOPO_PARALLEL_PANEL, TOPO_PRIMARY_REVIEWER} then [''a'', ''b''] else [''a''])"
proof -
  obtain v comps where sc: "\<And>wid. score exact_flt default_config sample_requirements (sample_worker wid) None
    = Inr \<lparr>cs_worker_id = wid, cs_score = v, cs_components = comps\<rparr>"
    using sample_score by blast
  have id: "ws_id (sample_worker wid) = wid" "''review'' \<in> ws_capabilities (sample_worker wid)"
    "ws_monetary_cost_score (sample_worker wid) = 1/2" for wid
    by (simp_all add: sample_worker_def)
  have rq: "rq_panel_size sample_requirements = 2" "rq_preferred_workers sample_requirements = []"
    by (simp_all add: sample_requirements_def)
  let ?ws = "[sample_worker ''a'', sample_worker ''b'']"
  have el: "eligible_workers sample_requirements ?ws = ?ws"
    by (simp add: eligible_workers_def hard_constraints_Nil_iff sample_admissible id)
  obtain d where d: "schedule exact_flt default_config ''t'' sample_requirements topology ?ws [] = Inr d"
    by (simp add: schedule_def Let_def el sc)
  from d obtain scores where
    "map_result (\<lambda>w. score exact_flt default_config sample_requirements w None) ?ws = Inr scores"
    and f: "rd_selected_worker_ids d = fst (enforce_topology topology sample_requirements
       (select topology sample_requirements (ranked_workers (score_by_id scores) ?ws)
          (score_by_id scores)))"
    "rd_candidates d = sort_key (\<lambda>c. (- cs_score c, cs_worker_id c)) scores"
    by (elim scheduleE) (simp add: el)
  then have s: "scores = [\<lparr>cs_worker_id = ''a'', cs_score = v, cs_components = comps\<rparr>,
      \<lparr>cs_worker_id = ''b'', cs_score = v, cs_components = comps\<rparr>]"
    by (simp add: sc)
  have r: "ranked_workers (score_by_id scores) ?ws = ?ws"
    by (simp add: ranked_workers_def s score_by_id_def id)
  show ?thesis
  proof (rule that [OF d])
    show "map cs_worker_id (rd_candidates d) = [''a'', ''b'']"
      by (simp add: f s)
    show "rd_selected_worker_ids d =
       (if topology \<in> {TOPO_PARALLEL_PANEL, TOPO_PRIMARY_REVIEWER} then [''a'', ''b''] else [''a''])"
      unfolding f(1) r
      by (cases topology) (simp_all add: select_def enforce_topology_def id rq slice_to_def
         preferred_rank_def s score_by_id_def)
  qed
qed

lemma exact_flt_monotone: "monotone_flt exact_flt default_weights"
proof -
  have "sum_list xs \<le> sum_list ys" if "list_all2 (\<le>) xs ys" for xs ys :: "rat list"
    using that by (induction rule: list_all2_induct) auto
  then show ?thesis
    by (simp add: monotone_flt_def exact_flt_def default_weights_def weights_as_dict_def mono_def
      sum_list_replicate)
qed

theorem schedule_selects_admissible_witness:
  "\<exists>w. w \<in> set [sample_worker ''a'', sample_worker ''b''] \<and> ws_id w = ''a'' \<and>
     ws_node_state w = NODE_ONLINE \<and> ws_state w = WORKER_IDLE"
proof -
  obtain d where "schedule exact_flt default_config ''t'' sample_requirements TOPO_SINGLE
     [sample_worker ''a'', sample_worker ''b''] [] = Inr d" "rd_selected_worker_ids d = [''a'']"
    by (rule sample_schedule [of TOPO_SINGLE]) simp
  from schedule_selects_admissible [OF this(1), of "''a''"] this(2) show ?thesis by auto
qed

theorem schedule_order_independent_witness:
  "schedule exact_flt default_config ''t'' sample_requirements TOPO_SINGLE
     [sample_worker ''b'', sample_worker ''a''] [] =
   schedule exact_flt default_config ''t'' sample_requirements TOPO_SINGLE
     [sample_worker ''a'', sample_worker ''b''] []"
  by (rule schedule_order_independent) (simp_all add: add_mset_commute, simp add: sample_worker_def)

theorem schedule_selects_best_witness:
  "\<exists>d. schedule exact_flt default_config ''t'' sample_requirements TOPO_PARALLEL_PANEL
     [sample_worker ''a'', sample_worker ''b''] [] = Inr d \<and>
     rd_selected_worker_ids d = take 2 (map cs_worker_id (rd_candidates d)) \<and>
     distinct (rd_selected_worker_ids d)"
proof -
  let ?ws = "[sample_worker ''a'', sample_worker ''b'']"
  obtain d where d: "schedule exact_flt default_config ''t'' sample_requirements TOPO_PARALLEL_PANEL
     ?ws [] = Inr d" "map cs_worker_id (rd_candidates d) = [''a'', ''b'']"
    by (rule sample_schedule)
  have "distinct (map ws_id ?ws)" "0 < rq_panel_size sample_requirements"
    by (simp_all add: sample_worker_def sample_requirements_def)
  from schedule_selects_best [OF d(1) this] d(2) [THEN arg_cong, where f = length]
  have "rd_selected_worker_ids d = take 2 (map cs_worker_id (rd_candidates d))"
    "distinct (rd_selected_worker_ids d)"
    by (auto simp: sample_requirements_def)
  with d(1) show ?thesis by blast
qed

theorem schedule_primary_reviewer_witness:
  "\<exists>d (p :: worker_snapshot) (r :: worker_snapshot). schedule exact_flt default_config ''t'' sample_requirements TOPO_PRIMARY_REVIEWER
     [sample_worker ''a'', sample_worker ''b''] [] = Inr d \<and>
     rd_selected_worker_ids d = [ws_id p, ws_id r] \<and> ws_id p \<noteq> ws_id r \<and>
     ''review'' \<in> ws_capabilities r"
proof -
  obtain d where d: "schedule exact_flt default_config ''t'' sample_requirements TOPO_PRIMARY_REVIEWER
     [sample_worker ''a'', sample_worker ''b''] [] = Inr d" "rd_selected_worker_ids d = [''a'', ''b'']"
    by (rule sample_schedule [of TOPO_PRIMARY_REVIEWER]) simp
  have "rd_selected_worker_ids d \<noteq> []" by (simp add: d(2))
  with schedule_primary_reviewer [OF d(1)]
  obtain p r :: worker_snapshot where "rd_selected_worker_ids d = [ws_id p, ws_id r]" "ws_id p \<noteq> ws_id r"
    "''review'' \<in> ws_capabilities r"
    by blast
  with d(1) show ?thesis by blast
qed


end
