(* ===== verification/Bridge.thy ===== *)
theory Bridge
  imports Scheduler "HOL-Library.Sublist"
begin

text \<open>
  The bridge, \<^verbatim>\<open>src/project_supervisor/bridge/\<close>: an optional path that carries a copy of a structured
  artifact through a codec and falls back to the unchanged source whenever anything is wrong.
  \<^verbatim>\<open>model.py\<close> is the first half (values, validation, canonical JSON, negotiation, envelopes), \<^verbatim>\<open>codec.py\<close>
  and \<^verbatim>\<open>foundation.py\<close> the second. Parameters: \<open>repr\<close>, how a finite float is written; \<open>sha256\<close>, the digest
  of a byte string; \<open>loads\<close>, the JSON parser with its hook for objects; the registered codecs.
\<close>

section \<open>Values from outside\<close>

text \<open>
  A value a caller, a codec or the parser hands over. \<open>VFloat None\<close> is a float that is not finite and
  \<open>VOther\<close> an object of a class JSON cannot write, with the name of its class. A dictionary is the list
  of its items; \<open>KOther\<close> is a key JSON cannot write. Keys that are numbers, booleans or \<^verbatim>\<open>None\<close> are not
  modelled.
\<close>

datatype dict_key = KStr string | KOther

datatype py_value =
    VNull
  | VBool bool
  | VInt int
  | VFloat "rat option"
  | VStr string
  | VList "py_value list"
  | VDict "(dict_key \<times> py_value) list"
  | VOther string

primrec key_text :: "dict_key \<Rightarrow> string" where
  "key_text (KStr s) = s"
| "key_text KOther = []"

definition is_str_key :: "dict_key \<Rightarrow> bool" where
  "is_str_key k \<longleftrightarrow> k \<noteq> KOther"

definition field_value :: "string \<Rightarrow> (dict_key \<times> py_value) list \<Rightarrow> py_value" where
  "field_value k items = the (map_of items (KStr k))"

text \<open>\<^verbatim>\<open>set(value) == expected\<close> of a dictionary.\<close>

definition exact_fields :: "string list \<Rightarrow> (dict_key \<times> py_value) list \<Rightarrow> bool" where
  "exact_fields expected items \<longleftrightarrow> set (map fst items) = KStr ` set expected"

section \<open>Limits\<close>

record bridge_limits =
  bl_max_payload_bytes :: int
  bl_max_envelope_bytes :: int
  bl_max_depth :: int
  bl_max_container_items :: int
  bl_max_string_bytes :: int

definition default_limits :: bridge_limits where
  "default_limits = \<lparr>bl_max_payload_bytes = 131072, bl_max_envelope_bytes = 262144, bl_max_depth = 16,
     bl_max_container_items = 2048, bl_max_string_bytes = 65536\<rparr>"

definition check_limits :: "bridge_limits \<Rightarrow> unit result" where
  "check_limits l =
     bindR (raise_if (bl_max_payload_bytes l \<le> 0) (ValueError ''max_payload_bytes must be positive'')) (\<lambda>_.
     bindR (raise_if (bl_max_envelope_bytes l \<le> 0) (ValueError ''max_envelope_bytes must be positive'')) (\<lambda>_.
     bindR (raise_if (bl_max_depth l \<le> 0) (ValueError ''max_depth must be positive'')) (\<lambda>_.
     bindR (raise_if (bl_max_container_items l \<le> 0) (ValueError ''max_container_items must be positive'')) (\<lambda>_.
     bindR (raise_if (bl_max_string_bytes l \<le> 0) (ValueError ''max_string_bytes must be positive'')) (\<lambda>_.
     raise_if (bl_max_envelope_bytes l < bl_max_payload_bytes l)
       (ValueError ''max_payload_bytes cannot exceed max_envelope_bytes''))))))"

section \<open>Canonical JSON\<close>

text \<open>\<^verbatim>\<open>str.encode("utf-8")\<close> of a text of code points below 256.\<close>

definition utf8_char :: "char \<Rightarrow> string" where
  "utf8_char c = (let n = of_char c :: nat in if n < 128 then [c] else [char_of (192 + n div 64), char_of (128 + n mod 64)])"

definition utf8 :: "string \<Rightarrow> string" where
  "utf8 s = concat (map utf8_char s)"

definition hex_nibble :: "nat \<Rightarrow> char" where
  "hex_nibble n = ''0123456789abcdef'' ! n"

definition json_escape :: "char \<Rightarrow> string" where
  "json_escape c =
     (let n = of_char c :: nat in
      if c = CHR 0x22 then [CHR 0x5C, CHR 0x22] else if c = CHR 0x5C then [CHR 0x5C, CHR 0x5C]
      else if n = 8 then [CHR 0x5C, CHR ''b''] else if n = 12 then [CHR 0x5C, CHR ''f'']
      else if n = 10 then [CHR 0x5C, CHR ''n''] else if n = 13 then [CHR 0x5C, CHR ''r'']
      else if n = 9 then [CHR 0x5C, CHR ''t'']
      else if n < 32 then [CHR 0x5C, CHR ''u'', CHR ''0'', CHR ''0'', hex_nibble (n div 16), hex_nibble (n mod 16)]
      else [c])"

definition json_string :: "string \<Rightarrow> string" where
  "json_string s = CHR 0x22 # concat (map json_escape s) @ [CHR 0x22]"

text \<open>What \<^verbatim>\<open>json.dumps\<close> accepts, the order \<^verbatim>\<open>sort_keys\<close> writes an object in, and the text.\<close>

fun jsonable :: "py_value \<Rightarrow> bool" where
  "jsonable (VFloat f) \<longleftrightarrow> f \<noteq> None"
| "jsonable (VList vs) \<longleftrightarrow> (\<forall>v\<in>set vs. jsonable v)"
| "jsonable (VDict items) \<longleftrightarrow> (\<forall>(k, v)\<in>set items. is_str_key k \<and> jsonable v)"
| "jsonable (VOther _) \<longleftrightarrow> False"
| "jsonable _ \<longleftrightarrow> True"

fun sort_keys :: "py_value \<Rightarrow> py_value" where
  "sort_keys (VList vs) = VList (map sort_keys vs)"
| "sort_keys (VDict items) = VDict (sort_key (\<lambda>i. key_text (fst i)) (map (\<lambda>(k, v). (k, sort_keys v)) items))"
| "sort_keys v = v"

fun json_text :: "(rat \<Rightarrow> string) \<Rightarrow> py_value \<Rightarrow> string" where
  "json_text repr VNull = ''null''"
| "json_text repr (VBool b) = (if b then ''true'' else ''false'')"
| "json_text repr (VInt i) = show_int i"
| "json_text repr (VFloat f) = repr (the f)"
| "json_text repr (VStr s) = json_string s"
| "json_text repr (VList vs) = ''['' @ join_strings '','' (map (json_text repr) vs) @ '']''"
| "json_text repr (VDict items) =
     ''{'' @ join_strings '','' (map (\<lambda>(k, v). json_string (key_text k) @ '':'' @ json_text repr v) items) @ ''}''"
| "json_text repr (VOther _) = []"

definition canonical_json_bytes :: "(rat \<Rightarrow> string) \<Rightarrow> py_value \<Rightarrow> string result" where
  "canonical_json_bytes repr v =
     bindR (raise_if (\<not> jsonable v) (BridgeValidationError ''value is not canonical JSON'')) (\<lambda>_.
     Inr (utf8 (json_text repr (sort_keys v))))"

section \<open>Validation of a JSON tree\<close>

text \<open>
  \<^verbatim>\<open>visit\<close> threads the counter of container items through the traversal; the counter is checked when a
  container is entered, before its elements are looked at. \<open>visit_list\<close> and \<open>visit_items\<close> are the two
  comprehensions.
\<close>

fun visit :: "bridge_limits \<Rightarrow> py_value \<Rightarrow> int \<Rightarrow> int \<Rightarrow> (int \<times> py_value) result"
and visit_list :: "bridge_limits \<Rightarrow> py_value list \<Rightarrow> int \<Rightarrow> int \<Rightarrow> (int \<times> py_value list) result"
and visit_items :: "bridge_limits \<Rightarrow> (dict_key \<times> py_value) list \<Rightarrow> int \<Rightarrow> int \<Rightarrow> (int \<times> (dict_key \<times> py_value) list) result" where
  "visit l node depth n =
     bindR (raise_if (bl_max_depth l < depth) (BridgeValidationError ''JSON depth limit exceeded'')) (\<lambda>_.
     case node of
       VStr s \<Rightarrow>
         bindR (raise_if (bl_max_string_bytes l < int (length (utf8 s))) (BridgeValidationError ''JSON string limit exceeded'')) (\<lambda>_.
         Inr (n, node))
     | VFloat f \<Rightarrow> bindR (raise_if (f = None) (BridgeValidationError ''non-finite JSON number'')) (\<lambda>_. Inr (n, node))
     | VList vs \<Rightarrow>
         bindR (raise_if (bl_max_container_items l < n + int (length vs)) (BridgeValidationError ''JSON container item limit exceeded'')) (\<lambda>_.
         bindR (visit_list l vs (depth + 1) (n + int (length vs))) (\<lambda>(n, vs). Inr (n, VList vs)))
     | VDict items \<Rightarrow>
         bindR (raise_if (list_ex (\<lambda>(k, v). \<not> is_str_key k) items) (BridgeValidationError ''JSON object keys must be strings'')) (\<lambda>_.
         bindR (raise_if (bl_max_container_items l < n + int (length items)) (BridgeValidationError ''JSON container item limit exceeded'')) (\<lambda>_.
         bindR (visit_items l items (depth + 1) (n + int (length items))) (\<lambda>(n, items). Inr (n, VDict items))))
     | VOther c \<Rightarrow> Inl (BridgeValidationError (''unsupported JSON value type: '' @ c))
     | _ \<Rightarrow> Inr (n, node))"
| "visit_list l [] depth n = Inr (n, [])"
| "visit_list l (v # vs) depth n =
     bindR (visit l v depth n) (\<lambda>(n, v). bindR (visit_list l vs depth n) (\<lambda>(n, vs). Inr (n, v # vs)))"
| "visit_items l [] depth n = Inr (n, [])"
| "visit_items l ((k, v) # items) depth n =
     bindR (visit l v depth n) (\<lambda>(n, v). bindR (visit_items l items depth n) (\<lambda>(n, items). Inr (n, (k, v) # items)))"

declare visit.simps [simp del]

definition validate_json :: "(rat \<Rightarrow> string) \<Rightarrow> bridge_limits \<Rightarrow> bool \<Rightarrow> py_value \<Rightarrow> py_value result" where
  "validate_json repr l payload v =
     bindR (visit l v 0 0) (\<lambda>(_, validated).
     if payload
     then bindR (canonical_json_bytes repr validated) (\<lambda>bytes.
          bindR (raise_if (bl_max_payload_bytes l < int (length bytes)) (BridgeValidationError ''payload byte limit exceeded'')) (\<lambda>_.
          Inr validated))
     else Inr validated)"

subsection \<open>What validation accepts\<close>

text \<open>The measures the limits are about, defined without the traversal.\<close>

fun value_depth :: "py_value \<Rightarrow> int" where
  "value_depth (VList vs) = foldr max (map (\<lambda>v. 1 + value_depth v) vs) 0"
| "value_depth (VDict items) = foldr max (map (\<lambda>(k, v). 1 + value_depth v) items) 0"
| "value_depth _ = 0"

fun value_items :: "py_value \<Rightarrow> int" where
  "value_items (VList vs) = int (length vs) + sum_list (map value_items vs)"
| "value_items (VDict items) = int (length items) + sum_list (map (\<lambda>(k, v). value_items v) items)"
| "value_items _ = 0"

fun short_strings :: "int \<Rightarrow> py_value \<Rightarrow> bool" where
  "short_strings b (VStr s) \<longleftrightarrow> int (length (utf8 s)) \<le> b"
| "short_strings b (VList vs) \<longleftrightarrow> (\<forall>v\<in>set vs. short_strings b v)"
| "short_strings b (VDict items) \<longleftrightarrow> (\<forall>(k, v)\<in>set items. short_strings b v)"
| "short_strings b _ \<longleftrightarrow> True"

definition within_limits :: "bridge_limits \<Rightarrow> py_value \<Rightarrow> int \<Rightarrow> int \<Rightarrow> bool" where
  "within_limits l v depth n \<longleftrightarrow>
     depth + value_depth v \<le> bl_max_depth l \<and> n + value_items v \<le> bl_max_container_items l \<and>
     short_strings (bl_max_string_bytes l) v \<and> jsonable v"

lemma foldr_max_le: "foldr max xs a \<le> b \<longleftrightarrow> a \<le> b \<and> (\<forall>x\<in>set xs. x \<le> (b :: 'a :: linorder))"
  by (induction xs) auto

lemma foldr_max_ge: "a \<le> foldr max xs (a :: 'a :: linorder)"
  by (induction xs) (auto simp: le_max_iff_disj)

lemma value_depth_nonneg: "0 \<le> value_depth v"
  by (cases v) (auto intro: foldr_max_ge)

lemma value_items_nonneg: "0 \<le> value_items v"
  by (induction v rule: value_items.induct) (auto intro!: add_nonneg_nonneg sum_list_nonneg)

lemma items_nonneg: "0 \<le> sum_list (map value_items vs)" "0 \<le> sum_list (map (\<lambda>(k, v). value_items v) items)"
  by (auto intro!: sum_list_nonneg simp: value_items_nonneg)

definition within_all :: "bridge_limits \<Rightarrow> py_value list \<Rightarrow> int \<Rightarrow> int \<Rightarrow> bool" where
  "within_all l vs depth n \<longleftrightarrow>
     (\<forall>v\<in>set vs. depth + value_depth v \<le> bl_max_depth l \<and> short_strings (bl_max_string_bytes l) v \<and> jsonable v) \<and>
     n + sum_list (map value_items vs) \<le> bl_max_container_items l"

lemma within_all_Nil [simp]: "within_all l [] depth n \<longleftrightarrow> n \<le> bl_max_container_items l"
  by (simp add: within_all_def)

lemma within_all_Cons [simp]:
  "within_all l (v # vs) depth n \<longleftrightarrow> within_limits l v depth n \<and> within_all l vs depth (n + value_items v)"
  using items_nonneg(1) [of vs] by (auto simp: within_all_def within_limits_def)

lemma add_foldr_max_le: "d + foldr max xs 0 \<le> b \<longleftrightarrow> d \<le> b \<and> (\<forall>x\<in>set xs. d + x \<le> (b :: int))"
  by (induction xs) (auto simp: max_def)

lemma within_list:
  "within_limits l (VList vs) depth n \<longleftrightarrow> depth \<le> bl_max_depth l \<and> within_all l vs (depth + 1) (n + int (length vs))"
  unfolding within_limits_def within_all_def value_depth.simps value_items.simps add_foldr_max_le jsonable.simps short_strings.simps
  by (simp add: add.assoc) blast

lemma within_dict:
  "within_limits l (VDict items) depth n \<longleftrightarrow>
     depth \<le> bl_max_depth l \<and> list_all (\<lambda>(k, v). is_str_key k) items \<and> within_all l (map snd items) (depth + 1) (n + int (length items))"
proof -
  have m: "map (\<lambda>(k, v). f v) items = map f (map snd items)" for f :: "py_value \<Rightarrow> int"
    by (induction items) auto
  show ?thesis
    unfolding within_limits_def within_all_def value_depth.simps value_items.simps add_foldr_max_le jsonable.simps short_strings.simps m
    by (simp add: add.assoc list_all_iff case_prod_beta) blast
qed

lemma within_scalar:
  "n \<le> bl_max_container_items l \<Longrightarrow> value_items v = 0 \<Longrightarrow> value_depth v = 0 \<Longrightarrow>
   within_limits l v depth n \<longleftrightarrow> depth \<le> bl_max_depth l \<and> short_strings (bl_max_string_bytes l) v \<and> jsonable v"
  by (simp add: within_limits_def)

lemma within_all_count: "within_all l vs depth n \<Longrightarrow> n \<le> bl_max_container_items l"
  using items_nonneg(1) [of vs] by (simp add: within_all_def)

lemma visit_spec:
  "n \<le> bl_max_container_items l \<Longrightarrow>
     visit l v depth n = Inr r \<longleftrightarrow> within_limits l v depth n \<and> r = (n + value_items v, v)"
  "n \<le> bl_max_container_items l \<Longrightarrow>
     visit_list l vs depth n = Inr rs \<longleftrightarrow> within_all l vs depth n \<and> rs = (n + sum_list (map value_items vs), vs)"
  "n \<le> bl_max_container_items l \<Longrightarrow>
     visit_items l items depth n = Inr ri \<longleftrightarrow>
     within_all l (map snd items) depth n \<and> ri = (n + sum_list (map value_items (map snd items)), items)"
proof (induction l v depth n and l vs depth n and l items depth n arbitrary: r and rs and ri rule: visit_visit_list_visit_items.induct)
  case (1 l node depth n)
  show ?case
  proof (cases node)
    case (VList vs)
    show ?thesis
    proof (cases "depth \<le> bl_max_depth l \<and> n + int (length vs) \<le> bl_max_container_items l")
      case True
      with 1(1) [OF VList] show ?thesis
        by (auto simp: visit.simps [of l "VList vs"] VList within_list)
    next
      case False
      then show ?thesis
        by (auto simp: visit.simps [of l "VList vs"] VList within_list dest: within_all_count)
    qed
  next
    case (VDict items)
    have m: "map (\<lambda>(k, v). value_items v) items = map value_items (map snd items)"
      by (induction items) auto
    show ?thesis
    proof (cases "depth \<le> bl_max_depth l \<and> list_all (\<lambda>(k, v). is_str_key k) items \<and> n + int (length items) \<le> bl_max_container_items l")
      case True
      with 1(2) [OF VDict] show ?thesis
        by (auto simp: visit.simps [of l "VDict items"] VDict within_dict m list_ex_iff list_all_iff)
    next
      case False
      then show ?thesis
        by (auto simp: visit.simps [of l "VDict items"] VDict within_dict list_ex_iff list_all_iff dest: within_all_count)
    qed
  qed (use 1(3) in \<open>auto simp: visit.simps within_scalar\<close>)
next
  case (3 l v vs depth n)
  show ?case
  proof (cases "within_limits l v depth n")
    case True
    then have "n + value_items v \<le> bl_max_container_items l" by (simp add: within_limits_def)
    with 3 True show ?thesis by auto
  qed (use 3 in auto)
next
  case (5 l k v items depth n)
  show ?case
  proof (cases "within_limits l v depth n")
    case True
    then have "n + value_items v \<le> bl_max_container_items l" by (simp add: within_limits_def)
    with 5 True show ?thesis by auto
  qed (use 5 in auto)
qed auto

section \<open>Artifacts, contexts and capabilities\<close>

datatype fallback_reason =
    FB_DISABLED | FB_FORBIDDEN_AUTHORITY | FB_UNSUPPORTED | FB_VERSION_MISMATCH
  | FB_CODEC_MISMATCH | FB_VALIDATION_FAILED | FB_PAYLOAD_LIMIT | FB_HASH_MISMATCH
  | FB_DECODE_FAILED | FB_TIMEOUT

definition all_fallback_reason :: "fallback_reason list" where
  "all_fallback_reason =
    [FB_DISABLED, FB_FORBIDDEN_AUTHORITY, FB_UNSUPPORTED, FB_VERSION_MISMATCH,
     FB_CODEC_MISMATCH, FB_VALIDATION_FAILED, FB_PAYLOAD_LIMIT, FB_HASH_MISMATCH,
     FB_DECODE_FAILED, FB_TIMEOUT]"

primrec fallback_reason_value :: "fallback_reason \<Rightarrow> string" where
  "fallback_reason_value FB_DISABLED = ''disabled''"
| "fallback_reason_value FB_FORBIDDEN_AUTHORITY = ''forbiddenAuthority''"
| "fallback_reason_value FB_UNSUPPORTED = ''unsupported''"
| "fallback_reason_value FB_VERSION_MISMATCH = ''versionMismatch''"
| "fallback_reason_value FB_CODEC_MISMATCH = ''codecMismatch''"
| "fallback_reason_value FB_VALIDATION_FAILED = ''validationFailed''"
| "fallback_reason_value FB_PAYLOAD_LIMIT = ''payloadLimit''"
| "fallback_reason_value FB_HASH_MISMATCH = ''hashMismatch''"
| "fallback_reason_value FB_DECODE_FAILED = ''decodeFailed''"
| "fallback_reason_value FB_TIMEOUT = ''timeout''"

datatype authority_class =
    AU_RED_ACTION | AU_CODE_WRITE | AU_CREDENTIAL | AU_CAPABILITY_GRANT
  | AU_TOOL_CALL | AU_SHELL

definition all_authority_class :: "authority_class list" where
  "all_authority_class =
    [AU_RED_ACTION, AU_CODE_WRITE, AU_CREDENTIAL, AU_CAPABILITY_GRANT,
     AU_TOOL_CALL, AU_SHELL]"

primrec authority_class_value :: "authority_class \<Rightarrow> string" where
  "authority_class_value AU_RED_ACTION = ''redAction''"
| "authority_class_value AU_CODE_WRITE = ''codeWrite''"
| "authority_class_value AU_CREDENTIAL = ''credential''"
| "authority_class_value AU_CAPABILITY_GRANT = ''capabilityGrant''"
| "authority_class_value AU_TOOL_CALL = ''toolCall''"
| "authority_class_value AU_SHELL = ''shell''"

interpretation fallback_reason_wire: wire_enum all_fallback_reason fallback_reason_value
proof
  show "x \<in> set all_fallback_reason" for x
    by (cases x) (simp_all add: all_fallback_reason_def)
  show "distinct (map fallback_reason_value all_fallback_reason)"
    by (simp add: all_fallback_reason_def)
qed

interpretation authority_class_wire: wire_enum all_authority_class authority_class_value
proof
  show "x \<in> set all_authority_class" for x
    by (cases x) (simp_all add: all_authority_class_def)
  show "distinct (map authority_class_value all_authority_class)"
    by (simp add: all_authority_class_def)
qed

definition non_empty :: "py_value \<Rightarrow> string \<Rightarrow> string result" where
  "non_empty v what =
     (case v of
        VStr s \<Rightarrow> if nonblank s then Inr s else Inl (BridgeValidationError (what @ '' must be a non-empty string''))
      | _ \<Rightarrow> Inl (BridgeValidationError (what @ '' must be a non-empty string'')))"

record structured_artifact =
  sa_id :: string
  sa_type :: string
  sa_content :: py_value

definition check_artifact :: "structured_artifact \<Rightarrow> unit result" where
  "check_artifact a =
     bindR (non_empty (VStr (sa_id a)) ''artifactID'') (\<lambda>_.
     bindR (non_empty (VStr (sa_type a)) ''artifactType'') (\<lambda>_. Inr ()))"

definition artifact_to_protocol :: "structured_artifact \<Rightarrow> py_value" where
  "artifact_to_protocol a =
     VDict [(KStr ''artifactID'', VStr (sa_id a)), (KStr ''artifactType'', VStr (sa_type a)), (KStr ''content'', sa_content a)]"

text \<open>The constructor checks the identifiers once more.\<close>

definition artifact_from_protocol :: "(rat \<Rightarrow> string) \<Rightarrow> bridge_limits \<Rightarrow> py_value \<Rightarrow> structured_artifact result" where
  "artifact_from_protocol repr l v =
     (case v of
        VDict items \<Rightarrow>
          bindR (raise_if (\<not> exact_fields [''artifactID'', ''artifactType'', ''content''] items)
            (BridgeValidationError ''artifact fields must match the protocol exactly'')) (\<lambda>_.
          bindR (validate_json repr l True (field_value ''content'' items)) (\<lambda>content.
          bindR (non_empty (field_value ''artifactID'' items) ''artifactID'') (\<lambda>i.
          bindR (non_empty (field_value ''artifactType'' items) ''artifactType'') (\<lambda>t.
          let a = \<lparr>sa_id = i, sa_type = t, sa_content = content\<rparr> in
          bindR (check_artifact a) (\<lambda>_. Inr a)))))
      | _ \<Rightarrow> Inl (BridgeValidationError ''artifact must be an object''))"

definition artifact_sha256 :: "(rat \<Rightarrow> string) \<Rightarrow> (string \<Rightarrow> string) \<Rightarrow> structured_artifact \<Rightarrow> string result" where
  "artifact_sha256 repr sha256 a =
     bindR (canonical_json_bytes repr (artifact_to_protocol a)) (\<lambda>bytes. Inr (sha256 bytes))"

record transfer_context =
  tc_task_id :: string
  tc_authorities :: "authority_class list"

text \<open>Every class is a forbidden one, so the difference with \<^verbatim>\<open>FORBIDDEN_AUTHORITIES\<close> is always empty.\<close>

definition check_context :: "transfer_context \<Rightarrow> unit result" where
  "check_context c = bindR (non_empty (VStr (tc_task_id c)) ''taskID'') (\<lambda>_. Inr ())"

definition bridge_allowed :: "transfer_context \<Rightarrow> bool" where
  "bridge_allowed c \<longleftrightarrow> tc_authorities c = []"

record bridge_capabilities =
  bc_peer_id :: string
  bc_versions :: "string list"
  bc_codecs :: "string list"
  bc_max_payload_bytes :: int
  bc_available :: bool

definition check_capabilities :: "bridge_capabilities \<Rightarrow> unit result" where
  "check_capabilities c =
     bindR (non_empty (VStr (bc_peer_id c)) ''peerID'') (\<lambda>_.
     bindR (raise_if (bc_max_payload_bytes c \<le> 0) (ValueError ''max_payload_bytes must be positive'')) (\<lambda>_.
     bindR (raise_if (\<not> distinct (bc_versions c)) (ValueError ''versions must not contain duplicates'')) (\<lambda>_.
     bindR (raise_if (\<not> list_all nonblank (bc_versions c)) (ValueError ''versions values must not be empty'')) (\<lambda>_.
     bindR (raise_if (\<not> distinct (bc_codecs c)) (ValueError ''codecs must not contain duplicates'')) (\<lambda>_.
     raise_if (\<not> list_all nonblank (bc_codecs c)) (ValueError ''codecs values must not be empty''))))))"

definition capabilities_to_protocol :: "bridge_capabilities \<Rightarrow> py_value" where
  "capabilities_to_protocol c =
     VDict [(KStr ''peerID'', VStr (bc_peer_id c)), (KStr ''versions'', VList (map VStr (bc_versions c))),
       (KStr ''codecs'', VList (map VStr (bc_codecs c))), (KStr ''maxPayloadBytes'', VInt (bc_max_payload_bytes c)),
       (KStr ''available'', VBool (bc_available c))]"

record bridge_negotiation =
  bn_available :: bool
  bn_version :: "string option"
  bn_codec_id :: "string option"
  bn_max_payload_bytes :: "int option"
  bn_fallback_reason :: "fallback_reason option"

definition refused :: "fallback_reason \<Rightarrow> bridge_negotiation" where
  "refused r = \<lparr>bn_available = False, bn_version = None, bn_codec_id = None, bn_max_payload_bytes = None,
     bn_fallback_reason = Some r\<rparr>"

definition negotiate :: "bridge_capabilities \<Rightarrow> bridge_capabilities \<Rightarrow> bridge_negotiation" where
  "negotiate own remote =
     (if \<not> bc_available own \<or> \<not> bc_available remote then refused FB_UNSUPPORTED
      else case find (\<lambda>v. v \<in> set (bc_versions remote)) (bc_versions own) of
        None \<Rightarrow> refused FB_VERSION_MISMATCH
      | Some version \<Rightarrow>
          (case find (\<lambda>c. c \<in> set (bc_codecs remote)) (bc_codecs own) of
             None \<Rightarrow> refused FB_CODEC_MISMATCH
           | Some codec \<Rightarrow>
               \<lparr>bn_available = True, bn_version = Some version, bn_codec_id = Some codec,
                bn_max_payload_bytes = Some (min (bc_max_payload_bytes own) (bc_max_payload_bytes remote)),
                bn_fallback_reason = None\<rparr>))"

section \<open>Envelopes\<close>

record bridge_envelope =
  be_version :: string
  be_codec_id :: string
  be_message_id :: string
  be_sender_id :: string
  be_receiver_id :: string
  be_task_id :: string
  be_payload :: structured_artifact

definition envelope_items :: "bridge_envelope \<Rightarrow> (dict_key \<times> py_value) list" where
  "envelope_items e =
     [(KStr ''bridgeVersion'', VStr (be_version e)), (KStr ''codecID'', VStr (be_codec_id e)),
      (KStr ''messageID'', VStr (be_message_id e)), (KStr ''senderID'', VStr (be_sender_id e)),
      (KStr ''receiverID'', VStr (be_receiver_id e)), (KStr ''taskID'', VStr (be_task_id e)),
      (KStr ''payload'', artifact_to_protocol (be_payload e))]"

definition body_protocol :: "bridge_envelope \<Rightarrow> py_value" where
  "body_protocol e = VDict (envelope_items e)"

definition envelope_sha256 :: "(rat \<Rightarrow> string) \<Rightarrow> (string \<Rightarrow> string) \<Rightarrow> bridge_envelope \<Rightarrow> string result" where
  "envelope_sha256 repr sha256 e =
     bindR (canonical_json_bytes repr (body_protocol e)) (\<lambda>bytes. Inr (sha256 bytes))"

definition envelope_to_protocol :: "(rat \<Rightarrow> string) \<Rightarrow> (string \<Rightarrow> string) \<Rightarrow> bridge_envelope \<Rightarrow> py_value result" where
  "envelope_to_protocol repr sha256 e =
     bindR (envelope_sha256 repr sha256 e) (\<lambda>h. Inr (VDict (envelope_items e @ [(KStr ''envelopeSha256'', VStr h)])))"

definition envelope_to_bytes :: "(rat \<Rightarrow> string) \<Rightarrow> (string \<Rightarrow> string) \<Rightarrow> bridge_limits \<Rightarrow> bridge_envelope \<Rightarrow> string result" where
  "envelope_to_bytes repr sha256 l e =
     bindR (envelope_to_protocol repr sha256 e) (\<lambda>v.
     bindR (canonical_json_bytes repr v) (\<lambda>encoded.
     bindR (raise_if (bl_max_envelope_bytes l < int (length encoded)) (BridgeValidationError ''envelope byte limit exceeded'')) (\<lambda>_.
     Inr encoded)))"

text \<open>The hook the parser calls with the pairs of every object.\<close>

definition strict_object :: "(string \<times> py_value) list \<Rightarrow> py_value result" where
  "strict_object pairs =
     bindR (raise_if (\<not> distinct (map fst pairs)) (BridgeValidationError ''duplicate JSON object field'')) (\<lambda>_.
     Inr (VDict (map (\<lambda>(k, v). (KStr k, v)) pairs)))"

definition envelope_fields :: "string list" where
  "envelope_fields = [''bridgeVersion'', ''codecID'', ''messageID'', ''senderID'', ''receiverID'', ''taskID'', ''payload'',
     ''envelopeSha256'']"

text \<open>
  \<^verbatim>\<open>json.loads\<close> with the hook. An \<open>Inl (ValueError _)\<close> of the parser is a decoding error; the exception of
  the hook passes through.
\<close>

type_synonym json_parser = "((string \<times> py_value) list \<Rightarrow> py_value result) \<Rightarrow> string \<Rightarrow> py_value result"

definition parse_envelope :: "json_parser \<Rightarrow> string \<Rightarrow> py_value result" where
  "parse_envelope loads encoded =
     (case loads strict_object encoded of
        Inl (ValueError _) \<Rightarrow> Inl (BridgeValidationError ''envelope is not valid UTF-8 JSON'')
      | r \<Rightarrow> r)"

definition read_envelope :: "(rat \<Rightarrow> string) \<Rightarrow> bridge_limits \<Rightarrow> (dict_key \<times> py_value) list \<Rightarrow> bridge_envelope result" where
  "read_envelope repr l items =
     bindR (non_empty (field_value ''bridgeVersion'' items) ''bridgeVersion'') (\<lambda>version.
     bindR (non_empty (field_value ''codecID'' items) ''codecID'') (\<lambda>codec.
     bindR (non_empty (field_value ''messageID'' items) ''messageID'') (\<lambda>message.
     bindR (non_empty (field_value ''senderID'' items) ''senderID'') (\<lambda>sender.
     bindR (non_empty (field_value ''receiverID'' items) ''receiverID'') (\<lambda>receiver.
     bindR (non_empty (field_value ''taskID'' items) ''taskID'') (\<lambda>task.
     bindR (artifact_from_protocol repr l (field_value ''payload'' items)) (\<lambda>payload.
     Inr \<lparr>be_version = version, be_codec_id = codec, be_message_id = message, be_sender_id = sender,
          be_receiver_id = receiver, be_task_id = task, be_payload = payload\<rparr>)))))))"

definition envelope_from_bytes ::
    "(rat \<Rightarrow> string) \<Rightarrow> (string \<Rightarrow> string) \<Rightarrow> json_parser \<Rightarrow> bridge_limits \<Rightarrow> string \<Rightarrow> bridge_envelope result" where
  "envelope_from_bytes repr sha256 loads l encoded =
     bindR (raise_if (bl_max_envelope_bytes l < int (length encoded)) (BridgeValidationError ''envelope byte limit exceeded'')) (\<lambda>_.
     bindR (parse_envelope loads encoded) (\<lambda>raw.
     case raw of
       VDict items \<Rightarrow>
         bindR (raise_if (\<not> exact_fields envelope_fields items)
           (BridgeValidationError ''envelope fields must match the protocol exactly'')) (\<lambda>_.
         bindR (validate_json repr l False raw) (\<lambda>_.
         bindR (read_envelope repr l items) (\<lambda>e.
         case field_value ''envelopeSha256'' items of
           VStr supplied \<Rightarrow>
             bindR (envelope_sha256 repr sha256 e) (\<lambda>h.
             bindR (raise_if (supplied \<noteq> h) (BridgeValidationError ''envelope SHA-256 mismatch'')) (\<lambda>_. Inr e))
         | _ \<Rightarrow> Inl (BridgeValidationError ''envelope SHA-256 mismatch''))))
     | _ \<Rightarrow> Inl (BridgeValidationError ''envelope fields must match the protocol exactly'')))"

section \<open>Deliveries\<close>

text \<open>\<^verbatim>\<open>authoritative\<close> and \<^verbatim>\<open>canonical\<close> are not arguments of the constructor and are always false.\<close>

record derived_artifact =
  da_id :: string
  da_source_id :: string
  da_content :: py_value
  da_envelope_sha256 :: string
  da_codec_id :: string

definition derived_to_protocol :: "derived_artifact \<Rightarrow> py_value" where
  "derived_to_protocol d =
     VDict [(KStr ''artifactID'', VStr (da_id d)), (KStr ''sourceArtifactID'', VStr (da_source_id d)), (KStr ''content'', da_content d),
       (KStr ''envelopeSha256'', VStr (da_envelope_sha256 d)), (KStr ''codecID'', VStr (da_codec_id d)),
       (KStr ''authoritative'', VBool False), (KStr ''canonical'', VBool False), (KStr ''stateUse'', VStr ''derivedOnly'')]"

record bridge_telemetry =
  bt_exchange_id :: string
  bt_sender_id :: string
  bt_receiver_id :: string
  bt_bridge_available :: bool
  bt_latency_ms :: int
  bt_protocol_version :: "string option"
  bt_codec_id :: "string option"
  bt_source_sha256 :: "string option"
  bt_envelope_sha256 :: "string option"
  bt_original_bytes :: nat
  bt_encoded_bytes :: nat
  bt_fallback_reason :: "fallback_reason option"

definition optional_text :: "string option \<Rightarrow> py_value" where
  "optional_text s = (case s of None \<Rightarrow> VNull | Some s \<Rightarrow> VStr s)"

definition telemetry_to_protocol :: "bridge_telemetry \<Rightarrow> py_value" where
  "telemetry_to_protocol t =
     VDict [(KStr ''exchangeID'', VStr (bt_exchange_id t)), (KStr ''senderID'', VStr (bt_sender_id t)),
       (KStr ''receiverID'', VStr (bt_receiver_id t)), (KStr ''bridgeAvailable'', VBool (bt_bridge_available t)),
       (KStr ''latencyMs'', VInt (bt_latency_ms t)), (KStr ''protocolVersion'', optional_text (bt_protocol_version t)),
       (KStr ''codecID'', optional_text (bt_codec_id t)), (KStr ''sourceArtifactSha256'', optional_text (bt_source_sha256 t)),
       (KStr ''envelopeSha256'', optional_text (bt_envelope_sha256 t)), (KStr ''originalBytes'', VInt (int (bt_original_bytes t))),
       (KStr ''encodedBytes'', VInt (int (bt_encoded_bytes t))),
       (KStr ''fallbackReason'', optional_text (map_option fallback_reason_value (bt_fallback_reason t)))]"

record bridge_delivery =
  bd_source :: structured_artifact
  bd_used_bridge :: bool
  bd_telemetry :: bridge_telemetry
  bd_derived :: "derived_artifact option"

definition delivery_fallback_reason :: "bridge_delivery \<Rightarrow> fallback_reason option" where
  "delivery_fallback_reason d = bt_fallback_reason (bd_telemetry d)"

section \<open>Codecs\<close>

text \<open>
  How a call of a codec may end other than by returning: it may time out, raise \<^verbatim>\<open>BridgeValidationError\<close>
  with a text, or raise some other \<^verbatim>\<open>Exception\<close>. What \<^verbatim>\<open>encode\<close> returns need not be bytes; another object may
  or may not have a length.
\<close>

datatype codec_error = Codec_Timeout | Codec_Invalid string | Codec_Failed

datatype codec_bytes = Codec_Bytes string | Codec_Sized nat | Codec_Unsized

record bridge_codec =
  cd_id :: string
  cd_encode :: "bridge_envelope \<Rightarrow> bridge_limits \<Rightarrow> codec_error + codec_bytes"
  cd_decode :: "string \<Rightarrow> bridge_limits \<Rightarrow> codec_error + bridge_envelope"

definition codec_error_of :: "py_error \<Rightarrow> codec_error" where
  "codec_error_of e = (case e of BridgeValidationError m \<Rightarrow> Codec_Invalid m | _ \<Rightarrow> Codec_Failed)"

definition codec_outcome :: "('a \<Rightarrow> 'b) \<Rightarrow> 'a result \<Rightarrow> codec_error + 'b" where
  "codec_outcome f r = map_sum codec_error_of f r"

definition identity_codec_id :: string where
  "identity_codec_id = ''identity-json/1.0''"

definition identity_decode ::
    "(rat \<Rightarrow> string) \<Rightarrow> (string \<Rightarrow> string) \<Rightarrow> json_parser \<Rightarrow> string \<Rightarrow> bridge_limits \<Rightarrow> bridge_envelope result" where
  "identity_decode repr sha256 loads encoded l =
     bindR (envelope_from_bytes repr sha256 loads l encoded) (\<lambda>e.
     bindR (raise_if (be_codec_id e \<noteq> identity_codec_id) (BridgeValidationError ''envelope codec does not match decoder'')) (\<lambda>_.
     Inr e))"

definition identity_codec :: "(rat \<Rightarrow> string) \<Rightarrow> (string \<Rightarrow> string) \<Rightarrow> json_parser \<Rightarrow> bridge_codec" where
  "identity_codec repr sha256 loads =
     \<lparr>cd_id = identity_codec_id,
      cd_encode = (\<lambda>e l. codec_outcome Codec_Bytes (envelope_to_bytes repr sha256 l e)),
      cd_decode = (\<lambda>b l. codec_outcome (\<lambda>e. e) (identity_decode repr sha256 loads b l))\<rparr>"

section \<open>The foundation\<close>

record bridge_config =
  bg_enabled :: bool
  bg_timeout_seconds :: rat
  bg_limits :: bridge_limits

definition default_bridge_config :: bridge_config where
  "default_bridge_config = \<lparr>bg_enabled = False, bg_timeout_seconds = 2, bg_limits = default_limits\<rparr>"

definition check_config :: "bridge_config \<Rightarrow> unit result" where
  "check_config c = raise_if (bg_timeout_seconds c \<le> 0) (ValueError ''operation_timeout_seconds must be positive'')"

record bridge_foundation =
  bf_config :: bridge_config
  bf_codecs :: "(string \<times> bridge_codec) list"

text \<open>An empty registry counts as none: the identity codec is then the only one.\<close>

definition new_foundation ::
    "(rat \<Rightarrow> string) \<Rightarrow> (string \<Rightarrow> string) \<Rightarrow> json_parser \<Rightarrow> bridge_config option \<Rightarrow> (string \<times> bridge_codec) list \<Rightarrow>
     bridge_foundation result" where
  "new_foundation repr sha256 loads config codecs =
     (let available = (if codecs = [] then [(identity_codec_id, identity_codec repr sha256 loads)] else codecs) in
      bindR (raise_if (list_ex (\<lambda>(k, c). k \<noteq> cd_id c) available) (ValueError ''codec registry keys must equal codec_id'')) (\<lambda>_.
      Inr \<lparr>bf_config = (case config of None \<Rightarrow> default_bridge_config | Some c \<Rightarrow> c), bf_codecs = available\<rparr>))"

definition bridge_version_id :: string where
  "bridge_version_id = ''fabric-bridge/1.0''"

definition foundation_capabilities :: "bridge_foundation \<Rightarrow> string \<Rightarrow> bridge_capabilities result" where
  "foundation_capabilities f peer =
     (let c = \<lparr>bc_peer_id = peer, bc_versions = [bridge_version_id], bc_codecs = sort (map fst (bf_codecs f)),
               bc_max_payload_bytes = bl_max_payload_bytes (bg_limits (bf_config f)), bc_available = bg_enabled (bf_config f)\<rparr>
      in bindR (check_capabilities c) (\<lambda>_. Inr c))"

text \<open>
  One exchange. \<open>exchange_call\<close> is what the call and its clock contribute, \<open>xc_elapsed\<close> the seconds until
  the telemetry is written; \<open>prepared\<close> is the state of the three variables the fallback reads.
\<close>

record exchange_call =
  xc_exchange_id :: string
  xc_message_id :: string
  xc_sender :: bridge_capabilities
  xc_receiver :: bridge_capabilities
  xc_context :: transfer_context
  xc_elapsed :: rat

record prepared =
  pr_source :: structured_artifact
  pr_bytes :: string
  pr_hash :: "string option"

definition exchange_telemetry ::
    "exchange_call \<Rightarrow> prepared \<Rightarrow> string option \<Rightarrow> string option \<Rightarrow> string option \<Rightarrow> nat \<Rightarrow> fallback_reason option \<Rightarrow> bridge_telemetry" where
  "exchange_telemetry x p version codec h n reason =
     \<lparr>bt_exchange_id = xc_exchange_id x, bt_sender_id = bc_peer_id (xc_sender x), bt_receiver_id = bc_peer_id (xc_receiver x),
      bt_bridge_available = (reason = None), bt_latency_ms = max 0 (round_half_even (xc_elapsed x * 1000)),
      bt_protocol_version = version, bt_codec_id = codec, bt_source_sha256 = pr_hash p, bt_envelope_sha256 = h,
      bt_original_bytes = length (pr_bytes p), bt_encoded_bytes = n, bt_fallback_reason = reason\<rparr>"

definition bridge_fallback ::
    "exchange_call \<Rightarrow> prepared \<Rightarrow> fallback_reason \<Rightarrow> string option \<Rightarrow> string option \<Rightarrow> string option \<Rightarrow> nat \<Rightarrow> bridge_delivery" where
  "bridge_fallback x p reason version codec h n =
     \<lparr>bd_source = pr_source p, bd_used_bridge = False,
      bd_telemetry = exchange_telemetry x p version codec h n (Some reason), bd_derived = None\<rparr>"

text \<open>Revalidation of the source, its canonical bytes and its digest.\<close>

definition prepare_source ::
    "(rat \<Rightarrow> string) \<Rightarrow> (string \<Rightarrow> string) \<Rightarrow> bridge_limits \<Rightarrow> structured_artifact \<Rightarrow> prepared result" where
  "prepare_source repr sha256 l source =
     bindR (artifact_from_protocol repr l (artifact_to_protocol source)) (\<lambda>source.
     bindR (canonical_json_bytes repr (artifact_to_protocol source)) (\<lambda>bytes.
     bindR (artifact_sha256 repr sha256 source) (\<lambda>h.
     Inr \<lparr>pr_source = source, pr_bytes = bytes, pr_hash = Some h\<rparr>)))"

definition new_envelope :: "exchange_call \<Rightarrow> string \<Rightarrow> string \<Rightarrow> structured_artifact \<Rightarrow> bridge_envelope" where
  "new_envelope x version codec source =
     \<lparr>be_version = version, be_codec_id = codec, be_message_id = xc_message_id x, be_sender_id = bc_peer_id (xc_sender x),
      be_receiver_id = bc_peer_id (xc_receiver x), be_task_id = tc_task_id (xc_context x), be_payload = source\<rparr>"

text \<open>
  The guarded block: it ends with the digest, the bytes and the decoded envelope, or with the error and
  the variables that were bound when it was raised.
\<close>

definition carry ::
    "(rat \<Rightarrow> string) \<Rightarrow> (string \<Rightarrow> string) \<Rightarrow> bridge_limits \<Rightarrow> bridge_codec \<Rightarrow> bridge_envelope \<Rightarrow>
     (string option \<times> codec_bytes option \<times> codec_error) + (string \<times> string \<times> bridge_envelope)" where
  "carry repr sha256 l codec e =
     (case envelope_sha256 repr sha256 e of
        Inl err \<Rightarrow> Inl (None, None, codec_error_of err)
      | Inr h \<Rightarrow>
          (case cd_encode codec e l of
             Inl err \<Rightarrow> Inl (Some h, None, err)
           | Inr (Codec_Bytes b) \<Rightarrow>
               (case cd_decode codec b l of
                  Inl err \<Rightarrow> Inl (Some h, Some (Codec_Bytes b), err)
                | Inr decoded \<Rightarrow> Inr (h, b, decoded))
           | Inr other \<Rightarrow> Inl (Some h, Some other, Codec_Invalid ''codec encode result must be bytes'')))"

definition codec_reason :: "codec_error \<Rightarrow> fallback_reason" where
  "codec_reason e =
     (case e of
        Codec_Timeout \<Rightarrow> FB_TIMEOUT
      | Codec_Invalid m \<Rightarrow> if sublist ''SHA-256 mismatch'' m then FB_HASH_MISMATCH else FB_VALIDATION_FAILED
      | Codec_Failed \<Rightarrow> FB_DECODE_FAILED)"

text \<open>\<^verbatim>\<open>len(locals().get("encoded", b""))\<close> in the handlers.\<close>

definition encoded_length :: "codec_bytes option \<Rightarrow> nat result" where
  "encoded_length b =
     (case b of
        None \<Rightarrow> Inr 0
      | Some (Codec_Bytes b) \<Rightarrow> Inr (length b)
      | Some (Codec_Sized n) \<Rightarrow> Inr n
      | Some Codec_Unsized \<Rightarrow> Inl (TypeError ''object has no len()''))"

definition same_addressing :: "bridge_envelope \<Rightarrow> bridge_envelope \<Rightarrow> bool" where
  "same_addressing d e \<longleftrightarrow>
     be_version d = be_version e \<and> be_codec_id d = be_codec_id e \<and> be_message_id d = be_message_id e \<and>
     be_sender_id d = be_sender_id e \<and> be_receiver_id d = be_receiver_id e \<and> be_task_id d = be_task_id e"

definition deliver ::
    "(rat \<Rightarrow> string) \<Rightarrow> (string \<Rightarrow> string) \<Rightarrow> exchange_call \<Rightarrow> prepared \<Rightarrow> bridge_envelope \<Rightarrow> string \<Rightarrow> string \<Rightarrow> bridge_envelope \<Rightarrow>
     bridge_delivery result" where
  "deliver repr sha256 x p e h encoded decoded =
     (let back = (\<lambda>reason. bridge_fallback x p reason (Some (be_version e)) (Some (be_codec_id e)) (Some h) (length encoded)) in
      if \<not> same_addressing decoded e then Inr (back FB_VALIDATION_FAILED)
      else bindR (envelope_sha256 repr sha256 decoded) (\<lambda>h'.
        if h' \<noteq> h then Inr (back FB_HASH_MISMATCH)
        else Inr \<lparr>bd_source = pr_source p, bd_used_bridge = True,
               bd_telemetry = exchange_telemetry x p (Some (be_version e)) (Some (be_codec_id e)) (Some h') (length encoded) None,
               bd_derived = Some \<lparr>da_id = ''bridge-derived:'' @ xc_exchange_id x, da_source_id = sa_id (pr_source p),
                 da_content = sa_content (be_payload decoded), da_envelope_sha256 = h', da_codec_id = be_codec_id decoded\<rparr>\<rparr>))"

definition exchange_through ::
    "(rat \<Rightarrow> string) \<Rightarrow> (string \<Rightarrow> string) \<Rightarrow> bridge_limits \<Rightarrow> exchange_call \<Rightarrow> prepared \<Rightarrow> bridge_codec \<Rightarrow> string \<Rightarrow> string \<Rightarrow>
     bridge_delivery result" where
  "exchange_through repr sha256 l x p codec version codec_id =
     (let e = new_envelope x version codec_id (pr_source p) in
      case carry repr sha256 l codec e of
        Inl (h, encoded, err) \<Rightarrow>
          bindR (encoded_length encoded) (\<lambda>n.
          Inr (bridge_fallback x p (codec_reason err) (Some version) (Some codec_id) h n))
      | Inr (h, encoded, decoded) \<Rightarrow> deliver repr sha256 x p e h encoded decoded)"

definition exchange ::
    "(rat \<Rightarrow> string) \<Rightarrow> (string \<Rightarrow> string) \<Rightarrow> bridge_foundation \<Rightarrow> exchange_call \<Rightarrow> structured_artifact \<Rightarrow> bridge_delivery result" where
  "exchange repr sha256 f x source =
     (let l = bg_limits (bf_config f);
          p = \<lparr>pr_source = source, pr_bytes = [], pr_hash = None\<rparr>;
          selected = negotiate (xc_sender x) (xc_receiver x)
      in if \<not> bg_enabled (bf_config f) then Inr (bridge_fallback x p FB_DISABLED None None None 0)
         else if \<not> bridge_allowed (xc_context x) then Inr (bridge_fallback x p FB_FORBIDDEN_AUTHORITY None None None 0)
         else if \<not> bn_available selected
         then Inr (bridge_fallback x p (case bn_fallback_reason selected of None \<Rightarrow> FB_UNSUPPORTED | Some r \<Rightarrow> r) None None None 0)
         else case (bn_version selected, bn_codec_id selected, bn_max_payload_bytes selected) of
           (Some version, Some codec_id, Some payload_limit) \<Rightarrow>
             (case map_of (bf_codecs f) codec_id of
                None \<Rightarrow> Inr (bridge_fallback x p FB_UNSUPPORTED (Some version) (Some codec_id) None 0)
              | Some codec \<Rightarrow>
                  (case prepare_source repr sha256 l source of
                     Inl (BridgeValidationError _) \<Rightarrow>
                       Inr (bridge_fallback x p FB_VALIDATION_FAILED (Some version) (Some codec_id) None 0)
                   | Inl err \<Rightarrow> Inl err
                   | Inr p \<Rightarrow>
                       if min payload_limit (bl_max_payload_bytes l) < int (length (pr_bytes p))
                       then Inr (bridge_fallback x p FB_PAYLOAD_LIMIT (Some version) (Some codec_id) None 0)
                       else exchange_through repr sha256 l x p codec version codec_id))
         | _ \<Rightarrow> Inl (RuntimeError ''AssertionError''))"

section \<open>Canonical order\<close>

lemma foldr_max_set: "set xs = set ys \<Longrightarrow> foldr max xs a = foldr max ys (a :: 'a :: linorder)"
  by (rule antisym; unfold foldr_max_le) (metis foldr_max_le order_refl)+

lemma jsonable_sort_keys [simp]: "jsonable (sort_keys v) = jsonable v"
  by (induction v rule: sort_keys.induct) (auto simp: is_str_key_def)

lemma short_strings_sort_keys [simp]: "short_strings b (sort_keys v) = short_strings b v"
  by (induction v rule: sort_keys.induct) auto

lemma value_depth_sort_keys [simp]: "value_depth (sort_keys v) = value_depth v"
proof (induction v rule: sort_keys.induct)
  case (2 items)
  have "set (map (\<lambda>(k, v). 1 + value_depth v) (sort_key (\<lambda>i. key_text (fst i)) (map (\<lambda>(k, v). (k, sort_keys v)) items))) =
    set (map (\<lambda>(k, v). 1 + value_depth v) items)"
    using 2 by (force simp: image_image case_prod_beta)
  from foldr_max_set [OF this] show ?case by simp
qed (simp_all cong: map_cong)

lemma value_items_sort_keys [simp]: "value_items (sort_keys v) = value_items v"
proof (induction v rule: sort_keys.induct)
  case (2 items)
  have "sum_list (map (\<lambda>(k, v). value_items v) (sort_key (\<lambda>i. key_text (fst i)) (map (\<lambda>(k, v). (k, sort_keys v)) items))) =
    sum_list (map (\<lambda>(k, v). value_items v) (map (\<lambda>(k, v). (k, sort_keys v)) items))"
    unfolding sum_mset_sum_list [symmetric] mset_map mset_sort ..
  also have "\<dots> = sum_list (map (\<lambda>(k, v). value_items v) items)"
    using 2 by (auto simp: case_prod_beta intro!: arg_cong [of _ _ sum_list])
  finally show ?case by simp
qed (simp_all add: comp_def cong: map_cong)

lemma sort_keys_idem [simp]: "sort_keys (sort_keys v) = sort_keys v"
proof (induction v rule: sort_keys.induct)
  case (2 items)
  let ?s = "sort_key (\<lambda>i. key_text (fst i)) (map (\<lambda>(k, v). (k, sort_keys v)) items)"
  have "map (\<lambda>(k, v). (k, sort_keys v)) ?s = ?s"
    using 2 by (intro map_idI) auto
  moreover have "sort_key (\<lambda>i. key_text (fst i)) ?s = ?s" by (simp add: sort_key_id_if_sorted)
  ultimately show ?case by simp
qed simp_all

lemma canonical_sorted [simp]: "canonical_json_bytes repr (sort_keys v) = canonical_json_bytes repr v"
  by (simp add: canonical_json_bytes_def)

lemma within_limits_sort_keys [simp]: "within_limits l (sort_keys v) depth n = within_limits l v depth n"
  by (simp add: within_limits_def)

lemma validate_json_Inr:
  assumes "0 \<le> bl_max_container_items l"
  shows "validate_json repr l payload v = Inr v' \<longleftrightarrow>
    within_limits l v 0 0 \<and> v' = v \<and> (payload \<longrightarrow> int (length (utf8 (json_text repr (sort_keys v)))) \<le> bl_max_payload_bytes l)"
  using assms
  by (auto simp: validate_json_def visit_spec canonical_json_bytes_def within_limits_def split: if_splits)

section \<open>What the bridge promises\<close>

text \<open>
  C1. Validation accepts exactly the trees within the limits: the traversal with its running counter
  agrees with the measures of the tree (nesting, total number of container items, longest string), and
  what it returns is the value it was given.
\<close>

theorem validate_json_iff:
  assumes "check_limits l = Inr ()"
  shows "validate_json repr l payload v = Inr v' \<longleftrightarrow>
    v' = v \<and> jsonable v \<and> value_depth v \<le> bl_max_depth l \<and> value_items v \<le> bl_max_container_items l \<and>
    short_strings (bl_max_string_bytes l) v \<and>
    (payload \<longrightarrow> int (length (utf8 (json_text repr (sort_keys v)))) \<le> bl_max_payload_bytes l)"
proof -
  have "0 \<le> bl_max_container_items l" using assms by (simp add: check_limits_def)
  then show ?thesis by (auto simp: validate_json_Inr within_limits_def)
qed

lemma field_value_simps [simp]:
  "field_value k ((KStr k', v) # items) = (if k = k' then v else field_value k items)"
  by (simp add: field_value_def)

lemma artifact_from_to:
  assumes "0 \<le> bl_max_container_items l"
  shows "artifact_from_protocol repr l (artifact_to_protocol a) = Inr a' \<longleftrightarrow>
    a' = a \<and> check_artifact a = Inr () \<and> validate_json repr l True (sa_content a) = Inr (sa_content a)"
  using assms
  by (cases a) (auto simp: artifact_from_protocol_def artifact_to_protocol_def exact_fields_def non_empty_def check_artifact_def
      validate_json_Inr Let_def)

lemma prepare_source_Inr:
  assumes "prepare_source repr sha256 l source = Inr p" and "0 \<le> bl_max_container_items l"
  shows "pr_source p = source" and "canonical_json_bytes repr (artifact_to_protocol source) = Inr (pr_bytes p)"
    and "within_limits l (sa_content source) 0 0" and "check_artifact source = Inr ()"
    and "int (length (utf8 (json_text repr (sort_keys (sa_content source))))) \<le> bl_max_payload_bytes l"
  using assms by (auto simp: prepare_source_def artifact_from_to validate_json_Inr)

text \<open>The one way an exchange reaches a codec.\<close>

definition reaches_codec ::
    "(rat \<Rightarrow> string) \<Rightarrow> (string \<Rightarrow> string) \<Rightarrow> bridge_foundation \<Rightarrow> exchange_call \<Rightarrow> structured_artifact \<Rightarrow> prepared \<Rightarrow> bridge_codec \<Rightarrow>
     string \<Rightarrow> string \<Rightarrow> bool" where
  "reaches_codec repr sha256 f x source p codec version codec_id \<longleftrightarrow>
     bg_enabled (bf_config f) \<and> tc_authorities (xc_context x) = [] \<and> bc_available (xc_sender x) \<and> bc_available (xc_receiver x) \<and>
     version \<in> set (bc_versions (xc_sender x)) \<inter> set (bc_versions (xc_receiver x)) \<and>
     codec_id \<in> set (bc_codecs (xc_sender x)) \<inter> set (bc_codecs (xc_receiver x)) \<and>
     map_of (bf_codecs f) codec_id = Some codec \<and> prepare_source repr sha256 (bg_limits (bf_config f)) source = Inr p \<and>
     int (length (pr_bytes p)) \<le> bc_max_payload_bytes (xc_sender x) \<and> int (length (pr_bytes p)) \<le> bc_max_payload_bytes (xc_receiver x) \<and>
     int (length (pr_bytes p)) \<le> bl_max_payload_bytes (bg_limits (bf_config f))"

lemma negotiate_cases:
  "(\<exists>version codec. negotiate own remote =
      \<lparr>bn_available = True, bn_version = Some version, bn_codec_id = Some codec,
       bn_max_payload_bytes = Some (min (bc_max_payload_bytes own) (bc_max_payload_bytes remote)), bn_fallback_reason = None\<rparr> \<and>
      bc_available own \<and> bc_available remote \<and> version \<in> set (bc_versions own) \<inter> set (bc_versions remote) \<and>
      codec \<in> set (bc_codecs own) \<inter> set (bc_codecs remote)) \<or>
   (\<exists>r. negotiate own remote = refused r)"
  by (auto simp: negotiate_def find_Some_iff split: option.splits)

text \<open>Nothing but \<^verbatim>\<open>BridgeValidationError\<close> comes out of the validation of a source.\<close>

lemma raised: "raise_if b e = Inl e' \<longleftrightarrow> b \<and> e' = e"
  by (auto simp: raise_if_def)

lemma visit_error:
  "visit l v depth n = Inl e \<Longrightarrow> \<exists>m. e = BridgeValidationError m"
  "visit_list l vs depth n = Inl e \<Longrightarrow> \<exists>m. e = BridgeValidationError m"
  "visit_items l items depth n = Inl e \<Longrightarrow> \<exists>m. e = BridgeValidationError m"
proof (induction l v depth n and l vs depth n and l items depth n rule: visit_visit_list_visit_items.induct)
  case (1 l node depth n)
  then show ?case
    by (cases node) (fastforce simp: visit.simps [of l _ depth n] bindR_Inl_iff raised)+
qed (fastforce simp: bindR_Inl_iff)+

lemma canonical_error: "canonical_json_bytes repr v = Inl e \<Longrightarrow> \<exists>m. e = BridgeValidationError m"
  by (auto simp: canonical_json_bytes_def bindR_Inl_iff raised)

lemma validate_json_error: "validate_json repr l payload v = Inl e \<Longrightarrow> \<exists>m. e = BridgeValidationError m"
  by (auto simp: validate_json_def bindR_Inl_iff raised dest: visit_error(1) canonical_error split: if_splits)

lemma non_empty_error: "non_empty v what = Inl e \<Longrightarrow> \<exists>m. e = BridgeValidationError m"
  by (auto simp: non_empty_def split: py_value.splits if_splits)

lemma artifact_error: "artifact_from_protocol repr l v = Inl e \<Longrightarrow> \<exists>m. e = BridgeValidationError m"
  by (auto simp: artifact_from_protocol_def check_artifact_def bindR_Inl_iff raised Let_def split: py_value.splits
      dest: validate_json_error non_empty_error)

lemma prepare_source_error: "prepare_source repr sha256 l source = Inl e \<Longrightarrow> \<exists>m. e = BridgeValidationError m"
  by (auto simp: prepare_source_def artifact_sha256_def bindR_Inl_iff dest: artifact_error canonical_error)

lemma exchange_cases:
  "(\<exists>p reason version codec. exchange repr sha256 f x source = Inr (bridge_fallback x p reason version codec None 0) \<and>
      (pr_source p = source \<or> prepare_source repr sha256 (bg_limits (bf_config f)) source = Inr p)) \<or>
   (\<exists>p codec version codec_id. reaches_codec repr sha256 f x source p codec version codec_id \<and>
      exchange repr sha256 f x source = exchange_through repr sha256 (bg_limits (bf_config f)) x p codec version codec_id)"
proof (cases "bg_enabled (bf_config f) \<and> bridge_allowed (xc_context x) \<and> bn_available (negotiate (xc_sender x) (xc_receiver x))")
  case False
  then show ?thesis by (fastforce simp: exchange_def Let_def)
next
  case True
  with negotiate_cases [of "xc_sender x" "xc_receiver x"] obtain version codec_id where
    n: "negotiate (xc_sender x) (xc_receiver x) = \<lparr>bn_available = True, bn_version = Some version, bn_codec_id = Some codec_id,
       bn_max_payload_bytes = Some (min (bc_max_payload_bytes (xc_sender x)) (bc_max_payload_bytes (xc_receiver x))),
       bn_fallback_reason = None\<rparr>" "bc_available (xc_sender x)" "bc_available (xc_receiver x)"
      "version \<in> set (bc_versions (xc_sender x)) \<inter> set (bc_versions (xc_receiver x))"
      "codec_id \<in> set (bc_codecs (xc_sender x)) \<inter> set (bc_codecs (xc_receiver x))"
    by (auto simp: refused_def)
  show ?thesis
  proof (cases "map_of (bf_codecs f) codec_id")
    case None
    with True n(1) show ?thesis by (fastforce simp: exchange_def Let_def)
  next
    case (Some codec)
    show ?thesis
    proof (cases "prepare_source repr sha256 (bg_limits (bf_config f)) source")
      case (Inl e)
      with prepare_source_error [OF Inl] True n(1) Some show ?thesis by (fastforce simp: exchange_def Let_def)
    next
      case (Inr p)
      with True n Some show ?thesis
        by (cases "min (min (bc_max_payload_bytes (xc_sender x)) (bc_max_payload_bytes (xc_receiver x)))
            (bl_max_payload_bytes (bg_limits (bf_config f))) < int (length (pr_bytes p))")
          (fastforce simp: exchange_def Let_def reaches_codec_def bridge_allowed_def)+
    qed
  qed
qed

lemma deliver_Inr:
  assumes "deliver repr sha256 x p e h encoded decoded = Inr d"
  shows "bd_source d = pr_source p"
    and "bd_derived d = None \<longleftrightarrow> delivery_fallback_reason d \<noteq> None"
    and "bd_derived d = None \<longleftrightarrow> \<not> bd_used_bridge d"
    and "bd_derived d = Some a \<Longrightarrow> same_addressing decoded e \<and> envelope_sha256 repr sha256 decoded = Inr h \<and>
      da_envelope_sha256 a = h \<and> da_content a = sa_content (be_payload decoded)"
  using assms
  by (auto simp: deliver_def Let_def bridge_fallback_def delivery_fallback_reason_def exchange_telemetry_def split: if_splits)

lemma fallback_fields [simp]:
  "bd_source (bridge_fallback x p reason version codec h n) = pr_source p"
  "bd_derived (bridge_fallback x p reason version codec h n) = None"
  "\<not> bd_used_bridge (bridge_fallback x p reason version codec h n)"
  "delivery_fallback_reason (bridge_fallback x p reason version codec h n) = Some reason"
  by (simp_all add: bridge_fallback_def delivery_fallback_reason_def exchange_telemetry_def)

lemma carry_Inr:
  "carry repr sha256 l codec e = Inr (h, b, decoded) \<longleftrightarrow>
     envelope_sha256 repr sha256 e = Inr h \<and> cd_encode codec e l = Inr (Codec_Bytes b) \<and> cd_decode codec b l = Inr decoded"
  by (auto simp: carry_def split: sum.splits codec_bytes.splits)

lemma exchange_through_Inr:
  assumes "exchange_through repr sha256 l x p codec version codec_id = Inr d"
  shows "bd_source d = pr_source p"
    and "bd_derived d = None \<longleftrightarrow> delivery_fallback_reason d \<noteq> None"
    and "bd_derived d = None \<longleftrightarrow> \<not> bd_used_bridge d"
    and "bd_derived d = Some a \<Longrightarrow> \<exists>b decoded.
      carry repr sha256 l codec (new_envelope x version codec_id (pr_source p)) = Inr (da_envelope_sha256 a, b, decoded) \<and>
      same_addressing decoded (new_envelope x version codec_id (pr_source p)) \<and>
      envelope_sha256 repr sha256 decoded = Inr (da_envelope_sha256 a) \<and> da_content a = sa_content (be_payload decoded)"
  using assms
  by (auto simp: exchange_through_def Let_def split: sum.splits prod.splits dest: deliver_Inr)

text \<open>
  C2. The source is never lost: every delivery carries the artifact the caller passed, unchanged, and it
  has a derived artifact exactly when it has no reason to fall back.
\<close>

theorem bridge_keeps_source:
  assumes "exchange repr sha256 f x source = Inr d" and "check_limits (bg_limits (bf_config f)) = Inr ()"
  shows "bd_source d = source \<and> (bd_derived d = None \<longleftrightarrow> delivery_fallback_reason d \<noteq> None) \<and>
    (bd_used_bridge d \<longleftrightarrow> bd_derived d \<noteq> None)"
proof -
  have l: "0 \<le> bl_max_container_items (bg_limits (bf_config f))" using assms(2) by (simp add: check_limits_def)
  from exchange_cases [of repr sha256 f x source] show ?thesis
  proof (elim disjE exE conjE)
    fix p codec version codec_id
    assume "reaches_codec repr sha256 f x source p codec version codec_id"
      and "exchange repr sha256 f x source = exchange_through repr sha256 (bg_limits (bf_config f)) x p codec version codec_id"
    with assms(1) exchange_through_Inr [of repr sha256 "bg_limits (bf_config f)" x p codec version codec_id d] show ?thesis
      using prepare_source_Inr(1) [OF _ l] by (auto simp: reaches_codec_def)
  qed (use assms(1) prepare_source_Inr(1) [OF _ l] in auto)
qed

text \<open>
  C3. A derived artifact exists only when the bridge is enabled, the transfer carries no authority, both
  peers support the version and the codec, and the source is valid and within every byte limit; its
  content comes from a decoded envelope with the addressing and the digest of the envelope that was sent.
\<close>

theorem bridge_used_only_if_allowed:
  assumes "exchange repr sha256 f x source = Inr d" and "bd_derived d = Some a" and "check_limits (bg_limits (bf_config f)) = Inr ()"
  shows "\<exists>p codec version codec_id decoded.
    reaches_codec repr sha256 f x source p codec version codec_id \<and>
    within_limits (bg_limits (bf_config f)) (sa_content source) 0 0 \<and>
    same_addressing decoded (new_envelope x version codec_id source) \<and>
    envelope_sha256 repr sha256 decoded = envelope_sha256 repr sha256 (new_envelope x version codec_id source) \<and>
    envelope_sha256 repr sha256 decoded = Inr (da_envelope_sha256 a) \<and> da_content a = sa_content (be_payload decoded)"
proof -
  have l: "0 \<le> bl_max_container_items (bg_limits (bf_config f))" using assms(3) by (simp add: check_limits_def)
  from exchange_cases [of repr sha256 f x source] assms(1,2) obtain p codec version codec_id where
    r: "reaches_codec repr sha256 f x source p codec version codec_id"
    and e: "exchange_through repr sha256 (bg_limits (bf_config f)) x p codec version codec_id = Inr d"
    by auto
  then have p: "pr_source p = source" "within_limits (bg_limits (bf_config f)) (sa_content source) 0 0"
    using prepare_source_Inr(1,3) [OF _ l] by (auto simp: reaches_codec_def)
  from exchange_through_Inr(4) [OF e assms(2)] obtain b decoded where
    "carry repr sha256 (bg_limits (bf_config f)) codec (new_envelope x version codec_id source) = Inr (da_envelope_sha256 a, b, decoded)"
    "same_addressing decoded (new_envelope x version codec_id source)"
    "envelope_sha256 repr sha256 decoded = Inr (da_envelope_sha256 a)" "da_content a = sa_content (be_payload decoded)"
    unfolding p(1) by blast
  with r p(2) show ?thesis
    by (intro exI [of _ p] exI [of _ codec] exI [of _ version] exI [of _ codec_id] exI [of _ decoded]) (simp add: carry_Inr)
qed

text \<open>
  C4. The only exceptions that leave an exchange come from a codec: it returned an object without a
  length instead of bytes, or an envelope whose payload cannot be written as JSON.
\<close>

theorem exchange_raises_only:
  assumes "exchange repr sha256 f x source = Inl e"
  shows "\<exists>k codec sent. map_of (bf_codecs f) k = Some codec \<and>
    (cd_encode codec sent (bg_limits (bf_config f)) = Inr Codec_Unsized \<or>
     (\<exists>b decoded. cd_decode codec b (bg_limits (bf_config f)) = Inr decoded \<and> \<not> jsonable (sa_content (be_payload decoded))))"
proof -
  from exchange_cases [of repr sha256 f x source] assms obtain p codec version codec_id where
    r: "map_of (bf_codecs f) codec_id = Some codec"
    and e: "exchange_through repr sha256 (bg_limits (bf_config f)) x p codec version codec_id = Inl e"
    by (auto simp: reaches_codec_def)
  let ?e = "new_envelope x version codec_id (pr_source p)"
  show ?thesis
  proof (cases "carry repr sha256 (bg_limits (bf_config f)) codec ?e")
    case (Inl failure)
    with e have "cd_encode codec ?e (bg_limits (bf_config f)) = Inr Codec_Unsized"
      by (auto simp: exchange_through_def carry_def encoded_length_def Let_def bindR_Inl_iff split: sum.splits codec_bytes.splits option.splits)
    with r show ?thesis by blast
  next
    case (Inr ok)
    with e obtain h b decoded where c: "carry repr sha256 (bg_limits (bf_config f)) codec ?e = Inr (h, b, decoded)"
      and "deliver repr sha256 x p ?e h b decoded = Inl e"
      by (cases ok) (auto simp: exchange_through_def Let_def)
    then have "\<not> jsonable (sa_content (be_payload decoded))"
      by (auto simp: deliver_def Let_def bindR_Inl_iff envelope_sha256_def canonical_json_bytes_def raised body_protocol_def
          envelope_items_def artifact_to_protocol_def is_str_key_def split: if_splits)
    moreover have "cd_decode codec b (bg_limits (bf_config f)) = Inr decoded" using c by (simp add: carry_Inr)
    ultimately show ?thesis using r by blast
  qed
qed

section \<open>The identity codec\<close>

definition signed_items :: "bridge_envelope \<Rightarrow> string \<Rightarrow> py_value" where
  "signed_items e h = VDict (envelope_items e @ [(KStr ''envelopeSha256'', VStr h)])"

definition sorted_payload :: "bridge_envelope \<Rightarrow> bridge_envelope" where
  "sorted_payload e = e\<lparr>be_payload := (be_payload e)\<lparr>sa_content := sort_keys (sa_content (be_payload e))\<rparr>\<rparr>"

definition filled_envelope :: "bridge_envelope \<Rightarrow> bool" where
  "filled_envelope e \<longleftrightarrow> list_all nonblank [be_version e, be_codec_id e, be_message_id e, be_sender_id e, be_receiver_id e, be_task_id e,
     sa_id (be_payload e), sa_type (be_payload e)]"

lemma sort_signed:
  "sort_keys (signed_items e h) =
     VDict [(KStr ''bridgeVersion'', VStr (be_version e)), (KStr ''codecID'', VStr (be_codec_id e)),
       (KStr ''envelopeSha256'', VStr h), (KStr ''messageID'', VStr (be_message_id e)),
       (KStr ''payload'', artifact_to_protocol (be_payload (sorted_payload e))),
       (KStr ''receiverID'', VStr (be_receiver_id e)), (KStr ''senderID'', VStr (be_sender_id e)), (KStr ''taskID'', VStr (be_task_id e))]"
  by (simp add: signed_items_def envelope_items_def artifact_to_protocol_def sorted_payload_def less_eq_char_def)

lemma body_sorted: "sort_keys (body_protocol (sorted_payload e)) = sort_keys (body_protocol e)"
  by (simp add: body_protocol_def envelope_items_def artifact_to_protocol_def sorted_payload_def)

lemma sha_sorted: "envelope_sha256 repr sha256 (sorted_payload e) = envelope_sha256 repr sha256 e"
  unfolding envelope_sha256_def by (metis body_sorted canonical_sorted)

lemma within_payload:
  "within_limits l (signed_items e h) 0 0 \<Longrightarrow> within_limits l (sa_content (be_payload e)) 0 0"
  using items_nonneg
  by (auto simp: within_limits_def signed_items_def envelope_items_def artifact_to_protocol_def)

lemma to_bytes_Inr:
  "envelope_to_bytes repr sha256 l e = Inr encoded \<longleftrightarrow>
     (\<exists>h. envelope_sha256 repr sha256 e = Inr h \<and> canonical_json_bytes repr (signed_items e h) = Inr encoded \<and>
       int (length encoded) \<le> bl_max_envelope_bytes l)"
  by (auto simp: envelope_to_bytes_def envelope_to_protocol_def signed_items_def)

text \<open>
  Writing an envelope and reading it back gives the envelope, with the fields of its payload in
  canonical order, for every envelope with filled fields that fits the limits as a whole. The parser is
  assumed to invert the canonical text of this envelope.
\<close>

lemma envelope_round_trip:
  assumes "check_limits l = Inr ()" and "envelope_to_bytes repr sha256 l e = Inr encoded" and "filled_envelope e"
    and "envelope_sha256 repr sha256 e = Inr h" and "within_limits l (signed_items e h) 0 0"
    and "int (length (utf8 (json_text repr (sort_keys (sa_content (be_payload e)))))) \<le> bl_max_payload_bytes l"
    and loads_dumps: "loads strict_object encoded = Inr (sort_keys (signed_items e h))"
  shows "envelope_from_bytes repr sha256 loads l encoded = Inr (sorted_payload e)"
proof -
  have l: "0 \<le> bl_max_container_items l" using assms(1) by (simp add: check_limits_def)
  have "validate_json repr l False (sort_keys (signed_items e h)) = Inr (sort_keys (signed_items e h))"
    using assms(5) by (simp add: validate_json_Inr l)
  moreover have "artifact_from_protocol repr l (artifact_to_protocol (be_payload (sorted_payload e))) = Inr (be_payload (sorted_payload e))"
    using assms(3,6) within_payload [OF assms(5)]
    by (simp add: artifact_from_to [OF l] validate_json_Inr l sorted_payload_def filled_envelope_def check_artifact_def non_empty_def)
  moreover have "int (length encoded) \<le> bl_max_envelope_bytes l" using assms(2) by (auto simp: to_bytes_Inr)
  moreover have "sorted_payload e = \<lparr>be_version = be_version e, be_codec_id = be_codec_id e, be_message_id = be_message_id e,
      be_sender_id = be_sender_id e, be_receiver_id = be_receiver_id e, be_task_id = be_task_id e,
      be_payload = be_payload (sorted_payload e)\<rparr>"
    by (cases e) (simp add: sorted_payload_def)
  ultimately have r: "read_envelope repr l (envelope_items (sorted_payload e)) = Inr (sorted_payload e)"
    and b: "validate_json repr l False (sort_keys (signed_items e h)) = Inr (sort_keys (signed_items e h))"
      "int (length encoded) \<le> bl_max_envelope_bytes l"
    using assms(3) by (simp_all add: read_envelope_def envelope_items_def non_empty_def filled_envelope_def sorted_payload_def)
  obtain items where s: "sort_keys (signed_items e h) = VDict items"
    and items: "exact_fields envelope_fields items" "field_value ''envelopeSha256'' items = VStr h"
      "read_envelope repr l items = read_envelope repr l (envelope_items (sorted_payload e))"
    by (rule that [OF sort_signed])
       (simp_all add: exact_fields_def envelope_fields_def set_eq_subset read_envelope_def envelope_items_def sorted_payload_def)
  show ?thesis
    using b items r loads_dumps assms(4) by (simp add: envelope_from_bytes_def parse_envelope_def s sha_sorted)
qed

lemma advertised:
  assumes "bf_codecs f = [(k, codec)]" and "foundation_capabilities f peer = Inr c"
  shows "c = \<lparr>bc_peer_id = peer, bc_versions = [bridge_version_id], bc_codecs = [k],
    bc_max_payload_bytes = bl_max_payload_bytes (bg_limits (bf_config f)), bc_available = bg_enabled (bf_config f)\<rparr>"
  using assms by (auto simp: foundation_capabilities_def Let_def)

text \<open>
  C5. The identity codec delivers: between two peers that advertise a foundation with the identity codec,
  an admissible source whose envelope fits the limits arrives as a derived artifact with the content of
  the source, its fields in canonical order.
\<close>

theorem identity_bridge_delivers:
  assumes "new_foundation repr sha256 loads (Some config) [] = Inr f" and "bg_enabled config" and "check_limits (bg_limits config) = Inr ()"
    and "foundation_capabilities f peer1 = Inr (xc_sender x)" and "foundation_capabilities f peer2 = Inr (xc_receiver x)"
    and "bridge_allowed (xc_context x)"
    and e: "e = new_envelope x bridge_version_id identity_codec_id source" and "filled_envelope e"
    and "envelope_sha256 repr sha256 e = Inr h" and "within_limits (bg_limits config) (signed_items e h) 0 0"
    and "prepare_source repr sha256 (bg_limits config) source = Inr p"
    and "int (length (pr_bytes p)) \<le> bl_max_payload_bytes (bg_limits config)"
    and "envelope_to_bytes repr sha256 (bg_limits config) e = Inr encoded"
    and loads_dumps: "loads strict_object encoded = Inr (sort_keys (signed_items e h))"
  shows "\<exists>d a. exchange repr sha256 f x source = Inr d \<and> bd_derived d = Some a \<and> da_content a = sort_keys (sa_content source)"
proof -
  let ?l = "bg_limits config"
  have l: "0 \<le> bl_max_container_items ?l" using assms(3) by (simp add: check_limits_def)
  have f: "bf_config f = config" "bf_codecs f = [(identity_codec_id, identity_codec repr sha256 loads)]"
    using assms(1) by (auto simp: new_foundation_def Let_def)
  have n: "negotiate (xc_sender x) (xc_receiver x) = \<lparr>bn_available = True, bn_version = Some bridge_version_id,
      bn_codec_id = Some identity_codec_id, bn_max_payload_bytes = Some (bl_max_payload_bytes ?l), bn_fallback_reason = None\<rparr>"
    using advertised [OF f(2) assms(4)] advertised [OF f(2) assms(5)] assms(2) by (simp add: f negotiate_def)
  note p = prepare_source_Inr [OF assms(11) l]
  have r: "envelope_from_bytes repr sha256 loads ?l encoded = Inr (sorted_payload e)"
    using envelope_round_trip [OF assms(3,13,8,9,10) _, where loads = loads] loads_dumps p(5) by (simp add: e new_envelope_def)
  have "carry repr sha256 ?l (identity_codec repr sha256 loads) e = Inr (h, encoded, sorted_payload e)"
    using r assms(9,13) by (simp add: carry_Inr identity_codec_def codec_outcome_def identity_decode_def sorted_payload_def e new_envelope_def)
  moreover have "same_addressing (sorted_payload e) e" by (simp add: same_addressing_def sorted_payload_def)
  ultimately obtain d a where d: "exchange_through repr sha256 ?l x p (identity_codec repr sha256 loads) bridge_version_id identity_codec_id = Inr d"
    "bd_derived d = Some a" "da_content a = sa_content (be_payload (sorted_payload e))"
    using assms(9) by (simp add: exchange_through_def p(1) e [symmetric] deliver_def Let_def sha_sorted)
  have "exchange repr sha256 f x source = Inr d"
    using d(1) n assms(2,6,11,12) by (simp add: exchange_def f)
  with d(2,3) show ?thesis by (simp add: e sorted_payload_def new_envelope_def)
qed

section \<open>Examples\<close>

definition bridge_source :: structured_artifact where
  "bridge_source = \<lparr>sa_id = ''a'', sa_type = ''t'', sa_content = VDict [(KStr ''n'', VBool True), (KStr ''b'', VNull)]\<rparr>"

definition bridge_peer :: "string \<Rightarrow> string \<Rightarrow> bridge_capabilities" where
  "bridge_peer codec i = \<lparr>bc_peer_id = i, bc_versions = [bridge_version_id], bc_codecs = [codec], bc_max_payload_bytes = 131072, bc_available = True\<rparr>"

definition bridge_call :: "string \<Rightarrow> exchange_call" where
  "bridge_call codec = \<lparr>xc_exchange_id = ''x'', xc_message_id = ''m'', xc_sender = bridge_peer codec ''p'', xc_receiver = bridge_peer codec ''q'',
     xc_context = \<lparr>tc_task_id = ''k'', tc_authorities = []\<rparr>, xc_elapsed = 0\<rparr>"

definition bridge_enabled :: bridge_config where
  "bridge_enabled = default_bridge_config\<lparr>bg_enabled := True\<rparr>"

text \<open>A codec that answers with a fixed outcome, and the foundation that knows no other.\<close>

definition fixed_codec :: "codec_bytes \<Rightarrow> bridge_envelope \<Rightarrow> bridge_codec" where
  "fixed_codec b e = \<lparr>cd_id = ''c'', cd_encode = (\<lambda>_ _. Inr b), cd_decode = (\<lambda>_ _. Inr e)\<rparr>"

definition fixed_foundation :: "codec_bytes \<Rightarrow> bridge_envelope \<Rightarrow> bridge_foundation" where
  "fixed_foundation b e = \<lparr>bf_config = bridge_enabled, bf_codecs = [(''c'', fixed_codec b e)]\<rparr>"

lemmas bridge_simps = bridge_source_def bridge_enabled_def default_bridge_config_def default_limits_def check_limits_def

lemma bridge_defaults [simp]: "check_limits default_limits = Inr ()" "bg_limits bridge_enabled = default_limits" "bg_enabled bridge_enabled"
  by (simp_all add: bridge_simps)

lemma utf8_ascii: "list_all (\<lambda>c. (of_char c :: nat) < 128) s \<Longrightarrow> utf8 s = s"
  by (induction s) (simp_all add: utf8_def utf8_char_def)

lemmas text_simps = canonical_json_bytes_def artifact_to_protocol_def is_str_key_def json_string_def json_escape_def less_eq_char_def

lemma sample_valid:
  "check_artifact bridge_source = Inr ()" "validate_json repr default_limits True (sa_content bridge_source) = Inr (sa_content bridge_source)"
  by (simp_all add: bridge_source_def default_limits_def check_artifact_def non_empty_def py_isspace_def validate_json_Inr within_limits_def
      text_simps utf8_ascii)

lemma sample_source_bytes:
  "canonical_json_bytes repr (artifact_to_protocol bridge_source) =
     Inr (''{'' @ json_string ''artifactID'' @ '':'' @ json_string ''a'' @ '','' @ json_string ''artifactType'' @ '':'' @ json_string ''t'' @ '','' @
       json_string ''content'' @ '':{'' @ json_string ''b'' @ '':null,'' @ json_string ''n'' @ '':true}}'')"
  by (simp add: bridge_source_def text_simps utf8_ascii)

lemma bridge_prepared:
  "\<exists>p. prepare_source repr sha256 default_limits bridge_source = Inr p \<and> pr_source p = bridge_source \<and> int (length (pr_bytes p)) \<le> 131072"
  using sample_valid
  by (simp add: prepare_source_def artifact_from_to default_limits_def sample_source_bytes artifact_sha256_def json_string_def json_escape_def)

lemma sample_hash:
  "envelope_sha256 repr sha256 (new_envelope x version k bridge_source) =
     Inr (sha256 (utf8 (json_text repr (sort_keys (body_protocol (new_envelope x version k bridge_source))))))"
  by (simp add: envelope_sha256_def canonical_json_bytes_def body_protocol_def envelope_items_def new_envelope_def artifact_to_protocol_def
      is_str_key_def bridge_source_def)

lemma sample_negotiated:
  "negotiate (bridge_peer k i) (bridge_peer k j) = \<lparr>bn_available = True, bn_version = Some bridge_version_id,
     bn_codec_id = Some k, bn_max_payload_bytes = Some 131072, bn_fallback_reason = None\<rparr>"
  by (simp add: negotiate_def bridge_peer_def)

definition sent_sample :: "bridge_envelope" where
  "sent_sample = new_envelope (bridge_call ''c'') bridge_version_id ''c'' bridge_source"

lemma fixed_exchange:
  obtains p where "pr_source p = bridge_source"
    "exchange repr sha256 (fixed_foundation b e) (bridge_call ''c'') bridge_source =
       exchange_through repr sha256 default_limits (bridge_call ''c'') p (fixed_codec b e) bridge_version_id ''c''"
  using bridge_prepared [of repr sha256]
  by (auto simp: exchange_def fixed_foundation_def bridge_call_def bridge_allowed_def sample_negotiated Let_def)
     (auto simp: default_limits_def)

lemma sample_delivered:
  "\<exists>d a. exchange repr sha256 (fixed_foundation (Codec_Bytes []) sent_sample) (bridge_call ''c'') bridge_source = Inr d \<and> bd_derived d = Some a"
proof -
  obtain p where p: "pr_source p = bridge_source"
    "exchange repr sha256 (fixed_foundation (Codec_Bytes []) sent_sample) (bridge_call ''c'') bridge_source =
       exchange_through repr sha256 default_limits (bridge_call ''c'') p (fixed_codec (Codec_Bytes []) sent_sample) bridge_version_id ''c''"
    by (rule fixed_exchange)
  obtain h where h: "envelope_sha256 repr sha256 sent_sample = Inr h" by (simp add: sent_sample_def sample_hash)
  then show ?thesis
    by (simp add: p exchange_through_def sent_sample_def [symmetric] carry_def fixed_codec_def deliver_def same_addressing_def Let_def)
qed

lemma fixed_limits: "check_limits (bg_limits (bf_config (fixed_foundation b e))) = Inr ()"
  by (simp add: fixed_foundation_def)

lemma utf8_length: "length (utf8 s) \<le> 2 * length s"
proof (induction s)
  case (Cons c s)
  moreover have "length (utf8_char c) \<le> 2" by (simp add: utf8_char_def Let_def)
  ultimately show ?case by (simp add: utf8_def)
qed (simp add: utf8_def)

theorem validate_json_iff_witness:
  "validate_json (\<lambda>_. ''0'') default_limits True (sa_content bridge_source) = Inr (sa_content bridge_source)"
proof -
  have "value_depth (sa_content bridge_source) \<le> 16" "value_items (sa_content bridge_source) \<le> 2048" "jsonable (sa_content bridge_source)"
    "short_strings 65536 (sa_content bridge_source)"
    "length (utf8 (json_text (\<lambda>_. ''0'') (sort_keys (sa_content bridge_source)))) \<le> 131072"
    by (simp_all add: bridge_source_def text_simps utf8_ascii)
  then show ?thesis
    unfolding validate_json_iff [of default_limits, OF bridge_defaults(1)] by (simp add: default_limits_def)
qed

theorem bridge_keeps_source_witness:
  "\<exists>d. exchange (\<lambda>_. ''0'') (\<lambda>b. b) (fixed_foundation (Codec_Bytes []) sent_sample) (bridge_call ''c'') bridge_source = Inr d \<and>
     bd_source d = bridge_source \<and> bd_used_bridge d"
proof -
  obtain d a where d: "exchange (\<lambda>_. ''0'') (\<lambda>b. b) (fixed_foundation (Codec_Bytes []) sent_sample) (bridge_call ''c'') bridge_source = Inr d"
    "bd_derived d = Some a"
    using sample_delivered by blast
  from bridge_keeps_source [OF d(1) fixed_limits] d show ?thesis by auto
qed

theorem bridge_used_only_if_allowed_witness:
  "\<exists>p codec version k. reaches_codec (\<lambda>_. ''0'') (\<lambda>b. b) (fixed_foundation (Codec_Bytes []) sent_sample) (bridge_call ''c'') bridge_source p codec version k"
proof -
  obtain d a where d: "exchange (\<lambda>_. ''0'') (\<lambda>b. b) (fixed_foundation (Codec_Bytes []) sent_sample) (bridge_call ''c'') bridge_source = Inr d"
    "bd_derived d = Some a"
    using sample_delivered by blast
  from bridge_used_only_if_allowed [OF d fixed_limits] show ?thesis by blast
qed

theorem exchange_raises_only_witness:
  "exchange (\<lambda>_. ''0'') (\<lambda>b. b) (fixed_foundation Codec_Unsized sent_sample) (bridge_call ''c'') bridge_source = Inl (TypeError ''object has no len()'') \<and>
   (\<exists>k codec. map_of (bf_codecs (fixed_foundation Codec_Unsized sent_sample)) k = Some codec)"
proof -
  obtain p where p: "pr_source p = bridge_source"
    "exchange (\<lambda>_. ''0'') (\<lambda>b. b) (fixed_foundation Codec_Unsized sent_sample) (bridge_call ''c'') bridge_source =
       exchange_through (\<lambda>_. ''0'') (\<lambda>b. b) default_limits (bridge_call ''c'') p (fixed_codec Codec_Unsized sent_sample) bridge_version_id ''c''"
    by (rule fixed_exchange)
  obtain h where h: "envelope_sha256 (\<lambda>_. ''0'') (\<lambda>b. b) sent_sample = Inr h" by (simp add: sent_sample_def sample_hash)
  then have "exchange (\<lambda>_. ''0'') (\<lambda>b. b) (fixed_foundation Codec_Unsized sent_sample) (bridge_call ''c'') bridge_source =
      Inl (TypeError ''object has no len()'')"
    by (simp add: p exchange_through_def sent_sample_def [symmetric] carry_def fixed_codec_def encoded_length_def Let_def)
  with exchange_raises_only [OF this] show ?thesis by blast
qed

definition identity_sample :: bridge_envelope where
  "identity_sample = new_envelope (bridge_call identity_codec_id) bridge_version_id identity_codec_id bridge_source"

definition parse_sample :: json_parser where
  "parse_sample = (\<lambda>_ _. Inr (sort_keys (signed_items identity_sample ''d'')))"

lemmas identity_simps = identity_sample_def new_envelope_def bridge_call_def bridge_peer_def bridge_version_id_def identity_codec_id_def
  bridge_source_def

lemma identity_facts:
  "filled_envelope identity_sample" "within_limits default_limits (signed_items identity_sample ''d'') 0 0"
  "envelope_sha256 (\<lambda>_. ''0'') (\<lambda>_. ''d'') identity_sample = Inr ''d''"
  "\<exists>b. envelope_to_bytes (\<lambda>_. ''0'') (\<lambda>_. ''d'') default_limits identity_sample = Inr b"
proof -
  show "filled_envelope identity_sample" by (simp add: filled_envelope_def identity_simps py_isspace_def)
  show w: "within_limits default_limits (signed_items identity_sample ''d'') 0 0"
    by (simp add: within_limits_def signed_items_def envelope_items_def identity_simps default_limits_def text_simps utf8_ascii)
  show h: "envelope_sha256 (\<lambda>_. ''0'') (\<lambda>_. ''d'') identity_sample = Inr ''d''" by (simp add: identity_sample_def sample_hash)
  have "length (json_text (\<lambda>_. ''0'') (sort_keys (signed_items identity_sample ''d''))) \<le> 131072"
    by (simp add: sort_signed sorted_payload_def identity_simps text_simps)
  then have "length (utf8 (json_text (\<lambda>_. ''0'') (sort_keys (signed_items identity_sample ''d'')))) \<le> 262144"
    using utf8_length [of "json_text (\<lambda>_. ''0'') (sort_keys (signed_items identity_sample ''d''))"] by simp
  with w h show "\<exists>b. envelope_to_bytes (\<lambda>_. ''0'') (\<lambda>_. ''d'') default_limits identity_sample = Inr b"
    by (auto simp: to_bytes_Inr canonical_json_bytes_def default_limits_def within_limits_def)
qed

theorem identity_bridge_delivers_witness:
  "\<exists>f d a. new_foundation (\<lambda>_. ''0'') (\<lambda>_. ''d'') parse_sample (Some bridge_enabled) [] = Inr f \<and>
     exchange (\<lambda>_. ''0'') (\<lambda>_. ''d'') f (bridge_call identity_codec_id) bridge_source = Inr d \<and> bd_derived d = Some a \<and>
     da_content a = VDict [(KStr ''b'', VNull), (KStr ''n'', VBool True)]"
proof -
  obtain f where f: "new_foundation (\<lambda>_. ''0'') (\<lambda>_. ''d'') parse_sample (Some bridge_enabled) [] = Inr f"
    "bf_config f = bridge_enabled" "map fst (bf_codecs f) = [identity_codec_id]"
    by (simp add: new_foundation_def identity_codec_def)
  have c: "foundation_capabilities f i = Inr (bridge_peer identity_codec_id i)" if "nonblank i" for i
    using that f by (simp add: foundation_capabilities_def bridge_peer_def check_capabilities_def non_empty_def default_limits_def
        bridge_version_id_def identity_codec_id_def py_isspace_def)
  obtain p where p: "prepare_source (\<lambda>_. ''0'') (\<lambda>_. ''d'') default_limits bridge_source = Inr p" "int (length (pr_bytes p)) \<le> 131072"
    using bridge_prepared by blast
  obtain b where b: "envelope_to_bytes (\<lambda>_. ''0'') (\<lambda>_. ''d'') default_limits identity_sample = Inr b"
    using identity_facts(4) by blast
  have "\<exists>d a. exchange (\<lambda>_. ''0'') (\<lambda>_. ''d'') f (bridge_call identity_codec_id) bridge_source = Inr d \<and> bd_derived d = Some a \<and>
      da_content a = sort_keys (sa_content bridge_source)"
    by (rule identity_bridge_delivers [OF f(1), where h = "''d''" and p = p and encoded = b and e = identity_sample
        and ?peer1.0 = "''p''" and ?peer2.0 = "''q''"])
       (use c p b identity_facts in \<open>simp_all add: bridge_call_def bridge_allowed_def parse_sample_def identity_sample_def default_limits_def check_limits_def py_isspace_def\<close>)
  with f(1) show ?thesis by (simp add: bridge_source_def less_eq_char_def)
qed

end
