(* ===== verification/State_Machine.thy ===== *)
theory State_Machine
  imports Domain
begin

text \<open>
  The transition tables of \<^verbatim>\<open>src/project_supervisor/state_machine.py\<close>: for each persisted entity
  (task, worker run, project) the states that may follow a state. \<open>allows\<close> and \<open>require\<close> are the
  two methods of \<^verbatim>\<open>TransitionTable\<close>. The locale \<open>lifecycle\<close> is what their clients rely on: a
  terminal state has no successor, hence no accepted sequence of transitions leaves it.
\<close>

section \<open>Transition tables\<close>

type_synonym 's transition_table = "('s \<times> 's list) list"

text \<open>\<^verbatim>\<open>self.transitions.get(current, frozenset())\<close>\<close>

definition successors :: "'s transition_table \<Rightarrow> 's \<Rightarrow> 's list" where
  "successors table current = (case map_of table current of None \<Rightarrow> [] | Some ts \<Rightarrow> ts)"

definition allows :: "'s transition_table \<Rightarrow> 's \<Rightarrow> 's \<Rightarrow> bool" where
  "allows table current target = (current = target \<or> target \<in> set (successors table current))"

definition require ::
    "('s \<Rightarrow> string) \<Rightarrow> 's transition_table \<Rightarrow> 's \<Rightarrow> 's \<Rightarrow> unit result" where
  "require val table current target =
     (if \<not> allows table current target then Inl (InvalidTransition (val current) (val target))
      else Inr ())"

definition TASK_TRANSITIONS :: "task_state transition_table" where
  "TASK_TRANSITIONS =
     [(TASK_DRAFT,
        [TASK_QUEUED, TASK_CANCELLED]),
      (TASK_QUEUED,
        [TASK_READY, TASK_BLOCKED, TASK_CANCELLED, TASK_FAILED]),
      (TASK_READY,
        [TASK_RUNNING, TASK_BLOCKED, TASK_CANCELLED, TASK_FAILED]),
      (TASK_RUNNING,
        [TASK_WAITING, TASK_REVIEWING, TASK_SUCCEEDED, TASK_FAILED, TASK_CANCELLED,
         TASK_INTERRUPTED]),
      (TASK_WAITING,
        [TASK_READY, TASK_RUNNING, TASK_BLOCKED, TASK_FAILED, TASK_CANCELLED]),
      (TASK_REVIEWING,
        [TASK_READY, TASK_SUCCEEDED, TASK_FAILED, TASK_BLOCKED, TASK_CANCELLED]),
      (TASK_BLOCKED,
        [TASK_READY, TASK_CANCELLED, TASK_FAILED]),
      (TASK_INTERRUPTED,
        [TASK_READY, TASK_FAILED, TASK_CANCELLED]),
      (TASK_SUCCEEDED, []),
      (TASK_FAILED, []),
      (TASK_CANCELLED, [])]"

definition RUN_TRANSITIONS :: "run_state transition_table" where
  "RUN_TRANSITIONS =
     [(RUN_STARTING,
        [RUN_RUNNING, RUN_FAILED, RUN_CANCELLED, RUN_AUTH_REQUIRED, RUN_RATE_LIMITED]),
      (RUN_RUNNING,
        [RUN_WAITING, RUN_COMPLETED, RUN_FAILED, RUN_CANCELLED, RUN_TIMED_OUT,
         RUN_INTERRUPTED, RUN_AUTH_REQUIRED, RUN_RATE_LIMITED]),
      (RUN_WAITING,
        [RUN_RUNNING, RUN_COMPLETED, RUN_FAILED, RUN_CANCELLED]),
      (RUN_COMPLETED, []),
      (RUN_FAILED, []),
      (RUN_CANCELLED, []),
      (RUN_TIMED_OUT, []),
      (RUN_INTERRUPTED, []),
      (RUN_AUTH_REQUIRED, []),
      (RUN_RATE_LIMITED, [])]"

definition PROJECT_TRANSITIONS :: "project_phase transition_table" where
  "PROJECT_TRANSITIONS =
     [(PHASE_INITIALIZING,
        [PHASE_PLANNING, PHASE_FAILED]),
      (PHASE_PLANNING,
        [PHASE_DISPATCHING, PHASE_WAITING_FOR_HUMAN, PHASE_FAILED]),
      (PHASE_DISPATCHING,
        [PHASE_WORKING, PHASE_BLOCKED, PHASE_FAILED]),
      (PHASE_WORKING,
        [PHASE_REVIEWING, PHASE_REPLANNING, PHASE_WAITING_FOR_HUMAN, PHASE_PAUSED,
         PHASE_BLOCKED, PHASE_FAILED]),
      (PHASE_REVIEWING,
        [PHASE_REPLANNING, PHASE_DISPATCHING, PHASE_DONE, PHASE_FAILED]),
      (PHASE_REPLANNING,
        [PHASE_DISPATCHING, PHASE_WAITING_FOR_HUMAN, PHASE_BLOCKED]),
      (PHASE_WAITING_FOR_HUMAN,
        [PHASE_PLANNING, PHASE_DISPATCHING, PHASE_PAUSED, PHASE_FAILED]),
      (PHASE_PAUSED,
        [PHASE_PLANNING, PHASE_DISPATCHING, PHASE_WORKING, PHASE_FAILED]),
      (PHASE_BLOCKED,
        [PHASE_PLANNING, PHASE_REPLANNING, PHASE_FAILED]),
      (PHASE_DONE, []),
      (PHASE_FAILED, [])]"

definition task_terminal :: "task_state \<Rightarrow> bool" where
  "task_terminal s = (s \<in> {TASK_SUCCEEDED, TASK_FAILED, TASK_CANCELLED})"

definition run_terminal :: "run_state \<Rightarrow> bool" where
  "run_terminal s = (s \<in> {RUN_COMPLETED, RUN_FAILED, RUN_CANCELLED, RUN_TIMED_OUT,
     RUN_INTERRUPTED, RUN_AUTH_REQUIRED, RUN_RATE_LIMITED})"

definition phase_terminal :: "project_phase \<Rightarrow> bool" where
  "phase_terminal s = (s \<in> {PHASE_DONE, PHASE_FAILED})"

section \<open>Lifecycles\<close>

lemma require_Inr_iff [simp]: "require val table s t = Inr u \<longleftrightarrow> allows table s t"
  by (simp add: require_def)

lemma require_Inl_iff:
  "require val table s t = Inl e \<longleftrightarrow> \<not> allows table s t \<and> e = InvalidTransition (val s) (val t)"
  by (auto simp: require_def)

lemma allows_refl [simp]: "allows table s s"
  by (simp add: allows_def)

locale lifecycle =
  fixes table :: "'s transition_table"
    and terminal :: "'s \<Rightarrow> bool"
  assumes terminal_iff: "terminal s \<longleftrightarrow> successors table s = []"
begin

lemma allows_terminal: "terminal s \<Longrightarrow> allows table s t \<longleftrightarrow> t = s"
  by (auto simp: allows_def terminal_iff)

lemma absorbing:
  assumes "(allows table)\<^sup>*\<^sup>* s t" and "terminal s"
  shows "t = s"
  using assms by (induction rule: rtranclp_induct) (auto simp: allows_terminal)

lemma nonterminal_before:
  assumes "(allows table)\<^sup>*\<^sup>* s t" and "\<not> terminal t"
  shows "\<not> terminal s"
  using assms absorbing by blast

lemma require_out_of_terminal:
  "terminal s \<Longrightarrow> t \<noteq> s \<Longrightarrow> require val table s t = Inl (InvalidTransition (val s) (val t))"
  by (simp add: require_def allows_terminal)

end

lemmas table_simps = successors_def allows_def

interpretation task_lc: lifecycle TASK_TRANSITIONS task_terminal
  by unfold_locales
    (case_tac s; simp add: successors_def TASK_TRANSITIONS_def task_terminal_def)

interpretation run_lc: lifecycle RUN_TRANSITIONS run_terminal
  by unfold_locales
    (case_tac s; simp add: successors_def RUN_TRANSITIONS_def run_terminal_def)

interpretation phase_lc: lifecycle PROJECT_TRANSITIONS phase_terminal
  by unfold_locales
    (case_tac s; simp add: successors_def PROJECT_TRANSITIONS_def phase_terminal_def)

text \<open>Every state that is not terminal can be cancelled in one step.\<close>

lemma task_allows_cancel: "\<not> task_terminal s \<Longrightarrow> allows TASK_TRANSITIONS s TASK_CANCELLED"
  by (cases s) (simp_all add: table_simps TASK_TRANSITIONS_def task_terminal_def)

lemma task_path_to_ready:
  assumes "\<not> task_terminal s"
  shows "(allows TASK_TRANSITIONS)\<^sup>*\<^sup>* s TASK_READY"
proof -
  have one: "allows TASK_TRANSITIONS u TASK_READY"
    if "u \<in> {TASK_QUEUED, TASK_WAITING, TASK_REVIEWING, TASK_BLOCKED, TASK_INTERRUPTED, TASK_READY}"
    for u using that by (auto simp: table_simps TASK_TRANSITIONS_def)
  have "allows TASK_TRANSITIONS TASK_DRAFT TASK_QUEUED"
    and "allows TASK_TRANSITIONS TASK_RUNNING TASK_WAITING"
    by (simp_all add: table_simps TASK_TRANSITIONS_def)
  then show ?thesis using assms one
    by (cases s)
      (auto simp: task_terminal_def intro: r_into_rtranclp
         converse_rtranclp_into_rtranclp [of _ TASK_DRAFT TASK_QUEUED]
         converse_rtranclp_into_rtranclp [of _ TASK_RUNNING TASK_WAITING])
qed

lemma task_ready_to_succeeded: "(allows TASK_TRANSITIONS)\<^sup>*\<^sup>* TASK_READY TASK_SUCCEEDED"
proof -
  have "allows TASK_TRANSITIONS TASK_READY TASK_RUNNING"
    and "allows TASK_TRANSITIONS TASK_RUNNING TASK_SUCCEEDED"
    by (simp_all add: table_simps TASK_TRANSITIONS_def)
  then show ?thesis
    by (meson r_into_rtranclp converse_rtranclp_into_rtranclp)
qed

text \<open>
  C1. The task lifecycle: a terminal task never leaves its state, whatever transitions are
  accepted; from every other state a task can still succeed and can be cancelled at once; and the
  only accepted transitions into \<^verbatim>\<open>succeeded\<close> start from \<^verbatim>\<open>running\<close> or \<^verbatim>\<open>reviewing\<close>, so no task
  succeeds that was never executed.
\<close>

theorem task_lifecycle:
  "(task_terminal s \<longrightarrow> (\<forall>t. (allows TASK_TRANSITIONS)\<^sup>*\<^sup>* s t \<longrightarrow> t = s)) \<and>
   (\<not> task_terminal s \<longrightarrow>
      (allows TASK_TRANSITIONS)\<^sup>*\<^sup>* s TASK_SUCCEEDED \<and>
      require task_state_value TASK_TRANSITIONS s TASK_CANCELLED = Inr ()) \<and>
   (require task_state_value TASK_TRANSITIONS s TASK_SUCCEEDED = Inr () \<longrightarrow>
      s \<in> {TASK_RUNNING, TASK_REVIEWING, TASK_SUCCEEDED})"
proof (intro conjI impI allI)
  show "t = s" if "task_terminal s" "(allows TASK_TRANSITIONS)\<^sup>*\<^sup>* s t" for t
    using task_lc.absorbing that by blast
  show "(allows TASK_TRANSITIONS)\<^sup>*\<^sup>* s TASK_SUCCEEDED" if "\<not> task_terminal s"
    using task_path_to_ready [OF that] task_ready_to_succeeded by (rule rtranclp_trans)
  show "require task_state_value TASK_TRANSITIONS s TASK_CANCELLED = Inr ()" if "\<not> task_terminal s"
    using that by (simp add: task_allows_cancel)
  show "s \<in> {TASK_RUNNING, TASK_REVIEWING, TASK_SUCCEEDED}"
    if "require task_state_value TASK_TRANSITIONS s TASK_SUCCEEDED = Inr ()"
    using that by (cases s) (simp_all add: table_simps TASK_TRANSITIONS_def)
qed

theorem task_lifecycle_witness:
  "{t. (allows TASK_TRANSITIONS)\<^sup>*\<^sup>* TASK_FAILED t} = {TASK_FAILED} \<and>
   (allows TASK_TRANSITIONS)\<^sup>*\<^sup>* TASK_DRAFT TASK_SUCCEEDED"
  using task_lifecycle [of TASK_FAILED] task_lifecycle [of TASK_DRAFT]
  by (auto simp: task_terminal_def)

end
