(* ===== verification/Protocols.thy ===== *)
theory Protocols
  imports Hybrid
begin

text \<open>
  The provider-neutral protocol documents of \<^verbatim>\<open>src/project_supervisor/protocols\<close>: capability grants,
  public node identities, transport status and the worker contract, each with the checks of its
  \<^verbatim>\<open>__post_init__\<close> in source order and its projection. The streaming endpoint only forwards to an
  adapter and is not modelled beyond its probe defaults.
\<close>

section \<open>Patterns\<close>

definition lower_letter :: "char \<Rightarrow> bool" where
  "lower_letter c = (CHR ''a'' \<le> c \<and> c \<le> CHR ''z'')"

definition lower_alnum :: "char \<Rightarrow> bool" where
  "lower_alnum c = (lower_letter c \<or> (CHR ''0'' \<le> c \<and> c \<le> CHR ''9''))"

definition scope_separator :: "char \<Rightarrow> bool" where
  "scope_separator c = (c \<in> {CHR ''.'', CHR ''_'', CHR ''-''})"

text \<open>
  \<^verbatim>\<open>^[a-z][a-z0-9]*(?:[._-][a-z0-9]+)+$\<close>, read from the left: \<open>seen\<close> says that a separator has been
  passed, \<open>fresh\<close> that the current segment is still empty.
\<close>

fun scope_tail :: "bool \<Rightarrow> bool \<Rightarrow> string \<Rightarrow> bool" where
  "scope_tail seen fresh [] = (seen \<and> \<not> fresh)"
| "scope_tail seen fresh (c # cs) =
     (if lower_alnum c then scope_tail seen False cs
      else if scope_separator c then \<not> fresh \<and> scope_tail True True cs
      else False)"

definition scope_fullmatch :: "string \<Rightarrow> bool" where
  "scope_fullmatch s = (case s of [] \<Rightarrow> False | c # cs \<Rightarrow> lower_letter c \<and> scope_tail False False cs)"

definition hex_digit :: "char \<Rightarrow> bool" where
  "hex_digit c = ((CHR ''0'' \<le> c \<and> c \<le> CHR ''9'') \<or> (CHR ''a'' \<le> c \<and> c \<le> CHR ''f''))"

text \<open>\<^verbatim>\<open>^sha256:[0-9a-f]{64}$\<close>\<close>

definition fingerprint_fullmatch :: "string \<Rightarrow> bool" where
  "fingerprint_fullmatch s =
     (take 7 s = ''sha256:'' \<and> length s = 71 \<and> list_all hex_digit (drop 7 s))"

section \<open>Capability grants\<close>

datatype grant_state = GRANT_ACTIVE | GRANT_REVOKED | GRANT_EXPIRED

fun grant_state_value :: "grant_state \<Rightarrow> string" where
  "grant_state_value GRANT_ACTIVE = ''active''"
| "grant_state_value GRANT_REVOKED = ''revoked''"
| "grant_state_value GRANT_EXPIRED = ''expired''"

record capability_grant =
  cg_grant_id :: string
  cg_capability :: string
  cg_subject :: string
  cg_requested_by :: string
  cg_task_id :: string
  cg_issued_by :: string
  cg_issued_at :: datetime
  cg_expires_at :: "datetime option"
  cg_state :: grant_state
  cg_constraints :: "(string \<times> string) list"
  cg_revoked_at :: "datetime option"
  cg_revoked_by :: "string option"

definition check_capability_grant :: "capability_grant \<Rightarrow> unit result" where
  "check_capability_grant g =
     bindR (raise_if (\<not> list_all nonblank
         [cg_grant_id g, cg_subject g, cg_requested_by g, cg_task_id g, cg_issued_by g])
       (ValueError ''grant identifiers and attribution must not be empty'')) (\<lambda>_.
     bindR (raise_if (\<not> scope_fullmatch (cg_capability g))
       (ValueError ''capability must be a scoped machine-readable name'')) (\<lambda>_.
     bindR (raise_if (\<not> tz_aware (cg_issued_at g) \<or>
         (case cg_expires_at g of None \<Rightarrow> False | Some d \<Rightarrow> \<not> tz_aware d))
       (ValueError ''grant timestamps must be timezone-aware'')) (\<lambda>_.
     bindR (raise_if (case cg_expires_at g of None \<Rightarrow> False
         | Some d \<Rightarrow> instant d \<le> instant (cg_issued_at g))
       (ValueError ''expires_at must be later than issued_at'')) (\<lambda>_.
     bindR (raise_if (cg_state g = GRANT_REVOKED \<and>
         \<not> (cg_revoked_at g \<noteq> None \<and> truthy (cg_revoked_by g)))
       (ValueError ''revoked grants require revoked_at and revoked_by'')) (\<lambda>_.
     raise_if (cg_state g \<noteq> GRANT_REVOKED \<and> (cg_revoked_at g \<noteq> None \<or> truthy (cg_revoked_by g)))
       (ValueError ''revocation metadata requires revoked state''))))))"

definition authorizes :: "capability_grant \<Rightarrow> string \<Rightarrow> string \<Rightarrow> string \<Rightarrow> int \<Rightarrow> bool" where
  "authorizes g capability subject task_id observed =
     (cg_state g = GRANT_ACTIVE \<and> cg_capability g = capability \<and> cg_subject g = subject \<and>
      cg_task_id g = task_id \<and>
      (case cg_expires_at g of None \<Rightarrow> True | Some d \<Rightarrow> observed < instant d))"

definition stamp :: "datetime option \<Rightarrow> json" where
  "stamp v = json_opt (\<lambda>d. JTime (instant d)) v"

definition grant_to_protocol :: "capability_grant \<Rightarrow> (string \<times> json) list" where
  "grant_to_protocol g =
     [(''grantID'', JStr (cg_grant_id g)), (''capability'', JStr (cg_capability g)),
      (''subject'', JStr (cg_subject g)), (''requestedBy'', JStr (cg_requested_by g)),
      (''taskID'', JStr (cg_task_id g)), (''issuedBy'', JStr (cg_issued_by g)),
      (''issuedAt'', stamp (Some (cg_issued_at g))), (''expiresAt'', stamp (cg_expires_at g)),
      (''state'', JStr (grant_state_value (cg_state g))),
      (''constraints'', JObj (map (\<lambda>(k, v). (k, JStr v)) (sort_key fst (cg_constraints g)))),
      (''revokedAt'', stamp (cg_revoked_at g)), (''revokedBy'', json_opt JStr (cg_revoked_by g))]"

section \<open>Node identities\<close>

record node_public_identity =
  ni_node_id :: string
  ni_key_id :: string
  ni_algorithm :: string
  ni_public_key_fingerprint :: string
  ni_created_at :: datetime
  ni_rotated_from_key_id :: "string option"

definition check_node_identity :: "node_public_identity \<Rightarrow> unit result" where
  "check_node_identity n =
     bindR (raise_if (\<not> nonblank (ni_node_id n) \<or> \<not> nonblank (ni_key_id n) \<or> \<not> nonblank (ni_algorithm n))
       (ValueError ''node_id, key_id, and algorithm must not be empty'')) (\<lambda>_.
     bindR (raise_if (\<not> fingerprint_fullmatch (ni_public_key_fingerprint n))
       (ValueError ''public_key_fingerprint must be lowercase sha256:<64 hex>'')) (\<lambda>_.
     raise_if (ni_rotated_from_key_id n = Some (ni_key_id n))
       (ValueError ''rotated_from_key_id must differ from key_id'')))"

definition node_identity_to_protocol :: "node_public_identity \<Rightarrow> (string \<times> json) list" where
  "node_identity_to_protocol n =
     [(''nodeID'', JStr (ni_node_id n)), (''keyID'', JStr (ni_key_id n)),
      (''algorithm'', JStr (ni_algorithm n)),
      (''publicKeyFingerprint'', JStr (ni_public_key_fingerprint n)),
      (''createdAt'', JTime (instant (ni_created_at n))),
      (''rotatedFromKeyID'', json_opt JStr (ni_rotated_from_key_id n))]"

section \<open>Transport status\<close>

datatype transport_health =
    TRANSPORT_HEALTHY | TRANSPORT_DEGRADED | TRANSPORT_UNREACHABLE | TRANSPORT_UNKNOWN

fun transport_health_value :: "transport_health \<Rightarrow> string" where
  "transport_health_value TRANSPORT_HEALTHY = ''healthy''"
| "transport_health_value TRANSPORT_DEGRADED = ''degraded''"
| "transport_health_value TRANSPORT_UNREACHABLE = ''unreachable''"
| "transport_health_value TRANSPORT_UNKNOWN = ''unknown''"

definition unavailable_latency :: telemetry_value where
  "unavailable_latency = \<lparr>tv_value = None, tv_confidence = CONF_UNKNOWN, tv_reason = Some UNAVAIL_NOT_REPORTED\<rparr>"

record transport_status =
  ts_transport_id :: string
  ts_provider :: string
  ts_authenticated :: bool
  ts_encrypted :: bool
  ts_peer_identity :: "string option"
  ts_reachable :: bool
  ts_health :: transport_health
  ts_latency_ms :: telemetry_value
  ts_observed_at :: datetime

definition check_transport_status :: "transport_status \<Rightarrow> unit result" where
  "check_transport_status s =
     bindR (raise_if (\<not> nonblank (ts_transport_id s) \<or> \<not> nonblank (ts_provider s))
       (ValueError ''transport_id and provider must not be empty'')) (\<lambda>_.
     raise_if (ts_authenticated s \<and> \<not> truthy (ts_peer_identity s))
       (ValueError ''authenticated transport requires a peer identity''))"

definition safe_for_fabric :: "transport_status \<Rightarrow> bool" where
  "safe_for_fabric s =
     (ts_authenticated s \<and> ts_encrypted s \<and> ts_reachable s \<and> truthy (ts_peer_identity s))"

definition transport_to_protocol :: "transport_status \<Rightarrow> (string \<times> json) list" where
  "transport_to_protocol s =
     [(''transportID'', JStr (ts_transport_id s)), (''provider'', JStr (ts_provider s)),
      (''authenticated'', JBool (ts_authenticated s)), (''encrypted'', JBool (ts_encrypted s)),
      (''peerIdentity'', json_opt JStr (ts_peer_identity s)),
      (''reachable'', JBool (ts_reachable s)), (''latencyMs'', JObj (telemetry_to_api (ts_latency_ms s))),
      (''health'', JStr (transport_health_value (ts_health s))),
      (''observedAt'', JTime (instant (ts_observed_at s)))]"

section \<open>The worker contract\<close>

datatype worker_availability =
    WAVAIL_AVAILABLE | WAVAIL_BUSY | WAVAIL_DEGRADED | WAVAIL_OFFLINE | WAVAIL_UNKNOWN

fun worker_availability_value :: "worker_availability \<Rightarrow> string" where
  "worker_availability_value WAVAIL_AVAILABLE = ''available''"
| "worker_availability_value WAVAIL_BUSY = ''busy''"
| "worker_availability_value WAVAIL_DEGRADED = ''degraded''"
| "worker_availability_value WAVAIL_OFFLINE = ''offline''"
| "worker_availability_value WAVAIL_UNKNOWN = ''unknown''"

record worker_model =
  wm_id :: string
  wm_display_name :: string
  wm_context_limit_tokens :: "int option"
  wm_capabilities :: "string set"

definition check_worker_model :: "worker_model \<Rightarrow> unit result" where
  "check_worker_model m =
     bindR (raise_if (\<not> nonblank (wm_id m) \<or> \<not> nonblank (wm_display_name m))
       (ValueError ''worker model id and display_name must not be empty'')) (\<lambda>_.
     raise_if (case wm_context_limit_tokens m of None \<Rightarrow> False | Some n \<Rightarrow> n \<le> 0)
       (ValueError ''context_limit_tokens must be positive when known''))"

definition json_set :: "string set \<Rightarrow> json" where
  "json_set S = JList (map JStr (sorted_list_of_set S))"

definition worker_model_to_protocol :: "worker_model \<Rightarrow> json" where
  "worker_model_to_protocol m =
     JObj [(''id'', JStr (wm_id m)), (''displayName'', JStr (wm_display_name m)),
       (''contextLimitTokens'', json_opt JInt (wm_context_limit_tokens m)),
       (''capabilities'', json_set (wm_capabilities m))]"

record worker_permissions =
  wp_allowed :: "string set"
  wp_denied :: "string set"

text \<open>The message lists the overlap in order.\<close>

definition check_worker_permissions :: "worker_permissions \<Rightarrow> unit result" where
  "check_worker_permissions p =
     (let overlap = wp_allowed p \<inter> wp_denied p in
      raise_if (overlap \<noteq> {})
        (ValueError (''permissions cannot be both allowed and denied: '' @
           join_strings '', '' (sorted_list_of_set overlap))))"

record worker_contract =
  wc_worker_id :: string
  wc_node_id :: string
  wc_provider :: string
  wc_implementation :: string
  wc_models :: "worker_model list"
  wc_capabilities :: "string set"
  wc_permissions :: worker_permissions
  wc_default_model_id :: "string option"
  wc_protocol_version :: string
  wc_supports_incremental_stream :: bool
  wc_supports_cancel :: bool
  wc_supports_sessions :: bool
  wc_cost_visibility :: string
  wc_quota_visibility :: string

definition visibility_kinds :: "string list" where
  "visibility_kinds = [''exact'', ''estimated'', ''unavailable'']"

definition check_worker_contract :: "worker_contract \<Rightarrow> unit result" where
  "check_worker_contract c =
     (case List.find (\<lambda>(_, v). \<not> nonblank v)
         [(''worker_id'', wc_worker_id c), (''node_id'', wc_node_id c), (''provider'', wc_provider c),
          (''implementation'', wc_implementation c), (''protocol_version'', wc_protocol_version c)] of
        Some (n, _) \<Rightarrow> Inl (ValueError (n @ '' must not be empty''))
      | None \<Rightarrow>
     (let model_ids = map wm_id (wc_models c) in
     bindR (raise_if (\<not> distinct model_ids) (ValueError ''worker model ids must be unique'')) (\<lambda>_.
     bindR (raise_if (case wc_default_model_id c of None \<Rightarrow> False | Some m \<Rightarrow> m \<notin> set model_ids)
       (ValueError ''default_model_id must identify an advertised model'')) (\<lambda>_.
     raise_if (wc_cost_visibility c \<notin> set visibility_kinds \<or> wc_quota_visibility c \<notin> set visibility_kinds)
       (ValueError ''visibility must be exact, estimated, or unavailable'')))))"

definition worker_contract_to_protocol :: "worker_contract \<Rightarrow> (string \<times> json) list" where
  "worker_contract_to_protocol c =
     [(''protocolVersion'', JStr (wc_protocol_version c)),
      (''identity'', JObj [(''workerID'', JStr (wc_worker_id c)), (''nodeID'', JStr (wc_node_id c)),
         (''provider'', JStr (wc_provider c)), (''implementation'', JStr (wc_implementation c))]),
      (''models'', JList (map worker_model_to_protocol (wc_models c))),
      (''defaultModelID'', json_opt JStr (wc_default_model_id c)),
      (''capabilities'', json_set (wc_capabilities c)),
      (''permissions'', JObj [(''allowed'', json_set (wp_allowed (wc_permissions c))),
         (''denied'', json_set (wp_denied (wc_permissions c)))]),
      (''operations'', JObj [(''execute'', JBool True), (''stream'', JBool (wc_supports_incremental_stream c)),
         (''cancel'', JBool (wc_supports_cancel c)), (''sessions'', JBool (wc_supports_sessions c))]),
      (''observability'', JObj [(''cost'', JStr (wc_cost_visibility c)),
         (''quota'', JStr (wc_quota_visibility c))])]"

record worker_health =
  wh_availability :: worker_availability
  wh_checked_at :: datetime
  wh_latency_ms :: telemetry_value
  wh_detail :: "string option"

definition worker_health_to_protocol :: "worker_health \<Rightarrow> (string \<times> json) list" where
  "worker_health_to_protocol h =
     [(''availability'', JStr (worker_availability_value (wh_availability h))),
      (''checkedAt'', JTime (instant (wh_checked_at h))),
      (''latencyMs'', JObj (telemetry_to_api (wh_latency_ms h))),
      (''detail'', json_opt JStr (wh_detail h))]"

record worker_telemetry =
  wt_observed_at :: datetime
  wt_latency_ms :: telemetry_value
  wt_remaining_quota :: telemetry_value
  wt_reset_seconds :: telemetry_value
  wt_cost_usd :: telemetry_value
  wt_attributes :: "(string \<times> json) list"

definition worker_telemetry_to_protocol :: "worker_telemetry \<Rightarrow> (string \<times> json) list" where
  "worker_telemetry_to_protocol w =
     [(''observedAt'', JTime (instant (wt_observed_at w))),
      (''latencyMs'', JObj (telemetry_to_api (wt_latency_ms w))),
      (''remainingQuota'', JObj (telemetry_to_api (wt_remaining_quota w))),
      (''resetSeconds'', JObj (telemetry_to_api (wt_reset_seconds w))),
      (''costUSD'', JObj (telemetry_to_api (wt_cost_usd w))),
      (''attributes'', JObj (sort_key fst (wt_attributes w)))]"

text \<open>What an endpoint without probes answers at time \<open>now\<close>.\<close>

definition endpoint_health :: "int \<Rightarrow> worker_health option \<Rightarrow> worker_health" where
  "endpoint_health now probe =
     (case probe of
        None \<Rightarrow> \<lparr>wh_availability = WAVAIL_UNKNOWN, wh_checked_at = Aware now,
          wh_latency_ms = unavailable_latency, wh_detail = Some ''health probe not configured''\<rparr>
      | Some h \<Rightarrow> h)"

definition endpoint_telemetry :: "int \<Rightarrow> worker_telemetry option \<Rightarrow> worker_telemetry" where
  "endpoint_telemetry now probe =
     (case probe of
        None \<Rightarrow> \<lparr>wt_observed_at = Aware now, wt_latency_ms = unavailable_latency,
          wt_remaining_quota = unavailable_latency, wt_reset_seconds = unavailable_latency,
          wt_cost_usd = unavailable_latency, wt_attributes = []\<rparr>
      | Some w \<Rightarrow> w)"

section \<open>What the patterns accept\<close>

text \<open>Segments of a scoped name: lower-case letters and digits, not empty.\<close>

definition scope_segment :: "string \<Rightarrow> bool" where
  "scope_segment s \<longleftrightarrow> s \<noteq> [] \<and> list_all lower_alnum s"

definition scope_parts :: "(char \<times> string) list \<Rightarrow> string" where
  "scope_parts parts = concat (map (\<lambda>(c, s). c # s) parts)"

lemma separator_not_alnum: "scope_separator c \<Longrightarrow> \<not> lower_alnum c"
  by (auto simp: scope_separator_def lower_alnum_def lower_letter_def less_eq_char_def)

lemma scope_tail_iff:
  "scope_tail seen fresh s \<longleftrightarrow>
     (\<exists>seg parts. s = seg @ scope_parts parts \<and> list_all lower_alnum seg \<and> (fresh \<longrightarrow> seg \<noteq> []) \<and>
        (seen \<or> parts \<noteq> []) \<and> (\<forall>(c, p) \<in> set parts. scope_separator c \<and> scope_segment p))"
    (is "_ \<longleftrightarrow> (\<exists>seg parts. ?P seen fresh s seg parts)")
proof (induction seen fresh s rule: scope_tail.induct)
  case (1 seen fresh)
  show ?case
  proof
    assume "scope_tail seen fresh []"
    then have "?P seen fresh [] [] []" by (simp add: scope_parts_def)
    then show "\<exists>seg parts. ?P seen fresh [] seg parts" by blast
  next
    assume "\<exists>seg parts. ?P seen fresh [] seg parts"
    then obtain seg parts where "?P seen fresh [] seg parts" by blast
    then show "scope_tail seen fresh []" by (cases parts) (auto simp: scope_parts_def)
  qed
next
  case (2 seen fresh c cs)
  show ?case
  proof
    assume m: "scope_tail seen fresh (c # cs)"
    show "\<exists>seg parts. ?P seen fresh (c # cs) seg parts"
    proof (cases "lower_alnum c")
      case True
      with m 2(1) obtain seg parts where "?P seen False cs seg parts" by auto
      with True have "?P seen fresh (c # cs) (c # seg) parts" by simp
      then show ?thesis by blast
    next
      case False
      with m 2(2) obtain seg parts where p: "?P True True cs seg parts" and c: "scope_separator c" "\<not> fresh"
        by (auto split: if_split_asm)
      then have "?P seen fresh (c # cs) [] ((c, seg) # parts)"
        by (auto simp: scope_parts_def scope_segment_def)
      then show ?thesis by blast
    qed
  next
    assume "\<exists>seg parts. ?P seen fresh (c # cs) seg parts"
    then obtain seg parts where p: "?P seen fresh (c # cs) seg parts" by blast
    show "scope_tail seen fresh (c # cs)"
    proof (cases seg)
      case Nil
      then obtain s parts' where parts: "parts = (c, s) # parts'" and f: "\<not> fresh"
        using p by (cases parts) (auto simp: scope_parts_def)
      then have "scope_separator c" "\<not> lower_alnum c" "?P True True cs s parts'"
        using p Nil separator_not_alnum by (auto simp: scope_parts_def scope_segment_def)
      then show ?thesis using 2(2) f by auto
    next
      case (Cons d seg')
      then have "lower_alnum c" "?P seen False cs seg' parts" using p by auto
      then show ?thesis using 2(1) by auto
    qed
  qed
qed



lemma check_capability_grant_ok:
  "check_capability_grant g = Inr u \<longleftrightarrow>
     list_all nonblank [cg_grant_id g, cg_subject g, cg_requested_by g, cg_task_id g, cg_issued_by g] \<and>
     scope_fullmatch (cg_capability g) \<and> tz_aware (cg_issued_at g) \<and>
     (\<forall>d. cg_expires_at g = Some d \<longrightarrow> tz_aware d \<and> instant (cg_issued_at g) < instant d) \<and>
     (cg_state g = GRANT_REVOKED \<longleftrightarrow> cg_revoked_at g \<noteq> None \<or> truthy (cg_revoked_by g)) \<and>
     (cg_state g = GRANT_REVOKED \<longrightarrow> cg_revoked_at g \<noteq> None \<and> truthy (cg_revoked_by g))"
  by (cases "cg_expires_at g") (auto simp: check_capability_grant_def not_le)

end
