(* ===== verification/Redaction.thy ===== *)
theory Redaction
  imports Prelude "HOL-Library.Sublist"
begin

text \<open>
  Redaction of credentials before anything reaches the journal: \<^verbatim>\<open>redact_sensitive\<close> and its
  helpers in \<^verbatim>\<open>src/project_supervisor/store.py\<close>. Keys are judged by their letters and digits
  only; strings are scanned by three regular expressions, applied one after the other.

  A regular expression is a matcher that returns, at one position, the kept group and the rest of
  the input after the match. The three patterns need no other backtracking than the order of the
  alternatives written out here: after \<^verbatim>\<open>\s*\<close> neither a separator nor a value can start with
  white space, and \<^verbatim>\<open>[^\s,;]+\<close> ends the pattern. Only the closing \<^verbatim>\<open>\b\<close> of the last pattern
  gives back characters.
\<close>

section \<open>Sensitive keys\<close>

definition BENIGN_ACCOUNTING_KEY_IDENTITIES :: "string list" where
  "BENIGN_ACCOUNTING_KEY_IDENTITIES =
    [''cachedtokens'', ''cachecreationtokens'', ''cachereadtokens'', ''cachetokens'',
     ''cachewritetokens'', ''inputtokens'', ''outputtokens'', ''reasoningtokens'',
     ''remainingtokens'', ''tokencount'', ''tokens'', ''totaltokens'', ''usedtokens'']"

definition CREDENTIAL_KEY_IDENTITIES :: "string list" where
  "CREDENTIAL_KEY_IDENTITIES =
    [''accesskey'', ''accesskeyid'', ''accesstoken'', ''apikey'', ''apisecret'', ''auth'',
     ''authheader'', ''authheaders'', ''authorization'', ''authorizationheader'', ''authtoken'',
     ''bearer'', ''bearertoken'', ''clientcredential'', ''clientcredentials'', ''clientkey'',
     ''clientsecret'', ''clienttoken'', ''cookie'', ''credential'', ''credentials'', ''oauth'',
     ''oauthcredential'', ''oauthcredentials'', ''oauthsecret'', ''oauthtoken'', ''password'',
     ''passwd'', ''privatekey'', ''privatetoken'', ''refreshtoken'', ''secret'',
     ''sessioncookie'', ''sessiontoken'', ''signature'', ''token'']"

definition CREDENTIAL_KEY_SUFFIXES :: "string list" where
  "CREDENTIAL_KEY_SUFFIXES =
    [''accesskey'', ''accesskeyid'', ''accesstoken'', ''apikey'', ''apisecret'', ''authheader'',
     ''authheaders'', ''authorization'', ''authorizationheader'', ''authtoken'', ''bearertoken'',
     ''clientcredential'', ''clientcredentials'', ''clientkey'', ''clientsecret'',
     ''clienttoken'', ''cookie'', ''credential'', ''credentials'', ''oauthcredential'',
     ''oauthcredentials'', ''oauthsecret'', ''oauthtoken'', ''password'', ''passwd'',
     ''privatekey'', ''privatetoken'', ''refreshtoken'', ''secret'', ''sessiontoken'',
     ''signature'', ''token'']"

text \<open>
  \<^verbatim>\<open>str.casefold\<close> on code points below 256, as far as \<^verbatim>\<open>[a-z0-9]\<close> can see it: sharp s folds to
  two letters, every other character that is not ASCII folds to one that is not ASCII.
\<close>

definition casefold_char :: "char \<Rightarrow> string" where
  "casefold_char c =
     (let n = (of_char c :: nat)
      in if 65 \<le> n \<and> n \<le> 90 then [char_of (n + 32)] else if n = 223 then ''ss'' else [c])"

definition ascii_lower_or_digit :: "char \<Rightarrow> bool" where
  "ascii_lower_or_digit c =
     (let n = (of_char c :: nat) in (97 \<le> n \<and> n \<le> 122) \<or> (48 \<le> n \<and> n \<le> 57))"

definition compact_key_identity :: "string \<Rightarrow> string" where
  "compact_key_identity s = filter ascii_lower_or_digit (concat (map casefold_char s))"

definition is_sensitive_key :: "string \<Rightarrow> bool" where
  "is_sensitive_key key =
     (let identity = compact_key_identity key
      in if identity \<in> set BENIGN_ACCOUNTING_KEY_IDENTITIES then False
         else identity \<in> set CREDENTIAL_KEY_IDENTITIES \<or>
              list_ex (\<lambda>s. suffix s identity) CREDENTIAL_KEY_SUFFIXES)"

section \<open>Scanning strings\<close>

definition REDACTED :: string where
  "REDACTED = ''[REDACTED]''"

definition fold_eq :: "char \<Rightarrow> char \<Rightarrow> bool" where
  "fold_eq a b = (casefold_char a = casefold_char b)"

text \<open>A case-insensitive literal at the front of the input: what it matched, and the rest.\<close>

fun eat_literal :: "string \<Rightarrow> string \<Rightarrow> (string \<times> string) option" where
  "eat_literal [] s = Some ([], s)"
| "eat_literal (p # ps) [] = None"
| "eat_literal (p # ps) (c # cs) =
     (if fold_eq p c
      then (case eat_literal ps cs of None \<Rightarrow> None | Some (m, rest) \<Rightarrow> Some (c # m, rest))
      else None)"

definition eat_spaces :: "string \<Rightarrow> string \<times> string" where
  "eat_spaces s = (takeWhile py_isspace s, dropWhile py_isspace s)"

text \<open>\<^verbatim>\<open>[^\s,;]\<close>\<close>

definition value_char :: "char \<Rightarrow> bool" where
  "value_char c = (\<not> py_isspace c \<and> c \<noteq> CHR '','' \<and> c \<noteq> CHR '';'')"

text \<open>\<^verbatim>\<open>\s*[:=]\s*\<close> and then \<^verbatim>\<open>[^\s,;]+\<close>: the kept separator text, and the rest after the value.\<close>

definition eat_assignment :: "string \<Rightarrow> (string \<times> string) option" where
  "eat_assignment s =
     (let (w1, s1) = eat_spaces s
      in case s1 of
           [] \<Rightarrow> None
         | c # s2 \<Rightarrow>
             if c = CHR '':'' \<or> c = CHR ''=''
             then (let (w2, s3) = eat_spaces s2
                   in if takeWhile value_char s3 = [] then None
                      else Some (w1 @ [c] @ w2, dropWhile value_char s3))
             else None)"

text \<open>
  The alternatives of the second pattern, in order, with \<^verbatim>\<open>[ _-]?\<close> spelled out: first each
  separator, then none. A word is a list of parts joined by such an optional separator.
\<close>

fun spellings :: "string list \<Rightarrow> string list" where
  "spellings [] = [[]]"
| "spellings [p] = [p]"
| "spellings (p # q # ps) =
     concat (map (\<lambda>sep. map (\<lambda>r. p @ sep @ r) (spellings (q # ps))) ['' '', ''_'', ''-'', []])"

definition secret_words :: "string list list" where
  "secret_words =
     [[''token''], [''api'', ''key''], [''access'', ''token''], [''refresh'', ''token''],
      [''oauth'', ''token''], [''bearer'', ''token''], [''auth'', ''header''], [''auth'', ''token''],
      [''authorization'', ''header''], [''authorization''], [''session'', ''cookie''],
      [''client'', ''secret''], [''private'', ''key''], [''password''], [''secret''],
      [''signature''], [''cookie'']]"

definition secret_spellings :: "string list" where
  "secret_spellings = concat (map spellings secret_words)"

fun first_match :: "('a \<Rightarrow> 'b option) \<Rightarrow> 'a list \<Rightarrow> 'b option" where
  "first_match f [] = None"
| "first_match f (x # xs) = (case f x of None \<Rightarrow> first_match f xs | Some y \<Rightarrow> Some y)"

definition match_secret_at :: "string \<Rightarrow> (string \<times> string) option" where
  "match_secret_at s =
     first_match
       (\<lambda>word. case eat_literal word s of
          None \<Rightarrow> None
        | Some (m, rest) \<Rightarrow>
            (case eat_assignment rest of None \<Rightarrow> None | Some (sep, rest') \<Rightarrow> Some (m @ sep, rest')))
       secret_spellings"

text \<open>
  The first pattern, \<^verbatim>\<open>authorization\s*[:=]\s*bearer\s+[^\s,;]+\<close> with everything but the value kept.
\<close>

definition match_bearer_at :: "string \<Rightarrow> (string \<times> string) option" where
  "match_bearer_at s =
     (case eat_literal ''authorization'' s of
        None \<Rightarrow> None
      | Some (m, s1) \<Rightarrow>
          (let (w1, s2) = eat_spaces s1
           in case s2 of
                [] \<Rightarrow> None
              | c # s3 \<Rightarrow>
                  if c = CHR '':'' \<or> c = CHR ''=''
                  then (let (w2, s4) = eat_spaces s3
                        in case eat_literal ''bearer'' s4 of
                             None \<Rightarrow> None
                           | Some (b, s5) \<Rightarrow>
                               (let (w3, s6) = eat_spaces s5
                                in if w3 = [] \<or> takeWhile value_char s6 = [] then None
                                   else Some (m @ w1 @ [c] @ w2 @ b @ w3, dropWhile value_char s6)))
                  else None))"

text \<open>\<^verbatim>\<open>str.isalnum\<close> on code points below 256, and the word characters of \<^verbatim>\<open>\b\<close>.\<close>

definition py_isalnum :: "char \<Rightarrow> bool" where
  "py_isalnum c =
     (let n = (of_char c :: nat)
      in (48 \<le> n \<and> n \<le> 57) \<or> (65 \<le> n \<and> n \<le> 90) \<or> (97 \<le> n \<and> n \<le> 122) \<or>
         n \<in> {170, 178, 179, 181, 185, 186, 188, 189, 190} \<or>
         (192 \<le> n \<and> n \<le> 255 \<and> n \<noteq> 215 \<and> n \<noteq> 247))"

definition word_char :: "char \<Rightarrow> bool" where
  "word_char c = (py_isalnum c \<or> c = CHR ''_'')"

definition word_boundary :: "char option \<Rightarrow> char option \<Rightarrow> bool" where
  "word_boundary a b =
     ((case a of None \<Rightarrow> False | Some c \<Rightarrow> word_char c) \<noteq>
      (case b of None \<Rightarrow> False | Some c \<Rightarrow> word_char c))"

text \<open>\<^verbatim>\<open>[A-Za-z0-9_-]\<close>\<close>

definition key_char :: "char \<Rightarrow> bool" where
  "key_char c =
     (let n = (of_char c :: nat)
      in (48 \<le> n \<and> n \<le> 57) \<or> (65 \<le> n \<and> n \<le> 90) \<or> (97 \<le> n \<and> n \<le> 122) \<or>
         c = CHR ''_'' \<or> c = CHR ''-'')"

definition list_hd :: "'a list \<Rightarrow> 'a option" where
  "list_hd xs = (case xs of [] \<Rightarrow> None | x # _ \<Rightarrow> Some x)"

definition list_last :: "'a list \<Rightarrow> 'a option" where
  "list_last xs = list_hd (rev xs)"

text \<open>
  The third pattern, \<^verbatim>\<open>\bsk-[A-Za-z0-9_-]{12,}\b\<close>, given the character before the position: the
  longest run of key characters, given back one by one until a word boundary follows.
\<close>

definition match_sk_at :: "char option \<Rightarrow> string \<Rightarrow> (string \<times> string) option" where
  "match_sk_at prev s =
     (if word_boundary prev (list_hd s) \<and> take 3 s = ''sk-''
      then (let body = drop 3 s;
                run = length (takeWhile key_char body)
            in first_match
                 (\<lambda>n. if word_boundary (list_last (take n body)) (list_hd (drop n body))
                      then Some ([], drop n body) else None)
                 (rev [12..<Suc run]))
      else None)"

text \<open>
  \<^verbatim>\<open>pattern.sub\<close>: leftmost matches that do not overlap; every match consumes input, and the fuel
  is the length of the input.
\<close>

fun sub_from :: "nat \<Rightarrow> (char option \<Rightarrow> string \<Rightarrow> (string \<times> string) option) \<Rightarrow>
    char option \<Rightarrow> string \<Rightarrow> string" where
  "sub_from 0 match prev s = s"
| "sub_from (Suc n) match prev s =
     (case s of
        [] \<Rightarrow> []
      | c # cs \<Rightarrow>
          (case match prev s of
             None \<Rightarrow> c # sub_from n match (Some c) cs
           | Some (kept, rest) \<Rightarrow>
               kept @ REDACTED @
               sub_from n match (list_last (take (length s - length rest) s)) rest))"

definition regex_sub :: "(char option \<Rightarrow> string \<Rightarrow> (string \<times> string) option) \<Rightarrow> string \<Rightarrow> string" where
  "regex_sub match s = sub_from (length s) match None s"

definition redact_string :: "string \<Rightarrow> string" where
  "redact_string s =
     regex_sub match_sk_at (regex_sub (\<lambda>_. match_secret_at) (regex_sub (\<lambda>_. match_bearer_at) s))"

section \<open>Redaction\<close>

fun redact_json :: "json \<Rightarrow> json" where
  "redact_json (JObj kvs) =
     JObj (map (\<lambda>(k, v). (k, if is_sensitive_key k then JStr REDACTED else redact_json v)) kvs)"
| "redact_json (JList vs) = JList (map redact_json vs)"
| "redact_json (JStr s) = JStr (redact_string s)"
| "redact_json JNull = JNull"
| "redact_json (JBool b) = JBool b"
| "redact_json (JInt i) = JInt i"
| "redact_json (JNum r) = JNum r"
| "redact_json (JTime t) = JTime t"
| "redact_json (JMicros t) = JMicros t"

text \<open>The text of an instant matches none of the patterns, so \<open>JTime\<close> and \<open>JMicros\<close> values stay as they are.\<close>

definition redact_opt :: "string option \<Rightarrow> string option" where
  "redact_opt v = map_option redact_string v"

definition redact_dict :: "(string \<times> json) list \<Rightarrow> (string \<times> json) list" where
  "redact_dict kvs = map (\<lambda>(k, v). (k, if is_sensitive_key k then JStr REDACTED else redact_json v)) kvs"

text \<open>What redaction promises: at every depth, a sensitive key holds nothing but the marker.\<close>

fun secrets_hidden :: "json \<Rightarrow> bool" where
  "secrets_hidden (JObj kvs) =
     list_all (\<lambda>(k, v). if is_sensitive_key k then v = JStr REDACTED else secrets_hidden v) kvs"
| "secrets_hidden (JList vs) = list_all secrets_hidden vs"
| "secrets_hidden _ = True"

section \<open>The scan ends with the input\<close>

lemma first_match_SomeD: "first_match f xs = Some y \<Longrightarrow> \<exists>x \<in> set xs. f x = Some y"
  by (induction xs) (auto split: option.splits)

lemma eat_literal_append: "eat_literal p s = Some (m, rest) \<Longrightarrow> s = m @ rest \<and> length m = length p"
  by (induction p s arbitrary: m rest rule: eat_literal.induct) (auto split: if_splits option.splits)

lemma eat_spaces_append: "eat_spaces s = (w, rest) \<Longrightarrow> s = w @ rest"
  by (auto simp: eat_spaces_def)

lemma eat_assignment_shorter:
  assumes "eat_assignment s = Some (sep, rest)"
  shows "length rest < length s"
proof -
  obtain w1 s1 where w1: "eat_spaces s = (w1, s1)" by fastforce
  obtain c s2 where s1: "s1 = c # s2"
    using assms w1 by (cases s1) (auto simp: eat_assignment_def)
  obtain w2 s3 where w2: "eat_spaces s2 = (w2, s3)" by fastforce
  have "rest = dropWhile value_char s3"
    using assms w1 s1 w2 by (auto simp: eat_assignment_def Let_def split: if_splits)
  then show ?thesis
    using length_dropWhile_le [of value_char s3] eat_spaces_append [OF w1] eat_spaces_append [OF w2] s1
    by simp
qed

lemma match_secret_at_shorter:
  assumes "match_secret_at s = Some (kept, rest)"
  shows "length rest < length s"
proof -
  obtain word where word: "(case eat_literal word s of
          None \<Rightarrow> None
        | Some (m, rest) \<Rightarrow>
            (case eat_assignment rest of None \<Rightarrow> None | Some (sep, rest') \<Rightarrow> Some (m @ sep, rest')))
      = Some (kept, rest)"
    using first_match_SomeD [OF assms [unfolded match_secret_at_def]] by blast
  then obtain m rest0 where m: "eat_literal word s = Some (m, rest0)"
    by (cases "eat_literal word s") auto
  with word obtain sep where "eat_assignment rest0 = Some (sep, rest)"
    by (cases "eat_assignment rest0") auto
  then show ?thesis
    using eat_literal_append [OF m] eat_assignment_shorter by fastforce
qed

lemma match_bearer_at_shorter:
  assumes "match_bearer_at s = Some (kept, rest)"
  shows "length rest < length s"
proof -
  obtain m s1 where m: "eat_literal ''authorization'' s = Some (m, s1)"
    using assms by (auto simp: match_bearer_at_def split: option.splits)
  obtain w1 s2 where w1: "eat_spaces s1 = (w1, s2)" by fastforce
  obtain c s3 where s2: "s2 = c # s3"
    using assms m w1 by (cases s2) (auto simp: match_bearer_at_def)
  obtain w2 s4 where w2: "eat_spaces s3 = (w2, s4)" by fastforce
  obtain b s5 where b: "eat_literal ''bearer'' s4 = Some (b, s5)"
    using assms m w1 s2 w2 by (auto simp: match_bearer_at_def Let_def split: option.splits if_splits)
  obtain w3 s6 where w3: "eat_spaces s5 = (w3, s6)" by fastforce
  have "rest = dropWhile value_char s6"
    using assms m w1 s2 w2 b w3 by (auto simp: match_bearer_at_def Let_def split: if_splits)
  then show ?thesis
    using eat_literal_append [OF m] eat_literal_append [OF b] eat_spaces_append [OF w1]
      eat_spaces_append [OF w2] eat_spaces_append [OF w3] s2 length_dropWhile_le [of value_char s6]
    by simp
qed

lemma match_sk_at_shorter:
  assumes "match_sk_at prev s = Some (kept, rest)"
  shows "length rest < length s"
proof -
  have "take 3 s = ''sk-''"
    using assms by (auto simp: match_sk_at_def split: if_splits)
  then have "s \<noteq> []" by auto
  moreover obtain n where "rest = drop n (drop 3 s)"
    using assms by (auto simp: match_sk_at_def Let_def dest!: first_match_SomeD split: if_splits)
  ultimately show ?thesis by (cases s) auto
qed

text \<open>With a match that always consumes, more fuel than the input is long changes nothing.\<close>

lemma sub_from_fuel:
  assumes consumes: "\<And>b s kept rest. match b s = Some (kept, rest) \<Longrightarrow> length rest < length s"
    and "length s \<le> n" and "length s \<le> n'"
  shows "sub_from n match prev s = sub_from n' match prev s"
  using assms(2,3)
proof (induction "length s" arbitrary: s n n' prev rule: less_induct)
  case less
  show ?case
  proof (cases s)
    case Nil
    then show ?thesis by (cases n; cases n'; simp)
  next
    case (Cons c cs)
    obtain k k' where n: "n = Suc k" "n' = Suc k'"
      using less.prems Cons by (cases n; cases n'; simp)
    have tail: "sub_from k match b r = sub_from k' match b r" if "length r < length s" for b r
      using less.hyps [OF that] less.prems n that by simp
    show ?thesis
      using tail [of cs] tail consumes [of prev s]
      by (auto simp: n Cons split: option.splits)
  qed
qed

lemma regex_sub_unfold:
  assumes "\<And>b s kept rest. match b s = Some (kept, rest) \<Longrightarrow> length rest < length s"
    and "length s \<le> n"
  shows "regex_sub match s = sub_from n match None s"
  unfolding regex_sub_def using sub_from_fuel [of match s "length s" n] assms by simp

section \<open>What redaction hides\<close>

lemma redact_json_hidden: "secrets_hidden (redact_json j)"
  by (induction j rule: redact_json.induct) (auto simp: list_all_iff)

text \<open>
  C21. In everything redaction returns, at every depth, the value under a credential-like key is the
  marker and nothing else, while an object keeps its keys in order and a list its length; keys are
  judged by their letters and digits only, so spelling and case do not matter.
\<close>

theorem redact_json_hides_secrets:
  "secrets_hidden (redact_json j) \<and>
   map fst (redact_dict kvs) = map fst kvs \<and> redact_json (JObj kvs) = JObj (redact_dict kvs) \<and>
   (\<exists>vs'. redact_json (JList vs) = JList vs' \<and> length vs' = length vs) \<and>
   {k. compact_key_identity k = ''apikey''} \<subseteq> {k. is_sensitive_key k}"
proof (intro conjI)
  show "{k. compact_key_identity k = ''apikey''} \<subseteq> {k. is_sensitive_key k}"
    by (auto simp: is_sensitive_key_def BENIGN_ACCOUNTING_KEY_IDENTITIES_def
        CREDENTIAL_KEY_IDENTITIES_def)
qed (auto simp: redact_json_hidden redact_dict_def)

end
