(* ===== verification/Autonomy_Types.thy ===== *)
theory Autonomy_Types
  imports Domain Redaction
begin

text \<open>
  The values of the autonomous loop in \<^verbatim>\<open>src/project_supervisor/autonomy.py\<close>: the states of a goal
  and its actions, budgets, and the decisions of the evaluator, the planner and the verifier, with
  the checks of their constructors and their stored JSON forms.

  A dictionary is the list of its items in insertion order, with distinct keys. Where Python keeps
  a JSON value of another type than the annotation says without looking at it, the model raises
  \<open>TypeError\<close>; values written by the program itself always have the annotated type.
\<close>

section \<open>States\<close>

datatype goal_state =
    GOAL_CREATED | GOAL_RUNNING | GOAL_SOFT_PAUSED | GOAL_HARD_PAUSED
  | GOAL_STOPPED | GOAL_TERMINATED

definition all_goal_state :: "goal_state list" where
  "all_goal_state =
    [GOAL_CREATED, GOAL_RUNNING, GOAL_SOFT_PAUSED, GOAL_HARD_PAUSED,
     GOAL_STOPPED, GOAL_TERMINATED]"

primrec goal_state_value :: "goal_state \<Rightarrow> string" where
  "goal_state_value GOAL_CREATED = ''created''"
| "goal_state_value GOAL_RUNNING = ''running''"
| "goal_state_value GOAL_SOFT_PAUSED = ''softPaused''"
| "goal_state_value GOAL_HARD_PAUSED = ''hardPaused''"
| "goal_state_value GOAL_STOPPED = ''stopped''"
| "goal_state_value GOAL_TERMINATED = ''terminated''"

datatype pause_mode =
    PAUSE_SOFT | PAUSE_HARD

definition all_pause_mode :: "pause_mode list" where
  "all_pause_mode =
    [PAUSE_SOFT, PAUSE_HARD]"

primrec pause_mode_value :: "pause_mode \<Rightarrow> string" where
  "pause_mode_value PAUSE_SOFT = ''soft''"
| "pause_mode_value PAUSE_HARD = ''hard''"

datatype termination_reason =
    TERM_SUCCESS | TERM_BLOCKED | TERM_NO_PROGRESS | TERM_ITERATION_LIMIT
  | TERM_BUDGET_LIMIT | TERM_REPEATED_FAILURE | TERM_SAFETY_BOUNDARY | TERM_PERMISSION_REQUIRED
  | TERM_HUMAN_ESCALATION | TERM_USER_STOPPED

definition all_termination_reason :: "termination_reason list" where
  "all_termination_reason =
    [TERM_SUCCESS, TERM_BLOCKED, TERM_NO_PROGRESS, TERM_ITERATION_LIMIT,
     TERM_BUDGET_LIMIT, TERM_REPEATED_FAILURE, TERM_SAFETY_BOUNDARY, TERM_PERMISSION_REQUIRED,
     TERM_HUMAN_ESCALATION, TERM_USER_STOPPED]"

primrec termination_reason_value :: "termination_reason \<Rightarrow> string" where
  "termination_reason_value TERM_SUCCESS = ''SUCCESS''"
| "termination_reason_value TERM_BLOCKED = ''BLOCKED''"
| "termination_reason_value TERM_NO_PROGRESS = ''NO_PROGRESS''"
| "termination_reason_value TERM_ITERATION_LIMIT = ''ITERATION_LIMIT''"
| "termination_reason_value TERM_BUDGET_LIMIT = ''BUDGET_LIMIT''"
| "termination_reason_value TERM_REPEATED_FAILURE = ''REPEATED_FAILURE''"
| "termination_reason_value TERM_SAFETY_BOUNDARY = ''SAFETY_BOUNDARY''"
| "termination_reason_value TERM_PERMISSION_REQUIRED = ''PERMISSION_REQUIRED''"
| "termination_reason_value TERM_HUMAN_ESCALATION = ''HUMAN_ESCALATION''"
| "termination_reason_value TERM_USER_STOPPED = ''USER_STOPPED''"

datatype evaluation_disposition =
    EVAL_INCOMPLETE | EVAL_SATISFIED | EVAL_TERMINATE

definition all_evaluation_disposition :: "evaluation_disposition list" where
  "all_evaluation_disposition =
    [EVAL_INCOMPLETE, EVAL_SATISFIED, EVAL_TERMINATE]"

primrec evaluation_disposition_value :: "evaluation_disposition \<Rightarrow> string" where
  "evaluation_disposition_value EVAL_INCOMPLETE = ''incomplete''"
| "evaluation_disposition_value EVAL_SATISFIED = ''satisfied''"
| "evaluation_disposition_value EVAL_TERMINATE = ''terminate''"

datatype action_state =
    ACT_PLANNED | ACT_DISPATCHING | ACT_RUNNING | ACT_COMPLETED
  | ACT_FAILED | ACT_CANCELLED

definition all_action_state :: "action_state list" where
  "all_action_state =
    [ACT_PLANNED, ACT_DISPATCHING, ACT_RUNNING, ACT_COMPLETED,
     ACT_FAILED, ACT_CANCELLED]"

primrec action_state_value :: "action_state \<Rightarrow> string" where
  "action_state_value ACT_PLANNED = ''planned''"
| "action_state_value ACT_DISPATCHING = ''dispatching''"
| "action_state_value ACT_RUNNING = ''running''"
| "action_state_value ACT_COMPLETED = ''completed''"
| "action_state_value ACT_FAILED = ''failed''"
| "action_state_value ACT_CANCELLED = ''cancelled''"

section \<open>Reading dictionaries\<close>

text \<open>\<^verbatim>\<open>bool(v)\<close>, \<^verbatim>\<open>d[k]\<close> and iteration over a JSON value.\<close>

fun json_truthy :: "json \<Rightarrow> bool" where
  "json_truthy JNull = False"
| "json_truthy (JBool b) = b"
| "json_truthy (JInt i) = (i \<noteq> 0)"
| "json_truthy (JNum r) = (r \<noteq> 0)"
| "json_truthy (JStr s) = (s \<noteq> [])"
| "json_truthy (JList vs) = (vs \<noteq> [])"
| "json_truthy (JTime t) = True"
| "json_truthy (JMicros t) = True"
| "json_truthy (JObj kvs) = (kvs \<noteq> [])"

definition dict_item :: "(string \<times> json) list \<Rightarrow> string \<Rightarrow> json result" where
  "dict_item d k = (case map_of d k of None \<Rightarrow> Inl (KeyError k) | Some v \<Rightarrow> Inr v)"

definition dict_get :: "(string \<times> json) list \<Rightarrow> string \<Rightarrow> json \<Rightarrow> json" where
  "dict_get d k v0 = (case map_of d k of None \<Rightarrow> v0 | Some v \<Rightarrow> v)"

definition as_string :: "json \<Rightarrow> string result" where
  "as_string v = (case v of JStr s \<Rightarrow> Inr s | _ \<Rightarrow> Inl (TypeError ''str''))"

definition as_int :: "json \<Rightarrow> int result" where
  "as_int v = (case v of JInt i \<Rightarrow> Inr i | _ \<Rightarrow> Inl (TypeError ''int''))"

definition as_float :: "json \<Rightarrow> rat result" where
  "as_float v = (case v of JNum r \<Rightarrow> Inr r | JInt i \<Rightarrow> Inr (of_int i) | _ \<Rightarrow> Inl (TypeError ''float''))"

definition as_optional :: "(json \<Rightarrow> 'a result) \<Rightarrow> json \<Rightarrow> 'a option result" where
  "as_optional f v = (if v = JNull then Inr None else bindR (f v) (\<lambda>x. Inr (Some x)))"

definition json_iter :: "json \<Rightarrow> json list result" where
  "json_iter v =
     (case v of
        JList vs \<Rightarrow> Inr vs
      | JStr s \<Rightarrow> Inr (map (\<lambda>c. JStr [c]) s)
      | JObj kvs \<Rightarrow> Inr (map (\<lambda>(k, _). JStr k) kvs)
      | _ \<Rightarrow> Inl (TypeError ''object is not iterable''))"

definition json_int :: "json \<Rightarrow> int result" where
  "json_int v = (case py_int v of
      None \<Rightarrow> Inl (case v of JStr _ \<Rightarrow> ValueError ''invalid literal for int()'' | _ \<Rightarrow> TypeError ''int'')
    | Some n \<Rightarrow> Inr n)"

text \<open>Calling an enumeration class on a JSON value.\<close>

definition enum_member :: "'a list \<Rightarrow> ('a \<Rightarrow> string) \<Rightarrow> json \<Rightarrow> 'a result" where
  "enum_member members val v =
     (case v of
        JStr s \<Rightarrow> (case enum_of members val s of None \<Rightarrow> Inl (ValueError s) | Some x \<Rightarrow> Inr x)
      | _ \<Rightarrow> Inl (ValueError ''not a member''))"

section \<open>Budgets\<close>

record goal_budget =
  gb_max_iterations :: int
  gb_max_tasks :: int
  gb_max_failures :: int
  gb_no_progress_limit :: int
  gb_max_elapsed_seconds :: "rat option"
  gb_max_total_tokens :: "int option"
  gb_max_cost_usd :: "rat option"

definition default_budget :: goal_budget where
  "default_budget =
     \<lparr>gb_max_iterations = 12, gb_max_tasks = 48, gb_max_failures = 6, gb_no_progress_limit = 3,
      gb_max_elapsed_seconds = None, gb_max_total_tokens = None, gb_max_cost_usd = None\<rparr>"

definition given_nonpositive :: "('a :: {zero, linorder}) option \<Rightarrow> bool" where
  "given_nonpositive v = (case v of None \<Rightarrow> False | Some x \<Rightarrow> x \<le> 0)"

definition check_goal_budget :: "goal_budget \<Rightarrow> unit result" where
  "check_goal_budget b =
     bindR (raise_if (gb_max_iterations b < 1) (ValueError ''max_iterations must be positive'')) (\<lambda>_.
     bindR (raise_if (gb_max_tasks b < 1) (ValueError ''max_tasks must be positive'')) (\<lambda>_.
     bindR (raise_if (gb_max_failures b < 1) (ValueError ''max_failures must be positive'')) (\<lambda>_.
     bindR (raise_if (gb_no_progress_limit b < 1) (ValueError ''no_progress_limit must be positive'')) (\<lambda>_.
     bindR (raise_if (given_nonpositive (gb_max_elapsed_seconds b))
       (ValueError ''max_elapsed_seconds must be positive when specified'')) (\<lambda>_.
     bindR (raise_if (given_nonpositive (gb_max_total_tokens b))
       (ValueError ''max_total_tokens must be positive when specified'')) (\<lambda>_.
     raise_if (given_nonpositive (gb_max_cost_usd b))
       (ValueError ''max_cost_usd must be positive when specified'')))))))"

definition budget_to_dict :: "goal_budget \<Rightarrow> (string \<times> json) list" where
  "budget_to_dict b =
     [(''max_iterations'', JInt (gb_max_iterations b)), (''max_tasks'', JInt (gb_max_tasks b)),
      (''max_failures'', JInt (gb_max_failures b)),
      (''no_progress_limit'', JInt (gb_no_progress_limit b)),
      (''max_elapsed_seconds'', json_opt JNum (gb_max_elapsed_seconds b)),
      (''max_total_tokens'', json_opt JInt (gb_max_total_tokens b)),
      (''max_cost_usd'', json_opt JNum (gb_max_cost_usd b))]"

definition budget_keys :: "string list" where
  "budget_keys = map fst (budget_to_dict default_budget)"

text \<open>\<^verbatim>\<open>cls(**value)\<close>: an unknown keyword is a \<open>TypeError\<close>, a missing one takes its default.\<close>

definition budget_from_dict :: "(string \<times> json) list \<Rightarrow> goal_budget result" where
  "budget_from_dict d =
     bindR (raise_if (\<not> list_all (\<lambda>(k, _). k \<in> set budget_keys) d)
       (TypeError ''unexpected keyword argument'')) (\<lambda>_.
     bindR (as_int (dict_get d ''max_iterations'' (JInt 12))) (\<lambda>iterations.
     bindR (as_int (dict_get d ''max_tasks'' (JInt 48))) (\<lambda>tasks.
     bindR (as_int (dict_get d ''max_failures'' (JInt 6))) (\<lambda>failures.
     bindR (as_int (dict_get d ''no_progress_limit'' (JInt 3))) (\<lambda>no_progress.
     bindR (as_optional as_float (dict_get d ''max_elapsed_seconds'' JNull)) (\<lambda>elapsed.
     bindR (as_optional as_int (dict_get d ''max_total_tokens'' JNull)) (\<lambda>tokens.
     bindR (as_optional as_float (dict_get d ''max_cost_usd'' JNull)) (\<lambda>cost.
     let b = \<lparr>gb_max_iterations = iterations, gb_max_tasks = tasks, gb_max_failures = failures,
       gb_no_progress_limit = no_progress, gb_max_elapsed_seconds = elapsed,
       gb_max_total_tokens = tokens, gb_max_cost_usd = cost\<rparr>
     in bindR (check_goal_budget b) (\<lambda>_. Inr b)))))))))"

record budget_observation =
  bo_total_tokens :: "int option"
  bo_cost_usd :: "rat option"

section \<open>Decisions\<close>

record goal_evaluation =
  ge_disposition :: evaluation_disposition
  ge_summary :: string
  ge_progress_fingerprint :: string
  ge_termination_reason :: "termination_reason option"
  ge_facts :: json

definition check_goal_evaluation :: "goal_evaluation \<Rightarrow> unit result" where
  "check_goal_evaluation e =
     bindR (raise_if (\<not> nonblank (ge_summary e) \<or> \<not> nonblank (ge_progress_fingerprint e))
       (ValueError ''evaluation summary and progress fingerprint are required'')) (\<lambda>_.
     if ge_disposition e = EVAL_TERMINATE
     then raise_if (ge_termination_reason e \<in> {None, Some TERM_SUCCESS})
       (ValueError ''terminate evaluations require a non-success reason'')
     else raise_if (ge_termination_reason e \<noteq> None)
       (ValueError ''termination reason is only valid for terminate evaluations''))"

record planned_action =
  pa_key :: string
  pa_title :: string
  pa_description :: string
  pa_role :: string
  pa_payload :: json

definition check_planned_action :: "planned_action \<Rightarrow> unit result" where
  "check_planned_action a =
     raise_if (\<not> nonblank (pa_key a) \<or> \<not> nonblank (pa_title a) \<or> \<not> nonblank (pa_description a))
       (ValueError ''planned action key, title and description are required'')"

record goal_plan =
  gp_summary :: string
  gp_actions :: "planned_action list"
  gp_rationale :: string

record dispatch_handle =
  dh_reference :: string
  dh_task_id :: "string option"
  dh_metadata :: json

record action_result =
  ar_succeeded :: bool
  ar_summary :: string
  ar_payload :: json
  ar_cancelled :: bool

record goal_verification =
  gv_satisfied :: bool
  gv_summary :: string
  gv_progress_fingerprint :: string
  gv_termination_reason :: "termination_reason option"
  gv_evidence :: json

definition check_goal_verification :: "goal_verification \<Rightarrow> unit result" where
  "check_goal_verification v =
     bindR (raise_if (\<not> nonblank (gv_summary v) \<or> \<not> nonblank (gv_progress_fingerprint v))
       (ValueError ''verification summary and progress fingerprint are required'')) (\<lambda>_.
     bindR (raise_if (gv_satisfied v \<and> gv_termination_reason v \<notin> {None, Some TERM_SUCCESS})
       (ValueError ''satisfied verification cannot have a failure reason'')) (\<lambda>_.
     raise_if (\<not> gv_satisfied v \<and> gv_termination_reason v = Some TERM_SUCCESS)
       (ValueError ''incomplete verification cannot terminate as success'')))"

section \<open>Stored forms\<close>

definition evaluation_to_dict :: "goal_evaluation \<Rightarrow> (string \<times> json) list" where
  "evaluation_to_dict e =
     [(''disposition'', JStr (evaluation_disposition_value (ge_disposition e))),
      (''summary'', JStr (ge_summary e)),
      (''progressFingerprint'', JStr (ge_progress_fingerprint e)),
      (''terminationReason'', json_opt (JStr \<circ> termination_reason_value) (ge_termination_reason e)),
      (''facts'', redact_json (ge_facts e))]"

definition reason_from_json :: "json \<Rightarrow> termination_reason option result" where
  "reason_from_json v =
     (if json_truthy v
      then bindR (enum_member all_termination_reason termination_reason_value v) (\<lambda>r. Inr (Some r))
      else Inr None)"

definition evaluation_from_dict :: "(string \<times> json) list \<Rightarrow> goal_evaluation result" where
  "evaluation_from_dict d =
     bindR (dict_item d ''disposition'') (\<lambda>v.
     bindR (enum_member all_evaluation_disposition evaluation_disposition_value v) (\<lambda>disposition.
     bindR (dict_item d ''summary'') (\<lambda>v. bindR (as_string v) (\<lambda>summary.
     bindR (dict_item d ''progressFingerprint'') (\<lambda>v. bindR (as_string v) (\<lambda>fingerprint.
     bindR (reason_from_json (dict_get d ''terminationReason'' JNull)) (\<lambda>reason.
     let e = \<lparr>ge_disposition = disposition, ge_summary = summary,
       ge_progress_fingerprint = fingerprint, ge_termination_reason = reason,
       ge_facts = dict_get d ''facts'' (JObj [])\<rparr>
     in bindR (check_goal_evaluation e) (\<lambda>_. Inr e))))))))"

definition plan_to_dict :: "goal_plan \<Rightarrow> (string \<times> json) list" where
  "plan_to_dict p =
     [(''summary'', JStr (gp_summary p)), (''rationale'', JStr (gp_rationale p)),
      (''actions'', JList (map (\<lambda>a. JObj
         [(''key'', JStr (pa_key a)), (''title'', JStr (pa_title a)),
          (''description'', JStr (pa_description a)), (''role'', JStr (pa_role a)),
          (''payload'', redact_json (pa_payload a))]) (gp_actions p)))]"

definition verification_to_dict :: "goal_verification \<Rightarrow> (string \<times> json) list" where
  "verification_to_dict v =
     [(''satisfied'', JBool (gv_satisfied v)),
      (''summary'', JStr (gv_summary v)),
      (''progressFingerprint'', JStr (gv_progress_fingerprint v)),
      (''terminationReason'', json_opt (JStr \<circ> termination_reason_value) (gv_termination_reason v)),
      (''evidence'', redact_json (gv_evidence v))]"

definition verification_from_dict :: "(string \<times> json) list \<Rightarrow> goal_verification result" where
  "verification_from_dict d =
     bindR (dict_item d ''satisfied'') (\<lambda>satisfied.
     bindR (dict_item d ''summary'') (\<lambda>v. bindR (as_string v) (\<lambda>summary.
     bindR (dict_item d ''progressFingerprint'') (\<lambda>v. bindR (as_string v) (\<lambda>fingerprint.
     bindR (reason_from_json (dict_get d ''terminationReason'' JNull)) (\<lambda>reason.
     let v = \<lparr>gv_satisfied = json_truthy satisfied, gv_summary = summary,
       gv_progress_fingerprint = fingerprint, gv_termination_reason = reason,
       gv_evidence = dict_get d ''evidence'' (JObj [])\<rparr>
     in bindR (check_goal_verification v) (\<lambda>_. Inr v)))))))"

definition handle_to_dict :: "dispatch_handle \<Rightarrow> (string \<times> json) list" where
  "handle_to_dict h =
     [(''reference'', JStr (dh_reference h)), (''taskID'', json_opt JStr (dh_task_id h)),
      (''metadata'', redact_json (dh_metadata h))]"

text \<open>The part of \<^verbatim>\<open>_handle_from_row\<close> after \<^verbatim>\<open>json.loads\<close>.\<close>

definition handle_from_dict :: "(string \<times> json) list \<Rightarrow> dispatch_handle result" where
  "handle_from_dict d =
     bindR (dict_item d ''reference'') (\<lambda>v. bindR (as_string v) (\<lambda>reference.
     bindR (as_optional as_string (dict_get d ''taskID'' JNull)) (\<lambda>task_id.
     Inr \<lparr>dh_reference = reference, dh_task_id = task_id,
       dh_metadata = dict_get d ''metadata'' (JObj [])\<rparr>)))"

text \<open>\<^verbatim>\<open>redact_sensitive(asdict(result))\<close>\<close>

definition result_to_dict :: "action_result \<Rightarrow> (string \<times> json) list" where
  "result_to_dict r =
     redact_dict [(''succeeded'', JBool (ar_succeeded r)), (''summary'', JStr (ar_summary r)),
      (''payload'', ar_payload r), (''cancelled'', JBool (ar_cancelled r))]"

definition result_from_dict :: "(string \<times> json) list \<Rightarrow> action_result result" where
  "result_from_dict d =
     bindR (dict_item d ''succeeded'') (\<lambda>succeeded.
     bindR (dict_item d ''summary'') (\<lambda>v. bindR (as_string v) (\<lambda>summary.
     Inr \<lparr>ar_succeeded = json_truthy succeeded, ar_summary = summary,
       ar_payload = dict_get d ''payload'' (JObj []),
       ar_cancelled = json_truthy (dict_get d ''cancelled'' (JBool False))\<rparr>)))"

section \<open>Task requirements of a planned action\<close>

definition requirements_from_payload :: "(string \<times> json) list \<Rightarrow> task_requirements result" where
  "requirements_from_payload p =
     bindR (enum_member all_permission_class permission_class_value
       (dict_get p ''permissionClass'' (JStr ''green''))) (\<lambda>permission.
     bindR (json_iter (dict_get p ''labels'' (JList [JStr ''research'']))) (\<lambda>vs.
     bindR (map_result (enum_member all_task_label task_label_value) vs) (\<lambda>labels.
     bindR (json_iter (dict_get p ''requiredCapabilities'' (JList []))) (\<lambda>vs.
     bindR (map_result as_string vs) (\<lambda>capabilities.
     bindR (as_optional as_int (dict_get p ''minimumContextTokens'' JNull)) (\<lambda>context.
     bindR (json_int (dict_get p ''panelSize'' (JInt 2))) (\<lambda>panel.
     bindR (json_iter (dict_get p ''preferredWorkers'' (JList []))) (\<lambda>vs.
     bindR (map_result as_string vs) (\<lambda>preferred.
     Inr \<lparr>rq_labels = set labels, rq_required_capabilities = set capabilities,
       rq_permission_class = permission,
       rq_approval_state = (if permission = PERM_RED then APPROVAL_PENDING else APPROVAL_NOT_REQUIRED),
       rq_minimum_context_tokens = context,
       rq_privacy_sensitive = json_truthy (dict_get p ''privacySensitive'' (JBool False)),
       rq_code_write_required = json_truthy (dict_get p ''codeWriteRequired'' (JBool False)),
       rq_panel_size = panel, rq_preferred_workers = preferred\<rparr>)))))))))"

section \<open>Wire values are a bijection with the members\<close>

interpretation goal_state_wire: wire_enum all_goal_state goal_state_value
proof
  show "x \<in> set all_goal_state" for x
    by (cases x) (simp_all add: all_goal_state_def)
  show "distinct (map goal_state_value all_goal_state)"
    by (simp add: all_goal_state_def)
qed

interpretation pause_mode_wire: wire_enum all_pause_mode pause_mode_value
proof
  show "x \<in> set all_pause_mode" for x
    by (cases x) (simp_all add: all_pause_mode_def)
  show "distinct (map pause_mode_value all_pause_mode)"
    by (simp add: all_pause_mode_def)
qed

interpretation termination_reason_wire: wire_enum all_termination_reason termination_reason_value
proof
  show "x \<in> set all_termination_reason" for x
    by (cases x) (simp_all add: all_termination_reason_def)
  show "distinct (map termination_reason_value all_termination_reason)"
    by (simp add: all_termination_reason_def)
qed

interpretation evaluation_disposition_wire: wire_enum all_evaluation_disposition evaluation_disposition_value
proof
  show "x \<in> set all_evaluation_disposition" for x
    by (cases x) (simp_all add: all_evaluation_disposition_def)
  show "distinct (map evaluation_disposition_value all_evaluation_disposition)"
    by (simp add: all_evaluation_disposition_def)
qed

interpretation action_state_wire: wire_enum all_action_state action_state_value
proof
  show "x \<in> set all_action_state" for x
    by (cases x) (simp_all add: all_action_state_def)
  show "distinct (map action_state_value all_action_state)"
    by (simp add: all_action_state_def)
qed

section \<open>Restoring a checkpoint\<close>

lemma nonblank_append [simp]: "nonblank (xs @ ys) \<longleftrightarrow> nonblank xs \<or> nonblank ys"
  by (simp add: nonblank_def)

lemma nonblank_REDACTED [simp]: "nonblank REDACTED"
  by (simp add: REDACTED_def py_isspace_def)

lemma nonblank_sub_from: "nonblank s \<Longrightarrow> nonblank (sub_from n m p s)"
  by (induction n m p s rule: sub_from.induct) (auto split: list.split option.split)

lemma nonblank_redact_string: "nonblank s \<Longrightarrow> nonblank (redact_string s)"
  by (simp add: redact_string_def regex_sub_def nonblank_sub_from)

text \<open>Each pattern needs a colon, an equals sign or a hyphen: other strings stay as they are.\<close>

definition separator_free :: "string \<Rightarrow> bool" where
  "separator_free s = list_all (\<lambda>c. c \<noteq> CHR '':'' \<and> c \<noteq> CHR ''='' \<and> c \<noteq> CHR ''-'') s"

lemma separator_free_simps [simp]:
  "separator_free []"
  "separator_free (c # s) \<longleftrightarrow>
     c \<noteq> CHR '':'' \<and> c \<noteq> CHR ''='' \<and> c \<noteq> CHR ''-'' \<and> separator_free s"
  by (simp_all add: separator_free_def)

lemma separator_free_suffix: "separator_free (xs @ ys) \<Longrightarrow> separator_free ys"
  by (simp add: separator_free_def)

lemma separator_free_dropWhile: "separator_free s \<Longrightarrow> separator_free (dropWhile P s)"
  by (metis separator_free_suffix takeWhile_dropWhile_id)

lemma eat_assignment_separator_free: "separator_free s \<Longrightarrow> eat_assignment s = None"
  using separator_free_dropWhile [of s py_isspace]
  by (auto simp: eat_assignment_def eat_spaces_def split: list.split)

lemma first_match_None: "(\<And>x. x \<in> set xs \<Longrightarrow> f x = None) \<Longrightarrow> first_match f xs = None"
  by (induction xs) auto

lemma eat_literal_separator_free:
  "eat_literal w s = Some (m, rest) \<Longrightarrow> separator_free s \<Longrightarrow> separator_free rest"
  using eat_literal_append separator_free_suffix by blast

lemma match_secret_separator_free:
  assumes "separator_free s"
  shows "match_secret_at s = None"
  unfolding match_secret_at_def
proof (rule first_match_None)
  fix w
  show "(case eat_literal w s of None \<Rightarrow> None | Some (m, rest) \<Rightarrow>
      (case eat_assignment rest of None \<Rightarrow> None | Some (sep, rest') \<Rightarrow> Some (m @ sep, rest'))) = None"
    by (cases "eat_literal w s")
      (auto simp: eat_assignment_separator_free dest: eat_literal_separator_free [OF _ assms])
qed

lemma match_bearer_separator_free:
  assumes "separator_free s"
  shows "match_bearer_at s = None"
proof (cases "eat_literal ''authorization'' s")
  case (Some r)
  then obtain m rest where r: "eat_literal ''authorization'' s = Some (m, rest)" by (cases r) simp
  have "separator_free (dropWhile py_isspace rest)"
    using eat_literal_separator_free [OF r assms] by (rule separator_free_dropWhile)
  then show ?thesis
    by (auto simp: match_bearer_at_def r eat_spaces_def split: list.split)
qed (simp add: match_bearer_at_def)

lemma match_sk_separator_free:
  assumes "separator_free s"
  shows "match_sk_at p s = None"
proof -
  have "take 3 s \<noteq> ''sk-''"
  proof
    assume "take 3 s = ''sk-''"
    then have "s = ''sk-'' @ drop 3 s" by (metis append_take_drop_id)
    with assms show False by (metis append.simps(2) separator_free_simps(2))
  qed
  then show ?thesis by (simp add: match_sk_at_def)
qed

lemma sub_from_id:
  "(\<And>p t. separator_free t \<Longrightarrow> m p t = None) \<Longrightarrow> separator_free s \<Longrightarrow> sub_from n m p s = s"
  by (induction n arbitrary: p s) (auto split: list.split)

lemma redact_string_id: "separator_free s \<Longrightarrow> redact_string s = s"
  by (simp add: redact_string_def regex_sub_def sub_from_id match_secret_separator_free
      match_bearer_separator_free match_sk_separator_free)

lemma redact_reason: "redact_string (termination_reason_value r) = termination_reason_value r"
  by (cases r) (simp_all add: redact_string_id)

lemma redact_disposition:
  "redact_string (evaluation_disposition_value d) = evaluation_disposition_value d"
  by (cases d) (simp_all add: redact_string_id)

text \<open>No key of a stored decision is taken for a credential.\<close>

lemma decision_keys_kept:
  "\<not> is_sensitive_key ''disposition''" "\<not> is_sensitive_key ''summary''"
  "\<not> is_sensitive_key ''progressFingerprint''" "\<not> is_sensitive_key ''terminationReason''"
  "\<not> is_sensitive_key ''facts''" "\<not> is_sensitive_key ''satisfied''"
  "\<not> is_sensitive_key ''evidence''" "\<not> is_sensitive_key ''succeeded''"
  "\<not> is_sensitive_key ''payload''" "\<not> is_sensitive_key ''cancelled''"
  by code_simp+

lemmas restore_simps =
  redact_dict_def evaluation_to_dict_def verification_to_dict_def dict_item_def dict_get_def
  enum_member_def as_string_def decision_keys_kept redact_disposition Let_def

lemma termination_reason_value_ne [simp]: "termination_reason_value r \<noteq> []"
  by (cases r) simp_all

lemma reason_restored:
  "reason_from_json (redact_json (json_opt (JStr \<circ> termination_reason_value) r)) = Inr r"
  by (cases r) (simp_all add: reason_from_json_def json_opt_def enum_member_def redact_reason)

lemma evaluation_restored:
  assumes "check_goal_evaluation e = Inr ()"
  shows "evaluation_from_dict (redact_dict (evaluation_to_dict e) @ extra) =
    Inr (e\<lparr>ge_summary := redact_string (ge_summary e),
          ge_progress_fingerprint := redact_string (ge_progress_fingerprint e),
          ge_facts := redact_json (redact_json (ge_facts e))\<rparr>)" (is "_ = Inr ?e")
proof -
  have "check_goal_evaluation ?e = Inr ()"
    using assms by (auto simp: check_goal_evaluation_def nonblank_redact_string split: if_splits)
  then show ?thesis
    by (cases e) (simp add: evaluation_from_dict_def restore_simps reason_restored)
qed

lemma verification_restored:
  assumes "check_goal_verification v = Inr ()"
  shows "verification_from_dict (redact_dict (verification_to_dict v) @ extra) =
    Inr (v\<lparr>gv_summary := redact_string (gv_summary v),
          gv_progress_fingerprint := redact_string (gv_progress_fingerprint v),
          gv_evidence := redact_json (redact_json (gv_evidence v))\<rparr>)" (is "_ = Inr ?v")
proof -
  have "check_goal_verification ?v = Inr ()"
    using assms by (auto simp: check_goal_verification_def nonblank_redact_string)
  then show ?thesis
    by (cases v) (simp add: verification_from_dict_def restore_simps reason_restored)
qed

lemma budget_restored: "check_goal_budget b = Inr () \<Longrightarrow> budget_from_dict (budget_to_dict b) = Inr b"
  by (cases b)
    (auto simp: budget_from_dict_def budget_to_dict_def budget_keys_def dict_get_def as_int_def
      as_float_def as_optional_def json_opt_def Let_def split: option.splits)

text \<open>
  C32. A decision survives the crash between its checkpoint and its use. Whatever passes the checks of
  its constructor and is stored, redacted and with the steer version added, is read back without an
  error as a decision of the same disposition and termination reason; only its texts went through
  redaction. The budget of a goal is read back exactly.
\<close>

theorem decision_checkpoint_roundtrip:
  assumes "check_goal_evaluation e = Inr ()" and "check_goal_verification v = Inr ()"
    and "check_goal_budget b = Inr ()"
  shows "evaluation_from_dict (redact_dict (evaluation_to_dict e) @ [(''steerVersion'', JInt n)]) =
      Inr (e\<lparr>ge_summary := redact_string (ge_summary e),
            ge_progress_fingerprint := redact_string (ge_progress_fingerprint e),
            ge_facts := redact_json (redact_json (ge_facts e))\<rparr>) \<and>
    verification_from_dict (redact_dict (verification_to_dict v) @ [(''steerVersion'', JInt n)]) =
      Inr (v\<lparr>gv_summary := redact_string (gv_summary v),
            gv_progress_fingerprint := redact_string (gv_progress_fingerprint v),
            gv_evidence := redact_json (redact_json (gv_evidence v))\<rparr>) \<and>
    budget_from_dict (budget_to_dict b) = Inr b"
  using assms by (simp add: evaluation_restored verification_restored budget_restored)

theorem decision_checkpoint_roundtrip_witness:
  "is_ok (verification_from_dict (redact_dict (verification_to_dict
     \<lparr>gv_satisfied = False, gv_summary = ''not yet'', gv_progress_fingerprint = ''f1'',
      gv_termination_reason = Some TERM_BLOCKED, gv_evidence = JObj []\<rparr>) @
      [(''steerVersion'', JInt 2)]))"
proof -
  have e: "check_goal_evaluation \<lparr>ge_disposition = EVAL_INCOMPLETE, ge_summary = ''s'',
      ge_progress_fingerprint = ''f'', ge_termination_reason = None, ge_facts = JNull\<rparr> = Inr ()"
    and v: "check_goal_verification \<lparr>gv_satisfied = False, gv_summary = ''not yet'',
      gv_progress_fingerprint = ''f1'', gv_termination_reason = Some TERM_BLOCKED,
      gv_evidence = JObj []\<rparr> = Inr ()"
    and b: "check_goal_budget default_budget = Inr ()"
    by (simp_all add: check_goal_evaluation_def check_goal_verification_def check_goal_budget_def
        default_budget_def given_nonpositive_def py_isspace_def)
  show ?thesis using decision_checkpoint_roundtrip [OF e v b, of 2] by simp
qed

end
