(* ===== verification/Store_Core.thy ===== *)
theory Store_Core
  imports State_Machine Protocols Autonomy_Types
begin

text \<open>
  The durable state of \<^verbatim>\<open>StateStore\<close> in \<^verbatim>\<open>src/project_supervisor/store.py\<close> and its basic
  operations: the tables, the event journal, projects, tasks, acceptance criteria, and the registry
  of nodes, models and workers.

  The record \<open>db\<close> is the SQLite database: one field per table, a table the list of its rows in
  insertion order, a nullable column an option, an enumeration column the enumeration itself.
  JSON columns hold the value that is serialised (keys and sorted lists in source order).
  An operation takes the clock \<open>now\<close>, its arguments and the database, and returns the new database
  and its value, or the exception with which the transaction rolled back. The clock is read once
  per transaction; \<open>timestamp\<close> truncates it to whole seconds, and the fixed-width text of
  timestamps compares like the instants. Random identifiers are arguments. Constraints of the
  schema that a statement can violate raise \<open>IntegrityError\<close> with the table's name.
\<close>

section \<open>Rows\<close>

definition timestamp :: "rat \<Rightarrow> int" where
  "timestamp t = \<lfloor>t\<rfloor>"

record event =
  ev_sequence :: nat
  ev_kind :: string
  ev_severity :: event_severity
  ev_entity_type :: string
  ev_entity_id :: string
  ev_project_id :: "string option"
  ev_task_id :: "string option"
  ev_worker_id :: "string option"
  ev_run_id :: "string option"
  ev_summary :: string
  ev_payload :: "(string \<times> json) list"
  ev_actor :: string
  ev_created_at :: int

record project_row =
  pj_id :: string
  pj_name :: string
  pj_root_path :: string
  pj_goal :: string
  pj_phase :: project_phase
  pj_created_at :: int
  pj_updated_at :: int

record criterion_row =
  cr_id :: string
  cr_project_id :: string
  cr_kind :: string
  cr_description :: string
  cr_command :: "json option"
  cr_expected :: "json option"
  cr_state :: string
  cr_evidence :: "json option"
  cr_created_at :: int
  cr_updated_at :: int

record node_row =
  nd_id :: string
  nd_hostname :: string
  nd_display_name :: string
  nd_role :: string
  nd_state :: node_state
  nd_operating_system :: "string option"
  nd_hardware_summary :: "string option"
  nd_private_endpoint :: "string option"
  nd_capabilities :: "string list"
  nd_last_heartbeat_at :: "int option"
  nd_created_at :: int
  nd_updated_at :: int

record model_row =
  ml_id :: string
  ml_provider :: provider
  ml_identifier :: string
  ml_display_name :: string
  ml_context_variant :: "string option"
  ml_context_window_tokens :: "int option"

record worker_row =
  wk_id :: string
  wk_node_id :: string
  wk_harness :: harness
  wk_provider :: provider
  wk_model_id :: "string option"
  wk_state :: worker_state
  wk_resource_state :: resource_state
  wk_capabilities :: "string list"
  wk_code_write_allowed :: bool
  wk_privacy_allowed :: bool
  wk_quality_score :: rat
  wk_reliability_score :: rat
  wk_expected_latency_seconds :: rat
  wk_monetary_cost_score :: rat
  wk_harness_version :: "string option"
  wk_last_heartbeat_at :: "int option"
  wk_created_at :: int
  wk_updated_at :: int

record task_row =
  tk_id :: string
  tk_project_id :: string
  tk_reference :: string
  tk_title :: string
  tk_description :: string
  tk_state :: task_state
  tk_topology :: execution_topology
  tk_priority :: int
  tk_labels :: "string list"
  tk_required_capabilities :: "string list"
  tk_permission_class :: permission_class
  tk_approval_state :: approval_state
  tk_minimum_context_tokens :: "int option"
  tk_privacy_sensitive :: bool
  tk_code_write_required :: bool
  tk_panel_size :: int
  tk_preferred_workers :: "string list"
  tk_attempt_count :: int
  tk_version :: int
  tk_failure_reason :: "string option"
  tk_created_at :: int
  tk_started_at :: "int option"
  tk_updated_at :: int
  tk_finished_at :: "int option"
  tk_definition_revision :: int
  tk_current_verification_scope_id :: "string option"

record dependency_row =
  dp_task_id :: string
  dp_depends_on_task_id :: string

record run_row =
  rn_id :: string
  rn_task_id :: string
  rn_worker_id :: string
  rn_session_id :: "string option"
  rn_state :: run_state
  rn_process_id :: "int option"
  rn_attempt :: int
  rn_started_at :: "int option"
  rn_last_event_at :: "int option"
  rn_timeout_at :: "int option"
  rn_ended_at :: "int option"
  rn_exit_code :: "int option"
  rn_failure_class :: "failure_class option"
  rn_failure_detail :: "string option"
  rn_raw_output_reference :: "string option"
  rn_verification_scope_id :: "string option"
  rn_task_definition_revision :: "int option"
  rn_created_at :: int
  rn_updated_at :: int

datatype lease_state = LEASE_ACTIVE | LEASE_RELEASED

record lease_row =
  tl_task_id :: string
  tl_owner_id :: string
  tl_generation :: int
  tl_state :: lease_state
  tl_acquired_at :: int
  tl_heartbeat_at :: int
  tl_expires_at :: int
  tl_released_at :: "int option"

datatype launch_state =
    LAUNCH_PREPARED | LAUNCH_LAUNCHING | LAUNCH_BOUND | LAUNCH_TERMINAL | LAUNCH_UNCERTAIN

datatype reconciliation_state =
    RECON_UNKNOWN | RECON_KNOWN_RUNNING | RECON_KNOWN_COMPLETED | RECON_KNOWN_FAILED
  | RECON_KNOWN_CANCELLED | RECON_PROVIDER_NOT_FOUND | RECON_PROVIDER_UNREACHABLE

datatype collection_state =
    COLLECT_PENDING | COLLECT_COLLECTED | COLLECT_NOT_AVAILABLE | COLLECT_UNCERTAIN

record job_capabilities =
  jc_reconcile :: bool
  jc_resume :: bool
  jc_cancel :: bool
  jc_durable_cancel :: bool
  jc_provider_idempotency :: bool
  jc_stream_reconnect :: bool
  jc_repeatable_collect :: bool
  jc_idempotent_launch_lookup :: bool
  jc_durable_launch_registry :: bool

record job_handle =
  jh_handle_version :: int
  jh_provider_job_id :: "string option"
  jh_provider_session_id :: "string option"
  jh_runtime_pid :: "int option"
  jh_runtime_host :: "string option"
  jh_runtime_identity :: "string option"
  jh_adapter_metadata :: "(string \<times> json) list"

record provider_job_row =
  jb_id :: string
  jb_run_id :: string
  jb_task_id :: string
  jb_worker_id :: string
  jb_adapter_type :: string
  jb_adapter_instance_id :: string
  jb_provider :: provider
  jb_handle :: job_handle
  jb_launch_generation :: int
  jb_idempotency_key :: string
  jb_launch_state :: launch_state
  jb_reconciliation_state :: reconciliation_state
  jb_result_collection_state :: collection_state
  jb_supports :: job_capabilities
  jb_protocol_version :: int
  jb_created_at :: int
  jb_launched_at :: "int option"
  jb_last_reconciled_at :: "int option"
  jb_result_collected_at :: "int option"
  jb_updated_at :: int

record escalation_row =
  es_id :: string
  es_project_id :: string
  es_goal_id :: "string option"
  es_task_id :: "string option"
  es_run_id :: "string option"
  es_provider_job_id :: "string option"
  es_code :: string
  es_state :: string
  es_summary :: string
  es_detail :: "string option"
  es_created_by :: string
  es_resolved_by :: "string option"
  es_created_at :: int
  es_updated_at :: int
  es_resolved_at :: "int option"

record scope_row =
  sp_id :: string
  sp_project_id :: string
  sp_task_id :: string
  sp_criteria_version :: int
  sp_task_definition_revision :: int
  sp_goal_id :: "string option"
  sp_iteration_id :: "string option"
  sp_plan_version :: "int option"
  sp_steer_version :: "int option"
  sp_schema_version :: string
  sp_definition_sha256 :: string
  sp_created_at :: int
  sp_sealed_at :: "int option"

record scope_item_row =
  si_id :: string
  si_scope_id :: string
  si_criterion_id :: string
  si_source_criterion_id :: "string option"
  si_ordinal :: int
  si_required :: bool
  si_kind :: string
  si_description :: string
  si_command :: "json option"
  si_expected :: "json option"
  si_definition_sha256 :: string
  si_created_at :: int

record verification_row =
  vf_id :: string
  vf_task_id :: string
  vf_criterion_id :: "string option"
  vf_kind :: string
  vf_command :: "json option"
  vf_exit_code :: "int option"
  vf_passed :: bool
  vf_evidence :: json
  vf_verifier :: string
  vf_created_at :: int
  vf_verification_scope_id :: "string option"
  vf_scope_item_id :: "string option"
  vf_source_attempt :: "int option"

record result_row =
  rs_run_id :: string
  rs_summary :: string
  rs_changed_files :: json
  rs_commands_run :: json
  rs_tests :: json
  rs_artifacts :: json
  rs_commit_hash :: "string option"
  rs_blockers :: json
  rs_confidence :: "rat option"
  rs_recommended_next_actions :: json
  rs_created_at :: int

record failure_row =
  fa_id :: string
  fa_project_id :: "string option"
  fa_task_id :: "string option"
  fa_run_id :: "string option"
  fa_classification :: failure_class
  fa_summary :: string
  fa_detail :: "string option"
  fa_retryable :: bool
  fa_created_at :: int

record approval_row =
  ap_id :: string
  ap_project_id :: string
  ap_task_id :: "string option"
  ap_permission_class :: string
  ap_action_type :: string
  ap_action_payload :: "(string \<times> json) list"
  ap_state :: string
  ap_requested_at :: int
  ap_resolved_at :: "int option"
  ap_requested_by :: string
  ap_resolved_by :: "string option"
  ap_reason :: "string option"

record usage_row =
  us_id :: string
  us_task_id :: "string option"
  us_run_id :: "string option"
  us_worker_id :: "string option"
  us_model_id :: "string option"
  us_metric :: string
  us_telemetry :: telemetry_value
  us_unit :: string
  us_recorded_at :: int

record session_row =
  se_id :: string
  se_worker_id :: string
  se_provider_session_id :: string
  se_model_id :: "string option"
  se_resume_cursor :: "string option"
  se_state :: string
  se_created_at :: int
  se_updated_at :: int

record routing_decision_row =
  ro_id :: string
  ro_task_id :: string
  ro_topology :: execution_topology
  ro_policy_version :: string
  ro_selected_workers :: "string list"
  ro_explanation :: "(string \<times> json) list"
  ro_created_at :: int

record routing_candidate_row =
  rc_decision_id :: string
  rc_worker_id :: string
  rc_selected :: bool
  rc_score :: "rat option"
  rc_components :: "(string \<times> rat) list option"
  rc_rejection_code :: string
  rc_rejection_detail :: "string option"

record token_row =
  tn_id :: string
  tn_label :: string
  tn_salt :: string
  tn_hash :: string
  tn_scopes :: "string list"
  tn_created_at :: int
  tn_expires_at :: "int option"
  tn_revoked_at :: "int option"

text \<open>The tables of autonomous goals, their steers, iterations and actions.\<close>

record goal_row =
  go_id :: string
  go_project_id :: string
  go_intent :: string
  go_effective_intent :: string
  go_state :: goal_state
  go_pause_mode :: "pause_mode option"
  go_termination_reason :: "termination_reason option"
  go_termination_detail :: "string option"
  go_budgets :: "(string \<times> json) list"
  go_iteration_count :: int
  go_no_progress_count :: int
  go_task_count :: int
  go_failure_count :: int
  go_steer_version :: int
  go_progress_fingerprint :: "string option"
  go_started_at :: "int option"
  go_last_evaluated_at :: "int option"
  go_finished_at :: "int option"
  go_created_at :: int
  go_updated_at :: int
  go_version :: int

record iteration_row =
  it_id :: string
  it_goal_id :: string
  it_sequence :: int
  it_state :: string
  it_evaluation :: "(string \<times> json) list option"
  it_plan :: "(string \<times> json) list option"
  it_verification :: "(string \<times> json) list option"
  it_progress_fingerprint :: "string option"
  it_started_at :: int
  it_updated_at :: int
  it_completed_at :: "int option"

record action_row =
  ac_id :: string
  ac_goal_id :: string
  ac_iteration_id :: string
  ac_ordinal :: int
  ac_action_key :: string
  ac_title :: string
  ac_description :: string
  ac_role :: string
  ac_payload :: json
  ac_state :: action_state
  ac_task_id :: "string option"
  ac_dispatch_ref :: "(string \<times> json) list option"
  ac_result :: "(string \<times> json) list option"
  ac_error :: "string option"
  ac_created_at :: int
  ac_updated_at :: int

record steer_row =
  sr_id :: string
  sr_goal_id :: string
  sr_sequence :: int
  sr_instruction :: string
  sr_priority :: "int option"
  sr_preserve_valid_work :: bool
  sr_actor :: string
  sr_created_at :: int

record decision_task_row =
  dt_task_id :: string
  dt_goal_id :: string
  dt_iteration_id :: string
  dt_iteration_sequence :: int
  dt_phase :: string
  dt_steer_version :: int
  dt_schema_version :: string
  dt_input_sha256 :: string
  dt_output_sha256 :: "string option"
  dt_status :: string
  dt_error :: "string option"
  dt_created_at :: int
  dt_updated_at :: int
  dt_completed_at :: "int option"

text \<open>The tables of the autonomous host; their times count microseconds.\<close>

datatype host_state =
    HOST_STARTING | HOST_RUNNING | HOST_STOPPING | HOST_STOPPED
  | HOST_FAILED

definition all_host_state :: "host_state list" where
  "all_host_state =
    [HOST_STARTING, HOST_RUNNING, HOST_STOPPING, HOST_STOPPED,
     HOST_FAILED]"

primrec host_state_value :: "host_state \<Rightarrow> string" where
  "host_state_value HOST_STARTING = ''starting''"
| "host_state_value HOST_RUNNING = ''running''"
| "host_state_value HOST_STOPPING = ''stopping''"
| "host_state_value HOST_STOPPED = ''stopped''"
| "host_state_value HOST_FAILED = ''failed''"

record host_row =
  ho_host_id :: string
  ho_process_id :: int
  ho_state :: host_state
  ho_started_at :: int
  ho_heartbeat_at :: int
  ho_stopped_at :: "int option"
  ho_active_goal_count :: int
  ho_last_error :: "string option"
  ho_metadata :: "(string \<times> json) list"

datatype goal_lease_state = GL_OWNED | GL_RELEASED | GL_LOST

datatype goal_recovery_state =
    GR_FRESH | GR_RESUMING | GR_STALE_OWNER_RECOVERED | GR_COMPLETE | GR_LOST

record goal_lease_row =
  gl_goal_id :: string
  gl_host_id :: string
  gl_generation :: int
  gl_state :: goal_lease_state
  gl_acquired_at :: int
  gl_heartbeat_at :: int
  gl_expires_at :: int
  gl_released_at :: "int option"
  gl_current_iteration_id :: "string option"
  gl_current_action_id :: "string option"
  gl_in_flight_state :: "string option"
  gl_recovery_state :: goal_recovery_state
  gl_previous_host_id :: "string option"
  gl_last_error :: "string option"

record db =
  events :: "event list"
  projects :: "project_row list"
  acceptance_criteria :: "criterion_row list"
  nodes :: "node_row list"
  models :: "model_row list"
  workers :: "worker_row list"
  tasks :: "task_row list"
  task_dependencies :: "dependency_row list"
  worker_runs :: "run_row list"
  task_execution_leases :: "lease_row list"
  provider_jobs :: "provider_job_row list"
  execution_escalations :: "escalation_row list"
  task_verification_scopes :: "scope_row list"
  task_verification_scope_items :: "scope_item_row list"
  verifications :: "verification_row list"
  worker_results :: "result_row list"
  failures :: "failure_row list"
  approvals :: "approval_row list"
  usage_records :: "usage_row list"
  sessions :: "session_row list"
  routing_decisions :: "routing_decision_row list"
  routing_candidates :: "routing_candidate_row list"
  api_tokens :: "token_row list"
  autonomous_actions :: "action_row list"
  autonomous_goals :: "goal_row list"
  autonomous_iterations :: "iteration_row list"
  autonomous_steers :: "steer_row list"
  autonomy_decision_tasks :: "decision_task_row list"
  autonomous_hosts :: "host_row list"
  autonomous_goal_leases :: "goal_lease_row list"
  execution_history :: "execution_history_record list"
  capability_grants :: "capability_grant list"
  node_public_identities :: "node_public_identity list"

definition empty_db :: db where
  "empty_db =
     \<lparr>events = [], projects = [], acceptance_criteria = [], nodes = [], models = [], workers = [],
      tasks = [], task_dependencies = [], worker_runs = [], task_execution_leases = [],
      provider_jobs = [], execution_escalations = [], task_verification_scopes = [],
      task_verification_scope_items = [], verifications = [], worker_results = [], failures = [],
      approvals = [], usage_records = [], sessions = [], routing_decisions = [],
      routing_candidates = [], api_tokens = [], autonomous_actions = [],
      autonomous_goals = [], autonomous_iterations = [], autonomous_steers = [],
      autonomy_decision_tasks = [], autonomous_hosts = [], autonomous_goal_leases = [],
      execution_history = [], capability_grants = [], node_public_identities = []\<rparr>"

section \<open>The journal\<close>

text \<open>
  \<^verbatim>\<open>sequence INTEGER PRIMARY KEY AUTOINCREMENT\<close>: one more than the largest sequence so far, since
  triggers forbid updates and deletions of events. The random \<^verbatim>\<open>event_id\<close> is not modelled.
\<close>

definition highest_event_sequence :: "db \<Rightarrow> nat" where
  "highest_event_sequence db = fold max (map ev_sequence (events db)) 0"

text \<open>The arguments of \<^verbatim>\<open>_append_event\<close>; the sequence and the time are filled in when appending.\<close>

definition mk_event ::
    "string \<Rightarrow> event_severity \<Rightarrow> string \<Rightarrow> string \<Rightarrow> string option \<Rightarrow> string option \<Rightarrow>
     string option \<Rightarrow> string option \<Rightarrow> string \<Rightarrow> (string \<times> json) list \<Rightarrow> string \<Rightarrow> event" where
  "mk_event kind severity entity_type entity_id project_id task_id worker_id run_id summary payload
     actor =
     \<lparr>ev_sequence = 0, ev_kind = kind, ev_severity = severity, ev_entity_type = entity_type,
      ev_entity_id = entity_id, ev_project_id = project_id, ev_task_id = task_id,
      ev_worker_id = worker_id, ev_run_id = run_id, ev_summary = summary, ev_payload = payload,
      ev_actor = actor, ev_created_at = 0\<rparr>"

definition append_event :: "rat \<Rightarrow> event \<Rightarrow> db \<Rightarrow> db" where
  "append_event now e db =
     db\<lparr>events := events db @
       [e\<lparr>ev_sequence := highest_event_sequence db + 1, ev_created_at := timestamp now\<rparr>]\<rparr>"

definition append_events :: "rat \<Rightarrow> event list \<Rightarrow> db \<Rightarrow> db" where
  "append_events now es db = fold (append_event now) es db"

definition list_events :: "db \<Rightarrow> int \<Rightarrow> int \<Rightarrow> string option \<Rightarrow> event list result" where
  "list_events db after_sequence limit task_id =
     (if limit < 1 \<or> 1000 < limit then Inl (ValueError ''limit must be between 1 and 1000'')
      else Inr (take (nat limit) (sort_key ev_sequence (filter
        (\<lambda>e. after_sequence < int (ev_sequence e) \<and>
             (case task_id of None \<Rightarrow> True | Some t \<Rightarrow> ev_task_id e = Some t))
        (events db)))))"

section \<open>Projects and tasks\<close>

definition get_project :: "db \<Rightarrow> string \<Rightarrow> project_row result" where
  "get_project db project_id = fetch pj_id project_id (projects db) (KeyError project_id)"

definition create_project ::
    "rat \<Rightarrow> string \<Rightarrow> string \<Rightarrow> string \<Rightarrow> string \<Rightarrow> db \<Rightarrow> (db \<times> project_row) result" where
  "create_project now project_id name root_path goal db =
     bindR (raise_if (row_by pj_id project_id (projects db) \<noteq> None) (IntegrityError ''projects'')) (\<lambda>_.
     let row = \<lparr>pj_id = project_id, pj_name = name, pj_root_path = root_path, pj_goal = goal,
           pj_phase = PHASE_INITIALIZING, pj_created_at = timestamp now, pj_updated_at = timestamp now\<rparr>;
         db = db\<lparr>projects := projects db @ [row]\<rparr>;
         db = append_event now (mk_event ''projectCreated'' SEV_NOTICE ''project'' project_id
           (Some project_id) None None None (''Project '' @ name @ '' created'')
           [(''phase'', JStr (project_phase_value PHASE_INITIALIZING))] ''supervisor'') db
     in bindR (get_project db project_id) (\<lambda>r. Inr (db, r)))"

definition get_task :: "db \<Rightarrow> string \<Rightarrow> task_row result" where
  "get_task db task_id = fetch tk_id task_id (tasks db) (KeyError task_id)"

text \<open>The columns of a new task.\<close>

definition task_row_of :: "task_record \<Rightarrow> string \<Rightarrow> task_row" where
  "task_row_of task reference =
     (let rq = tr_requirements task in
      \<lparr>tk_id = tr_id task, tk_project_id = tr_project_id task, tk_reference = reference,
       tk_title = tr_title task, tk_description = tr_description task, tk_state = tr_state task,
       tk_topology = tr_topology task, tk_priority = tr_priority task,
       tk_labels = sorted_list_of_set (task_label_value ` rq_labels rq),
       tk_required_capabilities = sorted_list_of_set (rq_required_capabilities rq),
       tk_permission_class = rq_permission_class rq, tk_approval_state = rq_approval_state rq,
       tk_minimum_context_tokens = rq_minimum_context_tokens rq,
       tk_privacy_sensitive = rq_privacy_sensitive rq,
       tk_code_write_required = rq_code_write_required rq, tk_panel_size = rq_panel_size rq,
       tk_preferred_workers = rq_preferred_workers rq, tk_attempt_count = tr_attempt_count task,
       tk_version = 1, tk_failure_reason = None, tk_created_at = tr_created_at task,
       tk_started_at = None, tk_updated_at = tr_updated_at task, tk_finished_at = None,
       tk_definition_revision = 1, tk_current_verification_scope_id = None\<rparr>)"

text \<open>The constraints of the \<^verbatim>\<open>tasks\<close> table on an inserted row.\<close>

definition task_insertable :: "db \<Rightarrow> task_row \<Rightarrow> bool" where
  "task_insertable db row \<longleftrightarrow>
     row_by tk_id (tk_id row) (tasks db) = None \<and>
     row_by pj_id (tk_project_id row) (projects db) \<noteq> None \<and>
     \<not> list_ex (\<lambda>t. tk_project_id t = tk_project_id row \<and> tk_reference t = tk_reference row) (tasks db) \<and>
     0 \<le> tk_priority row \<and> tk_priority row \<le> 100 \<and> 0 < tk_panel_size row \<and>
     0 \<le> tk_attempt_count row \<and>
     (case tk_minimum_context_tokens row of None \<Rightarrow> True | Some n \<Rightarrow> 0 < n)"

definition create_task ::
    "rat \<Rightarrow> task_record \<Rightarrow> string \<Rightarrow> db \<Rightarrow> (db \<times> task_row) result" where
  "create_task now task reference db =
     (let row = task_row_of task reference in
      bindR (raise_if (\<not> task_insertable db row) (IntegrityError ''tasks'')) (\<lambda>_.
      let db = db\<lparr>tasks := tasks db @ [row]\<rparr>;
          db = append_event now (mk_event ''taskCreated'' SEV_INFO ''task'' (tr_id task)
            (Some (tr_project_id task)) (Some (tr_id task)) None None
            (''Task '' @ reference @ '' created'')
            [(''state'', JStr (task_state_value (tr_state task))),
             (''topology'', JStr (execution_topology_value (tr_topology task)))] ''supervisor'') db
      in bindR (get_task db (tr_id task)) (\<lambda>r. Inr (db, r))))"

text \<open>\<^verbatim>\<open>ORDER BY updated_at DESC, id ASC\<close>\<close>

definition list_tasks :: "db \<Rightarrow> string option \<Rightarrow> task_row list" where
  "list_tasks db project_id =
     sort_key (\<lambda>t. (- tk_updated_at t, tk_id t))
       (filter (\<lambda>t. case project_id of None \<Rightarrow> True | Some p \<Rightarrow> tk_project_id t = p) (tasks db))"

section \<open>Acceptance criteria\<close>

definition add_acceptance_criterion ::
    "rat \<Rightarrow> string \<Rightarrow> string \<Rightarrow> string \<Rightarrow> string \<Rightarrow> string list option \<Rightarrow> json option \<Rightarrow>
     string option \<Rightarrow> db \<Rightarrow> (db \<times> string) result" where
  "add_acceptance_criterion now uuid project_id kind description command expected criterion_id db =
     (let cid = (if truthy criterion_id then the criterion_id else ''criterion-'' @ uuid) in
      bindR (raise_if (row_by cr_id cid (acceptance_criteria db) \<noteq> None \<or>
          row_by pj_id project_id (projects db) = None) (IntegrityError ''acceptance_criteria'')) (\<lambda>_.
      Inr (db\<lparr>acceptance_criteria := acceptance_criteria db @
            [\<lparr>cr_id = cid, cr_project_id = project_id, cr_kind = kind, cr_description = description,
              cr_command = map_option (\<lambda>c. JList (map JStr c)) command, cr_expected = expected,
              cr_state = ''pending'', cr_evidence = None, cr_created_at = timestamp now,
              cr_updated_at = timestamp now\<rparr>]\<rparr>, cid)))"

definition list_acceptance_criteria :: "db \<Rightarrow> string \<Rightarrow> criterion_row list" where
  "list_acceptance_criteria db project_id =
     sort_key (\<lambda>c. (cr_created_at c, cr_id c))
       (filter (\<lambda>c. cr_project_id c = project_id) (acceptance_criteria db))"

section \<open>The registry\<close>

definition upsert_node ::
    "rat \<Rightarrow> string \<Rightarrow> string \<Rightarrow> string \<Rightarrow> string \<Rightarrow> node_state \<Rightarrow> string option \<Rightarrow> string option \<Rightarrow>
     string option \<Rightarrow> string set option \<Rightarrow> db \<Rightarrow> (db \<times> unit) result" where
  "upsert_node now node_id hostname display_name role state operating_system hardware_summary
     private_endpoint capabilities db =
     (let t = timestamp now;
          beat = (if state = NODE_ONLINE then Some t else None);
          caps = sorted_list_of_set (case capabilities of None \<Rightarrow> {} | Some c \<Rightarrow> c);
          row = \<lparr>nd_id = node_id, nd_hostname = hostname, nd_display_name = display_name,
            nd_role = role, nd_state = state, nd_operating_system = operating_system,
            nd_hardware_summary = hardware_summary, nd_private_endpoint = private_endpoint,
            nd_capabilities = caps, nd_last_heartbeat_at = beat, nd_created_at = t, nd_updated_at = t\<rparr>;
          db = db\<lparr>nodes := upsert_by nd_id row (\<lambda>old. row\<lparr>nd_created_at := nd_created_at old\<rparr>) (nodes db)\<rparr>
      in Inr (append_event now (mk_event ''nodeRegistered'' SEV_INFO ''node'' node_id None None None None
            (''Node '' @ node_id @ '' is '' @ node_state_value state)
            [(''state'', JStr (node_state_value state)), (''role'', JStr role)] ''registry'') db, ()))"

text \<open>The identifier of a model is derived from its identity by the hash \<open>sha\<close> (hex digits).\<close>

definition model_identity :: "model_descriptor \<Rightarrow> string" where
  "model_identity m =
     provider_value (md_provider m) @ '':'' @ md_identifier m @ '':'' @
     (case md_context_variant m of None \<Rightarrow> [] | Some v \<Rightarrow> v)"

definition model_id_of :: "(string \<Rightarrow> string) \<Rightarrow> model_descriptor \<Rightarrow> string" where
  "model_id_of sha m = ''mdl-'' @ take 16 (sha (model_identity m))"

definition upsert_model ::
    "(string \<Rightarrow> string) \<Rightarrow> model_descriptor \<Rightarrow> db \<Rightarrow> (db \<times> string) result" where
  "upsert_model sha m db =
     (let mid = model_id_of sha m;
          row = \<lparr>ml_id = mid, ml_provider = md_provider m, ml_identifier = md_identifier m,
            ml_display_name = md_display_name m, ml_context_variant = md_context_variant m,
            ml_context_window_tokens = md_context_window_tokens m\<rparr>
      in bindR (raise_if ((case md_context_window_tokens m of None \<Rightarrow> False | Some n \<Rightarrow> n \<le> 0) \<or>
             (row_by ml_id mid (models db) = None \<and> md_context_variant m \<noteq> None \<and>
              list_ex (\<lambda>r. ml_provider r = md_provider m \<and> ml_identifier r = md_identifier m \<and>
                 ml_context_variant r = md_context_variant m) (models db)))
           (IntegrityError ''models'')) (\<lambda>_.
         Inr (db\<lparr>models := upsert_by ml_id row
           (\<lambda>old. old\<lparr>ml_display_name := md_display_name m,
                      ml_context_window_tokens := md_context_window_tokens m\<rparr>) (models db)\<rparr>, mid)))"

definition unit_interval :: "rat \<Rightarrow> bool" where
  "unit_interval x = (0 \<le> x \<and> x \<le> 1)"

text \<open>Two transactions: the model is stored even when the worker is refused, so a failure keeps it.\<close>

definition upsert_worker ::
    "(string \<Rightarrow> string) \<Rightarrow> rat \<Rightarrow> worker_snapshot \<Rightarrow> string option \<Rightarrow> db \<Rightarrow> db \<times> unit result" where
  "upsert_worker sha now w harness_version db =
     (case upsert_model sha (ws_model w) db of
        Inl e \<Rightarrow> (db, Inl e)
      | Inr (db1, mid) \<Rightarrow>
          (let t = timestamp now;
               row = \<lparr>wk_id = ws_id w, wk_node_id = ws_node_id w, wk_harness = ws_harness w,
                 wk_provider = ws_provider w, wk_model_id = Some mid, wk_state = ws_state w,
                 wk_resource_state = ws_resource_state w,
                 wk_capabilities = sorted_list_of_set (ws_capabilities w),
                 wk_code_write_allowed = ws_code_write_allowed w,
                 wk_privacy_allowed = ws_privacy_allowed w, wk_quality_score = ws_quality_score w,
                 wk_reliability_score = ws_reliability_score w,
                 wk_expected_latency_seconds = ws_expected_latency_seconds w,
                 wk_monetary_cost_score = ws_monetary_cost_score w,
                 wk_harness_version = harness_version, wk_last_heartbeat_at = Some t,
                 wk_created_at = t, wk_updated_at = t\<rparr>
           in if row_by nd_id (ws_node_id w) (nodes db1) = None \<or> \<not> unit_interval (ws_quality_score w) \<or>
                 \<not> unit_interval (ws_reliability_score w) \<or> ws_expected_latency_seconds w < 0 \<or>
                 \<not> unit_interval (ws_monetary_cost_score w)
              then (db1, Inl (IntegrityError ''workers''))
              else (append_event now (mk_event ''workerRegistered'' SEV_INFO ''worker'' (ws_id w)
                  None None (Some (ws_id w)) None (''Worker '' @ ws_id w @ '' registered'')
                  [(''harness'', JStr (harness_value (ws_harness w))),
                   (''provider'', JStr (provider_value (ws_provider w))), (''modelID'', JStr mid),
                   (''state'', JStr (worker_state_value (ws_state w)))] ''registry'')
                (db1\<lparr>workers := upsert_by wk_id row (\<lambda>old. row\<lparr>wk_created_at := wk_created_at old\<rparr>)
                   (workers db1)\<rparr>), Inr ())))"

definition list_nodes :: "db \<Rightarrow> node_row list" where
  "list_nodes db = sort_key nd_id (nodes db)"

text \<open>A worker joined with its node and, where it has one, its model.\<close>

definition list_workers :: "db \<Rightarrow> (worker_row \<times> node_row \<times> model_row option) list" where
  "list_workers db =
     concat (map (\<lambda>w. case row_by nd_id (wk_node_id w) (nodes db) of
          None \<Rightarrow> []
        | Some n \<Rightarrow> [(w, n, case wk_model_id w of None \<Rightarrow> None | Some m \<Rightarrow> row_by ml_id m (models db))])
       (sort_key wk_id (workers db)))"

definition or_default :: "string option \<Rightarrow> string \<Rightarrow> string" where
  "or_default v d = (if truthy v then the v else d)"

definition worker_snapshots :: "db \<Rightarrow> worker_snapshot list" where
  "worker_snapshots db =
     map (\<lambda>(w, n, m).
       \<lparr>ws_id = wk_id w, ws_node_id = wk_node_id w, ws_harness = wk_harness w,
        ws_provider = wk_provider w,
        ws_model = \<lparr>md_identifier = or_default (map_option ml_identifier m) ''unknown'',
          md_display_name = or_default (map_option ml_display_name m) ''Unknown'',
          md_provider = wk_provider w,
          md_context_variant = Option.bind m ml_context_variant,
          md_context_window_tokens = Option.bind m ml_context_window_tokens\<rparr>,
        ws_state = wk_state w, ws_node_state = nd_state n, ws_resource_state = wk_resource_state w,
        ws_capabilities = set (wk_capabilities w), ws_code_write_allowed = wk_code_write_allowed w,
        ws_privacy_allowed = wk_privacy_allowed w, ws_quality_score = wk_quality_score w,
        ws_reliability_score = wk_reliability_score w,
        ws_expected_latency_seconds = wk_expected_latency_seconds w,
        ws_monetary_cost_score = wk_monetary_cost_score w, ws_node_load = 0, ws_running_tasks = 0\<rparr>)
       (list_workers db)"

interpretation host_state_wire: wire_enum all_host_state host_state_value
proof
  show "x \<in> set all_host_state" for x
    by (cases x) (simp_all add: all_host_state_def)
  show "distinct (map host_state_value all_host_state)"
    by (simp add: all_host_state_def)
qed

section \<open>Journal growth\<close>

text \<open>
  A well-formed journal numbers its events 1, 2, 3, \<dots> in order. \<open>journal_extends d d'\<close> says that
  \<open>d'\<close> continues the journal of \<open>d\<close>: nothing is changed or removed, and numbering goes on.
\<close>

definition journal_ok :: "db \<Rightarrow> bool" where
  "journal_ok db \<longleftrightarrow> (\<forall>i < length (events db). ev_sequence (events db ! i) = Suc i)"

definition journal_extends :: "db \<Rightarrow> db \<Rightarrow> bool" where
  "journal_extends d d' \<longleftrightarrow> prefix (events d) (events d') \<and> (journal_ok d \<longrightarrow> journal_ok d')"

lemma append_event_simps [simp]:
  "projects (append_event now e db) = projects db"
  "acceptance_criteria (append_event now e db) = acceptance_criteria db"
  "nodes (append_event now e db) = nodes db"
  "models (append_event now e db) = models db"
  "workers (append_event now e db) = workers db"
  "tasks (append_event now e db) = tasks db"
  "task_dependencies (append_event now e db) = task_dependencies db"
  "worker_runs (append_event now e db) = worker_runs db"
  "task_execution_leases (append_event now e db) = task_execution_leases db"
  "provider_jobs (append_event now e db) = provider_jobs db"
  "execution_escalations (append_event now e db) = execution_escalations db"
  "task_verification_scopes (append_event now e db) = task_verification_scopes db"
  "task_verification_scope_items (append_event now e db) = task_verification_scope_items db"
  "verifications (append_event now e db) = verifications db"
  "worker_results (append_event now e db) = worker_results db"
  "failures (append_event now e db) = failures db"
  "approvals (append_event now e db) = approvals db"
  "usage_records (append_event now e db) = usage_records db"
  "sessions (append_event now e db) = sessions db"
  "routing_decisions (append_event now e db) = routing_decisions db"
  "routing_candidates (append_event now e db) = routing_candidates db"
  "api_tokens (append_event now e db) = api_tokens db"
  "autonomous_actions (append_event now e db) = autonomous_actions db"
  "autonomous_iterations (append_event now e db) = autonomous_iterations db"
  "autonomous_goals (append_event now e db) = autonomous_goals db"
  "autonomous_steers (append_event now e db) = autonomous_steers db"
  "autonomy_decision_tasks (append_event now e db) = autonomy_decision_tasks db"
  "autonomous_hosts (append_event now e db) = autonomous_hosts db"
  "autonomous_goal_leases (append_event now e db) = autonomous_goal_leases db"
  "execution_history (append_event now e db) = execution_history db"
  "capability_grants (append_event now e db) = capability_grants db"
  "node_public_identities (append_event now e db) = node_public_identities db"
  by (simp_all add: append_event_def)

lemma append_events_Nil [simp]: "append_events now [] db = db"
  by (simp add: append_events_def)

lemma append_events_Cons: "append_events now (e # es) db = append_events now es (append_event now e db)"
  by (simp add: append_events_def)

lemma append_events_simps [simp]:
  "projects (append_events now es db) = projects db"
  "acceptance_criteria (append_events now es db) = acceptance_criteria db"
  "nodes (append_events now es db) = nodes db"
  "models (append_events now es db) = models db"
  "workers (append_events now es db) = workers db"
  "tasks (append_events now es db) = tasks db"
  "task_dependencies (append_events now es db) = task_dependencies db"
  "worker_runs (append_events now es db) = worker_runs db"
  "task_execution_leases (append_events now es db) = task_execution_leases db"
  "provider_jobs (append_events now es db) = provider_jobs db"
  "execution_escalations (append_events now es db) = execution_escalations db"
  "task_verification_scopes (append_events now es db) = task_verification_scopes db"
  "task_verification_scope_items (append_events now es db) = task_verification_scope_items db"
  "verifications (append_events now es db) = verifications db"
  "worker_results (append_events now es db) = worker_results db"
  "failures (append_events now es db) = failures db"
  "approvals (append_events now es db) = approvals db"
  "usage_records (append_events now es db) = usage_records db"
  "sessions (append_events now es db) = sessions db"
  "routing_decisions (append_events now es db) = routing_decisions db"
  "routing_candidates (append_events now es db) = routing_candidates db"
  "api_tokens (append_events now es db) = api_tokens db"
  "autonomous_actions (append_events now es db) = autonomous_actions db"
  "autonomous_iterations (append_events now es db) = autonomous_iterations db"
  "autonomous_goals (append_events now es db) = autonomous_goals db"
  "autonomous_steers (append_events now es db) = autonomous_steers db"
  "autonomy_decision_tasks (append_events now es db) = autonomy_decision_tasks db"
  "autonomous_hosts (append_events now es db) = autonomous_hosts db"
  "autonomous_goal_leases (append_events now es db) = autonomous_goal_leases db"
  "execution_history (append_events now es db) = execution_history db"
  "capability_grants (append_events now es db) = capability_grants db"
  "node_public_identities (append_events now es db) = node_public_identities db"
  by (induction es arbitrary: db) (simp_all add: append_events_Cons)

lemma journal_extends_refl [simp, intro]: "journal_extends d d"
  by (simp add: journal_extends_def)

lemma journal_extends_trans [trans]:
  "journal_extends d1 d2 \<Longrightarrow> journal_extends d2 d3 \<Longrightarrow> journal_extends d1 d3"
  unfolding journal_extends_def by (meson prefix_order.trans)

lemma journal_extends_update [simp]:
  "journal_extends d (db\<lparr>projects := x0\<rparr>) = journal_extends d db"
  "journal_extends d (db\<lparr>acceptance_criteria := x1\<rparr>) = journal_extends d db"
  "journal_extends d (db\<lparr>nodes := x2\<rparr>) = journal_extends d db"
  "journal_extends d (db\<lparr>models := x3\<rparr>) = journal_extends d db"
  "journal_extends d (db\<lparr>workers := x4\<rparr>) = journal_extends d db"
  "journal_extends d (db\<lparr>tasks := x5\<rparr>) = journal_extends d db"
  "journal_extends d (db\<lparr>task_dependencies := x6\<rparr>) = journal_extends d db"
  "journal_extends d (db\<lparr>worker_runs := x7\<rparr>) = journal_extends d db"
  "journal_extends d (db\<lparr>task_execution_leases := x8\<rparr>) = journal_extends d db"
  "journal_extends d (db\<lparr>provider_jobs := x9\<rparr>) = journal_extends d db"
  "journal_extends d (db\<lparr>execution_escalations := x10\<rparr>) = journal_extends d db"
  "journal_extends d (db\<lparr>task_verification_scopes := x11\<rparr>) = journal_extends d db"
  "journal_extends d (db\<lparr>task_verification_scope_items := x12\<rparr>) = journal_extends d db"
  "journal_extends d (db\<lparr>verifications := x13\<rparr>) = journal_extends d db"
  "journal_extends d (db\<lparr>worker_results := x14\<rparr>) = journal_extends d db"
  "journal_extends d (db\<lparr>failures := x15\<rparr>) = journal_extends d db"
  "journal_extends d (db\<lparr>approvals := x16\<rparr>) = journal_extends d db"
  "journal_extends d (db\<lparr>usage_records := x17\<rparr>) = journal_extends d db"
  "journal_extends d (db\<lparr>sessions := x18\<rparr>) = journal_extends d db"
  "journal_extends d (db\<lparr>routing_decisions := x19\<rparr>) = journal_extends d db"
  "journal_extends d (db\<lparr>routing_candidates := x20\<rparr>) = journal_extends d db"
  "journal_extends d (db\<lparr>api_tokens := x21\<rparr>) = journal_extends d db"
  "journal_extends d (db\<lparr>autonomous_actions := x22\<rparr>) = journal_extends d db"
  "journal_extends d (db\<lparr>autonomous_iterations := x24\<rparr>) = journal_extends d db"
  "journal_extends d (db\<lparr>autonomous_goals := x23\<rparr>) = journal_extends d db"
  "journal_extends d (db\<lparr>autonomous_steers := x25\<rparr>) = journal_extends d db"
  "journal_extends d (db\<lparr>autonomy_decision_tasks := x26\<rparr>) = journal_extends d db"
  "journal_extends d (db\<lparr>autonomous_hosts := x27\<rparr>) = journal_extends d db"
  "journal_extends d (db\<lparr>autonomous_goal_leases := x28\<rparr>) = journal_extends d db"
  "journal_extends d (db\<lparr>execution_history := x29\<rparr>) = journal_extends d db"
  "journal_extends d (db\<lparr>capability_grants := x30\<rparr>) = journal_extends d db"
  "journal_extends d (db\<lparr>node_public_identities := x31\<rparr>) = journal_extends d db"
  by (simp_all add: journal_extends_def journal_ok_def)

lemma fold_max_ge: "(a :: nat) \<le> fold max xs a"
  by (induction xs arbitrary: a) (simp_all, meson max.cobounded2 order_trans)

lemma fold_max_sequence:
  "\<forall>i < length xs. xs ! i = Suc (k + i) \<Longrightarrow> fold max xs k = k + length xs"
proof (induction xs arbitrary: k)
  case (Cons x xs)
  have x: "x = Suc k" using Cons.prems by force
  have "\<forall>i < length xs. xs ! i = Suc (Suc k + i)" using Cons.prems by force
  from Cons.IH [OF this] show ?case by (simp add: x)
qed simp

lemma highest_event_sequence_ok: "journal_ok db \<Longrightarrow> highest_event_sequence db = length (events db)"
  using fold_max_sequence [of "map ev_sequence (events db)" 0]
  by (simp add: journal_ok_def highest_event_sequence_def)

lemma journal_extends_append_event [simp]:
  assumes "journal_extends d db"
  shows "journal_extends d (append_event now e db)"
proof -
  have "journal_ok (append_event now e db)" if "journal_ok db"
    using that highest_event_sequence_ok [OF that]
    by (auto simp: journal_ok_def append_event_def nth_append less_Suc_eq)
  moreover have "prefix (events db) (events (append_event now e db))"
    by (simp add: append_event_def)
  ultimately show ?thesis
    using assms prefix_order.trans unfolding journal_extends_def by blast
qed

lemma journal_extends_fold:
  assumes "journal_extends d db" and "\<And>x db. x \<in> set xs \<Longrightarrow> journal_extends db (f x db)"
  shows "journal_extends d (fold f xs db)"
  using assms
proof (induction xs arbitrary: db)
  case (Cons a xs)
  have "journal_extends d (f a db)"
    by (rule journal_extends_trans [OF Cons.prems(1)]) (simp add: Cons.prems(2))
  then show ?case using Cons.IH Cons.prems(2) by simp
qed simp

lemma journal_extends_append_events [simp]:
  "journal_extends d db \<Longrightarrow> journal_extends d (append_events now es db)"
  unfolding append_events_def by (rule journal_extends_fold) simp_all

section \<open>Reading the journal\<close>

lemma filter_after_sequence:
  "\<forall>i < length es. ev_sequence (es ! i) = Suc (k + i) \<Longrightarrow>
   filter (\<lambda>e. n < ev_sequence e) es = drop (n - k) es"
proof (induction es arbitrary: k)
  case (Cons e es)
  have e: "ev_sequence e = Suc k" using Cons.prems by force
  have "\<forall>i < length es. ev_sequence (es ! i) = Suc (Suc k + i)" using Cons.prems by force
  from Cons.IH [OF this] show ?case
    by (cases "n \<le> k") (simp_all add: e drop_Cons')
qed simp

lemma journal_ok_sorted: "journal_ok db \<Longrightarrow> sorted (map ev_sequence (events db))"
  by (simp add: journal_ok_def sorted_iff_nth_mono)

lemma list_events_page:
  assumes "journal_ok db" and "1 \<le> limit" and "limit \<le> 1000"
  shows "list_events db (int k) limit None = Inr (take (nat limit) (drop k (events db)))"
proof -
  have f: "filter (\<lambda>e. k < ev_sequence e) (events db) = drop k (events db)"
    using filter_after_sequence [of "events db" 0 k] assms(1) by (simp add: journal_ok_def)
  have "sort_key ev_sequence (drop k (events db)) = drop k (events db)"
    using journal_ok_sorted [OF assms(1)]
    by (simp add: sort_key_id_if_sorted drop_map [symmetric] sorted_wrt_drop)
  then show ?thesis using assms(2,3) by (simp add: list_events_def f)
qed

lemma journal_page_facts:
  assumes "journal_ok db" and "1 \<le> limit" and "limit \<le> 1000" and "k \<le> length (events db)"
    and "list_events db (int k) limit None = Inr page"
  shows "events db = take k (events db) @ page @ drop (k + length page) (events db)"
    and "page \<noteq> [] \<longrightarrow> ev_sequence (last page) = k + length page"
    and "page = [] \<longleftrightarrow> k = highest_event_sequence db"
    and "journal_extends db db' \<and> length page = nat limit \<longrightarrow>
         list_events db' (int k) limit None = Inr page"
proof -
  have page: "page = take (nat limit) (drop k (events db))"
    using list_events_page [OF assms(1-3)] assms(5) by simp
  show "events db = take k (events db) @ page @ drop (k + length page) (events db)"
  proof -
    have "drop k (events db) = page @ drop (length page) (drop k (events db))"
      unfolding page by (metis append_eq_conv_conj append_take_drop_id)
    then show ?thesis by (metis add.commute append_take_drop_id drop_drop)
  qed
  show "page \<noteq> [] \<longrightarrow> ev_sequence (last page) = k + length page"
  proof
    assume ne: "page \<noteq> []"
    then have "last page = events db ! (k + length page - 1)" and "k + length page - 1 < length (events db)"
      unfolding page by (auto simp: last_conv_nth min_def)
    then show "ev_sequence (last page) = k + length page"
      using assms(1) ne by (cases page) (auto simp: journal_ok_def)
  qed
  show "page = [] \<longleftrightarrow> k = highest_event_sequence db"
    unfolding page using assms(2,4) by (auto simp: highest_event_sequence_ok [OF assms(1)])
  show "journal_extends db db' \<and> length page = nat limit \<longrightarrow>
         list_events db' (int k) limit None = Inr page"
  proof
    assume ext: "journal_extends db db' \<and> length page = nat limit"
    then obtain es where es: "events db' = events db @ es" and ok: "journal_ok db'"
      using assms(1) by (auto simp: journal_extends_def prefix_def)
    have "nat limit \<le> length (events db) - k" using ext by (simp add: page min_def split: if_splits)
    then show "list_events db' (int k) limit None = Inr page"
      using list_events_page [OF ok assms(2,3)] assms(4) by (simp add: es page)
  qed
qed


lemma journal_create_project: "create_project now pid n rp g db = Inr (db', r) \<Longrightarrow> journal_extends db db'"
  by (auto simp: create_project_def Let_def)

lemma journal_create_task: "create_task now task ref db = Inr (db', r) \<Longrightarrow> journal_extends db db'"
  by (auto simp: create_task_def Let_def)

lemma journal_add_acceptance_criterion:
  "add_acceptance_criterion now u pid k d c e cid db = Inr (db', r) \<Longrightarrow> journal_extends db db'"
  by (auto simp: add_acceptance_criterion_def Let_def)

lemma journal_upsert_node:
  "upsert_node now n h d r s os hw pe caps db = Inr (db', u) \<Longrightarrow> journal_extends db db'"
  by (auto simp: upsert_node_def Let_def)

lemma journal_upsert_model: "upsert_model sha m db = Inr (db', r) \<Longrightarrow> journal_extends db db'"
  by (auto simp: upsert_model_def Let_def)

lemma journal_upsert_worker: "journal_extends db (fst (upsert_worker sha now w hv db))"
  by (auto simp: upsert_worker_def Let_def split: sum.split dest: journal_upsert_model)

lemmas journal_core =
  journal_create_project journal_create_task journal_add_acceptance_criterion journal_upsert_node
  journal_upsert_model journal_upsert_worker

text \<open>
  C20. Polling the journal with a cursor loses nothing and repeats nothing. In a well-formed journal
  the page after cursor \<open>k\<close> is exactly the next \<open>limit\<close> events, the cursor to continue from is the
  sequence of its last event, an empty page means that the reader has caught up, and whatever the
  store appends later, a page that was full is read again unchanged.
\<close>

theorem journal_cursor_lossless:
  assumes "journal_ok db" and "1 \<le> limit" and "limit \<le> 1000" and "k \<le> length (events db)"
    and "list_events db (int k) limit None = Inr page"
  shows "events db = take k (events db) @ page @ drop (k + length page) (events db) \<and>
    (page \<noteq> [] \<longrightarrow> ev_sequence (last page) = k + length page) \<and>
    (page = [] \<longleftrightarrow> k = highest_event_sequence db) \<and>
    (journal_extends db db' \<and> length page = nat limit \<longrightarrow>
       list_events db' (int k) limit None = Inr page)"
  using journal_page_facts [OF assms] by blast

definition sample_db :: db where
  "sample_db = (case create_project 5 ''p1'' ''demo'' ''/srv'' ''ship'' empty_db of
     Inl _ \<Rightarrow> empty_db | Inr (db, _) \<Rightarrow> db)"

lemma sample_db_journal: "journal_ok sample_db \<and> length (events sample_db) = 1"
  by (simp add: sample_db_def create_project_def empty_db_def get_project_def append_event_def
      journal_ok_def fetch_def row_simps highest_event_sequence_def Let_def)

theorem journal_cursor_lossless_witness:
  "\<exists>page. list_events sample_db 0 10 None = Inr page \<and> page \<noteq> [] \<and> ev_sequence (last page) = length page"
proof -
  obtain page where page: "list_events sample_db (int 0) 10 None = Inr page"
    by (simp add: list_events_def)
  have "events sample_db \<noteq> []" using sample_db_journal by auto
  with journal_cursor_lossless [OF _ _ _ _ page] sample_db_journal page show ?thesis
    by (auto simp: highest_event_sequence_ok)
qed

end
