(* ===== verification/Store_Dependencies.thy ===== *)
theory Store_Dependencies
  imports Store_Core
begin

text \<open>
  Task dependencies of \<^verbatim>\<open>src/project_supervisor/store.py\<close>: adding an edge, reading a task's
  prerequisites and which of them are unsatisfied. The dependency graph stays acyclic.
\<close>

section \<open>The recursive query\<close>

text \<open>
  \<^verbatim>\<open>WITH RECURSIVE ancestors(id) AS (SELECT ? UNION SELECT ...)\<close>: rounds that add the prerequisites
  of what has been found, until nothing new appears. Every round but the last adds the target of
  some edge, so as many rounds as there are edges are enough.
\<close>

definition new_prerequisites :: "dependency_row list \<Rightarrow> string list \<Rightarrow> string list" where
  "new_prerequisites deps found =
     remdups (map dp_depends_on_task_id
       (filter (\<lambda>d. dp_task_id d \<in> set found \<and> dp_depends_on_task_id d \<notin> set found) deps))"

fun ancestors :: "nat \<Rightarrow> dependency_row list \<Rightarrow> string list \<Rightarrow> string list" where
  "ancestors 0 deps found = found"
| "ancestors (Suc n) deps found =
     (let more = new_prerequisites deps found
      in if more = [] then found else ancestors n deps (found @ more))"

definition would_cycle :: "dependency_row list \<Rightarrow> string \<Rightarrow> string \<Rightarrow> bool" where
  "would_cycle deps task_id depends_on_task_id =
     (task_id \<in> set (ancestors (length deps) deps [depends_on_task_id]))"

section \<open>Operations\<close>

text \<open>
  The trigger \<^verbatim>\<open>tasks_require_sealed_verification_scope\<close>: an update of a task's revision or scope
  needs a sealed scope of that task, project and revision, when the task has one.
\<close>

definition scope_trigger_ok :: "db \<Rightarrow> task_row \<Rightarrow> bool" where
  "scope_trigger_ok db t =
     (case tk_current_verification_scope_id t of
        None \<Rightarrow> True
      | Some sid \<Rightarrow>
          list_ex (\<lambda>sc. sp_id sc = sid \<and> sp_task_id sc = tk_id t \<and>
             sp_project_id sc = tk_project_id t \<and>
             sp_task_definition_revision sc = tk_definition_revision t \<and> sp_sealed_at sc \<noteq> None)
            (task_verification_scopes db))"

definition add_task_dependency :: "rat \<Rightarrow> string \<Rightarrow> string \<Rightarrow> db \<Rightarrow> (db \<times> unit) result" where
  "add_task_dependency now task_id dep db =
     bindR (raise_if (task_id = dep) (ValueError ''a task cannot depend on itself'')) (\<lambda>_.
     bindR (fetch tk_id task_id (tasks db) (KeyError task_id)) (\<lambda>task.
     bindR (fetch tk_id dep (tasks db) (KeyError dep)) (\<lambda>prerequisite.
     bindR (raise_if (tk_project_id task \<noteq> tk_project_id prerequisite)
       (ValueError ''task dependencies cannot cross project boundaries'')) (\<lambda>_.
     if list_ex (\<lambda>d. dp_task_id d = task_id \<and> dp_depends_on_task_id d = dep) (task_dependencies db)
     then Inr (db, ())
     else
     bindR (raise_if (tk_state task \<notin> {TASK_DRAFT, TASK_QUEUED, TASK_READY})
       (ValueError ''dependencies cannot be added after task execution begins'')) (\<lambda>_.
     bindR (raise_if (would_cycle (task_dependencies db) task_id dep)
       (ValueError ''task dependency would create a cycle'')) (\<lambda>_.
     let revised = task\<lparr>tk_definition_revision := tk_definition_revision task + 1\<rparr> in
     bindR (raise_if (\<not> scope_trigger_ok db revised) (IntegrityError ''tasks'')) (\<lambda>_.
     let db = db\<lparr>task_dependencies := task_dependencies db @
               [\<lparr>dp_task_id = task_id, dp_depends_on_task_id = dep\<rparr>]\<rparr>;
         db = db\<lparr>tasks := upd_by tk_id task_id
               (\<lambda>t. t\<lparr>tk_definition_revision := tk_definition_revision t + 1,
                      tk_version := tk_version t + 1, tk_updated_at := timestamp now\<rparr>) (tasks db)\<rparr>
     in Inr (append_event now (mk_event ''taskDependencyAdded'' SEV_INFO ''task'' task_id
           (Some (tk_project_id task)) (Some task_id) None None
           (''Task now depends on '' @ dep) [(''dependsOnTaskID'', JStr dep)] ''scheduler'') db, ()))))))))"

definition task_dependencies_of :: "db \<Rightarrow> string \<Rightarrow> (string \<times> task_state) list result" where
  "task_dependencies_of db task_id =
     bindR (fetch tk_id task_id (tasks db) (KeyError task_id)) (\<lambda>_.
     Inr (map (\<lambda>t. (tk_id t, tk_state t)) (sort_key tk_id
       (filter (\<lambda>t. \<exists>d \<in> set (task_dependencies db).
          dp_task_id d = task_id \<and> dp_depends_on_task_id d = tk_id t) (tasks db)))))"

definition unsatisfied_dependencies :: "db \<Rightarrow> string \<Rightarrow> string list" where
  "unsatisfied_dependencies db task_id =
     sort (map dp_depends_on_task_id (filter
       (\<lambda>d. dp_task_id d = task_id \<and>
          (case row_by tk_id (dp_depends_on_task_id d) (tasks db) of
             None \<Rightarrow> False | Some p \<Rightarrow> tk_state p \<noteq> TASK_SUCCEEDED))
       (task_dependencies db)))"

section \<open>The query computes reachability\<close>

definition dependency_edges :: "dependency_row list \<Rightarrow> (string \<times> string) set" where
  "dependency_edges deps = (\<lambda>d. (dp_task_id d, dp_depends_on_task_id d)) ` set deps"

lemma set_new_prerequisites:
  "set (new_prerequisites deps found) = dependency_edges deps `` set found - set found"
  by (auto simp: new_prerequisites_def dependency_edges_def image_iff Image_def)

lemma ancestors_sound:
  "set found \<subseteq> (dependency_edges deps)\<^sup>* `` S \<Longrightarrow>
   set (ancestors n deps found) \<subseteq> (dependency_edges deps)\<^sup>* `` S"
proof (induction n arbitrary: found)
  case (Suc n)
  have "set (found @ new_prerequisites deps found) \<subseteq> (dependency_edges deps)\<^sup>* `` S"
    using Suc.prems by (auto simp: set_new_prerequisites intro: rtrancl_into_rtrancl)
  from Suc.IH [OF this] Suc.prems show ?case by (simp add: Let_def)
qed simp

lemma ancestors_mono: "set found \<subseteq> set (ancestors n deps found)"
proof (induction n arbitrary: found)
  case (Suc n)
  show ?case using Suc.IH [of "found @ new_prerequisites deps found"] by (auto simp: Let_def)
qed simp

text \<open>With enough rounds left, the result is closed under edges.\<close>

lemma ancestors_closed:
  assumes "card (snd ` dependency_edges deps - set found) \<le> n"
  shows "dependency_edges deps `` set (ancestors n deps found) \<subseteq> set (ancestors n deps found)"
  using assms
proof (induction n arbitrary: found)
  case 0
  then have "snd ` dependency_edges deps \<subseteq> set found"
    by (auto simp: dependency_edges_def)
  then show ?case by (auto simp: image_subset_iff)
next
  case (Suc n)
  let ?new = "new_prerequisites deps found"
  show ?case
  proof (cases "?new = []")
    case True
    then have "dependency_edges deps `` set found \<subseteq> set found"
      using set_new_prerequisites [of deps found] by auto
    with True show ?thesis by (simp add: Let_def)
  next
    case False
    then obtain x where x: "x \<in> set ?new" by fastforce
    have "snd ` dependency_edges deps - set (found @ ?new) \<subset> snd ` dependency_edges deps - set found"
    proof
      have "x \<in> snd ` dependency_edges deps - set found"
        using x by (force simp: set_new_prerequisites)
      then show "snd ` dependency_edges deps - set (found @ ?new) \<noteq> snd ` dependency_edges deps - set found"
        using x by auto
    qed auto
    then have "card (snd ` dependency_edges deps - set (found @ ?new)) <
        card (snd ` dependency_edges deps - set found)"
      by (intro psubset_card_mono) (simp_all add: dependency_edges_def)
    with Suc.prems have "card (snd ` dependency_edges deps - set (found @ ?new)) \<le> n" by simp
    from Suc.IH [OF this] False show ?thesis by (simp add: Let_def)
  qed
qed

lemma card_edge_targets: "card (snd ` dependency_edges deps - A) \<le> length deps"
proof -
  have "snd ` dependency_edges deps = set (map dp_depends_on_task_id deps)"
    by (force simp: dependency_edges_def)
  then have "card (snd ` dependency_edges deps - A) \<le> card (set (map dp_depends_on_task_id deps))"
    by (simp add: card_Diff_subset_Int card_mono diff_le_self)
  also have "\<dots> \<le> length deps" by (metis card_length length_map)
  finally show ?thesis .
qed

lemma set_ancestors: "set (ancestors (length deps) deps [x]) = (dependency_edges deps)\<^sup>* `` {x}"
proof
  show "set (ancestors (length deps) deps [x]) \<subseteq> (dependency_edges deps)\<^sup>* `` {x}"
    by (rule ancestors_sound) auto
  have closed: "dependency_edges deps `` set (ancestors (length deps) deps [x])
      \<subseteq> set (ancestors (length deps) deps [x])"
    by (rule ancestors_closed) (rule card_edge_targets)
  have "y \<in> set (ancestors (length deps) deps [x])" if "(x, y) \<in> (dependency_edges deps)\<^sup>*" for y
    using that
  proof (induction rule: rtrancl_induct)
    case base
    show ?case using ancestors_mono [of "[x]"] by auto
  next
    case (step y z)
    then show ?case using closed by auto
  qed
  then show "(dependency_edges deps)\<^sup>* `` {x} \<subseteq> set (ancestors (length deps) deps [x])" by auto
qed

lemma would_cycle_iff: "would_cycle deps t d \<longleftrightarrow> (d, t) \<in> (dependency_edges deps)\<^sup>*"
  by (simp add: would_cycle_def set_ancestors)

section \<open>Effect and invariant\<close>

lemma journal_add_task_dependency:
  "add_task_dependency now t d db = Inr (db', u) \<Longrightarrow> journal_extends db db'"
  by (auto simp: add_task_dependency_def Let_def split: if_splits)

lemma existing_edge_iff:
  "list_ex (\<lambda>d. dp_task_id d = t \<and> dp_depends_on_task_id d = x) deps \<longleftrightarrow> (t, x) \<in> dependency_edges deps"
  by (auto simp: list_ex_iff dependency_edges_def)

lemma add_task_dependency_edges:
  assumes "add_task_dependency now t d db = Inr (db', u)"
  shows "dependency_edges (task_dependencies db') = insert (t, d) (dependency_edges (task_dependencies db)) \<and>
    ((t, d) \<notin> dependency_edges (task_dependencies db) \<longrightarrow>
       (d, t) \<notin> (dependency_edges (task_dependencies db))\<^sup>*)"
proof (cases "(t, d) \<in> dependency_edges (task_dependencies db)")
  case True
  then have "db' = db" using assms by (auto simp: add_task_dependency_def existing_edge_iff)
  with True show ?thesis by auto
next
  case False
  with assms have "task_dependencies db' =
      task_dependencies db @ [\<lparr>dp_task_id = t, dp_depends_on_task_id = d\<rparr>] \<and>
      (d, t) \<notin> (dependency_edges (task_dependencies db))\<^sup>*"
    by (auto simp: add_task_dependency_def existing_edge_iff would_cycle_iff Let_def)
  then show ?thesis by (auto simp: dependency_edges_def)
qed

text \<open>
  C19. Adding a dependency adds exactly that edge and keeps the dependency graph acyclic; the
  database's recursive query therefore refuses an edge if and only if it would close a cycle.
\<close>

theorem add_task_dependency_acyclic:
  assumes "acyclic (dependency_edges (task_dependencies db))"
    and "add_task_dependency now t d db = Inr (db', u)"
  shows "acyclic (dependency_edges (task_dependencies db')) \<and>
    dependency_edges (task_dependencies db') = insert (t, d) (dependency_edges (task_dependencies db)) \<and>
    (would_cycle (task_dependencies db') x y \<longleftrightarrow>
       \<not> acyclic (insert (x, y) (dependency_edges (task_dependencies db'))))"
proof -
  have "acyclic (dependency_edges (task_dependencies db'))"
    using add_task_dependency_edges [OF assms(2)] assms(1)
    by (cases "(t, d) \<in> dependency_edges (task_dependencies db)") (simp_all add: acyclic_insert insert_absorb)
  then show ?thesis
    using add_task_dependency_edges [OF assms(2)] by (simp add: would_cycle_iff acyclic_insert)
qed

section \<open>Examples\<close>

definition sample_task :: "string \<Rightarrow> task_row" where
  "sample_task tid =
     \<lparr>tk_id = tid, tk_project_id = ''p1'', tk_reference = tid, tk_title = tid, tk_description = [],
      tk_state = TASK_READY, tk_topology = TOPO_SINGLE, tk_priority = 50, tk_labels = [],
      tk_required_capabilities = [], tk_permission_class = PERM_GREEN,
      tk_approval_state = APPROVAL_NOT_REQUIRED, tk_minimum_context_tokens = None,
      tk_privacy_sensitive = False, tk_code_write_required = False, tk_panel_size = 2,
      tk_preferred_workers = [], tk_attempt_count = 0, tk_version = 1, tk_failure_reason = None,
      tk_created_at = 0, tk_started_at = None, tk_updated_at = 0, tk_finished_at = None,
      tk_definition_revision = 1, tk_current_verification_scope_id = None\<rparr>"

lemmas task_sample_simps = sample_task_def row_simps fetch_def

theorem add_task_dependency_acyclic_witness:
  "\<exists>db'. add_task_dependency 7 ''b'' ''a'' (sample_db\<lparr>tasks := [sample_task ''a'', sample_task ''b'']\<rparr>)
       = Inr (db', ()) \<and>
     acyclic (dependency_edges (task_dependencies db')) \<and>
     would_cycle (task_dependencies db') ''a'' ''b''"
proof -
  let ?db = "sample_db\<lparr>tasks := [sample_task ''a'', sample_task ''b'']\<rparr>"
  have none: "task_dependencies ?db = []"
    by (simp add: sample_db_def create_project_def empty_db_def get_project_def append_event_def
        fetch_def row_simps Let_def)
  obtain db' where db': "add_task_dependency 7 ''b'' ''a'' ?db = Inr (db', ())"
    using none by (simp add: add_task_dependency_def fetch_def row_simps sample_task_def Let_def
        would_cycle_def scope_trigger_ok_def)
  have e0: "dependency_edges (task_dependencies ?db) = {}"
    unfolding none by (simp add: dependency_edges_def)
  then have "acyclic (dependency_edges (task_dependencies ?db))" by (simp add: acyclic_def)
  note facts = add_task_dependency_acyclic [OF this db', of "''a''" "''b''"]
  then have acyclic: "acyclic (dependency_edges (task_dependencies db'))"
    and edges: "dependency_edges (task_dependencies db') = {(''b'', ''a'')}"
    and cyc: "would_cycle (task_dependencies db') ''a'' ''b'' \<longleftrightarrow>
      \<not> acyclic (insert (''a'', ''b'') (dependency_edges (task_dependencies db')))"
    unfolding e0 by blast+
  have "would_cycle (task_dependencies db') ''a'' ''b''"
    unfolding cyc edges by (auto simp: acyclic_insert)
  with db' acyclic show ?thesis by blast
qed

end
