(* ===== verification/Verification.thy ===== *)
theory Verification
  imports Redaction
begin

text \<open>
  The definition of done, \<^verbatim>\<open>src/project_supervisor/verification.py\<close>: criteria, their results and
  the aggregation of one into the other. What a single check observes of the workspace (running a
  command, reading a file) is the argument \<open>observe\<close>; every decision made from it is modelled.
\<close>

section \<open>Data\<close>

datatype verification_kind = KIND_COMMAND | KIND_FILE_EXISTS | KIND_JSON_EQUALS

primrec verification_kind_value :: "verification_kind \<Rightarrow> string" where
  "verification_kind_value KIND_COMMAND = ''command''"
| "verification_kind_value KIND_FILE_EXISTS = ''fileExists''"
| "verification_kind_value KIND_JSON_EQUALS = ''jsonEquals''"

definition all_verification_kind :: "verification_kind list" where
  "all_verification_kind = [KIND_COMMAND, KIND_FILE_EXISTS, KIND_JSON_EQUALS]"

interpretation verification_kind_wire: wire_enum all_verification_kind verification_kind_value
proof
  show "x \<in> set all_verification_kind" for x
    by (cases x) (simp_all add: all_verification_kind_def)
  show "distinct (map verification_kind_value all_verification_kind)"
    by (simp add: all_verification_kind_def)
qed

record verification_criterion =
  vc_id :: string
  vc_kind :: verification_kind
  vc_description :: string
  vc_required :: bool
  vc_command :: "string list"
  vc_relative_path :: "string option"
  vc_expected :: json
  vc_timeout_seconds :: rat

record verification_result =
  vr_criterion_id :: string
  vr_passed :: bool
  vr_summary :: string
  vr_exit_code :: "int option"
  vr_evidence :: "(string \<times> json) list"

record definition_of_done =
  dd_complete :: bool
  dd_results :: "verification_result list"
  dd_required_failures :: "string list"

section \<open>Paths inside the workspace\<close>

text \<open>
  A resolved path is the list of its components. \<open>resolve\<close> drops empty and \<^verbatim>\<open>.\<close> components and
  lets \<^verbatim>\<open>..\<close> remove one; symbolic links are not followed here. An absolute argument of \<^verbatim>\<open>/\<close>
  replaces the workspace root.
\<close>

fun split_path :: "string \<Rightarrow> string \<Rightarrow> string list" where
  "split_path acc [] = [rev acc]"
| "split_path acc (c # cs) =
     (if c = CHR ''/'' then rev acc # split_path [] cs else split_path (c # acc) cs)"

fun resolve :: "string list \<Rightarrow> string list \<Rightarrow> string list" where
  "resolve base [] = base"
| "resolve base (p # ps) =
     (if p = [] \<or> p = ''.'' then resolve base ps
      else if p = ''..'' then resolve (butlast base) ps
      else resolve (base @ [p]) ps)"

definition join_path :: "string list \<Rightarrow> string \<Rightarrow> string list" where
  "join_path workspace relative =
     resolve (if take 1 relative = ''/'' then [] else workspace) (split_path [] relative)"

definition resolve_relative :: "string list \<Rightarrow> string option \<Rightarrow> string list result" where
  "resolve_relative workspace relative =
     bindR (raise_if (\<not> truthy relative)
       (VerificationPolicyError ''file criterion requires relative_path'')) (\<lambda>_.
     let candidate = join_path workspace (the relative) in
     bindR (raise_if (candidate \<noteq> workspace \<and> \<not> strict_prefix workspace candidate)
       (VerificationPolicyError ''verification path escapes workspace'')) (\<lambda>_.
     Inr candidate))"

section \<open>Checks\<close>

text \<open>
  What a check observes: the outcome of a process (its exit code, or a timeout), whether a file
  exists, and the JSON document read from a file or the error text.
\<close>

record observations =
  ob_expand :: "string \<Rightarrow> string" \<comment> \<open>\<^verbatim>\<open>Path(s).expanduser().resolve()\<close>\<close>
  ob_executable_exists :: "string \<Rightarrow> bool"
  ob_run :: "string list \<Rightarrow> rat \<Rightarrow> int \<times> bool" \<comment> \<open>exit code and whether it timed out\<close>
  ob_is_file :: "string list \<Rightarrow> bool"
  ob_read_json :: "string list \<Rightarrow> string + json" \<comment> \<open>\<open>Inl\<close> the error text\<close>
  ob_evidence :: "string list \<Rightarrow> rat \<Rightarrow> (string \<times> json) list" \<comment> \<open>hashes and redacted output\<close>

definition verify_command :: "observations \<Rightarrow> verification_criterion \<Rightarrow> verification_result result" where
  "verify_command observe c =
     (case vc_command c of
        [] \<Rightarrow> Inl (VerificationPolicyError ''command criterion requires argv'')
      | executable # _ \<Rightarrow>
          if CHR ''/'' \<in> set executable \<and> \<not> ob_executable_exists observe (ob_expand observe executable)
          then Inr \<lparr>vr_criterion_id = vc_id c, vr_passed = False,
                 vr_summary = ''executable not found: '' @ ob_expand observe executable, vr_exit_code = None,
                 vr_evidence = []\<rparr>
          else (let (code, timed_out) = ob_run observe (vc_command c) (vc_timeout_seconds c);
                    passed = (\<not> timed_out \<and> code = 0)
                in Inr \<lparr>vr_criterion_id = vc_id c, vr_passed = passed,
                     vr_summary = (if passed then ''command passed'' else ''command failed''),
                     vr_exit_code = Some code,
                     vr_evidence = [(''argv'', JList (map JStr (vc_command c))),
                        (''exitCode'', JInt code), (''timedOut'', JBool timed_out)] @
                       ob_evidence observe (vc_command c) (vc_timeout_seconds c)\<rparr>))"

definition path_text :: "string list \<Rightarrow> string" where
  "path_text p = ''/'' @ join_strings ''/'' p"

definition verify_file_exists ::
    "observations \<Rightarrow> string list \<Rightarrow> verification_criterion \<Rightarrow> verification_result result" where
  "verify_file_exists observe workspace c =
     bindR (resolve_relative workspace (vc_relative_path c)) (\<lambda>path.
     let passed = ob_is_file observe path in
     Inr \<lparr>vr_criterion_id = vc_id c, vr_passed = passed,
       vr_summary = ''file '' @ (if passed then ''exists'' else ''missing'') @ '': '' @
         the (vc_relative_path c), vr_exit_code = None,
       vr_evidence = [(''path'', JStr (path_text path)), (''exists'', JBool passed)]\<rparr>)"

definition verify_json_equals ::
    "observations \<Rightarrow> string list \<Rightarrow> verification_criterion \<Rightarrow> verification_result result" where
  "verify_json_equals observe workspace c =
     bindR (resolve_relative workspace (vc_relative_path c)) (\<lambda>path.
     case ob_read_json observe path of
       Inl err \<Rightarrow>
         Inr \<lparr>vr_criterion_id = vc_id c, vr_passed = False,
           vr_summary = ''could not read JSON: '' @ err, vr_exit_code = None,
           vr_evidence = [(''path'', JStr (path_text path))]\<rparr>
     | Inr actual \<Rightarrow>
         (let passed = (actual = vc_expected c) in
          Inr \<lparr>vr_criterion_id = vc_id c, vr_passed = passed,
            vr_summary = (if passed then ''JSON matched'' else ''JSON differed''),
            vr_exit_code = None,
            vr_evidence = [(''path'', JStr (path_text path)), (''actual'', actual),
              (''expected'', vc_expected c)]\<rparr>))"

definition verify ::
    "observations \<Rightarrow> string list \<Rightarrow> verification_criterion \<Rightarrow> verification_result result" where
  "verify observe workspace c =
     (case vc_kind c of
        KIND_COMMAND \<Rightarrow> verify_command observe c
      | KIND_FILE_EXISTS \<Rightarrow> verify_file_exists observe workspace c
      | KIND_JSON_EQUALS \<Rightarrow> verify_json_equals observe workspace c)"

definition verify_definition ::
    "observations \<Rightarrow> string list \<Rightarrow> verification_criterion list \<Rightarrow> definition_of_done result" where
  "verify_definition observe workspace criteria =
     bindR (map_result (verify observe workspace) criteria) (\<lambda>results.
     let required = set (map vc_id (filter vc_required criteria));
         failures = map vr_criterion_id
           (filter (\<lambda>r. \<not> vr_passed r \<and> vr_criterion_id r \<in> required) results)
     in Inr \<lparr>dd_complete = (required \<noteq> {} \<and> failures = []), dd_results = results,
          dd_required_failures = failures\<rparr>)"

section \<open>Properties\<close>

lemma verify_command_id: "verify_command observe c = Inr r \<Longrightarrow> vr_criterion_id r = vc_id c"
  by (auto simp: verify_command_def Let_def split: list.split_asm if_split_asm prod.split_asm)

lemma verify_file_exists_id:
  "verify_file_exists observe workspace c = Inr r \<Longrightarrow> vr_criterion_id r = vc_id c"
  by (auto simp: verify_file_exists_def Let_def)

lemma verify_json_equals_id:
  assumes "verify_json_equals observe workspace c = Inr r"
  shows "vr_criterion_id r = vc_id c"
proof -
  obtain path where "resolve_relative workspace (vc_relative_path c) = Inr path"
    using assms by (auto simp: verify_json_equals_def)
  then show ?thesis using assms
    by (cases "ob_read_json observe path") (auto simp: verify_json_equals_def Let_def)
qed

lemma verify_id: "verify observe workspace c = Inr r \<Longrightarrow> vr_criterion_id r = vc_id c"
  by (cases "vc_kind c")
    (auto simp: verify_def dest: verify_command_id verify_file_exists_id verify_json_equals_id)

lemma verify_results:
  assumes "map_result (verify observe workspace) criteria = Inr results"
  shows "map vr_criterion_id results = map vc_id criteria"
    and "set results = {r. \<exists>c \<in> set criteria. verify observe workspace c = Inr r}"
  using assms unfolding map_result_Inr_iff
  by (induction rule: list_all2_induct) (auto dest: verify_id)


lemma resolve_relative_inside:
  "resolve_relative workspace rel = Inr p \<Longrightarrow> prefix workspace p"
  by (auto simp: resolve_relative_def Let_def strict_prefix_def)

section \<open>Examples\<close>

definition sample_observations :: observations where
  "sample_observations =
     \<lparr>ob_expand = (\<lambda>s. s), ob_executable_exists = (\<lambda>_. True), ob_run = (\<lambda>_ _. (0, False)),
      ob_is_file = (\<lambda>_. True), ob_read_json = (\<lambda>_. Inr JNull), ob_evidence = (\<lambda>_ _. [])\<rparr>"

definition sample_criterion :: verification_criterion where
  "sample_criterion =
     \<lparr>vc_id = ''c1'', vc_kind = KIND_COMMAND, vc_description = ''tests'', vc_required = True,
      vc_command = [''pytest''], vc_relative_path = None, vc_expected = JNull,
      vc_timeout_seconds = 120\<rparr>"


end
