(* ===== verification/Store_Verification.thy ===== *)
theory Store_Verification
  imports Store_Dependencies Verification
begin

text \<open>
  Verification scopes of \<^verbatim>\<open>src/project_supervisor/store.py\<close>: sealing an immutable snapshot of the
  criteria that apply to one revision of a task, checking its integrity, recording verifications,
  and the atomic decision that moves a reviewed task on.

  \<open>digest\<close> is the hexadecimal SHA-256 of the canonical text of a JSON value. JSON columns hold the
  value instead of its text, so \<open>digest\<close> hashes the value.
\<close>

section \<open>Integrity of a sealed scope\<close>

definition scope_item_snapshot :: "scope_item_row \<Rightarrow> (string \<times> json) list" where
  "scope_item_snapshot i =
     [(''criterionID'', JStr (si_criterion_id i)), (''kind'', JStr (si_kind i)),
      (''description'', JStr (si_description i)), (''commandJSON'', json_opt (\<lambda>j. j) (si_command i)),
      (''expectedJSON'', json_opt (\<lambda>j. j) (si_expected i)), (''required'', JBool (si_required i))]"

definition scope_items :: "db \<Rightarrow> string \<Rightarrow> scope_item_row list" where
  "scope_items db scope_id =
     sort_key (\<lambda>i. (si_ordinal i, si_id i))
       (filter (\<lambda>i. si_scope_id i = scope_id) (task_verification_scope_items db))"

definition scope_snapshot :: "(json \<Rightarrow> string) \<Rightarrow> scope_row \<Rightarrow> scope_item_row list \<Rightarrow> (string \<times> json) list" where
  "scope_snapshot digest sc items =
     [(''schemaVersion'', JStr (sp_schema_version sc)), (''taskID'', JStr (sp_task_id sc)),
      (''criteriaVersion'', JInt (sp_criteria_version sc)),
      (''taskDefinitionRevision'', JInt (sp_task_definition_revision sc)),
      (''goalID'', json_opt JStr (sp_goal_id sc)), (''iterationID'', json_opt JStr (sp_iteration_id sc)),
      (''planVersion'', json_opt JInt (sp_plan_version sc)),
      (''steerVersion'', json_opt JInt (sp_steer_version sc)),
      (''items'', JList (map (\<lambda>i. JObj (scope_item_snapshot i @
         [(''definitionSHA256'', JStr (digest (JObj (scope_item_snapshot i))))])) items))]"

definition assert_scope_integrity ::
    "(json \<Rightarrow> string) \<Rightarrow> db \<Rightarrow> scope_row \<Rightarrow> scope_item_row list result" where
  "assert_scope_integrity digest db sc =
     (let items = scope_items db (sp_id sc) in
      bindR (raise_if (sp_sealed_at sc = None \<or> items = [])
        (VerificationPolicyError ''task verification scope is not durably sealed'')) (\<lambda>_.
      bindR (raise_if (map si_ordinal items \<noteq> map int [0..<length items])
        (VerificationPolicyError ''task verification scope criteria ordinals are not canonical'')) (\<lambda>_.
      bindR (raise_if (list_ex (\<lambda>i. si_definition_sha256 i \<noteq> digest (JObj (scope_item_snapshot i))) items)
        (VerificationPolicyError ''task verification scope criterion definition hash mismatch'')) (\<lambda>_.
      bindR (raise_if (sp_definition_sha256 sc \<noteq> digest (JObj (scope_snapshot digest sc items)))
        (VerificationPolicyError ''task verification scope definition hash mismatch'')) (\<lambda>_.
      Inr items)))))"

section \<open>Binding a scope\<close>

text \<open>The steering version under which an iteration was planned, from the journal.\<close>

definition invalid_steering :: py_error where
  "invalid_steering = VerificationPolicyError ''autonomous iteration has invalid steering provenance''"

definition steer_version_of :: "(string \<times> json) list \<Rightarrow> int option result" where
  "steer_version_of doc =
     (case Option.bind (map_of doc ''steerVersion'') py_int of
        None \<Rightarrow> Inl invalid_steering | Some n \<Rightarrow> Inr (Some n))"

definition iteration_steering :: "db \<Rightarrow> iteration_row \<Rightarrow> int option result" where
  "iteration_steering db it =
     (case sort_key ev_sequence (filter (\<lambda>e. ev_kind e = ''goalIterationStarted'' \<and>
             ev_entity_id e = it_id it) (events db)) of
        started # _ \<Rightarrow>
          (case rev (sort_key ev_sequence (filter (\<lambda>e. ev_kind e = ''goalSteered'' \<and>
                  ev_entity_id e = it_goal_id it \<and> ev_sequence e < ev_sequence started) (events db))) of
             [] \<Rightarrow> Inr (Some 0)
           | prior # _ \<Rightarrow> steer_version_of (ev_payload prior))
      | [] \<Rightarrow>
          (case it_evaluation it of
             None \<Rightarrow> Inr None
           | Some doc \<Rightarrow> steer_version_of doc))"

text \<open>The goal, plan version and steering version of the iteration, when one is given.\<close>

definition resolve_iteration ::
    "db \<Rightarrow> task_row \<Rightarrow> string option \<Rightarrow> string option \<Rightarrow> int option \<Rightarrow>
     (string option \<times> int option \<times> int option) result" where
  "resolve_iteration db task iteration_id goal_id plan_version =
     (case iteration_id of
        None \<Rightarrow> Inr (goal_id, plan_version, None)
      | Some iid \<Rightarrow>
          bindR (fetch it_id iid (autonomous_iterations db) (KeyError iid)) (\<lambda>it.
          bindR (fetch go_id (it_goal_id it) (autonomous_goals db) (KeyError iid)) (\<lambda>goal.
          bindR (raise_if (go_project_id goal \<noteq> tk_project_id task)
            (ValueError ''verification scope iteration belongs to another project'')) (\<lambda>_.
          bindR (raise_if (goal_id \<noteq> None \<and> goal_id \<noteq> Some (it_goal_id it))
            (ValueError ''verification scope goal and iteration do not match'')) (\<lambda>_.
          bindR (raise_if (plan_version \<noteq> None \<and> plan_version \<noteq> Some (it_sequence it))
            (ValueError ''verification scope plan_version does not match its iteration sequence'')) (\<lambda>_.
          bindR (raise_if (it_state it \<in> {''completed'', ''interrupted''})
            (ValueError ''historical autonomous iterations cannot receive new criteria'')) (\<lambda>_.
          bindR (iteration_steering db it) (\<lambda>steer.
          Inr (Some (it_goal_id it), Some (it_sequence it), steer)))))))))"

text \<open>The steering version of the scope: that of the goal, checked against the iteration.\<close>

definition resolve_steering ::
    "db \<Rightarrow> task_row \<Rightarrow> string option \<Rightarrow> string option \<Rightarrow> int option \<Rightarrow> int option \<Rightarrow> int option \<Rightarrow>
     int option result" where
  "resolve_steering db task iteration_id goal_id plan_version iteration_steer steer_version =
     (case goal_id of
        None \<Rightarrow>
          bindR (raise_if (plan_version \<noteq> None \<or> steer_version \<noteq> None)
            (ValueError ''plan/steer versions require a Goal-bound verification scope'')) (\<lambda>_.
          Inr steer_version)
      | Some gid \<Rightarrow>
          bindR (fetch go_id gid (autonomous_goals db) (KeyError gid)) (\<lambda>goal.
          bindR (raise_if (go_project_id goal \<noteq> tk_project_id task)
            (ValueError ''verification scope goal belongs to another project'')) (\<lambda>_.
          bindR (raise_if (steer_version \<noteq> None \<and> steer_version \<noteq> Some (go_steer_version goal))
            (ValueError ''verification scope steer_version does not match the current Goal'')) (\<lambda>_.
          if iteration_id = None then Inr (Some (go_steer_version goal))
          else
          bindR (raise_if (iteration_steer = None \<and> go_steer_version goal \<noteq> 0)
            (VerificationPolicyError ''autonomous iteration cannot prove its steering provenance'')) (\<lambda>_.
          let steer = (case iteration_steer of None \<Rightarrow> 0 | Some n \<Rightarrow> n) in
          bindR (raise_if (steer \<noteq> go_steer_version goal)
            (ValueError ''verification scope iteration predates the current Goal steering'')) (\<lambda>_.
          Inr (Some (go_steer_version goal))))))))"

text \<open>The criteria of the scope: all of the project's, or the named ones in the given order.\<close>

definition select_criteria ::
    "db \<Rightarrow> string \<Rightarrow> string list option \<Rightarrow> criterion_row list result" where
  "select_criteria db project_id identities =
     (case identities of
        None \<Rightarrow> Inr (list_acceptance_criteria db project_id)
      | Some ids \<Rightarrow>
          (let rows = filter (\<lambda>c. cr_project_id c = project_id) (acceptance_criteria db);
               missing = filter (\<lambda>i. row_by cr_id i rows = None) ids
           in bindR (raise_if (missing \<noteq> [])
                (ValueError (''unknown project acceptance criteria: '' @
                   join_strings '', '' (sort missing)))) (\<lambda>_.
              Inr (map (\<lambda>i. the (row_by cr_id i rows)) ids))))"

text \<open>The items of a new scope, one per criterion in order.\<close>

definition new_scope_item ::
    "(json \<Rightarrow> string) \<Rightarrow> int \<Rightarrow> string \<Rightarrow> (nat \<Rightarrow> string) \<Rightarrow> nat \<Rightarrow> criterion_row \<Rightarrow> scope_item_row" where
  "new_scope_item digest t scope_id item_uuid n c =
     (let item = \<lparr>si_id = ''verification-scope-item-'' @ item_uuid n, si_scope_id = scope_id,
            si_criterion_id = cr_id c, si_source_criterion_id = Some (cr_id c), si_ordinal = int n,
            si_required = True, si_kind = cr_kind c, si_description = cr_description c,
            si_command = cr_command c, si_expected = cr_expected c, si_definition_sha256 = [],
            si_created_at = t\<rparr>
      in item\<lparr>si_definition_sha256 := digest (JObj (scope_item_snapshot item))\<rparr>)"

definition new_scope_items ::
    "(json \<Rightarrow> string) \<Rightarrow> int \<Rightarrow> string \<Rightarrow> (nat \<Rightarrow> string) \<Rightarrow> criterion_row list \<Rightarrow> scope_item_row list" where
  "new_scope_items digest t scope_id item_uuid criteria =
     map (\<lambda>(n, c). new_scope_item digest t scope_id item_uuid n c) (enumerate 0 criteria)"

definition last_criteria_version :: "db \<Rightarrow> string \<Rightarrow> int" where
  "last_criteria_version db task_id =
     fold max (map sp_criteria_version
       (filter (\<lambda>sc. sp_task_id sc = task_id) (task_verification_scopes db))) 0"

text \<open>
  The constraints of the two tables on the inserted rows: fresh identifiers and hashes of 64
  characters; the criteria of one scope are distinct because the criteria table has them once.
\<close>

definition scope_insertable :: "db \<Rightarrow> scope_row \<Rightarrow> scope_item_row list \<Rightarrow> bool" where
  "scope_insertable db sc items \<longleftrightarrow>
     row_by sp_id (sp_id sc) (task_verification_scopes db) = None \<and>
     length (sp_definition_sha256 sc) = 64 \<and>
     list_all (\<lambda>i. length (si_definition_sha256 i) = 64 \<and>
       row_by si_id (si_id i) (task_verification_scope_items db) = None) items \<and>
     distinct (map si_id items) \<and> distinct (map si_criterion_id items)"

definition bind_task_verification_scope ::
    "(json \<Rightarrow> string) \<Rightarrow> rat \<Rightarrow> string \<Rightarrow> (nat \<Rightarrow> string) \<Rightarrow> string \<Rightarrow> string list option \<Rightarrow>
     string option \<Rightarrow> string option \<Rightarrow> int option \<Rightarrow> int option \<Rightarrow> string \<Rightarrow> db \<Rightarrow>
     (db \<times> scope_row) result" where
  "bind_task_verification_scope digest now uuid item_uuid task_id identities goal_id iteration_id
     plan_version steer_version actor db =
     bindR (raise_if (case identities of None \<Rightarrow> False | Some ids \<Rightarrow> \<not> distinct ids)
       (ValueError ''criterion_ids must be unique'')) (\<lambda>_.
     bindR (raise_if (case plan_version of None \<Rightarrow> False | Some n \<Rightarrow> n < 1)
       (ValueError ''plan_version must be positive'')) (\<lambda>_.
     bindR (raise_if (case steer_version of None \<Rightarrow> False | Some n \<Rightarrow> n < 0)
       (ValueError ''steer_version must not be negative'')) (\<lambda>_.
     bindR (fetch tk_id task_id (tasks db) (KeyError task_id)) (\<lambda>task.
     bindR (raise_if (task_terminal (tk_state task))
       (ValueError ''terminal task verification criteria cannot be rebound'')) (\<lambda>_.
     bindR (resolve_iteration db task iteration_id goal_id plan_version) (\<lambda>(goal, plan, it_steer).
     bindR (resolve_steering db task iteration_id goal plan it_steer steer_version) (\<lambda>steer.
     bindR (select_criteria db (tk_project_id task) identities) (\<lambda>criteria.
     bindR (raise_if (criteria = [])
       (VerificationPolicyError
         ''task verification scope requires at least one acceptance criterion'')) (\<lambda>_.
     let t = timestamp now;
         version = last_criteria_version db task_id + 1;
         revision = (if tk_current_verification_scope_id task \<noteq> None
                     then tk_definition_revision task + 1 else tk_definition_revision task);
         sid = ''verification-scope-'' @ uuid;
         items = new_scope_items digest t sid item_uuid criteria;
         blank = \<lparr>sp_id = sid, sp_project_id = tk_project_id task, sp_task_id = task_id,
           sp_criteria_version = version, sp_task_definition_revision = revision, sp_goal_id = goal,
           sp_iteration_id = iteration_id, sp_plan_version = plan, sp_steer_version = steer,
           sp_schema_version = ''task-verification-scope/v1'', sp_definition_sha256 = [],
           sp_created_at = t, sp_sealed_at = None\<rparr>;
         scope = blank\<lparr>sp_definition_sha256 := digest (JObj (scope_snapshot digest blank items))\<rparr>
     in
     bindR (raise_if (\<not> scope_insertable db scope items) (IntegrityError ''task_verification_scopes'')) (\<lambda>_.
     let sealed = scope\<lparr>sp_sealed_at := Some t\<rparr>;
         db1 = db\<lparr>task_verification_scopes := task_verification_scopes db @ [sealed],
                  task_verification_scope_items := task_verification_scope_items db @ items\<rparr>
     in
     bindR (assert_scope_integrity digest db1 sealed) (\<lambda>_.
     let db2 = db1\<lparr>tasks := upd_by tk_id task_id
           (\<lambda>r. r\<lparr>tk_current_verification_scope_id := Some sid, tk_definition_revision := revision,
                  tk_version := tk_version r + 1, tk_updated_at := t\<rparr>) (tasks db1)\<rparr>
     in Inr (append_event now (mk_event ''taskVerificationScopeBound'' SEV_NOTICE
           ''taskVerificationScope'' sid (Some (tk_project_id task)) (Some task_id) None None
           (''Task verification criteria version '' @ show_int version @ '' bound'')
           [(''verificationScopeID'', JStr sid), (''criteriaVersion'', JInt version),
            (''taskDefinitionRevision'', JInt revision), (''criterionCount'', JInt (int (length items))),
            (''goalID'', json_opt JStr goal), (''iterationID'', json_opt JStr iteration_id),
            (''planVersion'', json_opt JInt plan), (''steerVersion'', json_opt JInt steer),
            (''definitionSHA256'', JStr (sp_definition_sha256 scope))] actor) db2, sealed))))))))))))"

section \<open>Reading scopes\<close>

definition get_task_verification_scope ::
    "(json \<Rightarrow> string) \<Rightarrow> db \<Rightarrow> string \<Rightarrow> scope_row result" where
  "get_task_verification_scope digest db scope_id =
     bindR (fetch sp_id scope_id (task_verification_scopes db) (KeyError scope_id)) (\<lambda>sc.
     bindR (assert_scope_integrity digest db sc) (\<lambda>_. Inr sc))"

definition list_task_verification_scopes ::
    "(json \<Rightarrow> string) \<Rightarrow> db \<Rightarrow> string \<Rightarrow> scope_row list result" where
  "list_task_verification_scopes digest db task_id =
     (let rows = sort_key (\<lambda>sc. (sp_criteria_version sc, sp_id sc))
        (filter (\<lambda>sc. sp_task_id sc = task_id) (task_verification_scopes db))
      in bindR (map_result (assert_scope_integrity digest db) rows) (\<lambda>_. Inr rows))"

definition list_task_verification_scope_items ::
    "(json \<Rightarrow> string) \<Rightarrow> db \<Rightarrow> string \<Rightarrow> scope_item_row list result" where
  "list_task_verification_scope_items digest db scope_id =
     bindR (fetch sp_id scope_id (task_verification_scopes db) (KeyError scope_id)) (\<lambda>sc.
     assert_scope_integrity digest db sc)"

text \<open>\<^verbatim>\<open>SELECT MAX(attempt)\<close> of a task's runs, \<open>None\<close> when it has none.\<close>

definition latest_attempt :: "db \<Rightarrow> string \<Rightarrow> int option" where
  "latest_attempt db task_id =
     (case map rn_attempt (filter (\<lambda>r. rn_task_id r = task_id) (worker_runs db)) of
        [] \<Rightarrow> None | a # as \<Rightarrow> Some (fold max as a))"

record verification_context =
  vx_task_id :: string
  vx_verification_scope_id :: "string option"
  vx_criteria_version :: "int option"
  vx_task_definition_revision :: int
  vx_source_attempt :: "int option"
  vx_definition_sha256 :: "string option"

definition get_task_verification_context ::
    "(json \<Rightarrow> string) \<Rightarrow> db \<Rightarrow> string \<Rightarrow> verification_context result" where
  "get_task_verification_context digest db task_id =
     bindR (fetch tk_id task_id (tasks db) (KeyError task_id)) (\<lambda>task.
     case tk_current_verification_scope_id task of
       None \<Rightarrow>
         Inr \<lparr>vx_task_id = task_id, vx_verification_scope_id = None, vx_criteria_version = None,
           vx_task_definition_revision = tk_definition_revision task, vx_source_attempt = None,
           vx_definition_sha256 = None\<rparr>
     | Some sid \<Rightarrow>
         bindR (case row_by sp_id sid (task_verification_scopes db) of
             None \<Rightarrow> Inl (RuntimeError ''task references an unknown verification scope'')
           | Some sc \<Rightarrow>
               if sp_task_id sc = task_id then Inr sc
               else Inl (RuntimeError ''task references an unknown verification scope'')) (\<lambda>sc.
         bindR (assert_scope_integrity digest db sc) (\<lambda>_.
         bindR (raise_if (sp_task_definition_revision sc \<noteq> tk_definition_revision task)
           (RuntimeError ''task verification scope does not match its current definition'')) (\<lambda>_.
         Inr \<lparr>vx_task_id = task_id, vx_verification_scope_id = Some sid,
           vx_criteria_version = Some (sp_criteria_version sc),
           vx_task_definition_revision = sp_task_definition_revision sc,
           vx_source_attempt = latest_attempt db task_id,
           vx_definition_sha256 = Some (sp_definition_sha256 sc)\<rparr>))))"

text \<open>The scope and revision a dispatched run is bound to.\<close>

definition task_verification_dispatch_snapshot ::
    "(json \<Rightarrow> string) \<Rightarrow> db \<Rightarrow> task_row \<Rightarrow> (string option \<times> int) result" where
  "task_verification_dispatch_snapshot digest db task =
     (case tk_current_verification_scope_id task of
        None \<Rightarrow> Inr (None, tk_definition_revision task)
      | Some sid \<Rightarrow>
          (case row_by sp_id sid (task_verification_scopes db) of
             None \<Rightarrow> Inl (RuntimeError ''task verification scope does not match its current definition'')
           | Some sc \<Rightarrow>
               bindR (raise_if (sp_task_id sc \<noteq> tk_id task \<or>
                   sp_task_definition_revision sc \<noteq> tk_definition_revision task)
                 (RuntimeError ''task verification scope does not match its current definition'')) (\<lambda>_.
               bindR (assert_scope_integrity digest db sc) (\<lambda>_.
               Inr (Some sid, tk_definition_revision task)))))"

section \<open>Recording a verification\<close>

definition verification_summary :: "bool \<Rightarrow> string" where
  "verification_summary passed = ''Deterministic verification '' @ (if passed then ''passed'' else ''failed'')"

definition record_verification ::
    "rat \<Rightarrow> string \<Rightarrow> string \<Rightarrow> string \<Rightarrow> bool \<Rightarrow> (string \<times> json) list \<Rightarrow> string \<Rightarrow>
     string option \<Rightarrow> string list option \<Rightarrow> int option \<Rightarrow> db \<Rightarrow> (db \<times> string) result" where
  "record_verification now uuid task_id kind passed evidence verifier criterion_id command exit_code db =
     (let vid = ''verify-'' @ uuid; safe = JObj (redact_dict evidence); t = timestamp now in
      bindR (fetch tk_id task_id (tasks db) (KeyError task_id)) (\<lambda>task.
      bindR (case criterion_id of
          None \<Rightarrow> Inr ()
        | Some cid \<Rightarrow>
            bindR (raise_if (tk_current_verification_scope_id task \<noteq> None)
              (VerificationPolicyError
                ''criterion-bearing verification for a scoped Task requires provenance'')) (\<lambda>_.
            raise_if (\<not> list_ex (\<lambda>c. cr_id c = cid \<and> cr_project_id c = tk_project_id task)
                (acceptance_criteria db))
              (ValueError (''acceptance criterion '' @ cid @ '' does not belong to Task project'')))) (\<lambda>_.
      bindR (raise_if (row_by vf_id vid (verifications db) \<noteq> None) (IntegrityError ''verifications'')) (\<lambda>_.
      let db = db\<lparr>verifications := verifications db @
            [\<lparr>vf_id = vid, vf_task_id = task_id, vf_criterion_id = criterion_id, vf_kind = kind,
              vf_command = map_option (\<lambda>c. JList (map JStr c)) command, vf_exit_code = exit_code,
              vf_passed = passed, vf_evidence = safe, vf_verifier = verifier, vf_created_at = t,
              vf_verification_scope_id = None, vf_scope_item_id = None, vf_source_attempt = None\<rparr>]\<rparr>;
          db = (case criterion_id of
              None \<Rightarrow> db
            | Some cid \<Rightarrow> db\<lparr>acceptance_criteria := upd_where
                (\<lambda>c. cr_id c = cid \<and> cr_project_id c = tk_project_id task)
                (\<lambda>c. c\<lparr>cr_state := if passed then ''passed'' else ''failed'', cr_evidence := Some safe,
                       cr_updated_at := t\<rparr>) (acceptance_criteria db)\<rparr>)
      in Inr (append_event now (mk_event ''verificationCompleted''
            (if passed then SEV_NOTICE else SEV_WARNING) ''task'' task_id
            (Some (tk_project_id task)) (Some task_id) None None (verification_summary passed)
            [(''verificationID'', JStr vid), (''criterionID'', json_opt JStr criterion_id)]
            verifier) db, vid)))))"

section \<open>Applying a verification\<close>

text \<open>
  A criterion as the decision sees it, of a sealed scope or of the project: its id in results, the
  source criterion, kind and command, and the scope item's id.
\<close>

record applied_criterion =
  aq_id :: string
  aq_source_id :: "string option"
  aq_kind :: string
  aq_command :: "json option"
  aq_item_id :: "string option"

text \<open>Where a decision comes from: the scope, the criteria version and the attempt, when scoped.\<close>

record provenance =
  pv_scope_id :: "string option"
  pv_criteria_version :: "int option"
  pv_source_attempt :: "int option"
  pv_criteria :: "applied_criterion list"

definition scoped_provenance ::
    "(json \<Rightarrow> string) \<Rightarrow> db \<Rightarrow> task_row \<Rightarrow> string \<Rightarrow> string option \<Rightarrow> int option \<Rightarrow> int option \<Rightarrow>
     provenance result" where
  "scoped_provenance digest db task sid expected_scope expected_revision expected_attempt =
     bindR (raise_if (expected_scope = None \<or> expected_revision = None \<or> expected_attempt = None)
       (VerificationPolicyError
         ''scoped verification requires its scope, Task revision, and source attempt'')) (\<lambda>_.
     bindR (raise_if (expected_scope \<noteq> Some sid \<or> expected_revision \<noteq> Some (tk_definition_revision task))
       (VerificationPolicyError
         ''stale verification provenance: Task criteria or definition changed'')) (\<lambda>_.
     bindR (case row_by sp_id sid (task_verification_scopes db) of
         None \<Rightarrow> Inl (VerificationPolicyError
           ''current task verification scope does not match its definition revision'')
       | Some sc \<Rightarrow>
           if sp_task_id sc = tk_id task \<and> sp_task_definition_revision sc = tk_definition_revision task
           then Inr sc
           else Inl (VerificationPolicyError
             ''current task verification scope does not match its definition revision'')) (\<lambda>sc.
     bindR (assert_scope_integrity digest db sc) (\<lambda>items.
     case latest_attempt db (tk_id task) of
       None \<Rightarrow> Inl (VerificationPolicyError
         ''scoped verification requires a scope-bound worker execution'')
     | Some attempt \<Rightarrow>
         bindR (raise_if (expected_attempt \<noteq> Some attempt)
           (VerificationPolicyError
             ''stale verification provenance: a newer Task execution attempt exists'')) (\<lambda>_.
         let runs = filter (\<lambda>r. rn_task_id r = tk_id task \<and> rn_attempt r = attempt) (worker_runs db) in
         bindR (raise_if (runs = [] \<or>
             list_ex (\<lambda>r. rn_verification_scope_id r \<noteq> Some sid \<or>
               rn_task_definition_revision r \<noteq> Some (tk_definition_revision task)) runs)
           (VerificationPolicyError
             (''stale verification scope: latest execution does not match current task '' @
              ''criteria/revision''))) (\<lambda>_.
         Inr \<lparr>pv_scope_id = Some sid, pv_criteria_version = Some (sp_criteria_version sc),
           pv_source_attempt = Some attempt,
           pv_criteria = map (\<lambda>i. \<lparr>aq_id = si_criterion_id i,
             aq_source_id = si_source_criterion_id i, aq_kind = si_kind i,
             aq_command = si_command i, aq_item_id = Some (si_id i)\<rparr>) items\<rparr>))))))"

definition project_provenance :: "db \<Rightarrow> task_row \<Rightarrow> provenance" where
  "project_provenance db task =
     \<lparr>pv_scope_id = None, pv_criteria_version = None, pv_source_attempt = None,
      pv_criteria = map (\<lambda>c. \<lparr>aq_id = cr_id c, aq_source_id = Some (cr_id c), aq_kind = cr_kind c,
        aq_command = cr_command c, aq_item_id = None\<rparr>)
        (list_acceptance_criteria db (tk_project_id task))\<rparr>"

text \<open>One result per criterion: the reported one, or a failure for a criterion not evaluated.\<close>

definition canonical_result :: "verification_result list \<Rightarrow> string \<Rightarrow> verification_result" where
  "canonical_result reported cid =
     (case row_by vr_criterion_id cid reported of
        Some r \<Rightarrow> r
      | None \<Rightarrow>
          \<lparr>vr_criterion_id = cid, vr_passed = False, vr_summary = ''required criterion was not evaluated'',
           vr_exit_code = None, vr_evidence = [(''reasonCode'', JStr ''VERIFICATION_RESULT_MISSING'')]\<rparr>)"

text \<open>\<^verbatim>\<open>{"summary": item.summary, **item.evidence}\<close>, redacted.\<close>

definition dict_merge :: "(string \<times> json) list \<Rightarrow> (string \<times> json) list \<Rightarrow> (string \<times> json) list" where
  "dict_merge xs ys =
     map (\<lambda>(k, v). (k, case map_of (rev ys) k of None \<Rightarrow> v | Some w \<Rightarrow> w)) xs @
     filter (\<lambda>(k, v). k \<notin> fst ` set xs) ys"

definition result_evidence :: "verification_result \<Rightarrow> json" where
  "result_evidence r = JObj (redact_dict (dict_merge [(''summary'', JStr (vr_summary r))] (vr_evidence r)))"

definition verification_row_of ::
    "rat \<Rightarrow> (nat \<Rightarrow> string) \<Rightarrow> string \<Rightarrow> string \<Rightarrow> provenance \<Rightarrow> nat \<Rightarrow> applied_criterion \<Rightarrow>
     verification_result \<Rightarrow> verification_row" where
  "verification_row_of now uuid task_id verifier pv n c r =
     \<lparr>vf_id = ''verify-'' @ uuid n, vf_task_id = task_id, vf_criterion_id = aq_source_id c,
      vf_kind = aq_kind c, vf_command = aq_command c, vf_exit_code = vr_exit_code r,
      vf_passed = vr_passed r, vf_evidence = result_evidence r, vf_verifier = verifier,
      vf_created_at = timestamp now, vf_verification_scope_id = pv_scope_id pv,
      vf_scope_item_id = aq_item_id c, vf_source_attempt = pv_source_attempt pv\<rparr>"

text \<open>One iteration of the loop over the canonical results.\<close>

definition apply_result ::
    "rat \<Rightarrow> (nat \<Rightarrow> string) \<Rightarrow> task_row \<Rightarrow> string \<Rightarrow> provenance \<Rightarrow>
     nat \<times> applied_criterion \<times> verification_result \<Rightarrow> db \<Rightarrow> db" where
  "apply_result now uuid task verifier pv entry db =
     (let (n, c, r) = entry;
          db = db\<lparr>verifications := verifications db @
            [verification_row_of now uuid (tk_id task) verifier pv n c r]\<rparr>;
          db = (if pv_scope_id pv = None
            then db\<lparr>acceptance_criteria := upd_by cr_id (vr_criterion_id r)
              (\<lambda>x. x\<lparr>cr_state := if vr_passed r then ''passed'' else ''failed'',
                     cr_evidence := Some (result_evidence r), cr_updated_at := timestamp now\<rparr>)
              (acceptance_criteria db)\<rparr>
            else db)
      in append_event now (mk_event ''verificationCompleted''
           (if vr_passed r then SEV_NOTICE else SEV_WARNING) ''task'' (tk_id task)
           (Some (tk_project_id task)) (Some (tk_id task)) None None
           (verification_summary (vr_passed r))
           [(''verificationID'', JStr (''verify-'' @ uuid n)), (''criterionID'', JStr (vr_criterion_id r)),
            (''verificationScopeID'', json_opt JStr (pv_scope_id pv)),
            (''criteriaVersion'', json_opt JInt (pv_criteria_version pv)),
            (''taskDefinitionRevision'', if pv_scope_id pv = None then JNull
               else JInt (tk_definition_revision task)),
            (''sourceAttempt'', json_opt JInt (pv_source_attempt pv))] verifier) db)"

definition verification_complete ::
    "applied_criterion list \<Rightarrow> definition_of_done \<Rightarrow> bool" where
  "verification_complete criteria result =
     (criteria \<noteq> [] \<and> dd_complete result \<and>
      list_all (\<lambda>c. vr_passed (canonical_result (dd_results result) (aq_id c)) \<and>
         aq_id c \<notin> set (dd_required_failures result)) criteria)"

definition canonical_failures :: "applied_criterion list \<Rightarrow> definition_of_done \<Rightarrow> string list" where
  "canonical_failures criteria result =
     filter (\<lambda>cid. \<not> vr_passed (canonical_result (dd_results result) cid) \<or>
        cid \<in> set (dd_required_failures result)) (map aq_id criteria)"

text \<open>The next state of the task, and the event that reports it.\<close>

definition verification_target ::
    "int option \<Rightarrow> task_row \<Rightarrow> applied_criterion list \<Rightarrow> definition_of_done \<Rightarrow> task_state" where
  "verification_target max_attempts task criteria result =
     (let complete = verification_complete criteria result;
          retry_exhausted = (\<not> complete \<and> (case max_attempts of None \<Rightarrow> False
            | Some n \<Rightarrow> n \<le> tk_attempt_count task))
      in if complete then TASK_SUCCEEDED else if retry_exhausted then TASK_FAILED else TASK_READY)"

definition verification_event ::
    "int option \<Rightarrow> task_row \<Rightarrow> applied_criterion list \<Rightarrow> definition_of_done \<Rightarrow> event" where
  "verification_event max_attempts task criteria result =
     (let target = verification_target max_attempts task criteria result;
          payload = (if target = TASK_SUCCEEDED
            then [(''criteria'', JList (map (JStr \<circ> aq_id) criteria))]
            else [(''requiredFailures'', JList (map JStr (canonical_failures criteria result))),
                  (''reportedComplete'', JBool (dd_complete result)),
                  (''expectedCriteria'', JList (map (JStr \<circ> aq_id) criteria)),
                  (''retryLimitExhausted'', JBool (target = TASK_FAILED)),
                  (''maxAttempts'', json_opt JInt max_attempts)]);
          summary = (if target = TASK_SUCCEEDED then ''Definition of Done satisfied''
            else if target = TASK_FAILED
              then ''Verification failed and execution retry limit is exhausted''
            else ''Verification failed; task returned to ready queue'')
      in mk_event ''taskStateChanged'' SEV_NOTICE ''task'' (tk_id task)
           (Some (tk_project_id task)) (Some (tk_id task)) None None summary
           ([(''from'', JStr (task_state_value TASK_REVIEWING)),
             (''to'', JStr (task_state_value target))] @ payload) ''runtime'')"

text \<open>The rows to insert, numbered for their identifiers.\<close>

definition verification_entries ::
    "applied_criterion list \<Rightarrow> definition_of_done \<Rightarrow>
     (nat \<times> applied_criterion \<times> verification_result) list" where
  "verification_entries criteria result =
     enumerate 0 (map (\<lambda>c. (c, canonical_result (dd_results result) (aq_id c))) criteria)"

definition commit_verification ::
    "rat \<Rightarrow> (nat \<Rightarrow> string) \<Rightarrow> task_row \<Rightarrow> definition_of_done \<Rightarrow> string \<Rightarrow> int option \<Rightarrow>
     provenance \<Rightarrow> db \<Rightarrow> db \<times> task_state" where
  "commit_verification now uuid task result verifier max_attempts pv db =
     (let t = timestamp now;
          criteria = pv_criteria pv;
          target = verification_target max_attempts task criteria result;
          db = fold (apply_result now uuid task verifier pv) (verification_entries criteria result) db;
          db = db\<lparr>tasks := upd_by tk_id (tk_id task)
            (\<lambda>r. r\<lparr>tk_state := target, tk_updated_at := t,
               tk_finished_at := if target \<in> {TASK_SUCCEEDED, TASK_FAILED} then Some t else None,
               tk_version := tk_version r + 1\<rparr>) (tasks db)\<rparr>
      in (append_event now (verification_event max_attempts task criteria result) db, target))"

definition apply_task_verification ::
    "(json \<Rightarrow> string) \<Rightarrow> rat \<Rightarrow> (nat \<Rightarrow> string) \<Rightarrow> string \<Rightarrow> definition_of_done \<Rightarrow> string \<Rightarrow>
     int option \<Rightarrow> string option \<Rightarrow> int option \<Rightarrow> int option \<Rightarrow> db \<Rightarrow> (db \<times> task_state) result" where
  "apply_task_verification digest now uuid task_id result verifier max_attempts expected_scope
     expected_revision expected_attempt db =
     bindR (fetch tk_id task_id (tasks db) (KeyError task_id)) (\<lambda>task.
     bindR (raise_if (tk_state task \<noteq> TASK_REVIEWING)
       (RuntimeError (''task '' @ task_id @ '' is not awaiting verification''))) (\<lambda>_.
     bindR (raise_if (case max_attempts of None \<Rightarrow> False | Some n \<Rightarrow> n < 1)
       (ValueError ''max_attempts must be positive'')) (\<lambda>_.
     bindR (case tk_current_verification_scope_id task of
         None \<Rightarrow> Inr (project_provenance db task)
       | Some sid \<Rightarrow>
           scoped_provenance digest db task sid expected_scope expected_revision expected_attempt) (\<lambda>pv.
     let result_ids = map vr_criterion_id (dd_results result);
         unknown = (set result_ids \<union> set (dd_required_failures result)) -
           set (map aq_id (pv_criteria pv));
         entries = verification_entries (pv_criteria pv) result
     in
     bindR (raise_if (\<not> distinct result_ids)
       (VerificationPolicyError ''verification results contain duplicate criterion IDs'')) (\<lambda>_.
     bindR (raise_if (unknown \<noteq> {})
       (VerificationPolicyError (''verification referenced unknown criteria: '' @
          join_strings '', '' (sorted_list_of_set unknown)))) (\<lambda>_.
     bindR (raise_if (\<not> distinct (map (\<lambda>(n, _). uuid n) entries) \<or>
         list_ex (\<lambda>(n, _). row_by vf_id (''verify-'' @ uuid n) (verifications db) \<noteq> None) entries)
       (IntegrityError ''verifications'')) (\<lambda>_.
     Inr (commit_verification now uuid task result verifier max_attempts pv db))))))))"

definition list_verifications :: "db \<Rightarrow> string \<Rightarrow> verification_row list" where
  "list_verifications db task_id =
     sort_key (\<lambda>v. (vf_created_at v, vf_id v))
       (filter (\<lambda>v. vf_task_id v = task_id) (verifications db))"

section \<open>Sealed scopes stay as they are\<close>

lemma bind_scopeE:
  assumes "bind_task_verification_scope digest now uuid iu tid ids gid iid pl st actor db = Inr (db', sc)"
  obtains task criteria where
    "row_by tk_id tid (tasks db) = Some task" "\<not> task_terminal (tk_state task)"
    "criteria \<noteq> []"
    "select_criteria db (tk_project_id task) ids = Inr criteria"
    "sp_id sc = ''verification-scope-'' @ uuid" "sp_task_id sc = tid"
    "sp_criteria_version sc = last_criteria_version db tid + 1"
    "sp_task_definition_revision sc = (if tk_current_verification_scope_id task \<noteq> None
                     then tk_definition_revision task + 1 else tk_definition_revision task)"
    "row_by sp_id (sp_id sc) (task_verification_scopes db) = None"
    "task_verification_scopes db' = task_verification_scopes db @ [sc]"
    "task_verification_scope_items db' = task_verification_scope_items db @
       new_scope_items digest (timestamp now) (sp_id sc) iu criteria"
    "assert_scope_integrity digest db' sc = Inr (scope_items db' (sp_id sc))"
    "tasks db' = upd_by tk_id tid
       (\<lambda>r. r\<lparr>tk_current_verification_scope_id := Some (sp_id sc),
              tk_definition_revision := sp_task_definition_revision sc,
              tk_version := tk_version r + 1, tk_updated_at := timestamp now\<rparr>) (tasks db)"
  using assms
  by (auto simp: bind_task_verification_scope_def Let_def scope_insertable_def assert_scope_integrity_def
      scope_items_def split: prod.splits)

lemma journal_bind_scope:
  "bind_task_verification_scope digest now uuid iu tid ids gid iid pl st actor db = Inr (db', sc) \<Longrightarrow>
   journal_extends db db'"
  by (auto simp: bind_task_verification_scope_def Let_def split: prod.splits)

lemma scope_items_append:
  assumes "task_verification_scope_items db' = task_verification_scope_items db @ new"
    and "\<And>i. i \<in> set new \<Longrightarrow> si_scope_id i \<noteq> sid"
  shows "scope_items db' sid = scope_items db sid"
proof -
  have "filter (\<lambda>i. si_scope_id i = sid) new = []" using assms(2) by (auto simp: filter_empty_conv)
  then show ?thesis by (simp add: scope_items_def assms(1))
qed

lemma new_scope_items_scope: "i \<in> set (new_scope_items digest t sid iu cs) \<Longrightarrow> si_scope_id i = sid"
  by (auto simp: new_scope_items_def new_scope_item_def Let_def)

lemma integrity_cong:
  "scope_items db' (sp_id sc) = scope_items db (sp_id sc) \<Longrightarrow>
   assert_scope_integrity digest db' sc = assert_scope_integrity digest db sc"
  by (simp add: assert_scope_integrity_def)

lemma bind_scope_other_scopes:
  assumes "bind_task_verification_scope digest now uuid iu tid ids gid iid pl st actor db = Inr (db', sc)"
    and "old \<in> set (task_verification_scopes db)"
  shows "assert_scope_integrity digest db' old = assert_scope_integrity digest db old"
proof -
  obtain criteria where fresh: "row_by sp_id (sp_id sc) (task_verification_scopes db) = None"
    and items: "task_verification_scope_items db' = task_verification_scope_items db @
       new_scope_items digest (timestamp now) (sp_id sc) iu criteria"
    using assms(1) by (elim bind_scopeE) metis
  have "sp_id old \<noteq> sp_id sc" using fresh assms(2) by (metis row_by_None_iff imageI)
  then show ?thesis
    by (intro integrity_cong scope_items_append [OF items]) (auto dest!: new_scope_items_scope)
qed

text \<open>A new scope always passes its own integrity check, unless orphaned items carry its id.\<close>

lemma map_new_scope_items:
  "map si_ordinal (new_scope_items digest t sid iu cs) = map int [0..<length cs]"
  "list_all (\<lambda>i. si_definition_sha256 i = digest (JObj (scope_item_snapshot i)))
     (new_scope_items digest t sid iu cs)"
proof -
  show "map si_ordinal (new_scope_items digest t sid iu cs) = map int [0..<length cs]"
    by (rule nth_equalityI)
      (simp_all add: new_scope_items_def new_scope_item_def Let_def nth_enumerate_eq)
  show "list_all (\<lambda>i. si_definition_sha256 i = digest (JObj (scope_item_snapshot i)))
     (new_scope_items digest t sid iu cs)"
    by (auto simp: list_all_iff new_scope_items_def new_scope_item_def Let_def scope_item_snapshot_def)
qed

lemma scope_items_new:
  assumes "\<And>i. i \<in> set (task_verification_scope_items db) \<Longrightarrow> si_scope_id i \<noteq> sid"
    and "task_verification_scope_items db' = task_verification_scope_items db @
       new_scope_items digest t sid iu cs"
  shows "scope_items db' sid = new_scope_items digest t sid iu cs"
proof -
  let ?new = "new_scope_items digest t sid iu cs"
  have "filter (\<lambda>i. si_scope_id i = sid) (task_verification_scope_items db') = ?new"
    using assms by (auto simp: filter_empty_conv intro!: filter_True dest: new_scope_items_scope)
  moreover have "sorted (map (\<lambda>i. (si_ordinal i, si_id i)) ?new)"
  proof -
    have "si_ordinal (?new ! i) = int i" if "i < length ?new" for i
      using that by (simp add: new_scope_items_def new_scope_item_def Let_def nth_enumerate_eq)
    then show ?thesis by (auto simp: sorted_iff_nth_mono_less less_eq_prod_def)
  qed
  ultimately show ?thesis by (simp add: scope_items_def sort_key_id_if_sorted)
qed

lemma new_scope_integrity:
  assumes "\<And>i. i \<in> set (task_verification_scope_items db) \<Longrightarrow> si_scope_id i \<noteq> sp_id sc"
    and "task_verification_scope_items db' = task_verification_scope_items db @
       new_scope_items digest t (sp_id sc) iu cs"
    and "cs \<noteq> []" and "sp_sealed_at sc \<noteq> None"
    and "sp_definition_sha256 sc =
       digest (JObj (scope_snapshot digest sc (new_scope_items digest t (sp_id sc) iu cs)))"
  shows "assert_scope_integrity digest db' sc = Inr (new_scope_items digest t (sp_id sc) iu cs)"
proof -
  have len: "length (new_scope_items digest t (sp_id sc) iu cs) = length cs"
    by (simp add: new_scope_items_def)
  moreover from this assms(3) have "new_scope_items digest t (sp_id sc) iu cs \<noteq> []" by auto
  moreover have "\<not> list_ex (\<lambda>i. si_definition_sha256 i \<noteq> digest (JObj (scope_item_snapshot i)))
      (new_scope_items digest t (sp_id sc) iu cs)"
    using map_new_scope_items(2) [of digest t "sp_id sc" iu cs] by (auto simp: list_ex_iff list_all_iff)
  ultimately show ?thesis
    using assms(4,5) map_new_scope_items(1) [of digest t "sp_id sc" iu cs]
    by (simp add: assert_scope_integrity_def scope_items_new [OF assms(1,2)] Let_def)
qed

text \<open>
  C17. Binding a verification scope appends one sealed scope and moves the task to it: the scope has
  the next criteria version, its revision is that of the task afterwards, runs dispatched next are
  bound to exactly this scope, and every scope that existed before passes or fails its integrity
  check as it did before, so sealed definitions are never rewritten.
\<close>

theorem bind_scope_append_only:
  assumes "bind_task_verification_scope digest now uuid iu tid ids gid iid pl st actor db = Inr (db', sc)"
  shows "task_verification_scopes db' = task_verification_scopes db @ [sc] \<and>
    sp_criteria_version sc = last_criteria_version db tid + 1 \<and>
    (\<exists>task. get_task db' tid = Inr task \<and> tk_current_verification_scope_id task = Some (sp_id sc) \<and>
       task_verification_dispatch_snapshot digest db' task =
         Inr (Some (sp_id sc), sp_task_definition_revision sc)) \<and>
    (\<forall>old \<in> set (task_verification_scopes db).
       assert_scope_integrity digest db' old = assert_scope_integrity digest db old)"
proof -
  obtain task where t: "row_by tk_id tid (tasks db) = Some task"
    and id: "sp_task_id sc = tid" and ver: "sp_criteria_version sc = last_criteria_version db tid + 1"
    and fresh: "row_by sp_id (sp_id sc) (task_verification_scopes db) = None"
    and scopes: "task_verification_scopes db' = task_verification_scopes db @ [sc]"
    and int: "assert_scope_integrity digest db' sc = Inr (scope_items db' (sp_id sc))"
    and tasks: "tasks db' = upd_by tk_id tid
       (\<lambda>r. r\<lparr>tk_current_verification_scope_id := Some (sp_id sc),
              tk_definition_revision := sp_task_definition_revision sc,
              tk_version := tk_version r + 1, tk_updated_at := timestamp now\<rparr>) (tasks db)"
    using assms by (elim bind_scopeE) metis
  let ?task = "task\<lparr>tk_current_verification_scope_id := Some (sp_id sc),
              tk_definition_revision := sp_task_definition_revision sc,
              tk_version := tk_version task + 1, tk_updated_at := timestamp now\<rparr>"
  have "get_task db' tid = Inr ?task"
    using t by (simp add: get_task_def tasks row_by_upd_by)
  moreover have "task_verification_dispatch_snapshot digest db' ?task =
         Inr (Some (sp_id sc), sp_task_definition_revision sc)"
    using int fresh id row_by_key [OF t]
    by (simp add: task_verification_dispatch_snapshot_def scopes row_simps)
  ultimately show ?thesis
    using scopes ver bind_scope_other_scopes [OF assms] by auto
qed

section \<open>Verified success\<close>

text \<open>The effect of the loop over the results on the tables.\<close>

lemma apply_result_frame [simp]:
  "tasks (apply_result now u task v pv e db) = tasks db"
  "worker_runs (apply_result now u task v pv e db) = worker_runs db"
  "task_verification_scopes (apply_result now u task v pv e db) = task_verification_scopes db"
  "task_execution_leases (apply_result now u task v pv e db) = task_execution_leases db"
  by (simp_all add: apply_result_def Let_def split: prod.split)

lemma apply_result_verifications:
  "verifications (apply_result now u task v pv (n, c, r) db) =
     verifications db @ [verification_row_of now u (tk_id task) v pv n c r]"
  by (simp add: apply_result_def Let_def)

lemma apply_result_criteria:
  "pv_scope_id pv \<noteq> None \<Longrightarrow>
   acceptance_criteria (apply_result now u task v pv e db) = acceptance_criteria db"
  by (auto simp: apply_result_def Let_def split: prod.split)

lemma journal_apply_result: "journal_extends db (apply_result now u task v pv e db)"
  by (simp add: apply_result_def Let_def split: prod.split)

lemma journal_fold_apply_result [simp]:
  "journal_extends db (fold (apply_result now u task v pv) es db)"
  by (rule journal_extends_fold) (simp_all add: journal_apply_result)

lemma fold_apply_result:
  "tasks (fold (apply_result now u task v pv) es db) = tasks db"
  "verifications (fold (apply_result now u task v pv) es db) =
     verifications db @ map (\<lambda>(n, c, r). verification_row_of now u (tk_id task) v pv n c r) es"
  "pv_scope_id pv \<noteq> None \<Longrightarrow>
     acceptance_criteria (fold (apply_result now u task v pv) es db) = acceptance_criteria db"
proof (induction es arbitrary: db)
  case (Cons e es)
  case 2 show ?case using Cons.IH(2) by (cases e) (simp add: apply_result_verifications)
qed (simp_all add: apply_result_criteria)

lemma canonical_result_id [simp]: "vr_criterion_id (canonical_result rs cid) = cid"
  by (auto simp: canonical_result_def dest: row_by_key split: option.split)

lemma commit_verification_effect:
  assumes "commit_verification now u task result v ma pv db = (db', target)"
  shows "target = verification_target ma task (pv_criteria pv) result"
    and "verifications db' = verifications db @
       map (\<lambda>(n, c, r). verification_row_of now u (tk_id task) v pv n c r)
         (verification_entries (pv_criteria pv) result)"
    and "tasks db' = upd_by tk_id (tk_id task) (\<lambda>r. r\<lparr>tk_state := target, tk_updated_at := timestamp now,
        tk_finished_at := if target \<in> {TASK_SUCCEEDED, TASK_FAILED} then Some (timestamp now) else None,
        tk_version := tk_version r + 1\<rparr>) (tasks db)"
    and "pv_scope_id pv \<noteq> None \<Longrightarrow> acceptance_criteria db' = acceptance_criteria db"
    and "journal_extends db db'"
  using assms
  by (auto simp: commit_verification_def Let_def fold_apply_result)

lemma apply_verificationE:
  assumes "apply_task_verification digest now u tid result v ma es er ea db = Inr (db', target)"
  obtains task pv where
    "row_by tk_id tid (tasks db) = Some task" "tk_state task = TASK_REVIEWING"
    "(case tk_current_verification_scope_id task of
         None \<Rightarrow> Inr (project_provenance db task)
       | Some sid \<Rightarrow> scoped_provenance digest db task sid es er ea) = Inr pv"
    "distinct (map vr_criterion_id (dd_results result))"
    "commit_verification now u task result v ma pv db = (db', target)"
  using assms unfolding apply_task_verification_def by (auto simp: Let_def)

lemma journal_apply_verification:
  "apply_task_verification digest now u tid result v ma es er ea db = Inr (db', target) \<Longrightarrow>
   journal_extends db db'"
  by (elim apply_verificationE) (rule commit_verification_effect(5))

lemma integrity_items: "assert_scope_integrity digest db sc = Inr items \<Longrightarrow> items = scope_items db (sp_id sc)"
  by (simp add: assert_scope_integrity_def Let_def)

lemma scoped_provenance_items:
  assumes "scoped_provenance digest db task sid es er ea = Inr pv"
  shows "pv_criteria pv = map (\<lambda>i. \<lparr>aq_id = si_criterion_id i,
             aq_source_id = si_source_criterion_id i, aq_kind = si_kind i,
             aq_command = si_command i, aq_item_id = Some (si_id i)\<rparr>) (scope_items db sid)"
proof (cases "row_by sp_id sid (task_verification_scopes db)")
  case None
  then show ?thesis using assms by (simp add: scoped_provenance_def)
next
  case (Some sc)
  then obtain items where items: "assert_scope_integrity digest db sc = Inr items"
    using assms by (auto simp: scoped_provenance_def split: if_split_asm)
  show ?thesis
  proof (cases "latest_attempt db (tk_id task)")
    case None
    then show ?thesis using assms Some items by (auto simp: scoped_provenance_def split: if_split_asm)
  next
    case (Some a)
    then show ?thesis
      using assms \<open>row_by sp_id sid _ = Some sc\<close> items integrity_items [OF items]
        row_by_key [OF \<open>row_by sp_id sid _ = Some sc\<close>]
      by (auto simp: scoped_provenance_def Let_def split: if_split_asm)
  qed
qed

lemma scoped_provenance_facts:
  assumes "scoped_provenance digest db task sid es er ea = Inr pv"
  shows "es = Some sid" and "er = Some (tk_definition_revision task)" and "pv_scope_id pv = Some sid"
    and "ea = latest_attempt db (tk_id task)"
    and "r \<in> set (worker_runs db) \<Longrightarrow> rn_task_id r = tk_id task \<Longrightarrow> ea = Some (rn_attempt r) \<Longrightarrow>
       rn_verification_scope_id r = Some sid \<and>
       rn_task_definition_revision r = Some (tk_definition_revision task)"
proof -
  obtain a items sc where "es = Some sid" "er = Some (tk_definition_revision task)" 
    "latest_attempt db (tk_id task) = Some a" "ea = Some a" "pv_scope_id pv = Some sid"
    "\<not> list_ex (\<lambda>r. rn_verification_scope_id r \<noteq> Some sid \<or>
               rn_task_definition_revision r \<noteq> Some (tk_definition_revision task))
       (filter (\<lambda>r. rn_task_id r = tk_id task \<and> rn_attempt r = a) (worker_runs db))"
    using assms by (auto simp: scoped_provenance_def Let_def split: option.split_asm)
  then show "es = Some sid" and "er = Some (tk_definition_revision task)" and "pv_scope_id pv = Some sid"
    and "ea = latest_attempt db (tk_id task)"
    and "r \<in> set (worker_runs db) \<Longrightarrow> rn_task_id r = tk_id task \<Longrightarrow> ea = Some (rn_attempt r) \<Longrightarrow>
       rn_verification_scope_id r = Some sid \<and>
       rn_task_definition_revision r = Some (tk_definition_revision task)"
    by (auto simp: list_ex_iff)
qed

text \<open>The criteria a task is verified against: its sealed scope, or those of its project.\<close>

definition applicable_criteria :: "db \<Rightarrow> task_row \<Rightarrow> string list" where
  "applicable_criteria db task =
     (case tk_current_verification_scope_id task of
        None \<Rightarrow> map cr_id (list_acceptance_criteria db (tk_project_id task))
      | Some sid \<Rightarrow> map si_criterion_id (scope_items db sid))"

lemma provenance_criteria:
  assumes "(case tk_current_verification_scope_id task of
         None \<Rightarrow> Inr (project_provenance db task)
       | Some sid \<Rightarrow> scoped_provenance digest db task sid es er ea) = Inr pv"
  shows "map aq_id (pv_criteria pv) = applicable_criteria db task"
    and "pv_scope_id pv = tk_current_verification_scope_id task"
proof -
  have "map aq_id (pv_criteria pv) = map si_criterion_id (scope_items db sid)"
    if "scoped_provenance digest db task sid es er ea = Inr pv" for sid
    using scoped_provenance_items [OF that] by (simp add: comp_def)
  then show "map aq_id (pv_criteria pv) = applicable_criteria db task"
    using assms by (auto simp: applicable_criteria_def project_provenance_def split: option.split_asm)
  show "pv_scope_id pv = tk_current_verification_scope_id task"
    using assms scoped_provenance_facts(3)
    by (fastforce simp: project_provenance_def split: option.split_asm)
qed

lemma verification_complete_iff:
  "verification_complete criteria result \<longleftrightarrow>
     criteria \<noteq> [] \<and> dd_complete result \<and>
     (\<forall>cid \<in> set (map aq_id criteria). cid \<notin> set (dd_required_failures result) \<and>
        (\<exists>r \<in> set (dd_results result). vr_criterion_id r = cid \<and>
           row_by vr_criterion_id cid (dd_results result) = Some r \<and> vr_passed r))"
proof -
  have "vr_passed (canonical_result rs cid) \<longleftrightarrow>
      (\<exists>r \<in> set rs. vr_criterion_id r = cid \<and> row_by vr_criterion_id cid rs = Some r \<and> vr_passed r)" for rs cid
    by (cases "row_by vr_criterion_id cid rs") (auto simp: canonical_result_def dest: row_by_SomeD)
  then show ?thesis by (auto simp: verification_complete_def list_all_iff)
qed

text \<open>
  C16. A reviewed task succeeds only on proof. Applying a verification is accepted for a task under
  review only and moves it by a legal transition; it succeeds exactly when there is a criterion, the
  report claims completeness, and every applicable criterion was reported as passed and is not among
  the reported failures. A task with a sealed scope is judged by that scope's criteria alone, only
  by a verifier that names the current scope, revision and latest attempt, and only if every run of
  that attempt was bound to this scope and revision; the project's criteria stay untouched. One
  verification row per criterion is appended.
\<close>

theorem verified_success_sound:
  assumes "apply_task_verification digest now u tid result v ma es er ea db = Inr (db', target)"
  shows "\<exists>task task'. get_task db tid = Inr task \<and> get_task db' tid = Inr task' \<and>
    tk_state task = TASK_REVIEWING \<and> tk_state task' = target \<and>
    require task_state_value TASK_TRANSITIONS TASK_REVIEWING target = Inr () \<and>
    (target = TASK_SUCCEEDED \<longleftrightarrow>
       applicable_criteria db task \<noteq> [] \<and> dd_complete result \<and>
       (\<forall>cid \<in> set (applicable_criteria db task). cid \<notin> set (dd_required_failures result) \<and>
          (\<exists>r \<in> set (dd_results result). vr_criterion_id r = cid \<and> vr_passed r))) \<and>
    (\<forall>sid. tk_current_verification_scope_id task = Some sid \<longrightarrow>
       es = Some sid \<and> er = Some (tk_definition_revision task) \<and> ea = latest_attempt db tid \<and>
       acceptance_criteria db' = acceptance_criteria db \<and>
       (\<forall>r \<in> set (worker_runs db). rn_task_id r = tid \<and> ea = Some (rn_attempt r) \<longrightarrow>
          rn_verification_scope_id r = Some sid \<and>
          rn_task_definition_revision r = Some (tk_definition_revision task))) \<and>
    (\<exists>rows. verifications db' = verifications db @ rows \<and>
       length rows = length (applicable_criteria db task))"
proof -
  obtain task pv where t: "row_by tk_id tid (tasks db) = Some task" and st: "tk_state task = TASK_REVIEWING"
    and pv: "(case tk_current_verification_scope_id task of
         None \<Rightarrow> Inr (project_provenance db task)
       | Some sid \<Rightarrow> scoped_provenance digest db task sid es er ea) = Inr pv"
    and dist: "distinct (map vr_criterion_id (dd_results result))"
    and c: "commit_verification now u task result v ma pv db = (db', target)"
    using assms by (rule apply_verificationE)
  note eff = commit_verification_effect [OF c]
  have tid: "tk_id task = tid" using t by (rule row_by_key)
  define task' where "task' = task\<lparr>tk_state := target, tk_updated_at := timestamp now,
        tk_finished_at := if target \<in> {TASK_SUCCEEDED, TASK_FAILED} then Some (timestamp now) else None,
        tk_version := tk_version task + 1\<rparr>"
  have t': "get_task db' tid = Inr task'"
    using t by (simp add: get_task_def eff(3) tid row_by_upd_by task'_def)
  have uniq: "row_by vr_criterion_id cid (dd_results result) = Some r"
    if "r \<in> set (dd_results result)" "vr_criterion_id r = cid" for r cid
    using row_by_in [of vr_criterion_id "dd_results result" r] dist that by (simp add: unique_key_def)
  have "target = TASK_SUCCEEDED \<longleftrightarrow> verification_complete (pv_criteria pv) result"
    by (simp add: eff(1) verification_target_def Let_def)
  also have "\<dots> \<longleftrightarrow> applicable_criteria db task \<noteq> [] \<and> dd_complete result \<and>
       (\<forall>cid \<in> set (applicable_criteria db task). cid \<notin> set (dd_required_failures result) \<and>
          (\<exists>r \<in> set (dd_results result). vr_criterion_id r = cid \<and> vr_passed r))"
    unfolding verification_complete_iff provenance_criteria(1) [OF pv, symmetric] using uniq by auto
  finally have succ: "target = TASK_SUCCEEDED \<longleftrightarrow> \<dots>" .
  have tr: "require task_state_value TASK_TRANSITIONS TASK_REVIEWING target = Inr ()"
    by (simp add: eff(1) verification_target_def Let_def table_simps TASK_TRANSITIONS_def)
  have scoped: "es = Some sid \<and> er = Some (tk_definition_revision task) \<and> ea = latest_attempt db tid \<and>
       acceptance_criteria db' = acceptance_criteria db \<and>
       (\<forall>r \<in> set (worker_runs db). rn_task_id r = tid \<and> ea = Some (rn_attempt r) \<longrightarrow>
          rn_verification_scope_id r = Some sid \<and>
          rn_task_definition_revision r = Some (tk_definition_revision task))"
    if sid: "tk_current_verification_scope_id task = Some sid" for sid
    using scoped_provenance_facts [of digest db task sid es er ea pv] pv sid tid eff(4) by auto
  have "length (verification_entries (pv_criteria pv) result) = length (applicable_criteria db task)"
    using arg_cong [OF provenance_criteria(1) [OF pv], of length] by (simp add: verification_entries_def)
  then have rows: "\<exists>rows. verifications db' = verifications db @ rows \<and>
       length rows = length (applicable_criteria db task)"
    by (simp add: eff(2))
  have gt: "get_task db tid = Inr task" and st': "tk_state task' = target"
    using t by (simp_all add: get_task_def task'_def)
  show ?thesis
    by (intro exI [of _ task] exI [of _ task'] conjI allI impI gt t' st st' tr succ rows scoped)
qed

section \<open>Examples\<close>

definition sample_criterion_row :: criterion_row where
  "sample_criterion_row =
     \<lparr>cr_id = ''c1'', cr_project_id = ''p1'', cr_kind = ''command'', cr_description = ''tests'',
      cr_command = None, cr_expected = None, cr_state = ''pending'', cr_evidence = None,
      cr_created_at = 0, cr_updated_at = 0\<rparr>"

definition review_db :: db where
  "review_db = empty_db\<lparr>tasks := [(sample_task ''t'')\<lparr>tk_state := TASK_REVIEWING\<rparr>],
     acceptance_criteria := [sample_criterion_row]\<rparr>"

definition sample_done :: definition_of_done where
  "sample_done = \<lparr>dd_complete = True,
     dd_results = [\<lparr>vr_criterion_id = ''c1'', vr_passed = True, vr_summary = ''ok'',
       vr_exit_code = Some 0, vr_evidence = []\<rparr>],
     dd_required_failures = []\<rparr>"

lemmas review_simps = review_db_def sample_task_def sample_criterion_row_def empty_db_def row_simps
  fetch_def

lemma review_db_criteria: "list_acceptance_criteria review_db ''p1'' = [sample_criterion_row]"
  by (simp add: list_acceptance_criteria_def review_simps)

theorem verified_success_sound_witness:
  "\<exists>db'. apply_task_verification (\<lambda>_. []) 9 (\<lambda>n. show_nat n) ''t'' sample_done ''v'' None None None None
       review_db = Inr (db', TASK_SUCCEEDED) \<and> length (verifications db') = 1"
proof -
  obtain db' target where ap: "apply_task_verification (\<lambda>_. []) 9 (\<lambda>n. show_nat n) ''t'' sample_done ''v''
      None None None None review_db = Inr (db', target)"
  proof -
    have "\<exists>r. apply_task_verification (\<lambda>_. []) 9 (\<lambda>n. show_nat n) ''t'' sample_done ''v''
      None None None None review_db = Inr r"
      by (simp add: apply_task_verification_def review_simps Let_def sample_done_def
          project_provenance_def list_acceptance_criteria_def verification_entries_def)
    then show ?thesis using that by fastforce
  qed
  obtain task where t: "get_task review_db ''t'' = Inr task" "tk_current_verification_scope_id task = None"
      "tk_project_id task = ''p1''"
    by (simp add: get_task_def review_simps)
  then have crit: "applicable_criteria review_db task = [''c1'']"
    by (simp add: applicable_criteria_def review_db_criteria) (simp add: sample_criterion_row_def)
  have "verifications review_db = []" by (simp add: review_db_def empty_db_def)
  with verified_success_sound [OF ap] t(1) crit ap show ?thesis
    by (auto simp: sample_done_def)
qed

theorem bind_scope_append_only_witness:
  "\<exists>db' sc. bind_task_verification_scope (\<lambda>_. replicate 64 CHR ''0'') 9 ''u'' (\<lambda>n. show_nat n) ''t'' None
       None None None None ''policy'' review_db = Inr (db', sc) \<and>
     task_verification_scopes db' = [sc] \<and> sp_criteria_version sc = 1"
proof -
  have "\<exists>r. bind_task_verification_scope (\<lambda>_. replicate 64 CHR ''0'') 9 ''u'' (\<lambda>n. show_nat n) ''t'' None
       None None None None ''policy'' review_db = Inr r"
    by (simp add: bind_task_verification_scope_def review_simps Let_def task_terminal_def
        resolve_iteration_def resolve_steering_def select_criteria_def list_acceptance_criteria_def
        scope_insertable_def new_scope_items_def new_scope_item_def assert_scope_integrity_def
        scope_items_def enumerate_eq_zip)
  then obtain db' sc where b: "bind_task_verification_scope (\<lambda>_. replicate 64 CHR ''0'') 9 ''u''
      (\<lambda>n. show_nat n) ''t'' None None None None None ''policy'' review_db = Inr (db', sc)"
    by fastforce
  have "task_verification_scopes review_db = []" by (simp add: review_db_def empty_db_def)
  with bind_scope_append_only [OF b] b show ?thesis
    by (auto simp: last_criteria_version_def)
qed

end
