(* ===== verification/Store_Dispatch.thy ===== *)
theory Store_Dispatch
  imports Store_Verification
begin

text \<open>
  Execution ownership in \<^verbatim>\<open>src/project_supervisor/store.py\<close>: task execution leases, worker states
  and reservations, the atomic dispatch claim, activation and cancellation, and the transitions of
  tasks and worker runs. Every operation that writes on behalf of a runtime can be fenced by a lease
  of that runtime.
\<close>

section \<open>Leases\<close>

definition lease_current :: "rat \<Rightarrow> db \<Rightarrow> string \<Rightarrow> string \<Rightarrow> int \<Rightarrow> bool" where
  "lease_current now db task_id owner_id generation =
     (case row_by tl_task_id task_id (task_execution_leases db) of
        None \<Rightarrow> False
      | Some l \<Rightarrow> tl_owner_id l = owner_id \<and> tl_generation l = generation \<and>
          tl_state l = LEASE_ACTIVE \<and> timestamp now < tl_expires_at l)"

definition require_task_execution_lease ::
    "rat \<Rightarrow> db \<Rightarrow> string \<Rightarrow> string \<Rightarrow> int \<Rightarrow> unit result" where
  "require_task_execution_lease now db task_id owner_id generation =
     raise_if (\<not> lease_current now db task_id owner_id generation)
       (ExecutionLeaseLostError task_id owner_id generation)"

definition task_execution_lease_is_current :: "rat \<Rightarrow> db \<Rightarrow> string \<Rightarrow> string \<Rightarrow> int \<Rightarrow> bool" where
  "task_execution_lease_is_current now db task_id owner_id generation =
     is_ok (require_task_execution_lease now db task_id owner_id generation)"

text \<open>The optional fence of many operations: owner and generation come together or not at all.\<close>

definition require_optional_lease ::
    "rat \<Rightarrow> db \<Rightarrow> string \<Rightarrow> string option \<Rightarrow> int option \<Rightarrow> unit result" where
  "require_optional_lease now db task_id owner_id generation =
     bindR (raise_if ((owner_id = None) \<noteq> (generation = None))
       (ValueError ''lease owner and generation must be supplied together'')) (\<lambda>_.
     case (owner_id, generation) of
       (Some o1, Some g) \<Rightarrow> require_task_execution_lease now db task_id o1 g
     | _ \<Rightarrow> Inr ())"

definition next_generation :: "db \<Rightarrow> string \<Rightarrow> int" where
  "next_generation db task_id =
     (case row_by tl_task_id task_id (task_execution_leases db) of
        None \<Rightarrow> 1 | Some l \<Rightarrow> tl_generation l + 1)"

text \<open>The upsert that takes the lease of a task with the next generation.\<close>

definition acquire_lease :: "rat \<Rightarrow> string \<Rightarrow> string \<Rightarrow> rat \<Rightarrow> db \<Rightarrow> db" where
  "acquire_lease now task_id owner_id ttl db =
     (let row = \<lparr>tl_task_id = task_id, tl_owner_id = owner_id,
            tl_generation = next_generation db task_id, tl_state = LEASE_ACTIVE,
            tl_acquired_at = timestamp now, tl_heartbeat_at = timestamp now,
            tl_expires_at = timestamp (now + ttl), tl_released_at = None\<rparr>
      in db\<lparr>task_execution_leases :=
           upsert_by tl_task_id row (\<lambda>_. row) (task_execution_leases db)\<rparr>)"

definition heartbeat_task_execution_lease ::
    "rat \<Rightarrow> string \<Rightarrow> string \<Rightarrow> int \<Rightarrow> rat \<Rightarrow> db \<Rightarrow> (db \<times> bool) result" where
  "heartbeat_task_execution_lease now task_id owner_id generation ttl_seconds db =
     bindR (raise_if (ttl_seconds < 1) (ValueError ''ttl_seconds must be at least one second'')) (\<lambda>_.
     let live = (\<lambda>l. tl_task_id l = task_id \<and> tl_owner_id l = owner_id \<and>
           tl_generation l = generation \<and> tl_state l = LEASE_ACTIVE \<and> timestamp now < tl_expires_at l)
     in Inr (db\<lparr>task_execution_leases := upd_where live
           (\<lambda>l. l\<lparr>tl_heartbeat_at := timestamp now, tl_expires_at := timestamp (now + ttl_seconds)\<rparr>)
           (task_execution_leases db)\<rparr>,
         length (filter live (task_execution_leases db)) = 1))"

definition release_lease_row :: "int \<Rightarrow> lease_row \<Rightarrow> lease_row" where
  "release_lease_row t l = l\<lparr>tl_state := LEASE_RELEASED, tl_released_at := Some t, tl_heartbeat_at := t\<rparr>"

definition release_task_execution_lease ::
    "rat \<Rightarrow> string \<Rightarrow> string \<Rightarrow> int \<Rightarrow> string \<Rightarrow> db \<Rightarrow> (db \<times> bool) result" where
  "release_task_execution_lease now task_id owner_id generation actor db =
     (case row_by tl_task_id task_id (task_execution_leases db) of
        None \<Rightarrow> Inr (db, False)
      | Some l \<Rightarrow>
          if tl_owner_id l \<noteq> owner_id \<or> tl_generation l \<noteq> generation \<or> tl_state l \<noteq> LEASE_ACTIVE
          then Inr (db, False)
          else
          (let db = db\<lparr>task_execution_leases := upd_by tl_task_id task_id
                 (release_lease_row (timestamp now)) (task_execution_leases db)\<rparr>
           in case row_by tk_id task_id (tasks db) of
                None \<Rightarrow> Inr (db, True)
              | Some task \<Rightarrow>
                  Inr (append_event now (mk_event ''taskExecutionLeaseReleased'' SEV_INFO ''task'' task_id
                    (Some (tk_project_id task)) (Some task_id) None None
                    ''Task execution ownership lease released''
                    [(''ownerID'', JStr owner_id), (''generation'', JInt generation)] actor) db, True)))"

section \<open>Workers\<close>

definition worker_state_event ::
    "string \<Rightarrow> string option \<Rightarrow> string option \<Rightarrow> string option \<Rightarrow> worker_state \<Rightarrow> worker_state \<Rightarrow>
     string \<Rightarrow> event" where
  "worker_state_event worker_id project_id task_id run_id old new actor =
     mk_event ''workerStateChanged'' SEV_NOTICE ''worker'' worker_id project_id task_id
       (Some worker_id) run_id
       (''Worker state '' @ worker_state_value old @ '' -> '' @ worker_state_value new)
       [(''from'', JStr (worker_state_value old)), (''to'', JStr (worker_state_value new))] actor"

definition set_worker_state ::
    "rat \<Rightarrow> string \<Rightarrow> worker_state \<Rightarrow> resource_state option \<Rightarrow> string option \<Rightarrow> string option \<Rightarrow>
     string option \<Rightarrow> int option \<Rightarrow> string \<Rightarrow> db \<Rightarrow> (db \<times> unit) result" where
  "set_worker_state now worker_id state resource_state model_id task_id lease_owner_id
     lease_generation actor db =
     bindR (fetch wk_id worker_id (workers db) (KeyError worker_id)) (\<lambda>worker.
     bindR (raise_if (\<not> (lease_owner_id = None \<and> lease_generation = None \<and> task_id = None) \<and>
         \<not> (lease_owner_id \<noteq> None \<and> lease_generation \<noteq> None \<and> task_id \<noteq> None))
       (ValueError ''task, lease owner, and generation must be supplied together'')) (\<lambda>_.
     bindR (case (task_id, lease_owner_id, lease_generation) of
         (Some t, Some o1, Some g) \<Rightarrow> require_task_execution_lease now db t o1 g
       | _ \<Rightarrow> Inr ()) (\<lambda>_.
     bindR (raise_if (case model_id of None \<Rightarrow> False | Some m \<Rightarrow> row_by ml_id m (models db) = None)
       (IntegrityError ''workers'')) (\<lambda>_.
     let db = db\<lparr>workers := upd_by wk_id worker_id
           (\<lambda>w. w\<lparr>wk_state := state,
              wk_resource_state := (case resource_state of None \<Rightarrow> wk_resource_state w | Some r \<Rightarrow> r),
              wk_model_id := coalesce model_id (wk_model_id w),
              wk_last_heartbeat_at := Some (timestamp now), wk_updated_at := timestamp now\<rparr>) (workers db)\<rparr>
     in Inr (append_event now
          (worker_state_event worker_id None None None (wk_state worker) state actor) db, ())))))"

text \<open>
  The reservation shared by both claims: \<^verbatim>\<open>UPDATE workers SET state='starting' ... WHERE id IN (...)
  AND state='idle'\<close>.
\<close>

definition workers_idle :: "db \<Rightarrow> string list \<Rightarrow> bool" where
  "workers_idle db identities =
     (let rows = filter (\<lambda>w. wk_id w \<in> set identities) (workers db)
      in length rows = length identities \<and> list_all (\<lambda>w. wk_state w = WORKER_IDLE) rows)"

definition idle_count :: "db \<Rightarrow> string list \<Rightarrow> nat" where
  "idle_count db identities =
     length (filter (\<lambda>w. wk_id w \<in> set identities \<and> wk_state w = WORKER_IDLE) (workers db))"

definition reserve_workers :: "rat \<Rightarrow> string list \<Rightarrow> db \<Rightarrow> db" where
  "reserve_workers now identities db =
     db\<lparr>workers := upd_where (\<lambda>w. wk_id w \<in> set identities \<and> wk_state w = WORKER_IDLE)
       (\<lambda>w. w\<lparr>wk_state := WORKER_STARTING, wk_last_heartbeat_at := Some (timestamp now),
              wk_updated_at := timestamp now\<rparr>) (workers db)\<rparr>"

definition claim_workers :: "rat \<Rightarrow> string list \<Rightarrow> string \<Rightarrow> db \<Rightarrow> (db \<times> bool) result" where
  "claim_workers now worker_ids actor db =
     (let identities = dict_fromkeys worker_ids in
      if identities = [] then Inr (db, False)
      else if \<not> workers_idle db identities then Inr (db, False)
      else
      bindR (raise_if (idle_count db identities \<noteq> length identities)
        (RuntimeError ''worker reservation concurrent update'')) (\<lambda>_.
      Inr (append_events now
        (map (\<lambda>w. worker_state_event w None None None WORKER_IDLE WORKER_STARTING actor) identities)
        (reserve_workers now identities db), True)))"

section \<open>Worker runs\<close>

definition run_active :: "run_row \<Rightarrow> bool" where
  "run_active r = (rn_state r \<in> {RUN_STARTING, RUN_RUNNING, RUN_WAITING})"

definition new_run ::
    "string \<Rightarrow> string \<Rightarrow> string \<Rightarrow> int \<Rightarrow> int option \<Rightarrow> string option \<Rightarrow> int \<Rightarrow> int \<Rightarrow> run_row" where
  "new_run run_id task_id worker_id attempt timeout_at scope_id revision t =
     \<lparr>rn_id = run_id, rn_task_id = task_id, rn_worker_id = worker_id, rn_session_id = None,
      rn_state = RUN_STARTING, rn_process_id = None, rn_attempt = attempt, rn_started_at = None,
      rn_last_event_at = None, rn_timeout_at = timeout_at, rn_ended_at = None, rn_exit_code = None,
      rn_failure_class = None, rn_failure_detail = None, rn_raw_output_reference = None,
      rn_verification_scope_id = scope_id, rn_task_definition_revision = Some revision,
      rn_created_at = t, rn_updated_at = t\<rparr>"

text \<open>The constraints of \<^verbatim>\<open>worker_runs\<close> on an inserted row.\<close>

definition run_insertable :: "db \<Rightarrow> run_row \<Rightarrow> bool" where
  "run_insertable db r \<longleftrightarrow>
     row_by rn_id (rn_id r) (worker_runs db) = None \<and> 0 < rn_attempt r \<and>
     \<not> list_ex (\<lambda>x. rn_task_id x = rn_task_id r \<and> rn_worker_id x = rn_worker_id r \<and>
        rn_attempt x = rn_attempt r) (worker_runs db)"

definition worker_started_event ::
    "string \<Rightarrow> task_row \<Rightarrow> string \<Rightarrow> int \<Rightarrow> string \<Rightarrow> event" where
  "worker_started_event run_id task worker_id attempt actor =
     mk_event ''workerStarted'' SEV_NOTICE ''workerRun'' run_id (Some (tk_project_id task))
       (Some (tk_id task)) (Some worker_id) (Some run_id)
       (''Worker '' @ worker_id @ '' starting attempt '' @ show_int attempt)
       [(''state'', JStr (run_state_value RUN_STARTING)), (''attempt'', JInt attempt)] actor"

definition create_worker_run ::
    "(json \<Rightarrow> string) \<Rightarrow> rat \<Rightarrow> string \<Rightarrow> string \<Rightarrow> string \<Rightarrow> int \<Rightarrow> int option \<Rightarrow> db \<Rightarrow>
     (db \<times> string) result" where
  "create_worker_run digest now uuid task_id worker_id attempt timeout_at db =
     bindR (fetch tk_id task_id (tasks db) (KeyError task_id)) (\<lambda>task.
     bindR (fetch wk_id worker_id (workers db) (KeyError worker_id)) (\<lambda>_.
     bindR (task_verification_dispatch_snapshot digest db task) (\<lambda>(scope_id, revision).
     let run = new_run (''run-'' @ uuid) task_id worker_id attempt timeout_at scope_id revision
           (timestamp now)
     in
     bindR (raise_if (\<not> run_insertable db run) (IntegrityError ''worker_runs'')) (\<lambda>_.
     let db = db\<lparr>worker_runs := worker_runs db @ [run],
           tasks := upd_by tk_id task_id
             (\<lambda>t. t\<lparr>tk_attempt_count := max (tk_attempt_count t) attempt,
                    tk_updated_at := timestamp now, tk_version := tk_version t + 1\<rparr>) (tasks db)\<rparr>
     in Inr (append_event now
          (worker_started_event (''run-'' @ uuid) task worker_id attempt ''runtime'') db,
        ''run-'' @ uuid)))))"

definition get_worker_run :: "db \<Rightarrow> string \<Rightarrow> run_row result" where
  "get_worker_run db run_id = fetch rn_id run_id (worker_runs db) (KeyError run_id)"

definition list_worker_runs :: "db \<Rightarrow> string option \<Rightarrow> run_row list" where
  "list_worker_runs db task_id =
     sort_key (\<lambda>r. (rn_attempt r, rn_created_at r, rn_id r))
       (filter (\<lambda>r. case task_id of None \<Rightarrow> True | Some t \<Rightarrow> rn_task_id r = t) (worker_runs db))"

text \<open>The kind of the event a run transition emits.\<close>

definition run_event_kind :: "run_state \<Rightarrow> string" where
  "run_event_kind target =
     (case target of
        RUN_RUNNING \<Rightarrow> ''workerRunning'' | RUN_COMPLETED \<Rightarrow> ''workerCompleted''
      | RUN_CANCELLED \<Rightarrow> ''workerCancelled'' | RUN_TIMED_OUT \<Rightarrow> ''workerTimedOut''
      | RUN_INTERRUPTED \<Rightarrow> ''workerRunInterrupted'' | RUN_AUTH_REQUIRED \<Rightarrow> ''workerAuthRequired''
      | RUN_RATE_LIMITED \<Rightarrow> ''workerRateLimited'' | RUN_FAILED \<Rightarrow> ''workerFailed''
      | _ \<Rightarrow> ''workerStateChanged'')"

text \<open>The optional arguments of a run transition.\<close>

record run_update =
  ru_process_id :: "int option"
  ru_exit_code :: "int option"
  ru_session_id :: "string option"
  ru_raw_output_reference :: "string option"
  ru_failure_class :: "failure_class option"
  ru_failure_detail :: "string option"

definition update_run :: "int \<Rightarrow> run_state \<Rightarrow> run_update \<Rightarrow> run_row \<Rightarrow> run_row" where
  "update_run t target u r =
     r\<lparr>rn_state := target,
       rn_process_id := coalesce (ru_process_id u) (rn_process_id r),
       rn_session_id := coalesce (ru_session_id u) (rn_session_id r),
       rn_started_at := (if target = RUN_RUNNING \<and> rn_started_at r = None then Some t else rn_started_at r),
       rn_last_event_at := Some t,
       rn_ended_at := (if run_terminal target then Some t else rn_ended_at r),
       rn_exit_code := coalesce (ru_exit_code u) (rn_exit_code r),
       rn_failure_class := coalesce (ru_failure_class u) (rn_failure_class r),
       rn_failure_detail := coalesce (redact_opt (ru_failure_detail u)) (rn_failure_detail r),
       rn_raw_output_reference := coalesce (ru_raw_output_reference u) (rn_raw_output_reference r),
       rn_updated_at := t\<rparr>"

definition task_project :: "db \<Rightarrow> string \<Rightarrow> string result" where
  "task_project db task_id =
     (case row_by tk_id task_id (tasks db) of
        None \<Rightarrow> Inl (TypeError ''NoneType'') | Some t \<Rightarrow> Inr (tk_project_id t))"

definition transition_worker_run ::
    "rat \<Rightarrow> string \<Rightarrow> run_state \<Rightarrow> run_update \<Rightarrow> (string \<times> json) list \<Rightarrow> string option \<Rightarrow>
     int option \<Rightarrow> db \<Rightarrow> (db \<times> run_row) result" where
  "transition_worker_run now run_id target u payload lease_owner_id lease_generation db =
     bindR (fetch rn_id run_id (worker_runs db) (KeyError run_id)) (\<lambda>row.
     bindR (require_optional_lease now db (rn_task_id row) lease_owner_id lease_generation) (\<lambda>_.
     bindR (require run_state_value RUN_TRANSITIONS (rn_state row) target) (\<lambda>_.
     bindR (raise_if (case ru_session_id u of None \<Rightarrow> False | Some s \<Rightarrow> row_by se_id s (sessions db) = None)
       (IntegrityError ''worker_runs'')) (\<lambda>_.
     bindR (task_project db (rn_task_id row)) (\<lambda>project_id.
     let db = db\<lparr>worker_runs := upd_by rn_id run_id (update_run (timestamp now) target u) (worker_runs db)\<rparr>;
         db = append_event now (mk_event (run_event_kind target)
            (if target \<in> {RUN_RUNNING, RUN_COMPLETED} then SEV_NOTICE else SEV_WARNING) ''workerRun''
            run_id (Some project_id) (Some (rn_task_id row)) (Some (rn_worker_id row)) (Some run_id)
            (''Worker run '' @ run_state_value (rn_state row) @ '' -> '' @ run_state_value target)
            (dict_merge [(''from'', JStr (run_state_value (rn_state row))),
               (''to'', JStr (run_state_value target))] payload) ''runtime'') db
     in bindR (get_worker_run db run_id) (\<lambda>r. Inr (db, r)))))))"

section \<open>Dispatch\<close>

record dispatch_claim =
  dc_attempt :: int
  dc_run_ids :: "(string \<times> string) list"
  dc_lease_generation :: "int option"
  dc_verification_scope_id :: "string option"
  dc_task_definition_revision :: int

text \<open>What a claim is made of once its guards have passed.\<close>

record claim_plan =
  cp_task :: task_row
  cp_runs :: "run_row list"
  cp_lease :: "(string \<times> rat) option" \<comment> \<open>owner and time to live\<close>
  cp_actor :: string
  cp_scope_id :: "string option"
  cp_revision :: int

definition plan_attempt :: "claim_plan \<Rightarrow> int" where
  "plan_attempt p = tk_attempt_count (cp_task p) + 1"

definition plan_generation :: "db \<Rightarrow> claim_plan \<Rightarrow> int option" where
  "plan_generation db p = map_option (\<lambda>_. next_generation db (tk_id (cp_task p))) (cp_lease p)"

definition claim_task_row :: "rat \<Rightarrow> claim_plan \<Rightarrow> task_row \<Rightarrow> task_row" where
  "claim_task_row now p t =
     t\<lparr>tk_state := TASK_RUNNING, tk_attempt_count := plan_attempt p,
       tk_started_at := coalesce (tk_started_at t) (Some (timestamp now)),
       tk_updated_at := timestamp now, tk_version := tk_version t + 1\<rparr>"

definition claim_events :: "rat \<Rightarrow> db \<Rightarrow> claim_plan \<Rightarrow> event list" where
  "claim_events now db p =
     (let task = cp_task p; tid = tk_id task; pid = Some (tk_project_id task) in
      [mk_event ''taskStateChanged'' SEV_NOTICE ''task'' tid pid (Some tid) None None
         ''Task atomically claimed for dispatch''
         [(''from'', JStr (task_state_value TASK_READY)), (''to'', JStr (task_state_value TASK_RUNNING)),
          (''attempt'', JInt (plan_attempt p)),
          (''workerIDs'', JList (map (JStr \<circ> rn_worker_id) (cp_runs p)))] (cp_actor p)] @
      (case cp_lease p of
         None \<Rightarrow> []
       | Some (owner, ttl) \<Rightarrow>
           [mk_event ''taskExecutionLeaseAcquired'' SEV_INFO ''task'' tid pid (Some tid) None None
              ''Task execution ownership lease acquired''
              [(''ownerID'', JStr owner), (''generation'', JInt (next_generation db tid)),
               (''expiresAt'', JTime (timestamp (now + ttl)))] (cp_actor p)]) @
      concat (map (\<lambda>r.
        [worker_state_event (rn_worker_id r) pid (Some tid) (Some (rn_id r)) WORKER_IDLE
           WORKER_STARTING (cp_actor p),
         worker_started_event (rn_id r) task (rn_worker_id r) (plan_attempt p) (cp_actor p)])
        (cp_runs p)))"

definition commit_claim :: "rat \<Rightarrow> claim_plan \<Rightarrow> db \<Rightarrow> db" where
  "commit_claim now p db =
     (let tid = tk_id (cp_task p);
          db1 = (case cp_lease p of None \<Rightarrow> db | Some (owner, ttl) \<Rightarrow> acquire_lease now tid owner ttl db);
          db2 = db1\<lparr>tasks := upd_by tk_id tid (claim_task_row now p) (tasks db1)\<rparr>;
          db3 = reserve_workers now (map rn_worker_id (cp_runs p)) db2;
          db4 = db3\<lparr>worker_runs := worker_runs db3 @ cp_runs p\<rparr>
      in append_events now (claim_events now db p) db4)"

text \<open>
  The guards read the task, its prerequisites and the workers; \<open>None\<close> refuses the claim because
  another process was faster. Run identifiers are \<open>uuid 0\<close>, \<open>uuid 1\<close>, \<dots> in the order of the
  workers.
\<close>

definition plan_dispatch ::
    "(json \<Rightarrow> string) \<Rightarrow> rat \<Rightarrow> (nat \<Rightarrow> string) \<Rightarrow> string \<Rightarrow> string list \<Rightarrow> int \<Rightarrow> int option \<Rightarrow>
     string option \<Rightarrow> rat \<Rightarrow> int option \<Rightarrow> string \<Rightarrow> db \<Rightarrow> claim_plan option result" where
  "plan_dispatch digest now uuid task_id identities expected_version timeout_at lease_owner_id
     lease_ttl_seconds max_attempts actor db =
     bindR (raise_if (identities = [])
       (ValueError ''a dispatch claim requires at least one worker'')) (\<lambda>_.
     bindR (raise_if (case lease_owner_id of None \<Rightarrow> False | Some o1 \<Rightarrow> \<not> nonblank o1)
       (ValueError ''lease_owner_id cannot be empty'')) (\<lambda>_.
     bindR (raise_if (lease_owner_id \<noteq> None \<and> lease_ttl_seconds < 1)
       (ValueError ''lease_ttl_seconds must be at least one second'')) (\<lambda>_.
     bindR (raise_if (case max_attempts of None \<Rightarrow> False | Some n \<Rightarrow> n < 1)
       (ValueError ''max_attempts must be positive'')) (\<lambda>_.
     bindR (fetch tk_id task_id (tasks db) (KeyError task_id)) (\<lambda>task.
     if tk_state task \<noteq> TASK_READY \<or> tk_version task \<noteq> expected_version then Inr None
     else if (case max_attempts of None \<Rightarrow> False | Some n \<Rightarrow> n \<le> tk_attempt_count task)
       then Inr None
     else
     bindR (task_verification_dispatch_snapshot digest db task) (\<lambda>snapshot.
     if unsatisfied_dependencies db task_id \<noteq> [] then Inr None
     else if \<not> workers_idle db identities then Inr None
     else Inr (Some
       \<lparr>cp_task = task,
        cp_runs = map (\<lambda>(n, w). new_run (''run-'' @ uuid n) task_id w (tk_attempt_count task + 1)
           timeout_at (fst snapshot) (snd snapshot) (timestamp now)) (enumerate 0 identities),
        cp_lease = map_option (\<lambda>o1. (o1, lease_ttl_seconds)) lease_owner_id, cp_actor = actor,
        cp_scope_id = fst snapshot, cp_revision = snd snapshot\<rparr>)))))))"

definition claim_result :: "db \<Rightarrow> claim_plan \<Rightarrow> dispatch_claim" where
  "claim_result db p =
     \<lparr>dc_attempt = plan_attempt p, dc_run_ids = map (\<lambda>r. (rn_worker_id r, rn_id r)) (cp_runs p),
      dc_lease_generation = plan_generation db p, dc_verification_scope_id = cp_scope_id p,
      dc_task_definition_revision = cp_revision p\<rparr>"

text \<open>
  The two row counts cannot differ within one transaction, as the lemmas below show; they are
  checked where the code checks them.
\<close>

definition claim_task_dispatch ::
    "(json \<Rightarrow> string) \<Rightarrow> rat \<Rightarrow> (nat \<Rightarrow> string) \<Rightarrow> string \<Rightarrow> string list \<Rightarrow> int \<Rightarrow> int option \<Rightarrow>
     string option \<Rightarrow> rat \<Rightarrow> int option \<Rightarrow> string \<Rightarrow> db \<Rightarrow> (db \<times> dispatch_claim option) result" where
  "claim_task_dispatch digest now uuid task_id worker_ids expected_version timeout_at lease_owner_id
     lease_ttl_seconds max_attempts actor db =
     (let identities = dict_fromkeys worker_ids in
      bindR (plan_dispatch digest now uuid task_id identities expected_version timeout_at
        lease_owner_id lease_ttl_seconds max_attempts actor db) (\<lambda>plan.
      case plan of
        None \<Rightarrow> Inr (db, None)
      | Some p \<Rightarrow>
          if length (filter (\<lambda>t. tk_id t = task_id \<and> tk_state t = TASK_READY \<and>
               tk_version t = expected_version) (tasks db)) \<noteq> 1
            then Inr (case lease_owner_id of
                None \<Rightarrow> db | Some o1 \<Rightarrow> acquire_lease now task_id o1 lease_ttl_seconds db, None)
          else
          bindR (raise_if (idle_count db identities \<noteq> length identities)
            (RuntimeError ''worker reservation concurrent update'')) (\<lambda>_.
          bindR (raise_if (\<not> list_all (run_insertable db) (cp_runs p) \<or> \<not> distinct (map rn_id (cp_runs p)))
            (IntegrityError ''worker_runs'')) (\<lambda>_.
          Inr (commit_claim now p db, Some (claim_result db p))))))"

definition activate_run :: "rat \<Rightarrow> run_row \<Rightarrow> task_row \<Rightarrow> string \<Rightarrow> db \<Rightarrow> db" where
  "activate_run now run task actor db =
     (let t = timestamp now;
          db = db\<lparr>worker_runs := upd_where (\<lambda>r. rn_id r = rn_id run \<and> rn_state r = RUN_STARTING)
            (\<lambda>r. r\<lparr>rn_state := RUN_RUNNING, rn_started_at := coalesce (rn_started_at r) (Some t),
                   rn_last_event_at := Some t, rn_updated_at := t\<rparr>) (worker_runs db)\<rparr>;
          db = db\<lparr>workers := upd_where
            (\<lambda>w. wk_id w = rn_worker_id run \<and> wk_state w = WORKER_STARTING)
            (\<lambda>w. w\<lparr>wk_state := WORKER_RUNNING, wk_last_heartbeat_at := Some t,
                   wk_updated_at := t\<rparr>) (workers db)\<rparr>
      in append_events now
           [mk_event ''workerRunning'' SEV_NOTICE ''workerRun'' (rn_id run) (Some (tk_project_id task))
              (Some (rn_task_id run)) (Some (rn_worker_id run)) (Some (rn_id run))
              ''Worker run starting -> running''
              [(''from'', JStr (run_state_value RUN_STARTING)),
               (''to'', JStr (run_state_value RUN_RUNNING))] actor,
            worker_state_event (rn_worker_id run) (Some (tk_project_id task))
              (Some (rn_task_id run)) (Some (rn_id run)) WORKER_STARTING WORKER_RUNNING actor] db)"

definition activate_worker_run ::
    "rat \<Rightarrow> string \<Rightarrow> string option \<Rightarrow> int option \<Rightarrow> string \<Rightarrow> db \<Rightarrow> (db \<times> bool) result" where
  "activate_worker_run now run_id lease_owner_id lease_generation actor db =
     bindR (fetch rn_id run_id (worker_runs db) (KeyError run_id)) (\<lambda>run.
     bindR (fetch tk_id (rn_task_id run) (tasks db) (KeyError run_id)) (\<lambda>task.
     bindR (require_optional_lease now db (rn_task_id run) lease_owner_id lease_generation) (\<lambda>_.
     if rn_state run \<noteq> RUN_STARTING \<or> tk_state task \<noteq> TASK_RUNNING then Inr (db, False)
     else
     case row_by wk_id (rn_worker_id run) (workers db) of
       None \<Rightarrow> Inr (db, False)
     | Some worker \<Rightarrow>
         if wk_state worker \<noteq> WORKER_STARTING then Inr (db, False)
         else Inr (activate_run now run task actor db, True))))"

section \<open>Cancellation\<close>

text \<open>\<^verbatim>\<open>AND NOT EXISTS (SELECT 1 FROM worker_runs active ...)\<close>, excluding one run where the code does.\<close>

definition worker_has_active_run :: "db \<Rightarrow> string \<Rightarrow> string option \<Rightarrow> bool" where
  "worker_has_active_run db worker_id excluded =
     list_ex (\<lambda>r. rn_worker_id r = worker_id \<and> run_active r \<and> excluded \<noteq> Some (rn_id r)) (worker_runs db)"

definition fence_job :: "int \<Rightarrow> provider_job_row \<Rightarrow> provider_job_row" where
  "fence_job t j =
     j\<lparr>jb_launch_state := (if jb_launch_state j = LAUNCH_PREPARED then LAUNCH_TERMINAL
         else LAUNCH_UNCERTAIN),
       jb_result_collection_state := (if jb_launch_state j = LAUNCH_PREPARED then COLLECT_NOT_AVAILABLE
         else COLLECT_UNCERTAIN),
       jb_updated_at := t\<rparr>"

definition cancel_run :: "rat \<Rightarrow> task_row \<Rightarrow> string \<Rightarrow> run_row \<Rightarrow> db \<Rightarrow> db" where
  "cancel_run now task actor run db =
     (let t = timestamp now;
          db = db\<lparr>worker_runs := upd_by rn_id (rn_id run)
            (\<lambda>r. r\<lparr>rn_state := RUN_CANCELLED, rn_ended_at := Some t, rn_updated_at := t\<rparr>) (worker_runs db)\<rparr>;
          db = db\<lparr>provider_jobs := upd_where
            (\<lambda>j. jb_run_id j = rn_id run \<and> jb_result_collection_state j \<noteq> COLLECT_COLLECTED)
            (fence_job t) (provider_jobs db)\<rparr>
      in append_event now (mk_event ''workerCancelled'' SEV_WARNING ''workerRun'' (rn_id run)
           (Some (tk_project_id task)) (Some (tk_id task)) (Some (rn_worker_id run)) (Some (rn_id run))
           ''Worker run fenced by Task cancellation''
           [(''from'', JStr (run_state_value (rn_state run))),
            (''to'', JStr (run_state_value RUN_CANCELLED)),
            (''providerCancellationPending'', JBool (rn_state run \<noteq> RUN_STARTING))] actor) db)"

definition free_cancelled_worker :: "rat \<Rightarrow> string \<Rightarrow> db \<Rightarrow> db" where
  "free_cancelled_worker now worker_id db =
     db\<lparr>workers := upd_where
       (\<lambda>w. wk_id w = worker_id \<and> \<not> worker_has_active_run db worker_id None \<and>
          wk_state w \<in> {WORKER_STARTING, WORKER_RUNNING, WORKER_WAITING, WORKER_STOPPING})
       (\<lambda>w. w\<lparr>wk_state := WORKER_IDLE, wk_updated_at := timestamp now\<rparr>) (workers db)\<rparr>"

definition release_by_cancellation :: "rat \<Rightarrow> task_row \<Rightarrow> string \<Rightarrow> db \<Rightarrow> db" where
  "release_by_cancellation now task actor db =
     (case row_by tl_task_id (tk_id task) (task_execution_leases db) of
        None \<Rightarrow> db
      | Some l \<Rightarrow>
          if tl_state l \<noteq> LEASE_ACTIVE then db
          else append_event now (mk_event ''taskExecutionLeaseReleased'' SEV_INFO ''task'' (tk_id task)
              (Some (tk_project_id task)) (Some (tk_id task)) None None
              ''Task execution lease released by cancellation fence''
              [(''ownerID'', JStr (tl_owner_id l)), (''generation'', JInt (tl_generation l)),
               (''reasonCode'', JStr ''TASK_CANCELLED'')] actor)
            (db\<lparr>task_execution_leases := upd_by tl_task_id (tk_id task)
               (release_lease_row (timestamp now)) (task_execution_leases db)\<rparr>))"

definition cancel_task_execution :: "rat \<Rightarrow> string \<Rightarrow> string \<Rightarrow> db \<Rightarrow> (db \<times> bool) result" where
  "cancel_task_execution now task_id actor db =
     bindR (fetch tk_id task_id (tasks db) (KeyError task_id)) (\<lambda>task.
     if tk_state task \<in> {TASK_SUCCEEDED, TASK_FAILED, TASK_CANCELLED} then Inr (db, False)
     else
     bindR (require task_state_value TASK_TRANSITIONS (tk_state task) TASK_CANCELLED) (\<lambda>_.
     let t = timestamp now;
         active = filter (\<lambda>r. rn_task_id r = task_id \<and> run_active r) (worker_runs db);
         db = db\<lparr>tasks := upd_by tk_id task_id
           (\<lambda>r. r\<lparr>tk_state := TASK_CANCELLED, tk_finished_at := Some t, tk_updated_at := t,
                  tk_version := tk_version r + 1\<rparr>) (tasks db)\<rparr>;
         db = append_event now (mk_event ''taskStateChanged'' SEV_NOTICE ''task'' task_id
           (Some (tk_project_id task)) (Some task_id) None None ''Task cancellation requested''
           [(''from'', JStr (task_state_value (tk_state task))),
            (''to'', JStr (task_state_value TASK_CANCELLED))] actor) db;
         db = fold (cancel_run now task actor) active db;
         db = fold (free_cancelled_worker now) (sorted_list_of_set (rn_worker_id ` set active)) db
     in Inr (release_by_cancellation now task actor db, True)))"

section \<open>Task transitions\<close>

definition transition_task ::
    "rat \<Rightarrow> string \<Rightarrow> task_state \<Rightarrow> string \<Rightarrow> string option \<Rightarrow> (string \<times> json) list \<Rightarrow> int option \<Rightarrow>
     string option \<Rightarrow> int option \<Rightarrow> db \<Rightarrow> (db \<times> task_row) result" where
  "transition_task now task_id target actor summary payload expected_version lease_owner_id
     lease_generation db =
     bindR (fetch tk_id task_id (tasks db) (KeyError task_id)) (\<lambda>row.
     bindR (require_optional_lease now db task_id lease_owner_id lease_generation) (\<lambda>_.
     bindR (require task_state_value TASK_TRANSITIONS (tk_state row) target) (\<lambda>_.
     bindR (raise_if (case expected_version of None \<Rightarrow> False | Some v \<Rightarrow> tk_version row \<noteq> v)
       (RuntimeError (''task '' @ task_id @ '' version conflict: expected '' @
          show_int (the expected_version) @ '', got '' @ show_int (tk_version row)))) (\<lambda>_.
     let t = timestamp now;
         hit = (\<lambda>r. tk_id r = task_id \<and> tk_version r = tk_version row)
     in
     bindR (raise_if (length (filter hit (tasks db)) \<noteq> 1)
       (RuntimeError (''task '' @ task_id @ '' concurrent update''))) (\<lambda>_.
     let db = db\<lparr>tasks := upd_where hit
           (\<lambda>r. r\<lparr>tk_state := target,
              tk_started_at := (if target = TASK_RUNNING \<and> tk_started_at row = None then Some t
                 else tk_started_at row),
              tk_finished_at := (if target \<in> {TASK_SUCCEEDED, TASK_FAILED, TASK_CANCELLED} then Some t
                 else tk_finished_at row),
              tk_updated_at := t, tk_version := tk_version r + 1\<rparr>) (tasks db)\<rparr>;
         db = append_event now (mk_event ''taskStateChanged'' SEV_NOTICE ''task'' task_id
           (Some (tk_project_id row)) (Some task_id) None None
           (or_default summary (''Task state '' @ task_state_value (tk_state row) @ '' -> '' @
              task_state_value target))
           (dict_merge [(''from'', JStr (task_state_value (tk_state row))),
              (''to'', JStr (task_state_value target))] payload) actor) db
     in bindR (get_task db task_id) (\<lambda>r. Inr (db, r)))))))"

section \<open>Leases only move forward\<close>

definition lease_live :: "rat \<Rightarrow> lease_row \<Rightarrow> bool" where
  "lease_live now l \<longleftrightarrow> tl_state l = LEASE_ACTIVE \<and> timestamp now < tl_expires_at l"

text \<open>
  What every operation does to the lease of a task: the row stays, and either its generation grows
  or generation and owner stay and a lease that was not live at that time is not live afterwards.
\<close>

definition lease_follows :: "rat \<Rightarrow> lease_row \<Rightarrow> lease_row \<Rightarrow> bool" where
  "lease_follows now l l' \<longleftrightarrow>
     tl_generation l < tl_generation l' \<or>
     tl_generation l' = tl_generation l \<and> tl_owner_id l' = tl_owner_id l \<and>
     (lease_live now l' \<longrightarrow> lease_live now l)"

definition leases_kept :: "rat \<Rightarrow> db \<Rightarrow> db \<Rightarrow> bool" where
  "leases_kept now db db' \<longleftrightarrow>
     (\<forall>tid l. row_by tl_task_id tid (task_execution_leases db) = Some l \<longrightarrow>
        (\<exists>l'. row_by tl_task_id tid (task_execution_leases db') = Some l' \<and> lease_follows now l l'))"

lemma lease_current_iff:
  "lease_current now db tid o1 g \<longleftrightarrow>
     (\<exists>l. row_by tl_task_id tid (task_execution_leases db) = Some l \<and> tl_owner_id l = o1 \<and>
        tl_generation l = g \<and> lease_live now l)"
  by (auto simp: lease_current_def lease_live_def split: option.split)

lemma lease_follows_refl [simp]: "lease_follows now l l"
  by (simp add: lease_follows_def)

lemma lease_follows_trans: "lease_follows now a b \<Longrightarrow> lease_follows now b c \<Longrightarrow> lease_follows now a c"
  unfolding lease_follows_def by auto

lemma leases_kept_same:
  "task_execution_leases db' = task_execution_leases db \<Longrightarrow> leases_kept now db db'"
  by (auto simp: leases_kept_def)

lemma leases_kept_trans: "leases_kept now a b \<Longrightarrow> leases_kept now b c \<Longrightarrow> leases_kept now a c"
  unfolding leases_kept_def by (meson lease_follows_trans)

lemma leases_kept_acquire: "leases_kept now db (acquire_lease now tid o1 ttl db)"
  by (auto simp: leases_kept_def acquire_lease_def Let_def row_by_upsert_by next_generation_def
      lease_follows_def)

lemma leases_kept_upd:
  assumes "task_execution_leases db' = upd_where P f (task_execution_leases db)"
    and "\<And>l. P l \<Longrightarrow> tl_task_id (f l) = tl_task_id l \<and> lease_follows now l (f l)"
  shows "leases_kept now db db'"
  using assms by (auto simp: leases_kept_def row_by_upd_where)

lemma release_follows [simp]: "tl_task_id (release_lease_row t l) = tl_task_id l"
  "lease_follows now l (release_lease_row t l)"
  by (simp_all add: release_lease_row_def lease_follows_def lease_live_def)

section \<open>Frames\<close>

lemma reserve_workers_frame [simp]:
  "tasks (reserve_workers now ids db) = tasks db"
  "worker_runs (reserve_workers now ids db) = worker_runs db"
  "task_execution_leases (reserve_workers now ids db) = task_execution_leases db"
  "task_dependencies (reserve_workers now ids db) = task_dependencies db"
  "provider_jobs (reserve_workers now ids db) = provider_jobs db"
  "journal_extends d (reserve_workers now ids db) = journal_extends d db"
  by (simp_all add: reserve_workers_def)

lemma acquire_lease_frame [simp]:
  "tasks (acquire_lease now tid o1 ttl db) = tasks db"
  "worker_runs (acquire_lease now tid o1 ttl db) = worker_runs db"
  "workers (acquire_lease now tid o1 ttl db) = workers db"
  "provider_jobs (acquire_lease now tid o1 ttl db) = provider_jobs db"
  "task_dependencies (acquire_lease now tid o1 ttl db) = task_dependencies db"
  "journal_extends d (acquire_lease now tid o1 ttl db) = journal_extends d db"
  by (simp_all add: acquire_lease_def Let_def)

lemma commit_claim_effect:
  "worker_runs (commit_claim now p db) = worker_runs db @ cp_runs p"
  "tasks (commit_claim now p db) = upd_by tk_id (tk_id (cp_task p)) (claim_task_row now p) (tasks db)"
  "workers (commit_claim now p db) = workers (reserve_workers now (map rn_worker_id (cp_runs p)) db)"
  "task_dependencies (commit_claim now p db) = task_dependencies db"
  "provider_jobs (commit_claim now p db) = provider_jobs db"
  "task_execution_leases (commit_claim now p db) = task_execution_leases
     (case cp_lease p of None \<Rightarrow> db
      | Some (owner, ttl) \<Rightarrow> acquire_lease now (tk_id (cp_task p)) owner ttl db)"
  "journal_extends db (commit_claim now p db)"
  by (auto simp: commit_claim_def Let_def reserve_workers_def split: option.split)

lemma leases_kept_commit_claim: "leases_kept now db (commit_claim now p db)"
proof (cases "cp_lease p")
  case None
  then show ?thesis by (simp add: leases_kept_same commit_claim_effect)
next
  case (Some l)
  then show ?thesis
    using leases_kept_acquire [of now db "tk_id (cp_task p)" "fst l" "snd l"]
    by (cases l) (simp add: leases_kept_def commit_claim_effect)
qed

section \<open>Dispatch claims\<close>

lemma plan_dispatch_Some:
  assumes "plan_dispatch digest now uuid tid ids ver tmo lo ttl ma actor db = Inr (Some p)"
  shows "row_by tk_id tid (tasks db) = Some (cp_task p)" and "tk_state (cp_task p) = TASK_READY"
    and "tk_version (cp_task p) = ver" and "unsatisfied_dependencies db tid = []"
    and "workers_idle db ids" and "ids \<noteq> []" and "cp_lease p = map_option (\<lambda>o1. (o1, ttl)) lo"
    and "cp_runs p = map (\<lambda>(n, w). new_run (''run-'' @ uuid n) tid w (plan_attempt p) tmo
       (cp_scope_id p) (cp_revision p) (timestamp now)) (enumerate 0 ids)"
    and "lo \<noteq> None \<Longrightarrow> 1 \<le> ttl"
  using assms unfolding plan_dispatch_def plan_attempt_def
  by (auto simp: not_less split: if_split_asm)

lemma claim_dispatchE:
  assumes "claim_task_dispatch digest now uuid tid ws ver tmo lo ttl ma actor db = Inr (db', r)"
    and "unique_key tk_id (tasks db)"
  obtains (refused) "r = None" "db' = db"
  | (claimed) p where
    "plan_dispatch digest now uuid tid (dict_fromkeys ws) ver tmo lo ttl ma actor db = Inr (Some p)"
    "list_all (run_insertable db) (cp_runs p)" "distinct (map rn_id (cp_runs p))"
    "db' = commit_claim now p db" "r = Some (claim_result db p)"
proof -
  obtain plan where plan: "plan_dispatch digest now uuid tid (dict_fromkeys ws) ver tmo lo ttl ma actor db = Inr plan"
    using assms(1) by (auto simp: claim_task_dispatch_def Let_def)
  show ?thesis
  proof (cases plan)
    case None
    with plan show ?thesis using assms(1) refused by (simp add: claim_task_dispatch_def)
  next
    case (Some p)
    note facts = plan_dispatch_Some [OF plan [unfolded Some]]
    have "length (filter (\<lambda>t. tk_id t = tid \<and> tk_state t = TASK_READY \<and> tk_version t = ver) (tasks db)) = 1"
      using filter_unique_key [OF assms(2) facts(1), of "\<lambda>t. tk_state t = TASK_READY \<and> tk_version t = ver"]
        facts(2,3) by simp
    with plan Some show ?thesis using assms(1) claimed by (auto simp: claim_task_dispatch_def Let_def)
  qed
qed

lemma workers_idle_rows:
  assumes "workers_idle db ids" and "unique_key wk_id (workers db)" and "distinct ids" and "w \<in> set ids"
  shows "\<exists>row. row_by wk_id w (workers db) = Some row \<and> wk_state row = WORKER_IDLE"
proof -
  let ?rows = "filter (\<lambda>w. wk_id w \<in> set ids) (workers db)"
  have len: "length ?rows = length ids" and idle: "\<And>r. r \<in> set ?rows \<Longrightarrow> wk_state r = WORKER_IDLE"
    using assms(1) by (auto simp: workers_idle_def Let_def list_all_iff)
  have "distinct (map wk_id ?rows)"
    using assms(2) by (simp add: unique_key_def distinct_map_filter)
  then have "card (set (map wk_id ?rows)) = card (set ids)"
    using len assms(3) by (metis distinct_card length_map)
  then have "set (map wk_id ?rows) = set ids"
    by (intro card_subset_eq) auto
  then have "w \<in> wk_id ` set ?rows" using assms(4) by (metis list.set_map)
  then obtain row where row: "row \<in> set ?rows" "wk_id row = w" by blast
  then have "row_by wk_id w (workers db) = Some row" using row_by_in [OF assms(2), of row] by auto
  with idle [OF row(1)] show ?thesis by blast
qed

lemma reserve_workers_row:
  "row_by wk_id w (workers (reserve_workers now ids db)) =
     map_option (\<lambda>r. if w \<in> set ids \<and> wk_state r = WORKER_IDLE
        then r\<lparr>wk_state := WORKER_STARTING, wk_last_heartbeat_at := Some (timestamp now),
               wk_updated_at := timestamp now\<rparr> else r) (row_by wk_id w (workers db))"
  by (cases "row_by wk_id w (workers db)")
    (auto simp: reserve_workers_def row_by_upd_where dest: row_by_key)

lemma acquire_lease_current:
  assumes "1 \<le> ttl"
  shows "lease_current now (acquire_lease now tid o1 ttl db) tid o1 (next_generation db tid)"
proof -
  have "timestamp now < timestamp (now + ttl)"
    using assms floor_mono [of "now + 1" "now + ttl"] by (simp add: timestamp_def)
  then show ?thesis
    by (auto simp: lease_current_def acquire_lease_def Let_def row_by_upsert_by split: option.split)
qed

lemma plan_runs:
  assumes "plan_dispatch digest now uuid tid ids ver tmo lo ttl ma actor db = Inr (Some p)"
  shows "map rn_worker_id (cp_runs p) = ids"
    and "r \<in> set (cp_runs p) \<Longrightarrow> rn_state r = RUN_STARTING \<and> rn_task_id r = tid \<and>
       rn_attempt r = plan_attempt p"
  by (auto simp: plan_dispatch_Some(8) [OF assms] new_run_def comp_def case_prod_beta
      map_snd_enumerate [simplified comp_def])

lemma lease_current_cong:
  "task_execution_leases db' = task_execution_leases db \<Longrightarrow>
   lease_current now db' tid o1 g = lease_current now db tid o1 g"
  by (simp add: lease_current_def)

lemma commit_claim_lease:
  assumes "plan_dispatch digest now uuid tid ids ver tmo (Some o1) ttl ma actor db = Inr (Some p)"
  shows "plan_generation db p = Some (next_generation db tid)"
    and "lease_current now (commit_claim now p db) tid o1 (next_generation db tid)"
proof -
  note facts = plan_dispatch_Some [OF assms]
  have tid: "tk_id (cp_task p) = tid" using facts(1) by (rule row_by_key)
  show "plan_generation db p = Some (next_generation db tid)"
    by (simp add: plan_generation_def facts(7) tid)
  have "task_execution_leases (commit_claim now p db) =
      task_execution_leases (acquire_lease now tid o1 ttl db)"
    by (simp add: commit_claim_effect facts(7) tid)
  then show "lease_current now (commit_claim now p db) tid o1 (next_generation db tid)"
    using acquire_lease_current [of ttl] facts(9) lease_current_cong by blast
qed

lemma commit_claim_task:
  assumes "plan_dispatch digest now uuid tid ids ver tmo lo ttl ma actor db = Inr (Some p)"
  shows "row_by tk_id tid (tasks (commit_claim now p db)) = Some (claim_task_row now p (cp_task p))"
  using plan_dispatch_Some(1) [OF assms] row_by_key [OF plan_dispatch_Some(1) [OF assms]]
  by (simp add: commit_claim_effect row_by_upd_by claim_task_row_def)

lemma commit_claim_worker:
  assumes "plan_dispatch digest now uuid tid (dict_fromkeys ws) ver tmo lo ttl ma actor db = Inr (Some p)"
    and "unique_key wk_id (workers db)" and "w \<in> set ws"
  shows "\<exists>row row'. row_by wk_id w (workers db) = Some row \<and> wk_state row = WORKER_IDLE \<and>
      row_by wk_id w (workers (commit_claim now p db)) = Some row' \<and> wk_state row' = WORKER_STARTING"
proof -
  obtain row where "row_by wk_id w (workers db) = Some row" "wk_state row = WORKER_IDLE"
    using workers_idle_rows [OF plan_dispatch_Some(5) [OF assms(1)] assms(2), of w] assms(3) by auto
  then show ?thesis using assms(3) plan_runs(1) [OF assms(1)]
    by (simp add: commit_claim_effect reserve_workers_row del: map_option_eq_Some)
qed

text \<open>
  C7. A dispatch claim is all or nothing. Refused, it changes nothing. Granted, the task was ready
  in the expected version with every prerequisite succeeded, and is now running in the next version
  and attempt; each requested worker was idle and is now starting; exactly one starting run per
  worker was added for this attempt; and the claimant's lease, when it asked for one, is current
  with the generation it was told.
\<close>

theorem dispatch_claim_atomic:
  assumes "claim_task_dispatch digest now uuid tid ws ver tmo lo ttl ma actor db = Inr (db', r)"
    and "unique_key tk_id (tasks db)" and "unique_key wk_id (workers db)"
  shows "(r = None \<longrightarrow> db' = db) \<and>
    (\<forall>dc. r = Some dc \<longrightarrow>
       (\<exists>task task'. get_task db tid = Inr task \<and> tk_state task = TASK_READY \<and> tk_version task = ver \<and>
          get_task db' tid = Inr task' \<and> tk_state task' = TASK_RUNNING \<and> tk_version task' = ver + 1 \<and>
          tk_attempt_count task' = dc_attempt dc \<and> dc_attempt dc = tk_attempt_count task + 1) \<and>
       unsatisfied_dependencies db tid = [] \<and>
       (\<forall>w \<in> set ws. \<exists>row row'. row_by wk_id w (workers db) = Some row \<and> wk_state row = WORKER_IDLE \<and>
          row_by wk_id w (workers db') = Some row' \<and> wk_state row' = WORKER_STARTING) \<and>
       (\<exists>runs. worker_runs db' = worker_runs db @ runs \<and> map rn_worker_id runs = dict_fromkeys ws \<and>
          (\<forall>run \<in> set runs. rn_state run = RUN_STARTING \<and> rn_task_id run = tid \<and>
             rn_attempt run = dc_attempt dc)) \<and>
       (\<forall>o1. lo = Some o1 \<longrightarrow>
          (\<exists>g. dc_lease_generation dc = Some g \<and> lease_current now db' tid o1 g)))"
  using assms(1,2)
proof (cases rule: claim_dispatchE)
  case refused
  then show ?thesis by simp
next
  case (claimed p)
  note facts = plan_dispatch_Some [OF claimed(1)] and runs = plan_runs [OF claimed(1)]
  have tid: "tk_id (cp_task p) = tid" using facts(1) by (rule row_by_key)
  have dc: "dc_attempt (claim_result db p) = plan_attempt p"
      "dc_lease_generation (claim_result db p) = plan_generation db p"
    by (simp_all add: claim_result_def)
  have task': "get_task db' tid = Inr (claim_task_row now p (cp_task p))"
    using commit_claim_task [OF claimed(1)] by (simp add: get_task_def claimed(4))
  have work: "\<exists>row row'. row_by wk_id w (workers db) = Some row \<and> wk_state row = WORKER_IDLE \<and>
          row_by wk_id w (workers db') = Some row' \<and> wk_state row' = WORKER_STARTING"
    if "w \<in> set ws" for w
    using commit_claim_worker [OF claimed(1) assms(3) that] by (simp add: claimed(4))
  have lease: "\<exists>g. plan_generation db p = Some g \<and> lease_current now db' tid o1 g"
    if "lo = Some o1" for o1
    using commit_claim_lease [OF claimed(1) [unfolded that]] by (simp add: claimed(4))
  show ?thesis
    using facts(1-4) task' work lease runs
    by (auto simp: claimed(4,5) dc commit_claim_effect get_task_def claim_task_row_def plan_attempt_def)
qed

lemma commit_claim_unique:
  "unique_key tk_id (tasks (commit_claim now p db)) = unique_key tk_id (tasks db)"
  "unique_key wk_id (workers (commit_claim now p db)) = unique_key wk_id (workers db)"
  by (simp_all add: commit_claim_effect unique_key_upd_by claim_task_row_def reserve_workers_def
      unique_key_upd_where)

text \<open>
  C8. Two dispatch claims exclude each other: once a claim is granted, a claim of the same task with
  whatever version, and a claim of any task that shares a worker, is refused and changes nothing,
  as long as no other operation intervenes.
\<close>

theorem dispatch_claim_exclusive:
  assumes "claim_task_dispatch digest now uuid tid ws ver tmo lo ttl ma actor db = Inr (db1, Some dc)"
    and "claim_task_dispatch digest now2 uuid2 tid2 ws2 ver2 tmo2 lo2 ttl2 ma2 actor2 db1 = Inr (db2, r)"
    and "unique_key tk_id (tasks db)" and "unique_key wk_id (workers db)"
    and "tid2 = tid \<or> set ws \<inter> set ws2 \<noteq> {}"
  shows "r = None \<and> db2 = db1"
proof -
  obtain p where p: "plan_dispatch digest now uuid tid (dict_fromkeys ws) ver tmo lo ttl ma actor db = Inr (Some p)"
    and db1: "db1 = commit_claim now p db"
    using assms(1,3) by (cases rule: claim_dispatchE) auto
  have u: "unique_key tk_id (tasks db1)" "unique_key wk_id (workers db1)"
    using assms(3,4) by (simp_all add: db1 commit_claim_unique)
  from assms(2) u(1) show ?thesis
  proof (cases rule: claim_dispatchE)
    case (claimed q)
    note facts = plan_dispatch_Some [OF claimed(1)]
    from assms(5) show ?thesis
    proof
      assume "tid2 = tid"
      then have "cp_task q = claim_task_row now p (cp_task p)"
        using commit_claim_task [OF p] facts(1) by (simp add: db1)
      then show ?thesis using facts(2) by (simp add: claim_task_row_def)
    next
      assume "set ws \<inter> set ws2 \<noteq> {}"
      then obtain w where w: "w \<in> set ws" "w \<in> set ws2" by blast
      then show ?thesis
        using commit_claim_worker [OF p assms(4), of w] workers_idle_rows [OF facts(5) u(2), of w]
        by (fastforce simp: db1)
    qed
  qed simp
qed

section \<open>Cancellation fences an execution\<close>

definition cancelled_run :: "int \<Rightarrow> run_row \<Rightarrow> run_row" where
  "cancelled_run t r = r\<lparr>rn_state := RUN_CANCELLED, rn_ended_at := Some t, rn_updated_at := t\<rparr>"

lemma cancelled_run_simps [simp]:
  "rn_id (cancelled_run t r) = rn_id r" "rn_task_id (cancelled_run t r) = rn_task_id r"
  "cancelled_run t (cancelled_run t r) = cancelled_run t r" "\<not> run_active (cancelled_run t r)"
  by (simp_all add: cancelled_run_def run_active_def)

lemma cancel_run_frame [simp]:
  "tasks (cancel_run now task actor run db) = tasks db"
  "task_execution_leases (cancel_run now task actor run db) = task_execution_leases db"
  "workers (cancel_run now task actor run db) = workers db"
  "worker_runs (cancel_run now task actor run db) =
     upd_by rn_id (rn_id run) (cancelled_run (timestamp now)) (worker_runs db)"
  "provider_jobs (cancel_run now task actor run db) =
     upd_where (\<lambda>j. jb_run_id j = rn_id run \<and> jb_result_collection_state j \<noteq> COLLECT_COLLECTED)
       (fence_job (timestamp now)) (provider_jobs db)"
  "journal_extends d db \<Longrightarrow> journal_extends d (cancel_run now task actor run db)"
  by (simp_all add: cancel_run_def Let_def cancelled_run_def [abs_def])

lemma free_cancelled_worker_frame [simp]:
  "tasks (free_cancelled_worker now w db) = tasks db"
  "worker_runs (free_cancelled_worker now w db) = worker_runs db"
  "provider_jobs (free_cancelled_worker now w db) = provider_jobs db"
  "task_execution_leases (free_cancelled_worker now w db) = task_execution_leases db"
  "journal_extends d (free_cancelled_worker now w db) = journal_extends d db"
  by (simp_all add: free_cancelled_worker_def)

lemma release_by_cancellation_frame [simp]:
  "tasks (release_by_cancellation now task actor db) = tasks db"
  "worker_runs (release_by_cancellation now task actor db) = worker_runs db"
  "provider_jobs (release_by_cancellation now task actor db) = provider_jobs db"
  "workers (release_by_cancellation now task actor db) = workers db"
  "journal_extends d db \<Longrightarrow> journal_extends d (release_by_cancellation now task actor db)"
  by (simp_all add: release_by_cancellation_def split: option.split)

lemma fold_frame:
  assumes "\<And>x db. field (f x db) = field db"
  shows "field (fold f xs db) = field db"
  by (induction xs arbitrary: db) (simp_all add: assms)

lemma upd_where_upd_where_same:
  assumes "\<And>r. f (f r) = f r" and "\<And>r. Q (f r) = Q r"
  shows "upd_where Q f (upd_where P f rows) = upd_where (\<lambda>r. P r \<or> Q r) f rows"
  using assms by (auto simp: upd_where_def)

lemma fold_cancel_run_runs:
  "worker_runs (fold (cancel_run now task actor) rs db) =
     upd_where (\<lambda>r. rn_id r \<in> rn_id ` set rs) (cancelled_run (timestamp now)) (worker_runs db)"
proof (induction rs arbitrary: db)
  case (Cons r rs)
  show ?case by (simp add: Cons.IH upd_by_def upd_where_upd_where_same)
qed (simp add: upd_where_def)

text \<open>A job of a cancelled run: its result was collected before, or nothing may be collected any more.\<close>

definition job_fenced :: "provider_job_row \<Rightarrow> bool" where
  "job_fenced j \<longleftrightarrow> jb_result_collection_state j = COLLECT_COLLECTED \<or>
     (jb_launch_state j \<in> {LAUNCH_TERMINAL, LAUNCH_UNCERTAIN} \<and>
      jb_result_collection_state j \<in> {COLLECT_NOT_AVAILABLE, COLLECT_UNCERTAIN})"

lemma fence_job_fenced [simp]: "job_fenced (fence_job t j)" "jb_run_id (fence_job t j) = jb_run_id j"
  by (simp_all add: fence_job_def job_fenced_def)

lemma fold_cancel_run_jobs:
  "j \<in> set (provider_jobs (fold (cancel_run now task actor) rs db)) \<Longrightarrow>
   jb_run_id j \<in> rn_id ` set rs \<Longrightarrow> job_fenced j"
proof (induction rs rule: rev_induct)
  case (snoc r rs)
  from snoc.prems(1) show ?case
  proof (simp, elim in_upd_whereE)
    assume j: "j \<in> set (provider_jobs (fold (cancel_run now task actor) rs db))"
      and "\<not> (jb_run_id j = rn_id r \<and> jb_result_collection_state j \<noteq> COLLECT_COLLECTED)"
    then show ?thesis using snoc.IH snoc.prems(2) by (auto simp: job_fenced_def)
  qed simp
qed simp

lemma fold_cancel_run_collected:
  "j \<in> set (provider_jobs db) \<Longrightarrow> jb_result_collection_state j = COLLECT_COLLECTED \<Longrightarrow>
   j \<in> set (provider_jobs (fold (cancel_run now task actor) rs db))"
  by (induction rs arbitrary: db) (force simp: set_upd_where)+

lemma release_by_cancellation_lease:
  "\<not> lease_current now' (release_by_cancellation now task actor db) (tk_id task) o1 g"
  by (auto simp: release_by_cancellation_def lease_current_def row_by_upd_by release_lease_row_def
      split: option.splits)

lemma leases_kept_release_by_cancellation:
  "leases_kept now db (release_by_cancellation now' task actor db)"
  by (auto simp: release_by_cancellation_def upd_by_def leases_kept_same split: option.split
      intro!: leases_kept_upd)

text \<open>The state a granted cancellation ends in.\<close>

definition cancelled_task_row :: "int \<Rightarrow> task_row \<Rightarrow> task_row" where
  "cancelled_task_row t r = r\<lparr>tk_state := TASK_CANCELLED, tk_finished_at := Some t, tk_updated_at := t,
                  tk_version := tk_version r + 1\<rparr>"

lemma cancel_task_executionE:
  assumes "cancel_task_execution now tid actor db = Inr (db', b)"
  obtains (finished) task where "row_by tk_id tid (tasks db) = Some task" "task_terminal (tk_state task)"
      "db' = db" "\<not> b"
  | (cancelled) task rs ws e where "row_by tk_id tid (tasks db) = Some task" "\<not> task_terminal (tk_state task)"
      "rs = filter (\<lambda>r. rn_task_id r = tid \<and> run_active r) (worker_runs db)"
      "db' = release_by_cancellation now task actor (fold (free_cancelled_worker now) ws
         (fold (cancel_run now task actor) rs (append_event now e
           (db\<lparr>tasks := upd_by tk_id tid (cancelled_task_row (timestamp now)) (tasks db)\<rparr>))))" "b"
  using assms unfolding cancel_task_execution_def
  by (auto simp: task_terminal_def Let_def cancelled_task_row_def [abs_def] split: if_split_asm)

text \<open>
  C9. Cancelling a task fences its execution at once. A terminal task is left alone. Otherwise the
  task is cancelled in its next version, none of its runs is active any more while the runs of other
  tasks are untouched, no claimant holds its lease at any later time, every provider job of a run
  that was active either had its result collected before, and keeps it, or can no longer deliver
  one, and no run of the task can be activated afterwards.
\<close>

theorem cancellation_fences:
  assumes "cancel_task_execution now tid actor db = Inr (db', b)"
    and "unique_key tk_id (tasks db)" and "unique_key rn_id (worker_runs db)"
  shows "\<exists>task. get_task db tid = Inr task \<and> (b \<longleftrightarrow> \<not> task_terminal (tk_state task)) \<and>
    (\<not> b \<longrightarrow> db' = db) \<and>
    (b \<longrightarrow>
       (\<exists>task'. get_task db' tid = Inr task' \<and> tk_state task' = TASK_CANCELLED \<and>
          tk_version task' = tk_version task + 1) \<and>
       (\<forall>r \<in> set (worker_runs db'). rn_task_id r = tid \<longrightarrow> \<not> run_active r) \<and>
       (\<forall>r \<in> set (worker_runs db). rn_task_id r \<noteq> tid \<longrightarrow> r \<in> set (worker_runs db')) \<and>
       (\<forall>later o1 g. \<not> lease_current later db' tid o1 g) \<and>
       (\<forall>r \<in> set (worker_runs db). \<forall>j \<in> set (provider_jobs db').
          rn_task_id r = tid \<and> run_active r \<and> jb_run_id j = rn_id r \<longrightarrow> job_fenced j) \<and>
       (\<forall>j \<in> set (provider_jobs db). jb_result_collection_state j = COLLECT_COLLECTED \<longrightarrow>
          j \<in> set (provider_jobs db')) \<and>
       (\<forall>later run lo g by1 db2 ok. get_worker_run db' (rn_id run) = Inr run \<and> rn_task_id run = tid \<and>
          activate_worker_run later (rn_id run) lo g by1 db' = Inr (db2, ok) \<longrightarrow> \<not> ok \<and> db2 = db'))"
  using assms(1)
proof (cases rule: cancel_task_executionE)
  case (finished task)
  then show ?thesis by (simp add: get_task_def)
next
  case (cancelled task rs ws e)
  let ?t = "timestamp now"
  have tid: "tk_id task = tid" using cancelled(1) by (rule row_by_key)
  have tasks': "tasks db' = upd_by tk_id tid (cancelled_task_row ?t) (tasks db)"
    by (simp add: cancelled(4) fold_frame [where field = tasks])
  have task': "get_task db' tid = Inr (cancelled_task_row ?t task)"
    using cancelled(1) by (simp add: get_task_def tasks' row_by_upd_by cancelled_task_row_def)
  have runs': "worker_runs db' = upd_where (\<lambda>r. rn_id r \<in> rn_id ` set rs) (cancelled_run ?t) (worker_runs db)"
    by (simp add: cancelled(4) fold_frame [where field = worker_runs] fold_cancel_run_runs)
  have jobs': "provider_jobs db' = provider_jobs (fold (cancel_run now task actor) rs (append_event now e
           (db\<lparr>tasks := upd_by tk_id tid (cancelled_task_row ?t) (tasks db)\<rparr>)))"
    by (simp add: cancelled(4) fold_frame [where field = provider_jobs])
  have idle: "\<forall>r \<in> set (worker_runs db'). rn_task_id r = tid \<longrightarrow> \<not> run_active r"
    unfolding runs' by (auto simp: cancelled(3) set_upd_where)
  have others: "\<forall>r \<in> set (worker_runs db). rn_task_id r \<noteq> tid \<longrightarrow> r \<in> set (worker_runs db')"
  proof (intro ballI impI)
    fix r assume r: "r \<in> set (worker_runs db)" "rn_task_id r \<noteq> tid"
    have "rn_id r \<notin> rn_id ` set rs"
      using r assms(3) by (auto simp: cancelled(3) unique_key_def distinct_map inj_on_def)
    then show "r \<in> set (worker_runs db')" using r(1) by (auto simp: runs' set_upd_where image_iff)
  qed
  have unlease: "\<not> lease_current later db' tid o1 g" for later o1 g
    using release_by_cancellation_lease [of later now task] by (simp add: cancelled(4) tid)
  have fenced: "job_fenced j" if "r \<in> set (worker_runs db)" "j \<in> set (provider_jobs db')"
      "rn_task_id r = tid" "run_active r" "jb_run_id j = rn_id r" for r j
    using fold_cancel_run_jobs [OF that(2) [unfolded jobs']] that by (auto simp: cancelled(3))
  have kept: "j \<in> set (provider_jobs db')"
    if "j \<in> set (provider_jobs db)" "jb_result_collection_state j = COLLECT_COLLECTED" for j
    unfolding jobs' using that by (intro fold_cancel_run_collected) simp_all
  have still: "\<not> ok \<and> db2 = db'" if "get_worker_run db' (rn_id run) = Inr run" "rn_task_id run = tid"
      "activate_worker_run later (rn_id run) lo g by1 db' = Inr (db2, ok)" for later run lo g by1 db2 ok
    using that task' by (auto simp: activate_worker_run_def get_worker_run_def get_task_def
        cancelled_task_row_def)
  have "\<exists>task'. get_task db' tid = Inr task' \<and> tk_state task' = TASK_CANCELLED \<and>
          tk_version task' = tk_version task + 1"
    using task' by (simp add: cancelled_task_row_def)
  moreover have "get_task db tid = Inr task" using cancelled(1) by (simp add: get_task_def)
  ultimately show ?thesis
    using cancelled(2,5) idle others unlease fenced kept still by blast
qed

section \<open>Transitions\<close>

lemma require_optional_lease_Inr:
  "require_optional_lease now db tid lo lg = Inr u \<longleftrightarrow>
     (lo = None \<and> lg = None) \<or> (\<exists>o1 g. lo = Some o1 \<and> lg = Some g \<and> lease_current now db tid o1 g)"
  by (cases lo; cases lg) (auto simp: require_optional_lease_def require_task_execution_lease_def)

text \<open>The row a transition writes, and everything a successful transition has checked and done.\<close>

definition moved_row :: "rat \<Rightarrow> task_state \<Rightarrow> task_row \<Rightarrow> task_row \<Rightarrow> task_row" where
  "moved_row now target row r = r\<lparr>tk_state := target,
     tk_started_at := (if target = TASK_RUNNING \<and> tk_started_at row = None then Some (timestamp now) else tk_started_at row),
     tk_finished_at := (if target \<in> {TASK_SUCCEEDED, TASK_FAILED, TASK_CANCELLED} then Some (timestamp now) else tk_finished_at row),
     tk_updated_at := timestamp now, tk_version := tk_version r + 1\<rparr>"

lemma moved_row_simps [simp]:
  "tk_id (moved_row now target row r) = tk_id r" "tk_state (moved_row now target row r) = target"
  "tk_version (moved_row now target row r) = tk_version r + 1"
  "tk_attempt_count (moved_row now target row r) = tk_attempt_count r"
  by (simp_all add: moved_row_def)

lemma moved_row_fold:
  "(\<lambda>r. r\<lparr>tk_state := target,
     tk_started_at := (if target = TASK_RUNNING \<and> tk_started_at row = None then Some (timestamp now) else tk_started_at row),
     tk_finished_at := (if target \<in> {TASK_SUCCEEDED, TASK_FAILED, TASK_CANCELLED} then Some (timestamp now) else tk_finished_at row),
     tk_updated_at := timestamp now, tk_version := tk_version r + 1\<rparr>) = moved_row now target row"
  by (rule ext) (simp add: moved_row_def)

lemma transition_taskE:
  assumes "transition_task now tid target actor summary payload ver lo lg db = Inr (db', row')"
  obtains row :: task_row and e where "row_by tk_id tid (tasks db) = Some row" "require_optional_lease now db tid lo lg = Inr ()"
    "allows TASK_TRANSITIONS (tk_state row) target" "\<And>v. ver = Some v \<Longrightarrow> tk_version row = v"
    "db' = append_event now e (db\<lparr>tasks := upd_where (\<lambda>r. tk_id r = tid \<and> tk_version r = tk_version row) (moved_row now target row) (tasks db)\<rparr>)"
    "ev_task_id e = Some tid" "row' = moved_row now target row row" "row_by tk_id tid (tasks db') = Some row'"
    "\<And>other. other \<noteq> tid \<Longrightarrow> row_by tk_id other (tasks db') = row_by tk_id other (tasks db)"
proof -
  from assms obtain row e where row: "row_by tk_id tid (tasks db) = Some row"
    and guards: "require_optional_lease now db tid lo lg = Inr ()" "allows TASK_TRANSITIONS (tk_state row) target"
      "\<forall>v. ver = Some v \<longrightarrow> tk_version row = v"
    and db': "db' = append_event now e (db\<lparr>tasks := upd_where (\<lambda>r. tk_id r = tid \<and> tk_version r = tk_version row)
      (moved_row now target row) (tasks db)\<rparr>)"
    and e: "ev_task_id e = Some tid" and row': "get_task db' tid = Inr row'"
    unfolding transition_task_def Let_def moved_row_fold
    by (auto simp: Let_def require_def mk_event_def split: option.splits if_split_asm)
  have t: "row_by tk_id k (tasks db') = map_option (\<lambda>r. if tk_id r = tid \<and> tk_version r = tk_version row then moved_row now target row r else r)
      (row_by tk_id k (tasks db))" for k
    by (simp add: db' row_by_upd_where)
  have "row' = moved_row now target row row"
    using row' row row_by_key [OF row] by (simp add: get_task_def t)
  moreover have "row_by tk_id other (tasks db') = row_by tk_id other (tasks db)" if "other \<noteq> tid" for other
    using that by (cases "row_by tk_id other (tasks db)") (auto simp: t dest: row_by_key)
  moreover have "row_by tk_id tid (tasks db') = Some row'" using row' by (auto simp: get_task_def)
  ultimately show ?thesis using that [OF row guards(1,2) _ db' e] guards(3) by blast
qed

text \<open>
  C10. A task changes state only along the transition graph, under optimistic concurrency and under
  the lease of the caller. A successful transition went from the stored state to the target along an
  edge of the graph (or stayed where it was), from the expected version where one was given and to the next one, with a
  current lease where one was named; only the row of the task changed, and one event was appended.
  A caller whose lease was taken over gets an error and leaves the database as it was.
\<close>

theorem transition_task_guarded:
  assumes "unique_key tk_id (tasks db)"
  shows "(\<forall>db' row'. transition_task now tid target actor summary payload ver lo lg db = Inr (db', row') \<longrightarrow>
      (\<exists>row. get_task db tid = Inr row \<and> allows TASK_TRANSITIONS (tk_state row) target \<and>
         (\<forall>v. ver = Some v \<longrightarrow> tk_version row = v) \<and>
         (\<forall>o1. lo = Some o1 \<longrightarrow> (\<exists>g. lg = Some g \<and> lease_current now db tid o1 g)) \<and>
         get_task db' tid = Inr row' \<and> tk_state row' = target \<and> tk_version row' = tk_version row + 1 \<and>
         (\<forall>other. other \<noteq> tid \<longrightarrow> get_task db' other = get_task db other) \<and>
         (\<exists>e. events db' = events db @ [e] \<and> ev_task_id e = Some tid))) \<and>
    (\<forall>o1 g. lo = Some o1 \<and> lg = Some g \<and> \<not> lease_current now db tid o1 g \<and> is_ok (get_task db tid) \<longrightarrow>
       transition_task now tid target actor summary payload ver lo lg db =
         Inl (ExecutionLeaseLostError tid o1 g))"
proof (intro conjI allI impI)
  fix db' row' assume "transition_task now tid target actor summary payload ver lo lg db = Inr (db', row')"
  then show "\<exists>row. get_task db tid = Inr row \<and> allows TASK_TRANSITIONS (tk_state row) target \<and>
         (\<forall>v. ver = Some v \<longrightarrow> tk_version row = v) \<and>
         (\<forall>o1. lo = Some o1 \<longrightarrow> (\<exists>g. lg = Some g \<and> lease_current now db tid o1 g)) \<and>
         get_task db' tid = Inr row' \<and> tk_state row' = target \<and> tk_version row' = tk_version row + 1 \<and>
         (\<forall>other. other \<noteq> tid \<longrightarrow> get_task db' other = get_task db other) \<and>
         (\<exists>e. events db' = events db @ [e] \<and> ev_task_id e = Some tid)"
  proof (cases rule: transition_taskE)
    case (1 row e)
    have "events db' = events db @ [e\<lparr>ev_sequence := highest_event_sequence db + 1, ev_created_at := timestamp now\<rparr>]"
      by (simp add: 1(5) append_event_def highest_event_sequence_def)
    with 1(6) have "\<exists>e. events db' = events db @ [e] \<and> ev_task_id e = Some tid" by auto
    moreover have "\<forall>other. other \<noteq> tid \<longrightarrow> get_task db' other = get_task db other"
      using 1(9) by (simp add: get_task_def fetch_def)
    ultimately show ?thesis using 1(1-4,7,8)
      by (intro exI [of _ row]) (auto simp: get_task_def require_optional_lease_Inr)
  qed
next
  fix o1 g assume a: "lo = Some o1 \<and> lg = Some g \<and> \<not> lease_current now db tid o1 g \<and> is_ok (get_task db tid)"
  then obtain row where "row_by tk_id tid (tasks db) = Some row" by (auto simp: is_ok_iff get_task_def)
  then show "transition_task now tid target actor summary payload ver lo lg db = Inl (ExecutionLeaseLostError tid o1 g)"
    using a by (simp add: transition_task_def fetch_def require_optional_lease_def require_task_execution_lease_def)
qed

section \<open>The journal and the leases under the operations of this theory\<close>

lemma journal_heartbeat:
  "heartbeat_task_execution_lease now tid o1 g ttl db = Inr (db', r) \<Longrightarrow> journal_extends db db'"
  by (auto simp: heartbeat_task_execution_lease_def Let_def)

lemma journal_release:
  "release_task_execution_lease now tid o1 g actor db = Inr (db', r) \<Longrightarrow> journal_extends db db'"
  by (auto simp: release_task_execution_lease_def Let_def split: option.splits if_split_asm)

lemma journal_set_worker_state:
  "set_worker_state now w st rs m t o1 g actor db = Inr (db', r) \<Longrightarrow> journal_extends db db'"
  by (auto simp: set_worker_state_def Let_def)

lemma journal_claim_workers: "claim_workers now ws actor db = Inr (db', r) \<Longrightarrow> journal_extends db db'"
  by (auto simp: claim_workers_def Let_def split: if_split_asm)

lemma journal_create_worker_run:
  "create_worker_run digest now u t w a tmo db = Inr (db', r) \<Longrightarrow> journal_extends db db'"
  by (auto simp: create_worker_run_def Let_def)

lemma journal_transition_worker_run:
  "transition_worker_run now run target u payload o1 g db = Inr (db', r) \<Longrightarrow> journal_extends db db'"
  by (auto simp: transition_worker_run_def Let_def)

lemma journal_claim_task_dispatch:
  "claim_task_dispatch digest now uuid tid ws ver tmo lo ttl ma actor db = Inr (db', r) \<Longrightarrow>
   journal_extends db db'"
  by (auto simp: claim_task_dispatch_def Let_def commit_claim_effect split: option.splits if_split_asm)

lemma activate_run_frame [simp]:
  "task_execution_leases (activate_run now run task actor db) = task_execution_leases db"
  "journal_extends d db \<Longrightarrow> journal_extends d (activate_run now run task actor db)"
  by (simp_all add: activate_run_def Let_def)

lemma activate_worker_runE:
  assumes "activate_worker_run now rid lo lg actor db = Inr (db', ok)"
  obtains "db' = db" "\<not> ok" | run task where "db' = activate_run now run task actor db" "ok"
    "row_by rn_id rid (worker_runs db) = Some run" "row_by tk_id (rn_task_id run) (tasks db) = Some task"
    "rn_state run = RUN_STARTING" "tk_state task = TASK_RUNNING"
    "require_optional_lease now db (rn_task_id run) lo lg = Inr ()"
proof -
  obtain run task where r: "row_by rn_id rid (worker_runs db) = Some run"
    and t: "row_by tk_id (rn_task_id run) (tasks db) = Some task"
    and l: "require_optional_lease now db (rn_task_id run) lo lg = Inr ()"
    and rest: "(if rn_state run \<noteq> RUN_STARTING \<or> tk_state task \<noteq> TASK_RUNNING then Inr (db, False)
       else case row_by wk_id (rn_worker_id run) (workers db) of
         None \<Rightarrow> Inr (db, False)
       | Some worker \<Rightarrow>
           if wk_state worker \<noteq> WORKER_STARTING then Inr (db, False)
           else Inr (activate_run now run task actor db, True)) = (Inr (db', ok) :: (db \<times> bool) result)"
    using assms unfolding activate_worker_run_def by (simp only: bindR_Inr_iff fetch_Inr_iff) force
  show thesis
  proof (cases "rn_state run \<noteq> RUN_STARTING \<or> tk_state task \<noteq> TASK_RUNNING \<or> ok = False")
    case True
    then show thesis using rest that(1) by (simp split: option.splits if_split_asm)
  next
    case False
    then show thesis using rest that(2) [OF _ _ r t _ _ l] by (simp split: option.splits if_split_asm)
  qed
qed
lemma journal_activate_worker_run:
  "activate_worker_run now run o1 g actor db = Inr (db', r) \<Longrightarrow> journal_extends db db'"
  by (elim activate_worker_runE) simp_all

lemma journal_cancel_task_execution:
  "cancel_task_execution now tid actor db = Inr (db', b) \<Longrightarrow> journal_extends db db'"
  by (erule cancel_task_executionE) (simp_all add: journal_extends_fold)

lemma journal_transition_task:
  "transition_task now tid target actor sm payload ver o1 g db = Inr (db', r) \<Longrightarrow> journal_extends db db'"
  by (auto simp: transition_task_def Let_def)

lemmas journal_dispatch =
  journal_heartbeat journal_release journal_set_worker_state journal_claim_workers
  journal_create_worker_run journal_transition_worker_run journal_claim_task_dispatch
  journal_activate_worker_run journal_cancel_task_execution journal_transition_task

lemma leases_kept_heartbeat:
  "heartbeat_task_execution_lease now tid o1 g ttl db = Inr (db', r) \<Longrightarrow> leases_kept now db db'"
  by (rule leases_kept_upd [where P = "\<lambda>l. tl_task_id l = tid \<and> tl_owner_id l = o1 \<and>
           tl_generation l = g \<and> tl_state l = LEASE_ACTIVE \<and> timestamp now < tl_expires_at l"
        and f = "\<lambda>l. l\<lparr>tl_heartbeat_at := timestamp now, tl_expires_at := timestamp (now + ttl)\<rparr>"])
    (auto simp: heartbeat_task_execution_lease_def Let_def lease_follows_def lease_live_def)

lemma leases_kept_release:
  "release_task_execution_lease now tid o1 g actor db = Inr (db', r) \<Longrightarrow> leases_kept now db db'"
  by (auto simp: release_task_execution_lease_def Let_def upd_by_def leases_kept_same
      split: option.splits if_split_asm intro!: leases_kept_upd)

lemma leases_kept_set_worker_state:
  "set_worker_state now w st rs m t o1 g actor db = Inr (db', r) \<Longrightarrow> leases_kept now db db'"
  by (rule leases_kept_same) (auto simp: set_worker_state_def Let_def)

lemma leases_kept_claim_workers: "claim_workers now ws actor db = Inr (db', r) \<Longrightarrow> leases_kept now db db'"
  by (rule leases_kept_same) (auto simp: claim_workers_def Let_def split: if_split_asm)

lemma leases_kept_create_worker_run:
  "create_worker_run digest now u t w a tmo db = Inr (db', r) \<Longrightarrow> leases_kept now db db'"
  by (rule leases_kept_same) (auto simp: create_worker_run_def Let_def)

lemma leases_kept_transition_worker_run:
  "transition_worker_run now run target u payload o1 g db = Inr (db', r) \<Longrightarrow> leases_kept now db db'"
  by (rule leases_kept_same) (auto simp: transition_worker_run_def Let_def)

lemma leases_kept_claim_task_dispatch:
  "claim_task_dispatch digest now uuid tid ws ver tmo lo ttl ma actor db = Inr (db', r) \<Longrightarrow>
   leases_kept now db db'"
  by (auto simp: claim_task_dispatch_def Let_def leases_kept_commit_claim leases_kept_acquire
      leases_kept_same split: option.splits if_split_asm)

lemma leases_kept_activate_worker_run:
  "activate_worker_run now run o1 g actor db = Inr (db', r) \<Longrightarrow> leases_kept now db db'"
  by (elim activate_worker_runE) (simp_all add: leases_kept_same)

lemma leases_kept_cancel_task_execution:
  assumes "cancel_task_execution now tid actor db = Inr (db', b)"
  shows "leases_kept now db db'"
  using assms
proof (cases rule: cancel_task_executionE)
  case (cancelled task rs ws e)
  have "leases_kept now db (fold (free_cancelled_worker now) ws
         (fold (cancel_run now task actor) rs (append_event now e
           (db\<lparr>tasks := upd_by tk_id tid (cancelled_task_row (timestamp now)) (tasks db)\<rparr>))))"
    by (rule leases_kept_same) (simp add: fold_frame [where field = task_execution_leases])
  then show ?thesis
    unfolding cancelled(4) using leases_kept_release_by_cancellation leases_kept_trans by blast
qed (simp add: leases_kept_same)

lemma leases_kept_transition_task:
  "transition_task now tid target actor sm payload ver o1 g db = Inr (db', r) \<Longrightarrow> leases_kept now db db'"
  by (rule leases_kept_same) (auto simp: transition_task_def Let_def)

lemmas leases_kept_dispatch =
  leases_kept_heartbeat leases_kept_release leases_kept_set_worker_state leases_kept_claim_workers
  leases_kept_create_worker_run leases_kept_transition_worker_run leases_kept_claim_task_dispatch
  leases_kept_activate_worker_run leases_kept_cancel_task_execution leases_kept_transition_task

section \<open>Examples\<close>

definition sample_worker_row :: "string \<Rightarrow> worker_row" where
  "sample_worker_row w =
     \<lparr>wk_id = w, wk_node_id = ''n1'', wk_harness = HARNESS_CODEX, wk_provider = PROVIDER_OPENAI,
      wk_model_id = None, wk_state = WORKER_IDLE, wk_resource_state = RES_AVAILABLE,
      wk_capabilities = [], wk_code_write_allowed = True, wk_privacy_allowed = True,
      wk_quality_score = 1, wk_reliability_score = 1, wk_expected_latency_seconds = 1,
      wk_monetary_cost_score = 0, wk_harness_version = None, wk_last_heartbeat_at = None,
      wk_created_at = 0, wk_updated_at = 0\<rparr>"

definition dispatch_db :: db where
  "dispatch_db = empty_db\<lparr>tasks := [sample_task ''t''], workers := [sample_worker_row ''w'']\<rparr>"

lemmas dispatch_simps = dispatch_db_def sample_task_def sample_worker_row_def empty_db_def row_simps
  fetch_def

lemma dispatch_db_keys:
  "unique_key tk_id (tasks dispatch_db)" "unique_key wk_id (workers dispatch_db)"
  "unique_key rn_id (worker_runs dispatch_db)"
  by (simp_all add: dispatch_simps unique_key_def)

lemma dispatch_db_claim:
  "\<exists>db' dc. claim_task_dispatch (\<lambda>_. []) 5 show_nat ''t'' [''w''] 1 None (Some ''host'') 30 None ''cli'' dispatch_db
     = Inr (db', Some dc)"
  by (simp add: claim_task_dispatch_def plan_dispatch_def dispatch_simps Let_def dict_fromkeys_def
      task_verification_dispatch_snapshot_def unsatisfied_dependencies_def
      workers_idle_def idle_count_def run_insertable_def new_run_def py_isspace_def)

theorem dispatch_claim_atomic_witness:
  "\<exists>db' dc. claim_task_dispatch (\<lambda>_. []) 5 show_nat ''t'' [''w''] 1 None (Some ''host'') 30 None ''cli'' dispatch_db
     = Inr (db', Some dc) \<and> length (worker_runs db') = 1 \<and>
     (\<exists>g. dc_lease_generation dc = Some g \<and> lease_current 5 db' ''t'' ''host'' g)"
proof -
  obtain db' dc where c: "claim_task_dispatch (\<lambda>_. []) 5 show_nat ''t'' [''w''] 1 None (Some ''host'') 30 None ''cli''
      dispatch_db = Inr (db', Some dc)"
    using dispatch_db_claim by blast
  note facts = dispatch_claim_atomic [OF c dispatch_db_keys(1,2), THEN conjunct2, rule_format, OF refl]
  obtain runs where "worker_runs db' = worker_runs dispatch_db @ runs" "map rn_worker_id runs = dict_fromkeys [''w'']"
    using facts by blast
  moreover have "worker_runs dispatch_db = []" by (simp add: dispatch_simps)
  moreover have "length runs = 1" if "map rn_worker_id runs = dict_fromkeys [''w'']"
    using arg_cong [OF that, of length] by (simp add: dict_fromkeys_def)
  ultimately show ?thesis using c facts by (metis append_Nil)
qed

theorem dispatch_claim_exclusive_witness:
  "\<exists>db1 dc. claim_task_dispatch (\<lambda>_. []) 5 show_nat ''t'' [''w''] 1 None (Some ''host'') 30 None ''cli'' dispatch_db
     = Inr (db1, Some dc) \<and>
     (\<exists>db2 r. claim_task_dispatch (\<lambda>_. []) 6 show_nat ''t'' [''w''] 2 None (Some ''other'') 30 None ''cli'' db1
        = Inr (db2, r) \<and> r = None \<and> db2 = db1)"
proof -
  obtain db1 dc where c: "claim_task_dispatch (\<lambda>_. []) 5 show_nat ''t'' [''w''] 1 None (Some ''host'') 30 None ''cli''
      dispatch_db = Inr (db1, Some dc)"
    using dispatch_db_claim by blast
  obtain p where p: "plan_dispatch (\<lambda>_. []) 5 show_nat ''t'' (dict_fromkeys [''w'']) 1 None (Some ''host'') 30 None
      ''cli'' dispatch_db = Inr (Some p)" and db1: "db1 = commit_claim 5 p dispatch_db"
    using c dispatch_db_keys(1) by (cases rule: claim_dispatchE) auto
  have "row_by tk_id ''t'' (tasks db1) = Some (claim_task_row 5 p (cp_task p))"
    unfolding db1 by (rule commit_claim_task [OF p])
  then obtain db2 r where c2: "claim_task_dispatch (\<lambda>_. []) 6 show_nat ''t'' [''w''] 2 None (Some ''other'') 30 None
      ''cli'' db1 = Inr (db2, r)"
    by (simp add: claim_task_dispatch_def plan_dispatch_def fetch_def claim_task_row_def Let_def py_isspace_def)
  from dispatch_claim_exclusive [OF c c2 dispatch_db_keys(1,2)] c c2 show ?thesis by blast
qed

theorem cancellation_fences_witness:
  "\<exists>db'. cancel_task_execution 5 ''t'' ''cli'' dispatch_db = Inr (db', True) \<and>
     (\<exists>task'. get_task db' ''t'' = Inr task' \<and> tk_state task' = TASK_CANCELLED)"
proof -
  have "\<exists>db'. cancel_task_execution 5 ''t'' ''cli'' dispatch_db = Inr (db', True)"
    by (simp add: cancel_task_execution_def dispatch_simps Let_def require_def allows_def successors_def
        TASK_TRANSITIONS_def)
  then obtain db' where c: "cancel_task_execution 5 ''t'' ''cli'' dispatch_db = Inr (db', True)" by blast
  from cancellation_fences [OF c dispatch_db_keys(1,3)] c show ?thesis by blast
qed

theorem transition_task_guarded_witness:
  "\<exists>db' row'. transition_task 5 ''t'' TASK_RUNNING ''cli'' None [] (Some 1) None None dispatch_db = Inr (db', row') \<and>
     get_task db' ''t'' = Inr row' \<and> tk_state row' = TASK_RUNNING"
proof -
  have "\<exists>r. transition_task 5 ''t'' TASK_RUNNING ''cli'' None [] (Some 1) None None dispatch_db = Inr r"
    by (simp add: transition_task_def dispatch_simps Let_def require_def allows_def successors_def
        TASK_TRANSITIONS_def require_optional_lease_def get_task_def)
  then obtain db' row' where
    c: "transition_task 5 ''t'' TASK_RUNNING ''cli'' None [] (Some 1) None None dispatch_db = Inr (db', row')"
    by fastforce
  from transition_task_guarded [OF dispatch_db_keys(1), THEN conjunct1, rule_format, OF c] c
  show ?thesis by blast
qed

end
