(* ===== verification/Store_Provider_Jobs.thy ===== *)
theory Store_Provider_Jobs
  imports Store_Dispatch
begin

text \<open>
  Durable provider jobs in \<^verbatim>\<open>src/project_supervisor/store.py\<close>: the identity of one run's external side
  effect. A job is prepared before the adapter is called, enters its launch boundary, is bound to the
  handle of the external job, is observed by reconciliation, and has its result collected once. Every
  write is fenced by the execution lease of the task. Escalations record what reconciliation cannot
  settle by itself.

  The hash \<open>sha\<close> yields the hexadecimal digest of a text.
\<close>

section \<open>Wire values\<close>

fun reconciliation_value :: "reconciliation_state \<Rightarrow> string" where
  "reconciliation_value RECON_UNKNOWN = ''unknown''"
| "reconciliation_value RECON_KNOWN_RUNNING = ''knownRunning''"
| "reconciliation_value RECON_KNOWN_COMPLETED = ''knownCompleted''"
| "reconciliation_value RECON_KNOWN_FAILED = ''knownFailed''"
| "reconciliation_value RECON_KNOWN_CANCELLED = ''knownCancelled''"
| "reconciliation_value RECON_PROVIDER_NOT_FOUND = ''providerNotFound''"
| "reconciliation_value RECON_PROVIDER_UNREACHABLE = ''providerUnreachable''"

definition all_reconciliation_state :: "reconciliation_state list" where
  "all_reconciliation_state =
     [RECON_UNKNOWN, RECON_KNOWN_RUNNING, RECON_KNOWN_COMPLETED, RECON_KNOWN_FAILED,
      RECON_KNOWN_CANCELLED, RECON_PROVIDER_NOT_FOUND, RECON_PROVIDER_UNREACHABLE]"

interpretation reconciliation_wire: wire_enum all_reconciliation_state reconciliation_value
proof
  show "x \<in> set all_reconciliation_state" for x
    by (cases x) (simp_all add: all_reconciliation_state_def)
  show "distinct (map reconciliation_value all_reconciliation_state)"
    by (simp add: all_reconciliation_state_def)
qed

text \<open>The text of \<^verbatim>\<open>compact_json\<close> sorts the keys of objects; values with equal text have equal canonical forms.\<close>

fun canonical_json :: "json \<Rightarrow> json" where
  "canonical_json (JObj kvs) = JObj (sort_key fst (map (\<lambda>(k, v). (k, canonical_json v)) kvs))"
| "canonical_json (JList vs) = JList (map canonical_json vs)"
| "canonical_json (JStr s) = JStr s"
| "canonical_json JNull = JNull"
| "canonical_json (JBool b) = JBool b"
| "canonical_json (JInt i) = JInt i"
| "canonical_json (JNum r) = JNum r"
| "canonical_json (JTime t) = JTime t"
| "canonical_json (JMicros t) = JMicros t"

definition canonical_dict :: "(string \<times> json) list \<Rightarrow> (string \<times> json) list" where
  "canonical_dict kvs = sort_key fst (map (\<lambda>(k, v). (k, canonical_json v)) kvs)"

section \<open>Access\<close>

definition provider_job_for_update :: "db \<Rightarrow> string \<Rightarrow> provider_job_row result" where
  "provider_job_for_update db run_id = fetch jb_run_id run_id (provider_jobs db) (KeyError run_id)"

definition get_provider_job :: "db \<Rightarrow> string \<Rightarrow> provider_job_row result" where
  "get_provider_job db run_id = fetch jb_run_id run_id (provider_jobs db) (KeyError run_id)"

text \<open>How every write to a job begins: the job of the run, and the lease of its task.\<close>

definition leased_job :: "rat \<Rightarrow> db \<Rightarrow> string \<Rightarrow> string \<Rightarrow> int \<Rightarrow> provider_job_row result" where
  "leased_job now db run_id owner_id generation =
     bindR (provider_job_for_update db run_id) (\<lambda>job.
     bindR (require_task_execution_lease now db (jb_task_id job) owner_id generation) (\<lambda>_.
     Inr job))"

definition update_job :: "provider_job_row \<Rightarrow> (provider_job_row \<Rightarrow> provider_job_row) \<Rightarrow> db \<Rightarrow> db" where
  "update_job job f db = db\<lparr>provider_jobs := upd_by jb_id (jb_id job) f (provider_jobs db)\<rparr>"

definition job_event ::
    "string \<Rightarrow> event_severity \<Rightarrow> provider_job_row \<Rightarrow> string \<Rightarrow> string \<Rightarrow> string \<Rightarrow>
     (string \<times> json) list \<Rightarrow> string \<Rightarrow> event" where
  "job_event kind severity job project_id run_id summary payload actor =
     mk_event kind severity ''providerJob'' (jb_id job) (Some project_id) (Some (jb_task_id job))
       (Some (jb_worker_id job)) (Some run_id) summary payload actor"

section \<open>Preparation\<close>

text \<open>The capability mapping has Boolean and integer values; a Boolean is the integer 0 or 1.\<close>

definition capability :: "(string \<Rightarrow> int option) \<Rightarrow> string \<Rightarrow> bool" where
  "capability caps key = (case caps key of None \<Rightarrow> False | Some v \<Rightarrow> v \<noteq> 0)"

definition supported_of :: "(string \<Rightarrow> int option) \<Rightarrow> job_capabilities" where
  "supported_of caps =
     \<lparr>jc_reconcile = capability caps ''supports_reconcile'',
      jc_resume = capability caps ''supports_resume'',
      jc_cancel = capability caps ''supports_cancel'',
      jc_durable_cancel = capability caps ''supports_durable_cancel'',
      jc_provider_idempotency = capability caps ''supports_provider_idempotency'',
      jc_stream_reconnect = capability caps ''supports_stream_reconnect'',
      jc_repeatable_collect = capability caps ''supports_repeatable_collect'',
      jc_idempotent_launch_lookup = capability caps ''supports_idempotent_launch_lookup'',
      jc_durable_launch_registry = capability caps ''supports_durable_launch_registry''\<rparr>"

definition supported_json :: "job_capabilities \<Rightarrow> json" where
  "supported_json c =
     JObj [(''supports_reconcile'', JBool (jc_reconcile c)), (''supports_resume'', JBool (jc_resume c)),
       (''supports_cancel'', JBool (jc_cancel c)),
       (''supports_durable_cancel'', JBool (jc_durable_cancel c)),
       (''supports_provider_idempotency'', JBool (jc_provider_idempotency c)),
       (''supports_stream_reconnect'', JBool (jc_stream_reconnect c)),
       (''supports_repeatable_collect'', JBool (jc_repeatable_collect c)),
       (''supports_idempotent_launch_lookup'', JBool (jc_idempotent_launch_lookup c)),
       (''supports_durable_launch_registry'', JBool (jc_durable_launch_registry c))]"

definition protocol_version_of :: "(string \<Rightarrow> int option) \<Rightarrow> int" where
  "protocol_version_of caps = (case caps ''protocol_version'' of None \<Rightarrow> 1 | Some v \<Rightarrow> v)"

definition unbound_handle :: job_handle where
  "unbound_handle =
     \<lparr>jh_handle_version = 1, jh_provider_job_id = None, jh_provider_session_id = None,
      jh_runtime_pid = None, jh_runtime_host = None, jh_runtime_identity = None,
      jh_adapter_metadata = []\<rparr>"

definition new_provider_job ::
    "string \<Rightarrow> run_row \<Rightarrow> provider \<Rightarrow> string \<Rightarrow> string \<Rightarrow> (string \<Rightarrow> int option) \<Rightarrow> int \<Rightarrow> int \<Rightarrow>
     provider_job_row" where
  "new_provider_job job_id run prov adapter_type adapter_instance_id caps generation t =
     \<lparr>jb_id = job_id, jb_run_id = rn_id run, jb_task_id = rn_task_id run,
      jb_worker_id = rn_worker_id run, jb_adapter_type = adapter_type,
      jb_adapter_instance_id = adapter_instance_id, jb_provider = prov, jb_handle = unbound_handle,
      jb_launch_generation = generation,
      jb_idempotency_key = ''supervisor-execution:'' @ rn_id run, jb_launch_state = LAUNCH_PREPARED,
      jb_reconciliation_state = RECON_UNKNOWN, jb_result_collection_state = COLLECT_PENDING,
      jb_supports = supported_of caps, jb_protocol_version = protocol_version_of caps,
      jb_created_at = t, jb_launched_at = None, jb_last_reconciled_at = None,
      jb_result_collected_at = None, jb_updated_at = t\<rparr>"

text \<open>The constraints of \<^verbatim>\<open>provider_jobs\<close> on an inserted row.\<close>

definition job_insertable :: "db \<Rightarrow> provider_job_row \<Rightarrow> bool" where
  "job_insertable db j \<longleftrightarrow>
     row_by jb_id (jb_id j) (provider_jobs db) = None \<and>
     row_by jb_run_id (jb_run_id j) (provider_jobs db) = None \<and>
     row_by jb_idempotency_key (jb_idempotency_key j) (provider_jobs db) = None \<and>
     0 < jb_launch_generation j"

definition same_intent ::
    "provider_job_row \<Rightarrow> string \<Rightarrow> string \<Rightarrow> (string \<Rightarrow> int option) \<Rightarrow> int \<Rightarrow> bool" where
  "same_intent j adapter_type adapter_instance_id caps generation \<longleftrightarrow>
     jb_adapter_type j = adapter_type \<and> jb_adapter_instance_id j = adapter_instance_id \<and>
     jb_launch_generation j = generation \<and> jb_protocol_version j = protocol_version_of caps \<and>
     jb_supports j = supported_of caps"

definition insert_provider_job ::
    "(string \<Rightarrow> string) \<Rightarrow> rat \<Rightarrow> provider_job_row \<Rightarrow> string \<Rightarrow> string \<Rightarrow> db \<Rightarrow> db" where
  "insert_provider_job sha now job project_id actor db =
     append_event now (job_event ''providerJobPrepared'' SEV_INFO job project_id (jb_run_id job)
       ''Durable provider execution identity prepared''
       [(''providerJobID'', JStr (jb_id job)), (''adapterType'', JStr (jb_adapter_type job)),
        (''protocolVersion'', JInt (jb_protocol_version job)),
        (''launchGeneration'', JInt (jb_launch_generation job)),
        (''idempotencyFingerprint'', JStr (take 16 (sha (jb_idempotency_key job)))),
        (''capabilities'', supported_json (jb_supports job))] actor)
     (db\<lparr>provider_jobs := provider_jobs db @ [job]\<rparr>)"

definition prepare_provider_job ::
    "(string \<Rightarrow> string) \<Rightarrow> rat \<Rightarrow> string \<Rightarrow> string \<Rightarrow> string \<Rightarrow> string \<Rightarrow> (string \<Rightarrow> int option) \<Rightarrow> string \<Rightarrow>
     int \<Rightarrow> string \<Rightarrow> db \<Rightarrow> (db \<times> provider_job_row) result" where
  "prepare_provider_job sha now uuid run_id adapter_type adapter_instance_id capabilities
     lease_owner_id lease_generation actor db =
     bindR (raise_if (\<not> nonblank adapter_type) (ValueError ''adapter_type must not be empty'')) (\<lambda>_.
     bindR (raise_if (\<not> nonblank adapter_instance_id)
       (ValueError ''adapter_instance_id must not be empty'')) (\<lambda>_.
     bindR (raise_if (protocol_version_of capabilities < 1)
       (ValueError ''provider job protocol_version must be positive'')) (\<lambda>_.
     bindR (fetch rn_id run_id (worker_runs db) (KeyError run_id)) (\<lambda>run.
     bindR (fetch tk_id (rn_task_id run) (tasks db) (KeyError run_id)) (\<lambda>task.
     bindR (fetch wk_id (rn_worker_id run) (workers db) (KeyError run_id)) (\<lambda>worker.
     bindR (require_task_execution_lease now db (rn_task_id run) lease_owner_id lease_generation) (\<lambda>_.
     case row_by jb_run_id run_id (provider_jobs db) of
       Some existing \<Rightarrow>
         if same_intent existing adapter_type adapter_instance_id capabilities lease_generation
         then Inr (db, existing)
         else Inl (RuntimeError (''provider job intent for '' @ run_id @ '' is immutable''))
     | None \<Rightarrow>
         (let job = new_provider_job (''provider-job-'' @ uuid) run (wk_provider worker) adapter_type
              adapter_instance_id capabilities lease_generation (timestamp now)
          in
          bindR (raise_if (\<not> job_insertable db job) (IntegrityError ''provider_jobs'')) (\<lambda>_.
          let db = insert_provider_job sha now job (tk_project_id task) actor db
          in bindR (get_provider_job db run_id) (\<lambda>r. Inr (db, r)))))))))))"

section \<open>Launch and handle\<close>

definition mark_provider_job_launching ::
    "rat \<Rightarrow> string \<Rightarrow> string \<Rightarrow> int \<Rightarrow> string \<Rightarrow> db \<Rightarrow> (db \<times> provider_job_row) result" where
  "mark_provider_job_launching now run_id lease_owner_id lease_generation actor db =
     bindR (leased_job now db run_id lease_owner_id lease_generation) (\<lambda>job.
     if jb_launch_state job \<in> {LAUNCH_LAUNCHING, LAUNCH_BOUND, LAUNCH_TERMINAL, LAUNCH_UNCERTAIN}
     then Inr (db, job)
     else
     bindR (raise_if (jb_launch_state job \<noteq> LAUNCH_PREPARED)
       (RuntimeError (''provider job '' @ jb_id job @ '' cannot be launched''))) (\<lambda>_.
     bindR (task_project db (jb_task_id job)) (\<lambda>project_id.
     let t = timestamp now;
         db = append_event now (job_event ''providerJobLaunchStarted'' SEV_INFO job project_id run_id
           ''Provider job launch boundary entered''
           [(''providerJobID'', JStr (jb_id job)),
            (''launchGeneration'', JInt (jb_launch_generation job))] actor)
           (update_job job (\<lambda>j. j\<lparr>jb_launch_state := LAUNCH_LAUNCHING, jb_launched_at := Some t,
              jb_updated_at := t\<rparr>) db)
     in bindR (get_provider_job db run_id) (\<lambda>r. Inr (db, r)))))"

definition bind_job :: "int \<Rightarrow> job_handle \<Rightarrow> provider_job_row \<Rightarrow> provider_job_row" where
  "bind_job t handle j =
     j\<lparr>jb_handle := handle, jb_launch_state := LAUNCH_BOUND,
       jb_launched_at := coalesce (jb_launched_at j) (Some t), jb_updated_at := t\<rparr>"

definition bindable :: "provider_job_row \<Rightarrow> bool" where
  "bindable job \<longleftrightarrow>
     jb_launch_state job \<in> {LAUNCH_PREPARED, LAUNCH_LAUNCHING} \<or>
     jb_launch_state job = LAUNCH_UNCERTAIN \<and> \<not> truthy (jh_provider_job_id (jb_handle job)) \<and>
     jc_provider_idempotency (jb_supports job)"

text \<open>The handle as it is stored: identities as given, metadata redacted and serialised.\<close>

definition stored_handle :: "job_handle \<Rightarrow> job_handle" where
  "stored_handle h = h\<lparr>jh_adapter_metadata := canonical_dict (redact_dict (jh_adapter_metadata h))\<rparr>"

definition bind_provider_job_handle ::
    "rat \<Rightarrow> string \<Rightarrow> string \<Rightarrow> string \<Rightarrow> job_handle \<Rightarrow> string \<Rightarrow> int \<Rightarrow> string \<Rightarrow> db \<Rightarrow>
     (db \<times> provider_job_row) result" where
  "bind_provider_job_handle now run_id adapter_type adapter_instance_id h lease_owner_id
     lease_generation actor db =
     bindR (raise_if (jh_handle_version h < 1)
       (ValueError ''provider job handle_version must be positive'')) (\<lambda>_.
     bindR (raise_if (\<not> truthy (jh_provider_job_id h) \<and> jh_runtime_pid h = None)
       (ValueError ''provider job handle requires provider or runtime identity'')) (\<lambda>_.
     bindR (raise_if (jh_runtime_pid h \<noteq> None \<and>
         (\<not> truthy (jh_runtime_host h) \<or> \<not> truthy (jh_runtime_identity h)))
       (ValueError ''runtime PID requires host and non-PID process identity'')) (\<lambda>_.
     bindR (leased_job now db run_id lease_owner_id lease_generation) (\<lambda>job.
     bindR (raise_if (jb_adapter_type job \<noteq> adapter_type \<or>
         jb_adapter_instance_id job \<noteq> adapter_instance_id)
       (RuntimeError ''provider job handle came from a different adapter instance'')) (\<lambda>_.
     if jb_launch_state job = LAUNCH_BOUND then
       (if jb_handle job = stored_handle h then Inr (db, job)
        else Inl (RuntimeError (''provider job handle for '' @ run_id @ '' is immutable'')))
     else
     bindR (raise_if (\<not> bindable job)
       (RuntimeError (''provider job '' @ jb_id job @ '' cannot bind a handle''))) (\<lambda>_.
     bindR (raise_if (case jh_runtime_pid h of None \<Rightarrow> False | Some pid \<Rightarrow> pid \<le> 0)
       (IntegrityError ''provider_jobs'')) (\<lambda>_.
     bindR (task_project db (jb_task_id job)) (\<lambda>project_id.
     let db = append_event now (job_event ''providerJobHandleBound'' SEV_NOTICE job project_id run_id
           ''Durable provider job handle bound''
           [(''providerJobID'', JStr (jb_id job)),
            (''hasProviderIdentity'', JBool (truthy (jh_provider_job_id h))),
            (''hasRuntimeIdentity'', JBool (jh_runtime_pid h \<noteq> None)),
            (''handleVersion'', JInt (jh_handle_version h))] actor)
           (update_job job (bind_job (timestamp now) (stored_handle h)) db)
     in bindR (get_provider_job db run_id) (\<lambda>r. Inr (db, r))))))))))"

section \<open>Observation and collection\<close>

definition observed_launch_state :: "reconciliation_state \<Rightarrow> provider_job_row \<Rightarrow> launch_state" where
  "observed_launch_state state job =
     (if state \<in> {RECON_KNOWN_COMPLETED, RECON_KNOWN_FAILED, RECON_KNOWN_CANCELLED} then LAUNCH_TERMINAL
      else if state \<in> {RECON_UNKNOWN, RECON_PROVIDER_UNREACHABLE} then LAUNCH_UNCERTAIN
      else if state = RECON_KNOWN_RUNNING \<and> truthy (jh_provider_job_id (jb_handle job)) then LAUNCH_BOUND
      else jb_launch_state job)"

definition record_provider_job_observation ::
    "rat \<Rightarrow> string \<Rightarrow> string \<Rightarrow> string option \<Rightarrow> string option \<Rightarrow> string \<Rightarrow> int \<Rightarrow> string \<Rightarrow> db \<Rightarrow>
     (db \<times> provider_job_row) result" where
  "record_provider_job_observation now run_id state_name provider_status detail lease_owner_id
     lease_generation actor db =
     (case enum_of all_reconciliation_state reconciliation_value state_name of
        None \<Rightarrow> Inl (ValueError (''unsupported provider reconciliation state: '' @ state_name))
      | Some state \<Rightarrow>
     bindR (leased_job now db run_id lease_owner_id lease_generation) (\<lambda>job.
     if jb_result_collection_state job = COLLECT_COLLECTED then Inr (db, job)
     else
     let t = timestamp now;
         db1 = update_job job (\<lambda>j. j\<lparr>jb_reconciliation_state := state,
             jb_launch_state := observed_launch_state state job,
             jb_last_reconciled_at := Some t, jb_updated_at := t\<rparr>) db
     in
     bindR (if jb_reconciliation_state job = state then Inr db1
       else bindR (task_project db (jb_task_id job)) (\<lambda>project_id.
         Inr (append_event now (job_event ''providerJobReconciled''
           (if state \<in> {RECON_UNKNOWN, RECON_PROVIDER_UNREACHABLE, RECON_PROVIDER_NOT_FOUND}
            then SEV_WARNING else SEV_NOTICE) job project_id run_id
           (''Provider job reconciled as '' @ state_name)
           [(''providerJobID'', JStr (jb_id job)), (''state'', JStr state_name),
            (''providerStatus'', json_opt JStr (redact_opt provider_status)),
            (''detail'', json_opt JStr (redact_opt detail))] actor) db1))) (\<lambda>db2.
     bindR (get_provider_job db2 run_id) (\<lambda>r. Inr (db2, r)))))"

text \<open>The reconciliation state of each terminal run state; other run states cannot be collected.\<close>

definition collected_observation :: "run_state \<Rightarrow> reconciliation_state option" where
  "collected_observation target =
     (case target of
        RUN_COMPLETED \<Rightarrow> Some RECON_KNOWN_COMPLETED
      | RUN_FAILED \<Rightarrow> Some RECON_KNOWN_FAILED
      | RUN_CANCELLED \<Rightarrow> Some RECON_KNOWN_CANCELLED
      | RUN_TIMED_OUT \<Rightarrow> Some RECON_KNOWN_FAILED
      | RUN_AUTH_REQUIRED \<Rightarrow> Some RECON_KNOWN_FAILED
      | RUN_RATE_LIMITED \<Rightarrow> Some RECON_KNOWN_FAILED
      | _ \<Rightarrow> None)"

definition collect_job :: "int \<Rightarrow> reconciliation_state \<Rightarrow> provider_job_row \<Rightarrow> provider_job_row" where
  "collect_job t state j =
     j\<lparr>jb_launch_state := LAUNCH_TERMINAL, jb_reconciliation_state := state,
       jb_result_collection_state := COLLECT_COLLECTED, jb_result_collected_at := Some t,
       jb_last_reconciled_at := coalesce (jb_last_reconciled_at j) (Some t), jb_updated_at := t\<rparr>"

definition collection_event ::
    "provider_job_row \<Rightarrow> reconciliation_state \<Rightarrow> string \<Rightarrow> string \<Rightarrow> string \<Rightarrow> event" where
  "collection_event job state project_id run_id actor =
     job_event ''providerJobResultCollected'' SEV_NOTICE job project_id run_id
       ''Provider job result collected into canonical state''
       [(''providerJobID'', JStr (jb_id job)), (''state'', JStr (reconciliation_value state))] actor"

definition mark_provider_job_result_collected ::
    "rat \<Rightarrow> string \<Rightarrow> string \<Rightarrow> string \<Rightarrow> int \<Rightarrow> string \<Rightarrow> db \<Rightarrow> (db \<times> provider_job_row) result" where
  "mark_provider_job_result_collected now run_id terminal_state lease_owner_id lease_generation actor db =
     (case Option.bind (enum_of all_run_state run_state_value terminal_state) collected_observation of
        None \<Rightarrow> Inl (ValueError ''provider result collection requires a terminal Worker run state'')
      | Some state \<Rightarrow>
     bindR (leased_job now db run_id lease_owner_id lease_generation) (\<lambda>job.
     if jb_result_collection_state job = COLLECT_COLLECTED then Inr (db, job)
     else
     bindR (task_project db (jb_task_id job)) (\<lambda>project_id.
     let db = append_event now (collection_event job state project_id run_id actor)
           (update_job job (collect_job (timestamp now) state) db)
     in bindR (get_provider_job db run_id) (\<lambda>r. Inr (db, r)))))"

section \<open>Finalization\<close>

definition finalize_run :: "int \<Rightarrow> run_state \<Rightarrow> run_update \<Rightarrow> run_row \<Rightarrow> run_row" where
  "finalize_run t target u r =
     r\<lparr>rn_state := target,
       rn_process_id := coalesce (ru_process_id u) (rn_process_id r),
       rn_session_id := coalesce (ru_session_id u) (rn_session_id r),
       rn_last_event_at := Some t, rn_ended_at := Some t,
       rn_exit_code := coalesce (ru_exit_code u) (rn_exit_code r),
       rn_failure_class := coalesce (ru_failure_class u) (rn_failure_class r),
       rn_failure_detail := coalesce (redact_opt (ru_failure_detail u)) (rn_failure_detail r),
       rn_raw_output_reference := coalesce (ru_raw_output_reference u) (rn_raw_output_reference r),
       rn_updated_at := t\<rparr>"

definition finalize_event_kind :: "run_state \<Rightarrow> string" where
  "finalize_event_kind target =
     (case target of
        RUN_COMPLETED \<Rightarrow> ''workerCompleted'' | RUN_CANCELLED \<Rightarrow> ''workerCancelled''
      | RUN_TIMED_OUT \<Rightarrow> ''workerTimedOut'' | RUN_AUTH_REQUIRED \<Rightarrow> ''workerAuthRequired''
      | RUN_RATE_LIMITED \<Rightarrow> ''workerRateLimited'' | _ \<Rightarrow> ''workerFailed'')"

definition terminalize_run ::
    "rat \<Rightarrow> run_row \<Rightarrow> task_row \<Rightarrow> run_state \<Rightarrow> run_update \<Rightarrow> string \<Rightarrow> db \<Rightarrow> db" where
  "terminalize_run now run task target u actor db =
     append_event now (mk_event (finalize_event_kind target)
       (if target = RUN_COMPLETED then SEV_NOTICE else SEV_WARNING) ''workerRun'' (rn_id run)
       (Some (tk_project_id task)) (Some (rn_task_id run)) (Some (rn_worker_id run)) (Some (rn_id run))
       (''Worker run '' @ run_state_value (rn_state run) @ '' -> '' @ run_state_value target)
       [(''from'', JStr (run_state_value (rn_state run))), (''to'', JStr (run_state_value target))] actor)
     (db\<lparr>worker_runs := upd_by rn_id (rn_id run) (finalize_run (timestamp now) target u) (worker_runs db)\<rparr>)"

text \<open>Does the guarded worker update of a finalization change a row?\<close>

definition worker_released :: "db \<Rightarrow> run_row \<Rightarrow> bool" where
  "worker_released db run \<longleftrightarrow>
     row_by wk_id (rn_worker_id run) (workers db) \<noteq> None \<and>
     \<not> worker_has_active_run db (rn_worker_id run) (Some (rn_id run))"

definition release_worker ::
    "rat \<Rightarrow> run_row \<Rightarrow> worker_state \<Rightarrow> resource_state option \<Rightarrow> string option \<Rightarrow> string \<Rightarrow> db \<Rightarrow> db" where
  "release_worker now run state resource_state model_id actor db =
     (case row_by wk_id (rn_worker_id run) (workers db) of
        None \<Rightarrow> db
      | Some worker \<Rightarrow>
          if \<not> worker_released db run then db
          else
          (let t = timestamp now;
               db = db\<lparr>workers := upd_by wk_id (rn_worker_id run)
                 (\<lambda>w. w\<lparr>wk_state := state,
                    wk_resource_state := (case resource_state of None \<Rightarrow> wk_resource_state w | Some r \<Rightarrow> r),
                    wk_model_id := coalesce model_id (wk_model_id w),
                    wk_last_heartbeat_at := Some t, wk_updated_at := t\<rparr>) (workers db)\<rparr>
           in if wk_state worker = state then db
              else append_event now (worker_state_event (rn_worker_id run) None (Some (rn_task_id run))
                (Some (rn_id run)) (wk_state worker) state actor) db))"

text \<open>A persisted cancellation of the task wins over what the provider reports.\<close>

definition cancellation_wins :: "run_row \<Rightarrow> task_row \<Rightarrow> bool" where
  "cancellation_wins run task \<longleftrightarrow> rn_state run = RUN_CANCELLED \<and> tk_state task = TASK_CANCELLED"

definition finalize_run_part ::
    "rat \<Rightarrow> run_row \<Rightarrow> task_row \<Rightarrow> run_state \<Rightarrow> run_update \<Rightarrow> string \<Rightarrow> db \<Rightarrow> db" where
  "finalize_run_part now run task target u actor db =
     (if rn_state run \<noteq> target \<and> \<not> cancellation_wins run task
      then terminalize_run now run task target u actor db else db)"

definition finalize_worker_part ::
    "rat \<Rightarrow> provider_job_row \<Rightarrow> run_row \<Rightarrow> task_row \<Rightarrow> worker_state \<Rightarrow> resource_state option \<Rightarrow>
     string option \<Rightarrow> string \<Rightarrow> db \<Rightarrow> db" where
  "finalize_worker_part now job run task state resource_state model_id actor db =
     (if \<not> cancellation_wins run task \<and> jb_result_collection_state job \<noteq> COLLECT_COLLECTED
      then release_worker now run state resource_state model_id actor db else db)"

definition finalize_job_part ::
    "rat \<Rightarrow> provider_job_row \<Rightarrow> run_row \<Rightarrow> task_row \<Rightarrow> reconciliation_state \<Rightarrow> string \<Rightarrow> db \<Rightarrow> db" where
  "finalize_job_part now job run task observation actor db =
     (if jb_result_collection_state job \<noteq> COLLECT_COLLECTED
      then append_event now (mk_event ''providerJobResultCollected'' SEV_NOTICE ''providerJob''
             (jb_id job) (Some (tk_project_id task)) (Some (rn_task_id run)) (Some (rn_worker_id run))
             (Some (rn_id run)) ''Provider job result collected into canonical state''
             [(''providerJobID'', JStr (jb_id job)),
              (''state'', JStr (reconciliation_value observation))] actor)
           (update_job job (collect_job (timestamp now) observation) db)
      else db)"

definition finalize_provider_job_result ::
    "rat \<Rightarrow> string \<Rightarrow> run_state \<Rightarrow> run_update \<Rightarrow> worker_state \<Rightarrow> resource_state option \<Rightarrow> string option \<Rightarrow>
     string \<Rightarrow> int \<Rightarrow> string \<Rightarrow> db \<Rightarrow> (db \<times> run_row) result" where
  "finalize_provider_job_result now run_id target u worker_state resource_state model_id
     lease_owner_id lease_generation actor db =
     (case collected_observation target of
        None \<Rightarrow> Inl (ValueError ''provider result must map to a terminal Worker run state'')
      | Some observation \<Rightarrow>
     bindR (leased_job now db run_id lease_owner_id lease_generation) (\<lambda>job.
     bindR (fetch rn_id run_id (worker_runs db) (KeyError run_id)) (\<lambda>run.
     bindR (raise_if (row_by rs_run_id run_id (worker_results db) = None)
       (RuntimeError ''canonical Worker result must be saved before finalization'')) (\<lambda>_.
     bindR (fetch tk_id (rn_task_id run) (tasks db) (TypeError ''NoneType'')) (\<lambda>task.
     let current = rn_state run;
         final = (collected_observation current \<noteq> None)
     in
     bindR (raise_if (final \<and> current \<noteq> target \<and> \<not> cancellation_wins run task)
       (RuntimeError (''provider result conflicts with terminal run '' @ run_id @ '': '' @
          run_state_value current @ '' != '' @ run_state_value target))) (\<lambda>_.
     bindR (if final then Inr () else require run_state_value RUN_TRANSITIONS current target) (\<lambda>_.
     bindR (raise_if (current \<noteq> target \<and> \<not> cancellation_wins run task \<and>
         (case ru_session_id u of None \<Rightarrow> False | Some s \<Rightarrow> row_by se_id s (sessions db) = None))
       (IntegrityError ''worker_runs'')) (\<lambda>_.
     let db1 = finalize_run_part now run task target u actor db
     in
     bindR (raise_if (\<not> cancellation_wins run task \<and>
         jb_result_collection_state job \<noteq> COLLECT_COLLECTED \<and> worker_released db1 run \<and>
         (case model_id of None \<Rightarrow> False | Some m \<Rightarrow> row_by ml_id m (models db) = None))
       (IntegrityError ''workers'')) (\<lambda>_.
     let db2 = finalize_worker_part now job run task worker_state resource_state model_id actor db1;
         db3 = finalize_job_part now job run task observation actor db2
     in bindR (get_worker_run db3 run_id) (\<lambda>r. Inr (db3, r)))))))))))"

section \<open>Reconciliation\<close>

text \<open>The join of a job with its run, task and worker, and the filter for reconcilable jobs.\<close>

definition lease_free :: "rat \<Rightarrow> db \<Rightarrow> string \<Rightarrow> bool" where
  "lease_free now db task_id =
     (case row_by tl_task_id task_id (task_execution_leases db) of
        None \<Rightarrow> True
      | Some l \<Rightarrow> tl_state l \<noteq> LEASE_ACTIVE \<or> tl_expires_at l \<le> timestamp now)"

definition reconcilable :: "rat \<Rightarrow> db \<Rightarrow> provider_job_row \<Rightarrow> run_row \<Rightarrow> task_row \<Rightarrow> bool" where
  "reconcilable now db job run task \<longleftrightarrow>
     ((run_active run \<and> tk_state task \<in> {TASK_RUNNING, TASK_WAITING}) \<or>
      (rn_state run = RUN_CANCELLED \<and> tk_state task = TASK_CANCELLED \<and>
       jb_result_collection_state job \<in> {COLLECT_PENDING, COLLECT_UNCERTAIN})) \<and>
     lease_free now db (jb_task_id job) \<and> jb_launch_state job \<noteq> LAUNCH_PREPARED"

definition list_provider_jobs ::
    "rat \<Rightarrow> db \<Rightarrow> string option \<Rightarrow> bool \<Rightarrow> (provider_job_row \<times> run_row \<times> task_row \<times> worker_row) list" where
  "list_provider_jobs now db task_id reconcilable_only =
     concat (map (\<lambda>job.
       case (row_by rn_id (jb_run_id job) (worker_runs db), row_by tk_id (jb_task_id job) (tasks db),
             row_by wk_id (jb_worker_id job) (workers db)) of
         (Some run, Some task, Some worker) \<Rightarrow>
           if (case task_id of None \<Rightarrow> True | Some t \<Rightarrow> jb_task_id job = t) \<and>
              (reconcilable_only \<longrightarrow> reconcilable now db job run task)
           then [(job, run, task, worker)] else []
       | _ \<Rightarrow> [])
     (sort_key (\<lambda>j. (jb_created_at j, jb_id j)) (provider_jobs db)))"

definition claim_task_reconciliation ::
    "rat \<Rightarrow> string \<Rightarrow> string \<Rightarrow> rat \<Rightarrow> bool \<Rightarrow> string \<Rightarrow> db \<Rightarrow> (db \<times> int option) result" where
  "claim_task_reconciliation now task_id owner_id lease_ttl_seconds allow_cancelled actor db =
     bindR (raise_if (\<not> nonblank owner_id) (ValueError ''reconciliation owner_id must not be empty'')) (\<lambda>_.
     bindR (raise_if (lease_ttl_seconds < 1)
       (ValueError ''lease_ttl_seconds must be at least one second'')) (\<lambda>_.
     bindR (fetch tk_id task_id (tasks db) (KeyError task_id)) (\<lambda>task.
     if tk_state task \<notin> {TASK_RUNNING, TASK_WAITING} \<union> (if allow_cancelled then {TASK_CANCELLED} else {})
       then Inr (db, None)
     else if \<not> lease_free now db task_id then Inr (db, None)
     else
     let generation = next_generation db task_id
     in Inr (append_event now (mk_event ''taskExecutionLeaseAcquired'' SEV_INFO ''task'' task_id
          (Some (tk_project_id task)) (Some task_id) None None
          ''Task execution lease acquired for provider reconciliation''
          [(''ownerID'', JStr owner_id), (''generation'', JInt generation),
           (''expiresAt'', JTime (timestamp (now + lease_ttl_seconds))),
           (''purpose'', JStr (if tk_state task = TASK_CANCELLED
              then ''providerCancellationReconciliation'' else ''providerReconciliation''))] actor)
        (acquire_lease now task_id owner_id lease_ttl_seconds db), Some generation))))"

definition interrupt_run :: "int \<Rightarrow> run_row \<Rightarrow> run_row" where
  "interrupt_run t r =
     r\<lparr>rn_state := RUN_INTERRUPTED, rn_ended_at := Some t,
       rn_failure_class := Some FAIL_INFRASTRUCTURE,
       rn_failure_detail := Some ''provider definitively reported job not found'', rn_updated_at := t\<rparr>"

definition free_interrupted_worker :: "rat \<Rightarrow> run_row \<Rightarrow> db \<Rightarrow> db" where
  "free_interrupted_worker now run db =
     db\<lparr>workers := upd_where
       (\<lambda>w. wk_id w = rn_worker_id run \<and>
          \<not> worker_has_active_run db (rn_worker_id run) (Some (rn_id run)))
       (\<lambda>w. w\<lparr>wk_state := WORKER_IDLE, wk_updated_at := timestamp now\<rparr>) (workers db)\<rparr>"

definition missing_job :: "int \<Rightarrow> provider_job_row \<Rightarrow> provider_job_row" where
  "missing_job t j =
     j\<lparr>jb_launch_state := LAUNCH_TERMINAL, jb_reconciliation_state := RECON_PROVIDER_NOT_FOUND,
       jb_result_collection_state := COLLECT_NOT_AVAILABLE, jb_last_reconciled_at := Some t,
       jb_updated_at := t\<rparr>"

definition requeue_missing ::
    "rat \<Rightarrow> provider_job_row \<Rightarrow> run_row \<Rightarrow> task_row \<Rightarrow> string \<Rightarrow> db \<Rightarrow> db" where
  "requeue_missing now job run task actor db =
     (let t = timestamp now;
          target = (if tk_state task = TASK_RUNNING then TASK_INTERRUPTED else TASK_READY);
          db = db\<lparr>worker_runs := upd_by rn_id (rn_id run) (interrupt_run t) (worker_runs db)\<rparr>;
          db = free_interrupted_worker now run db;
          db = db\<lparr>tasks := upd_by tk_id (tk_id task)
             (\<lambda>r. r\<lparr>tk_state := target, tk_updated_at := t, tk_version := tk_version r + 1\<rparr>) (tasks db)\<rparr>;
          db = update_job job (missing_job t) db
      in append_events now
          [mk_event ''workerRunInterrupted'' SEV_WARNING ''workerRun'' (rn_id run)
             (Some (tk_project_id task)) (Some (tk_id task)) (Some (rn_worker_id run)) (Some (rn_id run))
             ''Worker run interrupted after provider reported job missing''
             [(''previousState'', JStr (run_state_value (rn_state run))),
              (''reasonCode'', JStr ''PROVIDER_NOT_FOUND'')] actor,
           mk_event ''taskRecovered'' SEV_WARNING ''task'' (tk_id task) (Some (tk_project_id task))
             (Some (tk_id task)) None None ''Task made retryable after provider confirmed job absence''
             [(''from'', JStr (task_state_value (tk_state task))),
              (''to'', JStr (task_state_value target))] actor] db)"

definition interrupt_missing_provider_job ::
    "rat \<Rightarrow> string \<Rightarrow> string \<Rightarrow> int \<Rightarrow> string \<Rightarrow> db \<Rightarrow> (db \<times> unit) result" where
  "interrupt_missing_provider_job now run_id lease_owner_id lease_generation actor db =
     bindR (leased_job now db run_id lease_owner_id lease_generation) (\<lambda>job.
     bindR (fetch rn_id run_id (worker_runs db) (TypeError ''NoneType'')) (\<lambda>run.
     if \<not> run_active run then Inr (db, ())
     else
     bindR (fetch tk_id (jb_task_id job) (tasks db) (TypeError ''NoneType'')) (\<lambda>task.
     Inr (requeue_missing now job run task actor db, ()))))"

section \<open>Escalations\<close>

definition escalation_codes :: "string list" where
  "escalation_codes =
     [''PROVIDER_STATE_AMBIGUOUS'', ''EXTERNAL_JOB_UNREACHABLE'', ''IDEMPOTENCY_UNCERTAIN'',
      ''RESUME_UNSUPPORTED'', ''RESULT_COLLECTION_UNCERTAIN'']"

text \<open>\<^verbatim>\<open>ORDER BY created_at DESC,id DESC LIMIT 1\<close>\<close>

definition action_goal :: "db \<Rightarrow> string \<Rightarrow> string option" where
  "action_goal db task_id =
     (case rev (sort_key (\<lambda>a. (ac_created_at a, ac_id a))
             (filter (\<lambda>a. ac_task_id a = Some task_id) (autonomous_actions db))) of
        [] \<Rightarrow> None | a # _ \<Rightarrow> Some (ac_goal_id a))"

definition open_escalation :: "provider_job_row \<Rightarrow> string \<Rightarrow> escalation_row \<Rightarrow> bool" where
  "open_escalation job code e \<longleftrightarrow>
     es_provider_job_id e = Some (jb_id job) \<and> es_code e = code \<and> es_state e = ''open''"

definition new_escalation ::
    "rat \<Rightarrow> string \<Rightarrow> db \<Rightarrow> provider_job_row \<Rightarrow> string \<Rightarrow> string \<Rightarrow> string \<Rightarrow> string \<Rightarrow> string option \<Rightarrow>
     string \<Rightarrow> escalation_row" where
  "new_escalation now eid db job project_id run_id code summary detail actor =
     \<lparr>es_id = eid, es_project_id = project_id, es_goal_id = action_goal db (jb_task_id job),
      es_task_id = Some (jb_task_id job), es_run_id = Some run_id,
      es_provider_job_id = Some (jb_id job), es_code = code, es_state = ''open'',
      es_summary = redact_string summary,
      es_detail = (if truthy detail then redact_opt detail else None), es_created_by = actor,
      es_resolved_by = None, es_created_at = timestamp now, es_updated_at = timestamp now,
      es_resolved_at = None\<rparr>"

definition request_execution_escalation ::
    "rat \<Rightarrow> string \<Rightarrow> string \<Rightarrow> string \<Rightarrow> string \<Rightarrow> string option \<Rightarrow> string \<Rightarrow> int \<Rightarrow> string \<Rightarrow> db \<Rightarrow>
     (db \<times> string) result" where
  "request_execution_escalation now uuid run_id code summary detail lease_owner_id lease_generation
     actor db =
     bindR (raise_if (code \<notin> set escalation_codes)
       (ValueError (''unsupported execution escalation code: '' @ code))) (\<lambda>_.
     bindR (leased_job now db run_id lease_owner_id lease_generation) (\<lambda>job.
     case List.find (open_escalation job code) (execution_escalations db) of
       Some e \<Rightarrow> Inr (db, es_id e)
     | None \<Rightarrow>
     bindR (task_project db (jb_task_id job)) (\<lambda>project_id.
     let eid = ''escalation-'' @ uuid;
         row = new_escalation now eid db job project_id run_id code summary detail actor
     in
     bindR (raise_if (row_by es_id eid (execution_escalations db) \<noteq> None)
       (IntegrityError ''execution_escalations'')) (\<lambda>_.
     Inr (append_event now (mk_event ''humanEscalationRequested'' SEV_ERROR ''executionEscalation'' eid
         (Some project_id) (Some (jb_task_id job)) (Some (jb_worker_id job)) (Some run_id)
         (redact_string summary)
         [(''escalationID'', JStr eid), (''providerJobID'', JStr (jb_id job)), (''code'', JStr code)]
         actor) (db\<lparr>execution_escalations := execution_escalations db @ [row]\<rparr>), eid)))))"

definition resolve_escalation ::
    "rat \<Rightarrow> provider_job_row \<Rightarrow> string \<Rightarrow> string \<Rightarrow> string \<Rightarrow> string \<Rightarrow> escalation_row \<Rightarrow> db \<Rightarrow> db" where
  "resolve_escalation now job project_id run_id resolution actor e db =
     append_event now (mk_event ''humanEscalationResolved'' SEV_NOTICE ''executionEscalation'' (es_id e)
       (Some project_id) (Some (jb_task_id job)) (Some (jb_worker_id job)) (Some run_id)
       (''Execution escalation '' @ es_code e @ '' resolved'')
       [(''escalationID'', JStr (es_id e)), (''providerJobID'', JStr (jb_id job)),
        (''code'', JStr (es_code e)), (''resolution'', JStr (redact_string resolution))] actor)
     (db\<lparr>execution_escalations := upd_where (\<lambda>r. es_id r = es_id e \<and> es_state r = ''open'')
        (\<lambda>r. r\<lparr>es_state := ''resolved'', es_resolved_by := Some actor,
               es_resolved_at := Some (timestamp now), es_updated_at := timestamp now\<rparr>)
        (execution_escalations db)\<rparr>)"

definition resolve_execution_escalations ::
    "rat \<Rightarrow> string \<Rightarrow> string \<Rightarrow> int \<Rightarrow> string list option \<Rightarrow> string \<Rightarrow> string \<Rightarrow> db \<Rightarrow> (db \<times> nat) result" where
  "resolve_execution_escalations now run_id lease_owner_id lease_generation codes resolution actor db =
     bindR (leased_job now db run_id lease_owner_id lease_generation) (\<lambda>job.
     let rows = sort_key (\<lambda>e. (es_created_at e, es_id e)) (filter
           (\<lambda>e. es_provider_job_id e = Some (jb_id job) \<and> es_state e = ''open'' \<and>
              (case codes of None \<Rightarrow> True | Some cs \<Rightarrow> es_code e \<in> set cs)) (execution_escalations db))
     in
     if rows = [] then Inr (db, 0)
     else
     bindR (task_project db (jb_task_id job)) (\<lambda>project_id.
     Inr (fold (resolve_escalation now job project_id run_id resolution actor) rows db, length rows)))"

definition list_execution_escalations ::
    "db \<Rightarrow> string option \<Rightarrow> string option \<Rightarrow> escalation_row list" where
  "list_execution_escalations db run_id state =
     sort_key (\<lambda>e. (es_created_at e, es_id e)) (filter
       (\<lambda>e. (case run_id of None \<Rightarrow> True | Some r \<Rightarrow> es_run_id e = Some r) \<and>
            (case state of None \<Rightarrow> True | Some s \<Rightarrow> es_state e = s)) (execution_escalations db))"

section \<open>Fencing\<close>

lemma leased_job_Inr [simp]:
  "leased_job now db rid o1 g = Inr job \<longleftrightarrow>
     row_by jb_run_id rid (provider_jobs db) = Some job \<and> lease_current now db (jb_task_id job) o1 g"
  by (auto simp: leased_job_def provider_job_for_update_def require_task_execution_lease_def)

lemma leased_job_lost:
  "row_by jb_run_id rid (provider_jobs db) = Some job \<Longrightarrow> \<not> lease_current now db (jb_task_id job) o1 g \<Longrightarrow>
   leased_job now db rid o1 g = Inl (ExecutionLeaseLostError (jb_task_id job) o1 g)"
  by (simp add: leased_job_def provider_job_for_update_def require_task_execution_lease_def fetch_def)

lemma update_job_frame [simp]:
  "events (update_job job f db) = events db"
  "tasks (update_job job f db) = tasks db"
  "workers (update_job job f db) = workers db"
  "worker_runs (update_job job f db) = worker_runs db"
  "worker_results (update_job job f db) = worker_results db"
  "sessions (update_job job f db) = sessions db"
  "models (update_job job f db) = models db"
  "task_execution_leases (update_job job f db) = task_execution_leases db"
  "execution_escalations (update_job job f db) = execution_escalations db"
  "journal_extends d (update_job job f db) = journal_extends d db"
  by (simp_all add: update_job_def)

lemma terminalize_run_frame [simp]:
  "tasks (terminalize_run now run task target u actor db) = tasks db"
  "workers (terminalize_run now run task target u actor db) = workers db"
  "provider_jobs (terminalize_run now run task target u actor db) = provider_jobs db"
  "worker_results (terminalize_run now run task target u actor db) = worker_results db"
  "task_execution_leases (terminalize_run now run task target u actor db) = task_execution_leases db"
  "worker_runs (terminalize_run now run task target u actor db) =
     upd_by rn_id (rn_id run) (finalize_run (timestamp now) target u) (worker_runs db)"
  "journal_extends d db \<Longrightarrow> journal_extends d (terminalize_run now run task target u actor db)"
  by (simp_all add: terminalize_run_def)

lemma release_worker_frame [simp]:
  "tasks (release_worker now run st rst m actor db) = tasks db"
  "worker_runs (release_worker now run st rst m actor db) = worker_runs db"
  "provider_jobs (release_worker now run st rst m actor db) = provider_jobs db"
  "worker_results (release_worker now run st rst m actor db) = worker_results db"
  "task_execution_leases (release_worker now run st rst m actor db) = task_execution_leases db"
  "journal_extends d db \<Longrightarrow> journal_extends d (release_worker now run st rst m actor db)"
  by (simp_all add: release_worker_def Let_def split: option.split)

lemma requeue_missing_frame [simp]:
  "provider_jobs (requeue_missing now job run task actor db) =
     upd_by jb_id (jb_id job) (missing_job (timestamp now)) (provider_jobs db)"
  "task_execution_leases (requeue_missing now job run task actor db) = task_execution_leases db"
  "worker_runs (requeue_missing now job run task actor db) =
     upd_by rn_id (rn_id run) (interrupt_run (timestamp now)) (worker_runs db)"
  "journal_extends d db \<Longrightarrow> journal_extends d (requeue_missing now job run task actor db)"
  by (simp_all add: requeue_missing_def Let_def free_interrupted_worker_def update_job_def)

section \<open>What a job keeps\<close>

text \<open>The identity of a job, fixed when it is prepared.\<close>

definition job_identity ::
    "provider_job_row \<Rightarrow> string \<times> string \<times> string \<times> string \<times> string \<times> string \<times> provider \<times> int \<times> string \<times>
       job_capabilities \<times> int" where
  "job_identity j =
     (jb_id j, jb_run_id j, jb_task_id j, jb_worker_id j, jb_adapter_type j, jb_adapter_instance_id j,
      jb_provider j, jb_launch_generation j, jb_idempotency_key j, jb_supports j, jb_protocol_version j)"

definition jobs_kept :: "db \<Rightarrow> db \<Rightarrow> bool" where
  "jobs_kept db db' \<longleftrightarrow>
     (\<exists>f new. provider_jobs db' = map f (provider_jobs db) @ new \<and> (\<forall>j. job_identity (f j) = job_identity j))"

lemma jobs_kept_same: "provider_jobs db' = provider_jobs db \<Longrightarrow> jobs_kept db db'"
  unfolding jobs_kept_def by (rule exI [of _ "\<lambda>j. j"]) simp

lemma jobs_kept_add: "provider_jobs db' = provider_jobs db @ new \<Longrightarrow> jobs_kept db db'"
  unfolding jobs_kept_def by (rule exI [of _ "\<lambda>j. j"]) simp

lemma jobs_kept_upd:
  assumes "provider_jobs db' = upd_where P f (provider_jobs db)" and "\<And>j. job_identity (f j) = job_identity j"
  shows "jobs_kept db db'"
  unfolding jobs_kept_def
  by (rule exI [of _ "\<lambda>j. if P j then f j else j"]) (simp add: assms upd_where_def)

lemma jobs_kept_upd_by:
  assumes "provider_jobs db' = upd_by jb_id k f (provider_jobs db)" and "\<And>j. job_identity (f j) = job_identity j"
  shows "jobs_kept db db'"
  using assms jobs_kept_upd unfolding upd_by_def by blast

lemma jobs_kept_trans: "jobs_kept a b \<Longrightarrow> jobs_kept b c \<Longrightarrow> jobs_kept a c"
  unfolding jobs_kept_def
proof (elim exE conjE)
  fix f f' new new' assume *: "provider_jobs b = map f (provider_jobs a) @ new"
    "provider_jobs c = map f' (provider_jobs b) @ new'"
    "\<forall>j. job_identity (f j) = job_identity j" "\<forall>j. job_identity (f' j) = job_identity j"
  show "\<exists>f new. provider_jobs c = map f (provider_jobs a) @ new \<and> (\<forall>j. job_identity (f j) = job_identity j)"
    by (rule exI [of _ "f' \<circ> f"], rule exI [of _ "map f' new @ new'"]) (use * in simp)
qed

lemma job_identity_simps [simp]:
  "job_identity (collect_job t st j) = job_identity j"
  "job_identity (bind_job t h j) = job_identity j"
  "job_identity (missing_job t j) = job_identity j"
  "job_identity (fence_job t j) = job_identity j"
  "job_identity (j\<lparr>jb_launch_state := a, jb_launched_at := b, jb_updated_at := t\<rparr>) = job_identity j"
  "job_identity (j\<lparr>jb_launch_state := a, jb_reconciliation_state := r, jb_last_reconciled_at := c,
     jb_updated_at := t\<rparr>) = job_identity j"
  by (simp_all add: job_identity_def collect_job_def bind_job_def missing_job_def fence_job_def)

lemma jb_id_simps [simp]:
  "jb_id (collect_job t st j) = jb_id j" "jb_run_id (collect_job t st j) = jb_run_id j"
  "jb_id (bind_job t h j) = jb_id j" "jb_run_id (bind_job t h j) = jb_run_id j"
  "jb_id (missing_job t j) = jb_id j" "jb_run_id (missing_job t j) = jb_run_id j"
  "jb_task_id (collect_job t st j) = jb_task_id j"
  by (simp_all add: collect_job_def bind_job_def missing_job_def)

section \<open>The outcomes of each operation\<close>

lemma prepare_jobE:
  assumes "prepare_provider_job sha now u rid aty ai caps o1 g actor db = Inr (db', job)"
  obtains (replay) run where "row_by rn_id rid (worker_runs db) = Some run"
      "lease_current now db (rn_task_id run) o1 g"
      "row_by jb_run_id rid (provider_jobs db) = Some job" "same_intent job aty ai caps g" "db' = db"
  | (new) run and task :: task_row and worker :: worker_row where "row_by rn_id rid (worker_runs db) = Some run"
      "lease_current now db (rn_task_id run) o1 g"
      "job = new_provider_job (''provider-job-'' @ u) run (wk_provider worker) aty ai caps g (timestamp now)"
      "job_insertable db job" "db' = insert_provider_job sha now job (tk_project_id task) actor db"
proof (cases "row_by jb_run_id rid (provider_jobs db)")
  case None
  obtain run task worker where r: "row_by rn_id rid (worker_runs db) = Some run"
      "row_by tk_id (rn_task_id run) (tasks db) = Some task"
    and w: "row_by wk_id (rn_worker_id run) (workers db) = Some worker"
    and l: "lease_current now db (rn_task_id run) o1 g"
    and i: "job_insertable db (new_provider_job (''provider-job-'' @ u) run (wk_provider worker) aty ai caps g (timestamp now))"
    and d: "db' = insert_provider_job sha now
        (new_provider_job (''provider-job-'' @ u) run (wk_provider worker) aty ai caps g (timestamp now))
        (tk_project_id task) actor db"
    and j: "get_provider_job db' rid = Inr job"
    using assms None
    by (auto simp: prepare_provider_job_def require_task_execution_lease_def Let_def)
  have "rn_id run = rid" using r(1) by (rule row_by_key)
  then have eq: "job = new_provider_job (''provider-job-'' @ u) run (wk_provider worker) aty ai caps g (timestamp now)"
    using j None by (simp add: d get_provider_job_def insert_provider_job_def row_simps new_provider_job_def)
  show thesis by (rule new [OF r(1) l eq]) (simp_all only: eq i d)
next
  case (Some existing)
  then obtain run where "row_by rn_id rid (worker_runs db) = Some run"
      "lease_current now db (rn_task_id run) o1 g" "same_intent existing aty ai caps g" "db' = db" "job = existing"
    using assms by (auto simp: prepare_provider_job_def require_task_execution_lease_def
        simp del: not_None_eq split: if_split_asm)
  then show thesis using replay Some by blast
qed

lemma launching_jobE:
  assumes "mark_provider_job_launching now rid o1 g actor db = Inr (db', r)"
  obtains (noop) job where "row_by jb_run_id rid (provider_jobs db) = Some job"
      "lease_current now db (jb_task_id job) o1 g" "jb_launch_state job \<noteq> LAUNCH_PREPARED" "db' = db"
  | (launched) job e where "row_by jb_run_id rid (provider_jobs db) = Some job"
      "lease_current now db (jb_task_id job) o1 g" "jb_launch_state job = LAUNCH_PREPARED"
      "db' = append_event now e (update_job job (\<lambda>j. j\<lparr>jb_launch_state := LAUNCH_LAUNCHING,
          jb_launched_at := Some (timestamp now), jb_updated_at := timestamp now\<rparr>) db)"
proof -
  obtain job where j: "row_by jb_run_id rid (provider_jobs db) = Some job"
    and l: "lease_current now db (jb_task_id job) o1 g"
    using assms by (auto simp: mark_provider_job_launching_def)
  show thesis
  proof (cases "jb_launch_state job = LAUNCH_PREPARED")
    case True
    then show thesis using assms j l launched [OF j l True]
      by (auto simp: mark_provider_job_launching_def Let_def)
  next
    case False
    then have "db' = db"
      using assms j l by (cases "jb_launch_state job") (simp_all add: mark_provider_job_launching_def)
    then show thesis by (rule noop [OF j l False])
  qed
qed

lemma bind_jobE:
  assumes "bind_provider_job_handle now rid aty ai h o1 g actor db = Inr (db', r)"
  obtains (noop) job where "row_by jb_run_id rid (provider_jobs db) = Some job"
      "lease_current now db (jb_task_id job) o1 g" "jb_launch_state job = LAUNCH_BOUND"
      "jb_handle job = stored_handle h" "db' = db" "r = job"
  | (bound) job e where "row_by jb_run_id rid (provider_jobs db) = Some job"
      "lease_current now db (jb_task_id job) o1 g" "bindable job" "jb_launch_state job \<noteq> LAUNCH_BOUND"
      "db' = append_event now e (update_job job (bind_job (timestamp now) (stored_handle h)) db)"
      "get_provider_job db' rid = Inr r"
proof -
  obtain job where j: "row_by jb_run_id rid (provider_jobs db) = Some job"
    and l: "lease_current now db (jb_task_id job) o1 g"
    using assms unfolding bind_provider_job_handle_def
    by (simp only: bindR_Inr_iff leased_job_Inr) blast
  show thesis
  proof (cases "jb_launch_state job = LAUNCH_BOUND")
    case True
    then have "jb_handle job = stored_handle h \<and> db' = db \<and> r = job"
      using assms j l by (auto simp: bind_provider_job_handle_def split: if_split_asm)
    then show thesis using noop [OF j l True] by blast
  next
    case False
    then have "bindable job \<and> get_provider_job db' rid = Inr r \<and>
        (\<exists>e. db' = append_event now e (update_job job (bind_job (timestamp now) (stored_handle h)) db))"
      using assms j l by (simp only: bind_provider_job_handle_def bindR_Inr_iff leased_job_Inr Let_def
          raise_if_Inr_iff if_False) auto
    then show thesis using bound [OF j l _ False] by blast
  qed
qed

definition observe_job :: "int \<Rightarrow> reconciliation_state \<Rightarrow> provider_job_row \<Rightarrow> provider_job_row \<Rightarrow> provider_job_row" where
  "observe_job t state job j =
     j\<lparr>jb_reconciliation_state := state, jb_launch_state := observed_launch_state state job,
       jb_last_reconciled_at := Some t, jb_updated_at := t\<rparr>"

lemma observe_jobE:
  assumes "record_provider_job_observation now rid sn ps dt o1 g actor db = Inr (db', r)"
  obtains (noop) job where "row_by jb_run_id rid (provider_jobs db) = Some job"
      "lease_current now db (jb_task_id job) o1 g" "jb_result_collection_state job = COLLECT_COLLECTED" "db' = db"
  | (observed) job state es where "row_by jb_run_id rid (provider_jobs db) = Some job"
      "lease_current now db (jb_task_id job) o1 g" "jb_result_collection_state job \<noteq> COLLECT_COLLECTED"
      "reconciliation_value state = sn"
      "db' = append_events now es (update_job job (observe_job (timestamp now) state job) db)"
proof -
  obtain state where s: "enum_of all_reconciliation_state reconciliation_value sn = Some state"
    using assms by (auto simp: record_provider_job_observation_def split: option.splits)
  have v: "reconciliation_value state = sn" using s by (rule reconciliation_wire.encode_decode)
  obtain job where j: "row_by jb_run_id rid (provider_jobs db) = Some job"
    and l: "lease_current now db (jb_task_id job) o1 g"
    using assms s by (auto simp: record_provider_job_observation_def)
  let ?u = "update_job job (observe_job (timestamp now) state job) db"
  show thesis
  proof (cases "jb_result_collection_state job = COLLECT_COLLECTED")
    case True
    then have "db' = db" using assms s j l by (simp add: record_provider_job_observation_def)
    then show thesis by (rule noop [OF j l True])
  next
    case False
    have "db' = ?u \<or> (\<exists>e. db' = append_event now e ?u)"
      using assms s j l False
      by (auto simp: record_provider_job_observation_def Let_def observe_job_def [abs_def] split: if_split_asm)
    then have "\<exists>es. db' = append_events now es ?u"
      by (metis append_events_Cons append_events_Nil)
    then show thesis using observed [OF j l False v] by blast
  qed
qed

lemma collected_jobE:
  assumes "mark_provider_job_result_collected now rid ts o1 g actor db = Inr (db', r)"
  obtains (noop) job where "row_by jb_run_id rid (provider_jobs db) = Some job"
      "lease_current now db (jb_task_id job) o1 g" "jb_result_collection_state job = COLLECT_COLLECTED" "db' = db"
  | (collected) job state e where "row_by jb_run_id rid (provider_jobs db) = Some job"
      "lease_current now db (jb_task_id job) o1 g" "jb_result_collection_state job \<noteq> COLLECT_COLLECTED"
      "db' = append_event now e (update_job job (collect_job (timestamp now) state) db)"
proof -
  obtain state where s: "Option.bind (enum_of all_run_state run_state_value ts) collected_observation = Some state"
    using assms by (auto simp: mark_provider_job_result_collected_def split: option.splits)
  obtain job where j: "row_by jb_run_id rid (provider_jobs db) = Some job"
    and l: "lease_current now db (jb_task_id job) o1 g"
    using assms s by (auto simp: mark_provider_job_result_collected_def)
  show thesis
  proof (cases "jb_result_collection_state job = COLLECT_COLLECTED")
    case True
    then have "db' = db" using assms s j l by (simp add: mark_provider_job_result_collected_def)
    then show thesis by (rule noop [OF j l True])
  next
    case False
    then have "\<exists>e. db' = append_event now e (update_job job (collect_job (timestamp now) state) db)"
      using assms s j l by (auto simp: mark_provider_job_result_collected_def Let_def)
    then show thesis using collected [OF j l False] by blast
  qed
qed

lemma interrupt_missingE:
  assumes "interrupt_missing_provider_job now rid o1 g actor db = Inr (db', r)"
  obtains (noop) job where "row_by jb_run_id rid (provider_jobs db) = Some job"
      "lease_current now db (jb_task_id job) o1 g" "db' = db"
  | (requeued) job run task where "row_by jb_run_id rid (provider_jobs db) = Some job"
      "lease_current now db (jb_task_id job) o1 g" "row_by rn_id rid (worker_runs db) = Some run"
      "run_active run" "row_by tk_id (jb_task_id job) (tasks db) = Some task"
      "db' = requeue_missing now job run task actor db"
proof -
  obtain job run where j: "row_by jb_run_id rid (provider_jobs db) = Some job"
    and l: "lease_current now db (jb_task_id job) o1 g" and run: "row_by rn_id rid (worker_runs db) = Some run"
    using assms by (auto simp: interrupt_missing_provider_job_def)
  show thesis
  proof (cases "run_active run")
    case True
    then obtain task where t: "row_by tk_id (jb_task_id job) (tasks db) = Some task"
      and d: "db' = requeue_missing now job run task actor db"
      using assms j l run by (auto simp: interrupt_missing_provider_job_def)
    show thesis by (rule requeued [OF j l run True t d])
  next
    case False
    then have "db' = db" using assms j l run by (simp add: interrupt_missing_provider_job_def)
    then show thesis by (rule noop [OF j l])
  qed
qed

lemma claim_reconciliationE:
  assumes "claim_task_reconciliation now tid o1 ttl ac actor db = Inr (db', r)"
  obtains (refused) "r = None" "db' = db"
  | (claimed) e where "r = Some (next_generation db tid)" "lease_free now db tid" "1 \<le> ttl"
      "db' = append_event now e (acquire_lease now tid o1 ttl db)"
proof -
  obtain task where t: "row_by tk_id tid (tasks db) = Some task" and ttl: "1 \<le> ttl"
    using assms unfolding claim_task_reconciliation_def by (auto simp: not_less)
  show thesis
  proof (cases r)
    case None
    then have "db' = db"
      using assms t by (auto simp: claim_task_reconciliation_def Let_def split: if_split_asm)
    then show thesis by (rule refused [OF None])
  next
    case (Some g)
    then have "r = Some (next_generation db tid) \<and> lease_free now db tid \<and>
        (\<exists>e. db' = append_event now e (acquire_lease now tid o1 ttl db))"
      using assms t by (auto simp: claim_task_reconciliation_def Let_def split: if_split_asm)
    then show thesis using claimed ttl by blast
  qed
qed

lemma finalize_parts [simp]:
  "tasks (finalize_run_part now run task target u actor db) = tasks db"
  "workers (finalize_run_part now run task target u actor db) = workers db"
  "provider_jobs (finalize_run_part now run task target u actor db) = provider_jobs db"
  "task_execution_leases (finalize_run_part now run task target u actor db) = task_execution_leases db"
  "worker_results (finalize_run_part now run task target u actor db) = worker_results db"
  "journal_extends d db \<Longrightarrow> journal_extends d (finalize_run_part now run task target u actor db)"
  "tasks (finalize_worker_part now job run task st rst m actor db) = tasks db"
  "worker_runs (finalize_worker_part now job run task st rst m actor db) = worker_runs db"
  "provider_jobs (finalize_worker_part now job run task st rst m actor db) = provider_jobs db"
  "task_execution_leases (finalize_worker_part now job run task st rst m actor db) = task_execution_leases db"
  "worker_results (finalize_worker_part now job run task st rst m actor db) = worker_results db"
  "journal_extends d db \<Longrightarrow> journal_extends d (finalize_worker_part now job run task st rst m actor db)"
  "tasks (finalize_job_part now job run task ob actor db) = tasks db"
  "workers (finalize_job_part now job run task ob actor db) = workers db"
  "worker_runs (finalize_job_part now job run task ob actor db) = worker_runs db"
  "task_execution_leases (finalize_job_part now job run task ob actor db) = task_execution_leases db"
  "worker_results (finalize_job_part now job run task ob actor db) = worker_results db"
  "journal_extends d db \<Longrightarrow> journal_extends d (finalize_job_part now job run task ob actor db)"
  by (simp_all add: finalize_run_part_def finalize_worker_part_def finalize_job_part_def)

lemma finalizeE:
  assumes "finalize_provider_job_result now rid target u st rst m o1 g actor db = Inr (db', r)"
  obtains ob job run task where
    "collected_observation target = Some ob" "row_by jb_run_id rid (provider_jobs db) = Some job"
    "lease_current now db (jb_task_id job) o1 g" "row_by rn_id rid (worker_runs db) = Some run"
    "row_by rs_run_id rid (worker_results db) \<noteq> None" "row_by tk_id (rn_task_id run) (tasks db) = Some task"
    "collected_observation (rn_state run) \<noteq> None \<longrightarrow> rn_state run = target \<or> cancellation_wins run task"
    "collected_observation (rn_state run) = None \<longrightarrow> allows RUN_TRANSITIONS (rn_state run) target"
    "db' = finalize_job_part now job run task ob actor (finalize_worker_part now job run task st rst m actor
       (finalize_run_part now run task target u actor db))"
    "get_worker_run db' rid = Inr r"
proof -
  obtain ob where ob: "collected_observation target = Some ob"
    using assms by (auto simp: finalize_provider_job_result_def split: option.splits)
  note * = assms [unfolded finalize_provider_job_result_def ob option.case Let_def bindR_Inr_iff
      leased_job_Inr fetch_Inr_iff raise_if_Inr_iff]
  from * obtain job run task where facts: "row_by jb_run_id rid (provider_jobs db) = Some job"
    "lease_current now db (jb_task_id job) o1 g" "row_by rn_id rid (worker_runs db) = Some run"
    "row_by rs_run_id rid (worker_results db) \<noteq> None" "row_by tk_id (rn_task_id run) (tasks db) = Some task"
    "\<not> (collected_observation (rn_state run) \<noteq> None \<and> rn_state run \<noteq> target \<and> \<not> cancellation_wins run task)"
    "\<exists>x. (if collected_observation (rn_state run) \<noteq> None then Inr ()
       else require run_state_value RUN_TRANSITIONS (rn_state run) target) = (Inr x :: unit result)"
    "get_worker_run (finalize_job_part now job run task ob actor (finalize_worker_part now job run task st rst m actor
       (finalize_run_part now run task target u actor db))) rid = Inr r"
    "db' = finalize_job_part now job run task ob actor (finalize_worker_part now job run task st rst m actor
       (finalize_run_part now run task target u actor db))"
    apply (elim exE conjE)
    apply (simp only: sum.inject prod.inject)
    apply (rule that)
    apply assumption+
    apply (rule exI, assumption)
    apply (elim conjE, hypsubst, assumption)
    apply (elim conjE, rule sym, assumption)
    done
  show thesis
  proof (rule that [OF ob facts(1-5)])
    show "collected_observation (rn_state run) = None \<longrightarrow> allows RUN_TRANSITIONS (rn_state run) target"
      using facts(7) by (auto simp: require_def split: if_split_asm)
  qed (use facts(6,8,9) in blast)+
qed

lemma resolve_escalation_frame [simp]:
  "provider_jobs (resolve_escalation now job pid rid res actor e db) = provider_jobs db"
  "task_execution_leases (resolve_escalation now job pid rid res actor e db) = task_execution_leases db"
  "worker_runs (resolve_escalation now job pid rid res actor e db) = worker_runs db"
  "journal_extends d db \<Longrightarrow> journal_extends d (resolve_escalation now job pid rid res actor e db)"
  by (simp_all add: resolve_escalation_def)

lemma request_escalationE:
  assumes "request_execution_escalation now u rid code sm dt o1 g actor db = Inr (db', r)"
  obtains (noop) job where "row_by jb_run_id rid (provider_jobs db) = Some job"
      "lease_current now db (jb_task_id job) o1 g" "db' = db"
  | (opened) job e row where "row_by jb_run_id rid (provider_jobs db) = Some job"
      "lease_current now db (jb_task_id job) o1 g"
      "List.find (open_escalation job code) (execution_escalations db) = None" "es_id row = r"
      "open_escalation job code row"
      "db' = append_event now e (db\<lparr>execution_escalations := execution_escalations db @ [row]\<rparr>)"
proof -
  obtain job where j: "row_by jb_run_id rid (provider_jobs db) = Some job"
    and l: "lease_current now db (jb_task_id job) o1 g"
    using assms by (auto simp: request_execution_escalation_def)
  show thesis
  proof (cases "List.find (open_escalation job code) (execution_escalations db)")
    case None
    then obtain pid e where r: "r = ''escalation-'' @ u" and d: "db' = append_event now e (db\<lparr>execution_escalations :=
        execution_escalations db @ [new_escalation now (''escalation-'' @ u) db job pid rid code sm dt actor]\<rparr>)"
      using assms j l by (auto simp: request_execution_escalation_def Let_def)
    show thesis by (rule opened [OF j l None _ _ d]) (simp_all only: r, simp_all add: new_escalation_def open_escalation_def)
  next
    case (Some e)
    then have "db' = db" using assms j l by (simp add: request_execution_escalation_def)
    then show thesis by (rule noop [OF j l])
  qed
qed

lemma resolve_escalationsE:
  assumes "resolve_execution_escalations now rid o1 g codes res actor db = Inr (db', r)"
  obtains job pid rows where "row_by jb_run_id rid (provider_jobs db) = Some job"
      "lease_current now db (jb_task_id job) o1 g"
      "db' = fold (resolve_escalation now job pid rid res actor) rows db"
proof -
  obtain job where j: "row_by jb_run_id rid (provider_jobs db) = Some job"
    and l: "lease_current now db (jb_task_id job) o1 g"
    using assms by (auto simp: resolve_execution_escalations_def)
  have "db' = db \<or> (\<exists>pid rows. db' = fold (resolve_escalation now job pid rid res actor) rows db)"
    using assms j l by (auto simp: resolve_execution_escalations_def Let_def split: if_split_asm)
  then show thesis
  proof
    assume "db' = db"
    then show thesis using that [OF j l, of "[]" "[]"] by simp
  qed (use that [OF j l] in blast)
qed

text \<open>A successful write of a run's job by the lease holder \<open>o1\<close> of generation \<open>g\<close> at time \<open>now\<close>.\<close>

inductive job_write :: "string \<Rightarrow> string \<Rightarrow> int \<Rightarrow> rat \<Rightarrow> db \<Rightarrow> db \<Rightarrow> bool" for rid o1 g now db db' where
  jw_prepare: "prepare_provider_job sha now u rid aty ai caps o1 g actor db = Inr (db', j) \<Longrightarrow>
    job_write rid o1 g now db db'"
| jw_launching: "mark_provider_job_launching now rid o1 g actor db = Inr (db', j) \<Longrightarrow>
    job_write rid o1 g now db db'"
| jw_bind: "bind_provider_job_handle now rid aty ai h o1 g actor db = Inr (db', j) \<Longrightarrow>
    job_write rid o1 g now db db'"
| jw_observe: "record_provider_job_observation now rid sn ps dt o1 g actor db = Inr (db', j) \<Longrightarrow>
    job_write rid o1 g now db db'"
| jw_collected: "mark_provider_job_result_collected now rid ts o1 g actor db = Inr (db', j) \<Longrightarrow>
    job_write rid o1 g now db db'"
| jw_finalize: "finalize_provider_job_result now rid target u st rst m o1 g actor db = Inr (db', run) \<Longrightarrow>
    job_write rid o1 g now db db'"
| jw_interrupt: "interrupt_missing_provider_job now rid o1 g actor db = Inr (db', x) \<Longrightarrow>
    job_write rid o1 g now db db'"
| jw_escalate: "request_execution_escalation now u rid code sm dt o1 g actor db = Inr (db', eid) \<Longrightarrow>
    job_write rid o1 g now db db'"
| jw_resolve: "resolve_execution_escalations now rid o1 g codes res actor db = Inr (db', n) \<Longrightarrow>
    job_write rid o1 g now db db'"

lemma insert_provider_job_frame [simp]:
  "provider_jobs (insert_provider_job sha now job pid actor db) = provider_jobs db @ [job]"
  "worker_runs (insert_provider_job sha now job pid actor db) = worker_runs db"
  "tasks (insert_provider_job sha now job pid actor db) = tasks db"
  "workers (insert_provider_job sha now job pid actor db) = workers db"
  "task_execution_leases (insert_provider_job sha now job pid actor db) = task_execution_leases db"
  "journal_extends d db \<Longrightarrow> journal_extends d (insert_provider_job sha now job pid actor db)"
  by (simp_all add: insert_provider_job_def)

lemma observe_job_simps [simp]:
  "job_identity (observe_job t st job j) = job_identity j" "jb_id (observe_job t st job j) = jb_id j"
  "jb_run_id (observe_job t st job j) = jb_run_id j"
  by (simp_all add: observe_job_def job_identity_def)

text \<open>The jobs after a write: one added, or one with this run's identity changed.\<close>

lemma job_write_effect:
  assumes "job_write rid o1 g now db db'"
  shows "\<exists>tid. ((\<exists>job. row_by jb_run_id rid (provider_jobs db) = Some job \<and> jb_task_id job = tid) \<or>
            (\<exists>run. row_by rn_id rid (worker_runs db) = Some run \<and> rn_task_id run = tid)) \<and>
          lease_current now db tid o1 g"
    and "task_execution_leases db' = task_execution_leases db"
    and "journal_extends db db'"
    and "jobs_kept db db'"
proof -
  have "(\<exists>tid. ((\<exists>job. row_by jb_run_id rid (provider_jobs db) = Some job \<and> jb_task_id job = tid) \<or>
            (\<exists>run. row_by rn_id rid (worker_runs db) = Some run \<and> rn_task_id run = tid)) \<and>
          lease_current now db tid o1 g) \<and> task_execution_leases db' = task_execution_leases db \<and>
      journal_extends db db' \<and> jobs_kept db db'"
    using assms
  proof cases
    case (jw_prepare sha u aty ai caps actor j)
    then show ?thesis
      by (cases rule: prepare_jobE) (auto intro: jobs_kept_same jobs_kept_add)
  next
    case (jw_launching actor j)
    then show ?thesis
      by (cases rule: launching_jobE) (auto simp: update_job_def intro: jobs_kept_same jobs_kept_upd_by)
  next
    case (jw_bind aty ai h actor j)
    then show ?thesis
      by (cases rule: bind_jobE) (auto simp: update_job_def intro: jobs_kept_same jobs_kept_upd_by)
  next
    case (jw_observe sn ps dt actor j)
    then show ?thesis
      by (cases rule: observe_jobE) (auto simp: update_job_def intro: jobs_kept_same jobs_kept_upd_by)
  next
    case (jw_collected ts actor j)
    then show ?thesis
      by (cases rule: collected_jobE) (auto simp: update_job_def intro: jobs_kept_same jobs_kept_upd_by)
  next
    case (jw_finalize target u st rst m actor run)
    then show ?thesis
    proof (cases rule: finalizeE)
      case (1 ob job run task)
      have "jobs_kept db db'"
        unfolding 1(9) finalize_job_part_def
        by (auto simp: update_job_def intro: jobs_kept_same jobs_kept_upd_by)
      with 1(2,3) show ?thesis by (auto simp: 1(9))
    qed
  next
    case (jw_interrupt actor x)
    then show ?thesis
      by (cases rule: interrupt_missingE) (auto intro: jobs_kept_same jobs_kept_upd_by)
  next
    case (jw_escalate u code sm dt actor eid)
    then show ?thesis
      by (cases rule: request_escalationE) (auto intro: jobs_kept_same)
  next
    case (jw_resolve codes res actor n)
    then show ?thesis
    proof (cases rule: resolve_escalationsE)
      case (1 job pid rows)
      then show ?thesis
        by (auto simp: fold_frame [where field = task_execution_leases] fold_frame [where field = provider_jobs]
            intro: jobs_kept_same journal_extends_fold)
    qed
  qed
  then show "\<exists>tid. ((\<exists>job. row_by jb_run_id rid (provider_jobs db) = Some job \<and> jb_task_id job = tid) \<or>
            (\<exists>run. row_by rn_id rid (worker_runs db) = Some run \<and> rn_task_id run = tid)) \<and>
          lease_current now db tid o1 g"
    and "task_execution_leases db' = task_execution_leases db"
    and "journal_extends db db'"
    and "jobs_kept db db'" by blast+
qed

section \<open>Properties of provider jobs\<close>


lemma prepare_guards:
  assumes "prepare_provider_job sha now u rid aty ai caps o1 g actor db = Inr (db', job)"
  obtains run task worker where "nonblank aty" "nonblank ai" "1 \<le> protocol_version_of caps"
    "row_by rn_id rid (worker_runs db) = Some run" "row_by tk_id (rn_task_id run) (tasks db) = Some task"
    "row_by wk_id (rn_worker_id run) (workers db) = Some worker"
  using assms unfolding prepare_provider_job_def
  by (simp only: bindR_Inr_iff fetch_Inr_iff raise_if_Inr_iff) (auto simp: not_less)

text \<open>
  C12. Preparing a provider job is idempotent, and its intent is immutable. After a successful
  preparation the job of the run is the one returned, with the requested adapter, capabilities and
  lease generation. Repeating the call under a current lease, at any time and with any other
  identifier and actor, returns the same job and changes nothing; a call with another intent is
  refused.
\<close>

theorem prepare_provider_job_idempotent:
  assumes "prepare_provider_job sha now u rid aty ai caps o1 g actor db = Inr (db1, job)"
  shows "get_provider_job db1 rid = Inr job \<and> same_intent job aty ai caps g \<and>
    (\<exists>run. get_worker_run db1 rid = Inr run \<and>
      (\<forall>now2 u2 actor2. lease_current now2 db1 (rn_task_id run) o1 g \<longrightarrow>
         prepare_provider_job sha now2 u2 rid aty ai caps o1 g actor2 db1 = Inr (db1, job)) \<and>
      (\<forall>now2 u2 actor2 aty2 ai2 caps2 o2 g2.
         nonblank aty2 \<and> nonblank ai2 \<and> 1 \<le> protocol_version_of caps2 \<and>
         lease_current now2 db1 (rn_task_id run) o2 g2 \<and> \<not> same_intent job aty2 ai2 caps2 g2 \<longrightarrow>
         prepare_provider_job sha now2 u2 rid aty2 ai2 caps2 o2 g2 actor2 db1 =
           Inl (RuntimeError (''provider job intent for '' @ rid @ '' is immutable''))))"
proof -
  obtain run task worker where guards: "nonblank aty" "nonblank ai" "1 \<le> protocol_version_of caps"
    and rows: "row_by rn_id rid (worker_runs db) = Some run" "row_by tk_id (rn_task_id run) (tasks db) = Some task"
      "row_by wk_id (rn_worker_id run) (workers db) = Some worker"
    using assms by (rule prepare_guards)
  have keep: "worker_runs db1 = worker_runs db" "tasks db1 = tasks db" "workers db1 = workers db"
    using assms by (cases rule: prepare_jobE; simp)+
  have "row_by jb_run_id rid (provider_jobs db1) = Some job \<and> same_intent job aty ai caps g"
    using assms
  proof (cases rule: prepare_jobE)
    case (new run task worker)
    have "rn_id run = rid" using new(1) by (rule row_by_key)
    with new(3,4) show ?thesis
      unfolding new(5) by (simp add: row_simps job_insertable_def new_provider_job_def same_intent_def)
  qed simp
  then have job: "row_by jb_run_id rid (provider_jobs db1) = Some job" "same_intent job aty ai caps g"
    by simp_all
  have again: "prepare_provider_job sha now2 u2 rid aty2 ai2 caps2 o2 g2 actor2 db1 =
      (if same_intent job aty2 ai2 caps2 g2 then Inr (db1, job)
       else Inl (RuntimeError (''provider job intent for '' @ rid @ '' is immutable'')))"
    if "nonblank aty2" "nonblank ai2" "1 \<le> protocol_version_of caps2"
      "lease_current now2 db1 (rn_task_id run) o2 g2" for now2 u2 aty2 ai2 caps2 o2 g2 actor2
    using that rows job(1)
    by (simp add: prepare_provider_job_def fetch_def keep require_task_execution_lease_def)
  show ?thesis
    using guards rows(1) job again by (auto simp: get_provider_job_def get_worker_run_def keep)
qed

text \<open>A settled job: its result has been collected.\<close>

definition job_settled :: "provider_job_row \<Rightarrow> bool" where
  "job_settled j \<longleftrightarrow> jb_result_collection_state j = COLLECT_COLLECTED \<and> jb_launch_state j = LAUNCH_TERMINAL"

lemma collect_job_settled [simp]: "job_settled (collect_job t st j)"
  by (simp add: collect_job_def job_settled_def)

lemma settled_kept_update:
  assumes "unique_key jb_id (provider_jobs db)" and "j \<in> set (provider_jobs db)" and "job \<in> set (provider_jobs db)"
    and "job \<noteq> j"
  shows "j \<in> set (provider_jobs (update_job job f db))"
proof -
  have "jb_id j \<noteq> jb_id job"
    using assms by (auto simp: unique_key_def distinct_map inj_on_def)
  then show ?thesis using assms(2) by (auto simp: update_job_def set_upd_by image_iff)
qed

text \<open>
  C14. Collection is final. A collected job whose run is over is not changed by any later write, whatever
  the provider reports afterwards: the very same row is still there.
\<close>

theorem provider_job_collection_final:
  assumes "job_write rid o1 g now db db'" and "unique_key jb_id (provider_jobs db)"
    and "j \<in> set (provider_jobs db)" and "job_settled j"
    and "\<forall>run. get_worker_run db (jb_run_id j) = Inr run \<longrightarrow> \<not> run_active run"
  shows "j \<in> set (provider_jobs db')"
  using assms(1)
proof cases
  case (jw_prepare sha u aty ai caps actor job)
  then show ?thesis by (cases rule: prepare_jobE) (use assms(3) in simp_all)
next
  case (jw_launching actor r)
  then show ?thesis
    by (cases rule: launching_jobE)
      (use assms(2-4) in \<open>auto simp: job_settled_def dest: row_by_SomeD intro!: settled_kept_update\<close>)
next
  case (jw_bind aty ai h actor r)
  then show ?thesis
    by (cases rule: bind_jobE)
      (use assms(2-4) in \<open>auto simp: job_settled_def bindable_def dest: row_by_SomeD intro!: settled_kept_update\<close>)
next
  case (jw_observe sn ps dt actor r)
  then show ?thesis
    by (cases rule: observe_jobE)
      (use assms(2-4) in \<open>auto simp: job_settled_def dest: row_by_SomeD intro!: settled_kept_update\<close>)
next
  case (jw_collected ts actor r)
  then show ?thesis
    by (cases rule: collected_jobE)
      (use assms(2-4) in \<open>auto simp: job_settled_def dest: row_by_SomeD intro!: settled_kept_update\<close>)
next
  case (jw_finalize target u st rst m actor r)
  then show ?thesis
  proof (cases rule: finalizeE)
    case (1 ob job run task)
    show ?thesis
    proof (cases "jb_result_collection_state job = COLLECT_COLLECTED")
      case True
      then show ?thesis using assms(3) by (simp add: 1(9) finalize_job_part_def)
    next
      case False
      then have "job \<noteq> j" using assms(4) by (auto simp: job_settled_def)
      then have "j \<in> set (provider_jobs (update_job job (collect_job (timestamp now) ob) db))"
        using settled_kept_update [OF assms(2,3)] row_by_SomeD [OF 1(2)] by blast
      moreover have "provider_jobs db' = provider_jobs (update_job job (collect_job (timestamp now) ob) db)"
        using False by (simp add: 1(9) finalize_job_part_def update_job_def)
      ultimately show ?thesis by simp
    qed
  qed
next
  case (jw_interrupt actor x)
  then show ?thesis
  proof (cases rule: interrupt_missingE)
    case (requeued job run task)
    have "job \<noteq> j"
      using requeued(3,4) assms(5) row_by_key [OF requeued(1)] by (auto simp: get_worker_run_def)
    then have "j \<in> set (provider_jobs (update_job job (missing_job (timestamp now)) db))"
      using settled_kept_update [OF assms(2,3)] row_by_SomeD [OF requeued(1)] by blast
    then show ?thesis by (simp add: requeued(6) update_job_def)
  qed (use assms(3) in simp)
next
  case (jw_escalate u code sm dt actor eid)
  then show ?thesis by (cases rule: request_escalationE) (use assms(3) in simp_all)
next
  case (jw_resolve codes res actor n)
  then show ?thesis
    by (cases rule: resolve_escalationsE) (use assms(3) in \<open>simp add: fold_frame [where field = provider_jobs]\<close>)
qed

lemma finalize_run_state [simp]:
  "rn_state (finalize_run t target u r) = target" "rn_id (finalize_run t target u r) = rn_id r"
  "rn_task_id (finalize_run t target u r) = rn_task_id r"
  by (simp_all add: finalize_run_def)

lemma finalize_replay:
  assumes "collected_observation target = Some ob" and "row_by jb_run_id rid (provider_jobs db) = Some job"
    and "jb_result_collection_state job = COLLECT_COLLECTED"
    and "lease_current now db (jb_task_id job) o1 g" and "row_by rn_id rid (worker_runs db) = Some run"
    and "row_by rs_run_id rid (worker_results db) \<noteq> None" and "row_by tk_id (rn_task_id run) (tasks db) = Some task"
    and "rn_state run = target \<or> cancellation_wins run task"
  shows "finalize_provider_job_result now rid target u st rst m o1 g actor db = Inr (db, run)"
proof -
  have "collected_observation (rn_state run) \<noteq> None"
    using assms(1,8) by (auto simp: cancellation_wins_def collected_observation_def)
  moreover have "leased_job now db rid o1 g = Inr job" using assms(2,4) by simp
  ultimately show ?thesis
    using assms unfolding finalize_provider_job_result_def
    by (auto simp: fetch_def Let_def finalize_run_part_def finalize_worker_part_def finalize_job_part_def
        get_worker_run_def)
qed

text \<open>
  C13. Finalization happens once, after the result is saved, and a cancellation wins. A successful
  finalization found the saved result of the run; it leaves every task as it is and marks the job
  collected. Where task and run were cancelled before, run and workers keep their state; otherwise
  the run is now in the reported terminal state. Repeating the call under a current lease returns the
  same run and changes nothing.
\<close>

theorem finalize_provider_job_once:
  assumes "finalize_provider_job_result now rid target u st rst m o1 g actor db = Inr (db1, r)"
  shows "\<exists>job job' run task.
    get_provider_job db rid = Inr job \<and> get_worker_run db rid = Inr run \<and>
    get_task db (rn_task_id run) = Inr task \<and> rid \<in> rs_run_id ` set (worker_results db) \<and>
    tasks db1 = tasks db \<and>
    get_provider_job db1 rid = Inr job' \<and> jb_result_collection_state job' = COLLECT_COLLECTED \<and>
    job_identity job' = job_identity job \<and> get_worker_run db1 rid = Inr r \<and>
    (if rn_state run = RUN_CANCELLED \<and> tk_state task = TASK_CANCELLED
     then r = run \<and> workers db1 = workers db else rn_state r = target) \<and>
    (\<forall>now2 u2 st2 rst2 m2 o2 g2 actor2. lease_current now2 db1 (jb_task_id job) o2 g2 \<longrightarrow>
       finalize_provider_job_result now2 rid target u2 st2 rst2 m2 o2 g2 actor2 db1 = Inr (db1, r))"
  using assms
proof (cases rule: finalizeE)
  case (1 ob job run task)
  have rid: "rn_id run = rid" using 1(4) by (rule row_by_key)
  let ?job = "if jb_result_collection_state job = COLLECT_COLLECTED then job
      else collect_job (timestamp now) ob job"
  have job': "row_by jb_run_id rid (provider_jobs db1) = Some ?job"
    using 1(2) by (simp add: 1(9) finalize_job_part_def update_job_def upd_by_def row_by_upd_where)
  have col: "jb_result_collection_state ?job = COLLECT_COLLECTED" "job_identity ?job = job_identity job"
      "jb_task_id ?job = jb_task_id job"
    by (auto simp: collect_job_def job_identity_def)
  have tasks: "tasks db1 = tasks db" and res: "worker_results db1 = worker_results db"
    by (simp_all add: 1(9))
  have r: "r = (if rn_state run \<noteq> target \<and> \<not> cancellation_wins run task
      then finalize_run (timestamp now) target u run else run)"
    using 1(4,10) rid
    by (simp add: 1(9) get_worker_run_def finalize_run_part_def row_by_upd_by split: if_split_asm) blast
  have run1: "row_by rn_id rid (worker_runs db1) = Some r"
    using 1(10) by (simp add: get_worker_run_def)
  have task1: "row_by tk_id (rn_task_id r) (tasks db1) = Some task"
    using 1(6) by (simp add: tasks r)
  have settled: "rn_state r = target \<or> cancellation_wins r task"
    by (simp add: r)
  have workers: "workers db1 = workers db" if "cancellation_wins run task"
    using that by (simp add: 1(9) finalize_worker_part_def)
  have again: "finalize_provider_job_result now2 rid target u2 st2 rst2 m2 o2 g2 actor2 db1 = Inr (db1, r)"
    if "lease_current now2 db1 (jb_task_id job) o2 g2" for now2 u2 st2 rst2 m2 o2 g2 actor2
    by (rule finalize_replay [OF 1(1) job' col(1) _ run1 _ task1 settled])
      (use that col(3) 1(5) res in simp_all)
  have saved: "rid \<in> rs_run_id ` set (worker_results db)"
    using 1(5) by (simp add: row_by_None_iff)
  have outcome: "if rn_state run = RUN_CANCELLED \<and> tk_state task = TASK_CANCELLED
     then r = run \<and> workers db1 = workers db else rn_state r = target"
    using workers r by (auto simp: cancellation_wins_def)
  have "get_provider_job db rid = Inr job" "get_worker_run db rid = Inr run"
    "get_task db (rn_task_id run) = Inr task" "get_provider_job db1 rid = Inr ?job"
    using 1(2,4,6) job' by (simp_all only: get_provider_job_def get_worker_run_def get_task_def fetch_Inr_iff)
  then show ?thesis using saved tasks col 1(10) outcome again by blast
qed

text \<open>
  C15. A reconciler takes over only an orphaned execution, and takes it over for good. The claim
  succeeds only when nobody holds the task's lease; it then holds the lease with a generation greater
  than every earlier one, so that no claimant of an earlier generation is current at any time.
  Refused, it changes nothing.
\<close>

theorem reconciliation_takeover:
  assumes "claim_task_reconciliation now tid o1 ttl allow_cancelled actor db = Inr (db', r)"
  shows "(r = None \<longrightarrow> db' = db) \<and>
    (\<forall>g. r = Some g \<longrightarrow>
       (\<forall>o2 g2. \<not> lease_current now db tid o2 g2) \<and> lease_current now db' tid o1 g \<and>
       (\<forall>l \<in> set (task_execution_leases db). unique_key tl_task_id (task_execution_leases db) \<and>
          tl_task_id l = tid \<longrightarrow> tl_generation l < g) \<and>
       (\<forall>later o2 g2. g2 \<noteq> g \<longrightarrow> \<not> lease_current later db' tid o2 g2) \<and>
       tasks db' = tasks db \<and> worker_runs db' = worker_runs db \<and> provider_jobs db' = provider_jobs db)"
  using assms
proof (cases rule: claim_reconciliationE)
  case (claimed e)
  have leases: "task_execution_leases db' = task_execution_leases (acquire_lease now tid o1 ttl db)"
    by (simp add: claimed(4))
  have cur: "lease_current now db' tid o1 (next_generation db tid)"
    using acquire_lease_current [OF claimed(3)] lease_current_cong [OF leases] by blast
  have free: "\<not> lease_current now db tid o2 g2" for o2 g2
    using claimed(2) by (auto simp: lease_free_def lease_current_def split: option.splits)
  have gen: "tl_generation l < next_generation db tid"
    if "l \<in> set (task_execution_leases db)" "unique_key tl_task_id (task_execution_leases db)" "tl_task_id l = tid"
    for l
    using row_by_in [OF that(2,1)] that(3) by (simp add: next_generation_def)
  have only: "g2 = next_generation db tid" if "lease_current later db' tid o2 g2" for later o2 g2
    using that by (auto simp: lease_current_def leases acquire_lease_def Let_def row_by_upsert_by
        split: option.splits)
  have keep: "tasks db' = tasks db" "worker_runs db' = worker_runs db" "provider_jobs db' = provider_jobs db"
    by (simp_all add: claimed(4))
  show ?thesis
    unfolding claimed(1) option.inject using cur free gen only keep by blast
qed simp

section \<open>The journal and the leases\<close>

lemma journal_claim_reconciliation:
  "claim_task_reconciliation now tid o1 ttl ac actor db = Inr (db', r) \<Longrightarrow> journal_extends db db'"
  by (erule claim_reconciliationE) simp_all

lemma leases_kept_append_event [simp]:
  "leases_kept now db (append_event t e db') = leases_kept now db db'"
  by (simp add: leases_kept_def)

lemma leases_kept_claim_reconciliation:
  "claim_task_reconciliation now tid o1 ttl ac actor db = Inr (db', r) \<Longrightarrow> leases_kept now db db'"
  by (erule claim_reconciliationE) (simp_all add: leases_kept_same leases_kept_acquire)

section \<open>Examples\<close>

definition sample_run :: run_row where
  "sample_run = (new_run ''r'' ''t'' ''w'' 1 None None 1 0)\<lparr>rn_state := RUN_RUNNING\<rparr>"

definition sample_lease :: lease_row where
  "sample_lease = \<lparr>tl_task_id = ''t'', tl_owner_id = ''host'', tl_generation = 1, tl_state = LEASE_ACTIVE,
     tl_acquired_at = 0, tl_heartbeat_at = 0, tl_expires_at = 30, tl_released_at = None\<rparr>"

definition sample_job :: provider_job_row where
  "sample_job = new_provider_job ''j'' sample_run PROVIDER_OPENAI ''codex'' ''i'' (\<lambda>_. None) 1 0"

definition sample_result :: result_row where
  "sample_result = \<lparr>rs_run_id = ''r'', rs_summary = ''done'', rs_changed_files = JList [],
     rs_commands_run = JList [], rs_tests = JList [], rs_artifacts = JList [], rs_commit_hash = None,
     rs_blockers = JList [], rs_confidence = None, rs_recommended_next_actions = JList [],
     rs_created_at = 0\<rparr>"

definition running_db :: db where
  "running_db = dispatch_db\<lparr>tasks := [(sample_task ''t'')\<lparr>tk_state := TASK_RUNNING\<rparr>],
     worker_runs := [sample_run], task_execution_leases := [sample_lease],
     worker_results := [sample_result]\<rparr>"

lemmas running_simps = running_db_def dispatch_simps sample_run_def new_run_def sample_lease_def
  sample_result_def lease_current_def timestamp_def

definition empty_update :: run_update where
  "empty_update = \<lparr>ru_process_id = None, ru_exit_code = None, ru_session_id = None,
     ru_raw_output_reference = None, ru_failure_class = None, ru_failure_detail = None\<rparr>"

lemma sample_prepare:
  "\<exists>db1 job. prepare_provider_job (\<lambda>s. s) 5 ''u'' ''r'' ''codex'' ''i'' (\<lambda>_. None) ''host'' 1 ''cli'' running_db =
     Inr (db1, job)"
  by (simp add: prepare_provider_job_def running_simps require_task_execution_lease_def protocol_version_of_def
      py_isspace_def new_provider_job_def job_insertable_def insert_provider_job_def get_provider_job_def Let_def)


theorem prepare_provider_job_idempotent_witness:
  "\<exists>db1 job. prepare_provider_job (\<lambda>s. s) 5 ''u'' ''r'' ''codex'' ''i'' (\<lambda>_. None) ''host'' 1 ''cli'' running_db =
       Inr (db1, job) \<and> get_provider_job db1 ''r'' = Inr job"
proof -
  obtain db1 job where p: "prepare_provider_job (\<lambda>s. s) 5 ''u'' ''r'' ''codex'' ''i'' (\<lambda>_. None) ''host'' 1 ''cli''
      running_db = Inr (db1, job)" using sample_prepare by blast
  from p prepare_provider_job_idempotent [OF p] show ?thesis by blast
qed

definition job_db :: db where
  "job_db = running_db\<lparr>provider_jobs := [sample_job]\<rparr>"

lemmas job_simps = job_db_def running_simps sample_job_def new_provider_job_def unbound_handle_def

lemma sample_finalize:
  "\<exists>r. finalize_provider_job_result 5 ''r'' RUN_COMPLETED empty_update WORKER_IDLE None None ''host'' 1 ''cli'' job_db
     = Inr r"
proof -
  have l: "leased_job 5 job_db ''r'' ''host'' 1 = Inr sample_job"
    by (simp add: job_simps)
  have "is_ok (get_worker_run (finalize_job_part 5 job run task ob a (finalize_worker_part 5 job run task st rst m a
      (finalize_run_part 5 run task target u a job_db))) ''r'')" for job run task ob a st rst m target u
    by (auto simp: get_worker_run_def fetch_def is_ok_def finalize_run_part_def job_simps finalize_run_def)
  then have g: "\<exists>r. get_worker_run (finalize_job_part 5 job run task ob a (finalize_worker_part 5 job run task st rst m a
      (finalize_run_part 5 run task target u a job_db))) ''r'' = Inr r" for job run task ob a st rst m target u
    by (simp add: is_ok_iff)
  have run: "row_by rn_id ''r'' (worker_runs job_db) = Some sample_run"
    and res: "row_by rs_run_id ''r'' (worker_results job_db) = Some sample_result"
    and task: "row_by tk_id (rn_task_id sample_run) (tasks job_db) = Some ((sample_task ''t'')\<lparr>tk_state := TASK_RUNNING\<rparr>)"
    and st: "rn_state sample_run = RUN_RUNNING"
    by (simp_all add: job_simps)
  show ?thesis
    using g by (simp add: finalize_provider_job_result_def collected_observation_def l fetch_def run res task st
        Let_def require_def allows_def successors_def RUN_TRANSITIONS_def empty_update_def)
qed

theorem finalize_provider_job_once_witness:
  "\<exists>db1 r. finalize_provider_job_result 5 ''r'' RUN_COMPLETED empty_update WORKER_IDLE None None ''host'' 1 ''cli'' job_db
     = Inr (db1, r) \<and> get_worker_run db1 ''r'' = Inr r"
proof -
  obtain db1 r where f: "finalize_provider_job_result 5 ''r'' RUN_COMPLETED empty_update WORKER_IDLE None None ''host'' 1
      ''cli'' job_db = Inr (db1, r)" using sample_finalize by fastforce
  from f finalize_provider_job_once [OF f] show ?thesis by blast
qed

definition settled_db :: db where
  "settled_db = running_db\<lparr>provider_jobs := [collect_job 4 RECON_KNOWN_COMPLETED sample_job],
     worker_runs := [sample_run\<lparr>rn_state := RUN_COMPLETED\<rparr>]\<rparr>"

theorem provider_job_collection_final_witness:
  "\<exists>db1. job_write ''r'' ''host'' 1 5 settled_db db1 \<and>
     collect_job 4 RECON_KNOWN_COMPLETED sample_job \<in> set (provider_jobs db1)"
proof -
  have "\<exists>r. record_provider_job_observation 5 ''r'' (reconciliation_value RECON_KNOWN_RUNNING) None None ''host'' 1
      ''cli'' settled_db = Inr r"
    by (simp only: record_provider_job_observation_def reconciliation_wire.decode_encode option.case)
      (simp add: leased_job_def provider_job_for_update_def settled_db_def job_simps collect_job_def
        require_task_execution_lease_def)
  then obtain db1 x where "record_provider_job_observation 5 ''r'' (reconciliation_value RECON_KNOWN_RUNNING) None None
      ''host'' 1 ''cli'' settled_db = Inr (db1, x)" by fastforce
  then have w: "job_write ''r'' ''host'' 1 5 settled_db db1" by (rule jw_observe)
  have "collect_job 4 RECON_KNOWN_COMPLETED sample_job \<in> set (provider_jobs db1)"
    by (rule provider_job_collection_final [OF w])
      (simp_all add: settled_db_def unique_key_def get_worker_run_def fetch_def row_simps job_simps run_active_def)
  with w show ?thesis by blast
qed

theorem reconciliation_takeover_witness:
  "\<exists>db1. claim_task_reconciliation 40 ''t'' ''host2'' 30 False ''cli'' running_db = Inr (db1, Some 2) \<and>
     lease_current 40 db1 ''t'' ''host2'' 2"
proof -
  obtain db1 where c: "claim_task_reconciliation 40 ''t'' ''host2'' 30 False ''cli'' running_db = Inr (db1, Some 2)"
    by (simp add: claim_task_reconciliation_def running_simps lease_free_def next_generation_def py_isspace_def Let_def)
  from c reconciliation_takeover [OF c] show ?thesis by blast
qed

end
