(* ===== verification/Store_Records.thy ===== *)
theory Store_Records
  imports Store_Provider_Jobs
begin

text \<open>
  The remaining records of \<^verbatim>\<open>src/project_supervisor/store.py\<close>: execution history, capability
  grants, node identities, routing decisions, worker results, failures, approvals, usage, sessions,
  adapter events and API tokens.

  Worker results, failures and usage share a contract, the locale \<open>immutable_log\<close>: the first write of
  a key wins, a replay of the same content changes nothing, and other content is refused.
\<close>

section \<open>Execution history\<close>

definition given_negative :: "('a :: {zero, linorder}) option \<Rightarrow> bool" where
  "given_negative v = (case v of None \<Rightarrow> False | Some x \<Rightarrow> x < 0)"

definition history_insertable :: "db \<Rightarrow> execution_history_record \<Rightarrow> bool" where
  "history_insertable db h \<longleftrightarrow>
     row_by eh_id (eh_id h) (execution_history db) = None \<and>
     row_by tk_id (eh_task_id h) (tasks db) \<noteq> None \<and>
     row_by wk_id (eh_worker_id h) (workers db) \<noteq> None \<and>
     row_by nd_id (eh_node_id h) (nodes db) \<noteq> None \<and>
     0 \<le> eh_latency_seconds h \<and> 0 \<le> eh_retry_count h \<and> \<not> given_negative (eh_input_tokens h) \<and>
     \<not> given_negative (eh_output_tokens h) \<and> \<not> given_negative (eh_cost_usd h) \<and>
     \<not> (eh_succeeded h \<and> eh_failure_class h \<noteq> None)"

definition record_execution_history :: "execution_history_record \<Rightarrow> db \<Rightarrow> (db \<times> unit) result" where
  "record_execution_history h db =
     bindR (raise_if (\<not> history_insertable db h) (IntegrityError ''execution_history'')) (\<lambda>_.
     Inr (db\<lparr>execution_history := execution_history db @
       [h\<lparr>eh_review_outcome := redact_opt (eh_review_outcome h)\<rparr>]\<rparr>, ()))"

text \<open>\<^verbatim>\<open>ORDER BY recorded_at DESC, id ASC LIMIT ?\<close>\<close>

definition list_execution_history ::
    "db \<Rightarrow> string option \<Rightarrow> string option \<Rightarrow> int \<Rightarrow> execution_history_record list result" where
  "list_execution_history db task_id worker_id limit =
     (if limit < 1 \<or> 1000 < limit then Inl (ValueError ''limit must be between 1 and 1000'')
      else Inr (take (nat limit) (sort_key (\<lambda>h. (- eh_recorded_at h, eh_id h)) (filter
        (\<lambda>h. (task_id \<noteq> None \<longrightarrow> task_id = Some (eh_task_id h)) \<and>
             (worker_id \<noteq> None \<longrightarrow> worker_id = Some (eh_worker_id h))) (execution_history db)))))"

section \<open>Capability grants and node identities\<close>

text \<open>The constraints of the \<^verbatim>\<open>capability_grants\<close> table on an inserted row.\<close>

definition grant_insertable :: "db \<Rightarrow> capability_grant \<Rightarrow> bool" where
  "grant_insertable db g \<longleftrightarrow>
     row_by cg_grant_id (cg_grant_id g) (capability_grants db) = None \<and>
     (case cg_expires_at g of None \<Rightarrow> True | Some d \<Rightarrow> instant (cg_issued_at g) < instant d) \<and>
     (if cg_state g = GRANT_REVOKED then cg_revoked_at g \<noteq> None \<and> cg_revoked_by g \<noteq> None
      else cg_revoked_at g = None \<and> cg_revoked_by g = None)"

text \<open>\<^verbatim>\<open>constraints\<close> maps strings to strings.\<close>

definition redact_constraints :: "(string \<times> string) list \<Rightarrow> (string \<times> string) list" where
  "redact_constraints cs =
     map (\<lambda>(k, v). (k, if is_sensitive_key k then REDACTED else redact_string v)) cs"

definition record_capability_grant :: "rat \<Rightarrow> capability_grant \<Rightarrow> db \<Rightarrow> (db \<times> unit) result" where
  "record_capability_grant now g db =
     bindR (fetch tk_id (cg_task_id g) (tasks db) (KeyError (cg_task_id g))) (\<lambda>task.
     bindR (raise_if (\<not> grant_insertable db g) (IntegrityError ''capability_grants'')) (\<lambda>_.
     Inr (append_event now (mk_event ''capabilityGrantRecorded'' SEV_NOTICE ''capabilityGrant''
         (cg_grant_id g) (Some (tk_project_id task)) (Some (cg_task_id g)) None None
         (''Capability grant '' @ cg_grant_id g @ '' recorded'')
         [(''capability'', JStr (cg_capability g)), (''subject'', JStr (cg_subject g)),
          (''state'', JStr (grant_state_value (cg_state g))), (''expiresAt'', stamp (cg_expires_at g))]
         (cg_issued_by g))
       (db\<lparr>capability_grants := capability_grants db @
          [g\<lparr>cg_constraints := redact_constraints (cg_constraints g)\<rparr>]\<rparr>), ())))"

definition revoke_grant :: "int \<Rightarrow> string \<Rightarrow> capability_grant \<Rightarrow> capability_grant" where
  "revoke_grant t revoked_by g =
     g\<lparr>cg_state := GRANT_REVOKED, cg_revoked_at := Some (Aware t), cg_revoked_by := Some revoked_by\<rparr>"

definition revoke_capability_grant :: "rat \<Rightarrow> string \<Rightarrow> string \<Rightarrow> db \<Rightarrow> (db \<times> unit) result" where
  "revoke_capability_grant now grant_id revoked_by db =
     bindR (raise_if (\<not> nonblank revoked_by) (ValueError ''revoked_by must not be empty'')) (\<lambda>_.
     bindR (fetch cg_grant_id grant_id (capability_grants db) (KeyError grant_id)) (\<lambda>g.
     bindR (raise_if (cg_state g \<noteq> GRANT_ACTIVE)
       (ValueError ''only an active capability grant can be revoked'')) (\<lambda>_.
     bindR (task_project db (cg_task_id g)) (\<lambda>project_id.
     Inr (append_event now (mk_event ''capabilityGrantRevoked'' SEV_WARNING ''capabilityGrant''
         grant_id (Some project_id) (Some (cg_task_id g)) None None
         (''Capability grant '' @ grant_id @ '' revoked'')
         [(''capability'', JStr (cg_capability g)), (''subject'', JStr (cg_subject g))] revoked_by)
       (db\<lparr>capability_grants := upd_by cg_grant_id grant_id (revoke_grant (timestamp now) revoked_by)
          (capability_grants db)\<rparr>), ())))))"

definition identity_insertable :: "db \<Rightarrow> node_public_identity \<Rightarrow> bool" where
  "identity_insertable db n \<longleftrightarrow>
     row_by (\<lambda>r. (ni_node_id r, ni_key_id r)) (ni_node_id n, ni_key_id n) (node_public_identities db) = None \<and>
     row_by ni_public_key_fingerprint (ni_public_key_fingerprint n) (node_public_identities db) = None \<and>
     fingerprint_fullmatch (ni_public_key_fingerprint n) \<and>
     ni_rotated_from_key_id n \<noteq> Some (ni_key_id n)"

definition record_node_public_identity :: "node_public_identity \<Rightarrow> db \<Rightarrow> (db \<times> unit) result" where
  "record_node_public_identity n db =
     bindR (fetch nd_id (ni_node_id n) (nodes db) (KeyError (ni_node_id n))) (\<lambda>_.
     bindR (raise_if (\<not> identity_insertable db n) (IntegrityError ''node_public_identities'')) (\<lambda>_.
     Inr (db\<lparr>node_public_identities := node_public_identities db @ [n]\<rparr>, ())))"

section \<open>Routing decisions\<close>

definition last_routing_decision :: "db \<Rightarrow> string \<Rightarrow> routing_decision_row option" where
  "last_routing_decision db task_id =
     list_last (sort_key (\<lambda>r. (ro_created_at r, ro_id r))
       (filter (\<lambda>r. ro_task_id r = task_id) (routing_decisions db)))"

definition same_routing :: "routing_decision \<Rightarrow> routing_decision_row \<Rightarrow> bool" where
  "same_routing d r \<longleftrightarrow>
     ro_topology r = rd_topology d \<and> ro_policy_version r = rd_policy_version d \<and>
     ro_selected_workers r = rd_selected_worker_ids d \<and>
     ro_explanation r = canonical_dict (rd_explanation d)"

text \<open>
  \<^verbatim>\<open>rejection_by_worker\<close>: the rejections grouped by worker, workers in order of first occurrence;
  a candidate takes its group out of the dictionary, the groups left over follow.
\<close>

definition group_rejections :: "rejection list \<Rightarrow> (string \<times> rejection list) list" where
  "group_rejections rs =
     map (\<lambda>w. (w, filter (\<lambda>r. rj_worker_id r = w) rs)) (dict_fromkeys (map rj_worker_id rs))"

definition candidate_row ::
    "string \<Rightarrow> string list \<Rightarrow> candidate_score \<Rightarrow> rejection option \<Rightarrow> routing_candidate_row" where
  "candidate_row decision_id selected c r =
     \<lparr>rc_decision_id = decision_id, rc_worker_id = cs_worker_id c,
      rc_selected = (cs_worker_id c \<in> set selected), rc_score = Some (cs_score c),
      rc_components = Some (cs_components c),
      rc_rejection_code = (case r of None \<Rightarrow> [] | Some j \<Rightarrow> rj_reason_code j),
      rc_rejection_detail = map_option rj_detail r\<rparr>"

definition rejected_row :: "string \<Rightarrow> string \<Rightarrow> rejection \<Rightarrow> routing_candidate_row" where
  "rejected_row decision_id worker_id r =
     \<lparr>rc_decision_id = decision_id, rc_worker_id = worker_id, rc_selected = False, rc_score = None,
      rc_components = None, rc_rejection_code = rj_reason_code r,
      rc_rejection_detail = Some (rj_detail r)\<rparr>"

fun candidate_rows ::
    "string \<Rightarrow> string list \<Rightarrow> (string \<times> rejection list) list \<Rightarrow> candidate_score list \<Rightarrow>
     routing_candidate_row list" where
  "candidate_rows did selected groups [] =
     concat (map (\<lambda>(w, rs). map (rejected_row did w) rs) groups)"
| "candidate_rows did selected groups (c # cs) =
     (case map_of groups (cs_worker_id c) of
        None \<Rightarrow> [candidate_row did selected c None]
      | Some rs \<Rightarrow> map (\<lambda>r. candidate_row did selected c (Some r)) rs) @
     candidate_rows did selected (filter (\<lambda>(w, _). w \<noteq> cs_worker_id c) groups) cs"

definition candidate_key :: "routing_candidate_row \<Rightarrow> string \<times> string \<times> string" where
  "candidate_key r = (rc_decision_id r, rc_worker_id r, rc_rejection_code r)"

definition insert_decision ::
    "rat \<Rightarrow> string \<Rightarrow> task_row \<Rightarrow> routing_decision \<Rightarrow> string \<Rightarrow> db \<Rightarrow> (db \<times> string) result" where
  "insert_decision now did task d actor db =
     (let cands = candidate_rows did (rd_selected_worker_ids d) (group_rejections (rd_rejected d))
            (rd_candidates d);
          row = \<lparr>ro_id = did, ro_task_id = tk_id task, ro_topology = rd_topology d,
            ro_policy_version = rd_policy_version d, ro_selected_workers = rd_selected_worker_ids d,
            ro_explanation = canonical_dict (rd_explanation d), ro_created_at = timestamp now\<rparr>
      in bindR (raise_if (row_by ro_id did (routing_decisions db) \<noteq> None) (IntegrityError ''routing_decisions'')) (\<lambda>_.
         bindR (raise_if (\<not> unique_key candidate_key (routing_candidates db @ cands))
           (IntegrityError ''routing_candidates'')) (\<lambda>_.
         Inr (append_event now (mk_event ''routingDecisionRecorded'' SEV_INFO ''task'' (tk_id task)
             (Some (tk_project_id task)) (Some (tk_id task)) None None
             (if rd_selected_worker_ids d \<noteq> []
              then ''Selected '' @ join_strings '', '' (rd_selected_worker_ids d)
              else ''No eligible worker selected'')
             (dict_merge [(''decisionID'', JStr did)] (rd_explanation d)) actor)
           (db\<lparr>routing_decisions := routing_decisions db @ [row],
               routing_candidates := routing_candidates db @ cands\<rparr>), did))))"

definition persist_routing_decision ::
    "rat \<Rightarrow> string \<Rightarrow> string \<Rightarrow> routing_decision \<Rightarrow> string \<Rightarrow> db \<Rightarrow> (db \<times> string) result" where
  "persist_routing_decision now uuid task_id decision actor db =
     bindR (fetch tk_id task_id (tasks db) (KeyError task_id)) (\<lambda>task.
     case last_routing_decision db task_id of
       Some p \<Rightarrow>
         if same_routing decision p then Inr (db, ro_id p)
         else insert_decision now (''rte-'' @ uuid) task decision actor db
     | None \<Rightarrow> insert_decision now (''rte-'' @ uuid) task decision actor db)"

definition list_routing_decisions :: "db \<Rightarrow> string \<Rightarrow> routing_decision_row list" where
  "list_routing_decisions db task_id =
     sort_key (\<lambda>r. (ro_created_at r, ro_id r))
       (filter (\<lambda>r. ro_task_id r = task_id) (routing_decisions db))"

section \<open>Worker results\<close>

record result_input =
  wi_summary :: string
  wi_changed_files :: "string list"
  wi_commands_run :: "string list"
  wi_tests :: "json list"
  wi_artifacts :: "string list"
  wi_commit_hash :: "string option"
  wi_blockers :: "string list"
  wi_confidence :: "rat option"
  wi_recommended_next_actions :: "string list"

definition redact_strings :: "string list \<Rightarrow> json" where
  "redact_strings xs = JList (map (\<lambda>s. JStr (redact_string s)) xs)"

definition result_row_of :: "string \<Rightarrow> int \<Rightarrow> result_input \<Rightarrow> result_row" where
  "result_row_of run_id t i =
     \<lparr>rs_run_id = run_id, rs_summary = redact_string (wi_summary i),
      rs_changed_files = redact_strings (wi_changed_files i),
      rs_commands_run = redact_strings (wi_commands_run i),
      rs_tests = canonical_json (redact_json (JList (wi_tests i))),
      rs_artifacts = redact_strings (wi_artifacts i), rs_commit_hash = redact_opt (wi_commit_hash i),
      rs_blockers = redact_strings (wi_blockers i), rs_confidence = wi_confidence i,
      rs_recommended_next_actions = redact_strings (wi_recommended_next_actions i),
      rs_created_at = t\<rparr>"

text \<open>The compared columns: everything but the time of the write.\<close>

definition result_content :: "result_row \<Rightarrow> result_row" where
  "result_content r = r\<lparr>rs_created_at := 0\<rparr>"

definition save_worker_result ::
    "rat \<Rightarrow> string \<Rightarrow> result_input \<Rightarrow> string option \<Rightarrow> int option \<Rightarrow> db \<Rightarrow> (db \<times> unit) result" where
  "save_worker_result now run_id i lease_owner_id lease_generation db =
     (let row = result_row_of run_id (timestamp now) i in
      bindR (fetch rn_id run_id (worker_runs db) (KeyError run_id)) (\<lambda>run.
      bindR (require_optional_lease now db (rn_task_id run) lease_owner_id lease_generation) (\<lambda>_.
      case row_by rs_run_id run_id (worker_results db) of
        Some existing \<Rightarrow>
          if result_content existing = result_content row then Inr (db, ())
          else Inl (RuntimeError (''worker result for '' @ run_id @ '' is immutable''))
      | None \<Rightarrow>
          bindR (raise_if (case wi_confidence i of None \<Rightarrow> False | Some c \<Rightarrow> \<not> unit_interval c)
            (IntegrityError ''worker_results'')) (\<lambda>_.
          bindR (task_project db (rn_task_id run)) (\<lambda>project_id.
          Inr (append_event now (mk_event ''workerResultRecorded'' SEV_INFO ''workerRun'' run_id
              (Some project_id) (Some (rn_task_id run)) (Some (rn_worker_id run)) (Some run_id)
              ''Immutable Worker result recorded''
              [(''changedFileCount'', JInt (int (length (wi_changed_files i)))),
               (''testCount'', JInt (int (length (wi_tests i)))),
               (''artifactCount'', JInt (int (length (wi_artifacts i)))),
               (''blockerCount'', JInt (int (length (wi_blockers i))))] ''runtime'')
            (db\<lparr>worker_results := worker_results db @ [row]\<rparr>), ()))))))"

section \<open>Failures\<close>

record failure_input =
  fi_classification :: failure_class
  fi_summary :: string
  fi_retryable :: bool
  fi_record_id :: "string option"
  fi_project_id :: "string option"
  fi_task_id :: "string option"
  fi_run_id :: "string option"
  fi_detail :: "string option"

text \<open>The identifier and the project of a failure; \<open>uuid\<close> is a fresh identifier.\<close>

definition failure_id_of :: "string \<Rightarrow> failure_input \<Rightarrow> string" where
  "failure_id_of uuid i = or_default (fi_record_id i) (''failure-'' @ uuid)"

definition failure_project :: "db \<Rightarrow> failure_input \<Rightarrow> string option result" where
  "failure_project db i =
     (case (fi_project_id i, fi_task_id i) of
        (None, Some t) \<Rightarrow> bindR (fetch tk_id t (tasks db) (KeyError t)) (\<lambda>task. Inr (Some (tk_project_id task)))
      | (p, _) \<Rightarrow> Inr p)"

definition failure_row_of :: "string \<Rightarrow> string option \<Rightarrow> int \<Rightarrow> failure_input \<Rightarrow> failure_row" where
  "failure_row_of fid project_id t i =
     \<lparr>fa_id = fid, fa_project_id = project_id, fa_task_id = fi_task_id i, fa_run_id = fi_run_id i,
      fa_classification = fi_classification i, fa_summary = redact_string (fi_summary i),
      fa_detail = (if truthy (fi_detail i) then redact_opt (fi_detail i) else None),
      fa_retryable = fi_retryable i, fa_created_at = t\<rparr>"

definition failure_content :: "failure_row \<Rightarrow> failure_row" where
  "failure_content r = r\<lparr>fa_created_at := 0\<rparr>"

text \<open>A nullable foreign key.\<close>

definition references :: "('r \<Rightarrow> string) \<Rightarrow> 'r list \<Rightarrow> string option \<Rightarrow> bool" where
  "references key rows v = (case v of None \<Rightarrow> True | Some k \<Rightarrow> row_by key k rows \<noteq> None)"

definition failure_event :: "string \<Rightarrow> failure_row \<Rightarrow> event" where
  "failure_event fid r =
     mk_event ''failureRecorded'' SEV_WARNING (if truthy (fa_run_id r) then ''workerRun'' else ''task'')
       (if truthy (fa_run_id r) then the (fa_run_id r) else or_default (fa_task_id r) fid)
       (fa_project_id r) (fa_task_id r) None (fa_run_id r) (fa_summary r)
       [(''failureID'', JStr fid), (''classification'', JStr (failure_class_value (fa_classification r))),
        (''retryable'', JBool (fa_retryable r))] ''runtime''"

definition record_failure :: "rat \<Rightarrow> string \<Rightarrow> failure_input \<Rightarrow> db \<Rightarrow> (db \<times> string) result" where
  "record_failure now uuid i db =
     (let fid = failure_id_of uuid i in
      bindR (raise_if (\<not> nonblank fid) (ValueError ''failure record_id must not be empty'')) (\<lambda>_.
      bindR (failure_project db i) (\<lambda>project_id.
      let row = failure_row_of fid project_id (timestamp now) i in
      case row_by fa_id fid (failures db) of
        Some existing \<Rightarrow>
          if failure_content existing = failure_content row then Inr (db, fid)
          else Inl (RuntimeError (''failure record '' @ fid @ '' conflicts with immutable replay''))
      | None \<Rightarrow>
          bindR (raise_if (\<not> references pj_id (projects db) project_id \<or>
              \<not> references tk_id (tasks db) (fi_task_id i) \<or>
              \<not> references rn_id (worker_runs db) (fi_run_id i)) (IntegrityError ''failures'')) (\<lambda>_.
          Inr (append_event now (failure_event fid row) (db\<lparr>failures := failures db @ [row]\<rparr>), fid)))))"

section \<open>Usage\<close>

record usage_input =
  ui_metric :: string
  ui_telemetry :: telemetry_value
  ui_unit :: string
  ui_record_id :: "string option"
  ui_task_id :: "string option"
  ui_run_id :: "string option"
  ui_worker_id :: "string option"
  ui_model_id :: "string option"

definition usage_row_of :: "string \<Rightarrow> int \<Rightarrow> usage_input \<Rightarrow> usage_row" where
  "usage_row_of uid t i =
     \<lparr>us_id = uid, us_task_id = ui_task_id i, us_run_id = ui_run_id i, us_worker_id = ui_worker_id i,
      us_model_id = ui_model_id i, us_metric = ui_metric i, us_telemetry = ui_telemetry i,
      us_unit = ui_unit i, us_recorded_at = t\<rparr>"

definition usage_content :: "usage_row \<Rightarrow> usage_row" where
  "usage_content r = r\<lparr>us_recorded_at := 0\<rparr>"

definition usage_insertable :: "db \<Rightarrow> usage_row \<Rightarrow> bool" where
  "usage_insertable db r \<longleftrightarrow>
     references tk_id (tasks db) (us_task_id r) \<and> references rn_id (worker_runs db) (us_run_id r) \<and>
     references wk_id (workers db) (us_worker_id r) \<and> references ml_id (models db) (us_model_id r) \<and>
     (tv_value (us_telemetry r) = None \<longleftrightarrow> tv_reason (us_telemetry r) \<noteq> None)"

definition record_usage :: "rat \<Rightarrow> string \<Rightarrow> usage_input \<Rightarrow> db \<Rightarrow> (db \<times> string) result" where
  "record_usage now uuid i db =
     (let uid = or_default (ui_record_id i) (''usg-'' @ uuid); row = usage_row_of uid (timestamp now) i in
      bindR (raise_if (\<not> nonblank uid) (ValueError ''usage record_id must not be empty'')) (\<lambda>_.
      case row_by us_id uid (usage_records db) of
        Some existing \<Rightarrow>
          if usage_content existing = usage_content row then Inr (db, uid)
          else Inl (RuntimeError (''usage record '' @ uid @ '' conflicts with immutable replay''))
      | None \<Rightarrow>
          bindR (raise_if (\<not> usage_insertable db row) (IntegrityError ''usage_records'')) (\<lambda>_.
          Inr (db\<lparr>usage_records := usage_records db @ [row]\<rparr>, uid))))"

section \<open>Approvals\<close>

definition request_approval ::
    "rat \<Rightarrow> string \<Rightarrow> string \<Rightarrow> string \<Rightarrow> string \<Rightarrow> (string \<times> json) list \<Rightarrow> string \<Rightarrow> string option \<Rightarrow>
     string option \<Rightarrow> db \<Rightarrow> (db \<times> string) result" where
  "request_approval now uuid project_id permission action_type action_payload requested_by task_id
     reason db =
     (let aid = ''approval-'' @ uuid;
          row = \<lparr>ap_id = aid, ap_project_id = project_id, ap_task_id = task_id,
            ap_permission_class = permission, ap_action_type = action_type,
            ap_action_payload = redact_dict action_payload, ap_state = ''pending'',
            ap_requested_at = timestamp now, ap_resolved_at = None, ap_requested_by = requested_by,
            ap_resolved_by = None, ap_reason = reason\<rparr>
      in bindR (raise_if (row_by ap_id aid (approvals db) \<noteq> None \<or>
             row_by pj_id project_id (projects db) = None \<or> \<not> references tk_id (tasks db) task_id)
           (IntegrityError ''approvals'')) (\<lambda>_.
         Inr (append_event now (mk_event ''approvalRequested'' SEV_WARNING ''approval'' aid
             (Some project_id) task_id None None (''Human approval required for '' @ action_type)
             [(''approvalID'', JStr aid), (''permissionClass'', JStr permission)] requested_by)
           (db\<lparr>approvals := approvals db @ [row]\<rparr>), aid)))"

definition resolve_row :: "int \<Rightarrow> bool \<Rightarrow> string \<Rightarrow> string option \<Rightarrow> approval_row \<Rightarrow> approval_row" where
  "resolve_row t approved resolved_by reason a =
     a\<lparr>ap_state := (if approved then ''approved'' else ''rejected''), ap_resolved_at := Some t,
       ap_resolved_by := Some resolved_by, ap_reason := coalesce reason (ap_reason a)\<rparr>"

definition resolve_approval ::
    "rat \<Rightarrow> string \<Rightarrow> bool \<Rightarrow> string \<Rightarrow> string option \<Rightarrow> db \<Rightarrow> (db \<times> unit) result" where
  "resolve_approval now approval_id approved resolved_by reason db =
     bindR (fetch ap_id approval_id (approvals db) (KeyError approval_id)) (\<lambda>row.
     bindR (raise_if (ap_state row \<noteq> ''pending'') (ValueError ''approval has already been resolved'')) (\<lambda>_.
     let state = (if approved then ''approved'' else ''rejected'') in
     Inr (append_event now (mk_event ''approvalResolved'' SEV_NOTICE ''approval'' approval_id
         (Some (ap_project_id row)) (ap_task_id row) None None (''Approval '' @ state)
         [(''approvalID'', JStr approval_id), (''state'', JStr state)] resolved_by)
       (db\<lparr>approvals := upd_by ap_id approval_id
          (resolve_row (timestamp now) approved resolved_by reason) (approvals db)\<rparr>), ())))"

section \<open>Sessions and adapter events\<close>

definition upsert_session ::
    "(string \<Rightarrow> string) \<Rightarrow> rat \<Rightarrow> string \<Rightarrow> string \<Rightarrow> string \<Rightarrow> string option \<Rightarrow> string option \<Rightarrow> db \<Rightarrow>
     (db \<times> string) result" where
  "upsert_session sha now worker_id provider_session_id state resume_cursor model_id db =
     (let sid = ''ses-'' @ take 20 (sha (worker_id @ '':'' @ provider_session_id));
          row = \<lparr>se_id = sid, se_worker_id = worker_id, se_provider_session_id = provider_session_id,
            se_model_id = model_id, se_resume_cursor = resume_cursor, se_state = state,
            se_created_at = timestamp now, se_updated_at = timestamp now\<rparr>
      in bindR (raise_if (\<not> references ml_id (models db) model_id \<or>
             (row_by se_id sid (sessions db) = None \<and>
              (row_by wk_id worker_id (workers db) = None \<or>
               list_ex (\<lambda>s. se_worker_id s = worker_id \<and> se_provider_session_id s = provider_session_id)
                 (sessions db)))) (IntegrityError ''sessions'')) (\<lambda>_.
         Inr (db\<lparr>sessions := upsert_by se_id row
           (\<lambda>old. old\<lparr>se_model_id := coalesce model_id (se_model_id old),
              se_resume_cursor := coalesce resume_cursor (se_resume_cursor old),
              se_state := state, se_updated_at := timestamp now\<rparr>) (sessions db)\<rparr>, sid)))"

text \<open>\<^verbatim>\<open>pid if isinstance(pid, int) else None\<close>; a Boolean is an integer too.\<close>

definition payload_pid :: "(string \<times> json) list \<Rightarrow> int option" where
  "payload_pid p = (case map_of p ''pid'' of
     Some (JInt n) \<Rightarrow> Some n | Some (JBool b) \<Rightarrow> Some (if b then 1 else 0) | _ \<Rightarrow> None)"

definition record_adapter_event ::
    "rat \<Rightarrow> string \<Rightarrow> string \<Rightarrow> (string \<times> json) list \<Rightarrow> string option \<Rightarrow> string option \<Rightarrow> int option \<Rightarrow>
     db \<Rightarrow> (db \<times> nat) result" where
  "record_adapter_event now run_id kind payload summary lease_owner_id lease_generation db =
     (let safe = redact_dict payload in
      bindR (fetch rn_id run_id (worker_runs db) (KeyError run_id)) (\<lambda>run.
      bindR (require_optional_lease now db (rn_task_id run) lease_owner_id lease_generation) (\<lambda>_.
      bindR (task_project db (rn_task_id run)) (\<lambda>project_id.
      let db = db\<lparr>worker_runs := upd_by rn_id run_id
            (\<lambda>r. r\<lparr>rn_process_id := coalesce (payload_pid safe) (rn_process_id r),
               rn_last_event_at := Some (timestamp now), rn_updated_at := timestamp now\<rparr>) (worker_runs db)\<rparr>;
          db = append_event now (mk_event ''workerAdapterEvent'' SEV_DEBUG ''workerRun'' run_id
            (Some project_id) (Some (rn_task_id run)) (Some (rn_worker_id run)) (Some run_id)
            (or_default summary (''Adapter event: '' @ kind))
            (dict_merge [(''adapterEventKind'', JStr kind)] safe) ''adapter'') db
      in Inr (db, highest_event_sequence db)))))"

section \<open>API tokens\<close>

text \<open>The key derivation \<^verbatim>\<open>scrypt\<close> is the parameter \<open>kdf\<close>, of the secret and the salt.\<close>

definition issue_api_token ::
    "(string \<Rightarrow> string \<Rightarrow> string) \<Rightarrow> rat \<Rightarrow> string \<Rightarrow> string \<Rightarrow> string \<Rightarrow> string \<Rightarrow> string set \<Rightarrow>
     int option \<Rightarrow> db \<Rightarrow> (db \<times> string \<times> string) result" where
  "issue_api_token kdf now uuid secret salt label scopes expires_at db =
     (let tid = ''tok-'' @ uuid in
      bindR (raise_if (row_by tn_id tid (api_tokens db) \<noteq> None) (IntegrityError ''api_tokens'')) (\<lambda>_.
      Inr (db\<lparr>api_tokens := api_tokens db @
        [\<lparr>tn_id = tid, tn_label = label, tn_salt = salt, tn_hash = kdf secret salt,
          tn_scopes = sorted_list_of_set scopes, tn_created_at = timestamp now,
          tn_expires_at = expires_at, tn_revoked_at = None\<rparr>]\<rparr>, tid, tid @ ''.'' @ secret)))"

text \<open>\<^verbatim>\<open>presented.split(".", 1)\<close>; without a dot the unpacking fails.\<close>

definition split_token :: "string \<Rightarrow> (string \<times> string) option" where
  "split_token s =
     (if CHR ''.'' \<in> set s
      then Some (takeWhile (\<lambda>c. c \<noteq> CHR ''.'') s, tl (dropWhile (\<lambda>c. c \<noteq> CHR ''.'') s))
      else None)"

definition verify_api_token ::
    "(string \<Rightarrow> string \<Rightarrow> string) \<Rightarrow> rat \<Rightarrow> db \<Rightarrow> string \<Rightarrow> string \<Rightarrow> bool" where
  "verify_api_token kdf now db presented required_scope =
     (case split_token presented of
        None \<Rightarrow> False
      | Some (tid, secret) \<Rightarrow>
          (case row_by tn_id tid (api_tokens db) of
             None \<Rightarrow> False
           | Some row \<Rightarrow>
               if tn_revoked_at row \<noteq> None then False
               else if (case tn_expires_at row of None \<Rightarrow> False | Some t \<Rightarrow> t \<le> timestamp now) then False
               else if required_scope \<notin> set (tn_scopes row) \<and> ''*'' \<notin> set (tn_scopes row) then False
               else kdf secret (tn_salt row) = tn_hash row))"

section \<open>Immutable records\<close>

text \<open>
  \<open>wanted a d\<close> is the row a call with arguments \<open>a\<close> wants to store in \<open>d\<close>, or the error with which
  it is refused before the table is looked at.
\<close>

locale immutable_log =
  fixes rows :: "db \<Rightarrow> 'r list"
    and key :: "'r \<Rightarrow> string"
    and content :: "'r \<Rightarrow> 'r"
    and wanted :: "'a \<Rightarrow> db \<Rightarrow> 'r result"
    and put :: "'a \<Rightarrow> db \<Rightarrow> db result"
  assumes write_fresh: "wanted a d = Inr r \<Longrightarrow> put a d = Inr d' \<Longrightarrow>
      row_by key (key r) (rows d) = None \<Longrightarrow> rows d' = rows d @ [r]"
    and write_replay: "wanted a d = Inr r \<Longrightarrow> put a d = Inr d' \<Longrightarrow>
      row_by key (key r) (rows d) = Some r0 \<Longrightarrow> d' = d \<and> content r0 = content r"
    and write_wanted: "put a d = Inr d' \<Longrightarrow> \<exists>r. wanted a d = Inr r"
begin

lemma append_only: "put a d = Inr d' \<Longrightarrow> prefix (rows d) (rows d')"
  using write_wanted [of a d d'] write_fresh [of a d _ d'] write_replay [of a d _ d']
  by (metis option.exhaust prefixI prefix_order.refl)

lemma stored:
  assumes "put a d = Inr d'" and "wanted a d = Inr r"
  shows "\<exists>r'. row_by key (key r) (rows d') = Some r' \<and> content r' = content r"
proof (cases "row_by key (key r) (rows d)")
  case None
  then show ?thesis using write_fresh [OF assms(2,1)] by (simp add: row_simps)
next
  case (Some r0)
  then show ?thesis using write_replay [OF assms(2,1)] by blast
qed

lemma first_write_wins:
  assumes "put a d = Inr d1" and "wanted a d = Inr r" and "prefix (rows d1) (rows d2)"
    and "put b d2 = Inr d3" and "wanted b d2 = Inr r2" and "key r2 = key r"
  shows "content r2 = content r \<and> d3 = d2"
proof -
  obtain r' where r': "row_by key (key r) (rows d1) = Some r'" "content r' = content r"
    using stored [OF assms(1,2)] by blast
  obtain rest where "rows d2 = rows d1 @ rest" using assms(3) by (auto simp: prefix_def)
  then have "row_by key (key r2) (rows d2) = Some r'" using r'(1) assms(6) by (simp add: row_simps)
  then show ?thesis using write_replay [OF assms(5,4)] r'(2) by simp
qed

end

type_synonym result_call = "rat \<times> string \<times> result_input \<times> string option \<times> int option"

definition write_result :: "result_call \<Rightarrow> db \<Rightarrow> db result" where
  "write_result = (\<lambda>(now, run_id, i, owner, gen) db.
     map_sum id fst (save_worker_result now run_id i owner gen db))"

definition wanted_result :: "result_call \<Rightarrow> db \<Rightarrow> result_row result" where
  "wanted_result = (\<lambda>(now, run_id, i, owner, gen) db. Inr (result_row_of run_id (timestamp now) i))"

definition write_failure :: "rat \<times> string \<times> failure_input \<Rightarrow> db \<Rightarrow> db result" where
  "write_failure = (\<lambda>(now, uuid, i) db. map_sum id fst (record_failure now uuid i db))"

definition wanted_failure :: "rat \<times> string \<times> failure_input \<Rightarrow> db \<Rightarrow> failure_row result" where
  "wanted_failure = (\<lambda>(now, uuid, i) db.
     bindR (failure_project db i) (\<lambda>p. Inr (failure_row_of (failure_id_of uuid i) p (timestamp now) i)))"

definition write_usage :: "rat \<times> string \<times> usage_input \<Rightarrow> db \<Rightarrow> db result" where
  "write_usage = (\<lambda>(now, uuid, i) db. map_sum id fst (record_usage now uuid i db))"

definition wanted_usage :: "rat \<times> string \<times> usage_input \<Rightarrow> db \<Rightarrow> usage_row result" where
  "wanted_usage = (\<lambda>(now, uuid, i) db.
     Inr (usage_row_of (or_default (ui_record_id i) (''usg-'' @ uuid)) (timestamp now) i))"

lemma map_sum_Inr_iff: "map_sum f g s = Inr y \<longleftrightarrow> (\<exists>x. s = Inr x \<and> y = g x)"
  by (cases s) auto

lemmas log_simps = write_result_def wanted_result_def write_failure_def wanted_failure_def
  write_usage_def wanted_usage_def map_sum_Inr_iff

interpretation result_log: immutable_log worker_results rs_run_id result_content wanted_result write_result
proof
  fix a d r d' r0
  assume w: "wanted_result a d = Inr r" "write_result a d = Inr d'"
  obtain now run_id i o1 g where a: "a = (now, run_id, i, o1, g)" by (cases a) auto
  show "worker_results d' = worker_results d @ [r]" if "row_by rs_run_id (rs_run_id r) (worker_results d) = None"
    using w that by (auto simp: a log_simps save_worker_result_def Let_def result_row_of_def)
  show "d' = d \<and> result_content r0 = result_content r"
    if "row_by rs_run_id (rs_run_id r) (worker_results d) = Some r0"
    using w that by (auto simp: a log_simps save_worker_result_def Let_def result_row_of_def split: if_splits)
qed (auto simp: wanted_result_def)

interpretation failure_log: immutable_log failures fa_id failure_content wanted_failure write_failure
proof
  fix a d r d' r0
  assume w: "wanted_failure a d = Inr r" "write_failure a d = Inr d'"
  obtain now uuid i where a: "a = (now, uuid, i)" by (cases a) auto
  show "failures d' = failures d @ [r]" if "row_by fa_id (fa_id r) (failures d) = None"
    using w that by (auto simp: a log_simps record_failure_def Let_def failure_row_of_def)
  show "d' = d \<and> failure_content r0 = failure_content r" if "row_by fa_id (fa_id r) (failures d) = Some r0"
    using w that by (auto simp: a log_simps record_failure_def Let_def failure_row_of_def split: if_splits)
qed (auto simp: log_simps record_failure_def Let_def)

interpretation usage_log: immutable_log usage_records us_id usage_content wanted_usage write_usage
proof
  fix a d r d' r0
  assume w: "wanted_usage a d = Inr r" "write_usage a d = Inr d'"
  obtain now uuid i where a: "a = (now, uuid, i)" by (cases a) auto
  show "usage_records d' = usage_records d @ [r]" if "row_by us_id (us_id r) (usage_records d) = None"
    using w that by (auto simp: a log_simps record_usage_def Let_def usage_row_of_def)
  show "d' = d \<and> usage_content r0 = usage_content r" if "row_by us_id (us_id r) (usage_records d) = Some r0"
    using w that by (auto simp: a log_simps record_usage_def Let_def usage_row_of_def split: if_splits)
qed (auto simp: log_simps)

section \<open>Journal growth\<close>

lemma journal_record_execution_history:
  "record_execution_history h db = Inr (db', u) \<Longrightarrow> journal_extends db db'"
  by (auto simp: record_execution_history_def)

lemma journal_record_capability_grant:
  "record_capability_grant now g db = Inr (db', u) \<Longrightarrow> journal_extends db db'"
  by (auto simp: record_capability_grant_def)

lemma journal_revoke_capability_grant:
  "revoke_capability_grant now gid who db = Inr (db', u) \<Longrightarrow> journal_extends db db'"
  by (auto simp: revoke_capability_grant_def)

lemma journal_record_node_public_identity:
  "record_node_public_identity n db = Inr (db', u) \<Longrightarrow> journal_extends db db'"
  by (auto simp: record_node_public_identity_def)

lemma journal_persist_routing_decision:
  "persist_routing_decision now uuid tid d actor db = Inr (db', r) \<Longrightarrow> journal_extends db db'"
  by (auto simp: persist_routing_decision_def insert_decision_def Let_def split: option.splits if_splits)

lemma journal_save_worker_result:
  "save_worker_result now rid i o1 g db = Inr (db', u) \<Longrightarrow> journal_extends db db'"
  by (auto simp: save_worker_result_def Let_def split: option.splits if_splits)

lemma journal_record_failure:
  "record_failure now uuid i db = Inr (db', r) \<Longrightarrow> journal_extends db db'"
  by (auto simp: record_failure_def Let_def split: option.splits if_splits)

lemma journal_record_usage: "record_usage now uuid i db = Inr (db', r) \<Longrightarrow> journal_extends db db'"
  by (auto simp: record_usage_def Let_def split: option.splits if_splits)

lemma journal_request_approval:
  "request_approval now uuid pid perm act payload who tid reason db = Inr (db', r) \<Longrightarrow>
   journal_extends db db'"
  by (auto simp: request_approval_def Let_def)

lemma journal_resolve_approval:
  "resolve_approval now aid ok who reason db = Inr (db', u) \<Longrightarrow> journal_extends db db'"
  by (auto simp: resolve_approval_def Let_def)

lemma journal_upsert_session:
  "upsert_session sha now wid ps st cur mid db = Inr (db', r) \<Longrightarrow> journal_extends db db'"
  by (auto simp: upsert_session_def Let_def)

lemma journal_record_adapter_event:
  "record_adapter_event now rid kind payload summary o1 g db = Inr (db', r) \<Longrightarrow> journal_extends db db'"
  by (auto simp: record_adapter_event_def Let_def)

lemma journal_issue_api_token:
  "issue_api_token kdf now uuid secret salt label scopes ex db = Inr (db', r) \<Longrightarrow> journal_extends db db'"
  by (auto simp: issue_api_token_def Let_def)

lemmas journal_records =
  journal_record_execution_history journal_record_capability_grant journal_revoke_capability_grant
  journal_record_node_public_identity journal_persist_routing_decision journal_save_worker_result
  journal_record_failure journal_record_usage journal_request_approval journal_resolve_approval
  journal_upsert_session journal_record_adapter_event journal_issue_api_token

section \<open>Properties\<close>

lemma record_usage_id:
  assumes "record_usage now uuid v db = Inr (db1, uid)"
  shows "or_default (ui_record_id v) (''usg-'' @ uuid) = uid"
  using assms by (cases "row_by us_id (or_default (ui_record_id v) (''usg-'' @ uuid)) (usage_records db)")
    (auto simp: record_usage_def Let_def split: if_splits)

text \<open>
  C25. Results, failures and usage are written once. When a record was stored under a key, then
  whatever was appended to its table since, a later call for the same key either raises or carries
  the same content and changes nothing at all; in particular a worker cannot replace its result.
\<close>

theorem immutable_records:
  "(save_worker_result now rid i o1 g db = Inr (db1, u) \<and>
      prefix (worker_results db1) (worker_results db2) \<and>
      save_worker_result now' rid i' o1' g' db2 = Inr (db3, u') \<longrightarrow>
      result_row_of rid t i' = result_row_of rid t i \<and> db3 = db2) \<and>
   (record_failure now uuid f db = Inr (db1, fid) \<and> prefix (failures db1) (failures db2) \<and>
      record_failure now' uuid' f' db2 = Inr (db3, fid) \<longrightarrow>
      failure_row_of fid p t f' = failure_row_of fid p t f \<and> db3 = db2) \<and>
   (record_usage now uuid v db = Inr (db1, uid) \<and> prefix (usage_records db1) (usage_records db2) \<and>
      record_usage now' uuid' v' db2 = Inr (db3, uid) \<longrightarrow>
      usage_row_of uid t v' = usage_row_of uid t v \<and> db3 = db2)"
proof (intro conjI impI)
  assume "save_worker_result now rid i o1 g db = Inr (db1, u) \<and>
    prefix (worker_results db1) (worker_results db2) \<and>
    save_worker_result now' rid i' o1' g' db2 = Inr (db3, u')"
  then have "result_content (result_row_of rid (timestamp now') i') =
      result_content (result_row_of rid (timestamp now) i) \<and> db3 = db2"
    by (intro result_log.first_write_wins [of "(now, rid, i, o1, g)" db db1 _ db2 "(now', rid, i', o1', g')"])
      (auto simp: log_simps result_row_of_def)
  then show "result_row_of rid t i' = result_row_of rid t i" and "db3 = db2"
    by (simp_all add: result_content_def result_row_of_def)
next
  assume *: "record_failure now uuid f db = Inr (db1, fid) \<and> prefix (failures db1) (failures db2) \<and>
    record_failure now' uuid' f' db2 = Inr (db3, fid)"
  then have ids: "failure_id_of uuid f = fid" "failure_id_of uuid' f' = fid"
    by (auto simp: record_failure_def Let_def split: option.splits if_splits)
  obtain p1 p2 where p: "failure_project db f = Inr p1" "failure_project db2 f' = Inr p2"
    using * by (auto simp: record_failure_def Let_def)
  have "failure_content (failure_row_of fid p2 (timestamp now') f') =
      failure_content (failure_row_of fid p1 (timestamp now) f) \<and> db3 = db2"
    using * p by (intro failure_log.first_write_wins [of "(now, uuid, f)" db db1 _ db2 "(now', uuid', f')"])
      (auto simp: log_simps ids failure_row_of_def)
  then show "failure_row_of fid p t f' = failure_row_of fid p t f" and "db3 = db2"
    by (simp_all add: failure_content_def failure_row_of_def)
next
  assume *: "record_usage now uuid v db = Inr (db1, uid) \<and> prefix (usage_records db1) (usage_records db2) \<and>
    record_usage now' uuid' v' db2 = Inr (db3, uid)"
  then have ids: "or_default (ui_record_id v) (''usg-'' @ uuid) = uid"
      "or_default (ui_record_id v') (''usg-'' @ uuid') = uid"
    using record_usage_id by blast+
  have "usage_content (usage_row_of uid (timestamp now') v') =
      usage_content (usage_row_of uid (timestamp now) v) \<and> db3 = db2"
    using * by (intro usage_log.first_write_wins [of "(now, uuid, v)" db db1 _ db2 "(now', uuid', v')"])
      (auto simp: log_simps ids [simplified] usage_row_of_def)
  then show "usage_row_of uid t v' = usage_row_of uid t v" and "db3 = db2"
    by (simp_all add: usage_content_def usage_row_of_def)
qed

text \<open>
  C26. Revoking a capability grant is effective and final. The grant was active; afterwards it
  authorizes nobody, for nothing and at no time, and names who revoked it; every other grant is as
  before; and the grant can neither be revoked again nor be recorded anew under its identifier.
\<close>

theorem grant_revocation_final:
  assumes "revoke_capability_grant now gid revoker db = Inr (db', u)"
  shows "(\<exists>g. row_by cg_grant_id gid (capability_grants db) = Some g \<and> cg_state g = GRANT_ACTIVE \<and>
      row_by cg_grant_id gid (capability_grants db') = Some (revoke_grant (timestamp now) revoker g) \<and>
      (\<forall>capability subject task observed.
         \<not> authorizes (revoke_grant (timestamp now) revoker g) capability subject task observed)) \<and>
    (other \<noteq> gid \<longrightarrow>
      row_by cg_grant_id other (capability_grants db') = row_by cg_grant_id other (capability_grants db)) \<and>
    \<not> is_ok (revoke_capability_grant later gid someone db') \<and>
    (cg_grant_id new = gid \<longrightarrow> \<not> is_ok (record_capability_grant later new db'))"
proof -
  obtain g where g: "row_by cg_grant_id gid (capability_grants db) = Some g" "cg_state g = GRANT_ACTIVE"
    and db': "capability_grants db' = upd_by cg_grant_id gid (revoke_grant (timestamp now) revoker)
      (capability_grants db)"
    using assms by (auto simp: revoke_capability_grant_def)
  have key: "cg_grant_id (revoke_grant t r x) = cg_grant_id x" for t r x by (simp add: revoke_grant_def)
  have row: "row_by cg_grant_id k (capability_grants db') = (if k = gid
      then Some (revoke_grant (timestamp now) revoker g) else row_by cg_grant_id k (capability_grants db))" for k
    by (simp add: db' row_by_upd_by key g(1))
  have "\<not> is_ok (revoke_capability_grant later gid someone db')"
    by (auto simp: is_ok_iff revoke_capability_grant_def row revoke_grant_def)
  moreover have "cg_grant_id new = gid \<longrightarrow> \<not> is_ok (record_capability_grant later new db')"
    by (auto simp: is_ok_iff record_capability_grant_def grant_insertable_def row)
  moreover have "\<not> authorizes (revoke_grant (timestamp now) revoker g) capability subject task observed"
    for capability subject task observed
    by (simp add: authorizes_def revoke_grant_def)
  ultimately show ?thesis using g row by auto
qed


text \<open>
  C28. An approval is decided once, by a person who is named. Resolving needs a pending row, stores
  the decision, its author and its time, leaves every other approval alone, and a second resolution
  of either kind raises.
\<close>

theorem approval_resolved_once:
  assumes "resolve_approval now aid approved resolver reason db = Inr (db', u)"
  shows "(\<exists>a. row_by ap_id aid (approvals db) = Some a \<and> ap_state a = ''pending'' \<and>
      row_by ap_id aid (approvals db') = Some (a\<lparr>ap_state := (if approved then ''approved'' else ''rejected''),
        ap_resolved_at := Some (timestamp now), ap_resolved_by := Some resolver,
        ap_reason := coalesce reason (ap_reason a)\<rparr>)) \<and>
    (other \<noteq> aid \<longrightarrow> row_by ap_id other (approvals db') = row_by ap_id other (approvals db)) \<and>
    \<not> is_ok (resolve_approval later aid anyhow someone why db')"
proof -
  obtain a where a: "row_by ap_id aid (approvals db) = Some a" "ap_state a = ''pending''"
    and db': "approvals db' = upd_by ap_id aid (resolve_row (timestamp now) approved resolver reason) (approvals db)"
    using assms by (auto simp: resolve_approval_def Let_def)
  have row: "row_by ap_id k (approvals db') = (if k = aid
      then Some (resolve_row (timestamp now) approved resolver reason a) else row_by ap_id k (approvals db))" for k
    by (simp add: db' row_by_upd_by resolve_row_def a(1))
  have "\<not> is_ok (resolve_approval later aid anyhow someone why db')"
    by (auto simp: is_ok_iff resolve_approval_def row resolve_row_def)
  then show ?thesis using a row by (auto simp: resolve_row_def)
qed

section \<open>Examples\<close>

definition sample_input :: result_input where
  "sample_input = \<lparr>wi_summary = [], wi_changed_files = [], wi_commands_run = [], wi_tests = [],
     wi_artifacts = [], wi_commit_hash = None, wi_blockers = [], wi_confidence = None,
     wi_recommended_next_actions = []\<rparr>"

definition unreported_db :: db where
  "unreported_db = running_db\<lparr>worker_results := []\<rparr>"

lemma sample_save: "\<exists>db1. save_worker_result 5 ''r'' sample_input None None unreported_db = Inr (db1, ())"
  by (simp add: save_worker_result_def unreported_db_def running_simps sample_input_def
      require_optional_lease_def task_project_def Let_def)

theorem immutable_records_witness:
  "\<exists>db1. save_worker_result 5 ''r'' sample_input None None unreported_db = Inr (db1, ()) \<and>
     save_worker_result 6 ''r'' (sample_input\<lparr>wi_blockers := [[]]\<rparr>) None None db1 \<noteq> Inr (db1, ())"
proof -
  obtain db1 where s: "save_worker_result 5 ''r'' sample_input None None unreported_db = Inr (db1, ())"
    using sample_save by blast
  have "result_row_of ''r'' 0 (sample_input\<lparr>wi_blockers := [[]]\<rparr>) \<noteq> result_row_of ''r'' 0 sample_input"
    by (simp add: result_row_of_def sample_input_def redact_strings_def)
  with immutable_records [of 5 "''r''" sample_input None None unreported_db db1 "()" db1 6
      "sample_input\<lparr>wi_blockers := [[]]\<rparr>" None None db1 "()" 0] s show ?thesis by auto
qed

definition sample_grant :: capability_grant where
  "sample_grant = \<lparr>cg_grant_id = ''g'', cg_capability = ''repo.write'', cg_subject = ''w'',
     cg_requested_by = ''w'', cg_task_id = ''t'', cg_issued_by = ''admin'', cg_issued_at = Aware 0,
     cg_expires_at = None, cg_state = GRANT_ACTIVE, cg_constraints = [], cg_revoked_at = None,
     cg_revoked_by = None\<rparr>"

theorem grant_revocation_final_witness:
  "\<exists>db'. revoke_capability_grant 9 ''g'' ''admin'' (running_db\<lparr>capability_grants := [sample_grant]\<rparr>) =
      Inr (db', ()) \<and> \<not> is_ok (revoke_capability_grant 9 ''g'' ''admin'' db')"
proof -
  obtain db' where r: "revoke_capability_grant 9 ''g'' ''admin''
      (running_db\<lparr>capability_grants := [sample_grant]\<rparr>) = Inr (db', ())"
    by (simp add: revoke_capability_grant_def sample_grant_def running_simps task_project_def py_isspace_def)
  then show ?thesis using grant_revocation_final [OF r, of _ 9 "''admin''"] by blast
qed


definition sample_approval :: approval_row where
  "sample_approval = \<lparr>ap_id = ''a'', ap_project_id = ''p1'', ap_task_id = None, ap_permission_class = ''red'',
     ap_action_type = ''deploy'', ap_action_payload = [], ap_state = ''pending'', ap_requested_at = 0,
     ap_resolved_at = None, ap_requested_by = ''planner'', ap_resolved_by = None, ap_reason = None\<rparr>"

theorem approval_resolved_once_witness:
  "\<exists>db'. resolve_approval 9 ''a'' False ''admin'' None (empty_db\<lparr>approvals := [sample_approval]\<rparr>) = Inr (db', ()) \<and>
     \<not> is_ok (resolve_approval 10 ''a'' True ''planner'' None db')"
proof -
  obtain db' where r: "resolve_approval 9 ''a'' False ''admin'' None (empty_db\<lparr>approvals := [sample_approval]\<rparr>) =
      Inr (db', ())"
    by (simp add: resolve_approval_def sample_approval_def row_simps fetch_def Let_def)
  then show ?thesis using approval_resolved_once [OF r] by blast
qed

end
