(* ===== verification/Worker_Adapters.thy ===== *)
theory Worker_Adapters
  imports Domain
begin

text \<open>
  The worker adapter boundary, \<^verbatim>\<open>src/project_supervisor/adapters/base.py\<close>: requests, results, durable job
  handles and observations with the checks of their \<^verbatim>\<open>__post_init__\<close>. The adapters themselves talk to
  command line tools and HTTP services and are parameters of the components that use them.
\<close>

section \<open>Enumerations\<close>

datatype worker_job_state =
    WJ_KNOWN_RUNNING | WJ_KNOWN_COMPLETED | WJ_KNOWN_FAILED | WJ_KNOWN_CANCELLED
  | WJ_PROVIDER_NOT_FOUND | WJ_PROVIDER_UNREACHABLE | WJ_UNKNOWN

definition all_worker_job_state :: "worker_job_state list" where
  "all_worker_job_state =
    [WJ_KNOWN_RUNNING, WJ_KNOWN_COMPLETED, WJ_KNOWN_FAILED, WJ_KNOWN_CANCELLED,
     WJ_PROVIDER_NOT_FOUND, WJ_PROVIDER_UNREACHABLE, WJ_UNKNOWN]"

primrec worker_job_state_value :: "worker_job_state \<Rightarrow> string" where
  "worker_job_state_value WJ_KNOWN_RUNNING = ''knownRunning''"
| "worker_job_state_value WJ_KNOWN_COMPLETED = ''knownCompleted''"
| "worker_job_state_value WJ_KNOWN_FAILED = ''knownFailed''"
| "worker_job_state_value WJ_KNOWN_CANCELLED = ''knownCancelled''"
| "worker_job_state_value WJ_PROVIDER_NOT_FOUND = ''providerNotFound''"
| "worker_job_state_value WJ_PROVIDER_UNREACHABLE = ''providerUnreachable''"
| "worker_job_state_value WJ_UNKNOWN = ''unknown''"

datatype job_launch_state =
    WL_NOT_SEEN | WL_REJECTED_PRE_LAUNCH | WL_RESERVED | WL_LAUNCHING
  | WL_RUNNING | WL_COMPLETED | WL_FAILED | WL_CANCELLED
  | WL_UNKNOWN

definition all_job_launch_state :: "job_launch_state list" where
  "all_job_launch_state =
    [WL_NOT_SEEN, WL_REJECTED_PRE_LAUNCH, WL_RESERVED, WL_LAUNCHING,
     WL_RUNNING, WL_COMPLETED, WL_FAILED, WL_CANCELLED,
     WL_UNKNOWN]"

primrec job_launch_state_value :: "job_launch_state \<Rightarrow> string" where
  "job_launch_state_value WL_NOT_SEEN = ''notSeen''"
| "job_launch_state_value WL_REJECTED_PRE_LAUNCH = ''rejectedPreLaunch''"
| "job_launch_state_value WL_RESERVED = ''reserved''"
| "job_launch_state_value WL_LAUNCHING = ''launching''"
| "job_launch_state_value WL_RUNNING = ''running''"
| "job_launch_state_value WL_COMPLETED = ''completed''"
| "job_launch_state_value WL_FAILED = ''failed''"
| "job_launch_state_value WL_CANCELLED = ''cancelled''"
| "job_launch_state_value WL_UNKNOWN = ''unknown''"

datatype launch_disposition =
    LD_DEFINITELY_NOT_LAUNCHED | LD_DEFINITELY_LAUNCHED | LD_LAUNCH_IN_PROGRESS | LD_LAUNCH_OUTCOME_UNKNOWN

definition all_launch_disposition :: "launch_disposition list" where
  "all_launch_disposition =
    [LD_DEFINITELY_NOT_LAUNCHED, LD_DEFINITELY_LAUNCHED, LD_LAUNCH_IN_PROGRESS, LD_LAUNCH_OUTCOME_UNKNOWN]"

primrec launch_disposition_value :: "launch_disposition \<Rightarrow> string" where
  "launch_disposition_value LD_DEFINITELY_NOT_LAUNCHED = ''definitelyNotLaunched''"
| "launch_disposition_value LD_DEFINITELY_LAUNCHED = ''definitelyLaunched''"
| "launch_disposition_value LD_LAUNCH_IN_PROGRESS = ''launchInProgress''"
| "launch_disposition_value LD_LAUNCH_OUTCOME_UNKNOWN = ''launchOutcomeUnknown''"

interpretation worker_job_state_wire: wire_enum all_worker_job_state worker_job_state_value
proof
  show "x \<in> set all_worker_job_state" for x
    by (cases x) (simp_all add: all_worker_job_state_def)
  show "distinct (map worker_job_state_value all_worker_job_state)"
    by (simp add: all_worker_job_state_def)
qed

interpretation job_launch_state_wire: wire_enum all_job_launch_state job_launch_state_value
proof
  show "x \<in> set all_job_launch_state" for x
    by (cases x) (simp_all add: all_job_launch_state_def)
  show "distinct (map job_launch_state_value all_job_launch_state)"
    by (simp add: all_job_launch_state_def)
qed

interpretation launch_disposition_wire: wire_enum all_launch_disposition launch_disposition_value
proof
  show "x \<in> set all_launch_disposition" for x
    by (cases x) (simp_all add: all_launch_disposition_def)
  show "distinct (map launch_disposition_value all_launch_disposition)"
    by (simp add: all_launch_disposition_def)
qed

section \<open>Numbers and moments\<close>

text \<open>A Python number that is an \<^verbatim>\<open>int\<close> or a finite \<^verbatim>\<open>float\<close>, and a \<^verbatim>\<open>datetime\<close> with or without a time zone.\<close>

datatype number = IntNum int | FloatNum rat

primrec num_value :: "number \<Rightarrow> rat" where
  "num_value (IntNum i) = of_int i"
| "num_value (FloatNum r) = r"

primrec json_number :: "number \<Rightarrow> json" where
  "json_number (IntNum i) = JInt i"
| "json_number (FloatNum r) = JNum r"

primrec is_int :: "number \<Rightarrow> bool" where
  "is_int (IntNum i) = True"
| "is_int (FloatNum r) = False"

text \<open>\<^verbatim>\<open>sum\<close>: an integer as long as every summand is one. Sums and quotients are exact.\<close>

fun num_plus :: "number \<Rightarrow> number \<Rightarrow> number" where
  "num_plus (IntNum i) (IntNum j) = IntNum (i + j)"
| "num_plus a b = FloatNum (num_value a + num_value b)"

definition num_sum :: "number list \<Rightarrow> number" where
  "num_sum xs = foldl num_plus (IntNum 0) xs"

lemma num_value_plus [simp]: "num_value (num_plus a b) = num_value a + num_value b"
  by (cases a; cases b) simp_all

lemma num_value_foldl: "num_value (foldl num_plus a xs) = num_value a + sum_list (map num_value xs)"
  by (induction xs arbitrary: a) simp_all

lemma num_value_sum [simp]: "num_value (num_sum xs) = sum_list (map num_value xs)"
  by (simp add: num_sum_def num_value_foldl)

datatype moment = Zoned rat | Unzoned rat

primrec zoned :: "moment \<Rightarrow> bool" where
  "zoned (Zoned t) = True"
| "zoned (Unzoned t) = False"

primrec moment_at :: "moment \<Rightarrow> rat" where
  "moment_at (Zoned t) = t"
| "moment_at (Unzoned t) = t"

section \<open>Durable jobs\<close>

record worker_job_handle =
  wh_run_id :: string
  wh_adapter_type :: string
  wh_adapter_instance_id :: string
  wh_provider_job_id :: string
  wh_created_at :: moment
  wh_provider_session_id :: "string option"
  wh_runtime_pid :: "int option"
  wh_runtime_host :: "string option"
  wh_process_identity :: "string option"
  wh_schema_version :: int
  wh_metadata :: "(string \<times> json) list"

definition check_worker_job_handle :: "worker_job_handle \<Rightarrow> unit result" where
  "check_worker_job_handle h =
     bindR (raise_if (\<not> nonblank (wh_run_id h)) (ValueError ''run_id must not be empty'')) (\<lambda>_.
     bindR (raise_if (\<not> nonblank (wh_adapter_type h)) (ValueError ''adapter_type must not be empty'')) (\<lambda>_.
     bindR (raise_if (\<not> nonblank (wh_adapter_instance_id h))
       (ValueError ''adapter_instance_id must not be empty'')) (\<lambda>_.
     bindR (raise_if (\<not> nonblank (wh_provider_job_id h)) (ValueError ''provider_job_id must not be empty'')) (\<lambda>_.
     bindR (raise_if (\<not> zoned (wh_created_at h))
       (ValueError ''Worker job handle created_at must be timezone-aware'')) (\<lambda>_.
     bindR (raise_if (case wh_runtime_pid h of None \<Rightarrow> False | Some p \<Rightarrow> p \<le> 0)
       (ValueError ''Worker job handle runtime_pid must be positive when known'')) (\<lambda>_.
     raise_if (wh_schema_version h < 1)
       (ValueError ''Worker job handle schema_version must be positive'')))))))"

record worker_job_observation =
  wo_state :: worker_job_state
  wo_observed_at :: moment
  wo_detail :: "string option"
  wo_metadata :: "(string \<times> json) list"

definition check_worker_job_observation :: "worker_job_observation \<Rightarrow> unit result" where
  "check_worker_job_observation ob =
     raise_if (\<not> zoned (wo_observed_at ob)) (ValueError ''Worker job observation observed_at must be timezone-aware'')"

record launch_observation =
  lo_state :: job_launch_state
  lo_disposition :: launch_disposition
  lo_observed_at :: moment
  lo_handle :: "worker_job_handle option"
  lo_receipt_id :: "string option"
  lo_request_digest :: "string option"
  lo_detail :: "string option"
  lo_metadata :: "(string \<times> json) list"

definition check_launch_observation :: "launch_observation \<Rightarrow> unit result" where
  "check_launch_observation ob =
     bindR (raise_if (\<not> zoned (lo_observed_at ob))
       (ValueError ''Worker launch observation observed_at must be timezone-aware'')) (\<lambda>_.
     bindR (raise_if (lo_state ob \<in> {WL_RUNNING, WL_COMPLETED, WL_FAILED, WL_CANCELLED} \<and> lo_handle ob = None)
       (ValueError ''definitively launched Worker observation requires a durable handle'')) (\<lambda>_.
     bindR (raise_if (lo_state ob = WL_NOT_SEEN \<and> lo_disposition ob \<noteq> LD_DEFINITELY_NOT_LAUNCHED)
       (ValueError ''notSeen launch observation must be definitelyNotLaunched'')) (\<lambda>_.
     raise_if (lo_state ob = WL_REJECTED_PRE_LAUNCH \<and> lo_disposition ob \<noteq> LD_DEFINITELY_NOT_LAUNCHED)
       (ValueError ''pre-launch rejection must be definitelyNotLaunched''))))"

text \<open>\<^verbatim>\<open>WorkerJobLaunchRejected\<close> and \<^verbatim>\<open>WorkerJobOutcomeUncertain\<close> check their own arguments.\<close>

definition launch_rejected :: "int \<Rightarrow> string option \<Rightarrow> py_error" where
  "launch_rejected status detail =
     (if status < 100 \<or> 599 < status then ValueError ''launch rejection status_code must be an HTTP status''
      else LaunchRejected status
        (if truthy detail then the detail else ''provider rejected launch with HTTP '' @ show_int status))"

definition outcome_uncertain :: "worker_job_state \<Rightarrow> string \<Rightarrow> py_error" where
  "outcome_uncertain st detail =
     (if st \<notin> {WJ_KNOWN_RUNNING, WJ_PROVIDER_UNREACHABLE, WJ_UNKNOWN}
      then ValueError ''uncertain Worker job outcome requires a non-terminal state''
      else OutcomeUncertain (worker_job_state_value st) detail)"

section \<open>Requests and results\<close>

record worker_request =
  wq_run_id :: string
  wq_prompt :: string
  wq_task_id :: "string option"
  wq_working_directory :: "string option"
  wq_timeout_seconds :: rat
  wq_code_write_required :: bool
  wq_session_id :: "string option"
  wq_model :: "string option"
  wq_metadata :: "(string \<times> json) list"

definition check_worker_request :: "worker_request \<Rightarrow> unit result" where
  "check_worker_request r =
     bindR (raise_if (\<not> nonblank (wq_run_id r)) (ValueError ''run_id must not be empty'')) (\<lambda>_.
     bindR (raise_if (wq_prompt r = []) (ValueError ''prompt must not be empty'')) (\<lambda>_.
     raise_if (wq_timeout_seconds r \<le> 0) (ValueError ''timeout_seconds must be positive'')))"

record worker_usage =
  us_input_tokens :: "int option"
  us_output_tokens :: "int option"
  us_cache_creation_tokens :: "int option"
  us_cache_read_tokens :: "int option"
  us_reasoning_tokens :: "int option"
  us_total_tokens :: "int option"
  us_cost_usd :: "rat option"
  us_raw :: "(string \<times> json) list"

record worker_event =
  we_run_id :: string
  we_kind :: string
  we_timestamp :: rat
  we_payload :: "(string \<times> json) list"

record worker_result =
  wr_run_id :: string
  wr_state :: run_state
  wr_pid :: "int option"
  wr_exit_code :: "int option"
  wr_started_at :: rat
  wr_ended_at :: rat
  wr_stdout :: string
  wr_stderr :: string
  wr_final_text :: string
  wr_events :: "worker_event list"
  wr_session_id :: "string option"
  wr_model :: "string option"
  wr_context_variant :: "string option"
  wr_usage :: worker_usage
  wr_error :: "string option"

definition duration_seconds :: "worker_result \<Rightarrow> rat" where
  "duration_seconds r = max 0 (wr_ended_at r - wr_started_at r)"

definition result_succeeded :: "worker_result \<Rightarrow> bool" where
  "result_succeeded r \<longleftrightarrow> wr_state r = RUN_COMPLETED \<and> wr_exit_code r = Some 0"

text \<open>
  Code-write intent, also through protocol metadata. \<^verbatim>\<open>requested_capabilities\<close> is a string or is iterated
  over; of the items of a list only strings can be among the names looked for, and a value that
  cannot be iterated over raises.
\<close>

definition ascii_lower :: "char \<Rightarrow> char" where
  "ascii_lower c = (if CHR ''A'' \<le> c \<and> c \<le> CHR ''Z'' then char_of ((of_char c :: nat) + 32) else c)"

definition write_capability :: "string \<Rightarrow> bool" where
  "write_capability s \<longleftrightarrow> map ascii_lower s \<in> set [''code_write'', ''file_write'', ''source_edit'', ''patch'']"

definition requested_write :: "json \<Rightarrow> bool result" where
  "requested_write v =
     (case v of
        JStr s \<Rightarrow> Inr (write_capability s)
      | JTime t \<Rightarrow> Inr False
      | JMicros t \<Rightarrow> Inr False
      | JList vs \<Rightarrow> Inr (list_ex (\<lambda>v. case v of JStr s \<Rightarrow> write_capability s | _ \<Rightarrow> False) vs)
      | JObj kvs \<Rightarrow> Inr (list_ex (\<lambda>kv. write_capability (fst kv)) kvs)
      | _ \<Rightarrow> Inl (TypeError ''requested_capabilities''))"

definition request_requires_code_write :: "worker_request \<Rightarrow> bool result" where
  "request_requires_code_write r =
     (if wq_code_write_required r then Inr True
      else if map_of (wq_metadata r) ''code_write'' = Some (JBool True) \<or>
        map_of (wq_metadata r) ''codeWriteRequired'' = Some (JBool True) then Inr True
      else (case map_of (wq_metadata r) ''requested_capabilities'' of None \<Rightarrow> Inr False | Some v \<Rightarrow> requested_write v))"

end
