(* ===== verification/Telemetry.thy ===== *)
theory Telemetry
  imports Store_Records Worker_Adapters
begin

text \<open>
  Invocation telemetry, \<^verbatim>\<open>src/project_supervisor/telemetry.py\<close>: what one worker invocation used, with the
  confidence of every figure, its table (\<^verbatim>\<open>migrations/0004\<close>) and the aggregates over it. A figure that was
  not reported is unavailable with a reason and never counts as zero.
\<close>

section \<open>Enumerations\<close>

datatype task_role =
    ROLE_PRIMARY | ROLE_REVIEWER | ROLE_PANELIST | ROLE_ROUTER
  | ROLE_VERIFIER | ROLE_PLANNER | ROLE_EVALUATOR | ROLE_FALLBACK
  | ROLE_OTHER | ROLE_UNKNOWN

definition all_task_role :: "task_role list" where
  "all_task_role =
    [ROLE_PRIMARY, ROLE_REVIEWER, ROLE_PANELIST, ROLE_ROUTER,
     ROLE_VERIFIER, ROLE_PLANNER, ROLE_EVALUATOR, ROLE_FALLBACK,
     ROLE_OTHER, ROLE_UNKNOWN]"

primrec task_role_value :: "task_role \<Rightarrow> string" where
  "task_role_value ROLE_PRIMARY = ''primary''"
| "task_role_value ROLE_REVIEWER = ''reviewer''"
| "task_role_value ROLE_PANELIST = ''panelist''"
| "task_role_value ROLE_ROUTER = ''router''"
| "task_role_value ROLE_VERIFIER = ''verifier''"
| "task_role_value ROLE_PLANNER = ''planner''"
| "task_role_value ROLE_EVALUATOR = ''evaluator''"
| "task_role_value ROLE_FALLBACK = ''fallback''"
| "task_role_value ROLE_OTHER = ''other''"
| "task_role_value ROLE_UNKNOWN = ''unknown''"

datatype invocation_outcome =
    INV_SUCCESS | INV_FAILURE | INV_CANCELLED | INV_TIMED_OUT
  | INV_INTERRUPTED | INV_AUTH_REQUIRED | INV_RATE_LIMITED

definition all_invocation_outcome :: "invocation_outcome list" where
  "all_invocation_outcome =
    [INV_SUCCESS, INV_FAILURE, INV_CANCELLED, INV_TIMED_OUT,
     INV_INTERRUPTED, INV_AUTH_REQUIRED, INV_RATE_LIMITED]"

primrec invocation_outcome_value :: "invocation_outcome \<Rightarrow> string" where
  "invocation_outcome_value INV_SUCCESS = ''success''"
| "invocation_outcome_value INV_FAILURE = ''failure''"
| "invocation_outcome_value INV_CANCELLED = ''cancelled''"
| "invocation_outcome_value INV_TIMED_OUT = ''timedOut''"
| "invocation_outcome_value INV_INTERRUPTED = ''interrupted''"
| "invocation_outcome_value INV_AUTH_REQUIRED = ''authRequired''"
| "invocation_outcome_value INV_RATE_LIMITED = ''rateLimited''"

datatype executor_kind =
    EXEC_CODEX | EXEC_OFFLOADED | EXEC_UNKNOWN

definition all_executor_kind :: "executor_kind list" where
  "all_executor_kind =
    [EXEC_CODEX, EXEC_OFFLOADED, EXEC_UNKNOWN]"

primrec executor_kind_value :: "executor_kind \<Rightarrow> string" where
  "executor_kind_value EXEC_CODEX = ''codex''"
| "executor_kind_value EXEC_OFFLOADED = ''offloaded''"
| "executor_kind_value EXEC_UNKNOWN = ''unknown''"

interpretation task_role_wire: wire_enum all_task_role task_role_value
proof
  show "x \<in> set all_task_role" for x
    by (cases x) (simp_all add: all_task_role_def)
  show "distinct (map task_role_value all_task_role)"
    by (simp add: all_task_role_def)
qed

interpretation invocation_outcome_wire: wire_enum all_invocation_outcome invocation_outcome_value
proof
  show "x \<in> set all_invocation_outcome" for x
    by (cases x) (simp_all add: all_invocation_outcome_def)
  show "distinct (map invocation_outcome_value all_invocation_outcome)"
    by (simp add: all_invocation_outcome_def)
qed

interpretation executor_kind_wire: wire_enum all_executor_kind executor_kind_value
proof
  show "x \<in> set all_executor_kind" for x
    by (cases x) (simp_all add: all_executor_kind_def)
  show "distinct (map executor_kind_value all_executor_kind)"
    by (simp add: all_executor_kind_def)
qed

section \<open>Observed values\<close>

record observed_dimension =
  od_value :: "string option"
  od_reason :: "unavailable_reason option"

definition check_observed_dimension :: "observed_dimension \<Rightarrow> unit result" where
  "check_observed_dimension d =
     bindR (raise_if (od_value d = None \<and> od_reason d = None) (ValueError ''unavailable dimension requires a reason'')) (\<lambda>_.
     raise_if (case od_value d of None \<Rightarrow> False | Some v \<Rightarrow> \<not> nonblank v \<or> od_reason d \<noteq> None)
       (ValueError ''known dimension requires a non-empty value and no reason''))"

definition dimension_unavailable :: observed_dimension where
  "dimension_unavailable = \<lparr>od_value = None, od_reason = Some UNAVAIL_NOT_REPORTED\<rparr>"

definition dimension_known :: "string \<Rightarrow> observed_dimension" where
  "dimension_known v = \<lparr>od_value = Some v, od_reason = None\<rparr>"

definition reason_text :: "unavailable_reason option \<Rightarrow> string" where
  "reason_text r = (case r of None \<Rightarrow> [] | Some r \<Rightarrow> unavailable_reason_value r)"

definition dimension_to_protocol :: "observed_dimension \<Rightarrow> (string \<times> json) list" where
  "dimension_to_protocol d =
     (case od_value d of
        Some v \<Rightarrow> [(''state'', JStr ''known''), (''value'', JStr v)]
      | None \<Rightarrow> [(''state'', JStr ''unavailable''), (''reason'', JStr (reason_text (od_reason d)))])"

definition aggregation_key :: "observed_dimension \<Rightarrow> string" where
  "aggregation_key d = (case od_value d of Some v \<Rightarrow> v | None \<Rightarrow> ''unavailable:'' @ reason_text (od_reason d))"

text \<open>A metric: a \<^verbatim>\<open>TelemetryValue\<close> with its unit. Its checks are those of both classes.\<close>

record observed_metric =
  om_value :: "number option"
  om_confidence :: evidence_confidence
  om_reason :: "unavailable_reason option"
  om_unit :: "string option"

definition metric_known :: "observed_metric \<Rightarrow> bool" where
  "metric_known m \<longleftrightarrow> om_value m \<noteq> None"

definition check_observed_metric :: "observed_metric \<Rightarrow> unit result" where
  "check_observed_metric m =
     bindR (raise_if (om_value m = None \<and> om_reason m = None) (ValueError ''unavailable telemetry requires a reason'')) (\<lambda>_.
     bindR (raise_if (om_value m \<noteq> None \<and> om_reason m \<noteq> None)
       (ValueError ''known telemetry cannot have an unavailable reason'')) (\<lambda>_.
     bindR (raise_if (metric_known m \<and> (case om_unit m of None \<Rightarrow> True | Some u \<Rightarrow> \<not> nonblank u))
       (ValueError ''known metric requires a unit'')) (\<lambda>_.
     bindR (raise_if (metric_known m \<and> om_confidence m = CONF_UNKNOWN)
       (ValueError ''known metric cannot use unknown confidence'')) (\<lambda>_.
     bindR (raise_if (\<not> metric_known m \<and> om_unit m \<noteq> None) (ValueError ''unavailable metric cannot claim a unit'')) (\<lambda>_.
     raise_if (case om_value m of None \<Rightarrow> False | Some v \<Rightarrow> num_value v < 0)
       (ValueError ''metric values must not be negative''))))))"

definition metric_unavailable :: observed_metric where
  "metric_unavailable = \<lparr>om_value = None, om_confidence = CONF_UNKNOWN, om_reason = Some UNAVAIL_NOT_REPORTED, om_unit = None\<rparr>"

definition metric_of :: "number \<Rightarrow> string \<Rightarrow> evidence_confidence \<Rightarrow> observed_metric" where
  "metric_of v unit c = \<lparr>om_value = Some v, om_confidence = c, om_reason = None, om_unit = Some unit\<rparr>"

definition metric_to_protocol :: "observed_metric \<Rightarrow> (string \<times> json) list" where
  "metric_to_protocol m =
     (case om_value m of
        Some v \<Rightarrow> [(''state'', JStr ''known''), (''value'', json_number v)]
      | None \<Rightarrow> [(''state'', JStr ''unavailable''),
          (''reason'', JStr (unavailable_reason_value (case om_reason m of None \<Rightarrow> UNAVAIL_UNKNOWN | Some r \<Rightarrow> r)))]) @
     [(''confidence'', JStr (evidence_confidence_value (om_confidence m))), (''unit'', json_opt JStr (om_unit m))]"

definition reported_metric :: "number option \<Rightarrow> string \<Rightarrow> observed_metric" where
  "reported_metric v unit =
     (case v of None \<Rightarrow> metric_unavailable | Some v \<Rightarrow> metric_of v unit CONF_PROVIDER_REPORTED)"

section \<open>Invocations\<close>

record invocation =
  iv_id :: string
  iv_task_id :: string
  iv_run_id :: string
  iv_worker_id :: string
  iv_provider :: string
  iv_node_id :: string
  iv_task_role :: task_role
  iv_outcome :: invocation_outcome
  iv_duration :: observed_metric
  iv_model :: observed_dimension
  iv_goal_id :: "string option"
  iv_input_tokens :: observed_metric
  iv_output_tokens :: observed_metric
  iv_cache_read_tokens :: observed_metric
  iv_cache_write_tokens :: observed_metric
  iv_cost :: observed_metric
  iv_remaining_quota :: observed_metric
  iv_retry_count :: int
  iv_fallback :: bool
  iv_executor_kind :: executor_kind
  iv_quality_score :: observed_metric
  iv_recorded_at :: rat

definition integral_metric :: "observed_metric \<Rightarrow> bool" where
  "integral_metric m = (case om_value m of None \<Rightarrow> True | Some v \<Rightarrow> is_int v)"

text \<open>The identifiers are checked in order; the message names the first empty one.\<close>

definition first_blank :: "(string \<times> string) list \<Rightarrow> unit result" where
  "first_blank kvs =
     (case List.find (\<lambda>kv. \<not> nonblank (snd kv)) kvs of
        None \<Rightarrow> Inr () | Some (k, _) \<Rightarrow> Inl (ValueError (k @ '' must not be empty'')))"

definition check_invocation :: "invocation \<Rightarrow> unit result" where
  "check_invocation i =
     bindR (first_blank [(''id'', iv_id i), (''task_id'', iv_task_id i), (''run_id'', iv_run_id i),
       (''worker_id'', iv_worker_id i), (''provider'', iv_provider i), (''node_id'', iv_node_id i)]) (\<lambda>_.
     bindR (raise_if (case iv_goal_id i of None \<Rightarrow> False | Some g \<Rightarrow> \<not> nonblank g)
       (ValueError ''goal_id must be non-empty when supplied'')) (\<lambda>_.
     bindR (raise_if (iv_retry_count i < 0) (ValueError ''retry_count must not be negative'')) (\<lambda>_.
     bindR (raise_if (\<not> metric_known (iv_duration i) \<or> om_unit (iv_duration i) \<noteq> Some ''seconds'' \<or>
         om_confidence (iv_duration i) \<noteq> CONF_EXACT)
       (ValueError ''Supervisor-observed invocation duration must be known in seconds'')) (\<lambda>_.
     bindR (raise_if (\<not> list_all integral_metric
         [iv_input_tokens i, iv_output_tokens i, iv_cache_read_tokens i, iv_cache_write_tokens i])
       (ValueError ''observed token counts must be integers'')) (\<lambda>_.
     raise_if (case om_value (iv_quality_score i) of None \<Rightarrow> False
         | Some v \<Rightarrow> 1 < num_value v \<or> om_unit (iv_quality_score i) \<noteq> Some ''ratio'')
       (ValueError ''quality_score must be between zero and one''))))))"

definition invocation_metrics :: "invocation \<Rightarrow> observed_metric list" where
  "invocation_metrics i =
     [iv_duration i, iv_input_tokens i, iv_output_tokens i, iv_cache_read_tokens i, iv_cache_write_tokens i,
      iv_cost i, iv_remaining_quota i, iv_quality_score i]"

text \<open>An invocation whose parts were constructed, each with its checks, and then itself.\<close>

definition construct_invocation :: "invocation \<Rightarrow> invocation result" where
  "construct_invocation i =
     bindR (map_result check_observed_metric (invocation_metrics i)) (\<lambda>_.
     bindR (check_observed_dimension (iv_model i)) (\<lambda>_.
     bindR (check_invocation i) (\<lambda>_. Inr i)))"

definition outcome_of :: "worker_result \<Rightarrow> invocation_outcome" where
  "outcome_of r =
     (if result_succeeded r then INV_SUCCESS
      else (case wr_state r of
          RUN_CANCELLED \<Rightarrow> INV_CANCELLED | RUN_TIMED_OUT \<Rightarrow> INV_TIMED_OUT | RUN_INTERRUPTED \<Rightarrow> INV_INTERRUPTED
        | RUN_AUTH_REQUIRED \<Rightarrow> INV_AUTH_REQUIRED | RUN_RATE_LIMITED \<Rightarrow> INV_RATE_LIMITED | _ \<Rightarrow> INV_FAILURE))"

definition from_worker_result ::
    "string \<Rightarrow> string \<Rightarrow> string \<Rightarrow> string \<Rightarrow> string \<Rightarrow> task_role \<Rightarrow> worker_result \<Rightarrow> string option \<Rightarrow> int \<Rightarrow> bool \<Rightarrow> executor_kind \<Rightarrow>
     observed_metric option \<Rightarrow> observed_metric option \<Rightarrow> invocation result" where
  "from_worker_result tid task_id worker_id provider node_id role r goal_id retry_count fallback kind quota score =
     construct_invocation
       \<lparr>iv_id = tid, iv_task_id = task_id, iv_run_id = wr_run_id r, iv_worker_id = worker_id, iv_provider = provider,
        iv_node_id = node_id, iv_task_role = role, iv_outcome = outcome_of r,
        iv_duration = metric_of (FloatNum (duration_seconds r)) ''seconds'' CONF_EXACT,
        iv_model = (if truthy (wr_model r) then dimension_known (the (wr_model r)) else dimension_unavailable),
        iv_goal_id = goal_id,
        iv_input_tokens = reported_metric (map_option IntNum (us_input_tokens (wr_usage r))) ''tokens'',
        iv_output_tokens = reported_metric (map_option IntNum (us_output_tokens (wr_usage r))) ''tokens'',
        iv_cache_read_tokens = reported_metric (map_option IntNum (us_cache_read_tokens (wr_usage r))) ''tokens'',
        iv_cache_write_tokens = reported_metric (map_option IntNum (us_cache_creation_tokens (wr_usage r))) ''tokens'',
        iv_cost = reported_metric (map_option FloatNum (us_cost_usd (wr_usage r))) ''USD'',
        iv_remaining_quota = (case quota of None \<Rightarrow> metric_unavailable | Some m \<Rightarrow> m),
        iv_retry_count = retry_count, iv_fallback = fallback, iv_executor_kind = kind,
        iv_quality_score = (case score of None \<Rightarrow> metric_unavailable | Some m \<Rightarrow> m),
        iv_recorded_at = wr_ended_at r\<rparr>"

text \<open>The text of a time without forced fraction: microseconds appear only if there are any.\<close>

definition micros_of :: "rat \<Rightarrow> int" where
  "micros_of t = \<lfloor>t * 1000000\<rfloor>"

definition iso_text_key :: "rat \<Rightarrow> int \<times> int" where
  "iso_text_key t =
     (let u = micros_of t in (u div 1000000, if u mod 1000000 = 0 then 1000000 else u mod 1000000))"

definition json_iso_text :: "rat \<Rightarrow> json" where
  "json_iso_text t =
     (if micros_of t mod 1000000 = 0 then JTime (micros_of t div 1000000) else JMicros (micros_of t))"

definition invocation_to_protocol :: "invocation \<Rightarrow> (string \<times> json) list" where
  "invocation_to_protocol i =
     [(''id'', JStr (iv_id i)), (''goalID'', json_opt JStr (iv_goal_id i)), (''taskID'', JStr (iv_task_id i)),
      (''runID'', JStr (iv_run_id i)), (''workerID'', JStr (iv_worker_id i)), (''provider'', JStr (iv_provider i)),
      (''model'', JObj (dimension_to_protocol (iv_model i))), (''nodeID'', JStr (iv_node_id i)),
      (''taskRole'', JStr (task_role_value (iv_task_role i))),
      (''outcome'', JStr (invocation_outcome_value (iv_outcome i))),
      (''duration'', JObj (metric_to_protocol (iv_duration i))),
      (''inputTokens'', JObj (metric_to_protocol (iv_input_tokens i))),
      (''outputTokens'', JObj (metric_to_protocol (iv_output_tokens i))),
      (''cacheReadTokens'', JObj (metric_to_protocol (iv_cache_read_tokens i))),
      (''cacheWriteTokens'', JObj (metric_to_protocol (iv_cache_write_tokens i))),
      (''cost'', JObj (metric_to_protocol (iv_cost i))),
      (''remainingQuota'', JObj (metric_to_protocol (iv_remaining_quota i))),
      (''retryCount'', JInt (iv_retry_count i)), (''fallback'', JBool (iv_fallback i)),
      (''executorKind'', JStr (executor_kind_value (iv_executor_kind i))),
      (''qualityScore'', JObj (metric_to_protocol (iv_quality_score i))),
      (''recordedAt'', json_iso_text (iv_recorded_at i))]"

section \<open>The table\<close>

text \<open>
  The database with the tables of resource accounting: \<open>ud_db\<close> holds the others, and \<open>ud_invocations\<close> is
  \<^verbatim>\<open>invocation_telemetry\<close>. A row keeps its columns as the fields of an \<open>invocation\<close>: enumerations are
  stored by their wire values, which read back as the same members, and numbers in \<^verbatim>\<open>REAL\<close> columns read
  back as floats.
\<close>

record usage_tables =
  ud_db :: db
  ud_invocations :: "invocation list"

definition real_column :: "observed_metric \<Rightarrow> observed_metric" where
  "real_column m = m\<lparr>om_value := map_option (\<lambda>v. FloatNum (num_value v)) (om_value m)\<rparr>"

definition invocation_row :: "invocation \<Rightarrow> invocation" where
  "invocation_row i =
     i\<lparr>iv_duration := real_column (iv_duration i), iv_cost := real_column (iv_cost i),
       iv_remaining_quota := real_column (iv_remaining_quota i),
       iv_quality_score := real_column (iv_quality_score i)\<rparr>"

text \<open>
  The \<^verbatim>\<open>CHECK\<close> constraints. The columns of one metric are all unavailable with a reason and unknown
  confidence, or known with a unit; \<open>units\<close> is what the constraint of the column says of the unit.
\<close>

definition metric_columns_ok :: "(string \<Rightarrow> bool) \<Rightarrow> observed_metric \<Rightarrow> bool" where
  "metric_columns_ok units m \<longleftrightarrow>
     (case om_value m of
        None \<Rightarrow> om_unit m = None \<and> om_reason m \<noteq> None \<and> om_confidence m = CONF_UNKNOWN
      | Some v \<Rightarrow> 0 \<le> num_value v \<and> (case om_unit m of None \<Rightarrow> False | Some u \<Rightarrow> units u) \<and>
          om_reason m = None \<and> om_confidence m \<noteq> CONF_UNKNOWN)"

definition invocation_checks :: "invocation \<Rightarrow> bool" where
  "invocation_checks i \<longleftrightarrow>
     (od_value (iv_model i) = None) = (od_reason (iv_model i) \<noteq> None) \<and>
     0 \<le> iv_retry_count i \<and>
     metric_known (iv_duration i) \<and> metric_columns_ok (\<lambda>u. u = ''seconds'') (iv_duration i) \<and>
     list_all (metric_columns_ok (\<lambda>u. u = ''tokens''))
       [iv_input_tokens i, iv_output_tokens i, iv_cache_read_tokens i, iv_cache_write_tokens i] \<and>
     list_all (metric_columns_ok (\<lambda>u. True)) [iv_cost i, iv_remaining_quota i] \<and>
     metric_columns_ok (\<lambda>u. u = ''ratio'') (iv_quality_score i) \<and>
     (case om_value (iv_quality_score i) of None \<Rightarrow> True | Some v \<Rightarrow> num_value v \<le> 1)"

definition invocation_references :: "db \<Rightarrow> invocation \<Rightarrow> bool" where
  "invocation_references db i \<longleftrightarrow>
     (case iv_goal_id i of None \<Rightarrow> True | Some g \<Rightarrow> row_by go_id g (autonomous_goals db) \<noteq> None) \<and>
     row_by tk_id (iv_task_id i) (tasks db) \<noteq> None \<and> row_by rn_id (iv_run_id i) (worker_runs db) \<noteq> None \<and>
     row_by wk_id (iv_worker_id i) (workers db) \<noteq> None \<and> row_by nd_id (iv_node_id i) (nodes db) \<noteq> None"

text \<open>Integers are bound as 64 bit integers.\<close>

definition sqlite_int :: "int \<Rightarrow> bool" where
  "sqlite_int n \<longleftrightarrow> - (2 ^ 63) \<le> n \<and> n < 2 ^ 63"

definition bindable :: "observed_metric \<Rightarrow> bool" where
  "bindable m = (case om_value m of Some (IntNum n) \<Rightarrow> sqlite_int n | _ \<Rightarrow> True)"

definition record_invocation :: "invocation \<Rightarrow> usage_tables \<Rightarrow> usage_tables result" where
  "record_invocation i u =
     bindR (raise_if (\<not> sqlite_int (iv_retry_count i) \<or> \<not> list_all bindable (invocation_metrics i))
       (OverflowError ''Python int too large to convert to SQLite INTEGER'')) (\<lambda>_.
     bindR (raise_if (\<not> invocation_checks i \<or> row_by iv_id (iv_id i) (ud_invocations u) \<noteq> None \<or>
         row_by iv_run_id (iv_run_id i) (ud_invocations u) \<noteq> None \<or> \<not> invocation_references (ud_db u) i)
       (IntegrityError ''invocation_telemetry'')) (\<lambda>_.
     Inr (u\<lparr>ud_invocations := ud_invocations u @ [invocation_row i]\<rparr>)))"

definition contains_run :: "usage_tables \<Rightarrow> string \<Rightarrow> bool" where
  "contains_run u run_id \<longleftrightarrow> row_by iv_run_id run_id (ud_invocations u) \<noteq> None"

text \<open>\<^verbatim>\<open>ORDER BY created_at DESC,goal_id LIMIT 1\<close>; the tables exist in the migrated database.\<close>

definition task_role_of :: "string \<Rightarrow> task_role" where
  "task_role_of role =
     (let v = (if role = ''evaluation'' then task_role_value ROLE_EVALUATOR
               else if role = ''planning'' then task_role_value ROLE_PLANNER
               else if role = ''verification'' then task_role_value ROLE_VERIFIER else role)
      in case enum_of all_task_role task_role_value v of None \<Rightarrow> ROLE_OTHER | Some r \<Rightarrow> r)"

definition goal_context_for_task :: "db \<Rightarrow> string \<Rightarrow> string option \<times> task_role option" where
  "goal_context_for_task db task_id =
     (case sort_key (\<lambda>a. (- ac_created_at a, ac_goal_id a))
          (filter (\<lambda>a. ac_task_id a = Some task_id) (autonomous_actions db)) of
        a # _ \<Rightarrow> (Some (ac_goal_id a), Some (task_role_of (ac_role a)))
      | [] \<Rightarrow>
          (case row_by dt_task_id task_id (autonomy_decision_tasks db) of
             None \<Rightarrow> (None, None)
           | Some d \<Rightarrow> (Some (dt_goal_id d), Some (task_role_of (dt_phase d)))))"

definition goal_id_for_task :: "db \<Rightarrow> string \<Rightarrow> string option" where
  "goal_id_for_task db task_id = fst (goal_context_for_task db task_id)"

text \<open>\<^verbatim>\<open>ORDER BY recorded_at,id\<close>\<close>

definition recorded_key :: "invocation \<Rightarrow> (int \<times> int) \<times> string" where
  "recorded_key i = (iso_text_key (iv_recorded_at i), iv_id i)"

definition scoped_invocations :: "usage_tables \<Rightarrow> string option \<Rightarrow> string option \<Rightarrow> invocation list" where
  "scoped_invocations u goal_id task_id =
     sort_key recorded_key
       (filter (\<lambda>i. (goal_id = None \<or> iv_goal_id i = goal_id) \<and> (task_id = None \<or> Some (iv_task_id i) = task_id))
         (ud_invocations u))"

definition list_invocations ::
    "usage_tables \<Rightarrow> string option \<Rightarrow> string option \<Rightarrow> int \<Rightarrow> invocation list result" where
  "list_invocations u goal_id task_id limit =
     bindR (raise_if (limit < 1 \<or> 10000 < limit) (ValueError ''limit must be between 1 and 10000'')) (\<lambda>_.
     map_result construct_invocation (take (nat limit) (scoped_invocations u goal_id task_id)))"

section \<open>Aggregates\<close>

text \<open>\<^verbatim>\<open>dict(sorted(Counter(...).items()))\<close>\<close>

definition counter :: "('a \<Rightarrow> string) \<Rightarrow> 'a list \<Rightarrow> (string \<times> nat) list" where
  "counter key xs = map (\<lambda>k. (k, length (filter (\<lambda>x. key x = k) xs))) (sort (dict_fromkeys (map key xs)))"

record metric_aggregate =
  ma_observed_sum :: observed_metric
  ma_known_count :: nat
  ma_unavailable_count :: nat

record latest_metric_aggregate =
  la_latest :: observed_metric
  la_known_count :: nat
  la_unavailable_count :: nat
  la_observed_at :: "rat option"

record offload_aggregate =
  oa_ratio :: observed_metric
  oa_codex_calls :: nat
  oa_offloaded_calls :: nat
  oa_unknown_calls :: nat

record quality_offload_aggregate =
  qa_ratio :: observed_metric
  qa_scored_codex_calls :: nat
  qa_scored_offloaded_calls :: nat
  qa_unscored_calls :: nat

record telemetry_aggregate =
  ta_goal_id :: "string option"
  ta_task_id :: "string option"
  ta_call_count :: nat
  ta_calls_by_worker :: "(string \<times> nat) list"
  ta_calls_by_provider :: "(string \<times> nat) list"
  ta_calls_by_model :: "(string \<times> nat) list"
  ta_calls_by_node :: "(string \<times> nat) list"
  ta_calls_by_outcome :: "(string \<times> nat) list"
  ta_calls_by_task_role :: "(string \<times> nat) list"
  ta_retry_call_count :: nat
  ta_retry_attempt_count :: int
  ta_fallback_count :: nat
  ta_duration :: metric_aggregate
  ta_input_tokens :: metric_aggregate
  ta_output_tokens :: metric_aggregate
  ta_cache_read_tokens :: metric_aggregate
  ta_cache_write_tokens :: metric_aggregate
  ta_cost :: metric_aggregate
  ta_remaining_quota :: latest_metric_aggregate
  ta_codex_offload :: offload_aggregate
  ta_quality_adjusted_offload :: quality_offload_aggregate

primrec confidence_rank :: "evidence_confidence \<Rightarrow> nat option" where
  "confidence_rank CONF_EXACT = Some 0"
| "confidence_rank CONF_VERIFIED = Some 1"
| "confidence_rank CONF_PROVIDER_REPORTED = Some 2"
| "confidence_rank CONF_INFERRED = Some 3"
| "confidence_rank CONF_UNKNOWN = None"

definition weaker :: "evidence_confidence \<Rightarrow> evidence_confidence \<Rightarrow> evidence_confidence" where
  "weaker a b =
     (case (confidence_rank a, confidence_rank b) of
        (Some m, Some n) \<Rightarrow> if m < n then b else a
      | _ \<Rightarrow> a)"

text \<open>\<^verbatim>\<open>max(values, key=rank.__getitem__)\<close> of a non-empty list; a confidence without a rank is a \<^verbatim>\<open>KeyError\<close>.\<close>

definition weakest_confidence :: "observed_metric list \<Rightarrow> evidence_confidence result" where
  "weakest_confidence ms =
     bindR (raise_if (list_ex (\<lambda>m. confidence_rank (om_confidence m) = None) ms)
       (KeyError (evidence_confidence_value CONF_UNKNOWN))) (\<lambda>_.
     case map om_confidence ms of
       [] \<Rightarrow> Inl (ValueError ''max() iterable argument is empty'')
     | c # cs \<Rightarrow> Inr (foldl weaker c cs))"

definition known_metric :: "number \<Rightarrow> string \<Rightarrow> evidence_confidence \<Rightarrow> observed_metric result" where
  "known_metric v unit c = bindR (check_observed_metric (metric_of v unit c)) (\<lambda>_. Inr (metric_of v unit c))"

text \<open>The message for mixed units is given without the list of the units.\<close>

definition sum_metric :: "invocation list \<Rightarrow> string \<Rightarrow> (invocation \<Rightarrow> observed_metric) \<Rightarrow> metric_aggregate result" where
  "sum_metric records name field =
     (let metrics = map field records; known = filter metric_known metrics in
      bindR (case known of
          [] \<Rightarrow> Inr metric_unavailable
        | m # _ \<Rightarrow>
            bindR (raise_if (\<not> list_all (\<lambda>k. om_unit k = om_unit m) known)
              (ValueError (''cannot aggregate mixed units for '' @ name))) (\<lambda>_.
            bindR (weakest_confidence known) (\<lambda>c.
            known_metric (num_sum (map (\<lambda>k. the (om_value k)) known))
              (case om_unit m of None \<Rightarrow> [] | Some u \<Rightarrow> u) c))) (\<lambda>total.
      Inr \<lparr>ma_observed_sum = total, ma_known_count = length known,
        ma_unavailable_count = length metrics - length known\<rparr>))"

text \<open>\<^verbatim>\<open>max\<close> keeps the first of several maximal elements; the identifiers differ.\<close>

definition later_record :: "invocation \<Rightarrow> invocation \<Rightarrow> invocation" where
  "later_record a b = (if (iv_recorded_at a, iv_id a) < (iv_recorded_at b, iv_id b) then b else a)"

definition latest_quota :: "invocation list \<Rightarrow> latest_metric_aggregate" where
  "latest_quota records =
     (let known = filter (\<lambda>r. metric_known (iv_remaining_quota r)) records;
          unavailable = length records - length known
      in case known of
           [] \<Rightarrow> \<lparr>la_latest = metric_unavailable, la_known_count = 0, la_unavailable_count = unavailable,
              la_observed_at = None\<rparr>
         | r # rs \<Rightarrow>
             (let latest = foldl later_record r rs
              in \<lparr>la_latest = iv_remaining_quota latest, la_known_count = length known,
                  la_unavailable_count = unavailable, la_observed_at = Some (iv_recorded_at latest)\<rparr>))"

definition executed_by :: "executor_kind \<Rightarrow> invocation list \<Rightarrow> invocation list" where
  "executed_by k records = filter (\<lambda>r. iv_executor_kind r = k) records"

definition offload :: "invocation list \<Rightarrow> offload_aggregate result" where
  "offload records =
     (let codex = length (executed_by EXEC_CODEX records);
          offloaded = length (executed_by EXEC_OFFLOADED records);
          denominator = codex + offloaded
      in bindR (if denominator \<noteq> 0
             then known_metric (FloatNum (of_nat offloaded / of_nat denominator)) ''ratio'' CONF_EXACT
             else Inr metric_unavailable) (\<lambda>ratio.
         Inr \<lparr>oa_ratio = ratio, oa_codex_calls = codex, oa_offloaded_calls = offloaded,
           oa_unknown_calls = length records - codex - offloaded\<rparr>))"

definition quality_value :: "invocation \<Rightarrow> rat" where
  "quality_value r = (case om_value (iv_quality_score r) of None \<Rightarrow> 0 | Some v \<Rightarrow> num_value v)"

definition quality_adjusted_offload :: "invocation list \<Rightarrow> quality_offload_aggregate result" where
  "quality_adjusted_offload records =
     (let scored = filter (\<lambda>r. iv_executor_kind r \<noteq> EXEC_UNKNOWN \<and> metric_known (iv_quality_score r)) records;
          codex = executed_by EXEC_CODEX scored;
          offloaded = executed_by EXEC_OFFLOADED scored;
          denominator = sum_list (map quality_value scored);
          numerator = sum_list (map quality_value offloaded)
      in bindR (if 0 < denominator
             then known_metric (FloatNum (numerator / denominator)) ''ratio'' CONF_INFERRED
             else Inr metric_unavailable) (\<lambda>ratio.
         Inr \<lparr>qa_ratio = ratio, qa_scored_codex_calls = length codex,
           qa_scored_offloaded_calls = length offloaded, qa_unscored_calls = length records - length scored\<rparr>))"

definition aggregate_invocations ::
    "invocation list \<Rightarrow> string option \<Rightarrow> string option \<Rightarrow> telemetry_aggregate result" where
  "aggregate_invocations records goal_id task_id =
     bindR (sum_metric records ''duration'' iv_duration) (\<lambda>duration.
     bindR (sum_metric records ''input_tokens'' iv_input_tokens) (\<lambda>input.
     bindR (sum_metric records ''output_tokens'' iv_output_tokens) (\<lambda>output.
     bindR (sum_metric records ''cache_read_tokens'' iv_cache_read_tokens) (\<lambda>cache_read.
     bindR (sum_metric records ''cache_write_tokens'' iv_cache_write_tokens) (\<lambda>cache_write.
     bindR (sum_metric records ''cost'' iv_cost) (\<lambda>cost.
     bindR (offload records) (\<lambda>off.
     bindR (quality_adjusted_offload records) (\<lambda>quality.
     Inr \<lparr>ta_goal_id = goal_id, ta_task_id = task_id, ta_call_count = length records,
       ta_calls_by_worker = counter iv_worker_id records, ta_calls_by_provider = counter iv_provider records,
       ta_calls_by_model = counter (\<lambda>r. aggregation_key (iv_model r)) records,
       ta_calls_by_node = counter iv_node_id records,
       ta_calls_by_outcome = counter (\<lambda>r. invocation_outcome_value (iv_outcome r)) records,
       ta_calls_by_task_role = counter (\<lambda>r. task_role_value (iv_task_role r)) records,
       ta_retry_call_count = length (filter (\<lambda>r. 0 < iv_retry_count r) records),
       ta_retry_attempt_count = sum_list (map iv_retry_count records),
       ta_fallback_count = length (filter iv_fallback records),
       ta_duration = duration, ta_input_tokens = input, ta_output_tokens = output,
       ta_cache_read_tokens = cache_read, ta_cache_write_tokens = cache_write, ta_cost = cost,
       ta_remaining_quota = latest_quota records, ta_codex_offload = off,
       ta_quality_adjusted_offload = quality\<rparr>))))))))"

definition aggregate_telemetry ::
    "usage_tables \<Rightarrow> string option \<Rightarrow> string option \<Rightarrow> telemetry_aggregate result" where
  "aggregate_telemetry u goal_id task_id =
     bindR (raise_if (10000 < length (scoped_invocations u goal_id task_id))
       (ValueError ''telemetry aggregate exceeds the 10000-record in-memory safety limit'')) (\<lambda>_.
     bindR (map_result construct_invocation (scoped_invocations u goal_id task_id)) (\<lambda>records.
     aggregate_invocations records goal_id task_id))"

subsection \<open>Wire form\<close>

definition json_counts :: "(string \<times> nat) list \<Rightarrow> json" where
  "json_counts kvs = JObj (map (\<lambda>(k, n). (k, JInt (int n))) kvs)"

definition json_nat :: "nat \<Rightarrow> json" where
  "json_nat n = JInt (int n)"

definition metric_aggregate_to_protocol :: "metric_aggregate \<Rightarrow> (string \<times> json) list" where
  "metric_aggregate_to_protocol a =
     [(''observedSum'', JObj (metric_to_protocol (ma_observed_sum a))),
      (''knownCount'', json_nat (ma_known_count a)),
      (''unavailableCount'', json_nat (ma_unavailable_count a))]"

definition latest_metric_to_protocol :: "latest_metric_aggregate \<Rightarrow> (string \<times> json) list" where
  "latest_metric_to_protocol a =
     [(''latest'', JObj (metric_to_protocol (la_latest a))), (''knownCount'', json_nat (la_known_count a)),
      (''unavailableCount'', json_nat (la_unavailable_count a)),
      (''observedAt'', json_opt json_iso_text (la_observed_at a))]"

definition offload_to_protocol :: "offload_aggregate \<Rightarrow> (string \<times> json) list" where
  "offload_to_protocol a =
     [(''ratio'', JObj (metric_to_protocol (oa_ratio a))), (''codexCalls'', json_nat (oa_codex_calls a)),
      (''offloadedCalls'', json_nat (oa_offloaded_calls a)), (''unknownCalls'', json_nat (oa_unknown_calls a))]"

definition quality_offload_to_protocol :: "quality_offload_aggregate \<Rightarrow> (string \<times> json) list" where
  "quality_offload_to_protocol a =
     [(''ratio'', JObj (metric_to_protocol (qa_ratio a))),
      (''scoredCodexCalls'', json_nat (qa_scored_codex_calls a)),
      (''scoredOffloadedCalls'', json_nat (qa_scored_offloaded_calls a)),
      (''unscoredCalls'', json_nat (qa_unscored_calls a))]"

definition telemetry_aggregate_to_protocol :: "telemetry_aggregate \<Rightarrow> (string \<times> json) list" where
  "telemetry_aggregate_to_protocol a =
     [(''scope'', JObj [(''goalID'', json_opt JStr (ta_goal_id a)), (''taskID'', json_opt JStr (ta_task_id a))]),
      (''callCount'', json_nat (ta_call_count a)),
      (''callsByWorker'', json_counts (ta_calls_by_worker a)),
      (''callsByProvider'', json_counts (ta_calls_by_provider a)),
      (''callsByModel'', json_counts (ta_calls_by_model a)),
      (''callsByNode'', json_counts (ta_calls_by_node a)),
      (''callsByOutcome'', json_counts (ta_calls_by_outcome a)),
      (''callsByTaskRole'', json_counts (ta_calls_by_task_role a)),
      (''retryCallCount'', json_nat (ta_retry_call_count a)),
      (''retryAttemptCount'', JInt (ta_retry_attempt_count a)),
      (''fallbackCount'', json_nat (ta_fallback_count a)),
      (''duration'', JObj (metric_aggregate_to_protocol (ta_duration a))),
      (''inputTokens'', JObj (metric_aggregate_to_protocol (ta_input_tokens a))),
      (''outputTokens'', JObj (metric_aggregate_to_protocol (ta_output_tokens a))),
      (''cacheReadTokens'', JObj (metric_aggregate_to_protocol (ta_cache_read_tokens a))),
      (''cacheWriteTokens'', JObj (metric_aggregate_to_protocol (ta_cache_write_tokens a))),
      (''cost'', JObj (metric_aggregate_to_protocol (ta_cost a))),
      (''remainingQuota'', JObj (latest_metric_to_protocol (ta_remaining_quota a))),
      (''codexOffload'', JObj (offload_to_protocol (ta_codex_offload a))),
      (''qualityAdjustedOffload'', JObj (quality_offload_to_protocol (ta_quality_adjusted_offload a)))]"

section \<open>Stored rows\<close>

definition valid_invocation :: "invocation \<Rightarrow> bool" where
  "valid_invocation i \<longleftrightarrow> construct_invocation i = Inr i"

text \<open>What the table holds: rows that construct again and satisfy the constraints, with unique keys.\<close>

definition telemetry_valid :: "usage_tables \<Rightarrow> bool" where
  "telemetry_valid u \<longleftrightarrow>
     (\<forall>r \<in> set (ud_invocations u). valid_invocation r \<and> invocation_checks r) \<and> unique_key iv_id (ud_invocations u)"

lemma real_column_simps [simp]:
  "om_confidence (real_column m) = om_confidence m" "om_reason (real_column m) = om_reason m"
  "om_unit (real_column m) = om_unit m" "metric_known (real_column m) = metric_known m"
  "om_value (real_column m) = map_option (\<lambda>v. FloatNum (num_value v)) (om_value m)"
  by (simp_all add: real_column_def metric_known_def)

lemma check_real_column [simp]: "check_observed_metric (real_column m) = check_observed_metric m"
  by (cases "om_value m") (simp_all add: check_observed_metric_def)

lemma metric_columns_real [simp]: "metric_columns_ok units (real_column m) = metric_columns_ok units m"
  by (cases "om_value m") (simp_all add: metric_columns_ok_def)

lemma map_result_units:
  fixes f :: "'a \<Rightarrow> unit result"
  shows "(\<exists>ys. map_result f xs = Inr ys) \<longleftrightarrow> (\<forall>x \<in> set xs. f x = Inr ())"
  by (induction xs) (auto split: sum.splits)

lemma construct_invocation_Inr:
  "construct_invocation i = Inr j \<longleftrightarrow> j = i \<and> (\<forall>m \<in> set (invocation_metrics i). check_observed_metric m = Inr ()) \<and>
     check_observed_dimension (iv_model i) = Inr () \<and> check_invocation i = Inr ()"
  using map_result_units [of check_observed_metric "invocation_metrics i"]
  by (auto simp: construct_invocation_def)

lemma construct_again: "construct_invocation i = Inr j \<Longrightarrow> construct_invocation j = Inr j"
  by (simp add: construct_invocation_Inr)

lemma check_observed_metric_ok:
  "check_observed_metric m = Inr () \<Longrightarrow>
     (metric_known m \<longrightarrow> om_confidence m \<noteq> CONF_UNKNOWN \<and> om_reason m = None \<and> (\<exists>u. om_unit m = Some u \<and> nonblank u) \<and>
        0 \<le> num_value (the (om_value m))) \<and>
     (\<not> metric_known m \<longrightarrow> om_unit m = None \<and> om_reason m \<noteq> None)"
  by (auto simp: check_observed_metric_def metric_known_def split: option.splits)

lemma valid_invocation_row:
  assumes "valid_invocation i" shows "valid_invocation (invocation_row i)"
proof -
  from assms have "\<forall>m \<in> set (invocation_metrics i). check_observed_metric m = Inr ()"
    and "check_observed_dimension (iv_model i) = Inr ()" and "check_invocation i = Inr ()"
    by (simp_all add: valid_invocation_def construct_invocation_Inr)
  moreover have "check_invocation (invocation_row i) = check_invocation i"
    by (cases "om_value (iv_quality_score i)") (simp_all add: check_invocation_def invocation_row_def)
  ultimately show ?thesis
    by (simp add: valid_invocation_def construct_invocation_Inr invocation_metrics_def invocation_row_def)
qed

lemma invocation_row_keys [simp]:
  "iv_id (invocation_row i) = iv_id i" "iv_task_id (invocation_row i) = iv_task_id i"
  by (simp_all add: invocation_row_def)

lemma invocation_checks_row: "invocation_checks (invocation_row i) = invocation_checks i"
  by (cases "om_value (iv_quality_score i)") (simp_all add: invocation_checks_def invocation_row_def)

lemma record_invocation_rows:
  "record_invocation i u = Inr u' \<Longrightarrow>
     u' = u\<lparr>ud_invocations := ud_invocations u @ [invocation_row i]\<rparr> \<and> invocation_checks i \<and>
     row_by iv_id (iv_id i) (ud_invocations u) = None"
  by (auto simp: record_invocation_def)

lemma record_keeps_valid:
  assumes "telemetry_valid u" and "valid_invocation i" and "record_invocation i u = Inr u'"
  shows "telemetry_valid u'"
  using assms(1,2) record_invocation_rows [OF assms(3)]
  by (auto simp: telemetry_valid_def valid_invocation_row invocation_checks_row unique_key_snoc)

lemma set_scoped_invocations: "set (scoped_invocations u g t) \<subseteq> set (ud_invocations u)"
  by (auto simp: scoped_invocations_def)

lemma sort_key_snoc:
  assumes "inj_on f (set (xs @ [x]))" shows "sort_key f (xs @ [x]) = insort_key f x (sort_key f xs)"
  by (rule sort_key_inj_key_eq [OF _ assms]) (simp_all add: sorted_insort_key)

lemma valid_rows_construct:
  assumes "telemetry_valid u" and "set rs \<subseteq> set (ud_invocations u)"
  shows "map_result construct_invocation rs = Inr rs"
  using map_result_total [of rs construct_invocation id] assms
  by (auto simp: telemetry_valid_def valid_invocation_def)

lemma list_invocations_valid:
  assumes "telemetry_valid u" and "1 \<le> limit" and "limit \<le> 10000"
  shows "list_invocations u g t limit = Inr (take (nat limit) (scoped_invocations u g t))"
proof -
  have "set (take (nat limit) (scoped_invocations u g t)) \<subseteq> set (ud_invocations u)"
    using set_scoped_invocations [of u g t] set_take_subset by fastforce
  then show ?thesis
    using assms by (simp add: list_invocations_def valid_rows_construct)
qed

text \<open>
  C1. What was recorded reads back: after an invocation has been recorded, a listing of its task is the
  earlier listing with the record inserted at the place its time and identifier give it, up to the
  limit, and no stored row fails the checks of its constructor.
\<close>

theorem telemetry_round_trip:
  assumes "telemetry_valid u" and "construct_invocation i = Inr i" and "record_invocation i u = Inr u'"
    and "1 \<le> limit" and "limit \<le> 10000"
  shows "list_invocations u' None (Some (iv_task_id i)) limit =
    Inr (take (nat limit) (insort_key recorded_key (invocation_row i) (scoped_invocations u None (Some (iv_task_id i)))))"
proof -
  let ?P = "\<lambda>r. Some (iv_task_id r) = Some (iv_task_id i)"
  have u': "u' = u\<lparr>ud_invocations := ud_invocations u @ [invocation_row i]\<rparr>"
    using record_invocation_rows [OF assms(3)] by simp
  have valid: "telemetry_valid u'"
    using record_keeps_valid assms(1-3) by (simp add: valid_invocation_def)
  then have "inj_on iv_id (set (ud_invocations u'))"
    by (simp add: telemetry_valid_def unique_key_def distinct_map)
  then have "inj_on recorded_key (set (ud_invocations u @ [invocation_row i]))"
    by (auto simp: u' inj_on_def recorded_key_def)
  then have "inj_on recorded_key (set (filter ?P (ud_invocations u) @ [invocation_row i]))"
    by (rule inj_on_subset) auto
  then have "sort_key recorded_key (filter ?P (ud_invocations u) @ [invocation_row i]) =
      insort_key recorded_key (invocation_row i) (sort_key recorded_key (filter ?P (ud_invocations u)))"
    by (rule sort_key_snoc)
  then have "scoped_invocations u' None (Some (iv_task_id i)) =
      insort_key recorded_key (invocation_row i) (scoped_invocations u None (Some (iv_task_id i)))"
    by (simp add: scoped_invocations_def u' invocation_row_def)
  then show ?thesis
    using list_invocations_valid [OF valid assms(4,5)] by simp
qed

section \<open>What the aggregates guarantee\<close>

lemma foldl_weaker_in: "foldl weaker c cs \<in> insert c (set cs)"
proof (induction cs arbitrary: c)
  case (Cons d cs)
  have "weaker c d \<in> {c, d}" by (auto simp: weaker_def split: option.splits)
  with Cons [of "weaker c d"] show ?case by auto
qed simp

lemma confidence_rank_None [simp]: "confidence_rank c = None \<longleftrightarrow> c = CONF_UNKNOWN"
  by (cases c) simp_all

lemma weakest_confidence_ok:
  assumes "ms \<noteq> []" and "\<And>m. m \<in> set ms \<Longrightarrow> om_confidence m \<noteq> CONF_UNKNOWN"
  obtains c where "weakest_confidence ms = Inr c" and "c \<noteq> CONF_UNKNOWN"
proof -
  obtain m ms' where ms: "ms = m # ms'" using assms(1) by (cases ms) auto
  let ?c = "foldl weaker (om_confidence m) (map om_confidence ms')"
  have "?c \<in> om_confidence ` set ms"
    using foldl_weaker_in [of "om_confidence m" "map om_confidence ms'"] by (auto simp: ms)
  with assms(2) have "?c \<noteq> CONF_UNKNOWN" by (metis image_iff)
  moreover have "\<not> list_ex (\<lambda>m. confidence_rank (om_confidence m) = None) ms"
    using assms(2) by (auto simp: list_ex_iff)
  ultimately show ?thesis
    using that [of ?c] by (simp add: weakest_confidence_def ms)
qed

lemma known_metric_Inr:
  "known_metric v unit c = Inr m \<longleftrightarrow> m = metric_of v unit c \<and> nonblank unit \<and> c \<noteq> CONF_UNKNOWN \<and> 0 \<le> num_value v"
  by (auto simp: known_metric_def check_observed_metric_def metric_of_def metric_known_def)

text \<open>The known metrics of one field carry one unit.\<close>

definition same_unit :: "(invocation \<Rightarrow> observed_metric) \<Rightarrow> invocation list \<Rightarrow> bool" where
  "same_unit field rs \<longleftrightarrow>
     (\<forall>r \<in> set rs. \<forall>s \<in> set rs. metric_known (field r) \<longrightarrow> metric_known (field s) \<longrightarrow> om_unit (field r) = om_unit (field s))"

lemma sum_metric_iff:
  assumes "\<And>r. r \<in> set rs \<Longrightarrow> check_observed_metric (field r) = Inr ()"
  shows "is_ok (sum_metric rs name field) \<longleftrightarrow> same_unit field rs"
proof (cases "filter metric_known (map field rs)")
  case Nil
  then show ?thesis by (auto simp: sum_metric_def same_unit_def filter_empty_conv)
next
  case (Cons m ms)
  have mem: "k \<in> set (m # ms) \<longleftrightarrow> (\<exists>r \<in> set rs. k = field r \<and> metric_known k)" for k
    unfolding Cons [symmetric] by auto
  have chk: "check_observed_metric k = Inr ()" "metric_known k" if "k \<in> set (m # ms)" for k
    using that assms mem by auto
  have unit: "list_all (\<lambda>k. om_unit k = om_unit m) (m # ms) \<longleftrightarrow> same_unit field rs"
  proof
    assume "list_all (\<lambda>k. om_unit k = om_unit m) (m # ms)"
    then show "same_unit field rs" unfolding same_unit_def list_all_iff using mem by metis
  next
    assume "same_unit field rs"
    then show "list_all (\<lambda>k. om_unit k = om_unit m) (m # ms)"
      unfolding same_unit_def list_all_iff using mem by (metis list.set_intros(1))
  qed
  obtain c where c: "weakest_confidence (m # ms) = Inr c" "c \<noteq> CONF_UNKNOWN"
    using weakest_confidence_ok [of "m # ms"] chk check_observed_metric_ok by blast
  obtain u where u: "om_unit m = Some u" "nonblank u"
    using chk [of m] check_observed_metric_ok [of m] by auto
  have "0 \<le> num_value (the (om_value k))" if "k \<in> set (m # ms)" for k
    using chk [OF that] check_observed_metric_ok [of k] by simp
  then have "0 \<le> sum_list (map (\<lambda>k. num_value (the (om_value k))) (m # ms))"
    by (intro sum_list_nonneg) auto
  then have "is_ok (known_metric (num_sum (map (\<lambda>k. the (om_value k)) (m # ms))) u c)"
    using u c by (simp add: is_ok_iff known_metric_Inr comp_def)
  then obtain total where "known_metric (num_sum (map (\<lambda>k. the (om_value k)) (m # ms))) u c = Inr total"
    by (auto simp: is_ok_iff)
  then show ?thesis
    unfolding sum_metric_def Let_def Cons list.case unit using c u
    by (cases "same_unit field rs") simp_all
qed

lemma sum_metric_counts:
  assumes "sum_metric rs name field = Inr a"
  shows "ma_known_count a + ma_unavailable_count a = length rs"
    and "metric_known (ma_observed_sum a) \<longleftrightarrow> 0 < ma_known_count a"
proof -
  have "length (filter metric_known (map field rs)) \<le> length rs"
    by (metis length_filter_le length_map)
  then show "ma_known_count a + ma_unavailable_count a = length rs"
    using assms by (auto simp: sum_metric_def Let_def)
  show "metric_known (ma_observed_sum a) \<longleftrightarrow> 0 < ma_known_count a"
    using assms
    by (cases "filter metric_known (map field rs)")
      (auto simp: sum_metric_def Let_def known_metric_Inr metric_unavailable_def metric_of_def metric_known_def)
qed

lemma letter_not_space [simp]: "\<not> py_isspace CHR ''r''"
  by (simp add: py_isspace_def)

lemma offload_ok: "is_ok (offload rs)"
  by (simp add: offload_def Let_def is_ok_iff known_metric_Inr)

lemma quality_value_bounds:
  assumes "valid_invocation r" shows "0 \<le> quality_value r" and "quality_value r \<le> 1"
proof -
  have "check_observed_metric (iv_quality_score r) = Inr ()" and c: "check_invocation r = Inr ()"
    using assms by (simp_all add: valid_invocation_def construct_invocation_Inr invocation_metrics_def)
  then show "0 \<le> quality_value r"
    using check_observed_metric_ok [of "iv_quality_score r"]
    by (auto simp: quality_value_def metric_known_def split: option.splits)
  show "quality_value r \<le> 1"
    using c by (auto simp: quality_value_def check_invocation_def split: option.splits)
qed

lemma sum_list_filter_le:
  fixes f :: "'a \<Rightarrow> rat"
  assumes "\<And>x. x \<in> set xs \<Longrightarrow> 0 \<le> f x"
  shows "sum_list (map f (filter P xs)) \<le> sum_list (map f xs)"
  using assms by (induction xs) (auto simp: add_increasing)

lemma quality_sums:
  assumes "list_all valid_invocation rs"
  shows "0 \<le> sum_list (map quality_value (executed_by k rs))"
    and "sum_list (map quality_value (executed_by k rs)) \<le> sum_list (map quality_value rs)"
proof -
  have nonneg: "0 \<le> quality_value r" if "r \<in> set rs" for r
    using assms that quality_value_bounds by (simp add: list_all_iff)
  then show "0 \<le> sum_list (map quality_value (executed_by k rs))"
    by (intro sum_list_nonneg) (auto simp: executed_by_def)
  show "sum_list (map quality_value (executed_by k rs)) \<le> sum_list (map quality_value rs)"
    using nonneg unfolding executed_by_def by (rule sum_list_filter_le)
qed

lemma quality_adjusted_offload_ok:
  assumes "list_all valid_invocation rs" shows "is_ok (quality_adjusted_offload rs)"
proof -
  let ?scored = "filter (\<lambda>r. iv_executor_kind r \<noteq> EXEC_UNKNOWN \<and> metric_known (iv_quality_score r)) rs"
  have "list_all valid_invocation ?scored" using assms by (auto simp: list_all_iff)
  then have "0 \<le> sum_list (map quality_value (executed_by EXEC_OFFLOADED ?scored))" by (rule quality_sums)
  then show ?thesis
    by (simp add: quality_adjusted_offload_def Let_def is_ok_iff known_metric_Inr)
qed

text \<open>
  C2. The quality adjusted offload ratio is a ratio: of records that were constructed, when it is known at
  all, it lies between zero and one.
\<close>

theorem quality_offload_bounds:
  assumes "list_all valid_invocation rs" and "quality_adjusted_offload rs = Inr a" and "om_value (qa_ratio a) = Some v"
  shows "0 \<le> num_value v \<and> num_value v \<le> 1"
proof -
  let ?scored = "filter (\<lambda>r. iv_executor_kind r \<noteq> EXEC_UNKNOWN \<and> metric_known (iv_quality_score r)) rs"
  let ?n = "sum_list (map quality_value (executed_by EXEC_OFFLOADED ?scored))"
  let ?d = "sum_list (map quality_value ?scored)"
  have "list_all valid_invocation ?scored" using assms(1) by (auto simp: list_all_iff)
  then have "0 \<le> ?n" and "?n \<le> ?d" by (rule quality_sums)+
  moreover have "0 < ?d \<and> num_value v = ?n / ?d"
    using assms(2,3)
    by (auto simp: quality_adjusted_offload_def Let_def known_metric_Inr metric_of_def metric_unavailable_def
        split: if_splits)
  ultimately show ?thesis by simp
qed

lemma checked_columns_unit:
  assumes "\<And>r. r \<in> set rs \<Longrightarrow> metric_columns_ok (\<lambda>u. u = unit) (field r)"
  shows "same_unit field rs"
proof -
  have "om_unit (field r) = Some unit" if "r \<in> set rs" "metric_known (field r)" for r
    using assms [OF that(1)] that(2) by (auto simp: metric_columns_ok_def metric_known_def split: option.splits)
  then show ?thesis by (auto simp: same_unit_def)
qed

lemma aggregate_invocations_iff:
  assumes "\<And>r. r \<in> set rs \<Longrightarrow> valid_invocation r \<and> invocation_checks r"
  shows "is_ok (aggregate_invocations rs g t) \<longleftrightarrow> same_unit iv_cost rs"
proof -
  have chk: "check_observed_metric m = Inr ()" if "r \<in> set rs" "m \<in> set (invocation_metrics r)" for r m
    using assms [OF that(1)] that(2) by (simp add: valid_invocation_def construct_invocation_Inr)
  have unit: "same_unit iv_duration rs"
    by (rule checked_columns_unit [where unit = "''seconds''"]) (use assms in \<open>simp add: invocation_checks_def\<close>)
  have tokens: "same_unit f rs"
    if "f \<in> {iv_input_tokens, iv_output_tokens, iv_cache_read_tokens, iv_cache_write_tokens}" for f
    by (rule checked_columns_unit [where unit = "''tokens''"]) (use assms that in \<open>auto simp: invocation_checks_def\<close>)
  have ok: "is_ok (sum_metric rs name f) \<longleftrightarrow> same_unit f rs"
    if "f \<in> {iv_duration, iv_input_tokens, iv_output_tokens, iv_cache_read_tokens, iv_cache_write_tokens, iv_cost}" for name f
    by (rule sum_metric_iff) (use chk that in \<open>auto simp: invocation_metrics_def\<close>)
  have "is_ok (quality_adjusted_offload rs)"
    using assms by (intro quality_adjusted_offload_ok) (simp add: list_all_iff)
  then show ?thesis
    using unit tokens ok [of iv_cost "''cost''"] ok [of iv_duration "''duration''"]
      ok [of iv_input_tokens "''input_tokens''"] ok [of iv_output_tokens "''output_tokens''"]
      ok [of iv_cache_read_tokens "''cache_read_tokens''"] ok [of iv_cache_write_tokens "''cache_write_tokens''"]
      offload_ok [of rs]
    by (auto simp: aggregate_invocations_def is_ok_iff)
qed

text \<open>
  C3. Aggregation fails for two reasons only: more than ten thousand records in the scope, or costs in
  different currencies among them. Otherwise the stored telemetry always aggregates.
\<close>

theorem aggregate_telemetry_total:
  assumes "telemetry_valid u"
  shows "is_ok (aggregate_telemetry u g t) \<longleftrightarrow>
    length (scoped_invocations u g t) \<le> 10000 \<and> same_unit iv_cost (scoped_invocations u g t)"
proof -
  have "map_result construct_invocation (scoped_invocations u g t) = Inr (scoped_invocations u g t)"
    using assms set_scoped_invocations by (rule valid_rows_construct)
  moreover have "valid_invocation r \<and> invocation_checks r" if "r \<in> set (scoped_invocations u g t)" for r
    using assms that set_scoped_invocations [of u g t] by (auto simp: telemetry_valid_def)
  then have "is_ok (aggregate_invocations (scoped_invocations u g t) g t) \<longleftrightarrow> same_unit iv_cost (scoped_invocations u g t)"
    by (rule aggregate_invocations_iff)
  ultimately show ?thesis
    by (cases "10000 < length (scoped_invocations u g t)") (auto simp: aggregate_telemetry_def)
qed

section \<open>Examples\<close>

definition usage_node :: node_row where
  "usage_node = \<lparr>nd_id = ''n'', nd_hostname = ''h'', nd_display_name = ''d'', nd_role = ''worker'', nd_state = NODE_ONLINE,
     nd_operating_system = None, nd_hardware_summary = None, nd_private_endpoint = None, nd_capabilities = [],
     nd_last_heartbeat_at = None, nd_created_at = 0, nd_updated_at = 0\<rparr>"

definition sample_usage :: worker_usage where
  "sample_usage = \<lparr>us_input_tokens = Some 120, us_output_tokens = Some 30, us_cache_creation_tokens = None,
     us_cache_read_tokens = Some 7, us_reasoning_tokens = None, us_total_tokens = None, us_cost_usd = Some (1 / 4),
     us_raw = []\<rparr>"

definition sample_worker_result :: worker_result where
  "sample_worker_result = \<lparr>wr_run_id = ''r'', wr_state = RUN_COMPLETED, wr_pid = None, wr_exit_code = Some 0,
     wr_started_at = 4, wr_ended_at = 13 / 2, wr_stdout = [], wr_stderr = [], wr_final_text = [], wr_events = [],
     wr_session_id = None, wr_model = Some ''m'', wr_context_variant = None, wr_usage = sample_usage, wr_error = None\<rparr>"

definition sample_invocation :: invocation where
  "sample_invocation =
     (case from_worker_result ''i'' ''t'' ''w'' ''openai'' ''n'' ROLE_PRIMARY sample_worker_result None 0 False EXEC_OFFLOADED None
        (Some (metric_of (FloatNum (3 / 4)) ''ratio'' CONF_INFERRED)) of Inl _ \<Rightarrow> undefined | Inr i \<Rightarrow> i)"

definition usage_sample :: usage_tables where
  "usage_sample = \<lparr>ud_db = running_db\<lparr>nodes := [usage_node]\<rparr>, ud_invocations = []\<rparr>"

lemma sample_invocation_ok:
  "from_worker_result ''i'' ''t'' ''w'' ''openai'' ''n'' ROLE_PRIMARY sample_worker_result None 0 False EXEC_OFFLOADED None
     (Some (metric_of (FloatNum (3 / 4)) ''ratio'' CONF_INFERRED)) = Inr sample_invocation"
  "iv_task_id sample_invocation = ''t''" "iv_id sample_invocation = ''i''" "iv_executor_kind sample_invocation = EXEC_OFFLOADED"
  "om_value (iv_quality_score sample_invocation) = Some (FloatNum (3 / 4))"
  by (simp_all add: sample_invocation_def from_worker_result_def construct_invocation_def invocation_metrics_def
      check_observed_metric_def metric_of_def metric_known_def reported_metric_def metric_unavailable_def
      sample_worker_result_def sample_usage_def duration_seconds_def check_observed_dimension_def dimension_known_def
      truthy_def check_invocation_def first_blank_def integral_metric_def py_isspace_def)

lemma sample_constructed: "construct_invocation sample_invocation = Inr sample_invocation"
  using sample_invocation_ok(1) unfolding from_worker_result_def by (rule construct_again)

lemma sample_recorded: "is_ok (record_invocation sample_invocation usage_sample)"
  by (simp add: sample_invocation_def from_worker_result_def construct_invocation_def invocation_metrics_def
      check_observed_metric_def metric_of_def metric_known_def reported_metric_def metric_unavailable_def
      sample_worker_result_def sample_usage_def duration_seconds_def check_observed_dimension_def dimension_known_def
      truthy_def check_invocation_def first_blank_def integral_metric_def py_isspace_def record_invocation_def
      sqlite_int_def bindable_def invocation_checks_def metric_columns_ok_def invocation_references_def usage_sample_def
      running_simps usage_node_def)

lemma usage_sample_valid: "telemetry_valid usage_sample"
  by (simp add: telemetry_valid_def usage_sample_def unique_key_def)

theorem telemetry_round_trip_witness:
  "\<exists>u'. record_invocation sample_invocation usage_sample = Inr u' \<and>
     list_invocations u' None (Some ''t'') 10 = Inr [invocation_row sample_invocation]"
proof -
  obtain u' where u': "record_invocation sample_invocation usage_sample = Inr u'"
    using sample_recorded by (auto simp: is_ok_iff)
  have "scoped_invocations usage_sample None (Some ''t'') = []"
    by (simp add: scoped_invocations_def usage_sample_def)
  with telemetry_round_trip [OF usage_sample_valid sample_constructed u', of 10] u' show ?thesis
    by (simp add: sample_invocation_ok)
qed

theorem quality_offload_bounds_witness:
  "\<exists>a v. quality_adjusted_offload [sample_invocation] = Inr a \<and> om_value (qa_ratio a) = Some v \<and>
     0 \<le> num_value v \<and> num_value v \<le> 1"
proof -
  have valid: "list_all valid_invocation [sample_invocation]"
    by (simp add: valid_invocation_def sample_constructed)
  obtain a v where "quality_adjusted_offload [sample_invocation] = Inr a" "om_value (qa_ratio a) = Some v"
    by (simp add: quality_adjusted_offload_def executed_by_def sample_invocation_ok metric_known_def quality_value_def
        known_metric_def check_observed_metric_def metric_of_def Let_def)
  with quality_offload_bounds [OF valid this] show ?thesis by blast
qed

theorem aggregate_telemetry_total_witness: "is_ok (aggregate_telemetry usage_sample None None)"
  using aggregate_telemetry_total [OF usage_sample_valid, of None None]
  by (simp add: scoped_invocations_def usage_sample_def same_unit_def)

end
