(* ===== verification/Launch_Registry.thy ===== *)
theory Launch_Registry
  imports Telemetry "HOL-Library.AList"
begin

text \<open>
  The launch registry of the local worker, \<^verbatim>\<open>src/project_supervisor/local_worker_v2/model.py\<close> and
  \<^verbatim>\<open>registry.py\<close>: a database that several processes share and that binds every idempotency key to one
  request and to at most one process. The theory ends with the step relation of all writers, the
  abstract launch book it refines and what follows from that.
\<close>

section \<open>States of a launch\<close>

datatype registry_state =
    RG_RESERVED | RG_REJECTED_PRE_LAUNCH | RG_LAUNCHING | RG_RUNNING
  | RG_COMPLETED | RG_FAILED | RG_CANCELLED

definition all_registry_state :: "registry_state list" where
  "all_registry_state =
    [RG_RESERVED, RG_REJECTED_PRE_LAUNCH, RG_LAUNCHING, RG_RUNNING,
     RG_COMPLETED, RG_FAILED, RG_CANCELLED]"

primrec registry_state_value :: "registry_state \<Rightarrow> string" where
  "registry_state_value RG_RESERVED = ''RESERVED''"
| "registry_state_value RG_REJECTED_PRE_LAUNCH = ''REJECTED_PRE_LAUNCH''"
| "registry_state_value RG_LAUNCHING = ''LAUNCHING''"
| "registry_state_value RG_RUNNING = ''RUNNING''"
| "registry_state_value RG_COMPLETED = ''COMPLETED''"
| "registry_state_value RG_FAILED = ''FAILED''"
| "registry_state_value RG_CANCELLED = ''CANCELLED''"

datatype registry_disposition =
    RX_DEFINITELY_NOT_LAUNCHED | RX_DEFINITELY_LAUNCHED | RX_LAUNCH_IN_PROGRESS | RX_LAUNCH_OUTCOME_UNKNOWN

definition all_registry_disposition :: "registry_disposition list" where
  "all_registry_disposition =
    [RX_DEFINITELY_NOT_LAUNCHED, RX_DEFINITELY_LAUNCHED, RX_LAUNCH_IN_PROGRESS, RX_LAUNCH_OUTCOME_UNKNOWN]"

primrec registry_disposition_value :: "registry_disposition \<Rightarrow> string" where
  "registry_disposition_value RX_DEFINITELY_NOT_LAUNCHED = ''DEFINITELY_NOT_LAUNCHED''"
| "registry_disposition_value RX_DEFINITELY_LAUNCHED = ''DEFINITELY_LAUNCHED''"
| "registry_disposition_value RX_LAUNCH_IN_PROGRESS = ''LAUNCH_IN_PROGRESS''"
| "registry_disposition_value RX_LAUNCH_OUTCOME_UNKNOWN = ''LAUNCH_OUTCOME_UNKNOWN''"

interpretation registry_state_wire: wire_enum all_registry_state registry_state_value
proof
  show "x \<in> set all_registry_state" for x
    by (cases x) (simp_all add: all_registry_state_def)
  show "distinct (map registry_state_value all_registry_state)"
    by (simp add: all_registry_state_def)
qed

interpretation registry_disposition_wire: wire_enum all_registry_disposition registry_disposition_value
proof
  show "x \<in> set all_registry_disposition" for x
    by (cases x) (simp_all add: all_registry_disposition_def)
  show "distinct (map registry_disposition_value all_registry_disposition)"
    by (simp add: all_registry_disposition_def)
qed

definition registry_terminal :: "registry_state list" where
  "registry_terminal = [RG_REJECTED_PRE_LAUNCH, RG_COMPLETED, RG_FAILED, RG_CANCELLED]"

definition launch_disposition_of :: "registry_state \<Rightarrow> bool \<Rightarrow> registry_disposition" where
  "launch_disposition_of st started =
     (if st \<in> {RG_RESERVED, RG_REJECTED_PRE_LAUNCH} then RX_DEFINITELY_NOT_LAUNCHED
      else if st = RG_LAUNCHING \<and> \<not> started then RX_LAUNCH_OUTCOME_UNKNOWN
      else if st = RG_LAUNCHING then RX_LAUNCH_IN_PROGRESS
      else RX_DEFINITELY_LAUNCHED)"

text \<open>\<^verbatim>\<open>^[A-Za-z0-9][A-Za-z0-9._:-]{0,255}$\<close>, matched against the whole text.\<close>

definition alnum_char :: "char \<Rightarrow> bool" where
  "alnum_char c \<longleftrightarrow> (CHR ''A'' \<le> c \<and> c \<le> CHR ''Z'') \<or> (CHR ''a'' \<le> c \<and> c \<le> CHR ''z'') \<or> (CHR ''0'' \<le> c \<and> c \<le> CHR ''9'')"

definition valid_idempotency_key :: "string \<Rightarrow> bool" where
  "valid_idempotency_key s =
     (case s of
        [] \<Rightarrow> False
      | c # cs \<Rightarrow> alnum_char c \<and> length cs \<le> 255 \<and> list_all (\<lambda>c. alnum_char c \<or> c \<in> set ''._:-'') cs)"

definition validate_idempotency_key :: "string \<Rightarrow> unit result" where
  "validate_idempotency_key s =
     raise_if (\<not> valid_idempotency_key s) (ValueError
       (''idempotency_key must be 1-256 characters using letters, digits, '' @ [CHR 39, CHR ''.'', CHR 39] @ '', '' @
        [CHR 39, CHR ''_'', CHR 39] @ '', '' @ [CHR 39, CHR '':'', CHR 39] @ '', or '' @ [CHR 39, CHR ''-'', CHR 39]))"

text \<open>
  The digest of a request: \<open>sha\<close> is SHA-256 in hexadecimal of the canonical JSON text of the document.
\<close>

definition canonical_request_document :: "string \<Rightarrow> string option \<Rightarrow> (string \<times> json) list \<Rightarrow> json" where
  "canonical_request_document run_id task_id job =
     JObj [(''protocol_version'', JInt 2),
       (''execution'', JObj [(''run_id'', JStr run_id), (''task_id'', json_opt JStr task_id)]), (''job'', JObj job)]"

definition request_digest :: "(json \<Rightarrow> string) \<Rightarrow> string \<Rightarrow> string option \<Rightarrow> (string \<times> json) list \<Rightarrow> string" where
  "request_digest sha run_id task_id job = ''sha256:'' @ sha (canonical_request_document run_id task_id job)"

record launch_record =
  lr_id :: string
  lr_scope :: string
  lr_key :: string
  lr_digest :: string
  lr_protocol_version :: int
  lr_driver_id :: "string option"
  lr_driver_type :: "string option"
  lr_driver_profile_revision :: "int option"
  lr_driver_profile_fingerprint :: "string option"
  lr_runtime_instance_id :: "string option"
  lr_state :: registry_state
  lr_job_id :: "string option"
  lr_receipt_id :: string
  lr_nonce :: "string option"
  lr_pid :: "int option"
  lr_birth_identity :: "string option"
  lr_host_identity :: "string option"
  lr_received_at :: rat
  lr_created_at :: rat
  lr_updated_at :: rat
  lr_job_created_at :: "rat option"
  lr_terminal_at :: "rat option"
  lr_error :: "string option"
  lr_result :: "string option"
  lr_exit_code :: "int option"

definition has_started_receipt :: "launch_record \<Rightarrow> bool" where
  "has_started_receipt r \<longleftrightarrow> lr_pid r \<noteq> None \<and> lr_birth_identity r \<noteq> None"

definition record_disposition :: "launch_record \<Rightarrow> registry_disposition" where
  "record_disposition r = launch_disposition_of (lr_state r) (has_started_receipt r)"

definition record_terminal_state :: "launch_record \<Rightarrow> bool" where
  "record_terminal_state r \<longleftrightarrow> lr_state r \<in> set registry_terminal"

definition launch_public_data :: "launch_record \<Rightarrow> bool \<Rightarrow> (string \<times> json) list" where
  "launch_public_data r replayed =
     [(''accepted'', JBool (lr_state r \<noteq> RG_REJECTED_PRE_LAUNCH)),
      (''launch_state'', JStr (registry_state_value (lr_state r))),
      (''disposition'', JStr (registry_disposition_value (record_disposition r))),
      (''launch_record_id'', JStr (lr_id r)), (''job_id'', json_opt JStr (lr_job_id r)),
      (''receipt_id'', JStr (lr_receipt_id r)), (''idempotency_key'', JStr (lr_key r)),
      (''request_digest'', JStr (lr_digest r)), (''protocol_version'', JInt (lr_protocol_version r)),
      (''driver_id'', json_opt JStr (lr_driver_id r)), (''driver_type'', json_opt JStr (lr_driver_type r)),
      (''driver_profile_revision'', json_opt JInt (lr_driver_profile_revision r)),
      (''driver_profile_fingerprint'', json_opt JStr (lr_driver_profile_fingerprint r)),
      (''launch_runtime_instance_id'', json_opt JStr (lr_runtime_instance_id r)), (''replayed'', JBool replayed),
      (''created_at'', json_iso_text (lr_created_at r)), (''updated_at'', json_iso_text (lr_updated_at r)),
      (''job_created_at'', json_opt json_iso_text (lr_job_created_at r)),
      (''terminal_at'', json_opt json_iso_text (lr_terminal_at r)), (''launch_error'', json_opt JStr (lr_error r))]"

section \<open>The registry database\<close>

text \<open>
  \<open>rb_meta\<close> is \<^verbatim>\<open>registry_meta\<close>, \<open>rb_records\<close> is \<^verbatim>\<open>launch_records\<close>, and \<open>rb_driver_columns\<close> says whether the
  columns of the second schema version are there. A handle is one open \<^verbatim>\<open>LaunchRegistry\<close>: its scope and
  the identity it read when it was opened. Failures of the storage itself are not modelled.
\<close>

record registry_db =
  rb_meta :: "(string \<times> string) list"
  rb_records :: "launch_record list"
  rb_driver_columns :: bool

record registry_handle =
  rh_scope :: string
  rh_identity :: "string option list"

definition identity_keys :: "string list" where
  "identity_keys = [''authority_id'', ''registry_id'', ''node_id'', ''process_host_identity'']"

definition observed_identity :: "registry_db \<Rightarrow> string option list" where
  "observed_identity db = map (map_of (rb_meta db)) identity_keys"

definition connect_registry :: "registry_handle \<Rightarrow> registry_db \<Rightarrow> unit result" where
  "connect_registry h db =
     raise_if (observed_identity db \<noteq> rh_identity h)
       (RegistryUnavailable ''launch registry identity changed after capability negotiation'')"

definition insert_or_ignore :: "string \<Rightarrow> string \<Rightarrow> (string \<times> string) list \<Rightarrow> (string \<times> string) list" where
  "insert_or_ignore k v meta = (if map_of meta k = None then meta @ [(k, v)] else meta)"

text \<open>The schema: a new file starts at version 1 and is migrated at once.\<close>

definition migrate_registry :: "registry_db \<Rightarrow> registry_db result" where
  "migrate_registry db =
     (let meta = insert_or_ignore ''schema_version'' ''1'' (rb_meta db);
          version = the (map_of meta ''schema_version'')
      in if version = ''1''
         then (if rb_driver_columns db then Inl (RegistryUnavailable ''launch registry initialization failed: OperationalError'')
               else Inr (db\<lparr>rb_meta := AList.update ''schema_version'' ''2'' meta, rb_driver_columns := True\<rparr>))
         else if version \<noteq> ''2'' then Inl (RegistryUnavailable (''unsupported Local Worker registry schema '' @ version))
         else if \<not> rb_driver_columns db then Inl (RegistryUnavailable ''Local Worker registry schema v2 is incomplete'')
         else Inr (db\<lparr>rb_meta := meta\<rparr>))"

definition bind_identity :: "string \<Rightarrow> string option \<Rightarrow> (nat \<Rightarrow> string) \<Rightarrow> registry_db \<Rightarrow> registry_db result" where
  "bind_identity host node uuid db =
     (let meta = insert_or_ignore ''authority_id'' (''local-worker-authority-'' @ uuid 0) (rb_meta db);
          meta = insert_or_ignore ''registry_id'' (''local-worker-registry-'' @ uuid 1) meta;
          meta = insert_or_ignore ''node_id'' (if truthy node then the node else ''local-worker-node-'' @ uuid 2) meta
      in bindR (raise_if (node \<noteq> None \<and> map_of meta ''node_id'' \<noteq> node)
           (RegistryUnavailable ''launch registry is bound to a different stable node identity'')) (\<lambda>_.
         case map_of meta ''process_host_identity'' of
           None \<Rightarrow> Inr (db\<lparr>rb_meta := meta @ [(''process_host_identity'', host)]\<rparr>)
         | Some bound \<Rightarrow>
             bindR (raise_if (bound \<noteq> host)
               (RegistryUnavailable ''launch registry belongs to a different host; process state is unknown'')) (\<lambda>_.
             Inr (db\<lparr>rb_meta := meta\<rparr>))))"

text \<open>Opening a registry: \<open>host\<close> is the identity of the machine, when it has a stable one.\<close>

definition open_registry ::
    "string \<Rightarrow> string option \<Rightarrow> string option \<Rightarrow> (nat \<Rightarrow> string) \<Rightarrow> registry_db \<Rightarrow> (registry_db \<times> registry_handle) result" where
  "open_registry scope node host uuid db =
     bindR (raise_if (\<not> nonblank scope) (ValueError ''authority_scope must not be empty'')) (\<lambda>_.
     bindR (raise_if (case node of None \<Rightarrow> False | Some n \<Rightarrow> \<not> nonblank n \<or> 200 < length n)
       (ValueError ''node_id must be a bounded non-empty identity'')) (\<lambda>_.
     bindR (migrate_registry db) (\<lambda>db.
     case host of
       None \<Rightarrow> Inl (RegistryUnavailable ''stable local host identity is unavailable; durable PID recovery disabled'')
     | Some host \<Rightarrow>
         bindR (bind_identity host node uuid db) (\<lambda>db.
         Inr (db, \<lparr>rh_scope = scope, rh_identity = observed_identity db\<rparr>)))))"

definition launch_key :: "launch_record \<Rightarrow> string \<times> string" where
  "launch_key r = (lr_scope r, lr_key r)"

definition launch_by_key :: "registry_handle \<Rightarrow> string \<Rightarrow> registry_db \<Rightarrow> launch_record option" where
  "launch_by_key h k db = row_by launch_key (rh_scope h, k) (rb_records db)"

text \<open>The unique columns of the table; a violation surfaces as an unavailable registry.\<close>

definition launch_insertable :: "launch_record \<Rightarrow> registry_db \<Rightarrow> bool" where
  "launch_insertable r db \<longleftrightarrow>
     row_by lr_id (lr_id r) (rb_records db) = None \<and> row_by launch_key (launch_key r) (rb_records db) = None \<and>
     (lr_job_id r = None \<or> row_by lr_job_id (lr_job_id r) (rb_records db) = None) \<and>
     row_by lr_receipt_id (lr_receipt_id r) (rb_records db) = None"

definition insert_launch :: "launch_record \<Rightarrow> registry_db \<Rightarrow> registry_db result" where
  "insert_launch r db =
     bindR (raise_if (\<not> launch_insertable r db) (RegistryUnavailable ''launch registry unavailable: IntegrityError'')) (\<lambda>_.
     Inr (db\<lparr>rb_records := rb_records db @ [r]\<rparr>))"

definition update_launch :: "string \<Rightarrow> (launch_record \<Rightarrow> launch_record) \<Rightarrow> registry_db \<Rightarrow> registry_db" where
  "update_launch i f db = db\<lparr>rb_records := upd_by lr_id i f (rb_records db)\<rparr>"

text \<open>The record read back after a write, in the transaction that wrote it.\<close>

definition read_launch :: "registry_handle \<Rightarrow> string \<Rightarrow> registry_db \<Rightarrow> (launch_record) result" where
  "read_launch h k db = fetch launch_key (rh_scope h, k) (rb_records db) (RuntimeError ''AssertionError'')"

definition fetch_launch :: "registry_handle \<Rightarrow> string \<Rightarrow> registry_db \<Rightarrow> launch_record result" where
  "fetch_launch h k db = fetch launch_key (rh_scope h, k) (rb_records db) (KeyError k)"

section \<open>Operations\<close>

definition is_digest :: "string \<Rightarrow> bool" where
  "is_digest s \<longleftrightarrow> take 7 s = ''sha256:'' \<and> length s = 71"

record driver_binding =
  db_driver_id :: string
  db_driver_type :: string
  db_profile_revision :: int
  db_profile_fingerprint :: string

definition validate_driver_binding :: "driver_binding \<Rightarrow> unit result" where
  "validate_driver_binding b =
     bindR (raise_if (\<not> nonblank (db_driver_id b) \<or> 128 < length (db_driver_id b))
       (ValueError ''driver_id must be a bounded non-empty identity'')) (\<lambda>_.
     bindR (raise_if (\<not> nonblank (db_driver_type b) \<or> 32 < length (db_driver_type b))
       (ValueError ''driver_type must be a bounded non-empty identity'')) (\<lambda>_.
     bindR (raise_if (db_profile_revision b < 1) (ValueError ''driver profile revision must be positive'')) (\<lambda>_.
     raise_if (\<not> is_digest (db_profile_fingerprint b)) (ValueError ''driver profile fingerprint must be a sha256 digest''))))"

definition new_launch ::
    "registry_handle \<Rightarrow> string \<Rightarrow> string \<Rightarrow> driver_binding option \<Rightarrow> rat \<Rightarrow> string \<Rightarrow> registry_state \<Rightarrow> string option \<Rightarrow> string \<Rightarrow>
     launch_record" where
  "new_launch h k d b now i st job receipt =
     \<lparr>lr_id = i, lr_scope = rh_scope h, lr_key = k, lr_digest = d, lr_protocol_version = 2,
      lr_driver_id = map_option db_driver_id b, lr_driver_type = map_option db_driver_type b,
      lr_driver_profile_revision = map_option db_profile_revision b,
      lr_driver_profile_fingerprint = map_option db_profile_fingerprint b, lr_runtime_instance_id = None,
      lr_state = st, lr_job_id = job, lr_receipt_id = receipt, lr_nonce = None, lr_pid = None,
      lr_birth_identity = None, lr_host_identity = None, lr_received_at = now, lr_created_at = now,
      lr_updated_at = now, lr_job_created_at = None, lr_terminal_at = None, lr_error = None, lr_result = None,
      lr_exit_code = None\<rparr>"

text \<open>An existing record answers a request with its digest and refuses any other.\<close>

definition replay_launch :: "launch_record \<Rightarrow> string \<Rightarrow> registry_db \<Rightarrow> (registry_db \<times> launch_record \<times> bool) result" where
  "replay_launch r d db =
     bindR (raise_if (lr_digest r \<noteq> d)
       (IdempotencyConflict ''idempotency key is already bound to a different request digest'')) (\<lambda>_.
     Inr (db, r, False))"

definition create_launch :: "registry_handle \<Rightarrow> string \<Rightarrow> launch_record \<Rightarrow> registry_db \<Rightarrow> (registry_db \<times> launch_record \<times> bool) result" where
  "create_launch h k r db =
     bindR (insert_launch r db) (\<lambda>db. bindR (read_launch h k db) (\<lambda>r. Inr (db, r, True)))"

definition check_request_identity :: "string \<Rightarrow> string \<Rightarrow> unit result" where
  "check_request_identity k d =
     bindR (validate_idempotency_key k) (\<lambda>_.
     raise_if (\<not> is_digest d) (ValueError ''request_digest must be a sha256 digest''))"

definition reserve_launch ::
    "registry_handle \<Rightarrow> rat \<Rightarrow> (nat \<Rightarrow> string) \<Rightarrow> string \<Rightarrow> string \<Rightarrow> driver_binding \<Rightarrow> registry_db \<Rightarrow>
     (registry_db \<times> launch_record \<times> bool) result" where
  "reserve_launch h now uuid k d b db =
     bindR (check_request_identity k d) (\<lambda>_.
     bindR (validate_driver_binding b) (\<lambda>_.
     bindR (connect_registry h db) (\<lambda>_.
     case launch_by_key h k db of
       Some r \<Rightarrow> replay_launch r d db
     | None \<Rightarrow> create_launch h k (new_launch h k d (Some b) now (''launch-'' @ uuid 0) RG_RESERVED
         (Some (''local-job-'' @ uuid 1)) (''receipt-'' @ uuid 2)) db)))"

text \<open>The driver of a rejected request may be unknown; \<^verbatim>\<open>binding\<close> is complete or absent.\<close>

record partial_binding =
  pb_driver_id :: "string option"
  pb_driver_type :: "string option"
  pb_profile_revision :: "int option"
  pb_profile_fingerprint :: "string option"

definition complete_binding :: "partial_binding \<Rightarrow> driver_binding option result" where
  "complete_binding p =
     (case (pb_driver_id p, pb_driver_type p, pb_profile_revision p, pb_profile_fingerprint p) of
        (None, None, None, None) \<Rightarrow> Inr None
      | (Some i, Some t, Some r, Some f) \<Rightarrow>
          (let b = \<lparr>db_driver_id = i, db_driver_type = t, db_profile_revision = r, db_profile_fingerprint = f\<rparr>
           in bindR (validate_driver_binding b) (\<lambda>_. Inr (Some b)))
      | _ \<Rightarrow> Inl (ValueError ''pre-launch driver identity must be complete when known''))"

definition reject_pre_launch ::
    "registry_handle \<Rightarrow> rat \<Rightarrow> (nat \<Rightarrow> string) \<Rightarrow> string \<Rightarrow> string \<Rightarrow> string \<Rightarrow> partial_binding \<Rightarrow> registry_db \<Rightarrow>
     (registry_db \<times> launch_record \<times> bool) result" where
  "reject_pre_launch h now uuid k d reason p db =
     bindR (check_request_identity k d) (\<lambda>_.
     bindR (complete_binding p) (\<lambda>b.
     bindR (connect_registry h db) (\<lambda>_.
     case launch_by_key h k db of
       Some r \<Rightarrow> replay_launch r d db
     | None \<Rightarrow> create_launch h k ((new_launch h k d b now (''launch-'' @ uuid 0) RG_REJECTED_PRE_LAUNCH None
         (''receipt-'' @ uuid 1))\<lparr>lr_terminal_at := Some now, lr_error := Some (take 1000 reason)\<rparr>) db)))"

text \<open>The one transition that entitles its caller to start a process.\<close>

definition claimed_launch :: "rat \<Rightarrow> string \<Rightarrow> string \<Rightarrow> launch_record \<Rightarrow> launch_record" where
  "claimed_launch now nonce runtime r =
     (if lr_state r = RG_RESERVED
      then r\<lparr>lr_state := RG_LAUNCHING, lr_nonce := Some nonce, lr_runtime_instance_id := Some runtime, lr_updated_at := now\<rparr>
      else r)"

definition claim_spawn ::
    "registry_handle \<Rightarrow> rat \<Rightarrow> string \<Rightarrow> string \<Rightarrow> string \<Rightarrow> registry_db \<Rightarrow> (registry_db \<times> launch_record \<times> bool) result" where
  "claim_spawn h now uuid k runtime db =
     bindR (validate_idempotency_key k) (\<lambda>_.
     bindR (raise_if (\<not> nonblank runtime \<or> 200 < length runtime)
       (ValueError ''runtime_instance_id must be a bounded non-empty identity'')) (\<lambda>_.
     bindR (connect_registry h db) (\<lambda>_.
     bindR (fetch_launch h k db) (\<lambda>r.
     if lr_state r \<noteq> RG_RESERVED then Inr (db, r, False)
     else bindR (raise_if (row_by lr_nonce (Some (''nonce-'' @ uuid)) (rb_records db) \<noteq> None)
            (RegistryUnavailable ''launch registry unavailable: IntegrityError'')) (\<lambda>_.
          let db = update_launch (lr_id r) (claimed_launch now (''nonce-'' @ uuid) runtime) db
          in bindR (read_launch h k db) (\<lambda>r. Inr (db, r, True)))))))"

definition started_launch :: "rat \<Rightarrow> int \<Rightarrow> string \<Rightarrow> string \<Rightarrow> launch_record \<Rightarrow> launch_record" where
  "started_launch now pid birth host r =
     r\<lparr>lr_state := RG_RUNNING, lr_pid := Some pid, lr_birth_identity := Some birth, lr_host_identity := Some host,
       lr_job_created_at := Some now, lr_updated_at := now, lr_error := None\<rparr>"

definition launch_identity :: "launch_record \<Rightarrow> string option \<times> string option \<times> string" where
  "launch_identity r = (lr_job_id r, lr_nonce r, lr_digest r)"

definition record_started ::
    "registry_handle \<Rightarrow> rat \<Rightarrow> string \<Rightarrow> string \<Rightarrow> string \<Rightarrow> string \<Rightarrow> int \<Rightarrow> string \<Rightarrow> string \<Rightarrow> registry_db \<Rightarrow>
     (registry_db \<times> launch_record) result" where
  "record_started h now k job nonce d pid birth host db =
     bindR (validate_idempotency_key k) (\<lambda>_.
     bindR (raise_if (pid \<le> 0) (ValueError ''process pid must be positive'')) (\<lambda>_.
     bindR (connect_registry h db) (\<lambda>_.
     bindR (fetch_launch h k db) (\<lambda>r.
     bindR (raise_if (launch_identity r \<noteq> (Some job, Some nonce, d))
       (RuntimeError ''started receipt does not match the durable launch identity'')) (\<lambda>_.
     bindR (raise_if (lr_state r \<notin> {RG_LAUNCHING, RG_RUNNING})
       (RuntimeError (''cannot attach process to '' @ registry_state_value (lr_state r)))) (\<lambda>_.
     if lr_state r = RG_RUNNING
     then bindR (raise_if ((lr_pid r, lr_birth_identity r, lr_host_identity r) \<noteq> (Some pid, Some birth, Some host))
            (RuntimeError ''running process identity is immutable'')) (\<lambda>_. Inr (db, r))
     else (let db = update_launch (lr_id r) (started_launch now pid birth host) db
           in bindR (read_launch h k db) (\<lambda>r. Inr (db, r)))))))))"

definition record_launch_error :: "registry_handle \<Rightarrow> rat \<Rightarrow> string \<Rightarrow> string \<Rightarrow> registry_db \<Rightarrow> (registry_db \<times> launch_record) result" where
  "record_launch_error h now k detail db =
     bindR (validate_idempotency_key k) (\<lambda>_.
     bindR (connect_registry h db) (\<lambda>_.
     bindR (fetch_launch h k db) (\<lambda>r.
     let db = update_launch (lr_id r) (\<lambda>r. r\<lparr>lr_error := Some (take 1000 detail), lr_updated_at := now\<rparr>) db
     in bindR (read_launch h k db) (\<lambda>r. Inr (db, r)))))"

definition finished_launch :: "rat \<Rightarrow> registry_state \<Rightarrow> string \<Rightarrow> int option \<Rightarrow> launch_record \<Rightarrow> launch_record" where
  "finished_launch now st res exit r =
     r\<lparr>lr_state := st, lr_result := Some res, lr_exit_code := exit, lr_terminal_at := Some now, lr_updated_at := now,
       lr_error := None\<rparr>"

text \<open>\<open>res\<close> is the JSON text of the result with sorted keys, which is what is stored and compared.\<close>

definition record_terminal ::
    "registry_handle \<Rightarrow> rat \<Rightarrow> string \<Rightarrow> string \<Rightarrow> string \<Rightarrow> string \<Rightarrow> registry_state \<Rightarrow> string \<Rightarrow> int option \<Rightarrow> registry_db \<Rightarrow>
     (registry_db \<times> launch_record) result" where
  "record_terminal h now k job nonce d st res exit db =
     bindR (raise_if (st \<notin> {RG_COMPLETED, RG_FAILED, RG_CANCELLED})
       (ValueError ''terminal process receipt has a non-terminal state'')) (\<lambda>_.
     bindR (validate_idempotency_key k) (\<lambda>_.
     bindR (connect_registry h db) (\<lambda>_.
     bindR (fetch_launch h k db) (\<lambda>r.
     bindR (raise_if (launch_identity r \<noteq> (Some job, Some nonce, d))
       (RuntimeError ''terminal receipt does not match the durable launch identity'')) (\<lambda>_.
     if lr_state r \<in> {RG_COMPLETED, RG_FAILED, RG_CANCELLED}
     then bindR (raise_if (\<not> (lr_state r = st \<and> lr_result r = Some res \<and> lr_exit_code r = exit))
            (RuntimeError ''terminal launch result is immutable'')) (\<lambda>_. Inr (db, r))
     else (let db = update_launch (lr_id r) (finished_launch now st res exit) db
           in bindR (read_launch h k db) (\<lambda>r. Inr (db, r))))))))"

definition get_launch :: "registry_handle \<Rightarrow> string \<Rightarrow> registry_db \<Rightarrow> launch_record option result" where
  "get_launch h k db =
     bindR (validate_idempotency_key k) (\<lambda>_. bindR (connect_registry h db) (\<lambda>_. Inr (launch_by_key h k db)))"

definition get_job :: "registry_handle \<Rightarrow> string \<Rightarrow> registry_db \<Rightarrow> launch_record option result" where
  "get_job h job db =
     bindR (raise_if (\<not> nonblank job \<or> 256 < length job) (ValueError ''job_id must be a bounded non-empty string'')) (\<lambda>_.
     bindR (connect_registry h db) (\<lambda>_.
     Inr (List.find (\<lambda>r. lr_scope r = rh_scope h \<and> lr_job_id r = Some job) (rb_records db))))"

definition list_launches :: "registry_handle \<Rightarrow> registry_db \<Rightarrow> launch_record list result" where
  "list_launches h db =
     bindR (connect_registry h db) (\<lambda>_.
     Inr (sort_key (\<lambda>r. (iso_text_key (lr_created_at r), lr_id r)) (filter (\<lambda>r. lr_scope r = rh_scope h) (rb_records db))))"

definition count_launches :: "registry_handle \<Rightarrow> registry_db \<Rightarrow> nat result" where
  "count_launches h db = bindR (list_launches h db) (\<lambda>rs. Inr (length rs))"

section \<open>The abstract launch book\<close>

text \<open>
  What the registry promises, without its records: a key is bound once to a digest and a job, and its
  phase only moves forward. Two claims of one key cannot both succeed, since only a reserved key can be
  claimed.
\<close>

datatype launch_phase =
    Reserved
  | Rejected
  | Claimed string
  | Started string
  | Finished string registry_state string "int option"

inductive advances :: "launch_phase \<Rightarrow> launch_phase \<Rightarrow> bool" where
  claim: "advances Reserved (Claimed n)"
| start: "advances (Claimed n) (Started n)"
| finish_claimed: "advances (Claimed n) (Finished n st res exit)"
| finish_started: "advances (Started n) (Finished n st res exit)"

inductive_cases advances_fromE:
  "advances Reserved p" "advances Rejected p" "advances (Claimed n) p" "advances (Started n) p"
  "advances (Finished n st res exit) p"

type_synonym launch_entry = "string \<times> string option \<times> launch_phase"
type_synonym launch_book = "string \<times> string \<Rightarrow> launch_entry option"

inductive book_step :: "launch_book \<Rightarrow> launch_book \<Rightarrow> bool" where
  stutter: "book_step m m"
| create: "m k = None \<Longrightarrow> p \<in> {Reserved, Rejected} \<Longrightarrow> book_step m (m(k \<mapsto> (d, j, p)))"
| advance: "m k = Some (d, j, p) \<Longrightarrow> advances p p' \<Longrightarrow> book_step m (m(k \<mapsto> (d, j, p')))"

lemma book_step_entry:
  "book_step m m' \<Longrightarrow> m k = Some (d, j, p) \<Longrightarrow> \<exists>p'. m' k = Some (d, j, p') \<and> advances\<^sup>*\<^sup>* p p'"
  by (cases rule: book_step.cases) (auto split: if_splits)

lemma advances_nonce:
  assumes "advances\<^sup>*\<^sup>* p p'" and "p = Claimed n \<or> p = Started n"
  shows "p' = Claimed n \<or> p' = Started n \<or> (\<exists>st res exit. p' = Finished n st res exit)"
  using assms by (induction rule: rtranclp_induct) (auto elim: advances_fromE)

lemma advances_end:
  assumes "advances\<^sup>*\<^sup>* p p'" and "p = Finished n st res exit \<or> p = Rejected"
  shows "p' = p"
  using assms by (induction rule: rtranclp_induct) (auto elim: advances_fromE)

lemma rtranclp_advances_Reserved: "advances\<^sup>*\<^sup>* p Reserved \<Longrightarrow> p = Reserved"
proof (induction p rule: converse_rtranclp_induct)
  case (step p q)
  then show ?case by (auto elim: advances.cases)
qed simp

text \<open>Any store whose writers follow the book, seen through \<open>look\<close>.\<close>

locale launch_authority =
  fixes look :: "'s \<Rightarrow> launch_book"
    and step :: "'s \<Rightarrow> 's \<Rightarrow> bool"
    and ok :: "'s \<Rightarrow> bool"
  assumes follows: "ok s \<Longrightarrow> step s t \<Longrightarrow> book_step (look s) (look t)"
    and keeps: "ok s \<Longrightarrow> step s t \<Longrightarrow> ok t"
begin

lemma keeps_many: "step\<^sup>*\<^sup>* s t \<Longrightarrow> ok s \<Longrightarrow> ok t"
  by (induction rule: rtranclp_induct) (auto intro: keeps)

lemma entry_advances:
  assumes "step\<^sup>*\<^sup>* s t" and "ok s" and "look s k = Some (d, j, p)"
  shows "\<exists>p'. look t k = Some (d, j, p') \<and> advances\<^sup>*\<^sup>* p p'"
  using assms(1)
proof (induction rule: rtranclp_induct)
  case base
  then show ?case using assms(3) by auto
next
  case (step t u)
  then obtain p' where "look t k = Some (d, j, p')" "advances\<^sup>*\<^sup>* p p'" by blast
  moreover have "book_step (look t) (look u)"
    using step.hyps keeps_many assms(2) follows by blast
  ultimately show ?case using book_step_entry rtranclp_trans by metis
qed

lemma claim_is_final:
  assumes "step\<^sup>*\<^sup>* s t" and "ok s" and "look s k = Some (d, j, p)" and "p = Claimed n \<or> p = Started n"
  shows "\<exists>p'. look t k = Some (d, j, p') \<and>
    (p' = Claimed n \<or> p' = Started n \<or> (\<exists>st res exit. p' = Finished n st res exit))"
  using entry_advances [OF assms(1-3)] advances_nonce [OF _ assms(4)] by blast

lemma finish_is_final:
  assumes "step\<^sup>*\<^sup>* s t" and "ok s" and "look s k = Some (d, j, p)" and "p = Finished n st res exit \<or> p = Rejected"
  shows "look t k = Some (d, j, p)"
  using entry_advances [OF assms(1-3)] advances_end [OF _ assms(4)] by blast

end

section \<open>The registry follows the book\<close>

text \<open>Every write of every process, whichever handle and time it uses.\<close>

inductive registry_step :: "registry_db \<Rightarrow> registry_db \<Rightarrow> bool" where
  step_reserve: "reserve_launch h now uuid k d b db = Inr (db', r, new) \<Longrightarrow> registry_step db db'"
| step_reject: "reject_pre_launch h now uuid k d reason p db = Inr (db', r, new) \<Longrightarrow> registry_step db db'"
| step_claim: "claim_spawn h now nonce k runtime db = Inr (db', r, won) \<Longrightarrow> registry_step db db'"
| step_started: "record_started h now k job nonce d pid birth host db = Inr (db', r) \<Longrightarrow> registry_step db db'"
| step_error: "record_launch_error h now k detail db = Inr (db', r) \<Longrightarrow> registry_step db db'"
| step_terminal: "record_terminal h now k job nonce d st res exit db = Inr (db', r) \<Longrightarrow> registry_step db db'"

definition phase_of :: "launch_record \<Rightarrow> launch_phase" where
  "phase_of r =
     (case lr_state r of
        RG_RESERVED \<Rightarrow> Reserved
      | RG_REJECTED_PRE_LAUNCH \<Rightarrow> Rejected
      | RG_LAUNCHING \<Rightarrow> Claimed (the (lr_nonce r))
      | RG_RUNNING \<Rightarrow> Started (the (lr_nonce r))
      | st \<Rightarrow> Finished (the (lr_nonce r)) st (the (lr_result r)) (lr_exit_code r))"

definition registry_book :: "registry_db \<Rightarrow> launch_book" where
  "registry_book db k = map_option (\<lambda>r. (lr_digest r, lr_job_id r, phase_of r)) (row_by launch_key k (rb_records db))"

text \<open>The columns that a state requires.\<close>

definition launch_ok :: "launch_record \<Rightarrow> bool" where
  "launch_ok r \<longleftrightarrow>
     (lr_nonce r = None) = (lr_state r \<in> {RG_RESERVED, RG_REJECTED_PRE_LAUNCH}) \<and>
     (lr_state r = RG_RUNNING \<longrightarrow> has_started_receipt r) \<and>
     (lr_state r \<in> {RG_RESERVED, RG_REJECTED_PRE_LAUNCH, RG_LAUNCHING} \<longrightarrow> lr_pid r = None) \<and>
     (lr_job_id r = None) = (lr_state r = RG_REJECTED_PRE_LAUNCH) \<and>
     (lr_terminal_at r \<noteq> None) = (lr_state r \<in> set registry_terminal) \<and>
     (lr_result r \<noteq> None) = (lr_state r \<in> {RG_COMPLETED, RG_FAILED, RG_CANCELLED})"

definition registry_ok :: "registry_db \<Rightarrow> bool" where
  "registry_ok db \<longleftrightarrow> unique_key lr_id (rb_records db) \<and> unique_key launch_key (rb_records db) \<and> list_all launch_ok (rb_records db)"

lemma unique_id_iff_key:
  assumes "registry_ok db" and "row_by launch_key k (rb_records db) = Some r" and "x \<in> set (rb_records db)"
  shows "lr_id x = lr_id r \<longleftrightarrow> launch_key x = k"
proof -
  have r: "r \<in> set (rb_records db)" "launch_key r = k" using assms(2) by (auto dest: row_by_SomeD)
  have "inj_on lr_id (set (rb_records db))" "inj_on launch_key (set (rb_records db))"
    using assms(1) by (simp_all add: registry_ok_def unique_key_def distinct_map)
  with r assms(3) show ?thesis by (metis inj_on_eq_iff)
qed

lemma update_by_key:
  assumes "registry_ok db" and "row_by launch_key k (rb_records db) = Some r"
  shows "upd_by lr_id (lr_id r) f (rb_records db) = upd_by launch_key k f (rb_records db)"
  unfolding upd_by_def upd_where_def using unique_id_iff_key [OF assms] by (intro map_cong) auto

definition same_launch :: "(launch_record \<Rightarrow> launch_record) \<Rightarrow> bool" where
  "same_launch f \<longleftrightarrow> (\<forall>r. lr_id (f r) = lr_id r \<and> launch_key (f r) = launch_key r \<and> lr_digest (f r) = lr_digest r \<and>
     lr_job_id (f r) = lr_job_id r)"

lemma same_launches:
  "same_launch (claimed_launch now n rt)" "same_launch (started_launch now pid b h)"
  "same_launch (finished_launch now st res exit)" "same_launch (\<lambda>r. r\<lparr>lr_error := e, lr_updated_at := now\<rparr>)"
  by (simp_all add: same_launch_def launch_key_def claimed_launch_def started_launch_def finished_launch_def)

lemma update_row:
  assumes "registry_ok db" and "row_by launch_key k (rb_records db) = Some r" and "same_launch f"
  shows "row_by launch_key k' (rb_records (update_launch (lr_id r) f db)) =
    (if k' = k then Some (f r) else row_by launch_key k' (rb_records db))"
proof -
  have "\<And>x. launch_key (f x) = launch_key x" using assms(3) by (simp add: same_launch_def)
  then show ?thesis
    by (simp add: update_launch_def update_by_key [OF assms(1,2)] row_by_upd_by assms(2))
qed

lemma update_follows:
  assumes ok: "registry_ok db" and r: "row_by launch_key k (rb_records db) = Some r" and same: "same_launch f"
    and "launch_ok (f r)" and "phase_of (f r) = phase_of r \<or> advances (phase_of r) (phase_of (f r))"
  shows "book_step (registry_book db) (registry_book (update_launch (lr_id r) f db)) \<and> registry_ok (update_launch (lr_id r) f db)"
proof -
  have fields: "\<And>x. lr_id (f x) = lr_id x" "\<And>x. launch_key (f x) = launch_key x" "lr_digest (f r) = lr_digest r" "lr_job_id (f r) = lr_job_id r"
    using same by (simp_all add: same_launch_def)
  have book: "registry_book (update_launch (lr_id r) f db) = (registry_book db)(k \<mapsto> (lr_digest r, lr_job_id r, phase_of (f r)))"
    using fields by (auto simp: registry_book_def update_row [OF ok r same] fun_eq_iff)
  have entry: "registry_book db k = Some (lr_digest r, lr_job_id r, phase_of r)" by (simp add: registry_book_def r)
  have "book_step (registry_book db) (registry_book (update_launch (lr_id r) f db))"
    using assms(5)
  proof
    assume "phase_of (f r) = phase_of r"
    then have "(registry_book db)(k \<mapsto> (lr_digest r, lr_job_id r, phase_of (f r))) = registry_book db"
      using entry by (simp add: fun_upd_idem)
    then show ?thesis unfolding book by (simp add: stutter)
  next
    assume "advances (phase_of r) (phase_of (f r))"
    then show ?thesis unfolding book using advance entry by blast
  qed
  moreover have only: "x = r" if "x \<in> set (rb_records db)" "lr_id x = lr_id r" for x
    using ok that row_by_SomeD [OF r] by (auto simp: registry_ok_def unique_key_def distinct_map dest: inj_onD)
  then have "registry_ok (update_launch (lr_id r) f db)"
    using ok fields(1,2) assms(4)
    by (auto simp: registry_ok_def update_launch_def unique_key_def map_key_upd_by list_all_iff set_upd_by)
  ultimately show ?thesis by blast
qed

lemma insert_follows:
  assumes "insert_launch r db = Inr db'" and "registry_ok db" and "launch_ok r" and "lr_state r \<in> {RG_RESERVED, RG_REJECTED_PRE_LAUNCH}"
  shows "book_step (registry_book db) (registry_book db') \<and> registry_ok db'"
proof -
  have db': "db' = db\<lparr>rb_records := rb_records db @ [r]\<rparr>" and fresh: "launch_insertable r db"
    using assms(1) by (auto simp: insert_launch_def)
  have none: "registry_book db (launch_key r) = None" using fresh by (simp add: launch_insertable_def registry_book_def)
  have "registry_book db' = (registry_book db)(launch_key r \<mapsto> (lr_digest r, lr_job_id r, phase_of r))"
    using none by (auto simp: registry_book_def db' row_by_append row_by_Cons fun_eq_iff split: option.splits)
  moreover have "phase_of r \<in> {Reserved, Rejected}" using assms(4) by (auto simp: phase_of_def)
  ultimately have "book_step (registry_book db) (registry_book db')" using create none by metis
  moreover have "registry_ok db'"
    using assms(2,3) fresh by (simp add: registry_ok_def db' unique_key_snoc launch_insertable_def)
  ultimately show ?thesis ..
qed

lemma launch_ok_in: "registry_ok db \<Longrightarrow> row_by launch_key k (rb_records db) = Some r \<Longrightarrow> launch_ok r"
  by (auto simp: registry_ok_def list_all_iff dest: row_by_SomeD)

lemmas launch_defs = launch_ok_def has_started_receipt_def registry_terminal_def

lemma new_launch_ok:
  "launch_ok (new_launch h k d b now i RG_RESERVED (Some job) receipt)"
  "launch_ok ((new_launch h k d b now i RG_REJECTED_PRE_LAUNCH None receipt)\<lparr>lr_terminal_at := Some now, lr_error := e\<rparr>)"
  by (simp_all add: launch_defs new_launch_def)

lemma claimed_launch_ok:
  assumes "launch_ok r" and "lr_state r = RG_RESERVED"
  shows "launch_ok (claimed_launch now n rt r) \<and> advances (phase_of r) (phase_of (claimed_launch now n rt r))"
  using assms by (auto simp: launch_defs claimed_launch_def phase_of_def intro: advances.intros)

lemma started_launch_ok:
  assumes "launch_ok r" and "lr_state r = RG_LAUNCHING"
  shows "launch_ok (started_launch now pid b h r) \<and> advances (phase_of r) (phase_of (started_launch now pid b h r))"
  using assms by (auto simp: launch_defs started_launch_def phase_of_def intro: advances.intros)

lemma finished_launch_ok:
  assumes "launch_ok r" and "lr_nonce r = Some n" and "lr_state r \<notin> {RG_COMPLETED, RG_FAILED, RG_CANCELLED}"
    and "st \<in> {RG_COMPLETED, RG_FAILED, RG_CANCELLED}"
  shows "launch_ok (finished_launch now st res exit r) \<and> advances (phase_of r) (phase_of (finished_launch now st res exit r))"
  using assms
  by (cases "lr_state r"; cases st) (simp_all add: launch_defs finished_launch_def phase_of_def advances.intros)

lemma failed_launch_ok:
  assumes "launch_ok r"
  shows "launch_ok (r\<lparr>lr_error := e, lr_updated_at := now\<rparr>) \<and> phase_of (r\<lparr>lr_error := e, lr_updated_at := now\<rparr>) = phase_of r"
  using assms by (simp add: launch_defs phase_of_def split: registry_state.split)

text \<open>What a writer does to the records: nothing, one new record, or one update of the record it fetched.\<close>

lemma replayed: "replay_launch r d db = Inr (db', r', new) \<longleftrightarrow> db' = db \<and> r' = r \<and> \<not> new \<and> lr_digest r = d"
  by (auto simp: replay_launch_def)

lemma created: "create_launch h k r db = Inr (db', r', new) \<Longrightarrow> insert_launch r db = Inr db' \<and> new"
  by (auto simp: create_launch_def)

lemma registry_step_follows:
  assumes "registry_step db db'" and ok: "registry_ok db"
  shows "book_step (registry_book db) (registry_book db') \<and> registry_ok db'"
  using assms(1)
proof cases
  case (step_reserve h now uuid k d b r new)
  show ?thesis
  proof (cases "launch_by_key h k db")
    case None
    then have "insert_launch (new_launch h k d (Some b) now (''launch-'' @ uuid 0) RG_RESERVED (Some (''local-job-'' @ uuid 1))
        (''receipt-'' @ uuid 2)) db = Inr db'"
      using step_reserve by (auto simp: reserve_launch_def dest: created)
    from insert_follows [OF this ok] show ?thesis by (simp add: new_launch_ok) (simp add: new_launch_def)
  next
    case (Some e)
    then show ?thesis using step_reserve ok by (auto simp: reserve_launch_def replayed intro: stutter)
  qed
next
  case (step_reject h now uuid k d reason p r new)
  show ?thesis
  proof (cases "launch_by_key h k db")
    case None
    then obtain b where "insert_launch ((new_launch h k d b now (''launch-'' @ uuid 0) RG_REJECTED_PRE_LAUNCH None
        (''receipt-'' @ uuid 1))\<lparr>lr_terminal_at := Some now, lr_error := Some (take 1000 reason)\<rparr>) db = Inr db'"
      using step_reject by (auto simp: reject_pre_launch_def dest: created)
    from insert_follows [OF this ok] show ?thesis by (simp add: new_launch_ok) (simp add: new_launch_def)
  next
    case (Some e)
    then show ?thesis using step_reject ok by (auto simp: reject_pre_launch_def replayed intro: stutter)
  qed
next
  case (step_claim h now nonce k runtime r won)
  then obtain e where e: "row_by launch_key (rh_scope h, k) (rb_records db) = Some e"
      and "db' = db \<or> lr_state e = RG_RESERVED \<and> db' = update_launch (lr_id e) (claimed_launch now (''nonce-'' @ nonce) runtime) db"
    by (auto simp: claim_spawn_def fetch_launch_def Let_def split: if_splits)
  with update_follows [OF ok e same_launches(1)] claimed_launch_ok [OF launch_ok_in [OF ok e]] ok show ?thesis
    by (auto intro: stutter)
next
  case (step_started h now k job nonce d pid birth host r)
  then obtain e where e: "row_by launch_key (rh_scope h, k) (rb_records db) = Some e"
      and "db' = db \<or> lr_state e = RG_LAUNCHING \<and> db' = update_launch (lr_id e) (started_launch now pid birth host) db"
    by (auto simp: record_started_def fetch_launch_def Let_def split: if_splits)
  with update_follows [OF ok e same_launches(2)] started_launch_ok [OF launch_ok_in [OF ok e]] ok show ?thesis
    by (auto intro: stutter)
next
  case (step_error h now k detail r)
  then obtain e where e: "row_by launch_key (rh_scope h, k) (rb_records db) = Some e"
      and "db' = update_launch (lr_id e) (\<lambda>r. r\<lparr>lr_error := Some (take 1000 detail), lr_updated_at := now\<rparr>) db"
    by (auto simp: record_launch_error_def fetch_launch_def Let_def)
  with update_follows [OF ok e same_launches(4)] failed_launch_ok [OF launch_ok_in [OF ok e]] show ?thesis by auto
next
  case (step_terminal h now k job nonce d st res exit r)
  then obtain e where e: "row_by launch_key (rh_scope h, k) (rb_records db) = Some e"
      and "db' = db \<or> lr_nonce e = Some nonce \<and> lr_state e \<notin> {RG_COMPLETED, RG_FAILED, RG_CANCELLED} \<and>
        st \<in> {RG_COMPLETED, RG_FAILED, RG_CANCELLED} \<and> db' = update_launch (lr_id e) (finished_launch now st res exit) db"
    by (auto simp: record_terminal_def fetch_launch_def Let_def launch_identity_def split: if_splits)
  with update_follows [OF ok e same_launches(3)] finished_launch_ok [OF launch_ok_in [OF ok e]] ok show ?thesis
    by (blast intro: stutter)
qed

interpretation launches: launch_authority registry_book registry_step registry_ok
  by unfold_locales (auto dest: registry_step_follows)

section \<open>What clients can rely on\<close>

text \<open>
  C1. The registry implements the launch book: every write of every process is a step of the book, or
  leaves it as it is.
\<close>

theorem registry_refines_book:
  assumes "registry_ok db" and "registry_step db db'"
  shows "book_step (registry_book db) (registry_book db')"
  using assms by (rule launches.follows)

lemma claim_won:
  assumes "claim_spawn h now n k rt db = Inr (db', r, True)" and "registry_ok db"
  shows "registry_book db' (rh_scope h, k) = Some (lr_digest r, lr_job_id r, Claimed (''nonce-'' @ n))"
proof -
  obtain e where e: "row_by launch_key (rh_scope h, k) (rb_records db) = Some e" "lr_state e = RG_RESERVED"
      "db' = update_launch (lr_id e) (claimed_launch now (''nonce-'' @ n) rt) db" "row_by launch_key (rh_scope h, k) (rb_records db') = Some r"
    using assms(1) by (auto simp: claim_spawn_def fetch_launch_def read_launch_def Let_def split: if_splits)
  then have "r = claimed_launch now (''nonce-'' @ n) rt e"
    using update_row [OF assms(2) e(1) same_launches(1)] by simp
  with e show ?thesis by (simp add: registry_book_def claimed_launch_def phase_of_def)
qed

lemma claim_needs_reserved:
  assumes "claim_spawn h now n k rt db = Inr (db', r, True)"
  shows "\<exists>d j. registry_book db (rh_scope h, k) = Some (d, j, Reserved)"
  using assms by (auto simp: claim_spawn_def fetch_launch_def registry_book_def phase_of_def Let_def split: if_splits)

text \<open>
  C2. At most one process is ever started for a key: once one caller has won the claim, no later claim
  of that key is won, by any process of the same scope, after any writes whatsoever.
\<close>

theorem launch_claimed_once:
  assumes "registry_ok db" and "claim_spawn h now n k rt db = Inr (db1, r, True)" and "registry_step\<^sup>*\<^sup>* db1 db2"
    and "claim_spawn h' now' n' k rt' db2 = Inr (db3, r', won)" and "rh_scope h' = rh_scope h"
  shows "\<not> won"
proof
  assume won
  then have "\<exists>d j. registry_book db2 (rh_scope h, k) = Some (d, j, Reserved)"
    using claim_needs_reserved [of h' now' n' k rt' db2 db3 r'] assms(4,5) by simp
  moreover have "registry_ok db1" using step_claim [OF assms(2)] launches.keeps assms(1) by blast
  ultimately show False
    using launches.claim_is_final [OF assms(3) _ claim_won [OF assms(2,1)]] by auto
qed

text \<open>
  C3. A key stays bound to its first request: after a reservation and any writes, a reservation of the
  same key either repeats the request and gets the same job back without a new record, or it fails.
\<close>

lemma reserved_entry:
  assumes "reserve_launch h now uuid k d b db = Inr (db', r, new)"
  shows "\<exists>p. registry_book db' (rh_scope h, k) = Some (d, lr_job_id r, p)"
proof (cases "launch_by_key h k db")
  case None
  with assms have "create_launch h k (new_launch h k d (Some b) now (''launch-'' @ uuid 0) RG_RESERVED (Some (''local-job-'' @ uuid 1))
      (''receipt-'' @ uuid 2)) db = Inr (db', r, new)" by (auto simp: reserve_launch_def)
  then show ?thesis
    using None by (auto simp: create_launch_def insert_launch_def read_launch_def registry_book_def launch_by_key_def row_by_append
        row_by_Cons new_launch_def launch_key_def)
next
  case (Some e)
  with assms show ?thesis by (auto simp: reserve_launch_def replayed registry_book_def launch_by_key_def)
qed

theorem launch_binding_permanent:
  assumes "registry_ok db" and "reserve_launch h now uuid k d b db = Inr (db1, r, new)" and "registry_step\<^sup>*\<^sup>* db1 db2"
    and "reserve_launch h' now' uuid' k d' b' db2 = Inr (db3, r', new')" and "rh_scope h' = rh_scope h"
  shows "db3 = db2 \<and> d' = d \<and> lr_job_id r' = lr_job_id r"
proof -
  obtain p where "registry_book db1 (rh_scope h, k) = Some (d, lr_job_id r, p)" using reserved_entry [OF assms(2)] by blast
  moreover have "registry_ok db1" using step_reserve [OF assms(2)] launches.keeps assms(1) by blast
  ultimately obtain p' where "registry_book db2 (rh_scope h, k) = Some (d, lr_job_id r, p')"
    using launches.entry_advances [OF assms(3)] by blast
  then obtain e where "launch_by_key h' k db2 = Some e" "lr_digest e = d" "lr_job_id e = lr_job_id r"
    using assms(5) by (auto simp: registry_book_def launch_by_key_def)
  with assms(4) show ?thesis by (auto simp: reserve_launch_def replayed)
qed

text \<open>
  C4. A terminal result is immutable: whatever is written after a terminal receipt was accepted, the
  key reads back with that state, result and exit code.
\<close>

lemma terminal_entry:
  assumes "record_terminal h now k job n d st res exit db = Inr (db', r)" and "registry_ok db"
  shows "registry_book db' (rh_scope h, k) = Some (d, Some job, Finished n st res exit)"
proof -
  have st: "st \<in> {RG_COMPLETED, RG_FAILED, RG_CANCELLED}" using assms(1) by (auto simp: record_terminal_def)
  obtain e where e: "row_by launch_key (rh_scope h, k) (rb_records db) = Some e" "launch_identity e = (Some job, Some n, d)"
      "db' = db \<and> lr_state e = st \<and> lr_result e = Some res \<and> lr_exit_code e = exit \<or>
       db' = update_launch (lr_id e) (finished_launch now st res exit) db"
    using assms(1) by (auto simp: record_terminal_def fetch_launch_def Let_def split: if_splits)
  then obtain e' where "row_by launch_key (rh_scope h, k) (rb_records db') = Some e'" "launch_identity e' = (Some job, Some n, d)"
      "lr_state e' = st" "lr_result e' = Some res" "lr_exit_code e' = exit"
    using update_row [OF assms(2) e(1) same_launches(3)] by (auto simp: finished_launch_def launch_identity_def)
  with st show ?thesis by (auto simp: registry_book_def phase_of_def launch_identity_def)
qed

theorem launch_result_immutable:
  assumes "registry_ok db" and "record_terminal h now k job n d st res exit db = Inr (db1, r)" and "registry_step\<^sup>*\<^sup>* db1 db2"
    and "get_launch h' k db2 = Inr got" and "rh_scope h' = rh_scope h"
  shows "\<exists>r'. got = Some r' \<and> lr_state r' = st \<and> lr_result r' = Some res \<and> lr_exit_code r' = exit"
proof -
  have ok1: "registry_ok db1" using step_terminal [OF assms(2)] launches.keeps assms(1) by blast
  have "registry_book db2 (rh_scope h, k) = Some (d, Some job, Finished n st res exit)"
    using launches.finish_is_final [OF assms(3) ok1 terminal_entry [OF assms(2,1)]] by blast
  then obtain r' where r': "launch_by_key h' k db2 = Some r'" and "phase_of r' = Finished n st res exit"
    using assms(5) by (auto simp: registry_book_def launch_by_key_def)
  moreover have "launch_ok r'"
    using launch_ok_in [OF launches.keeps_many [OF assms(3) ok1]] r' by (simp add: launch_by_key_def)
  ultimately have "lr_state r' = st \<and> lr_result r' = Some res \<and> lr_exit_code r' = exit"
    by (auto simp: phase_of_def launch_ok_def split: registry_state.splits)
  with r' assms(4) show ?thesis by (intro exI [of _ r']) (auto simp: get_launch_def)
qed

text \<open>
  C5. A launch the registry reports as definitely not launched has no claimant: nobody holds its nonce,
  so no process of it can register, in any reachable registry.
\<close>

theorem not_launched_unclaimed:
  assumes "reach (\<lambda>db. rb_records db = []) registry_step db" and "r \<in> set (rb_records db)"
  shows "record_disposition r = RX_DEFINITELY_NOT_LAUNCHED \<longleftrightarrow> lr_nonce r = None"
proof -
  have "registry_ok db"
    using assms(1)
  proof (rule reach_invariant)
    show "registry_ok db" if "rb_records db = []" for db using that by (simp add: registry_ok_def unique_key_def)
  qed (rule launches.keeps)
  then have "launch_ok r" using assms(2) by (simp add: registry_ok_def list_all_iff)
  then show ?thesis
    by (auto simp: launch_ok_def record_disposition_def launch_disposition_of_def)
qed

section \<open>Examples\<close>

definition sample_digest :: string where
  "sample_digest = ''sha256:'' @ replicate 64 CHR ''0''"

definition sample_binding :: driver_binding where
  "sample_binding = \<lparr>db_driver_id = ''test'', db_driver_type = ''test'', db_profile_revision = 1, db_profile_fingerprint = sample_digest\<rparr>"

definition sample_handle :: registry_handle where
  "sample_handle = \<lparr>rh_scope = ''local-loopback'', rh_identity = [Some ''a'', Some ''r'', Some ''n'', Some ''h'']\<rparr>"

definition empty_registry :: registry_db where
  "empty_registry = \<lparr>rb_meta = [(''schema_version'', ''2''), (''authority_id'', ''a''), (''registry_id'', ''r''), (''node_id'', ''n''),
     (''process_host_identity'', ''h'')], rb_records = [], rb_driver_columns = True\<rparr>"

lemma sample_open:
  "\<exists>db h. open_registry ''local-loopback'' None (Some ''h'') show_nat \<lparr>rb_meta = [], rb_records = [], rb_driver_columns = False\<rparr> = Inr (db, h)"
  by (simp add: open_registry_def migrate_registry_def insert_or_ignore_def bind_identity_def truthy_def Let_def py_isspace_def)

lemma sample_checks:
  "check_request_identity ''k'' sample_digest = Inr ()" "validate_driver_binding sample_binding = Inr ()"
  "connect_registry sample_handle empty_registry = Inr ()" "validate_idempotency_key ''k'' = Inr ()"
  by (simp_all add: check_request_identity_def validate_idempotency_key_def valid_idempotency_key_def alnum_char_def
      less_eq_char_def is_digest_def sample_digest_def validate_driver_binding_def sample_binding_def py_isspace_def
      connect_registry_def observed_identity_def identity_keys_def sample_handle_def empty_registry_def)

definition sample_launch :: launch_record where
  "sample_launch = new_launch sample_handle ''k'' sample_digest (Some sample_binding) 1 (''launch-'' @ show_nat 0) RG_RESERVED
     (Some (''local-job-'' @ show_nat 1)) (''receipt-'' @ show_nat 2)"

definition reserved_registry :: registry_db where
  "reserved_registry = empty_registry\<lparr>rb_records := [sample_launch]\<rparr>"

lemmas launch_simps = sample_checks(1,2,4) connect_registry_def observed_identity_def identity_keys_def empty_registry_def
  launch_by_key_def fetch_launch_def read_launch_def row_simps launch_key_def sample_launch_def new_launch_def
  sample_handle_def update_launch_def

lemma sample_reserved:
  "reserve_launch sample_handle 1 show_nat ''k'' sample_digest sample_binding empty_registry = Inr (reserved_registry, sample_launch, True)"
  by (simp add: reserve_launch_def create_launch_def insert_launch_def launch_insertable_def launch_simps reserved_registry_def)

lemma sample_registry_ok: "registry_ok empty_registry" "registry_ok reserved_registry"
proof -
  show e: "registry_ok empty_registry" by (simp add: registry_ok_def empty_registry_def unique_key_def)
  show "registry_ok reserved_registry" by (rule launches.keeps [OF e step_reserve [OF sample_reserved]])
qed

definition claimed_registry :: registry_db where
  "claimed_registry = empty_registry\<lparr>rb_records := [claimed_launch 2 ''nonce-z'' ''rt'' sample_launch]\<rparr>"

lemma sample_claimed:
  "claim_spawn sample_handle 2 ''z'' ''k'' ''rt'' reserved_registry = Inr (claimed_registry, claimed_launch 2 ''nonce-z'' ''rt'' sample_launch, True)"
  by (simp add: claim_spawn_def reserved_registry_def claimed_registry_def py_isspace_def launch_simps claimed_launch_def Let_def)

lemma claimed_registry_ok: "registry_ok claimed_registry"
  using step_claim [OF sample_claimed] launches.keeps sample_registry_ok by blast

definition finished_registry :: registry_db where
  "finished_registry = empty_registry\<lparr>rb_records := [finished_launch 3 RG_COMPLETED ''{}'' (Some 0) (claimed_launch 2 ''nonce-z'' ''rt'' sample_launch)]\<rparr>"

lemma sample_finished:
  "record_terminal sample_handle 3 ''k'' (''local-job-'' @ show_nat 1) ''nonce-z'' sample_digest RG_COMPLETED ''{}'' (Some 0) claimed_registry =
     Inr (finished_registry, finished_launch 3 RG_COMPLETED ''{}'' (Some 0) (claimed_launch 2 ''nonce-z'' ''rt'' sample_launch))"
  by (simp add: record_terminal_def finished_registry_def claimed_registry_def launch_simps claimed_launch_def finished_launch_def
      launch_identity_def Let_def)

theorem registry_refines_book_witness: "book_step (registry_book empty_registry) (registry_book reserved_registry)"
  by (rule registry_refines_book [OF sample_registry_ok(1) step_reserve [OF sample_reserved]])

theorem launch_claimed_once_witness:
  "\<exists>db r won. claim_spawn sample_handle 3 ''y'' ''k'' ''other'' claimed_registry = Inr (db, r, won) \<and> \<not> won"
proof -
  obtain db r won where c: "claim_spawn sample_handle 3 ''y'' ''k'' ''other'' claimed_registry = Inr (db, r, won)"
    by (auto simp: claim_spawn_def claimed_registry_def py_isspace_def launch_simps claimed_launch_def fetch_def)
  have "\<not> won" using launch_claimed_once [OF sample_registry_ok(2) sample_claimed rtranclp.rtrancl_refl c] by simp
  with c show ?thesis by blast
qed

theorem launch_binding_permanent_witness:
  "\<exists>r. reserve_launch sample_handle 9 show_nat ''k'' sample_digest sample_binding reserved_registry = Inr (reserved_registry, r, False) \<and>
     lr_job_id r = lr_job_id sample_launch"
proof -
  have c: "reserve_launch sample_handle 9 show_nat ''k'' sample_digest sample_binding reserved_registry = Inr (reserved_registry, sample_launch, False)"
    by (simp add: reserve_launch_def reserved_registry_def launch_simps replay_launch_def)
  show ?thesis using c launch_binding_permanent [OF sample_registry_ok(1) sample_reserved rtranclp.rtrancl_refl c] by simp
qed

theorem launch_result_immutable_witness:
  "\<exists>r. get_launch sample_handle ''k'' finished_registry = Inr (Some r) \<and> lr_state r = RG_COMPLETED \<and> lr_result r = Some ''{}''"
proof -
  obtain got where "get_launch sample_handle ''k'' finished_registry = Inr got"
    by (simp add: get_launch_def finished_registry_def launch_simps)
  from launch_result_immutable [OF claimed_registry_ok sample_finished rtranclp.rtrancl_refl this] this show ?thesis by auto
qed

theorem not_launched_unclaimed_witness:
  "reach (\<lambda>db. rb_records db = []) registry_step claimed_registry \<and>
   record_disposition (claimed_launch 2 ''nonce-z'' ''rt'' sample_launch) \<noteq> RX_DEFINITELY_NOT_LAUNCHED"
proof -
  have "reach (\<lambda>db. rb_records db = []) registry_step empty_registry" by (rule reach_init) (simp add: empty_registry_def)
  then have r: "reach (\<lambda>db. rb_records db = []) registry_step claimed_registry"
    using step_reserve [OF sample_reserved] step_claim [OF sample_claimed] by (blast intro: reach_step)
  have "claimed_launch 2 ''nonce-z'' ''rt'' sample_launch \<in> set (rb_records claimed_registry)" by (simp add: claimed_registry_def)
  from not_launched_unclaimed [OF r this] r show ?thesis by (simp add: claimed_launch_def sample_launch_def new_launch_def)
qed

end
