(* ===== verification/Store_Recovery.thy ===== *)
theory Store_Recovery
  imports Store_Records
begin

text \<open>
  Boot recovery in \<^verbatim>\<open>src/project_supervisor/store.py\<close>: runs and tasks that a dead supervisor left
  active are marked interrupted, except where a live lease or a launched provider job protects them.

  The updates of the loops, each by primary key, are written as one update of the selected rows,
  followed by the events in the order of the rows.
\<close>

section \<open>Selection\<close>

text \<open>Work another process may still own: its lease is active and has not expired.\<close>

definition lease_protects :: "rat \<Rightarrow> db \<Rightarrow> string \<Rightarrow> bool" where
  "lease_protects now db task_id =
     list_ex (\<lambda>l. tl_task_id l = task_id \<and> tl_state l = LEASE_ACTIVE \<and> timestamp now < tl_expires_at l)
       (task_execution_leases db)"

text \<open>A run whose provider job has left the \<^verbatim>\<open>prepared\<close> state.\<close>

definition job_launched :: "db \<Rightarrow> string \<Rightarrow> bool" where
  "job_launched db run_id =
     list_ex (\<lambda>j. jb_run_id j = run_id \<and> jb_launch_state j \<noteq> LAUNCH_PREPARED) (provider_jobs db)"

definition in_scope :: "string list option \<Rightarrow> string \<Rightarrow> bool" where
  "in_scope scope task_id = (case scope of None \<Rightarrow> True | Some ids \<Rightarrow> task_id \<in> set ids)"

definition orphaned_run :: "rat \<Rightarrow> db \<Rightarrow> run_row \<Rightarrow> bool" where
  "orphaned_run now db run \<longleftrightarrow>
     run_active run \<and> \<not> lease_protects now db (rn_task_id run) \<and> \<not> job_launched db (rn_id run)"

definition orphaned_task :: "rat \<Rightarrow> db \<Rightarrow> task_row \<Rightarrow> bool" where
  "orphaned_task now db task \<longleftrightarrow>
     tk_state task = TASK_RUNNING \<and> \<not> lease_protects now db (tk_id task) \<and>
     \<not> list_ex (\<lambda>r. rn_task_id r = tk_id task \<and> run_active r \<and> job_launched db (rn_id r)) (worker_runs db)"

definition runs_to_interrupt :: "rat \<Rightarrow> string list option \<Rightarrow> db \<Rightarrow> run_row list" where
  "runs_to_interrupt now scope db =
     filter (\<lambda>r. orphaned_run now db r \<and> in_scope scope (rn_task_id r)) (worker_runs db)"

definition tasks_to_interrupt :: "rat \<Rightarrow> string list option \<Rightarrow> db \<Rightarrow> task_row list" where
  "tasks_to_interrupt now scope db =
     filter (\<lambda>t. orphaned_task now db t \<and> in_scope scope (tk_id t)) (tasks db)"

section \<open>Effects\<close>

definition restart_run :: "int \<Rightarrow> run_row \<Rightarrow> run_row" where
  "restart_run t r =
     r\<lparr>rn_state := RUN_INTERRUPTED, rn_ended_at := Some t, rn_updated_at := t,
       rn_failure_class := Some FAIL_INFRASTRUCTURE, rn_failure_detail := Some ''supervisor restart''\<rparr>"

definition run_interrupted_event :: "run_row \<Rightarrow> event" where
  "run_interrupted_event r =
     mk_event ''workerRunInterrupted'' SEV_WARNING ''workerRun'' (rn_id r) None (Some (rn_task_id r))
       (Some (rn_worker_id r)) (Some (rn_id r)) ''Worker run interrupted by supervisor restart''
       [(''previousState'', JStr (run_state_value (rn_state r)))] ''recovery''"

definition interrupt_runs :: "rat \<Rightarrow> run_row list \<Rightarrow> db \<Rightarrow> db" where
  "interrupt_runs now runs db =
     append_events now (map run_interrupted_event runs)
       (db\<lparr>worker_runs := upd_where (\<lambda>r. rn_id r \<in> rn_id ` set runs) (restart_run (timestamp now))
          (worker_runs db)\<rparr>)"

definition free_workers :: "rat \<Rightarrow> run_row list \<Rightarrow> db \<Rightarrow> db" where
  "free_workers now runs db =
     db\<lparr>workers := upd_where
         (\<lambda>w. wk_id w \<in> rn_worker_id ` set runs \<and> \<not> worker_has_active_run db (wk_id w) None)
         (\<lambda>w. w\<lparr>wk_state := WORKER_IDLE, wk_updated_at := timestamp now\<rparr>) (workers db)\<rparr>"

definition recovered_task :: "int \<Rightarrow> task_row \<Rightarrow> task_row" where
  "recovered_task t task =
     task\<lparr>tk_state := TASK_INTERRUPTED, tk_updated_at := t, tk_version := tk_version task + 1\<rparr>"

definition task_recovered_event :: "task_row \<Rightarrow> event" where
  "task_recovered_event t =
     mk_event ''taskRecovered'' SEV_WARNING ''task'' (tk_id t) (Some (tk_project_id t)) (Some (tk_id t)) None
       None ''Task marked interrupted during boot recovery''
       [(''from'', JStr (task_state_value TASK_RUNNING)), (''to'', JStr (task_state_value TASK_INTERRUPTED))]
       ''recovery''"

definition interrupt_tasks :: "rat \<Rightarrow> task_row list \<Rightarrow> db \<Rightarrow> db" where
  "interrupt_tasks now ts db =
     append_events now (map task_recovered_event ts)
       (db\<lparr>tasks := upd_where (\<lambda>t. tk_id t \<in> tk_id ` set ts) (recovered_task (timestamp now)) (tasks db)\<rparr>)"

text \<open>The lease rows of the recovered tasks that are still marked active.\<close>

definition release_recovered :: "rat \<Rightarrow> string set \<Rightarrow> db \<Rightarrow> db" where
  "release_recovered now ids db =
     db\<lparr>task_execution_leases := upd_where (\<lambda>l. tl_task_id l \<in> ids \<and> tl_state l = LEASE_ACTIVE)
         (\<lambda>l. l\<lparr>tl_state := LEASE_RELEASED, tl_released_at := Some (timestamp now),
            tl_heartbeat_at := timestamp now\<rparr>) (task_execution_leases db)\<rparr>"

definition recover_interrupted :: "rat \<Rightarrow> string list option \<Rightarrow> db \<Rightarrow> db \<times> nat \<times> nat" where
  "recover_interrupted now scope db =
     (if scope = Some [] then (db, 0, 0)
      else
        (let runs = runs_to_interrupt now scope db;
             ts = tasks_to_interrupt now scope db;
             db1 = interrupt_tasks now ts (free_workers now runs (interrupt_runs now runs db))
         in (release_recovered now (rn_task_id ` set runs \<union> tk_id ` set ts) db1, length runs, length ts)))"

section \<open>What recovery keeps\<close>

lemma upd_where_none: "(\<And>r. r \<in> set rows \<Longrightarrow> \<not> P r) \<Longrightarrow> upd_where P f rows = rows"
  by (simp add: upd_where_def map_idI)

lemma interrupt_runs_simps [simp]:
  "worker_runs (interrupt_runs now runs db) =
     upd_where (\<lambda>r. rn_id r \<in> rn_id ` set runs) (restart_run (timestamp now)) (worker_runs db)"
  "tasks (interrupt_runs now runs db) = tasks db"
  "workers (interrupt_runs now runs db) = workers db"
  "provider_jobs (interrupt_runs now runs db) = provider_jobs db"
  "task_execution_leases (interrupt_runs now runs db) = task_execution_leases db"
  by (simp_all add: interrupt_runs_def)

lemma free_workers_simps [simp]:
  "worker_runs (free_workers now runs db) = worker_runs db"
  "tasks (free_workers now runs db) = tasks db"
  "provider_jobs (free_workers now runs db) = provider_jobs db"
  "task_execution_leases (free_workers now runs db) = task_execution_leases db"
  by (simp_all add: free_workers_def)

lemma interrupt_tasks_simps [simp]:
  "worker_runs (interrupt_tasks now ts db) = worker_runs db"
  "workers (interrupt_tasks now ts db) = workers db"
  "tasks (interrupt_tasks now ts db) =
     upd_where (\<lambda>t. tk_id t \<in> tk_id ` set ts) (recovered_task (timestamp now)) (tasks db)"
  "provider_jobs (interrupt_tasks now ts db) = provider_jobs db"
  "task_execution_leases (interrupt_tasks now ts db) = task_execution_leases db"
  by (simp_all add: interrupt_tasks_def)

lemma release_recovered_simps [simp]:
  "worker_runs (release_recovered now ids db) = worker_runs db"
  "workers (release_recovered now ids db) = workers db"
  "tasks (release_recovered now ids db) = tasks db"
  "provider_jobs (release_recovered now ids db) = provider_jobs db"
  by (simp_all add: release_recovered_def)

lemma recover_tables:
  assumes "recover_interrupted now scope db = (db', n, m)"
  defines "runs \<equiv> runs_to_interrupt now scope db" and "ts \<equiv> tasks_to_interrupt now scope db"
  shows "worker_runs db' = upd_where (\<lambda>r. rn_id r \<in> rn_id ` set runs) (restart_run (timestamp now)) (worker_runs db)"
    and "tasks db' = upd_where (\<lambda>t. tk_id t \<in> tk_id ` set ts) (recovered_task (timestamp now)) (tasks db)"
    and "provider_jobs db' = provider_jobs db"
    and "task_execution_leases db' = upd_where
       (\<lambda>l. tl_task_id l \<in> rn_task_id ` set runs \<union> tk_id ` set ts \<and> tl_state l = LEASE_ACTIVE)
       (\<lambda>l. l\<lparr>tl_state := LEASE_RELEASED, tl_released_at := Some (timestamp now),
          tl_heartbeat_at := timestamp now\<rparr>) (task_execution_leases db)"
proof -
  have none: "runs_to_interrupt now (Some []) db = []" "tasks_to_interrupt now (Some []) db = []"
    by (simp_all add: runs_to_interrupt_def tasks_to_interrupt_def in_scope_def)
  show "worker_runs db' = upd_where (\<lambda>r. rn_id r \<in> rn_id ` set runs) (restart_run (timestamp now)) (worker_runs db)"
    "tasks db' = upd_where (\<lambda>t. tk_id t \<in> tk_id ` set ts) (recovered_task (timestamp now)) (tasks db)"
    "provider_jobs db' = provider_jobs db"
    "task_execution_leases db' = upd_where
       (\<lambda>l. tl_task_id l \<in> rn_task_id ` set runs \<union> tk_id ` set ts \<and> tl_state l = LEASE_ACTIVE)
       (\<lambda>l. l\<lparr>tl_state := LEASE_RELEASED, tl_released_at := Some (timestamp now),
          tl_heartbeat_at := timestamp now\<rparr>) (task_execution_leases db)"
    using assms(1) none
    by (auto simp: recover_interrupted_def runs_def ts_def Let_def release_recovered_def upd_where_none
        split: if_splits)
qed

lemma recovered_unprotected:
  "r \<in> set (runs_to_interrupt now scope db) \<Longrightarrow> \<not> lease_protects now db (rn_task_id r)"
  "t \<in> set (tasks_to_interrupt now scope db) \<Longrightarrow> \<not> lease_protects now db (tk_id t)"
  by (simp_all add: runs_to_interrupt_def tasks_to_interrupt_def orphaned_run_def orphaned_task_def)

lemma live_leases_kept:
  assumes "recover_interrupted now scope db = (db', n, m)" and "l \<in> set (task_execution_leases db)"
    and "lease_live now l"
  shows "l \<in> set (task_execution_leases db')"
proof -
  have "lease_protects now db (tl_task_id l)"
    using assms(2,3) by (auto simp: lease_protects_def lease_live_def list_ex_iff)
  then have "tl_task_id l \<notin> rn_task_id ` set (runs_to_interrupt now scope db) \<union>
      tk_id ` set (tasks_to_interrupt now scope db)"
    using recovered_unprotected by fastforce
  then show ?thesis
    unfolding recover_tables(4) [OF assms(1)] set_upd_where using assms(2) by force
qed

lemma lease_protects_recover:
  assumes "recover_interrupted now scope db = (db', n, m)"
  shows "lease_protects now db' tid \<longleftrightarrow> lease_protects now db tid"
proof
  assume "lease_protects now db tid"
  then obtain l where "l \<in> set (task_execution_leases db)" "tl_task_id l = tid" "lease_live now l"
    by (auto simp: lease_protects_def lease_live_def list_ex_iff)
  then show "lease_protects now db' tid"
    using live_leases_kept [OF assms] by (auto simp: lease_protects_def lease_live_def list_ex_iff)
next
  assume "lease_protects now db' tid"
  then show "lease_protects now db tid"
    by (auto simp: lease_protects_def list_ex_iff recover_tables(4) [OF assms] set_upd_where split: if_splits)
qed

lemma job_launched_recover:
  "recover_interrupted now scope db = (db', n, m) \<Longrightarrow> job_launched db' rid = job_launched db rid"
  by (simp add: job_launched_def recover_tables(3))

lemma restart_run_inactive [simp]: "\<not> run_active (restart_run t r)"
  by (simp add: restart_run_def run_active_def)

lemma recovered_task_state [simp]: "tk_state (recovered_task t x) = TASK_INTERRUPTED"
  by (simp add: recovered_task_def)

lemma active_after_recovery:
  assumes "recover_interrupted now scope db = (db', n, m)"
    and "r \<in> set (worker_runs db')" and "run_active r" and "in_scope scope (rn_task_id r)"
  shows "r \<in> set (worker_runs db) \<and> (lease_protects now db (rn_task_id r) \<or> job_launched db (rn_id r))"
proof -
  have r: "r \<in> set (worker_runs db)" "rn_id r \<notin> rn_id ` set (runs_to_interrupt now scope db)"
    using assms(2,3) unfolding recover_tables(1) [OF assms(1)] set_upd_where by (auto split: if_splits)
  then have "r \<notin> set (runs_to_interrupt now scope db)" by blast
  then show ?thesis using r(1) assms(3,4) by (auto simp: runs_to_interrupt_def orphaned_run_def)
qed

lemma protected_run_kept:
  assumes "recover_interrupted now scope db = (db', n, m)" and "unique_key rn_id (worker_runs db)"
    and "r \<in> set (worker_runs db)" and "\<not> orphaned_run now db r"
  shows "r \<in> set (worker_runs db')"
proof -
  have "rn_id r \<notin> rn_id ` set (runs_to_interrupt now scope db)"
  proof
    assume "rn_id r \<in> rn_id ` set (runs_to_interrupt now scope db)"
    then obtain r' where r': "r' \<in> set (worker_runs db)" "rn_id r' = rn_id r" "orphaned_run now db r'"
      by (auto simp: runs_to_interrupt_def)
    then have "r' = r" using assms(2,3) row_by_in by (metis option.inject)
    with r'(3) assms(4) show False by simp
  qed
  then show ?thesis unfolding recover_tables(1) [OF assms(1)] set_upd_where using assms(3) by force
qed

lemma protected_task_kept:
  assumes "recover_interrupted now scope db = (db', n, m)" and "unique_key tk_id (tasks db)"
    and "t \<in> set (tasks db)" and "\<not> orphaned_task now db t"
  shows "t \<in> set (tasks db')"
proof -
  have "tk_id t \<notin> tk_id ` set (tasks_to_interrupt now scope db)"
  proof
    assume "tk_id t \<in> tk_id ` set (tasks_to_interrupt now scope db)"
    then obtain t' where t': "t' \<in> set (tasks db)" "tk_id t' = tk_id t" "orphaned_task now db t'"
      by (auto simp: tasks_to_interrupt_def)
    then have "t' = t" using assms(2,3) row_by_in by (metis option.inject)
    with t'(3) assms(4) show False by simp
  qed
  then show ?thesis unfolding recover_tables(2) [OF assms(1)] set_upd_where using assms(3) by force
qed

lemma nothing_left_to_recover:
  assumes "recover_interrupted now scope db = (db', n, m)" and "unique_key rn_id (worker_runs db)"
  shows "runs_to_interrupt now scope db' = []" and "tasks_to_interrupt now scope db' = []"
proof -
  note same = lease_protects_recover [OF assms(1)] job_launched_recover [OF assms(1)]
  have "\<not> (orphaned_run now db' r \<and> in_scope scope (rn_task_id r))" if "r \<in> set (worker_runs db')" for r
    using active_after_recovery [OF assms(1) that] by (auto simp: orphaned_run_def same)
  then show "runs_to_interrupt now scope db' = []" by (simp add: runs_to_interrupt_def filter_empty_conv)
  have "\<not> (orphaned_task now db' t \<and> in_scope scope (tk_id t))" if t: "t \<in> set (tasks db')" for t
  proof
    assume o1: "orphaned_task now db' t \<and> in_scope scope (tk_id t)"
    then have "t \<in> set (tasks db)" "tk_id t \<notin> tk_id ` set (tasks_to_interrupt now scope db)"
      using t unfolding recover_tables(2) [OF assms(1)] set_upd_where by (auto simp: orphaned_task_def split: if_splits)
    then have "\<not> orphaned_task now db t" using o1 by (auto simp: tasks_to_interrupt_def)
    then obtain r where r: "r \<in> set (worker_runs db)" "rn_task_id r = tk_id t" "run_active r" "job_launched db (rn_id r)"
      using o1 by (auto simp: orphaned_task_def same list_ex_iff)
    then have "r \<in> set (worker_runs db')"
      using protected_run_kept [OF assms] by (simp add: orphaned_run_def)
    then show False using r o1 by (auto simp: orphaned_task_def same list_ex_iff)
  qed
  then show "tasks_to_interrupt now scope db' = []" by (simp add: tasks_to_interrupt_def filter_empty_conv)
qed

lemma recover_nothing:
  assumes "runs_to_interrupt now scope db = []" and "tasks_to_interrupt now scope db = []"
  shows "recover_interrupted now scope db = (db, 0, 0)"
  using assms by (simp add: recover_interrupted_def Let_def interrupt_runs_def free_workers_def
      interrupt_tasks_def release_recovered_def upd_where_none)

lemma journal_recover_interrupted:
  "recover_interrupted now scope db = (db', n, m) \<Longrightarrow> journal_extends db db'"
  by (auto simp: recover_interrupted_def Let_def interrupt_runs_def free_workers_def interrupt_tasks_def
      release_recovered_def split: if_splits)

lemma leases_kept_recover_interrupted:
  assumes "recover_interrupted now scope db = (db', n, m)"
  shows "leases_kept now db db'"
proof -
  have "leases_kept now db (db\<lparr>task_execution_leases := upd_where P
      (\<lambda>l. l\<lparr>tl_state := LEASE_RELEASED, tl_released_at := t, tl_heartbeat_at := h\<rparr>)
      (task_execution_leases db)\<rparr>)" for P t h
    by (auto simp: leases_kept_def row_by_upd_where lease_follows_def lease_live_def)
  then show ?thesis unfolding leases_kept_def recover_tables(4) [OF assms] by simp
qed



end
