(* ===== verification/Store_Steps.thy ===== *)
theory Store_Steps
  imports Store_Recovery
begin

text \<open>
  The store as a transition system. \<open>store_step now db db'\<close> is one committed transaction of any
  operation of \<^verbatim>\<open>StateStore\<close> that changes the database; operations that raise leave no step. The
  laws of leases are stated once, in locales over an arbitrary step relation: \<open>fencing_tokens\<close> for
  generations that only grow and \<open>expiring_tokens\<close> for leases that are never revived.
\<close>

section \<open>Lease tables\<close>

text \<open>A timed run: steps at times that do not decrease.\<close>

inductive timed_run :: "(rat \<Rightarrow> 'd \<Rightarrow> 'd \<Rightarrow> bool) \<Rightarrow> rat \<Rightarrow> 'd \<Rightarrow> rat \<Rightarrow> 'd \<Rightarrow> bool" for step where
  run_wait: "t \<le> t' \<Longrightarrow> timed_run step t d t' d"
| run_step: "timed_run step t d t1 d1 \<Longrightarrow> step t1 d1 d2 \<Longrightarrow> t1 \<le> t2 \<Longrightarrow> timed_run step t d t2 d2"

lemma timed_run_mono: "timed_run step t d t' d' \<Longrightarrow> t \<le> t'"
  by (induction rule: timed_run.induct) auto

locale fencing_tokens =
  fixes step :: "rat \<Rightarrow> 'd \<Rightarrow> 'd \<Rightarrow> bool"
    and leases :: "'d \<Rightarrow> 'k \<Rightarrow> 'l option"
    and gen :: "'l \<Rightarrow> int"
    and holder :: "'l \<Rightarrow> string"
  assumes step_follows: "step t d d' \<Longrightarrow> leases d k = Some l \<Longrightarrow>
      \<exists>l'. leases d' k = Some l' \<and>
        (gen l < gen l' \<or> gen l' = gen l \<and> holder l' = holder l)"
begin

lemma run_follows:
  assumes "timed_run step t d t' d'" and "leases d k = Some l"
  shows "\<exists>l'. leases d' k = Some l' \<and> (gen l < gen l' \<or> gen l' = gen l \<and> holder l' = holder l)"
  using assms
proof (induction rule: timed_run.induct)
  case (run_step t d t1 d1 d2 t2)
  then obtain l1 where "leases d1 k = Some l1" "gen l < gen l1 \<or> gen l1 = gen l \<and> holder l1 = holder l"
    by blast
  with step_follows [OF run_step.hyps(2)] show ?case by fastforce
qed simp

text \<open>A generation that was overtaken never comes back.\<close>

lemma superseded_forever:
  assumes "timed_run step t d t' d'" and "leases d k = Some l" and "g < gen l"
  shows "\<exists>l'. leases d' k = Some l' \<and> g < gen l'"
  using run_follows [OF assms(1,2)] assms(3) by fastforce

end

locale expiring_tokens = fencing_tokens step leases gen holder
  for step :: "rat \<Rightarrow> 'd \<Rightarrow> 'd \<Rightarrow> bool"
    and leases :: "'d \<Rightarrow> 'k \<Rightarrow> 'l option"
    and gen :: "'l \<Rightarrow> int"
    and holder :: "'l \<Rightarrow> string" +
  fixes live :: "rat \<Rightarrow> 'l \<Rightarrow> bool"
  assumes not_revived: "step t d d' \<Longrightarrow> leases d k = Some l \<Longrightarrow> leases d' k = Some l' \<Longrightarrow>
      gen l' = gen l \<Longrightarrow> \<not> live t l \<Longrightarrow> \<not> live t l'"
    and stays_expired: "t \<le> t' \<Longrightarrow> \<not> live t l \<Longrightarrow> \<not> live t' l"
begin

definition current :: "rat \<Rightarrow> 'd \<Rightarrow> 'k \<Rightarrow> string \<Rightarrow> int \<Rightarrow> bool" where
  "current t d k owner g = (\<exists>l. leases d k = Some l \<and> holder l = owner \<and> gen l = g \<and> live t l)"

lemma lost_forever:
  assumes "timed_run step t d t' d'" and "leases d k = Some l" and "g \<le> gen l"
    and "\<not> current t d k owner g"
  shows "\<not> current t' d' k owner g"
proof -
  have "\<exists>l'. leases d' k = Some l' \<and> g \<le> gen l' \<and> (gen l' = g \<longrightarrow> holder l' = owner \<longrightarrow> \<not> live t' l')"
    using assms
  proof (induction rule: timed_run.induct)
    case (run_wait t t' d)
    then show ?case using stays_expired by (auto simp: current_def)
  next
    case (run_step t d t1 d1 d2 t2)
    then obtain l1 where l1: "leases d1 k = Some l1" "g \<le> gen l1"
      "gen l1 = g \<longrightarrow> holder l1 = owner \<longrightarrow> \<not> live t1 l1" by blast
    obtain l2 where l2: "leases d2 k = Some l2" "gen l1 < gen l2 \<or> gen l2 = gen l1 \<and> holder l2 = holder l1"
      using step_follows [OF run_step.hyps(2) l1(1)] by blast
    have "\<not> live t2 l2" if "gen l2 = g" "holder l2 = owner"
      using not_revived [OF run_step.hyps(2) l1(1) l2(1)] stays_expired [OF run_step.hyps(3)] l1 l2(2) that
      by auto
    then show ?case using l1 l2 by auto
  qed
  then show ?thesis by (auto simp: current_def)
qed

end

section \<open>Steps of the store\<close>

inductive store_step :: "rat \<Rightarrow> db \<Rightarrow> db \<Rightarrow> bool" for now db db' where
  st_create_project: "create_project now pid name rp goal db = Inr (db', r0) \<Longrightarrow> store_step now db db'"
| st_create_task: "create_task now task ref db = Inr (db', r1) \<Longrightarrow> store_step now db db'"
| st_add_dependency: "add_task_dependency now tid dep db = Inr (db', u1) \<Longrightarrow> store_step now db db'"
| st_add_criterion: "add_acceptance_criterion now uuid pid kind desc cmd ex cid db = Inr (db', r2) \<Longrightarrow>
    store_step now db db'"
| st_upsert_node: "upsert_node now nid host dn role ns os hw pe caps db = Inr (db', u2) \<Longrightarrow>
    store_step now db db'"
| st_upsert_model: "upsert_model sha md db = Inr (db', r3) \<Longrightarrow> store_step now db db'"
| st_upsert_worker: "fst (upsert_worker sha now ws hv db) = db' \<Longrightarrow> store_step now db db'"
| st_bind_scope: "bind_task_verification_scope digest now uuid iu tid ids gid iid pl sv actor db =
    Inr (db', r4) \<Longrightarrow> store_step now db db'"
| st_record_verification: "record_verification now uuid tid kind passed ev vr crit cmd2 ec db =
    Inr (db', r5) \<Longrightarrow> store_step now db db'"
| st_apply_verification: "apply_task_verification digest now iu tid res vr ma es er ea db =
    Inr (db', r6) \<Longrightarrow> store_step now db db'"
| st_heartbeat: "heartbeat_task_execution_lease now tid o1 g ttl db = Inr (db', b1) \<Longrightarrow> store_step now db db'"
| st_release: "release_task_execution_lease now tid o1 g actor db = Inr (db', b2) \<Longrightarrow> store_step now db db'"
| st_set_worker_state: "set_worker_state now wid wst rst mid t1 oo gg actor db = Inr (db', r7) \<Longrightarrow>
    store_step now db db'"
| st_claim_workers: "claim_workers now wids actor db = Inr (db', b3) \<Longrightarrow> store_step now db db'"
| st_create_run: "create_worker_run digest now uuid tid wid att tmo db = Inr (db', r8) \<Longrightarrow> store_step now db db'"
| st_transition_run: "transition_worker_run now rid target upd payload oo gg db = Inr (db', r9) \<Longrightarrow>
    store_step now db db'"
| st_claim_dispatch: "claim_task_dispatch digest now gen tid wids ver tmo oo ttl mx actor db = Inr (db', r10) \<Longrightarrow>
    store_step now db db'"
| st_activate: "activate_worker_run now rid oo gg actor db = Inr (db', r11) \<Longrightarrow> store_step now db db'"
| st_cancel: "cancel_task_execution now tid actor db = Inr (db', b4) \<Longrightarrow> store_step now db db'"
| st_transition_task: "transition_task now tid ttarget actor sm payload exv oo gg db = Inr (db', r12) \<Longrightarrow>
    store_step now db db'"
| st_job_write: "job_write rid o1 g now db db' \<Longrightarrow> store_step now db db'"
| st_claim_reconciliation: "claim_task_reconciliation now tid o1 ttl ac actor db = Inr (db', r13) \<Longrightarrow>
    store_step now db db'"
| st_history: "record_execution_history h db = Inr (db', u3) \<Longrightarrow> store_step now db db'"
| st_grant: "record_capability_grant now cg db = Inr (db', u4) \<Longrightarrow> store_step now db db'"
| st_revoke: "revoke_capability_grant now gid who db = Inr (db', u5) \<Longrightarrow> store_step now db db'"
| st_identity: "record_node_public_identity ni db = Inr (db', u6) \<Longrightarrow> store_step now db db'"
| st_routing: "persist_routing_decision now uuid tid rd actor db = Inr (db', r14) \<Longrightarrow> store_step now db db'"
| st_result: "save_worker_result now rid wi oo gg db = Inr (db', u7) \<Longrightarrow> store_step now db db'"
| st_failure: "record_failure now uuid fi db = Inr (db', r15) \<Longrightarrow> store_step now db db'"
| st_request_approval: "request_approval now uuid pid perm act payload who ot reason db = Inr (db', r16) \<Longrightarrow>
    store_step now db db'"
| st_resolve_approval: "resolve_approval now aid ok who reason db = Inr (db', u8) \<Longrightarrow> store_step now db db'"
| st_usage: "record_usage now uuid ui db = Inr (db', r17) \<Longrightarrow> store_step now db db'"
| st_session: "upsert_session sha now wid ps sst cur om db = Inr (db', r18) \<Longrightarrow> store_step now db db'"
| st_adapter_event: "record_adapter_event now rid kind payload osm oo gg db = Inr (db', r19) \<Longrightarrow>
    store_step now db db'"
| st_recover: "recover_interrupted now scope db = (db', n1, n2) \<Longrightarrow> store_step now db db'"
| st_token: "issue_api_token kdf now uuid sec salt label scopes exat db = Inr (db', r20) \<Longrightarrow>
    store_step now db db'"

lemma journal_record_verification:
  "record_verification now uuid tid kind passed ev vr crit cmd ec db = Inr (db', r) \<Longrightarrow> journal_extends db db'"
  by (cases crit) (auto simp: record_verification_def Let_def)

lemma journal_store_step: "store_step now db db' \<Longrightarrow> journal_extends db db'"
  by (induction rule: store_step.induct)
    (erule journal_core(1-5) journal_add_task_dependency journal_bind_scope journal_apply_verification
       journal_record_verification journal_dispatch journal_claim_reconciliation journal_records
       journal_recover_interrupted job_write_effect(3) | (metis journal_upsert_worker))+

lemma leases_untouched:
  "create_project now pid name rp goal db = Inr (db', r0) \<Longrightarrow> task_execution_leases db' = task_execution_leases db"
  "create_task now task ref db = Inr (db', r1) \<Longrightarrow> task_execution_leases db' = task_execution_leases db"
  "add_task_dependency now tid dep db = Inr (db', u1) \<Longrightarrow> task_execution_leases db' = task_execution_leases db"
  "add_acceptance_criterion now uuid pid kind desc cmd ex cid db = Inr (db', r2) \<Longrightarrow>
     task_execution_leases db' = task_execution_leases db"
  "upsert_node now nid host dn role ns os hw pe caps db = Inr (db', u2) \<Longrightarrow>
     task_execution_leases db' = task_execution_leases db"
  "upsert_model sha md db = Inr (db', r3) \<Longrightarrow> task_execution_leases db' = task_execution_leases db"
  "record_execution_history h db = Inr (db', u3) \<Longrightarrow> task_execution_leases db' = task_execution_leases db"
  "record_capability_grant now cg db = Inr (db', u4) \<Longrightarrow> task_execution_leases db' = task_execution_leases db"
  "revoke_capability_grant now cgid who db = Inr (db', u5) \<Longrightarrow> task_execution_leases db' = task_execution_leases db"
  "record_node_public_identity ni db = Inr (db', u6) \<Longrightarrow> task_execution_leases db' = task_execution_leases db"
  "request_approval now uuid pid perm act payload who ot reason db = Inr (db', r16) \<Longrightarrow>
     task_execution_leases db' = task_execution_leases db"
  "resolve_approval now aid ok who reason db = Inr (db', u8) \<Longrightarrow> task_execution_leases db' = task_execution_leases db"
  "upsert_session sha now wid ps sst cur om db = Inr (db', r18) \<Longrightarrow> task_execution_leases db' = task_execution_leases db"
  "record_adapter_event now rid kind payload osm oo gg db = Inr (db', r19) \<Longrightarrow>
     task_execution_leases db' = task_execution_leases db"
  "issue_api_token kdf now uuid sec salt label scopes exat db = Inr (db', r20) \<Longrightarrow>
     task_execution_leases db' = task_execution_leases db"
  by (auto simp: create_project_def create_task_def add_task_dependency_def add_acceptance_criterion_def
      upsert_node_def upsert_model_def record_execution_history_def record_capability_grant_def
      revoke_capability_grant_def record_node_public_identity_def request_approval_def
      resolve_approval_def upsert_session_def record_adapter_event_def issue_api_token_def Let_def
      split: if_splits)

lemma leases_untouched_branching:
  "bind_task_verification_scope digest now uuid iu tid ids gid iid pl sv actor db = Inr (db', r4) \<Longrightarrow>
     task_execution_leases db' = task_execution_leases db"
  "record_verification now uuid tid kind passed ev vr crit cmd2 ec db = Inr (db', r5) \<Longrightarrow>
     task_execution_leases db' = task_execution_leases db"
  "persist_routing_decision now uuid tid rd actor db = Inr (db', r14) \<Longrightarrow>
     task_execution_leases db' = task_execution_leases db"
  "save_worker_result now rid wi oo gg db = Inr (db', u7) \<Longrightarrow> task_execution_leases db' = task_execution_leases db"
  "record_failure now uuid fi db = Inr (db', r15) \<Longrightarrow> task_execution_leases db' = task_execution_leases db"
  "record_usage now uuid ui db = Inr (db', r17) \<Longrightarrow> task_execution_leases db' = task_execution_leases db"
proof -
  show "task_execution_leases db' = task_execution_leases db"
    if "bind_task_verification_scope digest now uuid iu tid ids gid iid pl sv actor db = Inr (db', r4)"
    using that by (auto simp: bind_task_verification_scope_def Let_def split: prod.splits)
  show "task_execution_leases db' = task_execution_leases db"
    if "record_verification now uuid tid kind passed ev vr crit cmd2 ec db = Inr (db', r5)"
    using that by (cases crit) (auto simp: record_verification_def Let_def)
  show "task_execution_leases db' = task_execution_leases db"
    if "persist_routing_decision now uuid tid rd actor db = Inr (db', r14)"
    using that by (auto simp: persist_routing_decision_def insert_decision_def Let_def split: option.splits if_splits)
  show "task_execution_leases db' = task_execution_leases db"
    if "save_worker_result now rid wi oo gg db = Inr (db', u7)"
    using that by (auto simp: save_worker_result_def Let_def split: option.splits if_splits)
  show "task_execution_leases db' = task_execution_leases db" if "record_failure now uuid fi db = Inr (db', r15)"
    using that by (auto simp: record_failure_def Let_def split: option.splits if_splits)
  show "task_execution_leases db' = task_execution_leases db" if "record_usage now uuid ui db = Inr (db', r17)"
    using that by (auto simp: record_usage_def Let_def split: option.splits if_splits)
qed

lemma leases_apply_verification:
  assumes "apply_task_verification digest now u tid result v ma es er ea db = Inr (db', target)"
  shows "task_execution_leases db' = task_execution_leases db"
proof -
  have "task_execution_leases (fold (apply_result now u task v pv) xs d) = task_execution_leases d"
    for task pv xs d
    by (induction xs arbitrary: d) simp_all
  then show ?thesis using assms
    by (elim apply_verificationE) (auto simp: commit_verification_def Let_def)
qed

lemma leases_upsert_worker:
  "task_execution_leases (fst (upsert_worker sha now ws hv db)) = task_execution_leases db"
  by (auto simp: upsert_worker_def upsert_model_def Let_def split: sum.split)

lemma leases_store_step: "store_step now db db' \<Longrightarrow> leases_kept now db db'"
  by (induction rule: store_step.induct)
    (erule leases_kept_dispatch leases_kept_claim_reconciliation leases_kept_recover_interrupted
       leases_untouched [THEN leases_kept_same]
       leases_untouched_branching [THEN leases_kept_same] leases_apply_verification [THEN leases_kept_same]
       job_write_effect(2) [THEN leases_kept_same] | (metis leases_upsert_worker leases_kept_same))+

interpretation task_leases: expiring_tokens store_step
  "\<lambda>db tid. row_by tl_task_id tid (task_execution_leases db)" tl_generation tl_owner_id lease_live
proof
  fix t d d' k l l'
  assume step: "store_step t d d'" and l: "row_by tl_task_id k (task_execution_leases d) = Some l"
  obtain l1 where l1: "row_by tl_task_id k (task_execution_leases d') = Some l1" "lease_follows t l l1"
    using leases_store_step [OF step] l by (auto simp: leases_kept_def)
  then show "\<exists>l'. row_by tl_task_id k (task_execution_leases d') = Some l' \<and>
      (tl_generation l < tl_generation l' \<or> tl_generation l' = tl_generation l \<and> tl_owner_id l' = tl_owner_id l)"
    by (auto simp: lease_follows_def)
  show "\<not> lease_live t l'" if "row_by tl_task_id k (task_execution_leases d') = Some l'"
    "tl_generation l' = tl_generation l" "\<not> lease_live t l"
    using that l1 by (auto simp: lease_follows_def)
next
  show "\<not> lease_live t' l" if "t \<le> t'" "\<not> lease_live t l" for t t' l
    using that floor_mono [OF that(1)] by (auto simp: lease_live_def timestamp_def)
qed

lemma lease_current_task_leases:
  "lease_current now db tid o1 g \<longleftrightarrow> task_leases.current now db tid o1 g"
  by (auto simp: lease_current_iff task_leases.current_def)

lemma journal_timed_run: "timed_run store_step t db t' db' \<Longrightarrow> journal_extends db db'"
  by (induction rule: timed_run.induct) (auto intro: journal_extends_trans journal_store_step)

section \<open>Properties\<close>


text \<open>
  C23. The journal is append-only: along every execution of the store the earlier journal is a prefix
  of the later one, and started from the empty database it numbers its events 1, 2, 3, \<dots> without gaps.
\<close>

theorem journal_append_only:
  assumes "timed_run store_step t db t' db'"
  shows "prefix (events db) (events db') \<and>
    (db = empty_db \<longrightarrow> map ev_sequence (events db') = [1..<Suc (length (events db'))] \<and>
       highest_event_sequence db' = length (events db'))"
proof -
  have ext: "journal_extends db db'" using assms by (rule journal_timed_run)
  have "map ev_sequence (events db') = [1..<Suc (length (events db'))]" if "journal_ok db'"
    using that by (intro nth_equalityI) (auto simp: journal_ok_def simp del: upt_Suc)
  moreover have "journal_ok empty_db" by (simp add: journal_ok_def empty_db_def)
  ultimately show ?thesis using ext by (auto simp: journal_extends_def highest_event_sequence_ok)
qed


theorem journal_append_only_witness:
  "\<exists>db'. timed_run store_step 0 empty_db 9 db' \<and> length (events db') = 1 \<and>
     highest_event_sequence db' = length (events db')"
proof -
  obtain db' r where c: "create_project 5 ''p1'' ''demo'' ''/srv'' ''ship'' empty_db = Inr (db', r)"
    by (simp add: create_project_def empty_db_def get_project_def fetch_def row_simps Let_def)
  then have e: "length (events db') = 1"
    by (auto simp: create_project_def empty_db_def append_event_def Let_def)
  have "timed_run store_step 0 empty_db 9 db'"
    by (rule run_step [where step = store_step, OF run_wait st_create_project [OF c]]) simp_all
  from journal_append_only [OF this] this e show ?thesis by blast
qed

end
