(* ===== verification/Goals.thy ===== *)
theory Goals
  imports Store_Steps
begin

text \<open>
  Autonomous goals, \<^verbatim>\<open>src/project_supervisor/autonomy.py\<close>: the human control plane \<^verbatim>\<open>GoalService\<close>
  and the transactions of \<^verbatim>\<open>AutonomousIterationEngine\<close>. Each operation is one transaction on the
  database, as in the store; a goal is returned as its row, the event cursor of \<^verbatim>\<open>_project\<close> being
  \<open>highest_event_sequence\<close>.
\<close>

section \<open>The control plane\<close>

definition get_goal :: "db \<Rightarrow> string \<Rightarrow> goal_row result" where
  "get_goal db goal_id = fetch go_id goal_id (autonomous_goals db) (KeyError goal_id)"

definition goal_event ::
    "string \<Rightarrow> event_severity \<Rightarrow> goal_row \<Rightarrow> string \<Rightarrow> (string \<times> json) list \<Rightarrow> string \<Rightarrow> event" where
  "goal_event kind severity goal summary payload actor =
     mk_event kind severity ''goal'' (go_id goal) (Some (go_project_id goal)) None None None summary payload
       actor"

definition update_goal :: "string \<Rightarrow> (goal_row \<Rightarrow> goal_row) \<Rightarrow> db \<Rightarrow> db" where
  "update_goal goal_id f db = db\<lparr>autonomous_goals := upd_by go_id goal_id f (autonomous_goals db)\<rparr>"

text \<open>\<^verbatim>\<open>updated_at=?, version=version+1\<close>\<close>

definition touch_goal :: "rat \<Rightarrow> goal_row \<Rightarrow> goal_row" where
  "touch_goal now g = g\<lparr>go_updated_at := timestamp now, go_version := go_version g + 1\<rparr>"

definition new_goal :: "rat \<Rightarrow> string \<Rightarrow> string \<Rightarrow> string \<Rightarrow> goal_budget \<Rightarrow> goal_row" where
  "new_goal now goal_id project_id intent budget =
     \<lparr>go_id = goal_id, go_project_id = project_id, go_intent = intent, go_effective_intent = intent,
      go_state = GOAL_CREATED, go_pause_mode = None, go_termination_reason = None,
      go_termination_detail = None, go_budgets = budget_to_dict budget, go_iteration_count = 0,
      go_no_progress_count = 0, go_task_count = 0, go_failure_count = 0, go_steer_version = 0,
      go_progress_fingerprint = None, go_started_at = None, go_last_evaluated_at = None,
      go_finished_at = None, go_created_at = timestamp now, go_updated_at = timestamp now,
      go_version = 1\<rparr>"

definition create_goal ::
    "rat \<Rightarrow> string \<Rightarrow> string \<Rightarrow> string \<Rightarrow> goal_budget option \<Rightarrow> string option \<Rightarrow> string \<Rightarrow> db \<Rightarrow>
     (db \<times> goal_row) result" where
  "create_goal now uuid project_id intent budgets goal_id actor db =
     bindR (raise_if (\<not> nonblank intent) (ValueError ''goal intent is required'')) (\<lambda>_.
     bindR (get_project db project_id) (\<lambda>_.
     let gid = or_default goal_id (''goal-'' @ uuid);
         budget = (case budgets of None \<Rightarrow> default_budget | Some b \<Rightarrow> b);
         goal = new_goal now gid project_id (redact_string intent) budget
     in bindR (raise_if (row_by go_id gid (autonomous_goals db) \<noteq> None)
          (IntegrityError ''autonomous_goals'')) (\<lambda>_.
        let db = append_event now (goal_event ''goalCreated'' SEV_NOTICE goal ''Autonomous goal created''
              [(''state'', JStr (goal_state_value GOAL_CREATED)), (''budgets'', JObj (budget_to_dict budget))]
              actor) (db\<lparr>autonomous_goals := autonomous_goals db @ [goal]\<rparr>)
        in bindR (get_goal db gid) (\<lambda>g. Inr (db, g)))))"

definition list_goals :: "db \<Rightarrow> string option \<Rightarrow> (goal_row \<times> nat) list" where
  "list_goals db project_id =
     map (\<lambda>g. (g, highest_event_sequence db)) (sort_key (\<lambda>g. (go_created_at g, go_id g))
       (filter (\<lambda>g. case project_id of None \<Rightarrow> True | Some p \<Rightarrow> go_project_id g = p) (autonomous_goals db)))"

definition require_mutable :: "db \<Rightarrow> string \<Rightarrow> goal_row result" where
  "require_mutable db goal_id =
     bindR (get_goal db goal_id) (\<lambda>goal.
     bindR (raise_if (go_state goal \<in> {GOAL_STOPPED, GOAL_TERMINATED})
       (ValueError ''terminal goals cannot be controlled'')) (\<lambda>_. Inr goal))"

definition pause_target :: "pause_mode \<Rightarrow> goal_state" where
  "pause_target mode = (if mode = PAUSE_SOFT then GOAL_SOFT_PAUSED else GOAL_HARD_PAUSED)"

definition pause :: "rat \<Rightarrow> string \<Rightarrow> pause_mode \<Rightarrow> string option \<Rightarrow> string \<Rightarrow> db \<Rightarrow> (db \<times> goal_row) result" where
  "pause now goal_id mode reason actor db =
     bindR (require_mutable db goal_id) (\<lambda>goal.
     if go_state goal \<in> {GOAL_SOFT_PAUSED, GOAL_HARD_PAUSED} \<and> go_state goal = pause_target mode
     then bindR (get_goal db goal_id) (\<lambda>g. Inr (db, g))
     else
       let db = update_goal goal_id
             (\<lambda>g. touch_goal now (g\<lparr>go_state := pause_target mode, go_pause_mode := Some mode\<rparr>)) db;
           db = append_event now (goal_event ''goalPaused'' SEV_NOTICE goal
             (''Goal '' @ pause_mode_value mode @ '' pause requested'')
             [(''mode'', JStr (pause_mode_value mode)), (''reason'', json_opt JStr (redact_opt reason))]
             actor) db
       in bindR (get_goal db goal_id) (\<lambda>g. Inr (db, g)))"

definition resume :: "rat \<Rightarrow> string \<Rightarrow> string option \<Rightarrow> string \<Rightarrow> db \<Rightarrow> (db \<times> goal_row) result" where
  "resume now goal_id reason actor db =
     bindR (get_goal db goal_id) (\<lambda>goal.
     bindR (raise_if (go_state goal \<notin> {GOAL_SOFT_PAUSED, GOAL_HARD_PAUSED})
       (ValueError ''only a paused goal can be resumed'')) (\<lambda>_.
     let db = update_goal goal_id
           (\<lambda>g. touch_goal now (g\<lparr>go_state := GOAL_RUNNING, go_pause_mode := None,
              go_started_at := coalesce (go_started_at g) (Some (timestamp now))\<rparr>)) db;
         db = append_event now (goal_event ''goalResumed'' SEV_NOTICE goal ''Autonomous goal resumed''
           [(''reason'', json_opt JStr (redact_opt reason))] actor) db
     in bindR (get_goal db goal_id) (\<lambda>g. Inr (db, g))))"

definition steer_insertable :: "db \<Rightarrow> steer_row \<Rightarrow> bool" where
  "steer_insertable db s \<longleftrightarrow>
     row_by sr_id (sr_id s) (autonomous_steers db) = None \<and>
     row_by (\<lambda>r. (sr_goal_id r, sr_sequence r)) (sr_goal_id s, sr_sequence s) (autonomous_steers db) = None \<and>
     0 < sr_sequence s"

definition steer ::
    "rat \<Rightarrow> string \<Rightarrow> string \<Rightarrow> string \<Rightarrow> int option \<Rightarrow> bool \<Rightarrow> string \<Rightarrow> db \<Rightarrow> (db \<times> goal_row) result" where
  "steer now uuid goal_id instruction priority preserve actor db =
     bindR (raise_if (\<not> nonblank instruction) (ValueError ''steer instruction is required'')) (\<lambda>_.
     bindR (raise_if (case priority of None \<Rightarrow> False | Some p \<Rightarrow> p < 0 \<or> 100 < p)
       (ValueError ''priority must be between 0 and 100'')) (\<lambda>_.
     bindR (require_mutable db goal_id) (\<lambda>goal.
     let sequence = go_steer_version goal + 1;
         sid = ''steer-'' @ uuid;
         safe = redact_string instruction;
         effective = go_effective_intent goal @ [char_of (10 :: nat), char_of (10 :: nat)] @
           ''Steer '' @ show_int sequence @ '': '' @ safe;
         row = \<lparr>sr_id = sid, sr_goal_id = goal_id, sr_sequence = sequence, sr_instruction = safe,
           sr_priority = priority, sr_preserve_valid_work = preserve, sr_actor = actor,
           sr_created_at = timestamp now\<rparr>
     in bindR (raise_if (\<not> steer_insertable db row) (IntegrityError ''autonomous_steers'')) (\<lambda>_.
        let db = db\<lparr>autonomous_steers := autonomous_steers db @ [row]\<rparr>;
            db = update_goal goal_id (\<lambda>g. touch_goal now
              (g\<lparr>go_effective_intent := effective, go_steer_version := sequence\<rparr>)) db;
            db = append_event now (goal_event ''goalSteered'' SEV_NOTICE goal
              ''Human steer persisted; goal requires re-evaluation''
              [(''steerID'', JStr sid), (''steerVersion'', JInt sequence), (''instruction'', JStr safe),
               (''priority'', json_opt JInt priority), (''preserveValidWork'', JBool preserve)] actor) db
        in bindR (get_goal db goal_id) (\<lambda>g. Inr (db, g))))))"

definition end_goal :: "rat \<Rightarrow> goal_state \<Rightarrow> termination_reason \<Rightarrow> string \<Rightarrow> goal_row \<Rightarrow> goal_row" where
  "end_goal now state reason detail g =
     touch_goal now (g\<lparr>go_state := state, go_pause_mode := None, go_termination_reason := Some reason,
       go_termination_detail := Some detail, go_finished_at := Some (timestamp now)\<rparr>)"

definition stop :: "rat \<Rightarrow> string \<Rightarrow> string \<Rightarrow> string \<Rightarrow> db \<Rightarrow> (db \<times> goal_row) result" where
  "stop now goal_id reason actor db =
     bindR (raise_if (\<not> nonblank reason) (ValueError ''stop reason is required'')) (\<lambda>_.
     bindR (require_mutable db goal_id) (\<lambda>goal.
     let safe = redact_string reason;
         db = update_goal goal_id (end_goal now GOAL_STOPPED TERM_USER_STOPPED safe) db;
         db = append_event now (goal_event ''goalStopped'' SEV_WARNING goal
           ''Goal intentionally stopped by user'' [(''reason'', JStr safe)] actor) db
     in bindR (get_goal db goal_id) (\<lambda>g. Inr (db, g))))"

section \<open>Transactions of the engine\<close>

definition iteration_event ::
    "string \<Rightarrow> event_severity \<Rightarrow> string \<Rightarrow> goal_row \<Rightarrow> string \<Rightarrow> (string \<times> json) list \<Rightarrow> string \<Rightarrow> event" where
  "iteration_event kind severity iteration_id goal summary payload actor =
     mk_event kind severity ''goalIteration'' iteration_id (Some (go_project_id goal)) None None None summary
       payload actor"

definition update_iteration :: "string \<Rightarrow> (iteration_row \<Rightarrow> iteration_row) \<Rightarrow> db \<Rightarrow> db" where
  "update_iteration iteration_id f db =
     db\<lparr>autonomous_iterations := upd_by it_id iteration_id f (autonomous_iterations db)\<rparr>"

definition get_iteration :: "db \<Rightarrow> string \<Rightarrow> iteration_row result" where
  "get_iteration db iteration_id =
     fetch it_id iteration_id (autonomous_iterations db) (KeyError iteration_id)"

definition iteration_open :: "iteration_row \<Rightarrow> bool" where
  "iteration_open i \<longleftrightarrow> it_state i \<notin> {''completed'', ''interrupted''}"

definition active_iteration :: "db \<Rightarrow> string \<Rightarrow> iteration_row option" where
  "active_iteration db goal_id =
     list_last (sort_key it_sequence (filter (\<lambda>i. it_goal_id i = goal_id \<and> iteration_open i)
       (autonomous_iterations db)))"

definition list_actions :: "db \<Rightarrow> string \<Rightarrow> action_row list" where
  "list_actions db iteration_id =
     sort_key ac_ordinal (filter (\<lambda>a. ac_iteration_id a = iteration_id) (autonomous_actions db))"

definition start_goal :: "rat \<Rightarrow> string \<Rightarrow> db \<Rightarrow> (db \<times> unit) result" where
  "start_goal now goal_id db =
     bindR (get_goal db goal_id) (\<lambda>goal.
     if go_state goal \<noteq> GOAL_CREATED then Inr (db, ())
     else Inr (append_event now (goal_event ''goalStarted'' SEV_NOTICE goal
           ''Autonomous iteration loop started'' [(''state'', JStr (goal_state_value GOAL_RUNNING))]
           ''autonomy'')
         (update_goal goal_id (\<lambda>g. touch_goal now (g\<lparr>go_state := GOAL_RUNNING,
            go_started_at := Some (timestamp now)\<rparr>)) db), ()))"

definition new_iteration :: "rat \<Rightarrow> string \<Rightarrow> string \<Rightarrow> int \<Rightarrow> iteration_row" where
  "new_iteration now iteration_id goal_id sequence =
     \<lparr>it_id = iteration_id, it_goal_id = goal_id, it_sequence = sequence, it_state = ''evaluating'',
      it_evaluation = None, it_plan = None, it_verification = None, it_progress_fingerprint = None,
      it_started_at = timestamp now, it_updated_at = timestamp now, it_completed_at = None\<rparr>"

definition begin_iteration :: "rat \<Rightarrow> string \<Rightarrow> string \<Rightarrow> db \<Rightarrow> (db \<times> iteration_row) result" where
  "begin_iteration now uuid goal_id db =
     bindR (get_goal db goal_id) (\<lambda>goal.
     let sequence = go_iteration_count goal + 1; iid = ''iter-'' @ uuid in
     bindR (raise_if (row_by it_id iid (autonomous_iterations db) \<noteq> None \<or> sequence \<le> 0 \<or>
         list_ex (\<lambda>i. it_goal_id i = goal_id \<and> it_sequence i = sequence) (autonomous_iterations db))
       (IntegrityError ''autonomous_iterations'')) (\<lambda>_.
     let db = db\<lparr>autonomous_iterations := autonomous_iterations db @ [new_iteration now iid goal_id sequence]\<rparr>;
         db = update_goal goal_id (\<lambda>g. touch_goal now (g\<lparr>go_iteration_count := sequence\<rparr>)) db;
         db = append_event now (iteration_event ''goalIterationStarted'' SEV_INFO iid goal
           (''Autonomous goal iteration '' @ show_int sequence @ '' started'')
           [(''goalID'', JStr goal_id), (''sequence'', JInt sequence)] ''autonomy'') db
     in bindR (get_iteration db iid) (\<lambda>i. Inr (db, i))))"

text \<open>The fence of every decision: a phase decided under an older steer version is interrupted.\<close>

definition close_iteration :: "rat \<Rightarrow> string \<Rightarrow> string \<Rightarrow> db \<Rightarrow> db" where
  "close_iteration now iteration_id state db =
     update_iteration iteration_id (\<lambda>i. i\<lparr>it_state := state, it_completed_at := Some (timestamp now),
       it_updated_at := timestamp now\<rparr>) db"

definition interrupt_phase :: "rat \<Rightarrow> goal_row \<Rightarrow> string \<Rightarrow> int \<Rightarrow> db \<Rightarrow> db" where
  "interrupt_phase now goal iteration_id observed db =
     append_event now (iteration_event ''goalSteerReevaluationScheduled'' SEV_NOTICE iteration_id goal
         ''In-flight autonomy decision became stale after human steer''
         [(''observedSteerVersion'', JInt observed), (''currentSteerVersion'', JInt (go_steer_version goal)),
          (''preservedCanonicalWork'', JBool True)] ''autonomy'')
       (close_iteration now iteration_id ''interrupted'' db)"

text \<open>Runs a decision's transaction body if the phase is current; returns whether it was.\<close>

definition if_phase_current ::
    "rat \<Rightarrow> goal_row \<Rightarrow> string \<Rightarrow> int \<Rightarrow> (db \<Rightarrow> (db \<times> bool) result) \<Rightarrow> db \<Rightarrow> (db \<times> bool) result" where
  "if_phase_current now goal iteration_id expected body db =
     (if go_steer_version goal = expected then body db
      else Inr (interrupt_phase now goal iteration_id expected db, False))"

definition phase_is_current :: "rat \<Rightarrow> string \<Rightarrow> string \<Rightarrow> int \<Rightarrow> db \<Rightarrow> (db \<times> bool) result" where
  "phase_is_current now goal_id iteration_id expected db =
     bindR (get_goal db goal_id) (\<lambda>goal.
     if_phase_current now goal iteration_id expected (\<lambda>db. Inr (db, True)) db)"

definition evaluation_payload :: "goal_evaluation \<Rightarrow> int \<Rightarrow> (string \<times> json) list" where
  "evaluation_payload e expected =
     redact_dict (evaluation_to_dict e) @ [(''steerVersion'', JInt expected)]"

definition record_evaluation ::
    "rat \<Rightarrow> string \<Rightarrow> goal_evaluation \<Rightarrow> int \<Rightarrow> db \<Rightarrow> (db \<times> bool) result" where
  "record_evaluation now iteration_id e expected db =
     bindR (get_iteration db iteration_id) (\<lambda>iteration.
     bindR (get_goal db (it_goal_id iteration)) (\<lambda>goal.
     if_phase_current now goal iteration_id expected (\<lambda>db.
       let repeated = (go_progress_fingerprint goal = Some (ge_progress_fingerprint e));
           no_progress = (if repeated then go_no_progress_count goal + 1 else 0);
           payload = evaluation_payload e expected;
           db = update_iteration iteration_id (\<lambda>i. i\<lparr>it_evaluation := Some payload,
             it_progress_fingerprint := Some (ge_progress_fingerprint e),
             it_updated_at := timestamp now\<rparr>) db;
           db = update_goal (go_id goal) (\<lambda>g. touch_goal now
             (g\<lparr>go_progress_fingerprint := Some (ge_progress_fingerprint e),
                go_no_progress_count := no_progress, go_last_evaluated_at := Some (timestamp now)\<rparr>)) db
       in Inr (append_event now (iteration_event ''goalEvaluated'' SEV_INFO iteration_id goal
            (redact_string (ge_summary e)) payload ''evaluator'') db, True)) db))"

definition new_action ::
    "rat \<Rightarrow> (string \<Rightarrow> string) \<Rightarrow> string \<Rightarrow> string \<Rightarrow> nat \<Rightarrow> planned_action \<Rightarrow> action_row" where
  "new_action now uuid5 goal_id iteration_id ordinal a =
     \<lparr>ac_id = ''act-'' @ uuid5 (iteration_id @ '':'' @ pa_key a), ac_goal_id = goal_id,
      ac_iteration_id = iteration_id, ac_ordinal = int ordinal, ac_action_key = pa_key a,
      ac_title = redact_string (pa_title a), ac_description = redact_string (pa_description a),
      ac_role = pa_role a, ac_payload = redact_json (pa_payload a), ac_state = ACT_PLANNED,
      ac_task_id = None, ac_dispatch_ref = None, ac_result = None, ac_error = None,
      ac_created_at = timestamp now, ac_updated_at = timestamp now\<rparr>"

definition new_actions ::
    "rat \<Rightarrow> (string \<Rightarrow> string) \<Rightarrow> string \<Rightarrow> string \<Rightarrow> goal_plan \<Rightarrow> action_row list" where
  "new_actions now uuid5 goal_id iteration_id plan =
     map (\<lambda>(n, a). new_action now uuid5 goal_id iteration_id n a) (enumerate 0 (gp_actions plan))"

definition actions_insertable :: "db \<Rightarrow> action_row list \<Rightarrow> bool" where
  "actions_insertable db new \<longleftrightarrow>
     distinct (map ac_id (autonomous_actions db @ new)) \<and>
     distinct (map (\<lambda>a. (ac_iteration_id a, ac_action_key a)) (autonomous_actions db @ new)) \<and>
     distinct (map (\<lambda>a. (ac_iteration_id a, ac_ordinal a)) (autonomous_actions db @ new)) \<and>
     list_all (\<lambda>a. row_by it_id (ac_iteration_id a) (autonomous_iterations db) \<noteq> None) new"

definition record_plan ::
    "rat \<Rightarrow> (string \<Rightarrow> string) \<Rightarrow> string \<Rightarrow> string \<Rightarrow> goal_plan \<Rightarrow> int \<Rightarrow> db \<Rightarrow> (db \<times> bool) result" where
  "record_plan now uuid5 iteration_id goal_id plan expected db =
     bindR (raise_if (\<not> distinct (map pa_key (gp_actions plan)))
       (ValueError ''planned action keys must be unique'')) (\<lambda>_.
     let safe = redact_dict (plan_to_dict plan) in
     bindR (get_goal db goal_id) (\<lambda>goal.
     if_phase_current now goal iteration_id expected (\<lambda>db.
       let new = new_actions now uuid5 goal_id iteration_id plan in
       bindR (raise_if (\<not> actions_insertable db new) (IntegrityError ''autonomous_actions'')) (\<lambda>_.
       let db = update_iteration iteration_id (\<lambda>i. i\<lparr>it_state := ''planned'', it_plan := Some safe,
             it_updated_at := timestamp now\<rparr>) db;
           db = db\<lparr>autonomous_actions := autonomous_actions db @ new\<rparr>;
           db = update_goal goal_id (\<lambda>g. touch_goal now
             (g\<lparr>go_task_count := go_task_count g + int (length (gp_actions plan))\<rparr>)) db
       in Inr (append_event now (iteration_event ''goalPlanCreated'' SEV_INFO iteration_id goal
            (redact_string (gp_summary plan)) safe ''planner'') db, True))) db))"

definition verification_payload :: "goal_verification \<Rightarrow> int \<Rightarrow> (string \<times> json) list" where
  "verification_payload v expected =
     redact_dict (verification_to_dict v) @ [(''steerVersion'', JInt expected)]"

definition record_goal_verification ::
    "rat \<Rightarrow> string \<Rightarrow> goal_verification \<Rightarrow> int \<Rightarrow> db \<Rightarrow> (db \<times> bool) result" where
  "record_goal_verification now iteration_id v expected db =
     bindR (get_iteration db iteration_id) (\<lambda>iteration.
     bindR (get_goal db (it_goal_id iteration)) (\<lambda>goal.
     if_phase_current now goal iteration_id expected (\<lambda>db.
       let safe = verification_payload v expected;
           db = update_iteration iteration_id (\<lambda>i. i\<lparr>it_verification := Some safe,
             it_updated_at := timestamp now\<rparr>) db
       in Inr (append_event now (iteration_event ''goalVerified''
            (if gv_satisfied v then SEV_NOTICE else SEV_WARNING) iteration_id goal
            (redact_string (gv_summary v)) safe ''verifier'') db, True)) db))"

definition complete_replan ::
    "rat \<Rightarrow> string \<Rightarrow> string \<Rightarrow> goal_verification \<Rightarrow> int \<Rightarrow> db \<Rightarrow> (db \<times> unit) result" where
  "complete_replan now goal_id iteration_id v failed db =
     bindR (get_goal db goal_id) (\<lambda>goal.
     let repeated = (go_progress_fingerprint goal = Some (gv_progress_fingerprint v));
         no_progress = (if repeated then go_no_progress_count goal else 0);
         db = update_goal goal_id (\<lambda>g. touch_goal now
           (g\<lparr>go_progress_fingerprint := Some (gv_progress_fingerprint v),
              go_no_progress_count := no_progress, go_failure_count := go_failure_count g + failed\<rparr>)) db;
         db = update_iteration iteration_id (\<lambda>i. i\<lparr>it_state := ''replanning'',
           it_updated_at := timestamp now\<rparr>) db
     in Inr (append_event now (iteration_event ''goalReplanRequired'' SEV_NOTICE iteration_id goal
          ''Goal remains incomplete; next evaluation required''
          [(''progressFingerprint'', JStr (gv_progress_fingerprint v)), (''failedActions'', JInt failed)]
          ''autonomy'') db, ()))"

definition terminated_event :: "goal_row \<Rightarrow> termination_reason \<Rightarrow> string \<Rightarrow> event" where
  "terminated_event goal reason detail =
     goal_event ''goalTerminated'' (if reason = TERM_SUCCESS then SEV_NOTICE else SEV_WARNING) goal
       (''Autonomous goal terminated: '' @ termination_reason_value reason)
       [(''reason'', JStr (termination_reason_value reason)), (''detail'', JStr detail)] ''autonomy''"

definition terminate :: "rat \<Rightarrow> string \<Rightarrow> termination_reason \<Rightarrow> string \<Rightarrow> db \<Rightarrow> (db \<times> goal_row) result" where
  "terminate now goal_id reason detail db =
     bindR (get_goal db goal_id) (\<lambda>goal.
     if go_state goal \<in> {GOAL_TERMINATED, GOAL_STOPPED} then Inr (db, goal)
     else
       let safe = redact_string detail;
           db = append_event now (terminated_event goal reason safe)
             (update_goal goal_id (end_goal now GOAL_TERMINATED reason safe) db)
       in bindR (get_goal db goal_id) (\<lambda>g. Inr (db, g)))"

definition terminate_phase_if_current ::
    "rat \<Rightarrow> string \<Rightarrow> string \<Rightarrow> termination_reason \<Rightarrow> string \<Rightarrow> int \<Rightarrow> db \<Rightarrow> (db \<times> bool) result" where
  "terminate_phase_if_current now goal_id iteration_id reason detail expected db =
     bindR (get_goal db goal_id) (\<lambda>goal.
     if_phase_current now goal iteration_id expected (\<lambda>db.
       if go_state goal \<in> {GOAL_TERMINATED, GOAL_STOPPED} then Inr (db, True)
       else
         let safe = redact_string detail in
         Inr (append_event now (terminated_event goal reason safe)
           (close_iteration now iteration_id ''completed''
             (update_goal goal_id (end_goal now GOAL_TERMINATED reason safe) db)), True)) db)"

definition interrupt_for_steer :: "rat \<Rightarrow> string \<Rightarrow> string \<Rightarrow> int \<Rightarrow> db \<Rightarrow> (db \<times> unit) result" where
  "interrupt_for_steer now goal_id iteration_id observed db =
     bindR (get_goal db goal_id) (\<lambda>goal. Inr (interrupt_phase now goal iteration_id observed db, ()))"

definition set_iteration_state :: "rat \<Rightarrow> string \<Rightarrow> string \<Rightarrow> db \<Rightarrow> (db \<times> unit) result" where
  "set_iteration_state now iteration_id state db =
     Inr (update_iteration iteration_id (\<lambda>i. i\<lparr>it_state := state, it_updated_at := timestamp now\<rparr>) db, ())"

definition finish_iteration :: "rat \<Rightarrow> string \<Rightarrow> string \<Rightarrow> db \<Rightarrow> (db \<times> unit) result" where
  "finish_iteration now iteration_id state db = Inr (close_iteration now iteration_id state db, ())"

definition update_action ::
    "rat \<Rightarrow> action_state \<Rightarrow> dispatch_handle option \<Rightarrow> action_result option \<Rightarrow> string option \<Rightarrow> action_row \<Rightarrow>
     action_row" where
  "update_action now state handle res error a =
     a\<lparr>ac_state := state, ac_task_id := coalesce (Option.bind handle dh_task_id) (ac_task_id a),
       ac_dispatch_ref := coalesce (map_option handle_to_dict handle) (ac_dispatch_ref a),
       ac_result := coalesce (map_option result_to_dict res) (ac_result a),
       ac_error := coalesce error (ac_error a), ac_updated_at := timestamp now\<rparr>"

definition set_action ::
    "rat \<Rightarrow> string \<Rightarrow> action_state \<Rightarrow> dispatch_handle option \<Rightarrow> action_result option \<Rightarrow> string option \<Rightarrow> db \<Rightarrow>
     (db \<times> unit) result" where
  "set_action now action_id state handle res error db =
     bindR (fetch ac_id action_id (autonomous_actions db) (KeyError action_id)) (\<lambda>row.
     bindR (raise_if (\<not> references tk_id (tasks db) (Option.bind handle dh_task_id))
       (IntegrityError ''autonomous_actions'')) (\<lambda>_.
     bindR (get_goal db (ac_goal_id row)) (\<lambda>goal.
     Inr (append_event now (mk_event ''goalActionStateChanged''
          (if state \<noteq> ACT_FAILED then SEV_INFO else SEV_WARNING) ''goalAction'' action_id
          (Some (go_project_id goal))
          (case handle of None \<Rightarrow> ac_task_id row | Some h \<Rightarrow> dh_task_id h) None None
          (''Goal action entered '' @ action_state_value state)
          [(''state'', JStr (action_state_value state)), (''error'', json_opt JStr error)] ''autonomy'')
        (db\<lparr>autonomous_actions := upd_by ac_id action_id (update_action now state handle res error)
           (autonomous_actions db)\<rparr>), ()))))"

definition journal_goal ::
    "rat \<Rightarrow> string \<Rightarrow> string \<Rightarrow> string \<Rightarrow> (string \<times> json) list \<Rightarrow> db \<Rightarrow> (db \<times> unit) result" where
  "journal_goal now goal_id kind summary payload db =
     bindR (get_goal db goal_id) (\<lambda>goal.
     Inr (append_event now (goal_event kind SEV_NOTICE goal summary (redact_dict payload) ''autonomy'') db, ()))"

section \<open>Steps of a goal\<close>

text \<open>Every transaction on goals: those of a person and those of an engine.\<close>

inductive goal_step :: "rat \<Rightarrow> db \<Rightarrow> db \<Rightarrow> bool" for now db db' where
  gs_create: "create_goal now uuid pid intent budgets ogid actor db = Inr (db', r1) \<Longrightarrow> goal_step now db db'"
| gs_pause: "pause now gid mode reason actor db = Inr (db', r2) \<Longrightarrow> goal_step now db db'"
| gs_resume: "resume now gid reason actor db = Inr (db', r3) \<Longrightarrow> goal_step now db db'"
| gs_steer: "steer now uuid gid instr prio keep actor db = Inr (db', r4) \<Longrightarrow> goal_step now db db'"
| gs_stop: "stop now gid why actor db = Inr (db', r5) \<Longrightarrow> goal_step now db db'"
| gs_start: "start_goal now gid db = Inr (db', u1) \<Longrightarrow> goal_step now db db'"
| gs_begin: "begin_iteration now uuid gid db = Inr (db', r6) \<Longrightarrow> goal_step now db db'"
| gs_current: "phase_is_current now gid iid ver db = Inr (db', b1) \<Longrightarrow> goal_step now db db'"
| gs_evaluation: "record_evaluation now iid ev ver db = Inr (db', b2) \<Longrightarrow> goal_step now db db'"
| gs_plan: "record_plan now u5 iid gid plan ver db = Inr (db', b3) \<Longrightarrow> goal_step now db db'"
| gs_verification: "record_goal_verification now iid vf ver db = Inr (db', b4) \<Longrightarrow> goal_step now db db'"
| gs_replan: "0 \<le> n \<Longrightarrow> complete_replan now gid iid vf n db = Inr (db', u2) \<Longrightarrow> goal_step now db db'"
| gs_terminate: "terminate now gid trm detail db = Inr (db', r7) \<Longrightarrow> goal_step now db db'"
| gs_terminate_phase: "terminate_phase_if_current now gid iid trm detail ver db = Inr (db', b5) \<Longrightarrow>
    goal_step now db db'"
| gs_interrupt: "interrupt_for_steer now gid iid ver db = Inr (db', u3) \<Longrightarrow> goal_step now db db'"
| gs_iteration_state: "set_iteration_state now iid ist db = Inr (db', u4) \<Longrightarrow> goal_step now db db'"
| gs_finish: "finish_iteration now iid ist db = Inr (db', u5) \<Longrightarrow> goal_step now db db'"
| gs_action: "set_action now aid ast handle ares err db = Inr (db', u6) \<Longrightarrow> goal_step now db db'"
| gs_journal: "journal_goal now gid kind summary payload db = Inr (db', u7) \<Longrightarrow> goal_step now db db'"

text \<open>
  What a step does to one goal: nothing, or one of these changes of its row; human control goes
  through a goal that is not terminal.
\<close>

definition goal_ended :: "goal_row \<Rightarrow> bool" where
  "goal_ended g \<longleftrightarrow> go_state g \<in> {GOAL_STOPPED, GOAL_TERMINATED}"

text \<open>What no transaction may change once a goal has ended.\<close>

definition goal_outcome :: "goal_row \<Rightarrow> _" where
  "goal_outcome g = (go_state g, go_termination_reason g, go_termination_detail g, go_finished_at g,
     go_intent g, go_effective_intent g, go_steer_version g, go_budgets g)"

definition goal_follows :: "goal_row \<Rightarrow> goal_row \<Rightarrow> bool" where
  "goal_follows g g' \<longleftrightarrow>
     go_budgets g' = go_budgets g \<and> go_project_id g' = go_project_id g \<and>
     go_steer_version g \<le> go_steer_version g' \<and> go_iteration_count g \<le> go_iteration_count g' \<and>
     go_version g \<le> go_version g' \<and>
     (go_state g' = GOAL_CREATED \<longrightarrow> go_state g = GOAL_CREATED) \<and>
     (goal_ended g \<longrightarrow> goal_outcome g' = goal_outcome g)"

definition goals_kept :: "goal_row list \<Rightarrow> goal_row list \<Rightarrow> bool" where
  "goals_kept gs gs' \<longleftrightarrow>
     (\<forall>gid g. row_by go_id gid gs = Some g \<longrightarrow> (\<exists>g'. row_by go_id gid gs' = Some g' \<and> goal_follows g g'))"

lemma touch_goal_simps [simp]:
  "go_id (touch_goal now g) = go_id g" "go_state (touch_goal now g) = go_state g"
  "go_project_id (touch_goal now g) = go_project_id g" "go_budgets (touch_goal now g) = go_budgets g"
  "go_steer_version (touch_goal now g) = go_steer_version g"
  "go_iteration_count (touch_goal now g) = go_iteration_count g"
  "go_task_count (touch_goal now g) = go_task_count g"
  "go_version (touch_goal now g) = go_version g + 1"
  "goal_outcome (touch_goal now g) = goal_outcome g"
  "goal_ended (touch_goal now g) = goal_ended g"
  by (simp_all add: touch_goal_def goal_outcome_def goal_ended_def)

lemma update_goal_simps [simp]:
  "autonomous_goals (update_goal gid f db) = upd_by go_id gid f (autonomous_goals db)"
  "autonomous_iterations (update_goal gid f db) = autonomous_iterations db"
  "autonomous_actions (update_goal gid f db) = autonomous_actions db"
  "autonomous_steers (update_goal gid f db) = autonomous_steers db"
  "tasks (update_goal gid f db) = tasks db" "worker_runs (update_goal gid f db) = worker_runs db"
  "journal_extends d (update_goal gid f db) = journal_extends d db"
  by (simp_all add: update_goal_def)

lemma update_iteration_simps [simp]:
  "autonomous_goals (update_iteration iid f db) = autonomous_goals db"
  "autonomous_iterations (update_iteration iid f db) = upd_by it_id iid f (autonomous_iterations db)"
  "autonomous_actions (update_iteration iid f db) = autonomous_actions db"
  "autonomous_steers (update_iteration iid f db) = autonomous_steers db"
  "tasks (update_iteration iid f db) = tasks db" "worker_runs (update_iteration iid f db) = worker_runs db"
  "journal_extends d (update_iteration iid f db) = journal_extends d db"
  by (simp_all add: update_iteration_def)

lemma close_iteration_simps [simp]:
  "autonomous_goals (close_iteration now iid st db) = autonomous_goals db"
  "autonomous_actions (close_iteration now iid st db) = autonomous_actions db"
  "autonomous_steers (close_iteration now iid st db) = autonomous_steers db"
  "tasks (close_iteration now iid st db) = tasks db" "worker_runs (close_iteration now iid st db) = worker_runs db"
  "journal_extends d (close_iteration now iid st db) = journal_extends d db"
  by (simp_all add: close_iteration_def)

lemma interrupt_phase_simps [simp]:
  "autonomous_goals (interrupt_phase now g iid ob db) = autonomous_goals db"
  "autonomous_actions (interrupt_phase now g iid ob db) = autonomous_actions db"
  "autonomous_steers (interrupt_phase now g iid ob db) = autonomous_steers db"
  "tasks (interrupt_phase now g iid ob db) = tasks db" "worker_runs (interrupt_phase now g iid ob db) = worker_runs db"
  "journal_extends d db \<Longrightarrow> journal_extends d (interrupt_phase now g iid ob db)"
  by (simp_all add: interrupt_phase_def)

lemma goal_follows_refl [simp]: "goal_follows g g"
  by (simp add: goal_follows_def)

lemma goal_follows_trans:
  assumes ab: "goal_follows a b" and bc: "goal_follows b c"
  shows "goal_follows a c"
proof -
  have "goal_outcome c = goal_outcome a" if "goal_ended a"
  proof -
    have "goal_outcome b = goal_outcome a" using ab that by (simp add: goal_follows_def)
    moreover from this that have "goal_ended b" by (simp add: goal_outcome_def goal_ended_def)
    ultimately show ?thesis using bc by (simp add: goal_follows_def)
  qed
  then show ?thesis using ab bc unfolding goal_follows_def by (elim conjE, intro conjI) simp_all
qed

lemma goals_kept_refl [simp]: "goals_kept gs gs"
  by (simp add: goals_kept_def)

lemma goals_kept_snoc [simp]: "goals_kept gs (gs @ [g])"
  by (simp add: goals_kept_def row_simps)

lemma goals_kept_upd [simp]:
  "row_by go_id gid gs = Some g \<Longrightarrow> (\<And>x. go_id (f x) = go_id x) \<Longrightarrow> goal_follows g (f g) \<Longrightarrow>
   goals_kept gs (upd_by go_id gid f gs)"
  by (auto simp: goals_kept_def row_by_upd_by)

lemma get_goal_Inr_iff [simp]: "get_goal db gid = Inr g \<longleftrightarrow> row_by go_id gid (autonomous_goals db) = Some g"
  by (simp add: get_goal_def)

lemma require_mutable_Inr_iff [simp]:
  "require_mutable db gid = Inr g \<longleftrightarrow> row_by go_id gid (autonomous_goals db) = Some g \<and> \<not> goal_ended g"
  by (auto simp: require_mutable_def goal_ended_def)

lemmas follows_simps = goal_follows_def goal_ended_def goal_outcome_def touch_goal_def end_goal_def

lemma goals_kept_create:
  "create_goal now uuid pid intent budgets ogid actor db = Inr (db', r) \<Longrightarrow>
   goals_kept (autonomous_goals db) (autonomous_goals db')"
  by (auto simp: create_goal_def Let_def)

lemma goals_kept_pause:
  "pause now gid mode reason actor db = Inr (db', r) \<Longrightarrow>
   goals_kept (autonomous_goals db) (autonomous_goals db')"
  by (auto simp: pause_def Let_def pause_target_def follows_simps split: if_split_asm)

lemma goals_kept_resume:
  "resume now gid reason actor db = Inr (db', r) \<Longrightarrow>
   goals_kept (autonomous_goals db) (autonomous_goals db')"
  by (auto simp: resume_def Let_def follows_simps)

lemma goals_kept_steer:
  "steer now uuid gid instr prio keep actor db = Inr (db', r) \<Longrightarrow>
   goals_kept (autonomous_goals db) (autonomous_goals db')"
  by (auto simp: steer_def Let_def follows_simps)

lemma goals_kept_stop:
  "stop now gid why actor db = Inr (db', r) \<Longrightarrow>
   goals_kept (autonomous_goals db) (autonomous_goals db')"
  by (auto simp: stop_def Let_def follows_simps)

lemma goals_kept_start:
  "start_goal now gid db = Inr (db', r) \<Longrightarrow> goals_kept (autonomous_goals db) (autonomous_goals db')"
  by (auto simp: start_goal_def follows_simps split: if_split_asm)

lemma goals_kept_begin:
  "begin_iteration now uuid gid db = Inr (db', r) \<Longrightarrow> goals_kept (autonomous_goals db) (autonomous_goals db')"
  by (auto simp: begin_iteration_def Let_def follows_simps)

text \<open>The fence either runs the body or touches only the iteration and the journal.\<close>

lemma if_phase_currentE:
  assumes "if_phase_current now goal iid ver body db = Inr (db', b)"
  obtains (current) "go_steer_version goal = ver" "body db = Inr (db', b)"
    | (stale) "go_steer_version goal \<noteq> ver" "db' = interrupt_phase now goal iid ver db" "\<not> b"
  using assms by (auto simp: if_phase_current_def split: if_split_asm)

lemma goals_kept_phase:
  "phase_is_current now gid iid ver db = Inr (db', b) \<Longrightarrow>
   goals_kept (autonomous_goals db) (autonomous_goals db')"
  by (auto simp: phase_is_current_def elim!: if_phase_currentE)

lemma goals_kept_evaluation:
  assumes "record_evaluation now iid ev ver db = Inr (db', b)"
  shows "goals_kept (autonomous_goals db) (autonomous_goals db')"
proof -
  obtain it g where it: "get_iteration db iid = Inr it"
    and g: "row_by go_id (it_goal_id it) (autonomous_goals db) = Some g"
    using assms by (auto simp: record_evaluation_def)
  show ?thesis using assms g row_by_key [OF g]
    by (auto simp: record_evaluation_def it follows_simps Let_def elim!: if_phase_currentE)
qed

lemma goals_kept_plan:
  "record_plan now u5 iid gid plan ver db = Inr (db', b) \<Longrightarrow>
   goals_kept (autonomous_goals db) (autonomous_goals db')"
  by (auto simp: record_plan_def follows_simps Let_def elim!: if_phase_currentE)

lemma goals_kept_verification:
  "record_goal_verification now iid vf ver db = Inr (db', b) \<Longrightarrow>
   goals_kept (autonomous_goals db) (autonomous_goals db')"
  by (auto simp: record_goal_verification_def Let_def elim!: if_phase_currentE)

lemma goals_kept_replan:
  "complete_replan now gid iid vf n db = Inr (db', u) \<Longrightarrow>
   goals_kept (autonomous_goals db) (autonomous_goals db')"
  by (auto simp: complete_replan_def Let_def follows_simps)

lemma goals_kept_terminate:
  "terminate now gid trm detail db = Inr (db', r) \<Longrightarrow>
   goals_kept (autonomous_goals db) (autonomous_goals db')"
  by (auto simp: terminate_def Let_def follows_simps split: if_split_asm)

lemma goals_kept_terminate_phase:
  "terminate_phase_if_current now gid iid trm detail ver db = Inr (db', b) \<Longrightarrow>
   goals_kept (autonomous_goals db) (autonomous_goals db')"
  by (auto simp: terminate_phase_if_current_def Let_def follows_simps elim!: if_phase_currentE
      split: if_split_asm)

lemma goals_kept_rest:
  "interrupt_for_steer now gid iid ver db = Inr (db', u3) \<Longrightarrow> goals_kept (autonomous_goals db) (autonomous_goals db')"
  "set_iteration_state now iid ist db = Inr (db', u4) \<Longrightarrow> goals_kept (autonomous_goals db) (autonomous_goals db')"
  "finish_iteration now iid ist db = Inr (db', u5) \<Longrightarrow> goals_kept (autonomous_goals db) (autonomous_goals db')"
  "set_action now aid ast handle ares err db = Inr (db', u6) \<Longrightarrow>
     goals_kept (autonomous_goals db) (autonomous_goals db')"
  "journal_goal now gid kind summary payload db = Inr (db', u7) \<Longrightarrow>
     goals_kept (autonomous_goals db) (autonomous_goals db')"
  by (auto simp: interrupt_for_steer_def set_iteration_state_def finish_iteration_def set_action_def
      journal_goal_def)

lemma goals_kept_step: "goal_step now db db' \<Longrightarrow> goals_kept (autonomous_goals db) (autonomous_goals db')"
  by (induction rule: goal_step.induct)
    (erule goals_kept_create goals_kept_pause goals_kept_resume goals_kept_steer goals_kept_stop
      goals_kept_start goals_kept_begin goals_kept_phase goals_kept_evaluation goals_kept_plan
      goals_kept_verification goals_kept_replan goals_kept_terminate goals_kept_terminate_phase
      goals_kept_rest)+

lemma goals_kept_run:
  assumes "timed_run goal_step t db t' db'" and "row_by go_id gid (autonomous_goals db) = Some g"
  shows "\<exists>g'. row_by go_id gid (autonomous_goals db') = Some g' \<and> goal_follows g g'"
  using assms
proof (induction rule: timed_run.induct)
  case (run_step t d t1 d1 d2 t2)
  then show ?case using goals_kept_step [OF run_step.hyps(2)] unfolding goals_kept_def
    by (meson goal_follows_trans)
qed simp


section \<open>The counters of a goal\<close>

text \<open>
  The steers and iterations recorded for a goal by their sequence numbers, and the number of its
  actions; and what the counters in the goal's row promise about them.
\<close>

definition goal_records :: "db \<Rightarrow> string \<Rightarrow> int list \<times> int list \<times> int" where
  "goal_records db gid =
     (map sr_sequence (filter (\<lambda>s. sr_goal_id s = gid) (autonomous_steers db)),
      map it_sequence (filter (\<lambda>i. it_goal_id i = gid) (autonomous_iterations db)),
      int (length (filter (\<lambda>a. ac_goal_id a = gid) (autonomous_actions db))))"

definition goal_counters :: "goal_row option \<Rightarrow> int list \<times> int list \<times> int" where
  "goal_counters r = (case r of
     None \<Rightarrow> ([], [], 0)
   | Some g \<Rightarrow> ([1..go_steer_version g], [1..go_iteration_count g], go_task_count g))"

definition goals_consistent :: "db \<Rightarrow> bool" where
  "goals_consistent db \<longleftrightarrow>
     unique_key go_id (autonomous_goals db) \<and>
     (\<forall>gid. goal_records db gid = goal_counters (row_by go_id gid (autonomous_goals db)))"

lemma filter_map_upd_by:
  assumes "\<And>x. key x = k \<Longrightarrow> h (f x) = h x" and "\<And>x. key x = k \<Longrightarrow> g (f x) = g x"
  shows "map g (filter (\<lambda>x. h x = v) (upd_by key k f xs)) = map g (filter (\<lambda>x. h x = v) xs)"
  using assms by (induction xs) (auto simp: row_simps)

lemma goal_counters_upd:
  assumes "\<And>x. go_id (f x) = go_id x"
    and "\<And>x. go_steer_version (f x) = go_steer_version x \<and> go_iteration_count (f x) = go_iteration_count x \<and>
       go_task_count (f x) = go_task_count x"
  shows "goal_counters (row_by go_id k (upd_by go_id gid f gs)) = goal_counters (row_by go_id k gs)"
  using assms by (auto simp: row_by_upd_by goal_counters_def split: option.split)

text \<open>Updates that touch no counter and no identity keep the records of a goal.\<close>

lemma goal_records_simps [simp]:
  "goal_records (append_event now e db) gid = goal_records db gid"
  "goal_records (update_goal g f db) gid = goal_records db gid"
  by (simp_all add: goal_records_def)

lemma goal_records_update_iteration [simp]:
  assumes "\<And>i. it_goal_id (f i) = it_goal_id i" "\<And>i. it_sequence (f i) = it_sequence i"
  shows "goal_records (update_iteration iid f db) gid = goal_records db gid"
  using assms by (simp add: goal_records_def filter_map_upd_by)

lemma goal_records_close [simp]: "goal_records (close_iteration now iid st db) gid = goal_records db gid"
  by (simp add: close_iteration_def)

lemma goal_records_interrupt [simp]: "goal_records (interrupt_phase now g iid ob db) gid = goal_records db gid"
  by (simp add: interrupt_phase_def)

lemma consistent_append_event [simp]: "goals_consistent (append_event now e db) = goals_consistent db"
  by (simp add: goals_consistent_def)

lemma consistent_update_goal [simp]:
  assumes "\<And>x. go_id (f x) = go_id x"
    and "\<And>x. go_steer_version (f x) = go_steer_version x \<and> go_iteration_count (f x) = go_iteration_count x \<and>
       go_task_count (f x) = go_task_count x"
  shows "goals_consistent (update_goal gid f db) = goals_consistent db"
  using assms by (simp add: goals_consistent_def goal_counters_upd unique_key_upd_by)

lemma consistent_update_iteration [simp]:
  assumes "\<And>i. it_goal_id (f i) = it_goal_id i" "\<And>i. it_sequence (f i) = it_sequence i"
  shows "goals_consistent (update_iteration iid f db) = goals_consistent db"
  using assms by (simp add: goals_consistent_def)

lemma consistent_close [simp]: "goals_consistent (close_iteration now iid st db) = goals_consistent db"
  by (simp add: goals_consistent_def)

lemma consistent_interrupt [simp]:
  "goals_consistent (interrupt_phase now g iid ob db) = goals_consistent db"
  by (simp add: goals_consistent_def)

lemma consistent_create:
  assumes "create_goal now uuid pid intent budgets ogid actor db = Inr (db', r)" and "goals_consistent db"
  shows "goals_consistent db'"
proof -
  define g where "g = new_goal now (or_default ogid (''goal-'' @ uuid)) pid (redact_string intent)
    (case budgets of None \<Rightarrow> default_budget | Some b \<Rightarrow> b)"
  have g: "autonomous_goals db' = autonomous_goals db @ [g]"
    "row_by go_id (go_id g) (autonomous_goals db) = None"
    using assms(1) by (auto simp: create_goal_def Let_def g_def new_goal_def)
  have "autonomous_steers db' = autonomous_steers db \<and> autonomous_iterations db' = autonomous_iterations db \<and>
      autonomous_actions db' = autonomous_actions db"
    using assms(1) by (auto simp: create_goal_def Let_def)
  then have "goal_records db' k = goal_records db k" for k by (simp add: goal_records_def)
  moreover have "goal_counters (Some g) = goal_counters None"
    by (simp add: goal_counters_def g_def new_goal_def)
  ultimately show ?thesis using assms(2) g
    by (auto simp: goals_consistent_def unique_key_snoc row_simps split: option.split)
qed

lemma consistent_control:
  "pause now gid mode reason actor db = Inr (db', r2) \<Longrightarrow> goals_consistent db \<Longrightarrow> goals_consistent db'"
  "resume now gid reason actor db = Inr (db', r3) \<Longrightarrow> goals_consistent db \<Longrightarrow> goals_consistent db'"
  "stop now gid why actor db = Inr (db', r5) \<Longrightarrow> goals_consistent db \<Longrightarrow> goals_consistent db'"
  "start_goal now gid db = Inr (db', u1) \<Longrightarrow> goals_consistent db \<Longrightarrow> goals_consistent db'"
  "terminate now gid trm detail db = Inr (db', r7) \<Longrightarrow> goals_consistent db \<Longrightarrow> goals_consistent db'"
  "complete_replan now gid iid vf n db = Inr (db', u2) \<Longrightarrow> goals_consistent db \<Longrightarrow> goals_consistent db'"
  by (auto simp: pause_def resume_def stop_def start_goal_def terminate_def complete_replan_def Let_def
      touch_goal_def end_goal_def split: if_split_asm)

lemma consistent_iteration:
  "interrupt_for_steer now gid iid ver db = Inr (db', u3) \<Longrightarrow> goals_consistent db \<Longrightarrow> goals_consistent db'"
  "set_iteration_state now iid ist db = Inr (db', u4) \<Longrightarrow> goals_consistent db \<Longrightarrow> goals_consistent db'"
  "finish_iteration now iid ist db = Inr (db', u5) \<Longrightarrow> goals_consistent db \<Longrightarrow> goals_consistent db'"
  "journal_goal now gid kind summary payload db = Inr (db', u7) \<Longrightarrow> goals_consistent db \<Longrightarrow> goals_consistent db'"
  by (auto simp: interrupt_for_steer_def set_iteration_state_def finish_iteration_def journal_goal_def)

lemma consistent_phase:
  "phase_is_current now gid iid ver db = Inr (db', b1) \<Longrightarrow> goals_consistent db \<Longrightarrow> goals_consistent db'"
  "record_evaluation now iid ev ver db = Inr (db', b2) \<Longrightarrow> goals_consistent db \<Longrightarrow> goals_consistent db'"
  "record_goal_verification now iid vf ver db = Inr (db', b4) \<Longrightarrow> goals_consistent db \<Longrightarrow> goals_consistent db'"
  "terminate_phase_if_current now gid iid trm detail ver db = Inr (db', b5) \<Longrightarrow> goals_consistent db \<Longrightarrow>
     goals_consistent db'"
  by (auto simp: phase_is_current_def record_evaluation_def record_goal_verification_def
      terminate_phase_if_current_def Let_def touch_goal_def end_goal_def elim!: if_phase_currentE
      split: if_split_asm)

lemma update_action_goal [simp]: "ac_goal_id (update_action now st h r e a) = ac_goal_id a"
  by (simp add: update_action_def)

lemma consistent_set_action:
  assumes "set_action now aid ast handle ares err db = Inr (db', u)" and "goals_consistent db"
  shows "goals_consistent db'"
proof -
  have "autonomous_goals db' = autonomous_goals db \<and> autonomous_steers db' = autonomous_steers db \<and>
      autonomous_iterations db' = autonomous_iterations db \<and>
      autonomous_actions db' = upd_by ac_id aid (update_action now ast handle ares err) (autonomous_actions db)"
    using assms(1) by (auto simp: set_action_def)
  moreover have "length (filter (\<lambda>a. ac_goal_id a = gid) (upd_by ac_id aid (update_action now ast handle ares err) as))
      = length (filter (\<lambda>a. ac_goal_id a = gid) as)" for gid as
    using filter_map_upd_by [of ac_id aid ac_goal_id "update_action now ast handle ares err" ac_goal_id gid as]
    by (metis length_map update_action_goal)
  ultimately show ?thesis using assms(2) by (simp add: goals_consistent_def goal_records_def)
qed

text \<open>A counter that grows by one record.\<close>

lemma upto_snoc: "0 < n + 1 \<Longrightarrow> [1..n + 1] = [1..n] @ [n + 1 :: int]"
  by (simp add: upto_rec2)

lemma consistent_begin:
  assumes "begin_iteration now uuid gid db = Inr (db', r)" and "goals_consistent db"
  shows "goals_consistent db'"
proof -
  obtain g where g: "row_by go_id gid (autonomous_goals db) = Some g" and pos: "0 < go_iteration_count g + 1"
    and its: "autonomous_iterations db' = autonomous_iterations db @
        [new_iteration now (''iter-'' @ uuid) gid (go_iteration_count g + 1)]"
    and gs: "autonomous_goals db' = upd_by go_id gid
        (\<lambda>x. touch_goal now (x\<lparr>go_iteration_count := go_iteration_count g + 1\<rparr>)) (autonomous_goals db)"
    and rest: "autonomous_steers db' = autonomous_steers db" "autonomous_actions db' = autonomous_actions db"
    using assms(1) by (auto simp: begin_iteration_def Let_def)
  have old: "goal_records db k = goal_counters (row_by go_id k (autonomous_goals db))" for k
    using assms(2) by (simp add: goals_consistent_def)
  have "goal_records db' k = goal_counters (row_by go_id k (autonomous_goals db'))" for k
    using old [of k] upto_snoc [OF pos] g
    by (auto simp: goal_records_def goal_counters_def its gs rest new_iteration_def row_by_upd_by)
  then show ?thesis using assms(2) by (simp add: goals_consistent_def gs unique_key_upd_by)
qed

lemma consistent_steer:
  assumes "steer now uuid gid instr prio keep actor db = Inr (db', r)" and "goals_consistent db"
  shows "goals_consistent db'"
proof -
  obtain g s eff where g: "row_by go_id gid (autonomous_goals db) = Some g" and pos: "0 < go_steer_version g + 1"
    and st: "autonomous_steers db' = autonomous_steers db @ [s]" "sr_goal_id s = gid"
      "sr_sequence s = go_steer_version g + 1"
    and gs: "autonomous_goals db' = upd_by go_id gid
        (\<lambda>x. touch_goal now (x\<lparr>go_effective_intent := eff, go_steer_version := go_steer_version g + 1\<rparr>))
        (autonomous_goals db)"
    and rest: "autonomous_iterations db' = autonomous_iterations db" "autonomous_actions db' = autonomous_actions db"
    using assms(1) by (auto simp: steer_def Let_def steer_insertable_def)
  have old: "goal_records db k = goal_counters (row_by go_id k (autonomous_goals db))" for k
    using assms(2) by (simp add: goals_consistent_def)
  have "goal_records db' k = goal_counters (row_by go_id k (autonomous_goals db'))" for k
    using old [of k] upto_snoc [OF pos] g
    by (auto simp: goal_records_def goal_counters_def st gs rest row_by_upd_by)
  then show ?thesis using assms(2) by (simp add: goals_consistent_def gs unique_key_upd_by)
qed

lemma new_actions_goal [simp]:
  "length (new_actions now u5 gid iid plan) = length (gp_actions plan)"
  "a \<in> set (new_actions now u5 gid iid plan) \<Longrightarrow> ac_goal_id a = gid"
  by (auto simp: new_actions_def new_action_def)

lemma consistent_plan:
  assumes "record_plan now u5 iid gid plan ver db = Inr (db', b)" and "goals_consistent db"
  shows "goals_consistent db'"
proof -
  obtain goal where goal: "row_by go_id gid (autonomous_goals db) = Some goal"
    using assms(1) by (auto simp: record_plan_def Let_def)
  show ?thesis
  proof (cases "go_steer_version goal = ver")
    case False
    then show ?thesis using assms goal by (auto simp: record_plan_def Let_def if_phase_current_def)
  next
    case True
    then obtain its where gs: "autonomous_goals db' = upd_by go_id gid
          (\<lambda>x. touch_goal now (x\<lparr>go_task_count := go_task_count x + int (length (gp_actions plan))\<rparr>))
          (autonomous_goals db)"
      and acts: "autonomous_actions db' = autonomous_actions db @ new_actions now u5 gid iid plan"
      and st: "autonomous_steers db' = autonomous_steers db"
      and its: "autonomous_iterations db' = upd_by it_id iid its (autonomous_iterations db)"
        "\<And>i. it_goal_id (its i) = it_goal_id i \<and> it_sequence (its i) = it_sequence i"
      using assms(1) goal
      by (auto simp: record_plan_def Let_def if_phase_current_def)
    have old: "goal_records db k = goal_counters (row_by go_id k (autonomous_goals db))" for k
      using assms(2) by (simp add: goals_consistent_def)
    have "filter (\<lambda>a. ac_goal_id a = k) (new_actions now u5 gid iid plan) =
        (if k = gid then new_actions now u5 gid iid plan else [])" for k
      by (auto simp: filter_empty_conv intro!: filter_True)
    then have "goal_records db' k = goal_counters (row_by go_id k (autonomous_goals db'))" for k
      using old [of k] goal its(2)
      by (auto simp: goal_records_def goal_counters_def acts st its(1) gs row_by_upd_by filter_map_upd_by)
    then show ?thesis using assms(2) by (simp add: goals_consistent_def gs unique_key_upd_by)
  qed
qed

lemma consistent_step: "goal_step now db db' \<Longrightarrow> goals_consistent db \<Longrightarrow> goals_consistent db'"
  by (induction rule: goal_step.induct)
    (erule (1) consistent_create consistent_control consistent_iteration consistent_phase consistent_set_action
      consistent_begin consistent_steer consistent_plan)+

lemma consistent_run: "timed_run goal_step t db t' db' \<Longrightarrow> goals_consistent db \<Longrightarrow> goals_consistent db'"
  by (induction rule: timed_run.induct) (auto intro: consistent_step)

text \<open>
  C30. The counters of a goal are exact. Starting from a database without goals, after any sequence of
  transactions on goals the iterations of each goal are numbered 1, 2, \<dots> up to its iteration count,
  its steers 1, 2, \<dots> up to its steer version, and its task count is the number of its actions; so
  the limits on iterations and tasks, and the steer fence, compare against the truth.
\<close>

theorem goal_counters_exact:
  assumes "timed_run goal_step t db t' db'"
    and "autonomous_goals db = []" "autonomous_steers db = []" "autonomous_iterations db = []"
      "autonomous_actions db = []"
    and "row_by go_id gid (autonomous_goals db') = Some g"
  shows "map it_sequence (filter (\<lambda>i. it_goal_id i = gid) (autonomous_iterations db')) =
      [1..go_iteration_count g] \<and>
    map sr_sequence (filter (\<lambda>s. sr_goal_id s = gid) (autonomous_steers db')) = [1..go_steer_version g] \<and>
    go_task_count g = int (length (filter (\<lambda>a. ac_goal_id a = gid) (autonomous_actions db')))"
proof -
  have "goals_consistent db"
    using assms(2-5) by (simp add: goals_consistent_def goal_records_def goal_counters_def unique_key_def)
  from consistent_run [OF assms(1) this] assms(6) show ?thesis
    by (simp add: goals_consistent_def goal_records_def goal_counters_def split: option.splits)
qed

text \<open>A decision of goal \<open>gid\<close> in iteration \<open>iid\<close>, taken under steer version \<open>ver\<close>; \<open>b\<close> is whether it took effect.\<close>

inductive goal_decision :: "string \<Rightarrow> string \<Rightarrow> int \<Rightarrow> rat \<Rightarrow> db \<Rightarrow> db \<Rightarrow> bool \<Rightarrow> bool"
  for gid iid ver now db db' b where
  gd_current: "phase_is_current now gid iid ver db = Inr (db', b) \<Longrightarrow> goal_decision gid iid ver now db db' b"
| gd_evaluation: "row_by it_id iid (autonomous_iterations db) = Some it \<Longrightarrow> it_goal_id it = gid \<Longrightarrow>
    record_evaluation now iid ev ver db = Inr (db', b) \<Longrightarrow> goal_decision gid iid ver now db db' b"
| gd_plan: "record_plan now u5 iid gid plan ver db = Inr (db', b) \<Longrightarrow> goal_decision gid iid ver now db db' b"
| gd_verification: "row_by it_id iid (autonomous_iterations db) = Some it \<Longrightarrow> it_goal_id it = gid \<Longrightarrow>
    record_goal_verification now iid vf ver db = Inr (db', b) \<Longrightarrow> goal_decision gid iid ver now db db' b"
| gd_terminate: "terminate_phase_if_current now gid iid trm detail ver db = Inr (db', b) \<Longrightarrow>
    goal_decision gid iid ver now db db' b"

lemma if_phase_current_effect:
  assumes "if_phase_current now goal iid ver body db = Inr (db', b)"
    and "\<And>d. body db = Inr (d, b) \<Longrightarrow> b"
  shows "(b \<longleftrightarrow> go_steer_version goal = ver) \<and> (\<not> b \<longrightarrow> db' = interrupt_phase now goal iid ver db)"
  using assms by (auto elim!: if_phase_currentE)

lemma decision_effect:
  assumes "goal_decision gid iid ver now db db' b"
  shows "\<exists>g. row_by go_id gid (autonomous_goals db) = Some g \<and> (b \<longleftrightarrow> go_steer_version g = ver) \<and>
    (\<not> b \<longrightarrow> db' = interrupt_phase now g iid ver db)"
  using assms
proof cases
  case gd_current
  then show ?thesis by (auto simp: phase_is_current_def dest!: if_phase_current_effect)
next
  case (gd_evaluation it ev)
  then show ?thesis
    by (auto simp: record_evaluation_def get_iteration_def Let_def dest!: if_phase_current_effect)
next
  case (gd_plan u5 plan)
  then show ?thesis by (auto simp: record_plan_def Let_def dest!: if_phase_current_effect)
next
  case (gd_verification it vf)
  then show ?thesis
    by (auto simp: record_goal_verification_def get_iteration_def Let_def dest!: if_phase_current_effect)
next
  case (gd_terminate trm detail)
  then show ?thesis
    by (auto simp: terminate_phase_if_current_def Let_def split: if_split_asm dest!: if_phase_current_effect)
qed


section \<open>Examples\<close>

definition sample_goal :: goal_row where
  "sample_goal = (new_goal 0 ''g'' ''p1'' ''ship'' default_budget)\<lparr>go_state := GOAL_RUNNING\<rparr>"

definition goal_db :: db where
  "goal_db = empty_db\<lparr>autonomous_goals := [sample_goal],
     autonomous_iterations := [new_iteration 0 ''i'' ''g'' 1]\<rparr>"

lemmas goal_simps = goal_db_def sample_goal_def new_goal_def new_iteration_def empty_db_def row_simps


theorem goal_counters_exact_witness:
  "\<exists>db' g. create_goal 5 ''u'' ''p1'' ''ship'' None (Some ''g'') ''me'' sample_db = Inr (db', g) \<and>
     row_by go_id ''g'' (autonomous_goals db') = Some g \<and>
     filter (\<lambda>i. it_goal_id i = ''g'') (autonomous_iterations db') = []"
proof -
  have none: "autonomous_goals sample_db = []" "autonomous_steers sample_db = []"
    "autonomous_iterations sample_db = []" "autonomous_actions sample_db = []"
    and p: "\<exists>r. get_project sample_db ''p1'' = Inr r"
    by (simp_all add: sample_db_def create_project_def empty_db_def get_project_def fetch_def row_simps Let_def)
  obtain db' g where c: "create_goal 5 ''u'' ''p1'' ''ship'' None (Some ''g'') ''me'' sample_db = Inr (db', g)"
    using p none by (auto simp: create_goal_def get_goal_def fetch_def row_simps Let_def or_default_def
        truthy_def new_goal_def py_isspace_def)
  then have g: "row_by go_id ''g'' (autonomous_goals db') = Some g" "go_iteration_count g = 0"
    using none by (auto simp: create_goal_def row_simps Let_def or_default_def truthy_def new_goal_def)
  have "timed_run goal_step 0 sample_db 9 db'"
    by (rule run_step [where step = goal_step, OF run_wait gs_create [OF c]]) simp_all
  from goal_counters_exact [OF this none g(1)] g c show ?thesis by auto
qed


end
