(* ===== verification/Programs.thy ===== *)
theory Programs
  imports Prelude
begin

text \<open>
  Programs of the asynchronous parts: a program runs on a \<open>world\<close>, a clock and the state shared with
  others, usually the database. Every transaction commits on its own, so an exception keeps what was
  committed before it. What a program awaits takes the world and returns the world found afterwards.
  A computation that never returns is \<open>None\<close>.
\<close>

section \<open>Programs over a world\<close>

record 'd world =
  clock :: rat
  store :: 'd

type_synonym ('d, 'a) program = "'d world \<Rightarrow> ('d world \<times> 'a result) option"

definition ret :: "'a \<Rightarrow> ('d, 'a) program" where
  "ret x w = Some (w, Inr x)"

definition raise :: "py_error \<Rightarrow> ('d, 'a) program" where
  "raise e w = Some (w, Inl e)"

definition andthen :: "('d, 'a) program \<Rightarrow> ('a \<Rightarrow> ('d, 'b) program) \<Rightarrow> ('d, 'b) program" where
  "andthen m f w = (case m w of
     None \<Rightarrow> None
   | Some (w', Inl e) \<Rightarrow> Some (w', Inl e)
   | Some (w', Inr x) \<Rightarrow> f x w')"

text \<open>\<^verbatim>\<open>try: m except Exception as error: handler\<close>\<close>

definition catch :: "('d, 'a) program \<Rightarrow> (py_error \<Rightarrow> ('d, 'a) program) \<Rightarrow> ('d, 'a) program" where
  "catch m h w = (case m w of
     None \<Rightarrow> None
   | Some (w', Inl e) \<Rightarrow> h e w'
   | Some (w', Inr x) \<Rightarrow> Some (w', Inr x))"

text \<open>A transaction, a read, and an awaited call.\<close>

definition transact :: "(rat \<Rightarrow> 'd \<Rightarrow> ('d \<times> 'a) result) \<Rightarrow> ('d, 'a) program" where
  "transact op w = Some (case op (clock w) (store w) of
     Inl e \<Rightarrow> (w, Inl e) | Inr (db, x) \<Rightarrow> (w\<lparr>store := db\<rparr>, Inr x))"

definition reading :: "('d \<Rightarrow> 'a result) \<Rightarrow> ('d, 'a) program" where
  "reading f w = Some (w, f (store w))"

definition lift :: "'a result \<Rightarrow> ('d, 'a) program" where
  "lift r w = Some (w, r)"

text \<open>\<^verbatim>\<open>try: m finally: cleanup\<close>, where only an exception leaves something to clean up.\<close>

definition on_error :: "('d, 'a) program \<Rightarrow> ('d, unit) program \<Rightarrow> ('d, 'a) program" where
  "on_error m cleanup = catch m (\<lambda>e. andthen cleanup (\<lambda>_. raise e))"

definition await :: "('d world \<Rightarrow> 'd world \<times> 'a result) \<Rightarrow> ('d, 'a) program" where
  "await f w = Some (f w)"

fun for_each :: "'a list \<Rightarrow> ('a \<Rightarrow> ('d, unit) program) \<Rightarrow> ('d, unit) program" where
  "for_each [] f = ret ()"
| "for_each (x # xs) f = andthen (f x) (\<lambda>_. for_each xs f)"

lemma andthen_Some:
  "andthen m f w = Some (w', Inr y) \<longleftrightarrow> (\<exists>w1 x. m w = Some (w1, Inr x) \<and> f x w1 = Some (w', Inr y))"
  by (auto simp: andthen_def split: option.splits sum.splits)

lemma transact_Some:
  "transact op w = Some (w', Inr x) \<longleftrightarrow> (\<exists>db. op (clock w) (store w) = Inr (db, x) \<and> w' = w\<lparr>store := db\<rparr>)"
  by (auto simp: transact_def split: sum.splits prod.splits)

lemmas prog_Some = andthen_Some transact_Some ret_def

end
