(* ===== verification/Goal_Engine.thy ===== *)
theory Goal_Engine
  imports Goals Programs
begin

text \<open>
  The loop of \<^verbatim>\<open>AutonomousIterationEngine\<close> in \<^verbatim>\<open>src/project_supervisor/autonomy.py\<close>: evaluate, plan,
  dispatch and collect, verify, and terminate or go on.

  The engine is a program over a \<open>world\<close>, the database and the clock. Every transaction commits on
  its own, so an exception keeps what was committed before it. What the engine awaits is a
  parameter that takes the world and returns the world it finds afterwards, with its value: the
  evaluator, planner, dispatcher, verifier and budget meter, waiting for collectors, requesting
  cancellations and sleeping. In between others may have changed everything, which is how people
  and other processes interleave with the engine. A computation that never returns is \<open>None\<close>; only
  the collection loop can do that.
\<close>

type_synonym 'a prog = "(db, 'a) program"

section \<open>The context of a decision\<close>

record goal_context =
  gc_goal :: goal_row
  gc_project :: project_row
  gc_tasks :: "task_row list"
  gc_events :: "event list"
  gc_iterations :: "iteration_row list"
  gc_actions :: "action_row list"
  gc_steers :: "steer_row list"
  gc_worker_runs :: "run_row list"
  gc_worker_results :: "result_row list"
  gc_verifications :: "verification_row list"
  gc_failures :: "failure_row list"

text \<open>The tasks of a goal: those of its actions and those of its decisions, sorted.\<close>

definition goal_task_ids :: "db \<Rightarrow> string \<Rightarrow> string list" where
  "goal_task_ids db goal_id =
     sorted_list_of_set
       (set (List.map_filter ac_task_id (filter (\<lambda>a. ac_goal_id a = goal_id) (autonomous_actions db))) \<union>
        dt_task_id ` set (filter (\<lambda>d. dt_goal_id d = goal_id) (autonomy_decision_tasks db)))"

definition last_events :: "nat \<Rightarrow> event list \<Rightarrow> event list" where
  "last_events n es = rev (take n (rev (sort_key ev_sequence es)))"

definition context_of :: "db \<Rightarrow> string \<Rightarrow> goal_context result" where
  "context_of db goal_id =
     bindR (get_goal db goal_id) (\<lambda>goal.
     bindR (get_project db (go_project_id goal)) (\<lambda>project.
     let its = sort_key it_sequence (filter (\<lambda>i. it_goal_id i = goal_id) (autonomous_iterations db));
         acts = sort_key (\<lambda>a. (ac_created_at a, ac_id a))
           (filter (\<lambda>a. ac_goal_id a = goal_id) (autonomous_actions db));
         tids = goal_task_ids db goal_id;
         entities = goal_id # map it_id its @ map ac_id acts
     in Inr
       \<lparr>gc_goal = goal, gc_project = project,
        gc_tasks = sort_key (\<lambda>t. (- tk_updated_at t, tk_id t)) (filter (\<lambda>t. tk_id t \<in> set tids) (tasks db)),
        gc_events = last_events 1000 (filter (\<lambda>e. ev_entity_id e \<in> set entities \<or>
          (case ev_task_id e of None \<Rightarrow> False | Some t \<Rightarrow> t \<in> set tids)) (events db)),
        gc_iterations = its, gc_actions = acts,
        gc_steers = sort_key sr_sequence (filter (\<lambda>s. sr_goal_id s = goal_id) (autonomous_steers db)),
        gc_worker_runs = sort_key (\<lambda>r. (rn_created_at r, rn_id r))
          (filter (\<lambda>r. rn_task_id r \<in> set tids) (worker_runs db)),
        gc_worker_results = sort_key (\<lambda>r. (rs_created_at r, rs_run_id r))
          (filter (\<lambda>r. list_ex (\<lambda>run. rn_id run = rs_run_id r \<and> rn_task_id run \<in> set tids) (worker_runs db))
            (worker_results db)),
        gc_verifications = sort_key (\<lambda>v. (vf_created_at v, vf_id v))
          (filter (\<lambda>v. vf_task_id v \<in> set tids) (verifications db)),
        gc_failures = sort_key (\<lambda>f. (fa_created_at f, fa_id f))
          (filter (\<lambda>f. case fa_task_id f of None \<Rightarrow> False | Some t \<Rightarrow> t \<in> set tids) (failures db))\<rparr>))"

section \<open>The engine\<close>

text \<open>
  \<open>en_wait\<close> gives the collectors that finished, by action, each with its result or the text of its
  exception; \<open>en_cancel\<close> the outcome of each requested cancellation.
\<close>

record engine =
  en_evaluate :: "goal_context \<Rightarrow> db world \<Rightarrow> db world \<times> goal_evaluation result"
  en_plan :: "goal_context \<Rightarrow> goal_evaluation \<Rightarrow> db world \<Rightarrow> db world \<times> goal_plan result"
  en_verify :: "goal_context \<Rightarrow> action_result list \<Rightarrow> db world \<Rightarrow> db world \<times> goal_verification result"
  en_dispatch :: "goal_context \<Rightarrow> planned_action \<Rightarrow> string \<Rightarrow> db world \<Rightarrow> db world \<times> dispatch_handle result"
  en_recover :: "goal_context \<Rightarrow> planned_action \<Rightarrow> dispatch_handle \<Rightarrow> db world \<Rightarrow> db world \<times> dispatch_handle result"
  en_wait :: "string list \<Rightarrow> db world \<Rightarrow> db world \<times> (string \<times> (string + action_result)) list result"
  en_cancel :: "(action_row \<times> dispatch_handle) list \<Rightarrow> db world \<Rightarrow> db world \<times> (string \<times> bool \<times> string) list result"
  en_observe :: "string \<Rightarrow> db world \<Rightarrow> db world \<times> budget_observation result"
  en_sleep :: "db world \<Rightarrow> db world \<times> unit result"
  en_guard :: "rat \<Rightarrow> db \<Rightarrow> unit result"
  en_uuid :: "db world \<Rightarrow> string"
  en_uuid5 :: "string \<Rightarrow> string"
  en_error_text :: "py_error \<Rightarrow> string"

definition assert_ownership :: "engine \<Rightarrow> unit prog" where
  "assert_ownership E w = Some (w, en_guard E (clock w) (store w))"

text \<open>The decision makers construct their values, so the checks of the constructors come first.\<close>

definition evaluate :: "engine \<Rightarrow> goal_context \<Rightarrow> goal_evaluation prog" where
  "evaluate E c = andthen (await (en_evaluate E c)) (\<lambda>e.
     case check_goal_evaluation e of Inl err \<Rightarrow> raise err | Inr _ \<Rightarrow> ret e)"

definition verify :: "engine \<Rightarrow> goal_context \<Rightarrow> action_result list \<Rightarrow> goal_verification prog" where
  "verify E c rs = andthen (await (en_verify E c rs)) (\<lambda>v.
     case check_goal_verification v of Inl err \<Rightarrow> raise err | Inr _ \<Rightarrow> ret v)"

definition plan_goal :: "engine \<Rightarrow> goal_context \<Rightarrow> goal_evaluation \<Rightarrow> goal_plan prog" where
  "plan_goal E c e = andthen (await (en_plan E c e)) (\<lambda>p.
     case map_result check_planned_action (gp_actions p) of Inl err \<Rightarrow> raise err | Inr _ \<Rightarrow> ret p)"

section \<open>Budgets\<close>

definition elapsed_exceeds :: "rat \<Rightarrow> goal_row \<Rightarrow> goal_budget \<Rightarrow> bool" where
  "elapsed_exceeds now goal b =
     (case (gb_max_elapsed_seconds b, go_started_at goal) of
        (Some m, Some t) \<Rightarrow> m \<le> now - of_int t | _ \<Rightarrow> False)"

definition cost_guard :: "goal_budget \<Rightarrow> budget_observation \<Rightarrow> (termination_reason \<times> string) option" where
  "cost_guard b ob =
     (case (gb_max_cost_usd b, bo_cost_usd ob) of
        (Some m, None) \<Rightarrow> Some (TERM_BUDGET_LIMIT, ''cost budget cannot be safely observed'')
      | (Some m, Some c) \<Rightarrow>
          if m \<le> c then Some (TERM_BUDGET_LIMIT, ''maximum observed cost reached'') else None
      | _ \<Rightarrow> None)"

definition observed_guard :: "goal_budget \<Rightarrow> budget_observation \<Rightarrow> (termination_reason \<times> string) option" where
  "observed_guard b ob =
     (case (gb_max_total_tokens b, bo_total_tokens ob) of
        (Some m, None) \<Rightarrow> Some (TERM_BUDGET_LIMIT, ''token budget cannot be safely observed'')
      | (Some m, Some n) \<Rightarrow>
          if m \<le> n then Some (TERM_BUDGET_LIMIT, ''maximum observed tokens reached'') else cost_guard b ob
      | _ \<Rightarrow> cost_guard b ob)"

definition budget_guard :: "engine \<Rightarrow> goal_row \<Rightarrow> (termination_reason \<times> string) option prog" where
  "budget_guard E goal w =
     (case budget_from_dict (go_budgets goal) of
        Inl e \<Rightarrow> raise e w
      | Inr b \<Rightarrow>
          if gb_max_iterations b \<le> go_iteration_count goal
            then ret (Some (TERM_ITERATION_LIMIT, ''maximum autonomous iterations reached'')) w
          else if gb_max_tasks b \<le> go_task_count goal
            then ret (Some (TERM_BUDGET_LIMIT, ''maximum generated tasks reached'')) w
          else if gb_max_failures b \<le> go_failure_count goal
            then ret (Some (TERM_REPEATED_FAILURE, ''maximum failed actions reached'')) w
          else if elapsed_exceeds (clock w) goal b
            then ret (Some (TERM_BUDGET_LIMIT, ''maximum elapsed time reached'')) w
          else if gb_max_total_tokens b \<noteq> None \<or> gb_max_cost_usd b \<noteq> None
            then andthen (await (en_observe E (go_id goal))) (\<lambda>ob. ret (observed_guard b ob)) w
          else ret None w)"

definition inflight_observed :: "goal_budget \<Rightarrow> budget_observation \<Rightarrow> (termination_reason \<times> string) option" where
  "inflight_observed b ob =
     (if (case (gb_max_total_tokens b, bo_total_tokens ob) of (Some m, Some n) \<Rightarrow> m \<le> n | _ \<Rightarrow> False)
      then Some (TERM_BUDGET_LIMIT, ''maximum observed tokens reached during work'')
      else if (case (gb_max_cost_usd b, bo_cost_usd ob) of (Some m, Some c) \<Rightarrow> m \<le> c | _ \<Rightarrow> False)
      then Some (TERM_BUDGET_LIMIT, ''maximum observed cost reached during work'') else None)"

definition inflight_budget_guard :: "engine \<Rightarrow> goal_row \<Rightarrow> (termination_reason \<times> string) option prog" where
  "inflight_budget_guard E goal w =
     (case budget_from_dict (go_budgets goal) of
        Inl e \<Rightarrow> raise e w
      | Inr b \<Rightarrow>
          if elapsed_exceeds (clock w) goal b
            then ret (Some (TERM_BUDGET_LIMIT, ''maximum elapsed time reached during work'')) w
          else if gb_max_total_tokens b = None \<and> gb_max_cost_usd b = None then ret None w
          else andthen (await (en_observe E (go_id goal))) (\<lambda>ob. ret (inflight_observed b ob)) w)"

section \<open>Dispatching\<close>

definition control_gate :: "string \<Rightarrow> bool prog" where
  "control_gate goal_id =
     reading (\<lambda>db. bindR (get_goal db goal_id) (\<lambda>g. Inr (go_state g \<noteq> GOAL_RUNNING)))"

definition action_from_row :: "action_row \<Rightarrow> planned_action result" where
  "action_from_row a =
     (let p = \<lparr>pa_key = ac_action_key a, pa_title = ac_title a, pa_description = ac_description a,
        pa_role = ac_role a, pa_payload = ac_payload a\<rparr>
      in bindR (check_planned_action p) (\<lambda>_. Inr p))"

definition handle_from_row :: "action_row \<Rightarrow> dispatch_handle option result" where
  "handle_from_row a =
     (case ac_dispatch_ref a of
        None \<Rightarrow> Inr None | Some d \<Rightarrow> bindR (handle_from_dict d) (\<lambda>h. Inr (Some h)))"

definition result_from_action :: "action_row \<Rightarrow> action_result result" where
  "result_from_action a =
     (case ac_result a of
        Some d \<Rightarrow> result_from_dict d
      | None \<Rightarrow> Inr \<lparr>ar_succeeded = False,
          ar_summary = or_default (ac_error a) (''action ended in '' @ action_state_value (ac_state a)),
          ar_payload = JObj [], ar_cancelled = (ac_state a = ACT_CANCELLED)\<rparr>)"

definition fail_action :: "engine \<Rightarrow> string \<Rightarrow> py_error \<Rightarrow> bool prog" where
  "fail_action E action_id e =
     andthen (transact (\<lambda>now. set_action now action_id ACT_FAILED None None
       (Some (redact_string (en_error_text E e))))) (\<lambda>_. ret False)"

text \<open>The \<^verbatim>\<open>try\<close> blocks around the dispatcher: whether the action runs now.\<close>

definition start_action ::
    "engine \<Rightarrow> goal_context \<Rightarrow> string \<Rightarrow> planned_action \<Rightarrow> dispatch_handle option \<Rightarrow> bool prog" where
  "start_action E c action_id action handle =
     catch
       (andthen (await (case handle of
            None \<Rightarrow> en_dispatch E c action action_id | Some h \<Rightarrow> en_recover E c action h)) (\<lambda>h.
        andthen (assert_ownership E) (\<lambda>_.
        andthen (transact (\<lambda>now. set_action now action_id ACT_RUNNING (Some h) None None)) (\<lambda>_.
        ret True))))
       (fail_action E action_id)"

fun dispatch_actions :: "engine \<Rightarrow> string \<Rightarrow> goal_context \<Rightarrow> action_row list \<Rightarrow> string list \<Rightarrow> string list prog" where
  "dispatch_actions E goal_id c [] started = ret started"
| "dispatch_actions E goal_id c (row # rows) started =
     (if ac_state row \<notin> {ACT_PLANNED, ACT_DISPATCHING} then dispatch_actions E goal_id c rows started
      else
        andthen (control_gate goal_id) (\<lambda>closed.
        if closed then ret started
        else
          andthen (assert_ownership E) (\<lambda>_.
          andthen (lift (action_from_row row)) (\<lambda>action.
          andthen (transact (\<lambda>now. set_action now (ac_id row) ACT_DISPATCHING None None None)) (\<lambda>_.
          andthen (lift (handle_from_row row)) (\<lambda>handle.
          andthen (start_action E c (ac_id row) action handle) (\<lambda>ok.
          dispatch_actions E goal_id c rows (if ok then started @ [ac_id row] else started))))))))"

section \<open>Collecting\<close>

definition recover_action ::
    "engine \<Rightarrow> goal_context \<Rightarrow> action_row \<Rightarrow> dispatch_handle \<Rightarrow> dispatch_handle option prog" where
  "recover_action E c row handle =
     catch
       (andthen (lift (action_from_row row)) (\<lambda>action.
        andthen (await (en_recover E c action handle)) (\<lambda>h.
        andthen (transact (\<lambda>now. set_action now (ac_id row) ACT_RUNNING (Some h) None None)) (\<lambda>_.
        ret (Some h)))))
       (\<lambda>e. andthen (fail_action E (ac_id row) e) (\<lambda>_. ret None))"

text \<open>The collectors to wait for, each with its action and its handle.\<close>

fun open_collectors ::
    "engine \<Rightarrow> goal_context \<Rightarrow> string list \<Rightarrow> action_row list \<Rightarrow> (action_row \<times> dispatch_handle) list \<Rightarrow>
     (action_row \<times> dispatch_handle) list prog" where
  "open_collectors E c started [] pending = ret pending"
| "open_collectors E c started (row # rows) pending =
     andthen (lift (handle_from_row row)) (\<lambda>handle.
     case handle of
       None \<Rightarrow>
         andthen (transact (\<lambda>now. set_action now (ac_id row) ACT_FAILED None None
           (Some ''missing dispatch handle''))) (\<lambda>_. open_collectors E c started rows pending)
     | Some h \<Rightarrow>
         if ac_id row \<in> set started then open_collectors E c started rows (pending @ [(row, h)])
         else
           andthen (recover_action E c row h) (\<lambda>recovered.
           open_collectors E c started rows
             (case recovered of None \<Rightarrow> pending | Some h' \<Rightarrow> pending @ [(row, h')])))"

text \<open>The \<^verbatim>\<open>finally\<close> clause: cancellations are requested for what is still pending.\<close>

definition abandon :: "engine \<Rightarrow> (action_row \<times> dispatch_handle) list \<Rightarrow> unit prog" where
  "abandon E pending =
     (if pending = [] then ret () else andthen (await (en_cancel E pending)) (\<lambda>_. ret ()))"

definition journal_cancellation ::
    "string \<Rightarrow> (string \<times> bool \<times> string) list \<Rightarrow> action_row \<times> dispatch_handle \<Rightarrow> unit prog" where
  "journal_cancellation goal_id outcomes p =
     (case map_of outcomes (ac_id (fst p)) of
        None \<Rightarrow> raise (KeyError (ac_id (fst p)))
      | Some (accepted, request_state) \<Rightarrow>
          transact (\<lambda>now. journal_goal now goal_id ''goalActionCancellationRequested''
            ''Cancellation requested for in-flight goal action''
            [(''actionID'', JStr (ac_id (fst p))), (''dispatchRef'', JStr (dh_reference (snd p))),
             (''adapterAccepted'', JBool accepted), (''requestState'', JStr request_state),
             (''bounded'', JBool True)]))"

fun drop_collectors :: "engine \<Rightarrow> (action_row \<times> dispatch_handle) list \<Rightarrow> unit prog" where
  "drop_collectors E [] = ret ()"
| "drop_collectors E (p # ps) =
     andthen (on_error (transact (\<lambda>now. set_action now (ac_id (fst p)) ACT_CANCELLED None None
         (Some ''collection stopped after terminal control''))) (abandon E ps)) (\<lambda>_.
     drop_collectors E ps)"

definition cancel_pending :: "engine \<Rightarrow> string \<Rightarrow> (action_row \<times> dispatch_handle) list \<Rightarrow> unit prog" where
  "cancel_pending E goal_id pending =
     andthen (on_error (andthen (await (en_cancel E pending)) (\<lambda>outcomes.
         for_each pending (journal_cancellation goal_id outcomes))) (abandon E pending)) (\<lambda>_.
     drop_collectors E pending)"

definition settle_action :: "engine \<Rightarrow> string \<Rightarrow> string + action_result \<Rightarrow> unit prog" where
  "settle_action E action_id out =
     (case out of
        Inl message \<Rightarrow> transact (\<lambda>now. set_action now action_id ACT_FAILED None None
          (Some (redact_string message)))
      | Inr r \<Rightarrow> transact (\<lambda>now. set_action now action_id
          (if ar_cancelled r then ACT_CANCELLED else if ar_succeeded r then ACT_COMPLETED else ACT_FAILED)
          None (Some r) None))"

fun settle_finished ::
    "engine \<Rightarrow> (string \<times> (string + action_result)) list \<Rightarrow> (action_row \<times> dispatch_handle) list \<Rightarrow>
     (action_row \<times> dispatch_handle) list prog" where
  "settle_finished E [] pending = ret pending"
| "settle_finished E ((action_id, out) # rest) pending =
     (let pending' = filter (\<lambda>p. ac_id (fst p) \<noteq> action_id) pending in
      andthen (on_error (settle_action E action_id out) (abandon E pending')) (\<lambda>_.
      settle_finished E rest pending'))"

text \<open>The state a poll acts on: a running goal over its budget is terminated on the spot.\<close>

definition polled_state :: "engine \<Rightarrow> string \<Rightarrow> goal_state prog" where
  "polled_state E goal_id =
     andthen (reading (\<lambda>db. get_goal db goal_id)) (\<lambda>goal.
     andthen (assert_ownership E) (\<lambda>_.
     if go_state goal = GOAL_RUNNING
     then andthen (inflight_budget_guard E goal) (\<lambda>guard.
       case guard of
         None \<Rightarrow> ret (go_state goal)
       | Some (reason, detail) \<Rightarrow>
           andthen (transact (\<lambda>now. terminate now goal_id reason detail)) (\<lambda>_. ret GOAL_TERMINATED))
     else ret (go_state goal)))"

definition poll :: "engine \<Rightarrow> string \<Rightarrow> (action_row \<times> dispatch_handle) list \<Rightarrow>
    (action_row \<times> dispatch_handle) list prog" where
  "poll E goal_id pending =
     andthen (on_error (andthen (await (en_wait E (map (ac_id \<circ> fst) pending))) (\<lambda>finished.
         andthen (polled_state E goal_id) (\<lambda>state. ret (state, finished)))) (abandon E pending))
       (\<lambda>(state, finished).
     if state \<in> {GOAL_HARD_PAUSED, GOAL_STOPPED, GOAL_TERMINATED}
     then andthen (cancel_pending E goal_id pending) (\<lambda>_. ret [])
     else settle_finished E (filter (\<lambda>(i, _). i \<in> (ac_id \<circ> fst) ` set pending) finished) pending)"

partial_function (option) collect_loop ::
    "engine \<Rightarrow> string \<Rightarrow> (action_row \<times> dispatch_handle) list \<Rightarrow> db world \<Rightarrow> (db world \<times> unit result) option" where
  "collect_loop E goal_id pending w =
     (if pending = [] then Some (w, Inr ())
      else Option.bind (poll E goal_id pending w) (\<lambda>p. case snd p of
          Inl e \<Rightarrow> Some (fst p, Inl e) | Inr rest \<Rightarrow> collect_loop E goal_id rest (fst p)))"

definition dispatch_and_collect :: "engine \<Rightarrow> string \<Rightarrow> string \<Rightarrow> unit prog" where
  "dispatch_and_collect E goal_id iteration_id =
     andthen (transact (\<lambda>now. set_iteration_state now iteration_id ''dispatching'')) (\<lambda>_.
     andthen (reading (\<lambda>db. context_of db goal_id)) (\<lambda>c.
     andthen (reading (\<lambda>db. Inr (list_actions db iteration_id))) (\<lambda>rows.
     andthen (dispatch_actions E goal_id c rows []) (\<lambda>started.
     andthen (reading (\<lambda>db. Inr (filter (\<lambda>a. ac_state a = ACT_RUNNING) (list_actions db iteration_id)))) (\<lambda>running.
     if running = [] then ret ()
     else
       andthen (transact (\<lambda>now. set_iteration_state now iteration_id ''collecting'')) (\<lambda>_.
       andthen (open_collectors E c started running []) (\<lambda>pending.
       collect_loop E goal_id pending)))))))"

section \<open>Verifying\<close>

definition verification_checkpoint ::
    "engine \<Rightarrow> string \<Rightarrow> string \<Rightarrow> action_result list \<Rightarrow> int \<Rightarrow> (goal_verification \<times> int) option prog" where
  "verification_checkpoint E goal_id iteration_id results expected =
     andthen (reading (\<lambda>db. get_iteration db iteration_id)) (\<lambda>iteration.
     case it_verification iteration of
       Some d \<Rightarrow>
         andthen (reading (\<lambda>db. get_goal db goal_id)) (\<lambda>goal.
         if map_of d ''steerVersion'' = None \<and> 0 < go_steer_version goal
         then andthen (transact (\<lambda>now. phase_is_current now goal_id iteration_id (-1))) (\<lambda>_. ret None)
         else andthen (lift (verification_from_dict d)) (\<lambda>v.
           andthen (lift (json_int (dict_get d ''steerVersion'' (JInt 0)))) (\<lambda>ver. ret (Some (v, ver)))))
     | None \<Rightarrow>
         andthen (control_gate goal_id) (\<lambda>closed.
         if closed then ret None
         else
           andthen (transact (\<lambda>now. phase_is_current now goal_id iteration_id expected)) (\<lambda>current.
           if \<not> current then ret None
           else
             andthen (transact (\<lambda>now. set_iteration_state now iteration_id ''verifying'')) (\<lambda>_.
             andthen (reading (\<lambda>db. context_of db goal_id)) (\<lambda>c.
             andthen (verify E c results) (\<lambda>v.
             andthen (assert_ownership E) (\<lambda>_.
             andthen (transact (\<lambda>now. record_goal_verification now iteration_id v
               (go_steer_version (gc_goal c)))) (\<lambda>recorded.
             ret (if recorded then Some (v, go_steer_version (gc_goal c)) else None)))))))))"

definition task_unfinished :: "task_row \<Rightarrow> bool" where
  "task_unfinished t \<longleftrightarrow> tk_state t \<in> {TASK_DRAFT, TASK_QUEUED, TASK_READY, TASK_RUNNING, TASK_WAITING,
     TASK_REVIEWING, TASK_INTERRUPTED}"

definition apply_verification_outcome ::
    "string \<Rightarrow> string \<Rightarrow> goal_verification \<Rightarrow> int \<Rightarrow> int \<Rightarrow> bool prog" where
  "apply_verification_outcome goal_id iteration_id v failed expected =
     (if gv_satisfied v
      then andthen (reading (\<lambda>db. context_of db goal_id)) (\<lambda>c.
        if list_ex task_unfinished (gc_tasks c) \<or> list_ex run_active (gc_worker_runs c) then ret False
        else andthen (transact (\<lambda>now. terminate_phase_if_current now goal_id iteration_id TERM_SUCCESS
          (gv_summary v) expected)) (\<lambda>_. ret True))
      else
        (case gv_termination_reason v of
           Some reason \<Rightarrow> andthen (transact (\<lambda>now. terminate_phase_if_current now goal_id iteration_id reason
             (gv_summary v) expected)) (\<lambda>_. ret True)
         | None \<Rightarrow>
             andthen (transact (\<lambda>now. phase_is_current now goal_id iteration_id expected)) (\<lambda>current.
             if \<not> current then ret True
             else
               andthen (reading (\<lambda>db. get_iteration db iteration_id)) (\<lambda>iteration.
               andthen (if it_state iteration \<noteq> ''replanning''
                 then transact (\<lambda>now. complete_replan now goal_id iteration_id v failed) else ret ()) (\<lambda>_.
               andthen (transact (\<lambda>now. finish_iteration now iteration_id ''completed'')) (\<lambda>_.
               ret True))))))"

text \<open>The last step of both verification paths: a decision that cannot be applied yet is polled again.\<close>

definition conclude ::
    "engine \<Rightarrow> string \<Rightarrow> string \<Rightarrow> int \<Rightarrow> (goal_verification \<times> int) option \<Rightarrow> unit prog" where
  "conclude E goal_id iteration_id failed checkpoint =
     (case checkpoint of
        None \<Rightarrow> ret ()
      | Some (v, ver) \<Rightarrow>
          andthen (apply_verification_outcome goal_id iteration_id v failed ver) (\<lambda>applied.
          if applied then ret () else await (en_sleep E)))"

section \<open>One iteration\<close>

text \<open>The evaluation of the iteration with its steer version; \<open>None\<close> when it came too late.\<close>

definition evaluation_checkpoint ::
    "engine \<Rightarrow> string \<Rightarrow> iteration_row \<Rightarrow> goal_context \<Rightarrow> (goal_evaluation \<times> int) option prog" where
  "evaluation_checkpoint E iteration_id iteration c =
     (case it_evaluation iteration of
        None \<Rightarrow>
          andthen (evaluate E c) (\<lambda>e.
          andthen (assert_ownership E) (\<lambda>_.
          andthen (transact (\<lambda>now. record_evaluation now iteration_id e (go_steer_version (gc_goal c)))) (\<lambda>recorded.
          ret (if recorded then Some (e, go_steer_version (gc_goal c)) else None))))
      | Some d \<Rightarrow>
          andthen (lift (evaluation_from_dict d)) (\<lambda>e.
          if map_of d ''steerVersion'' = None \<and> 0 < go_steer_version (gc_goal c) then ret (Some (e, -1))
          else andthen (lift (json_int (dict_get d ''steerVersion'' (JInt 0)))) (\<lambda>ver. ret (Some (e, ver)))))"

text \<open>Planning, unless the iteration has a plan: whether to go on.\<close>

definition planning_phase :: "engine \<Rightarrow> string \<Rightarrow> string \<Rightarrow> goal_evaluation \<Rightarrow> bool prog" where
  "planning_phase E goal_id iteration_id e =
     andthen (control_gate goal_id) (\<lambda>closed.
     if closed then ret False
     else
       andthen (reading (\<lambda>db. context_of db goal_id)) (\<lambda>c.
       andthen (plan_goal E c e) (\<lambda>plan.
       andthen (assert_ownership E) (\<lambda>_.
       andthen (reading (\<lambda>db. get_goal db goal_id)) (\<lambda>goal.
       let ver = go_steer_version (gc_goal c) in
       if go_steer_version goal \<noteq> ver
       then andthen (transact (\<lambda>now. interrupt_for_steer now goal_id iteration_id ver)) (\<lambda>_. ret False)
       else if gp_actions plan = []
       then andthen (transact (\<lambda>now. terminate_phase_if_current now goal_id iteration_id TERM_NO_PROGRESS
           ''planner produced no next actions for an incomplete goal'' ver)) (\<lambda>_. ret False)
       else
         andthen (lift (budget_from_dict (go_budgets goal))) (\<lambda>b.
         if gb_max_tasks b < go_task_count goal + int (length (gp_actions plan))
         then andthen (transact (\<lambda>now. terminate_phase_if_current now goal_id iteration_id TERM_BUDGET_LIMIT
             ''planned actions would exceed max_tasks'' ver)) (\<lambda>_. ret False)
         else transact (\<lambda>now. record_plan now (en_uuid5 E) iteration_id goal_id plan ver)))))))"

definition action_unfinished :: "action_row \<Rightarrow> bool" where
  "action_unfinished a \<longleftrightarrow> ac_state a \<in> {ACT_PLANNED, ACT_DISPATCHING, ACT_RUNNING}"

definition work_phase :: "engine \<Rightarrow> string \<Rightarrow> string \<Rightarrow> unit prog" where
  "work_phase E goal_id iteration_id =
     andthen (control_gate goal_id) (\<lambda>closed.
     if closed then ret ()
     else
       andthen (dispatch_and_collect E goal_id iteration_id) (\<lambda>_.
       andthen (assert_ownership E) (\<lambda>_.
       andthen (reading (\<lambda>db. get_goal db goal_id)) (\<lambda>goal.
       if go_state goal \<in> {GOAL_SOFT_PAUSED, GOAL_HARD_PAUSED} then ret ()
       else if go_state goal \<in> {GOAL_STOPPED, GOAL_TERMINATED}
       then transact (\<lambda>now. finish_iteration now iteration_id ''interrupted'')
       else
         andthen (reading (\<lambda>db. Inr (list_actions db iteration_id))) (\<lambda>actions.
         if list_ex action_unfinished actions then ret ()
         else
           andthen (lift (map_result result_from_action actions)) (\<lambda>results.
           andthen (reading (\<lambda>db. context_of db goal_id)) (\<lambda>c.
           andthen (verification_checkpoint E goal_id iteration_id results (go_steer_version (gc_goal c)))
             (conclude E goal_id iteration_id
               (int (length (filter (\<lambda>r. \<not> ar_succeeded r) results)))))))))))"

definition advance_iteration :: "engine \<Rightarrow> string \<Rightarrow> string \<Rightarrow> unit prog" where
  "advance_iteration E goal_id iteration_id =
     andthen (reading (\<lambda>db. get_iteration db iteration_id)) (\<lambda>iteration.
     andthen (reading (\<lambda>db. context_of db goal_id)) (\<lambda>c.
     andthen (evaluation_checkpoint E iteration_id iteration c) (\<lambda>checkpoint.
     case checkpoint of
       None \<Rightarrow> ret ()
     | Some (e, ver) \<Rightarrow>
         andthen (transact (\<lambda>now. phase_is_current now goal_id iteration_id ver)) (\<lambda>current.
         if \<not> current then ret ()
         else if ge_disposition e = EVAL_SATISFIED
         then andthen (verification_checkpoint E goal_id iteration_id [] ver)
           (conclude E goal_id iteration_id 0)
         else if ge_disposition e = EVAL_TERMINATE
         then
           (case ge_termination_reason e of
              None \<Rightarrow> raise (RuntimeError ''AssertionError'')
            | Some reason \<Rightarrow> andthen (transact (\<lambda>now. terminate_phase_if_current now goal_id iteration_id
                reason (ge_summary e) ver)) (\<lambda>_. ret ()))
         else
           andthen (reading (\<lambda>db. get_goal db goal_id)) (\<lambda>goal.
           andthen (lift (budget_from_dict (go_budgets goal))) (\<lambda>b.
           if gb_no_progress_limit b \<le> go_no_progress_count goal
           then andthen (transact (\<lambda>now. terminate_phase_if_current now goal_id iteration_id TERM_NO_PROGRESS
               ''evaluation progress fingerprint repeated beyond configured limit'' ver)) (\<lambda>_. ret ())
           else
             andthen (reading (\<lambda>db. get_iteration db iteration_id)) (\<lambda>iteration.
             andthen (if it_plan iteration = None then planning_phase E goal_id iteration_id e else ret True)
               (\<lambda>go_on. if go_on then work_phase E goal_id iteration_id else ret ()))))))))"

text \<open>The iteration to work on: the open one, or a new one if the budget allows it.\<close>

definition choose_iteration :: "engine \<Rightarrow> string \<Rightarrow> goal_row \<Rightarrow> string option prog" where
  "choose_iteration E goal_id goal =
     andthen (reading (\<lambda>db. Inr (active_iteration db goal_id))) (\<lambda>active.
     case active of
       Some i \<Rightarrow> ret (Some (it_id i))
     | None \<Rightarrow>
         andthen (budget_guard E goal) (\<lambda>guard.
         case guard of
           Some (reason, detail) \<Rightarrow>
             andthen (transact (\<lambda>now. terminate now goal_id reason detail)) (\<lambda>_. ret None)
         | None \<Rightarrow>
             andthen (\<lambda>w. transact (\<lambda>now. begin_iteration now (en_uuid E w) goal_id) w) (\<lambda>i.
             ret (Some (it_id i)))))"

definition run_once :: "engine \<Rightarrow> string \<Rightarrow> goal_row prog" where
  "run_once E goal_id =
     andthen (assert_ownership E) (\<lambda>_.
     andthen (reading (\<lambda>db. get_goal db goal_id)) (\<lambda>goal.
     andthen (if go_state goal = GOAL_CREATED then transact (\<lambda>now. start_goal now goal_id) else ret ()) (\<lambda>_.
     andthen (reading (\<lambda>db. get_goal db goal_id)) (\<lambda>goal.
     if go_state goal \<noteq> GOAL_RUNNING then ret goal
     else
       andthen (choose_iteration E goal_id goal) (\<lambda>iteration_id.
       andthen (case iteration_id of None \<Rightarrow> ret () | Some i \<Rightarrow> advance_iteration E goal_id i) (\<lambda>_.
       reading (\<lambda>db. get_goal db goal_id)))))))"

partial_function (option) run :: "engine \<Rightarrow> string \<Rightarrow> db world \<Rightarrow> (db world \<times> goal_row result) option" where
  "run E goal_id w =
     (case get_goal (store w) goal_id of
        Inl e \<Rightarrow> Some (w, Inl e)
      | Inr goal \<Rightarrow>
          if go_state goal \<in> {GOAL_SOFT_PAUSED, GOAL_HARD_PAUSED, GOAL_STOPPED, GOAL_TERMINATED}
          then Some (w, Inr goal)
          else Option.bind (run_once E goal_id w) (\<lambda>p. case snd p of
              Inl e \<Rightarrow> Some (fst p, Inl e) | Inr _ \<Rightarrow> run E goal_id (fst p)))"

end
