(* ===== verification/Engine_Steps.thy ===== *)
theory Engine_Steps
  imports Goal_Engine
begin

text \<open>
  What the engine does to the database. Every transaction of an engine that runs one goal is a
  legal step of the transition system \<open>engine_step\<close>, whose rules carry the guards the loop has
  established by then; people and other programs take the steps of \<open>others\<close> in between. The
  properties of the loop follow by induction over these steps.
\<close>

section \<open>Steps of the engine and of others\<close>

definition iteration_of :: "string \<Rightarrow> string \<Rightarrow> db \<Rightarrow> bool" where
  "iteration_of gid iid db \<longleftrightarrow>
     (\<exists>it. row_by it_id iid (autonomous_iterations db) = Some it \<and> it_goal_id it = gid)"

text \<open>A stored verification that finds the goal satisfied, taken under a steer version.\<close>

definition satisfied_verdict :: "(string \<times> json) list \<Rightarrow> int \<Rightarrow> bool" where
  "satisfied_verdict d ver \<longleftrightarrow>
     (case map_of d ''satisfied'' of None \<Rightarrow> False | Some x \<Rightarrow> json_truthy x) \<and>
     json_int (dict_get d ''steerVersion'' (JInt 0)) = Inr ver"

definition verdict_stands :: "string \<Rightarrow> int \<Rightarrow> db \<Rightarrow> bool" where
  "verdict_stands iid ver db \<longleftrightarrow>
     (\<exists>it d. row_by it_id iid (autonomous_iterations db) = Some it \<and> it_verification it = Some d \<and>
        satisfied_verdict d ver)"

text \<open>No task of the goal is unfinished and no run of such a task is active.\<close>

definition goal_settled :: "string \<Rightarrow> db \<Rightarrow> bool" where
  "goal_settled gid db \<longleftrightarrow>
     (\<exists>c. context_of db gid = Inr c \<and> \<not> list_ex task_unfinished (gc_tasks c) \<and>
        \<not> list_ex run_active (gc_worker_runs c))"

definition may_iterate :: "string \<Rightarrow> db \<Rightarrow> bool" where
  "may_iterate gid db \<longleftrightarrow>
     (\<exists>g b. row_by go_id gid (autonomous_goals db) = Some g \<and> budget_from_dict (go_budgets g) = Inr b \<and>
        go_iteration_count g < gb_max_iterations b)"

definition may_plan :: "string \<Rightarrow> nat \<Rightarrow> db \<Rightarrow> bool" where
  "may_plan gid n db \<longleftrightarrow>
     (\<exists>g b. row_by go_id gid (autonomous_goals db) = Some g \<and> budget_from_dict (go_budgets g) = Inr b \<and>
        go_task_count g + int n \<le> gb_max_tasks b)"

inductive engine_step :: "string \<Rightarrow> db \<Rightarrow> db \<Rightarrow> bool" for gid db db' where
  es_start: "start_goal now gid db = Inr (db', u1) \<Longrightarrow> engine_step gid db db'"
| es_begin: "may_iterate gid db \<Longrightarrow> begin_iteration now uuid gid db = Inr (db', r1) \<Longrightarrow>
    engine_step gid db db'"
| es_current: "iteration_of gid iid db \<Longrightarrow> phase_is_current now gid iid ver db = Inr (db', b1) \<Longrightarrow>
    engine_step gid db db'"
| es_evaluation: "iteration_of gid iid db \<Longrightarrow> record_evaluation now iid ev ver db = Inr (db', b2) \<Longrightarrow>
    engine_step gid db db'"
| es_plan: "iteration_of gid iid db \<Longrightarrow> may_plan gid (length (gp_actions plan)) db \<Longrightarrow>
    record_plan now u5 iid gid plan ver db = Inr (db', b3) \<Longrightarrow> engine_step gid db db'"
| es_verification: "iteration_of gid iid db \<Longrightarrow> check_goal_verification vf = Inr () \<Longrightarrow>
    record_goal_verification now iid vf ver db = Inr (db', b4) \<Longrightarrow> engine_step gid db db'"
| es_replan: "0 \<le> n \<Longrightarrow> iteration_of gid iid db \<Longrightarrow> complete_replan now gid iid vf n db = Inr (db', u2) \<Longrightarrow>
    engine_step gid db db'"
| es_terminate: "trm \<noteq> TERM_SUCCESS \<Longrightarrow> terminate now gid trm detail db = Inr (db', r2) \<Longrightarrow>
    engine_step gid db db'"
| es_terminate_phase: "trm \<noteq> TERM_SUCCESS \<Longrightarrow> iteration_of gid iid db \<Longrightarrow>
    terminate_phase_if_current now gid iid trm detail ver db = Inr (db', b5) \<Longrightarrow> engine_step gid db db'"
| es_success: "iteration_of gid iid db \<Longrightarrow> verdict_stands iid ver db \<Longrightarrow> goal_settled gid db \<Longrightarrow>
    terminate_phase_if_current now gid iid TERM_SUCCESS detail ver db = Inr (db', b6) \<Longrightarrow>
    engine_step gid db db'"
| es_interrupt: "iteration_of gid iid db \<Longrightarrow> interrupt_for_steer now gid iid ver db = Inr (db', u3) \<Longrightarrow>
    engine_step gid db db'"
| es_iteration_state: "iteration_of gid iid db \<Longrightarrow> set_iteration_state now iid ist db = Inr (db', u4) \<Longrightarrow>
    engine_step gid db db'"
| es_finish: "iteration_of gid iid db \<Longrightarrow> finish_iteration now iid ist db = Inr (db', u5) \<Longrightarrow>
    engine_step gid db db'"
| es_action: "set_action now aid ast handle ares err db = Inr (db', u6) \<Longrightarrow> engine_step gid db db'"
| es_journal: "kind \<noteq> ''goalVerified'' \<Longrightarrow> journal_goal now gid kind summary payload db = Inr (db', u7) \<Longrightarrow>
    engine_step gid db db'"

text \<open>
  Others use the control plane, for any goal, and write what does not concern this goal and its
  iterations; nobody takes an event out of the journal or gives an iteration's identifier away twice.
\<close>

definition foreign :: "string \<Rightarrow> db \<Rightarrow> db \<Rightarrow> bool" where
  "foreign gid db db' \<longleftrightarrow>
     row_by go_id gid (autonomous_goals db') = row_by go_id gid (autonomous_goals db) \<and>
     (\<forall>iid it. row_by it_id iid (autonomous_iterations db) = Some it \<and> it_goal_id it = gid \<longrightarrow>
        row_by it_id iid (autonomous_iterations db') = Some it) \<and>
     (\<forall>iid it. row_by it_id iid (autonomous_iterations db') = Some it \<and> it_goal_id it = gid \<longrightarrow>
        row_by it_id iid (autonomous_iterations db) = Some it) \<and>
     (unique_key it_id (autonomous_iterations db) \<longrightarrow> unique_key it_id (autonomous_iterations db')) \<and>
     prefix (events db) (events db')"

inductive others :: "string \<Rightarrow> db \<Rightarrow> db \<Rightarrow> bool" for gid db db' where
  ot_create: "create_goal now uuid pid intent budgets ogid actor db = Inr (db', r1) \<Longrightarrow> others gid db db'"
| ot_pause: "pause now k mode reason actor db = Inr (db', r2) \<Longrightarrow> others gid db db'"
| ot_resume: "resume now k reason actor db = Inr (db', r3) \<Longrightarrow> others gid db db'"
| ot_steer: "steer now uuid k instr prio keep actor db = Inr (db', r4) \<Longrightarrow> others gid db db'"
| ot_stop: "stop now k why actor db = Inr (db', r5) \<Longrightarrow> others gid db db'"
| ot_foreign: "foreign gid db db' \<Longrightarrow> others gid db db'"

definition goal_run :: "string \<Rightarrow> db \<Rightarrow> db \<Rightarrow> bool" where
  "goal_run gid = (\<lambda>db db'. engine_step gid db db' \<or> others gid db db')\<^sup>*\<^sup>*"

text \<open>Everything the engine awaits leaves the database to the steps of others.\<close>

definition others_run :: "string \<Rightarrow> (db world \<Rightarrow> db world \<times> 'a) \<Rightarrow> bool" where
  "others_run gid f \<longleftrightarrow> (\<forall>w. (others gid)\<^sup>*\<^sup>* (store w) (store (fst (f w))))"

definition well_behaved :: "string \<Rightarrow> engine \<Rightarrow> bool" where
  "well_behaved gid E \<longleftrightarrow>
     (\<forall>c. others_run gid (en_evaluate E c)) \<and> (\<forall>c e. others_run gid (en_plan E c e)) \<and>
     (\<forall>c rs. others_run gid (en_verify E c rs)) \<and> (\<forall>c a i. others_run gid (en_dispatch E c a i)) \<and>
     (\<forall>c a h. others_run gid (en_recover E c a h)) \<and> (\<forall>is. others_run gid (en_wait E is)) \<and>
     (\<forall>ps. others_run gid (en_cancel E ps)) \<and> (\<forall>g. others_run gid (en_observe E g)) \<and>
     others_run gid (en_sleep E)"

section \<open>Facts no step takes away\<close>

lemma goal_run_refl [simp]: "goal_run gid db db"
  by (simp add: goal_run_def)

lemma goal_run_trans: "goal_run gid a b \<Longrightarrow> goal_run gid b c \<Longrightarrow> goal_run gid a c"
  by (simp add: goal_run_def)

lemma engine_goal_run: "engine_step gid db db' \<Longrightarrow> goal_run gid db db'"
  by (simp add: goal_run_def r_into_rtranclp)

lemma others_goal_run: "(others gid)\<^sup>*\<^sup>* db db' \<Longrightarrow> goal_run gid db db'"
  unfolding goal_run_def by (erule mono_rtranclp [rule_format, rotated]) simp

lemma goal_run_induct [consumes 2, case_names engine other]:
  assumes "goal_run gid db db'" and "P db"
    and "\<And>a b. P a \<Longrightarrow> engine_step gid a b \<Longrightarrow> P b" and "\<And>a b. P a \<Longrightarrow> others gid a b \<Longrightarrow> P b"
  shows "P db'"
  using assms(1) unfolding goal_run_def
  by (induction rule: rtranclp_induct) (use assms(2-4) in blast)+


lemma engine_goal_step: "engine_step gid db db' \<Longrightarrow> \<exists>now. goal_step now db db'"
  by (induction rule: engine_step.induct) (blast intro: goal_step.intros)+

lemma others_goal_step: "others gid db db' \<Longrightarrow> foreign gid db db' \<or> (\<exists>now. goal_step now db db')"
  by (induction rule: others.induct) (blast intro: goal_step.intros)+

definition iterations_kept :: "db \<Rightarrow> db \<Rightarrow> bool" where
  "iterations_kept db db' \<longleftrightarrow>
     (\<forall>gid iid. iteration_of gid iid db \<longrightarrow> iteration_of gid iid db') \<and>
     (unique_key it_id (autonomous_iterations db) \<longrightarrow> unique_key it_id (autonomous_iterations db'))"

lemma iteration_of_simps [simp]:
  "iteration_of gid iid (append_event now e db) = iteration_of gid iid db"
  "iteration_of gid iid (update_goal k f db) = iteration_of gid iid db"
  by (simp_all add: iteration_of_def)

lemma iterations_kept_refl [simp]: "iterations_kept db db"
  by (simp add: iterations_kept_def)

lemma iterations_kept_same:
  "autonomous_iterations db' = autonomous_iterations db \<Longrightarrow> iterations_kept db db'"
  by (simp add: iterations_kept_def iteration_of_def)

lemma iterations_kept_simps [simp]:
  "iterations_kept db (append_event now e db') = iterations_kept db db'"
  "iterations_kept db (update_goal k f db') = iterations_kept db db'"
  "iterations_kept db (db'\<lparr>autonomous_actions := acts\<rparr>) = iterations_kept db db'"
  by (simp_all add: iterations_kept_def iteration_of_def)

lemma iterations_kept_update [simp]:
  assumes "\<And>i. it_id (f i) = it_id i \<and> it_goal_id (f i) = it_goal_id i"
  shows "iterations_kept db (update_iteration iid f db') = iterations_kept db db'"
proof -
  have "iteration_of gid k (update_iteration iid f db') = iteration_of gid k db'" for gid k
    using assms by (auto simp: iteration_of_def row_by_upd_by)
  then show ?thesis using assms by (simp add: iterations_kept_def unique_key_upd_by)
qed

lemma iterations_kept_close [simp]:
  "iterations_kept db (close_iteration now iid st db') = iterations_kept db db'"
  "iterations_kept db (interrupt_phase now g iid ver db') = iterations_kept db db'"
  by (simp_all add: close_iteration_def interrupt_phase_def)

lemma iterations_kept_begin:
  "begin_iteration now uuid gid db = Inr (db', r) \<Longrightarrow> iterations_kept db db'"
  by (auto simp: begin_iteration_def Let_def iterations_kept_def iteration_of_def row_simps unique_key_snoc
      new_iteration_def)

lemma iterations_kept_plan:
  "record_plan now u5 iid gid plan ver db = Inr (db', b) \<Longrightarrow> iterations_kept db db'"
  by (auto simp: record_plan_def Let_def elim!: if_phase_currentE)

lemma iterations_kept_control:
  "create_goal now uuid pid intent budgets ogid actor db = Inr (db', r1) \<Longrightarrow> iterations_kept db db'"
  "pause now gid mode reason actor db = Inr (db', r2) \<Longrightarrow> iterations_kept db db'"
  "resume now gid reason actor db = Inr (db', r3) \<Longrightarrow> iterations_kept db db'"
  "steer now uuid gid instr prio keep actor db = Inr (db', r4) \<Longrightarrow> iterations_kept db db'"
  "stop now gid why actor db = Inr (db', r5) \<Longrightarrow> iterations_kept db db'"
  "start_goal now gid db = Inr (db', u1) \<Longrightarrow> iterations_kept db db'"
  "terminate now gid trm detail db = Inr (db', r7) \<Longrightarrow> iterations_kept db db'"
  "set_action now aid ast handle ares err db = Inr (db', u6) \<Longrightarrow> iterations_kept db db'"
  "journal_goal now gid kind summary payload db = Inr (db', u7) \<Longrightarrow> iterations_kept db db'"
  by (rule iterations_kept_same, auto simp: create_goal_def pause_def resume_def steer_def stop_def
      start_goal_def terminate_def set_action_def journal_goal_def Let_def split: if_split_asm)+

lemma iterations_kept_phase:
  "phase_is_current now gid iid ver db = Inr (db', b1) \<Longrightarrow> iterations_kept db db'"
  "record_evaluation now iid ev ver db = Inr (db', b2) \<Longrightarrow> iterations_kept db db'"
  "record_goal_verification now iid vf ver db = Inr (db', b4) \<Longrightarrow> iterations_kept db db'"
  "complete_replan now gid iid vf n db = Inr (db', u2) \<Longrightarrow> iterations_kept db db'"
  "terminate_phase_if_current now gid iid trm detail ver db = Inr (db', b5) \<Longrightarrow> iterations_kept db db'"
  "interrupt_for_steer now gid iid ver db = Inr (db', u3) \<Longrightarrow> iterations_kept db db'"
  "set_iteration_state now iid ist db = Inr (db', u4) \<Longrightarrow> iterations_kept db db'"
  "finish_iteration now iid ist db = Inr (db', u5) \<Longrightarrow> iterations_kept db db'"
  by (auto simp: phase_is_current_def record_evaluation_def record_goal_verification_def complete_replan_def
      terminate_phase_if_current_def interrupt_for_steer_def set_iteration_state_def finish_iteration_def
      Let_def elim!: if_phase_currentE split: if_split_asm)

lemma iterations_kept_step: "goal_step now db db' \<Longrightarrow> iterations_kept db db'"
  by (induction rule: goal_step.induct)
    (erule iterations_kept_control iterations_kept_phase iterations_kept_begin iterations_kept_plan)+

definition owned :: "string \<Rightarrow> string \<Rightarrow> db \<Rightarrow> bool" where
  "owned gid iid db \<longleftrightarrow> iteration_of gid iid db \<and> unique_key it_id (autonomous_iterations db)"

lemma foreign_owned: "foreign gid db db' \<Longrightarrow> owned gid iid db \<Longrightarrow> owned gid iid db'"
  unfolding foreign_def owned_def iteration_of_def by blast

lemma owned_run: "goal_run gid db db' \<Longrightarrow> owned gid iid db \<Longrightarrow> owned gid iid db'"
proof (induction rule: goal_run_induct)
  case (engine a b)
  then show ?case using engine_goal_step iterations_kept_step
    by (fastforce simp: owned_def iterations_kept_def)
next
  case (other a b)
  then show ?case using others_goal_step [OF other(2)] foreign_owned iterations_kept_step
    by (fastforce simp: owned_def iterations_kept_def)
qed

section \<open>Programs that only take such steps\<close>

text \<open>
  \<open>triple gid P m Q\<close>: started where \<open>P\<close> holds, every execution of \<open>m\<close> that ends, with a value or an
  exception, is a sequence of legal steps, and a value satisfies \<open>Q\<close> in the final database.
\<close>

definition triple :: "string \<Rightarrow> (db \<Rightarrow> bool) \<Rightarrow> 'a prog \<Rightarrow> ('a \<Rightarrow> db \<Rightarrow> bool) \<Rightarrow> bool" where
  "triple gid P m Q \<longleftrightarrow>
     (\<forall>w w' r. P (store w) \<and> m w = Some (w', r) \<longrightarrow>
        goal_run gid (store w) (store w') \<and> (\<forall>x. r = Inr x \<longrightarrow> Q x (store w')))"

lemma tripleI:
  assumes "\<And>w w' r. P (store w) \<Longrightarrow> m w = Some (w', r) \<Longrightarrow>
      goal_run gid (store w) (store w') \<and> (\<forall>x. r = Inr x \<longrightarrow> Q x (store w'))"
  shows "triple gid P m Q"
  unfolding triple_def using assms by blast

lemma tripleD:
  assumes "triple gid P m Q" and "P (store w)" and "m w = Some (w', r)"
  shows "goal_run gid (store w) (store w')" and "r = Inr x \<Longrightarrow> Q x (store w')"
  using assms unfolding triple_def by blast+

lemma triple_pre: "triple gid P m Q \<Longrightarrow> (\<And>db. P' db \<Longrightarrow> P db) \<Longrightarrow> triple gid P' m Q"
  unfolding triple_def by blast

lemma triple_post: "triple gid P m Q \<Longrightarrow> (\<And>x db. Q x db \<Longrightarrow> Q' x db) \<Longrightarrow> triple gid P m Q'"
  unfolding triple_def by blast

lemma triple_ret: "(\<And>db. P db \<Longrightarrow> Q x db) \<Longrightarrow> triple gid P (ret x) Q"
  by (rule tripleI) (auto simp: ret_def)

lemma triple_raise: "triple gid P (raise e) Q"
  by (rule tripleI) (auto simp: raise_def)

lemma triple_andthen:
  assumes "triple gid P m R" and "\<And>x. triple gid (R x) (f x) Q"
  shows "triple gid P (andthen m f) Q"
proof (rule tripleI)
  fix w w' r
  assume P: "P (store w)" and run: "andthen m f w = Some (w', r)"
  then obtain w1 r1 where m: "m w = Some (w1, r1)" by (auto simp: andthen_def split: option.splits)
  note first = tripleD [OF assms(1) P m]
  show "goal_run gid (store w) (store w') \<and> (\<forall>x. r = Inr x \<longrightarrow> Q x (store w'))"
  proof (cases r1)
    case (Inl e)
    then show ?thesis using run m first by (auto simp: andthen_def)
  next
    case (Inr x)
    then have f: "f x w1 = Some (w', r)" using run m by (simp add: andthen_def)
    from tripleD [OF assms(2) first(2) [OF Inr] f] first(1) show ?thesis by (blast intro: goal_run_trans)
  qed
qed

text \<open>A handler runs after part of the body; what it needs must survive every step.\<close>

lemma triple_catch:
  assumes "triple gid (owned gid iid) m Q" and "\<And>e. triple gid (owned gid iid) (h e) Q"
  shows "triple gid (owned gid iid) (catch m h) Q"
proof (rule tripleI)
  fix w w' r
  assume P: "owned gid iid (store w)" and run: "catch m h w = Some (w', r)"
  then obtain w1 r1 where m: "m w = Some (w1, r1)" by (auto simp: catch_def split: option.splits)
  note first = tripleD [OF assms(1) P m]
  show "goal_run gid (store w) (store w') \<and> (\<forall>x. r = Inr x \<longrightarrow> Q x (store w'))"
  proof (cases r1)
    case (Inr x)
    then show ?thesis using run m first by (auto simp: catch_def)
  next
    case (Inl e)
    then have h: "h e w1 = Some (w', r)" using run m by (simp add: catch_def)
    from tripleD [OF assms(2) owned_run [OF first(1) P] h] first(1) show ?thesis by (blast intro: goal_run_trans)
  qed
qed

lemma triple_transact:
  assumes "\<And>now db db' x. P db \<Longrightarrow> op now db = Inr (db', x) \<Longrightarrow> engine_step gid db db' \<and> Q x db'"
  shows "triple gid P (transact op) Q"
proof (rule tripleI)
  fix w w' r
  assume P: "P (store w)" and run: "transact op w = Some (w', r)"
  show "goal_run gid (store w) (store w') \<and> (\<forall>x. r = Inr x \<longrightarrow> Q x (store w'))"
  proof (cases "op (clock w) (store w)")
    case (Inl e)
    then show ?thesis using run by (auto simp: transact_def)
  next
    case (Inr p)
    then obtain db x where "op (clock w) (store w) = Inr (db, x)" by (cases p) simp
    then show ?thesis using run assms [OF P] by (auto simp: transact_def engine_goal_run)
  qed
qed

lemma triple_reading:
  "(\<And>db x. P db \<Longrightarrow> f db = Inr x \<Longrightarrow> Q x db) \<Longrightarrow> triple gid P (reading f) Q"
  by (rule tripleI) (auto simp: reading_def)

lemma triple_lift:
  "(\<And>db x. P db \<Longrightarrow> v = Inr x \<Longrightarrow> Q x db) \<Longrightarrow> triple gid P (lift v) Q"
  by (rule tripleI) (auto simp: lift_def)

lemma triple_guard: "(\<And>db. P db \<Longrightarrow> Q () db) \<Longrightarrow> triple gid P (assert_ownership E) Q"
  by (rule tripleI) (auto simp: assert_ownership_def)

lemma triple_await:
  assumes "others_run gid f" and "\<And>db db' x. P db \<Longrightarrow> (others gid)\<^sup>*\<^sup>* db db' \<Longrightarrow> Q x db'"
  shows "triple gid P (await f) Q"
  using assms unfolding triple_def await_def others_run_def
  by (metis (no_types, lifting) fst_conv option.inject others_goal_run)

section \<open>Routine parts of the loop\<close>

text \<open>Programs that need no more than that the iteration belongs to the goal.\<close>

definition routine :: "string \<Rightarrow> string \<Rightarrow> 'a prog \<Rightarrow> bool" where
  "routine gid iid m \<longleftrightarrow> triple gid (owned gid iid) m (\<lambda>_. owned gid iid)"

named_theorems routine_rules

lemma routine_keeps: "triple gid (owned gid iid) m Q \<Longrightarrow> triple gid (owned gid iid) m (\<lambda>x db. owned gid iid db \<and> Q x db)"
  unfolding triple_def by (blast intro: owned_run)

lemma routineI: "triple gid (owned gid iid) m Q \<Longrightarrow> routine gid iid m"
  unfolding routine_def by (drule routine_keeps, erule triple_post) simp

lemma routine_simple [routine_rules]:
  "routine gid iid (ret x)" "routine gid iid (raise e)" "routine gid iid (reading f)" "routine gid iid (lift v)"
  "routine gid iid (assert_ownership E)"
  unfolding routine_def
  by (auto intro: triple_ret triple_raise triple_reading triple_lift triple_guard)

lemma routine_andthen [routine_rules]:
  "routine gid iid m \<Longrightarrow> (\<And>x. routine gid iid (f x)) \<Longrightarrow> routine gid iid (andthen m f)"
  unfolding routine_def by (rule triple_andthen)

lemma routine_catch [routine_rules]:
  "routine gid iid m \<Longrightarrow> (\<And>e. routine gid iid (h e)) \<Longrightarrow> routine gid iid (catch m h)"
  unfolding routine_def by (rule triple_catch)

lemma routine_on_error [routine_rules]:
  "routine gid iid m \<Longrightarrow> routine gid iid c \<Longrightarrow> routine gid iid (on_error m c)"
  unfolding on_error_def by (intro routine_rules)

lemma routine_await [routine_rules]: "others_run gid f \<Longrightarrow> routine gid iid (await f)"
  by (rule routineI, rule triple_await [where Q = "\<lambda>_ _. True"]) simp_all

lemma routine_transact:
  assumes "\<And>now db db' x. iteration_of gid iid db \<Longrightarrow> op now db = Inr (db', x) \<Longrightarrow> engine_step gid db db'"
  shows "routine gid iid (transact op)"
  by (rule routineI, rule triple_transact [where Q = "\<lambda>_ _. True"]) (auto simp: owned_def intro: assms)

lemma routine_if [routine_rules]:
  "routine gid iid m \<Longrightarrow> routine gid iid n \<Longrightarrow> routine gid iid (if c then m else n)"
  by simp

lemma routine_option [routine_rules]:
  "routine gid iid m \<Longrightarrow> (\<And>x. routine gid iid (f x)) \<Longrightarrow> routine gid iid (case v of None \<Rightarrow> m | Some x \<Rightarrow> f x)"
  by (cases v) simp_all

lemma routine_for_each [routine_rules]:
  "(\<And>x. routine gid iid (f x)) \<Longrightarrow> routine gid iid (for_each xs f)"
  by (induction xs) (auto intro: routine_rules)

lemma routine_transactions [routine_rules]:
  "routine gid iid (transact (\<lambda>now. phase_is_current now gid iid ver))"
  "routine gid iid (transact (\<lambda>now. record_evaluation now iid ev ver))"
  "0 \<le> n \<Longrightarrow> routine gid iid (transact (\<lambda>now. complete_replan now gid iid vf n))"
  "trm \<noteq> TERM_SUCCESS \<Longrightarrow> routine gid iid (transact (\<lambda>now. terminate now gid trm detail))"
  "trm \<noteq> TERM_SUCCESS \<Longrightarrow>
     routine gid iid (transact (\<lambda>now. terminate_phase_if_current now gid iid trm detail ver))"
  "routine gid iid (transact (\<lambda>now. interrupt_for_steer now gid iid ver))"
  "routine gid iid (transact (\<lambda>now. set_iteration_state now iid ist))"
  "routine gid iid (transact (\<lambda>now. finish_iteration now iid ist))"
  "routine gid iid (transact (\<lambda>now. set_action now aid ast handle ares err))"
  "kind \<noteq> ''goalVerified'' \<Longrightarrow> routine gid iid (transact (\<lambda>now. journal_goal now gid kind summary payload))"
  by (rule routine_transact, blast intro: engine_step.intros)+


lemma well_behaved_rules [routine_rules]:
  assumes "well_behaved gid E"
  shows "others_run gid (en_evaluate E c)" "others_run gid (en_plan E c e)"
    "others_run gid (en_verify E c rs)" "others_run gid (en_dispatch E c a i)"
    "others_run gid (en_recover E c a h)" "others_run gid (en_wait E ids)"
    "others_run gid (en_cancel E ps)" "others_run gid (en_observe E g)" "others_run gid (en_sleep E)"
  using assms unfolding well_behaved_def by blast+

lemma routine_sum [routine_rules]:
  "(\<And>x. routine gid iid (f x)) \<Longrightarrow> (\<And>y. routine gid iid (g y)) \<Longrightarrow>
   routine gid iid (case v of Inl x \<Rightarrow> f x | Inr y \<Rightarrow> g y)"
  by (cases v) simp_all

lemma routine_pair [routine_rules]:
  "(\<And>x y. routine gid iid (f x y)) \<Longrightarrow> routine gid iid (case v of (x, y) \<Rightarrow> f x y)"
  by (cases v) simp

lemma routine_dispatch_call [routine_rules]:
  "well_behaved gid E \<Longrightarrow> routine gid iid (await (case handle of
     None \<Rightarrow> en_dispatch E c action aid | Some h \<Rightarrow> en_recover E c action h))"
  by (cases handle) (auto intro!: routine_rules)

lemma routine_control_gate [routine_rules]: "routine gid iid (control_gate k)"
  unfolding control_gate_def by (intro routine_rules)

lemma routine_fail_action [routine_rules]: "routine gid iid (fail_action E aid e)"
  unfolding fail_action_def by (intro routine_rules)

lemma routine_start_action [routine_rules]:
  "well_behaved gid E \<Longrightarrow> routine gid iid (start_action E c aid action handle)"
  unfolding start_action_def by (intro routine_rules)

lemma routine_dispatch_actions [routine_rules]:
  assumes "well_behaved gid E"
  shows "routine gid iid (dispatch_actions E gid c rows started)"
  using assms
proof (induction rows arbitrary: started)
  case (Cons row rows)
  then show ?case unfolding dispatch_actions.simps by (intro routine_rules)
qed (simp add: routine_simple)

lemma routine_open_collectors [routine_rules]:
  assumes "well_behaved gid E"
  shows "routine gid iid (open_collectors E c started rows pending)"
  using assms
proof (induction rows arbitrary: pending)
  case (Cons row rows)
  then show ?case unfolding open_collectors.simps recover_action_def by (intro routine_rules)
qed (simp add: routine_simple)

lemma routine_abandon [routine_rules]: "well_behaved gid E \<Longrightarrow> routine gid iid (abandon E pending)"
  unfolding abandon_def by (intro routine_rules)

lemma routine_drop_collectors [routine_rules]:
  "well_behaved gid E \<Longrightarrow> routine gid iid (drop_collectors E pending)"
  by (induction pending) (auto intro: routine_rules)

lemma routine_cancel_pending [routine_rules]:
  "well_behaved gid E \<Longrightarrow> routine gid iid (cancel_pending E gid pending)"
  unfolding cancel_pending_def journal_cancellation_def by (intro routine_rules) simp_all

lemma routine_settle_finished [routine_rules]:
  assumes "well_behaved gid E"
  shows "routine gid iid (settle_finished E finished pending)"
  using assms
proof (induction finished arbitrary: pending)
  case (Cons f fs)
  then show ?case by (cases f) (simp only: settle_finished.simps settle_action_def Let_def, intro routine_rules,
      simp_all)
qed (simp add: routine_simple)

text \<open>A budget that runs out never ends a goal as a success.\<close>

lemma inflight_reason:
  "inflight_budget_guard E goal w = Some (w', Inr (Some (trm, detail))) \<Longrightarrow> trm \<noteq> TERM_SUCCESS"
  by (auto simp: inflight_budget_guard_def inflight_observed_def raise_def ret_def andthen_def await_def
      split: sum.splits if_split_asm prod.splits)

lemma budget_reason:
  "budget_guard E goal w = Some (w', Inr (Some (trm, detail))) \<Longrightarrow> trm \<noteq> TERM_SUCCESS"
  by (auto simp: budget_guard_def observed_guard_def cost_guard_def raise_def ret_def andthen_def await_def
      split: sum.splits if_split_asm prod.splits option.splits)


lemma routine_inflight_guard [routine_rules]:
  "well_behaved gid E \<Longrightarrow> routine gid iid (inflight_budget_guard E goal)"
  "well_behaved gid E \<Longrightarrow> routine gid iid (budget_guard E goal)"
proof -
  have pick: "routine gid iid (\<lambda>w. if c w then m w else n w)"
    if "routine gid iid m" "routine gid iid n" for c and m n :: "'a prog"
    using that unfolding routine_def triple_def by (metis (no_types, lifting))
  assume "well_behaved gid E"
  note rules = routine_rules this pick
  show "routine gid iid (inflight_budget_guard E goal)"
    by (cases "budget_from_dict (go_budgets goal)")
      (simp_all add: inflight_budget_guard_def [abs_def], (intro rules)+)
  show "routine gid iid (budget_guard E goal)"
    by (cases "budget_from_dict (go_budgets goal)") (simp_all add: budget_guard_def [abs_def], (intro rules)+)
qed

lemma routine_reason:
  assumes "routine gid iid m" and "\<And>w w' trm detail. m w = Some (w', Inr (Some (trm, detail))) \<Longrightarrow> good trm"
    and "routine gid iid (f None)" and "\<And>trm detail. good trm \<Longrightarrow> routine gid iid (f (Some (trm, detail)))"
  shows "routine gid iid (andthen m f)"
  unfolding routine_def
proof (rule triple_andthen)
  show "triple gid (owned gid iid) m (\<lambda>x db. owned gid iid db \<and> (\<forall>trm detail. x = Some (trm, detail) \<longrightarrow> good trm))"
    using assms(1,2) unfolding routine_def triple_def by blast
  show "triple gid (\<lambda>db. owned gid iid db \<and> (\<forall>trm detail. x = Some (trm, detail) \<longrightarrow> good trm)) (f x)
      (\<lambda>_. owned gid iid)" for x
  proof (cases "\<forall>trm detail. x = Some (trm, detail) \<longrightarrow> good trm")
    case True
    then have "routine gid iid (f x)" using assms(3,4) by (cases x) auto
    then show ?thesis unfolding routine_def by (rule triple_pre) simp
  qed (auto simp: triple_def)
qed

lemma routine_polled_state [routine_rules]:
  assumes "well_behaved gid E" shows "routine gid iid (polled_state E gid)"
  unfolding polled_state_def
proof (intro routine_andthen, goal_cases)
  case (3 goal)
  have "routine gid iid (andthen (inflight_budget_guard E goal) (\<lambda>guard. case guard of
      None \<Rightarrow> ret (go_state goal)
    | Some (reason, detail) \<Rightarrow> andthen (transact (\<lambda>now. terminate now gid reason detail))
        (\<lambda>_. ret GOAL_TERMINATED)))"
    by (rule routine_reason [where good = "\<lambda>trm. trm \<noteq> TERM_SUCCESS"])
      (use assms inflight_reason in \<open>auto intro!: routine_rules\<close>)
  then show ?case by (intro routine_if routine_simple)
qed (rule routine_simple)+

lemma routine_poll [routine_rules]: "well_behaved gid E \<Longrightarrow> routine gid iid (poll E gid pending)"
  unfolding poll_def by (intro routine_rules)

lemma routine_collect_loop [routine_rules]:
  assumes E: "well_behaved gid E"
  shows "routine gid iid (collect_loop E gid pending)"
proof -
  have "E' = E \<longrightarrow> g = gid \<longrightarrow> owned gid iid (store w) \<longrightarrow> goal_run gid (store w) (store (fst y))"
    if "collect_loop E' g p w = Some y" for E' g p w y
  proof (rule collect_loop.raw_induct [OF _ that], intro impI)
    fix loop E' g p w y
    assume IH: "\<And>E' g p w y. loop E' g p w = Some y \<Longrightarrow>
        E' = E \<longrightarrow> g = gid \<longrightarrow> owned gid iid (store w) \<longrightarrow> goal_run gid (store w) (store (fst y))"
      and body: "(if p = [] then Some (w, Inr ())
        else Option.bind (poll E' g p w) (\<lambda>q. case snd q of
          Inl e \<Rightarrow> Some (fst q, Inl e) | Inr rest \<Rightarrow> loop E' g rest (fst q))) = Some y"
      and eqs: "E' = E" "g = gid" and own: "owned gid iid (store w)"
    show "goal_run gid (store w) (store (fst y))"
    proof (cases "poll E gid p w")
      case None
      then show ?thesis using body eqs by (auto split: if_split_asm)
    next
      case (Some q)
      then obtain w1 r1 where poll: "poll E gid p w = Some (w1, r1)" by (cases q) auto
      have R: "goal_run gid (store w) (store w1)"
        using tripleD(1) [OF routine_poll [OF E, unfolded routine_def] own poll] .
      show ?thesis
      proof (cases r1)
        case (Inl e)
        then show ?thesis using body eqs poll R by (auto split: if_split_asm)
      next
        case (Inr rest)
        then have "p = [] \<and> y = (w, Inr ()) \<or> loop E gid rest w1 = Some y"
          using body eqs poll by (auto split: if_split_asm)
        then show ?thesis using IH [of E gid rest w1 y] owned_run [OF R own] R by (auto intro: goal_run_trans)
      qed
    qed
  qed
  then have "triple gid (owned gid iid) (collect_loop E gid pending) (\<lambda>_ _. True)"
    unfolding triple_def by fastforce
  then show ?thesis by (rule routineI)
qed

lemma routine_dispatch_and_collect [routine_rules]:
  "well_behaved gid E \<Longrightarrow> routine gid iid (dispatch_and_collect E gid iid)"
  unfolding dispatch_and_collect_def by (intro routine_rules)


section \<open>The verdict\<close>

lemma verification_from_dict_verdict:
  assumes "verification_from_dict d = Inr v"
  shows "check_goal_verification v = Inr ()"
    and "gv_satisfied v \<Longrightarrow> json_int (dict_get d ''steerVersion'' (JInt 0)) = Inr ver \<Longrightarrow> satisfied_verdict d ver"
  using assms
  by (auto simp: verification_from_dict_def satisfied_verdict_def dict_item_def Let_def split: option.splits)

lemma verification_payload_verdict: "gv_satisfied v \<Longrightarrow> satisfied_verdict (verification_payload v ver) ver"
  by (simp add: satisfied_verdict_def verification_payload_def redact_dict_def verification_to_dict_def
      dict_get_def decision_keys_kept json_int_def py_int_def)

lemma record_verification_stands:
  assumes "record_goal_verification now iid v ver db = Inr (db', b)" and "b" and "gv_satisfied v"
  shows "verdict_stands iid ver db'"
  using assms verification_payload_verdict [OF assms(3), of ver]
  by (auto simp: record_goal_verification_def verdict_stands_def get_iteration_def Let_def row_by_upd_by
      elim!: if_phase_currentE)

definition verdict_post :: "string \<Rightarrow> string \<Rightarrow> (goal_verification \<times> int) option \<Rightarrow> db \<Rightarrow> bool" where
  "verdict_post gid iid x db \<longleftrightarrow> owned gid iid db \<and>
     (\<forall>v ver. x = Some (v, ver) \<longrightarrow> check_goal_verification v = Inr () \<and>
        (gv_satisfied v \<longrightarrow> verdict_stands iid ver db))"

lemma verdict_none: "routine gid iid m \<Longrightarrow> triple gid (owned gid iid) (andthen m (\<lambda>_. ret None)) (verdict_post gid iid)"
  unfolding routine_def by (erule triple_andthen) (simp add: triple_ret verdict_post_def)

lemma routine_then:
  "routine gid iid m \<Longrightarrow> (\<And>x. triple gid (owned gid iid) (f x) Q) \<Longrightarrow> triple gid (owned gid iid) (andthen m f) Q"
  unfolding routine_def by (rule triple_andthen)


lemma verify_checked:
  assumes "well_behaved gid E"
  shows "triple gid (owned gid iid) (verify E c rs) (\<lambda>v db. owned gid iid db \<and> check_goal_verification v = Inr ())"
proof -
  have "triple gid (owned gid iid) (verify E c rs) (\<lambda>v _. check_goal_verification v = Inr ())"
    unfolding verify_def
    by (rule routine_then, intro routine_rules assms)
      (auto split: sum.split intro!: triple_ret triple_raise)
  then show ?thesis by (rule routine_keeps)
qed

lemma triple_record_verification:
  assumes "well_behaved gid E"
  shows "triple gid (owned gid iid)
      (andthen (verify E c results) (\<lambda>v.
       andthen (assert_ownership E) (\<lambda>_.
       andthen (transact (\<lambda>now. record_goal_verification now iid v ver)) (\<lambda>recorded.
       ret (if recorded then Some (v, ver) else None))))) (verdict_post gid iid)"
proof (rule triple_andthen [OF verify_checked [OF assms]])
  fix v
  define Q where "Q b db \<longleftrightarrow> owned gid iid db \<and> check_goal_verification v = Inr () \<and>
    (b \<longrightarrow> gv_satisfied v \<longrightarrow> verdict_stands iid ver db)" for b db
  have "triple gid (\<lambda>db. owned gid iid db \<and> check_goal_verification v = Inr ())
      (transact (\<lambda>now. record_goal_verification now iid v ver)) Q"
  proof (rule triple_transact)
    fix now db db' b
    assume pre: "owned gid iid db \<and> check_goal_verification v = Inr ()"
      and op: "record_goal_verification now iid v ver db = Inr (db', b)"
    then have step: "engine_step gid db db'" by (auto intro: es_verification simp: owned_def)
    from owned_run [OF engine_goal_run [OF step]] pre record_verification_stands [OF op] step
    show "engine_step gid db db' \<and> Q b db'" unfolding Q_def by blast
  qed
  then show "triple gid (\<lambda>db. owned gid iid db \<and> check_goal_verification v = Inr ())
      (andthen (assert_ownership E) (\<lambda>_.
       andthen (transact (\<lambda>now. record_goal_verification now iid v ver)) (\<lambda>recorded.
       ret (if recorded then Some (v, ver) else None)))) (verdict_post gid iid)"
    by (intro triple_andthen [OF triple_guard] triple_andthen [where R = Q] triple_ret)
      (auto simp: verdict_post_def Q_def)
qed

lemma triple_restore_verification:
  "triple gid (\<lambda>db. owned gid iid db \<and>
       (\<exists>it. row_by it_id iid (autonomous_iterations db) = Some it \<and> it_verification it = Some d))
     (andthen (lift (verification_from_dict d)) (\<lambda>v.
      andthen (lift (json_int (dict_get d ''steerVersion'' (JInt 0)))) (\<lambda>ver. ret (Some (v, ver)))))
     (verdict_post gid iid)" (is "triple _ ?P _ _")
proof (rule triple_andthen [OF triple_lift [where Q = "\<lambda>v db. ?P db \<and> verification_from_dict d = Inr v"]],
    simp, rule triple_andthen [OF triple_lift [where Q = "\<lambda>ver db. ?P db \<and> verification_from_dict d = Inr v \<and>
      json_int (dict_get d ''steerVersion'' (JInt 0)) = Inr ver" for v]], simp, rule triple_ret)
  fix v ver db
  assume "?P db \<and> verification_from_dict d = Inr v \<and> json_int (dict_get d ''steerVersion'' (JInt 0)) = Inr ver"
  then show "verdict_post gid iid (Some (v, ver)) db"
    using verification_from_dict_verdict [of d v] by (auto simp: verdict_post_def verdict_stands_def)
qed

lemma triple_verification_checkpoint:
  assumes "well_behaved gid E"
  shows "triple gid (owned gid iid) (verification_checkpoint E gid iid results expected) (verdict_post gid iid)"
  unfolding verification_checkpoint_def
proof (rule triple_andthen [OF triple_reading [where Q = "\<lambda>it db. owned gid iid db \<and>
      row_by it_id iid (autonomous_iterations db) = Some it"]], goal_cases)
  case (2 it)
  have none: "triple gid (owned gid iid) (ret None) (verdict_post gid iid)"
    by (simp add: triple_ret verdict_post_def)
  show ?case
  proof (cases "it_verification it")
    case None
    show ?thesis unfolding None option.case
      by (rule triple_pre [where P = "owned gid iid"])
        (auto intro!: none routine_then routine_rules triple_record_verification assms)
  next
    case (Some d)
    have stale: "triple gid (owned gid iid) (andthen (transact (\<lambda>now. phase_is_current now gid iid (-1)))
        (\<lambda>_. ret None)) (verdict_post gid iid)"
      by (intro verdict_none routine_rules)
    show ?thesis unfolding Some option.case
      by (rule triple_andthen [OF triple_reading], assumption)
        (use stale triple_restore_verification Some in \<open>auto intro: triple_pre\<close>)
  qed
qed (simp add: get_iteration_def)


section \<open>One iteration is a sequence of legal steps\<close>

lemma unsatisfied_reason: "check_goal_verification v = Inr () \<Longrightarrow> \<not> gv_satisfied v \<Longrightarrow> gv_termination_reason v = Some r \<Longrightarrow>
    r \<noteq> TERM_SUCCESS"
  by (auto simp: check_goal_verification_def)

lemma triple_apply_outcome:
  assumes "check_goal_verification v = Inr ()" and "0 \<le> failed"
  shows "triple gid (\<lambda>db. owned gid iid db \<and> (gv_satisfied v \<longrightarrow> verdict_stands iid ver db))
    (apply_verification_outcome gid iid v failed ver) (\<lambda>_. owned gid iid)"
proof (cases "gv_satisfied v")
  case True
  define Q where "Q c db \<longleftrightarrow> owned gid iid db \<and> verdict_stands iid ver db \<and> context_of db gid = Inr c" for c db
  have success: "triple gid (\<lambda>db. owned gid iid db \<and> verdict_stands iid ver db \<and> goal_settled gid db)
      (transact (\<lambda>now. terminate_phase_if_current now gid iid TERM_SUCCESS detail ver)) (\<lambda>_. owned gid iid)" for detail
  proof (rule triple_transact)
    fix now db db' b
    assume pre: "owned gid iid db \<and> verdict_stands iid ver db \<and> goal_settled gid db"
      and op: "terminate_phase_if_current now gid iid TERM_SUCCESS detail ver db = Inr (db', b)"
    then have step: "engine_step gid db db'" by (auto intro: es_success simp: owned_def)
    with owned_run [OF engine_goal_run [OF step]] pre show "engine_step gid db db' \<and> owned gid iid db'" by blast
  qed
  have "triple gid (Q c) (if list_ex task_unfinished (gc_tasks c) \<or> list_ex run_active (gc_worker_runs c)
      then ret False
      else andthen (transact (\<lambda>now. terminate_phase_if_current now gid iid TERM_SUCCESS (gv_summary v) ver))
        (\<lambda>_. ret True)) (\<lambda>_. owned gid iid)" for c
    by (auto intro!: triple_ret triple_andthen [OF triple_pre [OF success]] simp: Q_def goal_settled_def)
  then show ?thesis using True unfolding apply_verification_outcome_def
    by simp (rule triple_andthen [OF triple_reading [where Q = Q]]; simp add: Q_def)
next
  case False
  have "routine gid iid (apply_verification_outcome gid iid v failed ver)"
    using False unsatisfied_reason [OF assms(1) False] assms(2) unfolding apply_verification_outcome_def
    by (cases "gv_termination_reason v") (simp_all, (intro routine_rules; assumption?)+)
  then show ?thesis using False unfolding routine_def by (auto elim: triple_pre)
qed

lemma triple_conclude:
  assumes "well_behaved gid E" and "0 \<le> failed"
  shows "triple gid (verdict_post gid iid x) (conclude E gid iid failed x) (\<lambda>_. owned gid iid)"
proof (cases x)
  case None
  then show ?thesis by (auto simp: conclude_def verdict_post_def intro: triple_ret)
next
  case (Some p)
  obtain v ver where x: "x = Some (v, ver)" using Some by (cases p) simp
  show ?thesis
  proof (cases "check_goal_verification v = Inr ()")
    case True
    have "routine gid iid (if applied then ret () else await (en_sleep E))" for applied
      by (intro routine_rules assms(1))
    then show ?thesis unfolding x conclude_def
      by (auto intro!: triple_andthen [OF triple_pre [OF triple_apply_outcome [OF True assms(2)]]]
          simp: verdict_post_def routine_def)
  qed (simp add: triple_def verdict_post_def x)
qed

lemma routine_verification [routine_rules]:
  assumes "well_behaved gid E" and "0 \<le> failed"
  shows "routine gid iid (andthen (verification_checkpoint E gid iid results expected) (conclude E gid iid failed))"
  unfolding routine_def
  by (rule triple_andthen [OF triple_verification_checkpoint [OF assms(1)] triple_conclude [OF assms]])

lemma routine_work_phase [routine_rules]: "well_behaved gid E \<Longrightarrow> routine gid iid (work_phase E gid iid)"
  unfolding work_phase_def by (intro routine_rules; simp)


lemma evaluation_reason:
  "check_goal_evaluation e = Inr () \<Longrightarrow> ge_disposition e = EVAL_TERMINATE \<Longrightarrow> ge_termination_reason e = Some trm \<Longrightarrow>
   trm \<noteq> TERM_SUCCESS"
  by (auto simp: check_goal_evaluation_def)

lemma evaluation_from_dict_checked: "evaluation_from_dict d = Inr e \<Longrightarrow> check_goal_evaluation e = Inr ()"
  by (auto simp: evaluation_from_dict_def Let_def)

lemma routine_evaluation_checkpoint [routine_rules]:
  "well_behaved gid E \<Longrightarrow> routine gid iid (evaluation_checkpoint E iid it c)"
  unfolding evaluation_checkpoint_def evaluate_def by (intro routine_rules; assumption?)

lemma evaluation_checkpoint_checked:
  "evaluation_checkpoint E iid it c w = Some (w', Inr (Some (e, ver))) \<Longrightarrow> check_goal_evaluation e = Inr ()"
  by (auto simp: evaluation_checkpoint_def evaluate_def andthen_def lift_def ret_def raise_def
      dest: evaluation_from_dict_checked split: option.splits sum.splits prod.splits if_split_asm)

lemma triple_record_plan:
  "triple gid (\<lambda>db. owned gid iid db \<and> may_plan gid (length (gp_actions plan)) db)
     (transact (\<lambda>now. record_plan now u5 iid gid plan ver)) (\<lambda>_. owned gid iid)"
proof (rule triple_transact)
  fix now db db' b
  assume pre: "owned gid iid db \<and> may_plan gid (length (gp_actions plan)) db"
    and op: "record_plan now u5 iid gid plan ver db = Inr (db', b)"
  then have step: "engine_step gid db db'" by (auto intro: es_plan simp: owned_def)
  with owned_run [OF engine_goal_run [OF step]] pre show "engine_step gid db db' \<and> owned gid iid db'" by blast
qed

lemma routine_plan_goal [routine_rules]: "well_behaved gid E \<Longrightarrow> routine gid iid (plan_goal E c e)"
  unfolding plan_goal_def by (intro routine_rules; assumption?)

lemma routine_planning_phase [routine_rules]:
  assumes "well_behaved gid E"
  shows "routine gid iid (planning_phase E gid iid e)"
proof -
  define P where "P goal db \<longleftrightarrow> owned gid iid db \<and> row_by go_id gid (autonomous_goals db) = Some goal" for goal db
  have planned: "triple gid (P goal) (andthen (lift (budget_from_dict (go_budgets goal))) (\<lambda>b.
      if gb_max_tasks b < go_task_count goal + int (length (gp_actions plan)) then m
      else transact (\<lambda>now. record_plan now u5 iid gid plan ver))) (\<lambda>_. owned gid iid)"
    if m: "routine gid iid m" for goal plan m u5 ver
  proof (rule triple_andthen [OF triple_lift [where Q = "\<lambda>b db. P goal db \<and> budget_from_dict (go_budgets goal) = Inr b"]])
    show "triple gid (\<lambda>db. P goal db \<and> budget_from_dict (go_budgets goal) = Inr b)
        (if gb_max_tasks b < go_task_count goal + int (length (gp_actions plan)) then m
         else transact (\<lambda>now. record_plan now u5 iid gid plan ver)) (\<lambda>_. owned gid iid)" for b
      using m by (auto intro: triple_pre [OF triple_record_plan] triple_pre simp: P_def may_plan_def routine_def)
  qed simp
  have checked: "triple gid (owned gid iid) (andthen (reading (\<lambda>db. get_goal db gid)) f) (\<lambda>_. owned gid iid)"
    if "\<And>goal. triple gid (P goal) (f goal) (\<lambda>_. owned gid iid)" for f :: "goal_row \<Rightarrow> bool prog"
    by (rule triple_andthen [OF triple_reading [where Q = P] that]) (simp add: P_def)
  have pre: "triple gid (P goal) m (\<lambda>_. owned gid iid)" if "routine gid iid m" for goal and m :: "bool prog"
    using that unfolding routine_def by (rule triple_pre) (simp add: P_def)
  show ?thesis unfolding planning_phase_def Let_def
    by (rule routine_andthen [OF routine_control_gate], rule routine_if [OF routine_simple(1)],
        rule routine_andthen [OF routine_simple(3)], rule routine_andthen [OF routine_plan_goal [OF assms]],
        rule routine_andthen [OF routine_simple(5)], unfold routine_def, rule checked)
      (auto intro!: planned intro: pre routine_rules)
qed

lemma routine_advance_iteration [routine_rules]:
  assumes E: "well_behaved gid E"
  shows "routine gid iid (advance_iteration E gid iid)"
proof -
  have checked: "routine gid iid (andthen (evaluation_checkpoint E iid it c) f)"
    if "routine gid iid (f None)" "\<And>e ver. check_goal_evaluation e = Inr () \<Longrightarrow> routine gid iid (f (Some (e, ver)))"
    for it c and f :: "(goal_evaluation \<times> int) option \<Rightarrow> unit prog"
    using routine_reason [OF routine_evaluation_checkpoint [OF E] evaluation_checkpoint_checked that] .
  show ?thesis unfolding advance_iteration_def
  proof (intro routine_andthen [OF routine_simple(3)] checked, goal_cases)
    case (2 it c e ver)
    then have reason: "ge_disposition e = EVAL_TERMINATE \<Longrightarrow> ge_termination_reason e = Some trm \<Longrightarrow> trm \<noteq> TERM_SUCCESS"
      for trm by (rule evaluation_reason)
    show ?case
      by (cases "ge_disposition e = EVAL_TERMINATE"; cases "ge_termination_reason e")
        (simp_all add: reason routine_rules E)
  qed (simp add: routine_simple)
qed

section \<open>The loop\<close>

lemma unique_run:
  "goal_run gid db db' \<Longrightarrow> unique_key it_id (autonomous_iterations db) \<Longrightarrow> unique_key it_id (autonomous_iterations db')"
proof (induction rule: goal_run_induct)
  case (engine a b)
  then show ?case using engine_goal_step iterations_kept_step by (fastforce simp: iterations_kept_def)
next
  case (other a b)
  then show ?case using others_goal_step [OF other(2)] iterations_kept_step
    by (fastforce simp: iterations_kept_def foreign_def)
qed

text \<open>Nobody else counts for the goal or changes its budget.\<close>

definition goal_limits :: "string \<Rightarrow> db \<Rightarrow> int \<times> int \<times> (string \<times> json) list \<Rightarrow> bool" where
  "goal_limits gid db l \<longleftrightarrow>
     (\<exists>g. row_by go_id gid (autonomous_goals db) = Some g \<and>
        l = (go_iteration_count g, go_task_count g, go_budgets g))"

lemma goal_limits_update [simp]:
  assumes "\<And>x. go_id (f x) = go_id x \<and> go_iteration_count (f x) = go_iteration_count x \<and>
    go_task_count (f x) = go_task_count x \<and> go_budgets (f x) = go_budgets x"
  shows "goal_limits gid (update_goal k f db) = goal_limits gid db"
  using assms by (auto simp: goal_limits_def row_by_upd_by fun_eq_iff)

lemma goal_limits_simps [simp]:
  "goal_limits gid (append_event now e db) = goal_limits gid db"
  "goal_limits gid (db\<lparr>autonomous_steers := sts\<rparr>) = goal_limits gid db"
  "goal_limits gid (update_iteration iid h db) = goal_limits gid db"
  "goal_limits gid (close_iteration now iid st db) = goal_limits gid db"
  "goal_limits gid (interrupt_phase now g iid ver db) = goal_limits gid db"
  "goal_limits gid (db\<lparr>autonomous_actions := acts\<rparr>) = goal_limits gid db"
  "goal_limits gid (db\<lparr>autonomous_iterations := its\<rparr>) = goal_limits gid db"
  by (simp_all add: goal_limits_def fun_eq_iff)

lemma others_limits: "others gid db db' \<Longrightarrow> goal_limits gid db l \<Longrightarrow> goal_limits gid db' l"
proof (induction rule: others.induct)
  case (ot_create now uuid pid intent budgets ogid actor r1)
  then show ?case by (auto simp: create_goal_def Let_def goal_limits_def row_simps)
next
  case (ot_foreign)
  then show ?case by (simp add: foreign_def goal_limits_def)
qed (auto simp: pause_def resume_def steer_def stop_def Let_def touch_goal_def end_goal_def split: if_split_asm)

lemma others_run_limits: "(others gid)\<^sup>*\<^sup>* db db' \<Longrightarrow> goal_limits gid db l \<Longrightarrow> goal_limits gid db' l"
  by (induction rule: rtranclp_induct) (auto intro: others_limits)


lemma may_iterate_limits:
  "may_iterate gid db \<longleftrightarrow>
     (\<exists>n m d b. goal_limits gid db (n, m, d) \<and> budget_from_dict d = Inr b \<and> n < gb_max_iterations b)"
  by (auto simp: may_iterate_def goal_limits_def)

abbreviation unique_iterations :: "db \<Rightarrow> bool" where
  "unique_iterations db \<equiv> unique_key it_id (autonomous_iterations db)"

lemma budget_guard_allows:
  assumes "budget_guard E goal w = Some (w', Inr None)" and "well_behaved gid E"
    and "row_by go_id gid (autonomous_goals (store w)) = Some goal"
  shows "may_iterate gid (store w')"
proof (cases "budget_from_dict (go_budgets goal)")
  case (Inl e)
  then show ?thesis using assms(1) by (simp add: budget_guard_def raise_def)
next
  case (Inr b)
  have "(others gid)\<^sup>*\<^sup>* (store w) (store w')" and "go_iteration_count goal < gb_max_iterations b"
    using assms(1) well_behaved_rules(8) [OF assms(2), of "go_id goal", unfolded others_run_def, rule_format, of w] Inr
    by (auto simp: budget_guard_def ret_def andthen_def await_def split: if_split_asm prod.splits sum.splits)
  moreover have "goal_limits gid (store w) (go_iteration_count goal, go_task_count goal, go_budgets goal)"
    using assms(3) by (simp add: goal_limits_def)
  ultimately show ?thesis unfolding may_iterate_limits using Inr others_run_limits by blast
qed

lemma triple_budget_guard:
  assumes "well_behaved gid E"
  shows "triple gid (\<lambda>db. unique_iterations db \<and> row_by go_id gid (autonomous_goals db) = Some goal)
    (budget_guard E goal)
    (\<lambda>x db. unique_iterations db \<and> (x = None \<longrightarrow> may_iterate gid db) \<and>
       (\<forall>trm detail. x = Some (trm, detail) \<longrightarrow> trm \<noteq> TERM_SUCCESS))"
proof (rule tripleI)
  fix w w' r
  assume P: "unique_iterations (store w) \<and> row_by go_id gid (autonomous_goals (store w)) = Some goal"
    and g: "budget_guard E goal w = Some (w', r)"
  have run: "goal_run gid (store w) (store w')"
  proof (cases "budget_from_dict (go_budgets goal)")
    case (Inr b)
    then show ?thesis
      using g others_goal_run [OF well_behaved_rules(8) [OF assms, of "go_id goal", unfolded others_run_def, rule_format, of w]]
      by (auto simp: budget_guard_def ret_def andthen_def await_def split: if_split_asm prod.splits sum.splits)
  qed (use g in \<open>simp add: budget_guard_def raise_def\<close>)
  with unique_run [OF run] P budget_guard_allows [of E goal w w' gid] assms budget_reason [of E goal w w'] g
  show "goal_run gid (store w) (store w') \<and> (\<forall>x. r = Inr x \<longrightarrow> unique_iterations (store w') \<and>
      (x = None \<longrightarrow> may_iterate gid (store w')) \<and> (\<forall>trm detail. x = Some (trm, detail) \<longrightarrow> trm \<noteq> TERM_SUCCESS))"
    by blast
qed

lemma triple_at: "(\<And>k. triple gid P (transact (op k)) Q) \<Longrightarrow> triple gid P (\<lambda>w. transact (op (f w)) w) Q"
  unfolding triple_def by blast

lemma begin_iteration_owned:
  assumes "begin_iteration now uuid gid db = Inr (db', i)" and "unique_iterations db"
  shows "owned gid (it_id i) db'"
proof -
  have "unique_iterations db'"
    using iterations_kept_begin [OF assms(1)] assms(2) by (simp add: iterations_kept_def)
  moreover have "row_by it_id (it_id i) (autonomous_iterations db') = Some i \<and> it_goal_id i = gid"
    using assms(1) by (auto simp: begin_iteration_def get_iteration_def Let_def row_simps new_iteration_def)
  ultimately show ?thesis by (auto simp: owned_def iteration_of_def)
qed

lemma list_last_in: "list_last xs = Some x \<Longrightarrow> x \<in> set xs"
  by (cases xs rule: rev_cases) (auto simp: list_last_def list_hd_def)

lemma active_iteration_owned:
  assumes "active_iteration db gid = Some i" and "unique_iterations db"
  shows "owned gid (it_id i) db"
proof -
  have "i \<in> set (autonomous_iterations db) \<and> it_goal_id i = gid"
    using assms(1) unfolding active_iteration_def
    by (metis (mono_tags, lifting) list_last_in mem_Collect_eq set_filter set_sort)
  then show ?thesis using row_by_in [OF assms(2)] assms(2) by (auto simp: owned_def iteration_of_def)
qed


lemma triple_choose_iteration:
  assumes E: "well_behaved gid E"
  shows "triple gid (\<lambda>db. unique_iterations db \<and> row_by go_id gid (autonomous_goals db) = Some goal)
    (choose_iteration E gid goal) (\<lambda>x db. \<forall>iid. x = Some iid \<longrightarrow> owned gid iid db)" (is "triple _ ?P _ ?Q")
  unfolding choose_iteration_def
proof (rule triple_andthen [OF triple_reading [where Q = "\<lambda>a db. ?P db \<and> active_iteration db gid = a"]], goal_cases)
  case (2 active)
  have fresh: "triple gid (\<lambda>db. unique_iterations db \<and> may_iterate gid db)
      (transact (\<lambda>now. begin_iteration now k gid)) (\<lambda>i. owned gid (it_id i))" for k
    by (rule triple_transact) (blast intro: es_begin begin_iteration_owned)
  have over: "triple gid (\<lambda>_. trm \<noteq> TERM_SUCCESS) (transact (\<lambda>now. terminate now gid trm detail)) (\<lambda>_ _. True)"
    for trm detail by (rule triple_transact) (blast intro: es_terminate)
  show ?case
  proof (cases active)
    case None
    show ?thesis unfolding None option.case
    proof (rule triple_pre [OF triple_andthen [OF triple_budget_guard [OF E]]], goal_cases)
      case (1 guard)
      show ?case
        by (cases guard)
          (auto intro!: triple_andthen [OF triple_pre [OF over]] triple_ret
            triple_andthen [OF triple_at [OF triple_pre [OF fresh]]])
    qed simp
  qed (auto intro: triple_ret active_iteration_owned)
qed simp

lemma triple_run_once:
  assumes E: "well_behaved gid E"
  shows "triple gid unique_iterations (run_once E gid) (\<lambda>_ _. True)"
proof -
  have advance: "triple gid (\<lambda>db. \<forall>i. iid = Some i \<longrightarrow> owned gid i db)
      (case iid of None \<Rightarrow> ret () | Some i \<Rightarrow> advance_iteration E gid i) (\<lambda>_ _. True)" for iid
    using routine_advance_iteration [OF E, unfolded routine_def]
    by (cases iid) (auto intro: triple_ret triple_post)
  have start: "triple gid unique_iterations
      (if c then transact (\<lambda>now. start_goal now gid) else ret ()) (\<lambda>_. unique_iterations)" for c
    by (auto intro!: triple_transact triple_ret es_start intro: unique_run [OF engine_goal_run])
  show ?thesis unfolding run_once_def
    by (rule triple_andthen [OF triple_guard], assumption,
        rule triple_andthen [OF triple_reading [where Q = "\<lambda>_. unique_iterations"]], assumption,
        rule triple_andthen [OF start],
        rule triple_andthen [OF triple_reading [where Q = "\<lambda>goal db. unique_iterations db \<and>
          row_by go_id gid (autonomous_goals db) = Some goal"]])
      (auto intro!: triple_ret triple_reading triple_andthen [OF triple_choose_iteration [OF E]]
        triple_andthen [OF advance])
qed

text \<open>The whole loop, for as long as it runs.\<close>

lemma run_steps:
  assumes E: "well_behaved gid E" and "run E gid w = Some (w', r)" and "unique_iterations (store w)"
  shows "goal_run gid (store w) (store w')"
proof -
  have "E' = E \<longrightarrow> g = gid \<longrightarrow> unique_iterations (store w) \<longrightarrow> goal_run gid (store w) (store (fst y))"
    if "run E' g w = Some y" for E' g w y
  proof (rule run.raw_induct [OF _ that], intro impI)
    fix loop E' g w y
    assume IH: "\<And>E' g w y. loop E' g w = Some y \<Longrightarrow>
        E' = E \<longrightarrow> g = gid \<longrightarrow> unique_iterations (store w) \<longrightarrow> goal_run gid (store w) (store (fst y))"
      and body: "(case get_goal (store w) g of
        Inl e \<Rightarrow> Some (w, Inl e)
      | Inr goal \<Rightarrow>
          if go_state goal \<in> {GOAL_SOFT_PAUSED, GOAL_HARD_PAUSED, GOAL_STOPPED, GOAL_TERMINATED}
          then Some (w, Inr goal)
          else Option.bind (run_once E' g w) (\<lambda>p. case snd p of
              Inl e \<Rightarrow> Some (fst p, Inl e) | Inr _ \<Rightarrow> loop E' g (fst p))) = Some y"
      and eqs: "E' = E" "g = gid" and own: "unique_iterations (store w)"
    show "goal_run gid (store w) (store (fst y))"
    proof (cases "run_once E gid w")
      case None
      then show ?thesis using body eqs by (auto split: if_split_asm sum.splits)
    next
      case (Some q)
      then obtain w1 r1 where once: "run_once E gid w = Some (w1, r1)" by (cases q) auto
      have R: "goal_run gid (store w) (store w1)" using tripleD(1) [OF triple_run_once [OF E] own once] .
      have "fst y = w \<or> fst y = w1 \<or> loop E gid w1 = Some y"
        using body eqs once by (auto split: if_split_asm sum.splits)
      then show ?thesis using IH [of E gid w1 y] unique_run [OF R own] R by (auto intro: goal_run_trans)
    qed
  qed
  from this [OF assms(2)] assms(3) show ?thesis by simp
qed

section \<open>Success is evidenced\<close>

definition journaled :: "db \<Rightarrow> string \<Rightarrow> (string \<times> json) list \<Rightarrow> bool" where
  "journaled db iid d \<longleftrightarrow>
     (\<exists>e. e \<in> set (events db) \<and> ev_kind e = ''goalVerified'' \<and> ev_entity_id e = iid \<and> ev_payload e = d)"

text \<open>
  Stored verdicts of the goal are in the journal, and a goal that ended as a success has such a
  verdict: satisfied, of one of its own iterations, and taken under the goal's last steer version.
\<close>

definition evidenced :: "string \<Rightarrow> db \<Rightarrow> bool" where
  "evidenced gid db \<longleftrightarrow>
     (\<forall>iid it d. row_by it_id iid (autonomous_iterations db) = Some it \<and> it_goal_id it = gid \<and>
        it_verification it = Some d \<longrightarrow> journaled db iid d) \<and>
     (\<forall>g. row_by go_id gid (autonomous_goals db) = Some g \<and> go_termination_reason g = Some TERM_SUCCESS \<longrightarrow>
        goal_ended g \<and> (\<exists>iid d. iteration_of gid iid db \<and> journaled db iid d \<and>
          satisfied_verdict d (go_steer_version g)))"

text \<open>How a step may change the verdicts and the outcome of the goal.\<close>

definition verdicts_follow :: "string \<Rightarrow> db \<Rightarrow> db \<Rightarrow> bool" where
  "verdicts_follow gid db db' \<longleftrightarrow>
     (\<forall>iid it d. row_by it_id iid (autonomous_iterations db') = Some it \<and> it_goal_id it = gid \<and>
        it_verification it = Some d \<longrightarrow>
        (\<exists>it0. row_by it_id iid (autonomous_iterations db) = Some it0 \<and> it_goal_id it0 = gid \<and>
           it_verification it0 = Some d) \<or> journaled db' iid d)"

definition no_new_success :: "string \<Rightarrow> db \<Rightarrow> db \<Rightarrow> bool" where
  "no_new_success gid db db' \<longleftrightarrow>
     (\<forall>g'. row_by go_id gid (autonomous_goals db') = Some g' \<and> go_termination_reason g' = Some TERM_SUCCESS \<longrightarrow>
        (\<exists>g. row_by go_id gid (autonomous_goals db) = Some g \<and> go_termination_reason g = Some TERM_SUCCESS))"

lemma journaled_prefix: "prefix (events db) (events db') \<Longrightarrow> journaled db iid d \<Longrightarrow> journaled db' iid d"
  by (auto simp: journaled_def prefix_def)

lemma journaled_simps [simp]:
  "journaled (update_goal k f db) iid d = journaled db iid d"
  "journaled (update_iteration i h db) iid d = journaled db iid d"
  "journaled (db\<lparr>autonomous_actions := acts\<rparr>) iid d = journaled db iid d"
  "journaled (db\<lparr>autonomous_goals := gs\<rparr>) iid d = journaled db iid d"
  "journaled (append_event now e db) iid d \<longleftrightarrow>
     journaled db iid d \<or> ev_kind e = ''goalVerified'' \<and> ev_entity_id e = iid \<and> ev_payload e = d"
  by (auto simp: journaled_def update_goal_def update_iteration_def append_event_def)

lemma verdicts_follow_refl [simp]: "verdicts_follow gid db db"
  by (auto simp: verdicts_follow_def)

lemma verdicts_follow_same: "autonomous_iterations db' = autonomous_iterations db \<Longrightarrow> verdicts_follow gid db db'"
  by (auto simp: verdicts_follow_def)

lemma verdicts_follow_simps [simp]:
  "verdicts_follow gid db db' \<Longrightarrow> verdicts_follow gid db (append_event now e db')"
  "verdicts_follow gid db (update_goal k f db') = verdicts_follow gid db db'"
  "verdicts_follow gid db (db'\<lparr>autonomous_actions := acts\<rparr>) = verdicts_follow gid db db'"
  by (auto simp: verdicts_follow_def)

lemma verdicts_follow_update [simp]:
  assumes "\<And>i. it_id (f i) = it_id i \<and> it_goal_id (f i) = it_goal_id i \<and> it_verification (f i) = it_verification i"
    and "verdicts_follow gid db db'"
  shows "verdicts_follow gid db (update_iteration iid f db')"
proof -
  have "\<exists>it'. row_by it_id k (autonomous_iterations db') = Some it' \<and> it_goal_id it' = it_goal_id it \<and>
      it_verification it' = it_verification it"
    if "row_by it_id k (upd_by it_id iid f (autonomous_iterations db')) = Some it" for k it
    using that assms(1) by (auto simp: row_by_upd_by split: if_split_asm)
  then show ?thesis using assms(2) unfolding verdicts_follow_def update_iteration_simps journaled_simps by metis
qed

lemma verdicts_follow_close [simp]:
  "verdicts_follow gid db db' \<Longrightarrow> verdicts_follow gid db (close_iteration now iid st db')"
  "verdicts_follow gid db db' \<Longrightarrow> verdicts_follow gid db (interrupt_phase now g iid ver db')"
  by (simp_all add: close_iteration_def interrupt_phase_def)

lemma no_new_success_refl [simp]: "no_new_success gid db db"
  by (auto simp: no_new_success_def)

lemma no_new_success_simps [simp]:
  "no_new_success gid db (append_event now e db') = no_new_success gid db db'"
  "no_new_success gid db (update_iteration iid h db') = no_new_success gid db db'"
  "no_new_success gid db (close_iteration now iid st db') = no_new_success gid db db'"
  "no_new_success gid db (interrupt_phase now g iid ver db') = no_new_success gid db db'"
  "no_new_success gid db (db'\<lparr>autonomous_actions := acts\<rparr>) = no_new_success gid db db'"
  "no_new_success gid db (db'\<lparr>autonomous_iterations := its\<rparr>) = no_new_success gid db db'"
  "no_new_success gid db (db'\<lparr>autonomous_steers := sts\<rparr>) = no_new_success gid db db'"
  by (simp_all add: no_new_success_def)

lemma no_new_success_update [simp]:
  assumes "no_new_success gid db db'" and "\<And>x. go_id (f x) = go_id x"
    and "\<And>x. go_termination_reason (f x) = Some TERM_SUCCESS \<longrightarrow> go_termination_reason x = Some TERM_SUCCESS"
  shows "no_new_success gid db (update_goal k f db')"
proof -
  have "row_by go_id gid (autonomous_goals (update_goal k f db')) =
      map_option (if gid = k then f else id) (row_by go_id gid (autonomous_goals db'))"
    using assms(2) by (simp add: row_by_upd_by option.map_id)
  then show ?thesis using assms(1,3) by (auto simp: no_new_success_def split: if_split_asm)
qed

lemma no_new_success_same: "autonomous_goals db' = autonomous_goals db \<Longrightarrow> no_new_success gid db db'"
  by (auto simp: no_new_success_def)

lemma touch_reason [simp]: "go_termination_reason (touch_goal now g) = go_termination_reason g"
  by (simp add: touch_goal_def)

lemma end_goal_simps [simp]:
  "go_id (end_goal now st r detail g) = go_id g" "go_termination_reason (end_goal now st r detail g) = Some r"
  "go_steer_version (end_goal now st r detail g) = go_steer_version g" "go_state (end_goal now st r detail g) = st"
  by (simp_all add: end_goal_def)

lemma others_evidence:
  assumes "others gid db db'"
  shows "verdicts_follow gid db db'" and "no_new_success gid db db'"
proof -
  show "verdicts_follow gid db db'" using assms
  proof cases
    case ot_foreign
    then show ?thesis unfolding foreign_def verdicts_follow_def by metis
  qed (auto simp: create_goal_def pause_def resume_def steer_def stop_def Let_def
      intro: verdicts_follow_same split: if_split_asm)
  show "no_new_success gid db db'" using assms
  proof cases
    case ot_foreign
    then show ?thesis unfolding foreign_def no_new_success_def by metis
  next
    case (ot_create now uuid pid intent budgets ogid actor r1)
    then show ?thesis
      by (auto simp: create_goal_def Let_def no_new_success_def row_simps new_goal_def split: option.splits if_split_asm)
  qed (auto simp: pause_def resume_def steer_def stop_def Let_def split: if_split_asm)
qed

lemma record_verification_follows:
  assumes "record_goal_verification now iid vf ver db = Inr (db', b)"
  shows "verdicts_follow gid db db'"
proof -
  obtain it g where it: "row_by it_id iid (autonomous_iterations db) = Some it"
    and g: "row_by go_id (it_goal_id it) (autonomous_goals db) = Some g"
    using assms by (auto simp: record_goal_verification_def get_iteration_def)
  show ?thesis
  proof (cases "go_steer_version g = ver")
    case True
    then have db': "db' = append_event now (iteration_event ''goalVerified''
            (if gv_satisfied vf then SEV_NOTICE else SEV_WARNING) iid g
            (redact_string (gv_summary vf)) (verification_payload vf ver) ''verifier'')
          (update_iteration iid (\<lambda>i. i\<lparr>it_verification := Some (verification_payload vf ver),
             it_updated_at := timestamp now\<rparr>) db)"
      using assms it g
      by (simp add: record_goal_verification_def get_iteration_def get_goal_def fetch_def if_phase_current_def Let_def)
    show ?thesis unfolding db' by (auto simp: verdicts_follow_def row_by_upd_by iteration_event_def mk_event_def split: if_split_asm)
  next
    case False
    then show ?thesis using assms it g
      by (auto simp: record_goal_verification_def get_iteration_def get_goal_def fetch_def if_phase_current_def)
  qed
qed

lemma engine_verdicts: "engine_step gid db db' \<Longrightarrow> verdicts_follow gid db db'"
proof (induction rule: engine_step.induct)
  case (es_begin now uuid r1)
  then obtain n where "autonomous_iterations db' = autonomous_iterations db @ [new_iteration now (''iter-'' @ uuid) gid n]"
    by (auto simp: begin_iteration_def Let_def)
  then show ?case
    by (auto simp: verdicts_follow_def row_by_append row_by_Cons new_iteration_def simp del: append_Cons
        split: option.splits if_split_asm)
next
  case (es_verification iid vf now ver b4)
  then show ?case by (rule_tac record_verification_follows)
qed (auto simp: start_goal_def phase_is_current_def record_evaluation_def record_plan_def complete_replan_def
    terminate_def terminate_phase_if_current_def interrupt_for_steer_def set_iteration_state_def
    finish_iteration_def set_action_def journal_goal_def Let_def elim!: if_phase_currentE split: if_split_asm
    intro: verdicts_follow_same)


lemma terminate_success:
  assumes "terminate_phase_if_current now gid iid TERM_SUCCESS detail ver db = Inr (db', b)"
    and "row_by go_id gid (autonomous_goals db') = Some g'"
  shows "row_by go_id gid (autonomous_goals db) = Some g' \<or> goal_ended g' \<and> go_steer_version g' = ver"
  using assms
  by (auto simp: terminate_phase_if_current_def Let_def row_by_upd_by goal_ended_def elim!: if_phase_currentE
      split: if_split_asm)

lemma engine_success:
  assumes "engine_step gid db db'"
  shows "no_new_success gid db db' \<or>
    (\<exists>iid ver. iteration_of gid iid db \<and> verdict_stands iid ver db \<and>
       (\<forall>g'. row_by go_id gid (autonomous_goals db') = Some g' \<longrightarrow>
          row_by go_id gid (autonomous_goals db) = Some g' \<or> goal_ended g' \<and> go_steer_version g' = ver))"
  using assms
proof cases
  case (es_success iid ver now detail b6)
  then show ?thesis using terminate_success by blast
qed (auto simp: start_goal_def begin_iteration_def phase_is_current_def record_evaluation_def record_plan_def
    record_goal_verification_def complete_replan_def terminate_def terminate_phase_if_current_def
    interrupt_for_steer_def set_iteration_state_def finish_iteration_def set_action_def journal_goal_def
    Let_def elim!: if_phase_currentE split: if_split_asm intro: no_new_success_same)

lemma goal_step_journal: "goal_step now db db' \<Longrightarrow> journal_extends db db'"
  by (induction rule: goal_step.induct)
    (auto simp: create_goal_def pause_def resume_def steer_def stop_def start_goal_def begin_iteration_def
      phase_is_current_def record_evaluation_def record_plan_def record_goal_verification_def
      complete_replan_def terminate_def terminate_phase_if_current_def interrupt_for_steer_def
      set_iteration_state_def finish_iteration_def set_action_def journal_goal_def Let_def
      elim!: if_phase_currentE split: if_split_asm)

lemma run_step_journal:
  assumes "engine_step gid db db' \<or> others gid db db'" shows "prefix (events db) (events db')"
proof -
  have "foreign gid db db' \<or> (\<exists>now. goal_step now db db')"
    using assms engine_goal_step others_goal_step by blast
  then show ?thesis using goal_step_journal by (auto simp: foreign_def journal_extends_def)
qed


lemma run_step_kept:
  assumes "engine_step gid db db' \<or> others gid db db'"
  shows "iteration_of gid iid db \<Longrightarrow> iteration_of gid iid db'"
    and "row_by go_id gid (autonomous_goals db) = Some g \<Longrightarrow>
      \<exists>g'. row_by go_id gid (autonomous_goals db') = Some g' \<and> goal_follows g g'"
proof -
  have step: "foreign gid db db' \<or> (\<exists>now. goal_step now db db')"
    using assms engine_goal_step others_goal_step by blast
  then show "iteration_of gid iid db \<Longrightarrow> iteration_of gid iid db'"
    unfolding foreign_def iteration_of_def
    using iterations_kept_step [unfolded iterations_kept_def iteration_of_def] by metis
  show "\<exists>g'. row_by go_id gid (autonomous_goals db') = Some g' \<and> goal_follows g g'"
    if "row_by go_id gid (autonomous_goals db) = Some g"
    using step that goals_kept_step [unfolded goals_kept_def] unfolding foreign_def by (metis goal_follows_refl)
qed

lemma evidenced_step:
  assumes step: "engine_step gid db db' \<or> others gid db db'" and ev: "evidenced gid db"
  shows "evidenced gid db'"
proof -
  note kept = run_step_kept [OF step] and pre = run_step_journal [OF step]
  have verdicts: "verdicts_follow gid db db'"
    using step engine_verdicts others_evidence(1) by blast
  have part1: "journaled db' iid d" if "row_by it_id iid (autonomous_iterations db') = Some it"
    "it_goal_id it = gid" "it_verification it = Some d" for iid it d
    using that verdicts ev journaled_prefix [OF pre] unfolding verdicts_follow_def evidenced_def by blast
  have carried: "goal_ended g' \<and> (\<exists>iid d. iteration_of gid iid db' \<and> journaled db' iid d \<and>
      satisfied_verdict d (go_steer_version g'))"
    if g: "row_by go_id gid (autonomous_goals db) = Some g" "go_termination_reason g = Some TERM_SUCCESS"
      and g': "row_by go_id gid (autonomous_goals db') = Some g'" for g g'
  proof -
    obtain iid d where e: "goal_ended g" "iteration_of gid iid db" "journaled db iid d"
        "satisfied_verdict d (go_steer_version g)"
      using ev g unfolding evidenced_def by blast
    have "goal_outcome g' = goal_outcome g"
      using kept(2) [OF g(1)] g' e(1) by (auto simp: goal_follows_def)
    then have "goal_ended g'" "go_steer_version g' = go_steer_version g"
      using e(1) by (simp_all add: goal_outcome_def goal_ended_def)
    then show ?thesis using e kept(1) journaled_prefix [OF pre] by metis
  qed
  have part2: "goal_ended g' \<and> (\<exists>iid d. iteration_of gid iid db' \<and> journaled db' iid d \<and>
      satisfied_verdict d (go_steer_version g'))"
    if g': "row_by go_id gid (autonomous_goals db') = Some g'" "go_termination_reason g' = Some TERM_SUCCESS" for g'
  proof -
    consider "no_new_success gid db db'"
      | iid ver where "iteration_of gid iid db" "verdict_stands iid ver db"
          "row_by go_id gid (autonomous_goals db) = Some g' \<or> goal_ended g' \<and> go_steer_version g' = ver"
      using step engine_success others_evidence(2) g'(1) by blast
    then show ?thesis
    proof cases
      case 1
      then show ?thesis using carried g' unfolding no_new_success_def by blast
    next
      case (2 iid ver)
      then have "\<exists>d. journaled db iid d \<and> satisfied_verdict d ver"
        using ev unfolding verdict_stands_def evidenced_def iteration_of_def by (metis option.inject)
      then show ?thesis using 2 carried [of g' g'] g' kept(1) journaled_prefix [OF pre] by blast
    qed
  qed
  show ?thesis unfolding evidenced_def using part1 part2 by blast
qed

lemma evidenced_run: "goal_run gid db db' \<Longrightarrow> evidenced gid db \<Longrightarrow> evidenced gid db'"
  by (induction rule: goal_run_induct) (auto intro: evidenced_step)

text \<open>
  C34. A goal succeeds only on evidence. Whatever evaluator, planner, dispatcher and verifier do, and
  whatever people and other programs do in between, if the loop leaves the goal terminated with
  reason \<^verbatim>\<open>success\<close> then the journal holds a verification of one of the goal's own iterations that
  found the goal satisfied, taken under the steer version the goal ended with.
\<close>

theorem success_evidenced:
  assumes "well_behaved gid E" and "unique_key it_id (autonomous_iterations (store w))"
    and "run E gid w = Some (w', r)" and "evidenced gid (store w)"
  shows "evidenced gid (store w') \<and>
    (\<forall>g. row_by go_id gid (autonomous_goals (store w')) = Some g \<and> go_termination_reason g = Some TERM_SUCCESS \<longrightarrow>
      (\<exists>e iid. e \<in> set (events (store w')) \<and> ev_kind e = ''goalVerified'' \<and> ev_entity_id e = iid \<and>
         iteration_of gid iid (store w') \<and> satisfied_verdict (ev_payload e) (go_steer_version g)))"
proof -
  have "evidenced gid (store w')" using evidenced_run [OF run_steps [OF assms(1,3,2)] assms(4)] .
  then show ?thesis unfolding evidenced_def journaled_def by blast
qed

section \<open>Budgets bound the work\<close>

definition within_budget :: "string \<Rightarrow> db \<Rightarrow> bool" where
  "within_budget gid db \<longleftrightarrow>
     (\<forall>g b. row_by go_id gid (autonomous_goals db) = Some g \<and> budget_from_dict (go_budgets g) = Inr b \<longrightarrow>
        go_iteration_count g \<le> gb_max_iterations b \<and> go_task_count g \<le> gb_max_tasks b)"


lemma within_budget_limits:
  "within_budget gid db \<longleftrightarrow>
     (\<forall>n m d b. goal_limits gid db (n, m, d) \<and> budget_from_dict d = Inr b \<longrightarrow>
        n \<le> gb_max_iterations b \<and> m \<le> gb_max_tasks b)"
  by (auto simp: within_budget_def goal_limits_def)

lemma goal_limits_same: "autonomous_goals db' = autonomous_goals db \<Longrightarrow> goal_limits gid db' = goal_limits gid db"
  by (simp add: goal_limits_def fun_eq_iff)

lemma budget_from_dict_positive:
  "budget_from_dict d = Inr b \<Longrightarrow> 0 < gb_max_iterations b \<and> 0 < gb_max_tasks b"
  by (auto simp: budget_from_dict_def check_goal_budget_def Let_def)

lemma within_budget_others:
  assumes "others gid db db'" and "within_budget gid db"
  shows "within_budget gid db'"
  using assms(1)
proof cases
  case (ot_create now uuid pid intent budgets ogid actor r1)
  then obtain g where g: "autonomous_goals db' = autonomous_goals db @ [g]" "go_iteration_count g = 0" "go_task_count g = 0"
    by (auto simp: create_goal_def Let_def new_goal_def)
  show ?thesis using assms(2) budget_from_dict_positive
    by (fastforce simp: within_budget_def g row_by_append row_by_Cons split: option.splits if_split_asm)
next
  case ot_foreign
  then show ?thesis using assms(2) by (simp add: foreign_def within_budget_def)
qed (use assms(2) in \<open>auto simp: within_budget_limits pause_def resume_def steer_def stop_def Let_def
    touch_goal_def end_goal_def split: if_split_asm\<close>)

lemma engine_limits:
  assumes "engine_step gid db db'" and "within_budget gid db"
  shows "within_budget gid db'"
  using assms(1)
proof cases
  case (es_begin now uuid r1)
  then obtain g where g: "row_by go_id gid (autonomous_goals db) = Some g"
    and gs: "autonomous_goals db' = upd_by go_id gid
        (\<lambda>x. touch_goal now (x\<lparr>go_iteration_count := go_iteration_count g + 1\<rparr>)) (autonomous_goals db)"
    by (auto simp: begin_iteration_def Let_def)
  show ?thesis using assms(2) es_begin(1) g
    by (auto simp: within_budget_def may_iterate_def gs row_by_upd_by)
next
  case (es_plan iid plan now u5 ver b3)
  then obtain g where g: "row_by go_id gid (autonomous_goals db) = Some g"
    and gs: "autonomous_goals db' = autonomous_goals db \<or> autonomous_goals db' = upd_by go_id gid
        (\<lambda>x. touch_goal now (x\<lparr>go_task_count := go_task_count x + int (length (gp_actions plan))\<rparr>))
        (autonomous_goals db)"
    by (auto simp: record_plan_def Let_def elim!: if_phase_currentE)
  from gs show ?thesis
  proof
    assume "autonomous_goals db' = autonomous_goals db"
    then show ?thesis using assms(2) by (simp add: within_budget_def)
  next
    assume gs: "autonomous_goals db' = upd_by go_id gid
        (\<lambda>x. touch_goal now (x\<lparr>go_task_count := go_task_count x + int (length (gp_actions plan))\<rparr>))
        (autonomous_goals db)"
    show ?thesis using assms(2) es_plan(2) g by (auto simp: within_budget_def may_plan_def gs row_by_upd_by)
  qed
qed (use assms(2) in \<open>auto simp: within_budget_limits start_goal_def phase_is_current_def record_evaluation_def
    record_goal_verification_def complete_replan_def terminate_def terminate_phase_if_current_def
    interrupt_for_steer_def set_iteration_state_def finish_iteration_def set_action_def journal_goal_def
    touch_goal_def end_goal_def Let_def elim!: if_phase_currentE split: if_split_asm\<close>)

lemma within_budget_run: "goal_run gid db db' \<Longrightarrow> within_budget gid db \<Longrightarrow> within_budget gid db'"
  by (induction rule: goal_run_induct) (auto intro: engine_limits within_budget_others)

text \<open>
  C35. The loop never exceeds the budget of its goal. Started within them, the number of iterations
  and the number of tasks stay at or below \<^verbatim>\<open>max_iterations\<close> and \<^verbatim>\<open>max_tasks\<close>, whatever the planner
  plans and whoever interferes in between.
\<close>

theorem budgets_respected:
  assumes "well_behaved gid E" and "unique_key it_id (autonomous_iterations (store w))"
    and "run E gid w = Some (w', r)" and "within_budget gid (store w)"
    and "row_by go_id gid (autonomous_goals (store w')) = Some g" and "budget_from_dict (go_budgets g) = Inr b"
  shows "go_iteration_count g \<le> gb_max_iterations b \<and> go_task_count g \<le> gb_max_tasks b"
  using within_budget_run [OF run_steps [OF assms(1,3,2)] assms(4)] assms(5,6) by (auto simp: within_budget_def)



section \<open>Examples\<close>

text \<open>An engine whose evaluator and verifier find the goal reached at once, and a store to run it on.\<close>

definition sample_engine :: engine where
  "sample_engine =
     \<lparr>en_evaluate = \<lambda>_ w. (w, Inr \<lparr>ge_disposition = EVAL_SATISFIED, ge_summary = ''done'',
        ge_progress_fingerprint = ''f'', ge_termination_reason = None, ge_facts = JObj []\<rparr>),
      en_plan = \<lambda>_ _ w. (w, Inl (RuntimeError ''no plan'')),
      en_verify = \<lambda>_ _ w. (w, Inr \<lparr>gv_satisfied = True, gv_summary = ''all there'',
        gv_progress_fingerprint = ''f'', gv_termination_reason = None, gv_evidence = JObj []\<rparr>),
      en_dispatch = \<lambda>_ _ _ w. (w, Inl (RuntimeError ''no dispatch'')),
      en_recover = \<lambda>_ _ _ w. (w, Inl (RuntimeError ''no dispatch'')),
      en_wait = \<lambda>_ w. (w, Inr []), en_cancel = \<lambda>_ w. (w, Inr []),
      en_observe = \<lambda>_ w. (w, Inr \<lparr>bo_total_tokens = None, bo_cost_usd = None\<rparr>),
      en_sleep = \<lambda>w. (w, Inr ()), en_guard = \<lambda>_ _. Inr (), en_uuid = \<lambda>_. ''1'', en_uuid5 = id,
      en_error_text = \<lambda>_. ''error''\<rparr>"

definition sample_world :: "db world" where
  "sample_world = \<lparr>clock = 7, store = goal_db\<lparr>projects := projects sample_db\<rparr>\<rparr>"



lemmas run_simps = andthen_def ret_def reading_def lift_def await_def transact_def assert_ownership_def raise_def

lemma sample_once:
  "\<exists>w g. run_once sample_engine ''g'' sample_world = Some (w, Inr g) \<and>
     row_by go_id ''g'' (autonomous_goals (store w)) = Some g \<and>
     go_termination_reason g = Some TERM_SUCCESS \<and> go_state g = GOAL_TERMINATED \<and>
     go_budgets g = budget_to_dict default_budget"
proof -
  let ?w = sample_world
  have g: "row_by go_id ''g'' (autonomous_goals (store ?w)) = Some sample_goal"
    by (simp add: sample_world_def goal_simps)
  have ch: "choose_iteration sample_engine ''g'' sample_goal ?w = Some (?w, Inr (Some ''i''))"
    by (simp add: choose_iteration_def run_simps active_iteration_def iteration_open_def list_last_def list_hd_def
        sample_world_def goal_simps)
  have once: "run_once sample_engine ''g'' ?w = andthen (advance_iteration sample_engine ''g'' ''i'') (\<lambda>_.
       reading (\<lambda>db. get_goal db ''g'')) ?w"
    using g ch by (simp add: run_once_def andthen_def [of "assert_ownership E" for E]
        andthen_def [of "reading f" for f] andthen_def [of "ret x" for x]
        andthen_def [of "choose_iteration E k x" for E k x] ret_def reading_def assert_ownership_def
        get_goal_def fetch_def sample_goal_def new_goal_def sample_engine_def)
  show ?thesis unfolding once
    by (simp add: advance_iteration_def run_simps evaluation_checkpoint_def evaluate_def sample_engine_def
      check_goal_evaluation_def py_isspace_def record_evaluation_def get_iteration_def fetch_def get_goal_def
      if_phase_current_def Let_def goal_simps sample_world_def context_of_def get_project_def sample_db_def
      create_project_def update_iteration_def update_goal_def append_event_def touch_goal_def iteration_event_def mk_event_def
      phase_is_current_def verification_checkpoint_def control_gate_def set_iteration_state_def verify_def
      check_goal_verification_def record_goal_verification_def conclude_def apply_verification_outcome_def
      terminate_phase_if_current_def close_iteration_def end_goal_def)
qed

lemma sample_run:
  "\<exists>w g. run sample_engine ''g'' sample_world = Some (w, Inr g) \<and>
     row_by go_id ''g'' (autonomous_goals (store w)) = Some g \<and> go_termination_reason g = Some TERM_SUCCESS \<and>
     go_budgets g = budget_to_dict default_budget"
proof -
  obtain w g where once: "run_once sample_engine ''g'' sample_world = Some (w, Inr g)"
    "row_by go_id ''g'' (autonomous_goals (store w)) = Some g"
    "go_termination_reason g = Some TERM_SUCCESS" "go_state g = GOAL_TERMINATED"
    "go_budgets g = budget_to_dict default_budget"
    using sample_once by blast
  have "run sample_engine ''g'' w = Some (w, Inr g)"
    using once by (subst run.simps) (simp add: get_goal_def fetch_def)
  moreover have "run sample_engine ''g'' sample_world = run sample_engine ''g'' w"
    using once(1) by (subst run.simps) (simp add: get_goal_def fetch_def sample_world_def goal_simps)
  ultimately show ?thesis using once by auto
qed

lemma sample_behaved: "well_behaved gid sample_engine"
  by (simp add: well_behaved_def sample_engine_def others_run_def)

lemma sample_world_ok:
  "unique_key it_id (autonomous_iterations (store sample_world))" "evidenced ''g'' (store sample_world)"
  "within_budget ''g'' (store sample_world)"
proof -
  show "unique_key it_id (autonomous_iterations (store sample_world))" "evidenced ''g'' (store sample_world)"
    by (auto simp: sample_world_def goal_simps unique_key_def evidenced_def split: if_split_asm)
  have "go_iteration_count sample_goal = 0 \<and> go_task_count sample_goal = 0"
    by (simp add: sample_goal_def new_goal_def)
  then show "within_budget ''g'' (store sample_world)"
    using budget_from_dict_positive [of "go_budgets sample_goal"]
    by (fastforce simp: within_budget_def sample_world_def goal_db_def row_simps split: if_split_asm)
qed

theorem success_evidenced_witness:
  "\<exists>w g e. run sample_engine ''g'' sample_world = Some (w, Inr g) \<and> go_termination_reason g = Some TERM_SUCCESS \<and>
     e \<in> set (events (store w)) \<and> ev_kind e = ''goalVerified'' \<and> satisfied_verdict (ev_payload e) (go_steer_version g)"
proof -
  obtain w g where r: "run sample_engine ''g'' sample_world = Some (w, Inr g)"
    "row_by go_id ''g'' (autonomous_goals (store w)) = Some g" "go_termination_reason g = Some TERM_SUCCESS"
    using sample_run by blast
  from success_evidenced [OF sample_behaved sample_world_ok(1) r(1) sample_world_ok(2)] r show ?thesis by blast
qed

theorem budgets_respected_witness:
  "\<exists>w g. run sample_engine ''g'' sample_world = Some (w, Inr g) \<and> go_iteration_count g \<le> 12"
proof -
  obtain w g where r: "run sample_engine ''g'' sample_world = Some (w, Inr g)"
    "row_by go_id ''g'' (autonomous_goals (store w)) = Some g" "go_budgets g = budget_to_dict default_budget"
    using sample_run by blast
  have "check_goal_budget default_budget = Inr ()" by (simp add: default_budget_def check_goal_budget_def given_nonpositive_def)
  then have "budget_from_dict (go_budgets g) = Inr default_budget" using r(3) by (simp add: budget_restored)
  from budgets_respected [OF sample_behaved sample_world_ok(1) r(1) sample_world_ok(3) r(2) this] r(1)
  show ?thesis by (auto simp: default_budget_def)
qed


end
