(* ===== verification/Autonomous_Host.thy ===== *)
theory Autonomous_Host
  imports Engine_Steps
begin

text \<open>
  The production host of goals, \<^verbatim>\<open>src/project_supervisor/autonomous_host.py\<close>: host identities, fenced
  leases on goals, and the scheduling rounds that keep a bounded number of goals claimed. Times are
  stored with microseconds and compared as numbers.
\<close>

section \<open>Configuration and claims\<close>

record host_config =
  hc_max_concurrent_goals :: int
  hc_poll_interval_seconds :: rat
  hc_heartbeat_interval_seconds :: rat
  hc_lease_ttl_seconds :: rat
  hc_shutdown_grace_seconds :: rat

definition check_host_config :: "host_config \<Rightarrow> unit result" where
  "check_host_config c =
     bindR (raise_if (hc_max_concurrent_goals c < 1) (ValueError ''max_concurrent_goals must be positive'')) (\<lambda>_.
     bindR (raise_if (hc_poll_interval_seconds c \<le> 0) (ValueError ''poll_interval_seconds must be positive'')) (\<lambda>_.
     bindR (raise_if (hc_heartbeat_interval_seconds c \<le> 0)
       (ValueError ''heartbeat_interval_seconds must be positive'')) (\<lambda>_.
     bindR (raise_if (hc_lease_ttl_seconds c \<le> 0) (ValueError ''lease_ttl_seconds must be positive'')) (\<lambda>_.
     bindR (raise_if (hc_shutdown_grace_seconds c \<le> 0)
       (ValueError ''shutdown_grace_seconds must be positive'')) (\<lambda>_.
     raise_if (hc_lease_ttl_seconds c \<le> hc_heartbeat_interval_seconds c)
       (ValueError ''lease_ttl_seconds must exceed heartbeat_interval_seconds''))))))"

record goal_lease_claim =
  gk_goal_id :: string
  gk_host_id :: string
  gk_generation :: int
  gk_recovery_state :: goal_recovery_state
  gk_stale_owner_recovered :: bool

definition micros :: "rat \<Rightarrow> int" where
  "micros t = \<lfloor>t * 1000000\<rfloor>"

definition expires :: "rat \<Rightarrow> rat \<Rightarrow> int" where
  "expires now seconds = micros (now + seconds)"

definition goal_recovery_value :: "goal_recovery_state \<Rightarrow> string" where
  "goal_recovery_value s = (case s of
     GR_FRESH \<Rightarrow> ''fresh'' | GR_RESUMING \<Rightarrow> ''resuming'' | GR_STALE_OWNER_RECOVERED \<Rightarrow> ''staleOwnerRecovered''
   | GR_COMPLETE \<Rightarrow> ''complete'' | GR_LOST \<Rightarrow> ''lost'')"

section \<open>Host identities\<close>

definition host_event :: "string \<Rightarrow> event_severity \<Rightarrow> string \<Rightarrow> string \<Rightarrow> (string \<times> json) list \<Rightarrow> event" where
  "host_event kind severity host_id summary payload =
     mk_event kind severity ''autonomousHost'' host_id None None None None summary payload
       (''autonomous-host:'' @ host_id)"

definition get_host :: "db \<Rightarrow> string \<Rightarrow> host_row result" where
  "get_host db host_id = fetch ho_host_id host_id (autonomous_hosts db) (KeyError host_id)"

text \<open>The clock is read twice: \<open>now\<close> for the stored time, \<open>later\<close> for the staleness limit.\<close>

definition host_alive :: "int \<Rightarrow> host_row \<Rightarrow> bool" where
  "host_alive stale_before h \<longleftrightarrow>
     ho_state h \<in> {HOST_STARTING, HOST_RUNNING, HOST_STOPPING} \<and> stale_before < ho_heartbeat_at h"

definition register_host ::
    "rat \<Rightarrow> rat \<Rightarrow> string \<Rightarrow> int \<Rightarrow> rat \<Rightarrow> (string \<times> json) list \<Rightarrow> db \<Rightarrow> (db \<times> host_row) result" where
  "register_host now later host_id process_id stale_after metadata db =
     bindR (raise_if (\<not> nonblank host_id) (ValueError ''host_id is required'')) (\<lambda>_.
     bindR (raise_if (process_id \<le> 0) (ValueError ''process_id must be positive'')) (\<lambda>_.
     bindR (raise_if (stale_after \<le> 0) (ValueError ''stale_after_seconds must be positive'')) (\<lambda>_.
     let row = \<lparr>ho_host_id = host_id, ho_process_id = process_id, ho_state = HOST_STARTING,
           ho_started_at = micros now, ho_heartbeat_at = micros now, ho_stopped_at = None,
           ho_active_goal_count = 0, ho_last_error = None, ho_metadata = redact_dict metadata\<rparr>
     in bindR (case row_by ho_host_id host_id (autonomous_hosts db) of
            None \<Rightarrow> Inr (autonomous_hosts db @ [row])
          | Some h \<Rightarrow>
              bindR (raise_if (host_alive (micros (later - stale_after)) h)
                (HostIdentityInUse (''autonomous host identity '' @ host_id @ '' has a live heartbeat''))) (\<lambda>_.
              Inr (upd_by ho_host_id host_id (\<lambda>_. row) (autonomous_hosts db)))) (\<lambda>hosts.
        let db = append_event now (host_event ''autonomousHostStarted'' SEV_NOTICE host_id
              ''Production autonomous host registered'' [(''processID'', JInt process_id)])
              (db\<lparr>autonomous_hosts := hosts\<rparr>)
        in bindR (get_host db host_id) (\<lambda>h. Inr (db, h))))))"

definition heartbeat_host ::
    "rat \<Rightarrow> string \<Rightarrow> int \<Rightarrow> host_state \<Rightarrow> string option \<Rightarrow> db \<Rightarrow> (db \<times> bool) result" where
  "heartbeat_host now host_id active state last_error db =
     bindR (raise_if (active < 0) (ValueError ''active_goal_count cannot be negative'')) (\<lambda>_.
     Inr (db\<lparr>autonomous_hosts := upd_by ho_host_id host_id (\<lambda>h. h\<lparr>ho_state := state,
         ho_heartbeat_at := micros now, ho_active_goal_count := active,
         ho_last_error := coalesce (redact_opt last_error) (ho_last_error h)\<rparr>) (autonomous_hosts db)\<rparr>,
       row_by ho_host_id host_id (autonomous_hosts db) \<noteq> None))"

definition stop_host :: "rat \<Rightarrow> string \<Rightarrow> bool \<Rightarrow> string option \<Rightarrow> db \<Rightarrow> (db \<times> unit) result" where
  "stop_host now host_id failed last_error db =
     (let state = (if failed then HOST_FAILED else HOST_STOPPED);
          db = db\<lparr>autonomous_hosts := upd_by ho_host_id host_id (\<lambda>h. h\<lparr>ho_state := state,
            ho_heartbeat_at := micros now, ho_stopped_at := Some (micros now), ho_active_goal_count := 0,
            ho_last_error := coalesce (redact_opt last_error) (ho_last_error h)\<rparr>) (autonomous_hosts db)\<rparr>
      in Inr (append_event now (host_event ''autonomousHostStopped'' (if failed then SEV_ERROR else SEV_NOTICE)
           host_id ''Production autonomous host stopped''
           [(''state'', JStr (host_state_value state)), (''error'', json_opt JStr (redact_opt last_error))]) db, ()))"

definition list_hosts :: "db \<Rightarrow> host_row list" where
  "list_hosts db = sort_key (\<lambda>h. (ho_started_at h, ho_host_id h)) (autonomous_hosts db)"

section \<open>Goal leases\<close>

definition lease_open :: "int \<Rightarrow> goal_lease_row option \<Rightarrow> bool" where
  "lease_open now l \<longleftrightarrow>
     (case l of None \<Rightarrow> True | Some l \<Rightarrow> gl_state l \<noteq> GL_OWNED \<or> gl_expires_at l \<le> now)"

definition eligible_goal_ids :: "rat \<Rightarrow> db \<Rightarrow> int \<Rightarrow> string list" where
  "eligible_goal_ids now db limit =
     (if limit < 1 then []
      else map go_id (take (nat limit) (sort_key (\<lambda>g. (go_updated_at g, go_id g))
        (filter (\<lambda>g. go_state g \<in> {GOAL_CREATED, GOAL_RUNNING} \<and>
           lease_open (micros now) (row_by gl_goal_id (go_id g) (autonomous_goal_leases db)))
           (autonomous_goals db)))))"

definition goal_lease_event ::
    "string \<Rightarrow> event_severity \<Rightarrow> string \<Rightarrow> string option \<Rightarrow> string \<Rightarrow> (string \<times> json) list \<Rightarrow> string \<Rightarrow> event" where
  "goal_lease_event kind severity goal_id project_id summary payload host_id =
     mk_event kind severity ''autonomousGoalLease'' goal_id project_id None None None summary payload
       (''autonomous-host:'' @ host_id)"

definition goal_lease_stale :: "int \<Rightarrow> goal_lease_row option \<Rightarrow> bool" where
  "goal_lease_stale now l \<longleftrightarrow>
     (case l of None \<Rightarrow> False | Some l \<Rightarrow> gl_state l = GL_OWNED \<and> gl_expires_at l \<le> now)"

definition next_goal_lease ::
    "rat \<Rightarrow> goal_row \<Rightarrow> string \<Rightarrow> rat \<Rightarrow> db \<Rightarrow> goal_lease_row option \<Rightarrow> goal_lease_row" where
  "next_goal_lease now goal host_id ttl db l =
     \<lparr>gl_goal_id = go_id goal, gl_host_id = host_id,
      gl_generation = (case l of None \<Rightarrow> 1 | Some l \<Rightarrow> gl_generation l + 1), gl_state = GL_OWNED,
      gl_acquired_at = micros now, gl_heartbeat_at = micros now, gl_expires_at = expires now ttl,
      gl_released_at = None, gl_current_iteration_id = None, gl_current_action_id = None,
      gl_in_flight_state = None,
      gl_recovery_state =
        (if goal_lease_stale (micros now) l then GR_STALE_OWNER_RECOVERED
         else if active_iteration db (go_id goal) \<noteq> None \<or> go_state goal = GOAL_RUNNING then GR_RESUMING
         else GR_FRESH),
      gl_previous_host_id = map_option gl_host_id l, gl_last_error = None\<rparr>"

definition claim_of :: "bool \<Rightarrow> goal_lease_row \<Rightarrow> goal_lease_claim" where
  "claim_of stale l =
     \<lparr>gk_goal_id = gl_goal_id l, gk_host_id = gl_host_id l, gk_generation = gl_generation l,
      gk_recovery_state = gl_recovery_state l, gk_stale_owner_recovered = stale\<rparr>"

definition try_acquire_goal ::
    "rat \<Rightarrow> string \<Rightarrow> string \<Rightarrow> rat \<Rightarrow> db \<Rightarrow> (db \<times> goal_lease_claim option) result" where
  "try_acquire_goal now goal_id host_id ttl db =
     bindR (get_goal db goal_id) (\<lambda>goal.
     if go_state goal \<notin> {GOAL_CREATED, GOAL_RUNNING} then Inr (db, None)
     else bindR (get_host db host_id) (\<lambda>_.
       let l = row_by gl_goal_id goal_id (autonomous_goal_leases db);
           stale = goal_lease_stale (micros now) l;
           new = next_goal_lease now goal host_id ttl db l
       in if \<not> lease_open (micros now) l then Inr (db, None)
          else Inr (append_event now
              (goal_lease_event (if stale then ''autonomousGoalLeaseRecovered'' else ''autonomousGoalLeaseAcquired'')
                (if stale then SEV_WARNING else SEV_INFO) goal_id (Some (go_project_id goal))
                (if stale then ''Expired autonomous Goal lease recovered'' else ''Autonomous Goal lease acquired'')
                [(''hostID'', JStr host_id), (''generation'', JInt (gl_generation new)),
                 (''recoveryState'', JStr (goal_recovery_value (gl_recovery_state new))),
                 (''previousHostID'', json_opt JStr (gl_previous_host_id new))] host_id)
              (db\<lparr>autonomous_goal_leases :=
                 (if l = None then autonomous_goal_leases db @ [new]
                  else upd_by gl_goal_id goal_id (\<lambda>_. new) (autonomous_goal_leases db))\<rparr>),
            Some (claim_of stale new))))"

definition holds_claim :: "goal_lease_claim \<Rightarrow> goal_lease_row \<Rightarrow> bool" where
  "holds_claim c l \<longleftrightarrow> gl_goal_id l = gk_goal_id c \<and> gl_host_id l = gk_host_id c \<and>
     gl_generation l = gk_generation c \<and> gl_state l = GL_OWNED"

text \<open>The row that a statement with the conditions of a claim finds; the goal is the primary key.\<close>

definition claim_row :: "goal_lease_claim \<Rightarrow> db \<Rightarrow> goal_lease_row option" where
  "claim_row c db =
     (case row_by gl_goal_id (gk_goal_id c) (autonomous_goal_leases db) of
        None \<Rightarrow> None | Some l \<Rightarrow> if holds_claim c l then Some l else None)"

definition update_claimed :: "goal_lease_claim \<Rightarrow> (goal_lease_row \<Rightarrow> goal_lease_row) \<Rightarrow> db \<Rightarrow> db" where
  "update_claimed c f db =
     db\<lparr>autonomous_goal_leases := upd_by gl_goal_id (gk_goal_id c) (\<lambda>l. if holds_claim c l then f l else l)
       (autonomous_goal_leases db)\<rparr>"

definition action_inflight :: "action_row \<Rightarrow> bool" where
  "action_inflight a \<longleftrightarrow> ac_state a \<in> {ACT_DISPATCHING, ACT_RUNNING}"

definition goal_position :: "db \<Rightarrow> string \<Rightarrow> string option \<times> string option \<times> string option" where
  "goal_position db goal_id =
     (let it = active_iteration db goal_id in
      case sort_key (\<lambda>a. (- ac_updated_at a, ac_id a))
          (filter (\<lambda>a. ac_goal_id a = goal_id \<and> action_inflight a) (autonomous_actions db)) of
        a # _ \<Rightarrow> (map_option it_id it, Some (ac_id a), Some (action_state_value (ac_state a)))
      | [] \<Rightarrow> (map_option it_id it, None, Some (case it of None \<Rightarrow> ''idle'' | Some i \<Rightarrow> it_state i)))"

definition renew_goal_lease ::
    "rat \<Rightarrow> goal_lease_claim \<Rightarrow> rat \<Rightarrow> string option \<times> string option \<times> string option \<Rightarrow> db \<Rightarrow> (db \<times> bool) result" where
  "renew_goal_lease now claim ttl pos db =
     Inr (update_claimed claim (\<lambda>l. l\<lparr>gl_heartbeat_at := micros now,
         gl_expires_at := expires now ttl, gl_current_iteration_id := fst pos,
         gl_current_action_id := fst (snd pos), gl_in_flight_state := snd (snd pos)\<rparr>) db,
       claim_row claim db \<noteq> None)"

definition heartbeat_goal :: "goal_lease_claim \<Rightarrow> rat \<Rightarrow> bool prog" where
  "heartbeat_goal claim ttl =
     andthen (reading (\<lambda>db. Inr (goal_position db (gk_goal_id claim)))) (\<lambda>pos.
     transact (\<lambda>now. renew_goal_lease now claim ttl pos))"

definition claim_current :: "goal_lease_claim \<Rightarrow> rat \<Rightarrow> db \<Rightarrow> bool" where
  "claim_current claim now db \<longleftrightarrow>
     (case claim_row claim db of None \<Rightarrow> False | Some l \<Rightarrow> micros now < gl_expires_at l)"

definition lost_message :: "goal_lease_claim \<Rightarrow> string" where
  "lost_message c = ''host '' @ gk_host_id c @ '' no longer owns generation '' @ show_int (gk_generation c) @
     '' for goal '' @ gk_goal_id c"

definition assert_goal_lease :: "goal_lease_claim \<Rightarrow> rat \<Rightarrow> db \<Rightarrow> unit result" where
  "assert_goal_lease claim now db =
     raise_if (\<not> claim_current claim now db) (GoalLeaseLost (lost_message claim))"

definition release_goal ::
    "rat \<Rightarrow> goal_lease_claim \<Rightarrow> string option \<Rightarrow> bool \<Rightarrow> db \<Rightarrow> (db \<times> bool) result" where
  "release_goal now claim error lost db =
     (if claim_row claim db = None then Inr (db, False)
      else Inr (append_event now
        (goal_lease_event (if lost then ''autonomousGoalLeaseLost'' else ''autonomousGoalLeaseReleased'')
          (if lost then SEV_ERROR else SEV_INFO) (gk_goal_id claim)
          (map_option go_project_id (row_by go_id (gk_goal_id claim) (autonomous_goals db)))
          (if lost then ''Autonomous Goal lease ownership lost'' else ''Autonomous Goal lease released'')
          [(''hostID'', JStr (gk_host_id claim)), (''generation'', JInt (gk_generation claim)),
           (''error'', json_opt JStr (redact_opt error))] (gk_host_id claim))
        (update_claimed claim (\<lambda>l. l\<lparr>
           gl_state := (if lost then GL_LOST else GL_RELEASED), gl_heartbeat_at := micros now,
           gl_expires_at := micros now, gl_released_at := Some (micros now), gl_in_flight_state := None,
           gl_recovery_state := (if lost then GR_LOST else GR_COMPLETE), gl_last_error := redact_opt error\<rparr>) db), True))"

definition get_goal_lease :: "db \<Rightarrow> string \<Rightarrow> goal_lease_row option" where
  "get_goal_lease db goal_id = row_by gl_goal_id goal_id (autonomous_goal_leases db)"

definition list_goal_leases :: "db \<Rightarrow> string option \<Rightarrow> bool \<Rightarrow> goal_lease_row list" where
  "list_goal_leases db host_id owned_only =
     sort_key (\<lambda>l. (gl_acquired_at l, gl_goal_id l))
       (filter (\<lambda>l. (case host_id of None \<Rightarrow> True | Some h \<Rightarrow> gl_host_id l = h) \<and>
          (owned_only \<longrightarrow> gl_state l = GL_OWNED)) (autonomous_goal_leases db))"


section \<open>The host process\<close>

text \<open>
  A goal under a claim: the engine runs with the claim as its ownership guard. The heartbeats sent
  meanwhile are among the steps of others at the engine's awaits; what happens when it ends is here.
\<close>

definition release_claim :: "goal_lease_claim \<Rightarrow> string option \<Rightarrow> bool \<Rightarrow> bool prog" where
  "release_claim claim error lost =
     transact (\<lambda>now. release_goal now claim (map_option redact_string error) lost)"

definition completion_message :: "goal_lease_claim \<Rightarrow> string" where
  "completion_message c = ''host '' @ gk_host_id c @ '' lost lease generation '' @ show_int (gk_generation c) @
     '' for goal '' @ gk_goal_id c @ '' at completion''"

definition guarded_engine :: "engine \<Rightarrow> goal_lease_claim \<Rightarrow> engine" where
  "guarded_engine E claim = E\<lparr>en_guard := assert_goal_lease claim\<rparr>"

definition run_claimed :: "engine \<Rightarrow> rat \<Rightarrow> goal_lease_claim \<Rightarrow> goal_row prog" where
  "run_claimed E ttl claim w =
     (case run (guarded_engine E claim) (gk_goal_id claim) w of
        None \<Rightarrow> None
      | Some (w', Inl e) \<Rightarrow>
          andthen (release_claim claim (Some (en_error_text E e)) False) (\<lambda>_. raise e) w'
      | Some (w', Inr goal) \<Rightarrow>
          andthen (heartbeat_goal claim ttl) (\<lambda>ok.
          if ok then andthen (release_claim claim None False) (\<lambda>_. ret goal)
          else
            andthen (release_claim claim (Some (completion_message claim)) True) (\<lambda>_.
            raise (GoalLeaseLost (completion_message claim)))) w')"

record host =
  ah_config :: host_config
  ah_host_id :: string
  ah_process_id :: int
  ah_registered :: bool
  ah_active :: "string list"

definition ensure_registered :: "host \<Rightarrow> host prog" where
  "ensure_registered h =
     (if ah_registered h then ret h
      else
        andthen (transact (\<lambda>now. register_host now now (ah_host_id h) (ah_process_id h)
          (hc_lease_ttl_seconds (ah_config h))
          [(''maxConcurrentGoals'', JInt (hc_max_concurrent_goals (ah_config h)))])) (\<lambda>_.
        andthen (transact (\<lambda>now. heartbeat_host now (ah_host_id h) 0 HOST_RUNNING None)) (\<lambda>_.
        ret (h\<lparr>ah_registered := True\<rparr>))))"

text \<open>The claims of one round; each starts a task that runs the goal.\<close>

fun claim_goals :: "host \<Rightarrow> string list \<Rightarrow> goal_lease_claim list \<Rightarrow> (host \<times> goal_lease_claim list) prog" where
  "claim_goals h [] claims = ret (h, claims)"
| "claim_goals h (gid # gids) claims =
     (if gid \<in> set (ah_active h) \<or> hc_max_concurrent_goals (ah_config h) \<le> int (length (ah_active h))
      then claim_goals h gids claims
      else
        andthen (transact (\<lambda>now. try_acquire_goal now gid (ah_host_id h) (hc_lease_ttl_seconds (ah_config h))))
          (\<lambda>claim. case claim of
             None \<Rightarrow> claim_goals h gids claims
           | Some c \<Rightarrow> claim_goals (h\<lparr>ah_active := ah_active h @ [gid]\<rparr>) gids (claims @ [c])))"

text \<open>How a goal task ended: with a goal, cancelled, or with an exception and its text.\<close>

datatype task_end = Ended | Cancelled | Failed string

definition reap_one :: "host \<Rightarrow> string \<times> task_end \<Rightarrow> host prog" where
  "reap_one h f =
     (let h' = h\<lparr>ah_active := filter (\<lambda>gid. gid \<noteq> fst f) (ah_active h)\<rparr> in
      case snd f of
        Failed error \<Rightarrow>
          andthen (transact (\<lambda>now. heartbeat_host now (ah_host_id h) (int (length (ah_active h'))) HOST_RUNNING
            (Some (redact_string error)))) (\<lambda>_. ret h')
      | _ \<Rightarrow> ret h')"

fun reap_finished :: "host \<Rightarrow> (string \<times> task_end) list \<Rightarrow> host prog" where
  "reap_finished h [] = ret h"
| "reap_finished h (f # fs) = andthen (reap_one h f) (\<lambda>h. reap_finished h fs)"

text \<open>One turn of \<^verbatim>\<open>serve\<close>; \<open>finished\<close> are the tasks that are done when it starts.\<close>

definition claim_round :: "host \<Rightarrow> (host \<times> goal_lease_claim list) prog" where
  "claim_round h w =
     (let capacity = hc_max_concurrent_goals (ah_config h) - int (length (ah_active h)) in
      if 0 < capacity then claim_goals h (eligible_goal_ids (clock w) (store w) (capacity * 2)) [] w
      else ret (h, []) w)"

definition report_active :: "host \<times> goal_lease_claim list \<Rightarrow> (host \<times> goal_lease_claim list) prog" where
  "report_active r =
     andthen (transact (\<lambda>now. heartbeat_host now (ah_host_id (fst r)) (int (length (ah_active (fst r))))
       HOST_RUNNING None)) (\<lambda>_. ret r)"

definition serve_turn :: "(string \<times> task_end) list \<Rightarrow> host \<Rightarrow> (host \<times> goal_lease_claim list) prog" where
  "serve_turn finished h =
     andthen (reap_finished h (filter (\<lambda>f. fst f \<in> set (ah_active h)) finished)) (\<lambda>h.
     andthen (claim_round h) report_active)"

definition stop_active :: "(string \<times> task_end) list \<Rightarrow> host \<Rightarrow> host prog" where
  "stop_active finished h =
     (if ah_active h = [] then ret h
      else
        andthen (transact (\<lambda>now. heartbeat_host now (ah_host_id h) (int (length (ah_active h))) HOST_STOPPING None))
          (\<lambda>_. reap_finished h (filter (\<lambda>f. fst f \<in> set (ah_active h)) finished)))"

definition host_status :: "db \<Rightarrow> host \<Rightarrow> (host_row \<times> goal_lease_row option list) result" where
  "host_status db h =
     bindR (get_host db (ah_host_id h)) (\<lambda>row. Inr (row, map (get_goal_lease db) (sort (ah_active h))))"

section \<open>Steps on hosts and goal leases\<close>

inductive host_step :: "rat \<Rightarrow> db \<Rightarrow> db \<Rightarrow> bool" for now db db' where
  hs_register: "register_host now later hid pid stale meta db = Inr (db', r1) \<Longrightarrow> host_step now db db'"
| hs_heartbeat: "heartbeat_host now hid n st err db = Inr (db', b1) \<Longrightarrow> host_step now db db'"
| hs_stop: "stop_host now hid failed err db = Inr (db', u1) \<Longrightarrow> host_step now db db'"
| hs_acquire: "try_acquire_goal now gid hid ttl db = Inr (db', r2) \<Longrightarrow> host_step now db db'"
| hs_renew: "renew_goal_lease now claim ttl pos db = Inr (db', b2) \<Longrightarrow> host_step now db db'"
| hs_release: "release_goal now claim err lost db = Inr (db', b3) \<Longrightarrow> host_step now db db'"
| hs_other: "autonomous_goal_leases db' = autonomous_goal_leases db \<Longrightarrow> host_step now db db'"

abbreviation lease_of :: "db \<Rightarrow> string \<Rightarrow> goal_lease_row option" where
  "lease_of db gid \<equiv> row_by gl_goal_id gid (autonomous_goal_leases db)"

lemma next_goal_lease_simps [simp]:
  "gl_goal_id (next_goal_lease now goal hid ttl db l) = go_id goal"
  "gl_host_id (next_goal_lease now goal hid ttl db l) = hid"
  "gl_state (next_goal_lease now goal hid ttl db l) = GL_OWNED"
  "gl_expires_at (next_goal_lease now goal hid ttl db l) = expires now ttl"
  "gl_generation (next_goal_lease now goal hid ttl db l) = (case l of None \<Rightarrow> 1 | Some l \<Rightarrow> gl_generation l + 1)"
  by (simp_all add: next_goal_lease_def)

text \<open>Acquiring writes one row, with the next generation, and only over a lease that is open.\<close>

lemma try_acquire_effect:
  assumes "try_acquire_goal now gid hid ttl db = Inr (db', Some c)"
  shows "\<exists>new. lease_open (micros now) (lease_of db gid) \<and>
    gl_generation new = (case lease_of db gid of None \<Rightarrow> 1 | Some l \<Rightarrow> gl_generation l + 1) \<and>
    gl_host_id new = hid \<and> gl_state new = GL_OWNED \<and> gl_expires_at new = expires now ttl \<and> gl_goal_id new = gid \<and>
    gk_goal_id c = gid \<and> gk_host_id c = hid \<and> gk_generation c = gl_generation new \<and>
    (\<forall>k. lease_of db' k = (if k = gid then Some new else lease_of db k))"
proof -
  obtain goal where g: "row_by go_id gid (autonomous_goals db) = Some goal"
    using assms by (auto simp: try_acquire_goal_def Let_def)
  let ?new = "next_goal_lease now goal hid ttl db (lease_of db gid)"
  have id: "go_id goal = gid" using g by (rule row_by_key)
  have eff: "lease_open (micros now) (lease_of db gid)" "c = claim_of (goal_lease_stale (micros now) (lease_of db gid)) ?new"
    "autonomous_goal_leases db' = (if lease_of db gid = None then autonomous_goal_leases db @ [?new]
       else upd_by gl_goal_id gid (\<lambda>_. ?new) (autonomous_goal_leases db))"
    using assms g by (auto simp: try_acquire_goal_def Let_def split: if_split_asm)
  have "lease_of db' k = (if k = gid then Some ?new else lease_of db k)" for k
    unfolding eff(3) using id
    by (auto simp: row_by_append row_by_Cons row_by_upd_by split: option.splits)
  then show ?thesis using eff(1,2) id by (intro exI [of _ ?new]) (simp add: claim_of_def)
qed

lemma try_acquire_none: "try_acquire_goal now gid hid ttl db = Inr (db', None) \<Longrightarrow> db' = db"
  by (auto simp: try_acquire_goal_def Let_def split: if_split_asm)

lemma lease_of_update_claimed [simp]:
  assumes "\<And>l. gl_goal_id (f l) = gl_goal_id l"
  shows "lease_of (update_claimed c f db) k =
    (if k = gk_goal_id c then map_option (\<lambda>l. if holds_claim c l then f l else l) (lease_of db k) else lease_of db k)"
  using assms by (simp add: update_claimed_def row_by_upd_by)

text \<open>What a later lease of the same goal can look like.\<close>

definition goal_lease_follows :: "goal_lease_row \<Rightarrow> goal_lease_row \<Rightarrow> bool" where
  "goal_lease_follows l l' \<longleftrightarrow>
     gl_generation l < gl_generation l' \<or>
     gl_generation l' = gl_generation l \<and> gl_host_id l' = gl_host_id l \<and>
       (gl_state l \<noteq> GL_OWNED \<longrightarrow> gl_state l' \<noteq> GL_OWNED)"

lemma update_claimed_follows:
  assumes "lease_of d k = Some l" and "\<And>l. gl_goal_id (f l) = gl_goal_id l"
    and "\<And>l. gl_generation (f l) = gl_generation l \<and> gl_host_id (f l) = gl_host_id l"
  shows "\<exists>l'. lease_of (update_claimed c f d) k = Some l' \<and> goal_lease_follows l l'"
  using assms by (cases "k = gk_goal_id c \<and> holds_claim c l") (auto simp: holds_claim_def goal_lease_follows_def)

lemma host_step_lease:
  assumes "host_step t d d'" and "lease_of d k = Some l"
  shows "\<exists>l'. lease_of d' k = Some l' \<and> goal_lease_follows l l'"
  using assms(1)
proof cases
  case (hs_acquire gid hid ttl r2)
  show ?thesis
  proof (cases r2)
    case None
    then show ?thesis using hs_acquire try_acquire_none assms(2) by (metis goal_lease_follows_def)
  next
    case (Some c)
    then show ?thesis using try_acquire_effect [of t gid hid ttl d d' c] hs_acquire assms(2)
      by (force simp: goal_lease_follows_def)
  qed
next
  case (hs_renew claim ttl pos b2)
  then show ?thesis by (auto simp: renew_goal_lease_def simp del: lease_of_update_claimed
        intro!: update_claimed_follows [OF assms(2)])
next
  case (hs_release claim err lost b3)
  then show ?thesis using assms(2) by (auto simp: release_goal_def goal_lease_follows_def [of l l]
        simp del: lease_of_update_claimed intro!: update_claimed_follows [OF assms(2)] split: if_split_asm)
qed (use assms(2) in \<open>auto simp: register_host_def heartbeat_host_def stop_host_def goal_lease_follows_def Let_def\<close>)

interpretation goal_leases: expiring_tokens host_step lease_of gl_generation gl_host_id
  "\<lambda>_ l. gl_state l = GL_OWNED"
  by unfold_locales (use host_step_lease in \<open>fastforce simp: goal_lease_follows_def\<close>)+


lemma claim_row_current: "claim_row c db \<noteq> None \<longleftrightarrow> goal_leases.current t db (gk_goal_id c) (gk_host_id c) (gk_generation c)"
  unfolding goal_leases.current_def
  by (auto simp: claim_row_def holds_claim_def dest: row_by_key split: option.splits)

text \<open>
  C37. A goal lease that was given up or taken over is lost for good. Once a claim is not held any
  more, at any time and in any later state its ownership assertion raises, renewing and releasing it
  change no lease, and an engine guarded by it stops before it reads or writes anything.
\<close>

theorem goal_lease_lost_forever:
  assumes "timed_run host_step t db t' db'" and "lease_of db (gk_goal_id c) = Some l"
    and "gk_generation c \<le> gl_generation l" and "claim_row c db = None"
  shows "claim_row c db' = None \<and>
    assert_goal_lease c t' db' = Inl (GoalLeaseLost (lost_message c)) \<and>
    release_goal t' c err lost db' = Inr (db', False) \<and>
    (renew_goal_lease t' c ttl pos db' = Inr (d2, ok) \<longrightarrow> \<not> ok \<and> lease_of d2 gid = lease_of db' gid) \<and>
    run_once (guarded_engine E c) gid \<lparr>clock = t', store = db'\<rparr> =
      Some (\<lparr>clock = t', store = db'\<rparr>, Inl (GoalLeaseLost (lost_message c)))"
proof -
  have lost: "claim_row c db' = None"
    using goal_leases.lost_forever [OF assms(1,2,3)] assms(4) claim_row_current by metis
  then have "assert_goal_lease c t' db' = Inl (GoalLeaseLost (lost_message c))"
    by (simp add: assert_goal_lease_def claim_current_def)
  moreover from this have "run_once (guarded_engine E c) gid \<lparr>clock = t', store = db'\<rparr> =
      Some (\<lparr>clock = t', store = db'\<rparr>, Inl (GoalLeaseLost (lost_message c)))"
    by (simp add: run_once_def andthen_def assert_ownership_def guarded_engine_def)
  moreover have "renew_goal_lease t' c ttl pos db' = Inr (d2, ok) \<longrightarrow> \<not> ok \<and> lease_of d2 gid = lease_of db' gid"
    using lost
    by (auto simp: renew_goal_lease_def claim_row_def split: option.splits if_split_asm)
  moreover have "release_goal t' c err lost db' = Inr (db', False)" using lost by (simp add: release_goal_def)
  ultimately show ?thesis using lost by blast
qed

text \<open>
  C38. Taking a goal over is exclusive. A claim is granted only when no claim on that goal is current;
  it bears a new generation, so every claim handed out before is from then on not held, and it is
  itself current as long as its time to live has not run out; leases of other goals stay as they are.
\<close>

theorem goal_takeover_exclusive:
  assumes "try_acquire_goal now gid hid ttl db = Inr (db', Some c)"
  shows "(gk_goal_id other = gid \<longrightarrow> \<not> claim_current other now db) \<and>
    (gk_goal_id other = gid \<and> (\<exists>l. lease_of db gid = Some l \<and> gk_generation other \<le> gl_generation l) \<longrightarrow>
       claim_row other db' = None) \<and>
    gk_goal_id c = gid \<and> gk_host_id c = hid \<and>
    (claim_current c later db' \<longleftrightarrow> micros later < expires now ttl) \<and>
    (k \<noteq> gid \<longrightarrow> lease_of db' k = lease_of db k)"
proof -
  obtain new where lease: "lease_open (micros now) (lease_of db gid)"
    and new: "gl_generation new = (case lease_of db gid of None \<Rightarrow> 1 | Some l \<Rightarrow> gl_generation l + 1)"
      "gl_host_id new = hid" "gl_state new = GL_OWNED" "gl_expires_at new = expires now ttl" "gl_goal_id new = gid"
    and c: "gk_goal_id c = gid" "gk_host_id c = hid" "gk_generation c = gl_generation new"
    and db': "\<And>k. lease_of db' k = (if k = gid then Some new else lease_of db k)"
    using try_acquire_effect [OF assms] by metis
  have "\<not> claim_current other now db" if "gk_goal_id other = gid"
    using lease that
    by (auto simp: claim_current_def claim_row_def lease_open_def holds_claim_def split: option.split)
  moreover have "claim_row other db' = None"
    if "gk_goal_id other = gid \<and> (\<exists>l. lease_of db gid = Some l \<and> gk_generation other \<le> gl_generation l)"
    using that new(1) by (auto simp: claim_row_def holds_claim_def db')
  moreover have "claim_row c db' = Some new" using c new by (simp add: claim_row_def holds_claim_def db')
  ultimately show ?thesis using c new(4) db' by (simp add: claim_current_def)
qed


section \<open>Scheduling rounds\<close>

definition host_ok :: "host \<Rightarrow> bool" where
  "host_ok h \<longleftrightarrow> distinct (ah_active h) \<and> int (length (ah_active h)) \<le> hc_max_concurrent_goals (ah_config h)"

lemma claim_goals_effect:
  assumes "claim_goals h gids claims w = Some (w', Inr (h', claims'))" and "host_ok h"
    and "\<forall>c \<in> set claims. gk_goal_id c \<in> set (ah_active h) \<and> gk_host_id c = ah_host_id h \<and> claim_row c (store w) \<noteq> None"
  shows "host_ok h' \<and> ah_config h' = ah_config h \<and> ah_host_id h' = ah_host_id h \<and>
    (\<exists>new. claims' = claims @ new \<and> ah_active h' = ah_active h @ map gk_goal_id new) \<and>
    (\<forall>c \<in> set claims'. gk_goal_id c \<in> set (ah_active h') \<and> gk_host_id c = ah_host_id h \<and>
       claim_row c (store w') \<noteq> None)"
  using assms
proof (induction gids arbitrary: h claims w)
  case (Cons gid gids)
  show ?case
  proof (cases "gid \<in> set (ah_active h) \<or> hc_max_concurrent_goals (ah_config h) \<le> int (length (ah_active h))")
    case True
    then have "claim_goals h gids claims w = Some (w', Inr (h', claims'))" using Cons.prems(1) by simp
    from Cons.IH [OF this Cons.prems(2,3)] show ?thesis .
  next
    case False
    obtain db r where acq: "try_acquire_goal (clock w) gid (ah_host_id h) (hc_lease_ttl_seconds (ah_config h)) (store w) = Inr (db, r)"
      and rest: "(case r of None \<Rightarrow> claim_goals h gids claims
        | Some c \<Rightarrow> claim_goals (h\<lparr>ah_active := ah_active h @ [gid]\<rparr>) gids (claims @ [c])) (w\<lparr>store := db\<rparr>)
        = Some (w', Inr (h', claims'))"
      using Cons.prems(1) False by (auto simp: prog_Some)
    show ?thesis
    proof (cases r)
      case None
      then have "db = store w" using acq try_acquire_none by blast
      then have "claim_goals h gids claims w = Some (w', Inr (h', claims'))" using rest None by simp
      from Cons.IH [OF this Cons.prems(2,3)] show ?thesis .
    next
      case (Some c)
      obtain new where new: "gk_goal_id c = gid" "gk_host_id c = ah_host_id h" "gk_generation c = gl_generation new"
          "gl_host_id new = ah_host_id h" "gl_state new = GL_OWNED" "gl_goal_id new = gid"
          "\<And>k. lease_of db k = (if k = gid then Some new else lease_of (store w) k)"
        using try_acquire_effect [OF acq [unfolded Some]] by metis
      have old: "claim_row c' db = claim_row c' (store w)" if "c' \<in> set claims" for c'
        using that Cons.prems(3) False new(7) by (auto simp: claim_row_def)
      have "claim_row c db = Some new" using new by (simp add: claim_row_def holds_claim_def)
      then have prems: "\<forall>c' \<in> set (claims @ [c]). gk_goal_id c' \<in> set (ah_active (h\<lparr>ah_active := ah_active h @ [gid]\<rparr>)) \<and>
          gk_host_id c' = ah_host_id (h\<lparr>ah_active := ah_active h @ [gid]\<rparr>) \<and> claim_row c' (store (w\<lparr>store := db\<rparr>)) \<noteq> None"
        using Cons.prems(3) old new(1,2) by auto
      have ok: "host_ok (h\<lparr>ah_active := ah_active h @ [gid]\<rparr>)" using Cons.prems(2) False by (auto simp: host_ok_def)
      have "claim_goals (h\<lparr>ah_active := ah_active h @ [gid]\<rparr>) gids (claims @ [c]) (w\<lparr>store := db\<rparr>) = Some (w', Inr (h', claims'))"
        using rest Some by simp
      note IH = Cons.IH [OF this ok prems]
      then obtain more where "claims' = claims @ c # more" "ah_active h' = ah_active h @ map gk_goal_id (c # more)"
        using new(1) by auto
      then show ?thesis using IH by (intro conjI exI [of _ "c # more"]) (simp_all add: new(1))
    qed
  qed
qed (auto simp: ret_def)

lemma reap_finished_effect:
  assumes "reap_finished h fs w = Some (w', Inr h')"
  shows "ah_config h' = ah_config h \<and> ah_host_id h' = ah_host_id h \<and>
    ah_active h' = filter (\<lambda>gid. gid \<notin> fst ` set fs) (ah_active h)"
  using assms
proof (induction fs arbitrary: h w)
  case (Cons f fs)
  then obtain w1 h1 where one: "reap_one h f w = Some (w1, Inr h1)"
    and rest: "reap_finished h1 fs w1 = Some (w', Inr h')" by (auto simp: prog_Some)
  have "h1 = h\<lparr>ah_active := filter (\<lambda>gid. gid \<noteq> fst f) (ah_active h)\<rparr>"
    using one by (auto simp: reap_one_def Let_def prog_Some split: task_end.splits)
  then show ?case using Cons.IH [OF rest] by (auto intro: filter_cong)
qed (auto simp: ret_def)

lemma claim_round_effect:
  assumes "claim_round h w = Some (w', Inr (h', claims))" and "host_ok h"
  shows "host_ok h' \<and> ah_config h' = ah_config h \<and> ah_active h' = ah_active h @ map gk_goal_id claims \<and>
    (\<forall>c \<in> set claims. gk_host_id c = ah_host_id h \<and> claim_row c (store w') \<noteq> None)"
proof (cases "0 < hc_max_concurrent_goals (ah_config h) - int (length (ah_active h))")
  case True
  then have "claim_goals h (eligible_goal_ids (clock w) (store w)
      ((hc_max_concurrent_goals (ah_config h) - int (length (ah_active h))) * 2)) [] w = Some (w', Inr (h', claims))"
    using assms(1) by (simp add: claim_round_def Let_def)
  from claim_goals_effect [OF this assms(2)] show ?thesis by auto
qed (use assms in \<open>auto simp: claim_round_def ret_def\<close>)


section \<open>What the guard does and does not fence\<close>

text \<open>
  C40. A host that lost its lease while the evaluator ran records nothing: the evaluation is dropped
  and the loop ends with \<^verbatim>\<open>GoalLeaseLost\<close>. A dispatch is different. When the lease is lost while the
  dispatcher runs, the exception of the guard is caught by the handler around the dispatch, so the
  host, no longer the owner, still marks the action as failed in the shared database and goes on.
\<close>

theorem dispatch_outlives_lease:
  assumes "\<not> claim_current c (clock w') (store w')"
  shows "(it_evaluation it = None \<and> en_evaluate E ctx w = (w', Inr e) \<and> check_goal_evaluation e = Inr () \<longrightarrow>
      evaluation_checkpoint (guarded_engine E c) iid it ctx w =
        Some (w', Inl (GoalLeaseLost (lost_message c)))) \<and>
    (en_dispatch E ctx action aid w = (w', Inr handle) \<and>
       row_by ac_id aid (autonomous_actions (store w')) = Some a \<and>
       row_by go_id (ac_goal_id a) (autonomous_goals (store w')) = Some g \<longrightarrow>
      (\<exists>db'. start_action (guarded_engine E c) ctx aid action None w = Some (w'\<lparr>store := db'\<rparr>, Inr False) \<and>
         map_option ac_state (row_by ac_id aid (autonomous_actions db')) = Some ACT_FAILED))"
proof -
  have lost: "assert_ownership (guarded_engine E c) w' = Some (w', Inl (GoalLeaseLost (lost_message c)))"
    using assms by (simp add: assert_ownership_def guarded_engine_def assert_goal_lease_def)
  have eval: "evaluation_checkpoint (guarded_engine E c) iid it ctx w = Some (w', Inl (GoalLeaseLost (lost_message c)))"
    if "it_evaluation it = None" "en_evaluate E ctx w = (w', Inr e)" "check_goal_evaluation e = Inr ()"
    using that lost
    by (simp add: evaluation_checkpoint_def evaluate_def andthen_def await_def ret_def guarded_engine_def)
  have "\<exists>db'. start_action (guarded_engine E c) ctx aid action None w = Some (w'\<lparr>store := db'\<rparr>, Inr False) \<and>
      map_option ac_state (row_by ac_id aid (autonomous_actions db')) = Some ACT_FAILED"
    if d: "en_dispatch E ctx action aid w = (w', Inr handle)"
      and a: "row_by ac_id aid (autonomous_actions (store w')) = Some a"
      and g: "row_by go_id (ac_goal_id a) (autonomous_goals (store w')) = Some g"
  proof -
    obtain db' where f: "set_action (clock w') aid ACT_FAILED None None (Some err) (store w') = Inr (db', ())"
      and r: "row_by ac_id aid (autonomous_actions db') = Some (update_action (clock w') ACT_FAILED None None (Some err) a)"
      if "err = redact_string (en_error_text E (GoalLeaseLost (lost_message c)))" for err
      using a g by (simp add: set_action_def get_goal_def fetch_def references_def row_by_upd_by update_action_def)
    have "start_action (guarded_engine E c) ctx aid action None w = Some (w'\<lparr>store := db'\<rparr>, Inr False)"
      using d lost f
      by (simp add: start_action_def catch_def andthen_def await_def fail_action_def transact_def ret_def
          guarded_engine_def)
    then show ?thesis using r by (auto simp: update_action_def)
  qed
  with eval show ?thesis by blast
qed


section \<open>Examples\<close>

definition sample_config :: host_config where
  "sample_config = \<lparr>hc_max_concurrent_goals = 2, hc_poll_interval_seconds = 1, hc_heartbeat_interval_seconds = 2,
     hc_lease_ttl_seconds = 10, hc_shutdown_grace_seconds = 10\<rparr>"

definition sample_host_row :: host_row where
  "sample_host_row = \<lparr>ho_host_id = ''b'', ho_process_id = 7, ho_state = HOST_RUNNING, ho_started_at = 0,
     ho_heartbeat_at = 0, ho_stopped_at = None, ho_active_goal_count = 0, ho_last_error = None, ho_metadata = []\<rparr>"

definition sample_claim :: goal_lease_claim where
  "sample_claim = \<lparr>gk_goal_id = ''g'', gk_host_id = ''a'', gk_generation = 1, gk_recovery_state = GR_FRESH,
     gk_stale_owner_recovered = False\<rparr>"

definition host_db :: db where
  "host_db = goal_db\<lparr>autonomous_hosts := [sample_host_row],
     autonomous_goal_leases := [next_goal_lease 0 sample_goal ''a'' 3 goal_db None]\<rparr>"

definition sample_host :: host where
  "sample_host = \<lparr>ah_config = sample_config, ah_host_id = ''b'', ah_process_id = 7, ah_registered = True, ah_active = []\<rparr>"

lemma sample_takeover: "\<exists>db' c. try_acquire_goal 5 ''g'' ''b'' 10 host_db = Inr (db', Some c)"
  by (simp add: try_acquire_goal_def get_goal_def get_host_def fetch_def host_db_def goal_simps Let_def
      lease_open_def sample_host_row_def micros_def expires_def next_goal_lease_def)

theorem goal_takeover_exclusive_witness:
  "\<exists>db' c. try_acquire_goal 5 ''g'' ''b'' 10 host_db = Inr (db', Some c) \<and>
     \<not> claim_current sample_claim 5 host_db \<and> claim_current c 14 db' \<and> \<not> claim_current c 16 db'"
proof -
  obtain db' c where t: "try_acquire_goal 5 ''g'' ''b'' 10 host_db = Inr (db', Some c)"
    using sample_takeover by blast
  have g: "gk_goal_id sample_claim = ''g''" by (simp add: sample_claim_def)
  have e: "micros 14 < expires 5 10" "\<not> micros 16 < expires 5 10" by (simp_all add: micros_def expires_def)
  show ?thesis
    using goal_takeover_exclusive [OF t, of sample_claim 14] goal_takeover_exclusive [OF t, of sample_claim 16] t g e
    by blast
qed

theorem goal_lease_lost_forever_witness:
  "\<exists>db'. (\<exists>c. try_acquire_goal 5 ''g'' ''b'' 10 host_db = Inr (db', Some c)) \<and>
     assert_goal_lease sample_claim 9 db' = Inl (GoalLeaseLost (lost_message sample_claim))"
proof -
  obtain db' c where t: "try_acquire_goal 5 ''g'' ''b'' 10 host_db = Inr (db', Some c)"
    using sample_takeover by blast
  obtain l where l: "lease_of db' ''g'' = Some l" "gl_generation l = 2"
    using try_acquire_effect [OF t] by (auto simp: host_db_def row_simps sample_goal_def new_goal_def)
  have c: "gk_goal_id sample_claim = ''g''" "gk_generation sample_claim = 1" by (simp_all add: sample_claim_def)
  have none: "claim_row sample_claim db' = None" using l c by (simp add: claim_row_def holds_claim_def)
  have "timed_run host_step 5 db' 9 db'" by (rule run_wait) simp
  from goal_lease_lost_forever [OF this, of sample_claim l] l c none t show ?thesis by auto
qed


definition dispatching_engine :: engine where
  "dispatching_engine = sample_engine\<lparr>en_dispatch := \<lambda>_ _ _ w. (w, Inr \<lparr>dh_reference = ''r'', dh_task_id = None,
     dh_metadata = JObj []\<rparr>)\<rparr>"

definition sample_action :: planned_action where
  "sample_action = \<lparr>pa_key = ''k'', pa_title = ''t'', pa_description = ''d'', pa_role = ''r'', pa_payload = JObj []\<rparr>"

theorem dispatch_outlives_lease_witness:
  "\<exists>w db'. (\<exists>ctx. start_action (guarded_engine dispatching_engine sample_claim) ctx ''act-i:k'' sample_action None w =
       Some (w\<lparr>store := db'\<rparr>, Inr False)) \<and>
     map_option ac_state (row_by ac_id ''act-i:k'' (autonomous_actions db')) = Some ACT_FAILED"
proof -
  define w where "w = \<lparr>clock = 5, store = host_db\<lparr>autonomous_actions := [new_action 0 id ''g'' ''i'' 0 sample_action]\<rparr>\<rparr>"
  have lost: "\<not> claim_current sample_claim (clock w) (store w)"
    by (simp add: w_def claim_current_def claim_row_def host_db_def row_simps holds_claim_def sample_claim_def
        sample_goal_def new_goal_def micros_def expires_def)
  have a: "row_by ac_id ''act-i:k'' (autonomous_actions (store w)) = Some (new_action 0 id ''g'' ''i'' 0 sample_action)"
    by (simp add: w_def row_simps new_action_def sample_action_def)
  have g: "row_by go_id (ac_goal_id (new_action 0 id ''g'' ''i'' 0 sample_action)) (autonomous_goals (store w)) = Some sample_goal"
    by (simp add: w_def host_db_def goal_simps new_action_def)
  have d: "en_dispatch dispatching_engine ctx sample_action ''act-i:k'' w =
      (w, Inr \<lparr>dh_reference = ''r'', dh_task_id = None, dh_metadata = JObj []\<rparr>)" for ctx
    by (simp add: dispatching_engine_def sample_engine_def)
  from dispatch_outlives_lease [OF lost, where E = dispatching_engine and w = w and aid = "''act-i:k''" and
      action = sample_action and a = "new_action 0 id ''g'' ''i'' 0 sample_action"] a g d
  show ?thesis by blast
qed

end
