(* ===== verification/Node_Recovery_Types.thy ===== *)
theory Node_Recovery_Types
  imports Autonomous_Host
begin

text \<open>
  Recovery of node runtimes, the data: policies, health observations, authorization decisions,
  requests to and results of node adapters, and recovery outcomes of
  \<^verbatim>\<open>src/project_supervisor/node_recovery.py\<close>, with the checks of their \<^verbatim>\<open>__post_init__\<close> in source order, and
  the tables of \<^verbatim>\<open>migrations/0008\<close> and \<^verbatim>\<open>0009\<close>. Times of leases, monitors and checkpoints are texts with
  microseconds, the others texts with seconds.
\<close>

section \<open>Patterns\<close>

definition ascii_letter :: "char \<Rightarrow> bool" where
  "ascii_letter c = (lower_letter c \<or> (CHR ''A'' \<le> c \<and> c \<le> CHR ''Z''))"

definition ascii_digit :: "char \<Rightarrow> bool" where
  "ascii_digit c = (CHR ''0'' \<le> c \<and> c \<le> CHR ''9'')"

text \<open>\<^verbatim>\<open>[A-Za-z0-9._:-]\<close> and \<^verbatim>\<open>[A-Za-z0-9._:@/-]\<close>\<close>

definition ref_char :: "char \<Rightarrow> bool" where
  "ref_char c = (ascii_letter c \<or> ascii_digit c \<or> c \<in> set ''._:-'')"

definition attribution_char :: "char \<Rightarrow> bool" where
  "attribution_char c = (ref_char c \<or> c \<in> set ''@/'')"

text \<open>The text after a prefix.\<close>

fun after_prefix :: "string \<Rightarrow> string \<Rightarrow> string option" where
  "after_prefix [] s = Some s"
| "after_prefix (p # ps) [] = None"
| "after_prefix (p # ps) (c # cs) = (if p = c then after_prefix ps cs else None)"

definition prefixed_ref :: "string list \<Rightarrow> string \<Rightarrow> bool" where
  "prefixed_ref heads s =
     list_ex (\<lambda>p. case after_prefix p s of None \<Rightarrow> False
       | Some r \<Rightarrow> 1 \<le> length r \<and> length r \<le> 140 \<and> list_all ref_char r) heads"

definition authorization_ref_match :: "string \<Rightarrow> bool" where
  "authorization_ref_match = prefixed_ref [''grant-'', ''approval-'', ''capability-'']"

definition operation_ref_match :: "string \<Rightarrow> bool" where
  "operation_ref_match = prefixed_ref [''operation-'', ''request-'', ''runtime-'']"

definition identity_match :: "nat \<Rightarrow> string \<Rightarrow> bool" where
  "identity_match n s = (case s of [] \<Rightarrow> False
     | c # cs \<Rightarrow> ascii_letter c \<and> length cs \<le> n \<and> list_all attribution_char cs)"

definition attribution_match :: "string \<Rightarrow> bool" where
  "attribution_match = identity_match 159"

definition monitor_id_match :: "string \<Rightarrow> bool" where
  "monitor_id_match = identity_match 119"

text \<open>\<^verbatim>\<open>^[0-9]+(?:\.[0-9]+){1,2}$\<close>: two or three groups of digits.\<close>

fun split_dots :: "string \<Rightarrow> string \<Rightarrow> string list" where
  "split_dots acc [] = [rev acc]"
| "split_dots acc (c # cs) = (if c = CHR ''.'' then rev acc # split_dots [] cs else split_dots (c # acc) cs)"

definition protocol_version_match :: "string \<Rightarrow> bool" where
  "protocol_version_match s =
     (let parts = split_dots [] s in (length parts = 2 \<or> length parts = 3) \<and>
        list_all (\<lambda>p. p \<noteq> [] \<and> list_all ascii_digit p) parts)"

text \<open>
  \<^verbatim>\<open>_validate_loopback_endpoint\<close>: the canonical pattern, and a port \<^verbatim>\<open>urlsplit\<close> accepts (\<^verbatim>\<open>int\<close> refuses more
  than 4300 digits). What it rejects raises \<^verbatim>\<open>ValueError\<close>; of its messages only the last is kept.
\<close>

definition port_text :: "string \<Rightarrow> bool" where
  "port_text s =
     (let d = (if s \<noteq> [] \<and> last s = CHR ''/'' then butlast s else s) in
      d \<noteq> [] \<and> list_all ascii_digit d \<and> length d \<le> 4300 \<and>
      (case py_digits 0 d of None \<Rightarrow> False | Some p \<Rightarrow> p \<le> 65535))"

definition loopback_endpoint :: "string \<Rightarrow> bool" where
  "loopback_endpoint s =
     list_ex (\<lambda>scheme. case after_prefix scheme s of None \<Rightarrow> False
       | Some r \<Rightarrow> list_ex (\<lambda>host. case after_prefix host r of None \<Rightarrow> False | Some p \<Rightarrow> port_text p)
           [''127.0.0.1:'', ''localhost:'', ''[::1]:'']) [''http://'', ''https://'']"

definition validate_loopback_endpoint :: "string \<Rightarrow> unit result" where
  "validate_loopback_endpoint s =
     raise_if (\<not> loopback_endpoint s) (ValueError ''runtime recovery backend must remain loopback-only'')"

section \<open>Enumerations\<close>

datatype recovery_operation = START_RUNTIME

primrec recovery_operation_value :: "recovery_operation \<Rightarrow> string" where
  "recovery_operation_value START_RUNTIME = ''runtime.start''"

datatype attempt_state =
    AT_OBSERVED_HEALTHY | AT_DEGRADED | AT_PERMISSION_REQUIRED | AT_RECOVERING
  | AT_VERIFYING | AT_READY | AT_FAILED

definition all_attempt_state :: "attempt_state list" where
  "all_attempt_state =
    [AT_OBSERVED_HEALTHY, AT_DEGRADED, AT_PERMISSION_REQUIRED, AT_RECOVERING,
     AT_VERIFYING, AT_READY, AT_FAILED]"

primrec attempt_state_value :: "attempt_state \<Rightarrow> string" where
  "attempt_state_value AT_OBSERVED_HEALTHY = ''observedHealthy''"
| "attempt_state_value AT_DEGRADED = ''degraded''"
| "attempt_state_value AT_PERMISSION_REQUIRED = ''permissionRequired''"
| "attempt_state_value AT_RECOVERING = ''recovering''"
| "attempt_state_value AT_VERIFYING = ''verifying''"
| "attempt_state_value AT_READY = ''ready''"
| "attempt_state_value AT_FAILED = ''failed''"

datatype monitor_state =
    MON_STARTING | MON_RUNNING | MON_STOPPING | MON_STOPPED
  | MON_FAILED

definition all_monitor_state :: "monitor_state list" where
  "all_monitor_state =
    [MON_STARTING, MON_RUNNING, MON_STOPPING, MON_STOPPED,
     MON_FAILED]"

primrec monitor_state_value :: "monitor_state \<Rightarrow> string" where
  "monitor_state_value MON_STARTING = ''starting''"
| "monitor_state_value MON_RUNNING = ''running''"
| "monitor_state_value MON_STOPPING = ''stopping''"
| "monitor_state_value MON_STOPPED = ''stopped''"
| "monitor_state_value MON_FAILED = ''failed''"

interpretation attempt_state_wire: wire_enum all_attempt_state attempt_state_value
proof
  show "x \<in> set all_attempt_state" for x
    by (cases x) (simp_all add: all_attempt_state_def)
  show "distinct (map attempt_state_value all_attempt_state)"
    by (simp add: all_attempt_state_def)
qed

interpretation monitor_state_wire: wire_enum all_monitor_state monitor_state_value
proof
  show "x \<in> set all_monitor_state" for x
    by (cases x) (simp_all add: all_monitor_state_def)
  show "distinct (map monitor_state_value all_monitor_state)"
    by (simp add: all_monitor_state_def)
qed

section \<open>Policies\<close>

record recovery_policy =
  rp_id :: string
  rp_node_id :: string
  rp_runtime_id :: string
  rp_backend_endpoint :: string
  rp_required_capability :: string
  rp_expected_models :: "string list"
  rp_worker_ids :: "string list"
  rp_enabled :: bool
  rp_max_attempts :: int
  rp_monitor_interval_seconds :: rat
  rp_failure_backoff_seconds :: rat
  rp_lease_ttl_seconds :: rat

definition unique_nonblank :: "string list \<Rightarrow> bool" where
  "unique_nonblank xs \<longleftrightarrow> list_all nonblank xs \<and> distinct xs"

definition check_recovery_policy :: "recovery_policy \<Rightarrow> unit result" where
  "check_recovery_policy p =
     bindR (raise_if (\<not> list_all nonblank [rp_id p, rp_node_id p, rp_runtime_id p, rp_required_capability p])
       (ValueError ''recovery policy identifiers must not be empty'')) (\<lambda>_.
     bindR (raise_if (\<not> scope_fullmatch (rp_required_capability p))
       (ValueError ''required_capability must be a scoped machine-readable name'')) (\<lambda>_.
     bindR (validate_loopback_endpoint (rp_backend_endpoint p)) (\<lambda>_.
     bindR (raise_if (\<not> (1 \<le> rp_max_attempts p \<and> rp_max_attempts p \<le> 3))
       (ValueError ''max_attempts must be between one and three'')) (\<lambda>_.
     bindR (raise_if (\<not> (5 \<le> rp_monitor_interval_seconds p \<and> rp_monitor_interval_seconds p \<le> 3600))
       (ValueError ''monitor_interval_seconds must be between 5 and 3600'')) (\<lambda>_.
     bindR (raise_if (\<not> (5 \<le> rp_failure_backoff_seconds p \<and> rp_failure_backoff_seconds p \<le> 86400))
       (ValueError ''failure_backoff_seconds must be between 5 and 86400'')) (\<lambda>_.
     bindR (raise_if (\<not> (15 \<le> rp_lease_ttl_seconds p \<and> rp_lease_ttl_seconds p \<le> 300))
       (ValueError ''lease_ttl_seconds must be between 15 and 300'')) (\<lambda>_.
     bindR (raise_if (\<not> unique_nonblank (rp_expected_models p))
       (ValueError ''expected_models must contain unique non-empty values'')) (\<lambda>_.
     raise_if (\<not> unique_nonblank (rp_worker_ids p))
       (ValueError ''worker_ids must contain unique non-empty values'')))))))))"

definition policy_to_protocol :: "recovery_policy \<Rightarrow> (string \<times> json) list" where
  "policy_to_protocol p =
     [(''id'', JStr (rp_id p)), (''nodeID'', JStr (rp_node_id p)), (''runtimeID'', JStr (rp_runtime_id p)),
      (''backendEndpoint'', JStr (rp_backend_endpoint p)),
      (''requiredCapability'', JStr (rp_required_capability p)),
      (''expectedModels'', JList (map JStr (rp_expected_models p))),
      (''workerIDs'', JList (map JStr (rp_worker_ids p))), (''enabled'', JBool (rp_enabled p)),
      (''maxAttempts'', JInt (rp_max_attempts p)),
      (''monitorIntervalSeconds'', JNum (rp_monitor_interval_seconds p)),
      (''failureBackoffSeconds'', JNum (rp_failure_backoff_seconds p)),
      (''leaseTTLSeconds'', JNum (rp_lease_ttl_seconds p))]"

section \<open>Health observations\<close>

record health_observation =
  hv_reachable :: bool
  hv_runtime_ready :: bool
  hv_models :: "string list option"
  hv_observed_at :: rat
  hv_tz_aware :: bool
  hv_source :: string
  hv_detail :: "string option"

definition check_health_observation :: "health_observation \<Rightarrow> unit result" where
  "check_health_observation h =
     bindR (raise_if (\<not> hv_tz_aware h) (ValueError ''health observation time must be timezone-aware'')) (\<lambda>_.
     bindR (raise_if (\<not> attribution_match (hv_source h))
       (ValueError ''health observation source must be a bounded machine identifier'')) (\<lambda>_.
     raise_if (case hv_models h of None \<Rightarrow> False | Some ms \<Rightarrow> \<not> unique_nonblank ms)
       (ValueError ''observed models must contain unique non-empty values'')))"

definition ready_for :: "health_observation \<Rightarrow> recovery_policy \<Rightarrow> bool" where
  "ready_for h p =
     (if \<not> (hv_reachable h \<and> hv_runtime_ready h) then False
      else if rp_expected_models p = [] then True
      else (case hv_models h of None \<Rightarrow> False | Some ms \<Rightarrow> set (rp_expected_models p) \<subseteq> set ms))"

definition observation_to_protocol :: "health_observation \<Rightarrow> (string \<times> json) list" where
  "observation_to_protocol h =
     [(''reachable'', JBool (hv_reachable h)), (''runtimeReady'', JBool (hv_runtime_ready h)),
      (''models'', json_opt (\<lambda>ms. JList (map JStr ms)) (hv_models h)),
      (''observedAt'', JTime (timestamp (hv_observed_at h))), (''source'', JStr (hv_source h)),
      (''detail'', json_opt JStr (redact_opt (hv_detail h)))]"

text \<open>
  The answer of the \<^verbatim>\<open>/v1/models\<close> probe, from the JSON value of the response. The transport that fetches
  it is a parameter of the service.
\<close>

definition model_identifier :: "json \<Rightarrow> string result" where
  "model_identifier v =
     (case v of
        JObj kvs \<Rightarrow> (case map_of kvs ''id'' of
            Some (JStr s) \<Rightarrow>
              if nonblank s then Inr s else Inl (ValueError ''every model status item requires a non-empty id'')
          | _ \<Rightarrow> Inl (ValueError ''every model status item requires a non-empty id''))
      | _ \<Rightarrow> Inl (ValueError ''every model status item requires a non-empty id''))"

definition probe_models :: "rat \<Rightarrow> json \<Rightarrow> health_observation result" where
  "probe_models now v =
     (case (case v of JObj kvs \<Rightarrow> map_of kvs ''data'' | _ \<Rightarrow> None) of
        Some (JList items) \<Rightarrow>
          bindR (map_result model_identifier items) (\<lambda>ids.
          Inr \<lparr>hv_reachable = True, hv_runtime_ready = True, hv_models = Some (dict_fromkeys ids),
               hv_observed_at = now, hv_tz_aware = True, hv_source = ''loopback.modelsGET'', hv_detail = None\<rparr>)
      | _ \<Rightarrow> Inl (ValueError ''model status response must contain a data array''))"

section \<open>Authorization, requests and results\<close>

record authorization_context =
  au_recovery_id :: string
  au_node_id :: string
  au_runtime_id :: string
  au_capability :: string
  au_operation :: recovery_operation
  au_requested_by :: string
  au_attempt :: int

record authorization_decision =
  ad_authorized :: bool
  ad_authorization_ref :: "string option"
  ad_reason :: string

definition check_authorization_decision :: "authorization_decision \<Rightarrow> unit result" where
  "check_authorization_decision d =
     bindR (raise_if (\<not> nonblank (ad_reason d)) (ValueError ''authorization decision requires a reason'')) (\<lambda>_.
     bindR (raise_if (ad_authorized d \<noteq> (case ad_authorization_ref d of None \<Rightarrow> False | Some r \<Rightarrow> nonblank r))
       (ValueError ''authorized decisions require a non-empty opaque authorization_ref'')) (\<lambda>_.
     raise_if (case ad_authorization_ref d of None \<Rightarrow> False | Some r \<Rightarrow> \<not> authorization_ref_match r)
       (ValueError ''authorization_ref must be an opaque grant/approval/capability ID'')))"

definition deny_all :: "authorization_context \<Rightarrow> authorization_decision" where
  "deny_all ctx = \<lparr>ad_authorized = False, ad_authorization_ref = None,
     ad_reason = ''no capability authorizer configured''\<rparr>"

record recovery_request =
  rr_recovery_id :: string
  rr_policy_id :: string
  rr_node_id :: string
  rr_runtime_id :: string
  rr_operation :: recovery_operation
  rr_backend_endpoint :: string
  rr_authorization_ref :: string
  rr_lease_owner_id :: string
  rr_lease_generation :: int
  rr_idempotency_key :: string
  rr_requested_at :: rat
  rr_deadline_at :: rat

text \<open>The service builds both times from \<^verbatim>\<open>datetime.now(UTC)\<close>, so they bear a time zone.\<close>

definition check_recovery_request :: "recovery_request \<Rightarrow> unit result" where
  "check_recovery_request r =
     bindR (raise_if (\<not> list_all nonblank
         [rr_recovery_id r, rr_policy_id r, rr_node_id r, rr_runtime_id r, rr_lease_owner_id r])
       (ValueError ''runtime recovery request identifiers must not be empty'')) (\<lambda>_.
     bindR (raise_if (\<not> attribution_match (rr_lease_owner_id r))
       (ValueError ''runtime recovery request lease owner is invalid'')) (\<lambda>_.
     bindR (raise_if (\<not> authorization_ref_match (rr_authorization_ref r))
       (ValueError ''runtime recovery request requires an opaque authorization reference'')) (\<lambda>_.
     bindR (raise_if (rr_deadline_at r \<le> rr_requested_at r)
       (ValueError ''runtime recovery deadline must follow requested_at'')) (\<lambda>_.
     bindR (raise_if (rr_lease_generation r < 1)
       (ValueError ''runtime recovery fencing generation must be positive'')) (\<lambda>_.
     bindR (raise_if (rr_idempotency_key r \<noteq> rr_recovery_id r)
       (ValueError ''runtime recovery idempotency_key must equal the durable recovery ID'')) (\<lambda>_.
     validate_loopback_endpoint (rr_backend_endpoint r)))))))"

definition request_to_protocol :: "recovery_request \<Rightarrow> (string \<times> json) list" where
  "request_to_protocol r =
     [(''recoveryID'', JStr (rr_recovery_id r)), (''policyID'', JStr (rr_policy_id r)),
      (''nodeID'', JStr (rr_node_id r)), (''runtimeID'', JStr (rr_runtime_id r)),
      (''operation'', JStr (recovery_operation_value (rr_operation r))),
      (''backendEndpoint'', JStr (rr_backend_endpoint r)),
      (''authorizationRef'', JStr (rr_authorization_ref r)),
      (''leaseOwnerID'', JStr (rr_lease_owner_id r)), (''leaseGeneration'', JInt (rr_lease_generation r)),
      (''idempotencyKey'', JStr (rr_idempotency_key r)),
      (''requestedAt'', JTime (timestamp (rr_requested_at r))),
      (''deadlineAt'', JTime (timestamp (rr_deadline_at r)))]"

record adapter_descriptor =
  de_adapter_id :: string
  de_node_id :: string
  de_protocol_version :: string
  de_max_operation_seconds :: rat
  de_allowed_operations :: "recovery_operation list"
  de_allows_arbitrary_commands :: bool
  de_enforces_fencing :: bool
  de_enforces_deadline :: bool
  de_enforces_idempotency :: bool

definition check_adapter_descriptor :: "adapter_descriptor \<Rightarrow> unit result" where
  "check_adapter_descriptor d =
     bindR (raise_if (\<not> attribution_match (de_adapter_id d) \<or> \<not> attribution_match (de_node_id d))
       (ValueError ''adapter and node identifiers must be bounded machine identities'')) (\<lambda>_.
     bindR (raise_if (\<not> protocol_version_match (de_protocol_version d))
       (ValueError ''adapter protocol_version must be numeric major.minor[.patch]'')) (\<lambda>_.
     raise_if (\<not> (0 < de_max_operation_seconds d \<and> de_max_operation_seconds d \<le> 120))
       (ValueError ''adapter max_operation_seconds must be > 0 and <= 120'')))"

definition descriptor_to_protocol :: "adapter_descriptor \<Rightarrow> (string \<times> json) list" where
  "descriptor_to_protocol d =
     [(''adapterID'', JStr (de_adapter_id d)), (''nodeID'', JStr (de_node_id d)),
      (''protocolVersion'', JStr (de_protocol_version d)),
      (''maxOperationSeconds'', JNum (de_max_operation_seconds d)),
      (''allowedOperations'',
        JList (map JStr (sort (map recovery_operation_value (dict_fromkeys (de_allowed_operations d)))))),
      (''allowsArbitraryCommands'', JBool (de_allows_arbitrary_commands d)),
      (''enforcesFencing'', JBool (de_enforces_fencing d)),
      (''enforcesDeadline'', JBool (de_enforces_deadline d)),
      (''enforcesIdempotency'', JBool (de_enforces_idempotency d))]"

record recovery_result =
  rz_accepted :: bool
  rz_operation_reference :: "string option"
  rz_detail :: "string option"
  rz_observed_fencing_generation :: "int option"
  rz_idempotent_replay :: bool

definition check_recovery_result :: "recovery_result \<Rightarrow> unit result" where
  "check_recovery_result r =
     raise_if (rz_accepted r \<and>
         ((case rz_operation_reference r of None \<Rightarrow> True | Some s \<Rightarrow> \<not> operation_ref_match s) \<or>
          (case rz_observed_fencing_generation r of None \<Rightarrow> True | Some g \<Rightarrow> g < 1)))
       (ValueError ''accepted recovery results require an opaque operation reference and fencing generation'')"

definition result_to_protocol :: "recovery_result \<Rightarrow> (string \<times> json) list" where
  "result_to_protocol r =
     [(''accepted'', JBool (rz_accepted r)), (''operationReference'', json_opt JStr (rz_operation_reference r)),
      (''detail'', json_opt JStr (redact_opt (rz_detail r))),
      (''observedFencingGeneration'', json_opt JInt (rz_observed_fencing_generation r)),
      (''idempotentReplay'', JBool (rz_idempotent_replay r))]"

section \<open>Outcomes\<close>

record recovery_outcome =
  oc_id :: string
  oc_policy_id :: string
  oc_state :: attempt_state
  oc_attempt_count :: int
  oc_authorization_ref :: "string option"
  oc_before :: health_observation
  oc_after :: "health_observation option"
  oc_failure_code :: "string option"
  oc_failure_detail :: "string option"
  oc_lease_generation :: "int option"
  oc_stale_owner_recovered :: bool

definition outcome_to_protocol :: "recovery_outcome \<Rightarrow> (string \<times> json) list" where
  "outcome_to_protocol r =
     [(''id'', JStr (oc_id r)), (''policyID'', JStr (oc_policy_id r)),
      (''state'', JStr (attempt_state_value (oc_state r))), (''attemptCount'', JInt (oc_attempt_count r)),
      (''authorizationRef'', json_opt JStr (oc_authorization_ref r)),
      (''beforeHealth'', JObj (observation_to_protocol (oc_before r))),
      (''afterHealth'', json_opt (\<lambda>h. JObj (observation_to_protocol h)) (oc_after r)),
      (''failureCode'', json_opt JStr (oc_failure_code r)),
      (''failureDetail'', json_opt JStr (oc_failure_detail r)),
      (''leaseGeneration'', json_opt JInt (oc_lease_generation r)),
      (''staleOwnerRecovered'', JBool (oc_stale_owner_recovered r))]"

section \<open>Tables\<close>

text \<open>A time column whose text has seconds or microseconds, in the order of the texts.\<close>

datatype iso_time = Seconds int | Micros int

primrec iso_key :: "iso_time \<Rightarrow> int \<times> int" where
  "iso_key (Seconds s) = (s, 1000000)"
| "iso_key (Micros u) = (u div 1000000, u mod 1000000)"

primrec json_iso :: "iso_time \<Rightarrow> json" where
  "json_iso (Seconds s) = JTime s"
| "json_iso (Micros u) = JMicros u"

record policy_row =
  pw_policy :: recovery_policy
  pw_created_at :: int
  pw_updated_at :: int

record attempt_row =
  ra_id :: string
  ra_policy_id :: string
  ra_node_id :: string
  ra_runtime_id :: string
  ra_state :: attempt_state
  ra_trigger_reason :: string
  ra_requested_by :: string
  ra_authorization_ref :: "string option"
  ra_attempt_count :: int
  ra_before_health :: "(string \<times> json) list"
  ra_after_health :: "(string \<times> json) list option"
  ra_failure_code :: "string option"
  ra_failure_detail :: "string option"
  ra_started_at :: int
  ra_updated_at :: iso_time
  ra_finished_at :: "iso_time option"
  ra_lease_owner_id :: "string option"
  ra_lease_generation :: "int option"

text \<open>The \<^verbatim>\<open>CHECK\<close> constraints of an attempt.\<close>

definition attempt_final :: "attempt_state \<Rightarrow> bool" where
  "attempt_final s \<longleftrightarrow> s \<in> {AT_OBSERVED_HEALTHY, AT_READY, AT_FAILED, AT_PERMISSION_REQUIRED}"

definition attempt_checks :: "attempt_row \<Rightarrow> bool" where
  "attempt_checks a \<longleftrightarrow>
     0 \<le> ra_attempt_count a \<and> ra_attempt_count a \<le> 3 \<and>
     (attempt_final (ra_state a) \<longleftrightarrow> ra_finished_at a \<noteq> None) \<and>
     (ra_state a \<in> {AT_FAILED, AT_PERMISSION_REQUIRED} \<longleftrightarrow> ra_failure_code a \<noteq> None)"

text \<open>The states of a recovery lease are those of a goal lease.\<close>

record recovery_lease_row =
  rl_policy_id :: string
  rl_owner_id :: string
  rl_generation :: int
  rl_state :: goal_lease_state
  rl_acquired_at :: int
  rl_heartbeat_at :: int
  rl_expires_at :: int
  rl_released_at :: "int option"
  rl_active_recovery_id :: "string option"
  rl_recovery_state :: goal_recovery_state
  rl_previous_owner_id :: "string option"
  rl_last_error :: "string option"

record monitor_row =
  rm_monitor_id :: string
  rm_process_id :: int
  rm_state :: monitor_state
  rm_started_at :: int
  rm_heartbeat_at :: int
  rm_stopped_at :: "int option"
  rm_active_policy_count :: int
  rm_observation_count :: int
  rm_recovery_count :: int
  rm_stale_takeover_count :: int
  rm_last_error :: "string option"
  rm_metadata :: "(string \<times> json) list"

record checkpoint_row =
  ck_policy_id :: string
  ck_monitor_id :: "string option"
  ck_last_recovery_id :: "string option"
  ck_last_state :: "string option"
  ck_consecutive_failures :: int
  ck_last_observed_at :: "int option"
  ck_next_observation_at :: int
  ck_last_error :: "string option"
  ck_updated_at :: int

text \<open>The database with these tables; \<open>rv_db\<close> holds the others.\<close>

record recovery_db =
  rv_db :: db
  rv_policies :: "policy_row list"
  rv_attempts :: "attempt_row list"
  rv_leases :: "recovery_lease_row list"
  rv_monitors :: "monitor_row list"
  rv_checkpoints :: "checkpoint_row list"

definition journal :: "rat \<Rightarrow> event \<Rightarrow> recovery_db \<Rightarrow> recovery_db" where
  "journal now e rv = rv\<lparr>rv_db := append_event now e (rv_db rv)\<rparr>"

lemma journal_simps [simp]:
  "rv_policies (journal now e rv) = rv_policies rv" "rv_attempts (journal now e rv) = rv_attempts rv"
  "rv_leases (journal now e rv) = rv_leases rv" "rv_monitors (journal now e rv) = rv_monitors rv"
  "rv_checkpoints (journal now e rv) = rv_checkpoints rv"
  "rv_db (journal now e rv) = append_event now e (rv_db rv)"
  by (simp_all add: journal_def)

text \<open>\<^verbatim>\<open>str(redact_sensitive(text))[:240]\<close>, for an optional text \<^verbatim>\<open>if text else None\<close>.\<close>

definition clip :: "string \<Rightarrow> string" where
  "clip s = take 240 (redact_string s)"

definition clip_opt :: "string option \<Rightarrow> string option" where
  "clip_opt v = (if truthy v then map_option clip v else None)"

end
