(* ===== verification/Node_Recovery.thy ===== *)
theory Node_Recovery
  imports Node_Recovery_Types
begin

text \<open>
  Recovery of node runtimes, the service: \<^verbatim>\<open>RuntimeRecoveryLeaseRepository\<close> and
  \<^verbatim>\<open>NodeRuntimeRecoveryService\<close> of \<^verbatim>\<open>src/project_supervisor/node_recovery.py\<close>. The probe, the node adapter and
  the authorizer are parameters. They, and whatever happens before a transaction of the service,
  may change the clock and the database: other threads and processes run there.
\<close>

section \<open>Leases\<close>

record recovery_claim =
  rk_policy_id :: string
  rk_owner_id :: string
  rk_generation :: int
  rk_recovery_id :: string
  rk_expires_at :: rat
  rk_stale_owner_recovered :: bool

abbreviation recovery_lease_of :: "recovery_db \<Rightarrow> string \<Rightarrow> recovery_lease_row option" where
  "recovery_lease_of rv pid \<equiv> row_by rl_policy_id pid (rv_leases rv)"

definition recovery_lease_live :: "rat \<Rightarrow> recovery_lease_row \<Rightarrow> bool" where
  "recovery_lease_live now l \<longleftrightarrow> rl_state l = GL_OWNED \<and> micros now < rl_expires_at l"

definition recovery_lease_stale :: "rat \<Rightarrow> recovery_lease_row option \<Rightarrow> bool" where
  "recovery_lease_stale now l \<longleftrightarrow>
     (case l of None \<Rightarrow> False | Some l \<Rightarrow> rl_state l = GL_OWNED \<and> rl_expires_at l \<le> micros now)"

definition unfinished_of :: "string \<Rightarrow> attempt_row \<Rightarrow> bool" where
  "unfinished_of pid a \<longleftrightarrow> ra_policy_id a = pid \<and> ra_finished_at a = None"

definition next_recovery_lease ::
    "rat \<Rightarrow> string \<Rightarrow> string \<Rightarrow> string \<Rightarrow> rat \<Rightarrow> recovery_db \<Rightarrow> recovery_lease_row" where
  "next_recovery_lease now pid owner rid ttl rv =
     (let l = recovery_lease_of rv pid in
      \<lparr>rl_policy_id = pid, rl_owner_id = owner,
       rl_generation = (case l of None \<Rightarrow> 1 | Some l \<Rightarrow> rl_generation l + 1), rl_state = GL_OWNED,
       rl_acquired_at = micros now, rl_heartbeat_at = micros now, rl_expires_at = expires now ttl,
       rl_released_at = None, rl_active_recovery_id = Some rid,
       rl_recovery_state =
         (if recovery_lease_stale now l then GR_STALE_OWNER_RECOVERED
          else if list_ex (unfinished_of pid) (rv_attempts rv) then GR_RESUMING else GR_FRESH),
       rl_previous_owner_id = map_option rl_owner_id l, rl_last_error = None\<rparr>)"

definition fence_attempts :: "rat \<Rightarrow> string \<Rightarrow> bool \<Rightarrow> attempt_row list \<Rightarrow> attempt_row list" where
  "fence_attempts now pid stale =
     upd_where (unfinished_of pid) (\<lambda>a. a\<lparr>ra_state := AT_FAILED,
       ra_failure_code := Some (if stale then ''staleLeaseRecovered'' else ''orphanedAttemptRecovered''),
       ra_failure_detail := Some
         (if stale then ''prior recovery owner lease expired; transient attempt fenced and reconciled''
          else ''orphaned transient recovery attempt reconciled before restart''),
       ra_updated_at := Micros (micros now), ra_finished_at := Some (Micros (micros now))\<rparr>)"

definition recovery_lease_event ::
    "string \<Rightarrow> event_severity \<Rightarrow> string \<Rightarrow> string \<Rightarrow> (string \<times> json) list \<Rightarrow> string \<Rightarrow> event" where
  "recovery_lease_event kind severity pid summary payload owner =
     mk_event kind severity ''nodeRuntimeRecoveryLease'' pid None None None None summary payload
       (''node-recovery:'' @ owner)"

definition acquired_event :: "bool \<Rightarrow> bool \<Rightarrow> recovery_policy \<Rightarrow> string \<Rightarrow> recovery_lease_row \<Rightarrow> event" where
  "acquired_event stale unfinished p rid l =
     recovery_lease_event
       (if stale then ''runtimeRecoveryLeaseRecovered''
        else if unfinished then ''runtimeRecoveryLeaseResumed'' else ''runtimeRecoveryLeaseAcquired'')
       (if stale \<or> unfinished then SEV_WARNING else SEV_INFO) (rl_policy_id l)
       (if stale then ''Expired runtime recovery lease recovered''
        else if unfinished then ''Orphaned runtime recovery attempt resumed'' else ''Runtime recovery lease acquired'')
       [(''nodeID'', JStr (rp_node_id p)), (''runtimeID'', JStr (rp_runtime_id p)),
        (''ownerID'', JStr (rl_owner_id l)), (''generation'', JInt (rl_generation l)),
        (''previousOwnerID'', json_opt JStr (rl_previous_owner_id l)), (''recoveryID'', JStr rid)]
       (rl_owner_id l)"

definition take_recovery_lease ::
    "rat \<Rightarrow> recovery_policy \<Rightarrow> string \<Rightarrow> string \<Rightarrow> rat \<Rightarrow> recovery_db \<Rightarrow> recovery_db \<times> recovery_claim" where
  "take_recovery_lease now p owner rid ttl rv =
     (let pid = rp_id p; l = recovery_lease_of rv pid;
          stale = recovery_lease_stale now l; unfinished = list_ex (unfinished_of pid) (rv_attempts rv);
          new = next_recovery_lease now pid owner rid ttl rv
      in (journal now (acquired_event stale unfinished p rid new) (rv\<lparr>
            rv_leases := (if l = None then rv_leases rv @ [new] else upd_by rl_policy_id pid (\<lambda>_. new) (rv_leases rv)),
            rv_attempts := (if stale \<or> unfinished then fence_attempts now pid stale (rv_attempts rv)
              else rv_attempts rv)\<rparr>),
          \<lparr>rk_policy_id = pid, rk_owner_id = owner, rk_generation = rl_generation new, rk_recovery_id = rid,
           rk_expires_at = now + ttl, rk_stale_owner_recovered = stale\<rparr>))"

definition try_acquire_recovery ::
    "rat \<Rightarrow> string \<Rightarrow> string \<Rightarrow> string \<Rightarrow> rat \<Rightarrow> recovery_db \<Rightarrow> (recovery_db \<times> recovery_claim option) result" where
  "try_acquire_recovery now pid owner rid ttl rv =
     bindR (raise_if (\<not> attribution_match owner)
       (ValueError ''recovery lease owner must be a bounded machine identity'')) (\<lambda>_.
     bindR (raise_if (\<not> (15 \<le> ttl \<and> ttl \<le> 300))
       (ValueError ''recovery lease TTL must be between 15 and 300 seconds'')) (\<lambda>_.
     bindR (fetch (\<lambda>r. rp_id (pw_policy r)) pid (rv_policies rv) (KeyError pid)) (\<lambda>row.
     if (case recovery_lease_of rv pid of None \<Rightarrow> False | Some l \<Rightarrow> recovery_lease_live now l) then Inr (rv, None)
     else (case take_recovery_lease now (pw_policy row) owner rid ttl rv of (rv', c) \<Rightarrow> Inr (rv', Some c)))))"

definition holds_recovery :: "recovery_claim \<Rightarrow> recovery_lease_row \<Rightarrow> bool" where
  "holds_recovery c l \<longleftrightarrow>
     rl_owner_id l = rk_owner_id c \<and> rl_generation l = rk_generation c \<and> rl_state l = GL_OWNED"

definition recovery_current :: "rat \<Rightarrow> recovery_claim \<Rightarrow> recovery_db \<Rightarrow> bool" where
  "recovery_current now c rv \<longleftrightarrow>
     (case recovery_lease_of rv (rk_policy_id c) of None \<Rightarrow> False
      | Some l \<Rightarrow> holds_recovery c l \<and> micros now < rl_expires_at l)"

definition heartbeat_recovery :: "rat \<Rightarrow> recovery_claim \<Rightarrow> rat \<Rightarrow> recovery_db \<Rightarrow> (recovery_db \<times> bool) result" where
  "heartbeat_recovery now c ttl rv =
     Inr (rv\<lparr>rv_leases := upd_by rl_policy_id (rk_policy_id c)
        (\<lambda>l. if holds_recovery c l \<and> micros now < rl_expires_at l
             then l\<lparr>rl_heartbeat_at := micros now, rl_expires_at := expires now ttl\<rparr> else l) (rv_leases rv)\<rparr>,
       recovery_current now c rv)"

definition recovery_lost_message :: "recovery_claim \<Rightarrow> string" where
  "recovery_lost_message c = ''owner '' @ rk_owner_id c @ '' no longer holds generation '' @
     show_int (rk_generation c) @ '' for recovery policy '' @ rk_policy_id c"

definition assert_recovery_owned :: "rat \<Rightarrow> recovery_claim \<Rightarrow> recovery_db \<Rightarrow> unit result" where
  "assert_recovery_owned now c rv =
     raise_if (\<not> recovery_current now c rv) (RecoveryLeaseLost (recovery_lost_message c))"

definition release_recovery ::
    "rat \<Rightarrow> recovery_claim \<Rightarrow> bool \<Rightarrow> string option \<Rightarrow> recovery_db \<Rightarrow> (recovery_db \<times> bool) result" where
  "release_recovery now c lost error rv =
     (if \<not> (case recovery_lease_of rv (rk_policy_id c) of None \<Rightarrow> False | Some l \<Rightarrow> holds_recovery c l)
      then Inr (rv, False)
      else Inr (journal now
        (recovery_lease_event (if lost then ''runtimeRecoveryLeaseLost'' else ''runtimeRecoveryLeaseReleased'')
          (if lost then SEV_ERROR else SEV_INFO) (rk_policy_id c)
          (if lost then ''Runtime recovery lease ownership lost'' else ''Runtime recovery lease released'')
          [(''ownerID'', JStr (rk_owner_id c)), (''generation'', JInt (rk_generation c)),
           (''recoveryID'', JStr (rk_recovery_id c)), (''error'', json_opt JStr (redact_opt error))]
          (rk_owner_id c))
        (rv\<lparr>rv_leases := upd_by rl_policy_id (rk_policy_id c) (\<lambda>l. l\<lparr>
            rl_state := (if lost then GL_LOST else GL_RELEASED), rl_heartbeat_at := micros now,
            rl_expires_at := micros now, rl_released_at := Some (micros now),
            rl_recovery_state := (if lost then GR_LOST else GR_COMPLETE), rl_last_error := clip_opt error\<rparr>)
          (rv_leases rv)\<rparr>), True))"

section \<open>Policies\<close>

definition recovery_node_worker_ok :: "recovery_policy \<Rightarrow> db \<Rightarrow> bool" where
  "recovery_node_worker_ok p db \<longleftrightarrow>
     (let rows = filter (\<lambda>w. wk_id w \<in> set (rp_worker_ids p)) (workers db) in
      rp_worker_ids p = [] \<or>
      length rows = length (rp_worker_ids p) \<and> list_all (\<lambda>w. wk_node_id w = rp_node_id p) rows)"

definition upsert_policy :: "rat \<Rightarrow> recovery_policy \<Rightarrow> string \<Rightarrow> recovery_db \<Rightarrow> (recovery_db \<times> unit) result" where
  "upsert_policy now p configured_by rv =
     bindR (raise_if (\<not> attribution_match configured_by)
       (ValueError ''configured_by must be a bounded operator identity'')) (\<lambda>_.
     bindR (raise_if (row_by nd_id (rp_node_id p) (nodes (rv_db rv)) = None) (KeyError (rp_node_id p))) (\<lambda>_.
     bindR (raise_if (case recovery_lease_of rv (rp_id p) of None \<Rightarrow> False | Some l \<Rightarrow> recovery_lease_live now l)
       (RecoveryLeaseUnavailable (''cannot reconfigure recovery policy '' @ rp_id p @ '' while its lease is live''))) (\<lambda>_.
     bindR (raise_if (\<not> recovery_node_worker_ok p (rv_db rv))
       (ValueError ''every recovery Worker must exist on the policy node'')) (\<lambda>_.
     bindR (raise_if (list_ex (\<lambda>r. rp_id (pw_policy r) \<noteq> rp_id p \<and> rp_node_id (pw_policy r) = rp_node_id p \<and>
         rp_runtime_id (pw_policy r) = rp_runtime_id p) (rv_policies rv))
       (IntegrityError ''node_runtime_recovery_policies'')) (\<lambda>_.
     Inr (journal now (mk_event ''runtimeRecoveryPolicyConfigured'' SEV_NOTICE ''nodeRuntimeRecoveryPolicy''
         (rp_id p) None None None None (''Runtime recovery policy '' @ rp_id p @ '' configured'')
         [(''nodeID'', JStr (rp_node_id p)), (''runtimeID'', JStr (rp_runtime_id p)),
          (''enabled'', JBool (rp_enabled p)), (''requiredCapability'', JStr (rp_required_capability p))]
         configured_by)
       (rv\<lparr>rv_policies := upsert_by (\<lambda>r. rp_id (pw_policy r))
          \<lparr>pw_policy = p, pw_created_at = timestamp now, pw_updated_at = timestamp now\<rparr>
          (\<lambda>r. r\<lparr>pw_policy := p, pw_updated_at := timestamp now\<rparr>) (rv_policies rv)\<rparr>), ()))))))"

definition policy_from_row :: "policy_row \<Rightarrow> recovery_policy result" where
  "policy_from_row r = bindR (check_recovery_policy (pw_policy r)) (\<lambda>_. Inr (pw_policy r))"

definition get_policy :: "recovery_db \<Rightarrow> string \<Rightarrow> recovery_policy result" where
  "get_policy rv pid =
     bindR (fetch (\<lambda>r. rp_id (pw_policy r)) pid (rv_policies rv) (KeyError pid)) policy_from_row"

definition latest_recovery :: "recovery_db \<Rightarrow> string \<Rightarrow> attempt_row option" where
  "latest_recovery rv pid =
     list_last (sort_key (\<lambda>a. (ra_started_at a, ra_id a)) (filter (\<lambda>a. ra_policy_id a = pid) (rv_attempts rv)))"

definition attempt_status :: "attempt_row option \<Rightarrow> json" where
  "attempt_status = json_opt (\<lambda>a. JObj
     [(''id'', JStr (ra_id a)), (''state'', JStr (attempt_state_value (ra_state a))),
      (''attemptCount'', JInt (ra_attempt_count a)), (''failureCode'', json_opt JStr (ra_failure_code a)),
      (''failureDetail'', json_opt JStr (ra_failure_detail a)), (''updatedAt'', json_iso (ra_updated_at a))])"

definition lease_status :: "recovery_lease_row option \<Rightarrow> json" where
  "lease_status = json_opt (\<lambda>l. JObj
     [(''ownerID'', JStr (rl_owner_id l)), (''generation'', JInt (rl_generation l)),
      (''state'', JStr (case rl_state l of GL_OWNED \<Rightarrow> ''owned'' | GL_RELEASED \<Rightarrow> ''released'' | GL_LOST \<Rightarrow> ''lost'')),
      (''heartbeatAt'', JMicros (rl_heartbeat_at l)), (''expiresAt'', JMicros (rl_expires_at l)),
      (''recoveryState'', JStr (goal_recovery_value (rl_recovery_state l)))])"

definition monitor_status :: "recovery_db \<Rightarrow> checkpoint_row \<Rightarrow> json" where
  "monitor_status rv c =
     json_opt (\<lambda>m. JObj
       [(''id'', json_opt JStr (ck_monitor_id c)), (''state'', JStr (monitor_state_value (rm_state m))),
        (''startedAt'', JMicros (rm_started_at m)), (''heartbeatAt'', JMicros (rm_heartbeat_at m)),
        (''activePolicyCount'', JInt (rm_active_policy_count m)),
        (''lastError'', json_opt JStr (rm_last_error m))])
     (Option.bind (ck_monitor_id c) (\<lambda>mid. row_by rm_monitor_id mid (rv_monitors rv)))"

definition monitoring_status :: "recovery_db \<Rightarrow> checkpoint_row option \<Rightarrow> json" where
  "monitoring_status rv = json_opt (\<lambda>c. JObj
     [(''monitorID'', json_opt JStr (ck_monitor_id c)), (''lastState'', json_opt JStr (ck_last_state c)),
      (''consecutiveFailures'', JInt (ck_consecutive_failures c)),
      (''lastObservedAt'', json_opt JMicros (ck_last_observed_at c)),
      (''nextObservationAt'', JMicros (ck_next_observation_at c)),
      (''lastError'', json_opt JStr (ck_last_error c)), (''host'', monitor_status rv c)])"

definition recovery_status :: "recovery_db \<Rightarrow> policy_row \<Rightarrow> (string \<times> json) list result" where
  "recovery_status rv r =
     bindR (policy_from_row r) (\<lambda>p. Inr (policy_to_protocol p @
       [(''latestRecovery'', attempt_status (latest_recovery rv (rp_id p))),
        (''lease'', lease_status (recovery_lease_of rv (rp_id p))),
        (''monitoring'', monitoring_status rv (row_by ck_policy_id (rp_id p) (rv_checkpoints rv)))]))"

definition list_recovery_status :: "recovery_db \<Rightarrow> string option \<Rightarrow> (string \<times> json) list list result" where
  "list_recovery_status rv node_id =
     map_result (recovery_status rv)
       (sort_key (\<lambda>r. (rp_node_id (pw_policy r), rp_runtime_id (pw_policy r)))
         (filter (\<lambda>r. truthy node_id \<longrightarrow> node_id = Some (rp_node_id (pw_policy r))) (rv_policies rv)))"

section \<open>Fenced writes\<close>

text \<open>Every write of the service first asserts, in its transaction, that the lease is still owned.\<close>

definition fenced ::
    "(rat \<Rightarrow> recovery_db \<Rightarrow> (recovery_db \<times> unit) result) \<Rightarrow> recovery_claim \<Rightarrow> rat \<Rightarrow> recovery_db \<Rightarrow> (recovery_db \<times> unit) result" where
  "fenced op c now rv = bindR (assert_recovery_owned now c rv) (\<lambda>_. op now rv)"

definition new_attempt ::
    "rat \<Rightarrow> recovery_policy \<Rightarrow> recovery_claim \<Rightarrow> attempt_state \<Rightarrow> string \<Rightarrow> string \<Rightarrow> health_observation \<Rightarrow> bool \<Rightarrow> attempt_row" where
  "new_attempt now p c st trigger requested_by ob finished =
     \<lparr>ra_id = rk_recovery_id c, ra_policy_id = rp_id p, ra_node_id = rp_node_id p, ra_runtime_id = rp_runtime_id p,
      ra_state = st, ra_trigger_reason = clip trigger, ra_requested_by = requested_by,
      ra_authorization_ref = None, ra_attempt_count = 0, ra_before_health = observation_to_protocol ob,
      ra_after_health = None, ra_failure_code = None, ra_failure_detail = None, ra_started_at = timestamp now,
      ra_updated_at = Seconds (timestamp now),
      ra_finished_at = (if finished then Some (Seconds (timestamp now)) else None),
      ra_lease_owner_id = Some (rk_owner_id c), ra_lease_generation = Some (rk_generation c)\<rparr>"

definition insert_attempt :: "attempt_row \<Rightarrow> recovery_db \<Rightarrow> (recovery_db \<times> unit) result" where
  "insert_attempt a rv =
     bindR (raise_if (row_by ra_id (ra_id a) (rv_attempts rv) \<noteq> None \<or>
         row_by (\<lambda>r. rp_id (pw_policy r)) (ra_policy_id a) (rv_policies rv) = None \<or>
         row_by nd_id (ra_node_id a) (nodes (rv_db rv)) = None \<or> \<not> attempt_checks a)
       (IntegrityError ''node_runtime_recovery_attempts'')) (\<lambda>_.
     Inr (rv\<lparr>rv_attempts := rv_attempts rv @ [a]\<rparr>, ()))"

definition create_attempt ::
    "recovery_policy \<Rightarrow> recovery_claim \<Rightarrow> attempt_state \<Rightarrow> string \<Rightarrow> string \<Rightarrow> health_observation \<Rightarrow> bool \<Rightarrow>
     rat \<Rightarrow> recovery_db \<Rightarrow> (recovery_db \<times> unit) result" where
  "create_attempt p c st trigger requested_by ob finished =
     fenced (\<lambda>now. insert_attempt (new_attempt now p c st trigger requested_by ob finished)) c"

text \<open>What an update of an attempt writes, and whether it finishes the attempt.\<close>

record attempt_update =
  up_state :: attempt_state
  up_attempt_count :: int
  up_authorization_ref :: "string option"
  up_after :: "health_observation option"
  up_failure_code :: "string option"
  up_failure_detail :: "string option"
  up_finished :: bool

definition updated_attempt :: "rat \<Rightarrow> attempt_update \<Rightarrow> attempt_row \<Rightarrow> attempt_row" where
  "updated_attempt now u a = a\<lparr>ra_state := up_state u, ra_attempt_count := up_attempt_count u,
     ra_authorization_ref := coalesce (if truthy (up_authorization_ref u)
       then map_option (\<lambda>s. take 160 (redact_string s)) (up_authorization_ref u) else None) (ra_authorization_ref a),
     ra_after_health := coalesce (map_option observation_to_protocol (up_after u)) (ra_after_health a),
     ra_failure_code := up_failure_code u, ra_failure_detail := clip_opt (up_failure_detail u),
     ra_updated_at := Seconds (timestamp now),
     ra_finished_at := (if up_finished u then Some (Seconds (timestamp now)) else None)\<rparr>"

definition write_attempt :: "string \<Rightarrow> attempt_update \<Rightarrow> rat \<Rightarrow> recovery_db \<Rightarrow> (recovery_db \<times> unit) result" where
  "write_attempt rid u now rv =
     (let rows = upd_by ra_id rid (updated_attempt now u) (rv_attempts rv) in
      bindR (raise_if (\<not> list_all (\<lambda>a. ra_id a = rid \<longrightarrow> attempt_checks a) rows)
        (IntegrityError ''node_runtime_recovery_attempts'')) (\<lambda>_.
      Inr (rv\<lparr>rv_attempts := rows\<rparr>, ())))"

definition update_attempt ::
    "recovery_claim \<Rightarrow> attempt_update \<Rightarrow> rat \<Rightarrow> recovery_db \<Rightarrow> (recovery_db \<times> unit) result" where
  "update_attempt c u = fenced (write_attempt (rk_recovery_id c) u) c"

definition recovery_event ::
    "recovery_policy \<Rightarrow> string \<Rightarrow> string \<Rightarrow> event_severity \<Rightarrow> string \<Rightarrow> (string \<times> json) list \<Rightarrow> event" where
  "recovery_event p entity kind severity summary payload =
     mk_event kind severity ''nodeRuntimeRecovery'' entity None None None None (clip summary)
       (redact_dict ([(''policyID'', JStr (rp_id p)), (''nodeID'', JStr (rp_node_id p)),
          (''runtimeID'', JStr (rp_runtime_id p))] @ payload)) ''node-recovery''"

definition append_recovery_event ::
    "recovery_policy \<Rightarrow> recovery_claim \<Rightarrow> string \<Rightarrow> event_severity \<Rightarrow> string \<Rightarrow> (string \<times> json) list \<Rightarrow>
     rat \<Rightarrow> recovery_db \<Rightarrow> (recovery_db \<times> unit) result" where
  "append_recovery_event p c kind severity summary payload =
     fenced (\<lambda>now rv. Inr (journal now (recovery_event p (rk_recovery_id c) kind severity summary payload) rv, ())) c"

definition degrade :: "recovery_policy \<Rightarrow> rat \<Rightarrow> db \<Rightarrow> db" where
  "degrade p now db =
     db\<lparr>nodes := upd_by nd_id (rp_node_id p) (\<lambda>n. n\<lparr>nd_state := NODE_DEGRADED, nd_updated_at := timestamp now\<rparr>) (nodes db),
        workers := upd_where (\<lambda>w. wk_id w \<in> set (rp_worker_ids p) \<and>
            wk_state w \<in> {WORKER_IDLE, WORKER_OFFLINE, WORKER_FAILED})
          (\<lambda>w. w\<lparr>wk_state := WORKER_OFFLINE, wk_resource_state := RES_UNKNOWN, wk_updated_at := timestamp now\<rparr>)
          (workers db)\<rparr>"

definition mark_degraded :: "recovery_policy \<Rightarrow> recovery_claim \<Rightarrow> rat \<Rightarrow> recovery_db \<Rightarrow> (recovery_db \<times> unit) result" where
  "mark_degraded p c =
     fenced (\<lambda>now rv. Inr (journal now (recovery_event p (rk_recovery_id c) ''runtimeHealthObserved'' SEV_WARNING
       ''Runtime health is degraded'' [(''state'', JStr ''degraded'')]) (rv\<lparr>rv_db := degrade p now (rv_db rv)\<rparr>), ())) c"

definition policy_healthy :: "recovery_db \<Rightarrow> string \<Rightarrow> bool" where
  "policy_healthy rv pid \<longleftrightarrow>
     (case latest_recovery rv pid of None \<Rightarrow> False | Some a \<Rightarrow> ra_state a \<in> {AT_OBSERVED_HEALTHY, AT_READY})"

definition node_recovered :: "recovery_db \<Rightarrow> recovery_policy \<Rightarrow> bool" where
  "node_recovered rv p \<longleftrightarrow>
     list_all (\<lambda>r. rp_node_id (pw_policy r) = rp_node_id p \<and> rp_enabled (pw_policy r) \<and>
         rp_id (pw_policy r) \<noteq> rp_id p \<longrightarrow> policy_healthy rv (rp_id (pw_policy r))) (rv_policies rv)"

definition restore :: "recovery_policy \<Rightarrow> bool \<Rightarrow> rat \<Rightarrow> db \<Rightarrow> db" where
  "restore p online now db =
     db\<lparr>nodes := (if online then upd_by nd_id (rp_node_id p) (\<lambda>n. n\<lparr>nd_state := NODE_ONLINE,
          nd_last_heartbeat_at := Some (timestamp now), nd_updated_at := timestamp now\<rparr>) (nodes db) else nodes db),
        workers := upd_where (\<lambda>w. wk_id w \<in> set (rp_worker_ids p) \<and> wk_state w \<in> {WORKER_OFFLINE, WORKER_FAILED})
          (\<lambda>w. w\<lparr>wk_state := WORKER_IDLE, wk_resource_state := RES_AVAILABLE,
            wk_last_heartbeat_at := Some (timestamp now), wk_updated_at := timestamp now\<rparr>) (workers db)\<rparr>"

definition mark_ready :: "recovery_policy \<Rightarrow> recovery_claim \<Rightarrow> rat \<Rightarrow> recovery_db \<Rightarrow> (recovery_db \<times> unit) result" where
  "mark_ready p c =
     fenced (\<lambda>now rv. Inr (rv\<lparr>rv_db := restore p (node_recovered rv p) now (rv_db rv)\<rparr>, ())) c"

section \<open>The service\<close>

type_synonym recovery_world = "recovery_db world"
type_synonym 'a recovery = "(recovery_db, 'a) program"

record recovery_env =
  rx_side_effect_free :: bool
  rx_observe :: "recovery_policy \<Rightarrow> recovery_world \<Rightarrow> recovery_world \<times> health_observation result"
  rx_descriptor :: "adapter_descriptor option"
  rx_recover :: "recovery_request \<Rightarrow> recovery_world \<Rightarrow> recovery_world \<times> recovery_result result"
  rx_authorizer :: "(authorization_context \<Rightarrow> recovery_world \<Rightarrow> recovery_world \<times> authorization_decision result) option"
  rx_error_text :: "py_error \<Rightarrow> string"
  rx_others :: "recovery_world \<Rightarrow> recovery_world"

text \<open>
  \<open>elapse\<close> is what others do before the service goes on; \<open>commit\<close> is a transaction after it. What an
  external part returns has passed the checks of its class, else constructing it raised.
\<close>

definition elapse :: "recovery_env \<Rightarrow> unit recovery" where
  "elapse E = await (\<lambda>w. (rx_others E w, Inr ()))"

definition commit :: "recovery_env \<Rightarrow> (rat \<Rightarrow> recovery_db \<Rightarrow> (recovery_db \<times> 'a) result) \<Rightarrow> 'a recovery" where
  "commit E op = andthen (elapse E) (\<lambda>_. transact op)"

definition now_of :: "rat recovery" where
  "now_of w = Some (w, Inr (clock w))"

definition checked :: "('a \<Rightarrow> unit result) \<Rightarrow> 'a recovery \<Rightarrow> 'a recovery" where
  "checked chk m = andthen m (\<lambda>x. andthen (lift (chk x)) (\<lambda>_. ret x))"

definition probe_error :: "recovery_env \<Rightarrow> py_error \<Rightarrow> rat \<Rightarrow> health_observation" where
  "probe_error E e now =
     \<lparr>hv_reachable = False, hv_runtime_ready = False, hv_models = None, hv_observed_at = now, hv_tz_aware = True,
      hv_source = ''probeError'', hv_detail = Some (clip (rx_error_text E e))\<rparr>"

definition observe :: "recovery_env \<Rightarrow> recovery_policy \<Rightarrow> health_observation recovery" where
  "observe E p =
     catch (checked check_health_observation (await (rx_observe E p)))
       (\<lambda>e. andthen now_of (\<lambda>now. ret (probe_error E e now)))"

definition assert_owned :: "recovery_env \<Rightarrow> recovery_claim \<Rightarrow> unit recovery" where
  "assert_owned E c = commit E (\<lambda>now rv. bindR (assert_recovery_owned now c rv) (\<lambda>_. Inr (rv, ())))"

definition progress :: "attempt_state \<Rightarrow> int \<Rightarrow> string option \<Rightarrow> attempt_update" where
  "progress st n auth = \<lparr>up_state = st, up_attempt_count = n, up_authorization_ref = auth, up_after = None,
     up_failure_code = None, up_failure_detail = None, up_finished = False\<rparr>"

definition recovery_fail ::
    "recovery_env \<Rightarrow> recovery_policy \<Rightarrow> recovery_claim \<Rightarrow> health_observation \<Rightarrow> attempt_state \<Rightarrow> string \<Rightarrow> string \<Rightarrow> string \<Rightarrow>
     int \<Rightarrow> string option \<Rightarrow> health_observation option \<Rightarrow> recovery_outcome recovery" where
  "recovery_fail E p c ob st code detail kind n auth after =
     andthen (commit E (update_attempt c \<lparr>up_state = st, up_attempt_count = n, up_authorization_ref = auth,
       up_after = after, up_failure_code = Some code, up_failure_detail = Some detail, up_finished = True\<rparr>)) (\<lambda>_.
     andthen (commit E (append_recovery_event p c kind SEV_WARNING detail
       [(''failureCode'', JStr code), (''attemptCount'', JInt n)])) (\<lambda>_.
     ret \<lparr>oc_id = rk_recovery_id c, oc_policy_id = rp_id p, oc_state = st, oc_attempt_count = n,
       oc_authorization_ref = auth, oc_before = ob, oc_after = after, oc_failure_code = Some code,
       oc_failure_detail = Some (clip detail), oc_lease_generation = Some (rk_generation c),
       oc_stale_owner_recovered = rk_stale_owner_recovered c\<rparr>))"

definition succeeded ::
    "recovery_policy \<Rightarrow> recovery_claim \<Rightarrow> health_observation \<Rightarrow> attempt_state \<Rightarrow> int \<Rightarrow> string option \<Rightarrow>
     health_observation option \<Rightarrow> recovery_outcome" where
  "succeeded p c ob st n auth after =
     \<lparr>oc_id = rk_recovery_id c, oc_policy_id = rp_id p, oc_state = st, oc_attempt_count = n,
      oc_authorization_ref = auth, oc_before = ob, oc_after = after, oc_failure_code = None,
      oc_failure_detail = None, oc_lease_generation = Some (rk_generation c),
      oc_stale_owner_recovered = rk_stale_owner_recovered c\<rparr>"

subsection \<open>One attempt\<close>

text \<open>Whether an attempt ends the recovery, or what it leaves for the next.\<close>

datatype attempt_end = Settled recovery_outcome | Again "health_observation option"

definition settle :: "recovery_outcome recovery \<Rightarrow> attempt_end recovery" where
  "settle m = andthen m (\<lambda>r. ret (Settled r))"

definition attempt_context :: "recovery_policy \<Rightarrow> recovery_claim \<Rightarrow> string \<Rightarrow> int \<Rightarrow> authorization_context" where
  "attempt_context p c requested_by n =
     \<lparr>au_recovery_id = rk_recovery_id c, au_node_id = rp_node_id p, au_runtime_id = rp_runtime_id p,
      au_capability = rp_required_capability p, au_operation = START_RUNTIME,
      au_requested_by = requested_by, au_attempt = n\<rparr>"

definition authorize :: "recovery_env \<Rightarrow> authorization_context \<Rightarrow> authorization_decision recovery" where
  "authorize E ctx =
     (case rx_authorizer E of
        None \<Rightarrow> ret (deny_all ctx)
      | Some f \<Rightarrow> checked check_authorization_decision (await (f ctx)))"

definition renew_or_lose :: "recovery_env \<Rightarrow> recovery_policy \<Rightarrow> recovery_claim \<Rightarrow> string \<Rightarrow> unit recovery" where
  "renew_or_lose E p c phase =
     andthen (commit E (\<lambda>now. heartbeat_recovery now c (rp_lease_ttl_seconds p))) (\<lambda>ok.
     if ok then ret ()
     else raise (RecoveryLeaseLost (''runtime recovery lease generation '' @ show_int (rk_generation c) @
       '' expired '' @ phase @ '' dispatch'')))"

definition announce :: "recovery_env \<Rightarrow> recovery_policy \<Rightarrow> recovery_claim \<Rightarrow> int \<Rightarrow> string option \<Rightarrow> unit recovery" where
  "announce E p c n auth =
     andthen (commit E (update_attempt c (progress AT_RECOVERING n auth))) (\<lambda>_.
     andthen (commit E (append_recovery_event p c ''runtimeRecoveryAuthorized'' SEV_NOTICE
       ''Runtime recovery capability authorized''
       [(''capability'', JStr (rp_required_capability p)), (''attempt'', JInt n),
        (''authorizationRef'', json_opt JStr auth)])) (\<lambda>_.
     commit E (append_recovery_event p c ''runtimeRecoveryStarted'' SEV_NOTICE
       ''Bounded runtime.start recovery operation requested'' [(''attempt'', JInt n)])))"

definition start_request ::
    "recovery_policy \<Rightarrow> recovery_claim \<Rightarrow> adapter_descriptor \<Rightarrow> string option \<Rightarrow> rat \<Rightarrow> recovery_request" where
  "start_request p c d auth now =
     \<lparr>rr_recovery_id = rk_recovery_id c, rr_policy_id = rp_id p, rr_node_id = rp_node_id p,
      rr_runtime_id = rp_runtime_id p, rr_operation = START_RUNTIME, rr_backend_endpoint = rp_backend_endpoint p,
      rr_authorization_ref = (case auth of None \<Rightarrow> [] | Some r \<Rightarrow> r), rr_lease_owner_id = rk_owner_id c,
      rr_lease_generation = rk_generation c, rr_idempotency_key = rk_recovery_id c, rr_requested_at = now,
      rr_deadline_at = now + de_max_operation_seconds d\<rparr>"

definition call_adapter :: "recovery_env \<Rightarrow> recovery_request \<Rightarrow> (py_error + recovery_result) recovery" where
  "call_adapter E req =
     catch (andthen (checked check_recovery_result (await (rx_recover E req))) (\<lambda>r. ret (Inr r))) (\<lambda>e. ret (Inl e))"

definition verify_attempt ::
    "recovery_env \<Rightarrow> recovery_policy \<Rightarrow> recovery_claim \<Rightarrow> health_observation \<Rightarrow> int \<Rightarrow> string option \<Rightarrow> attempt_end recovery" where
  "verify_attempt E p c ob n auth =
     andthen (commit E (update_attempt c (progress AT_VERIFYING n auth))) (\<lambda>_.
     andthen (observe E p) (\<lambda>after.
     andthen (assert_owned E c) (\<lambda>_.
     if \<not> ready_for after p then ret (Again (Some after))
     else
       andthen (commit E (update_attempt c \<lparr>up_state = AT_READY, up_attempt_count = n, up_authorization_ref = auth,
         up_after = Some after, up_failure_code = None, up_failure_detail = None, up_finished = True\<rparr>)) (\<lambda>_.
       andthen (commit E (mark_ready p c)) (\<lambda>_.
       andthen (commit E (append_recovery_event p c ''runtimeRecoveryReady'' SEV_NOTICE
         ''Runtime recovery passed health and model verification''
         [(''attempt'', JInt n), (''models'', JList (map JStr (case hv_models after of None \<Rightarrow> [] | Some ms \<Rightarrow> ms)))])) (\<lambda>_.
       ret (Settled (succeeded p c ob AT_READY n auth (Some after)))))))))"

definition judge_result ::
    "recovery_env \<Rightarrow> recovery_policy \<Rightarrow> recovery_claim \<Rightarrow> health_observation \<Rightarrow> int \<Rightarrow> string option \<Rightarrow>
     health_observation option \<Rightarrow> recovery_result \<Rightarrow> attempt_end recovery" where
  "judge_result E p c ob n auth last_after r =
     (if rz_accepted r \<and> rz_observed_fencing_generation r \<noteq> Some (rk_generation c)
      then settle (recovery_fail E p c ob AT_FAILED ''adapterFencingMismatch''
        ''node adapter did not acknowledge the current fencing generation'' ''runtimeRecoveryFailed'' n auth None)
      else if \<not> rz_accepted r
      then (if n = rp_max_attempts p
        then settle (recovery_fail E p c ob AT_FAILED ''runtimeStartRejected''
          (clip (if truthy (rz_detail r) then the (rz_detail r) else ''runtime start was not accepted''))
          ''runtimeRecoveryFailed'' n auth None)
        else ret (Again last_after))
      else verify_attempt E p c ob n auth)"

definition dispatch_attempt ::
    "recovery_env \<Rightarrow> recovery_policy \<Rightarrow> recovery_claim \<Rightarrow> adapter_descriptor \<Rightarrow> health_observation \<Rightarrow> int \<Rightarrow> string option \<Rightarrow>
     health_observation option \<Rightarrow> attempt_end recovery" where
  "dispatch_attempt E p c d ob n auth last_after =
     andthen (renew_or_lose E p c ''before'') (\<lambda>_.
     andthen (elapse E) (\<lambda>_.
     andthen now_of (\<lambda>now.
     andthen (lift (check_recovery_request (start_request p c d auth now))) (\<lambda>_.
     andthen (call_adapter E (start_request p c d auth now)) (\<lambda>execution.
     case execution of
       Inl e \<Rightarrow>
         if n = rp_max_attempts p
         then settle (recovery_fail E p c ob AT_FAILED ''recoveryAdapterFailed'' (clip (rx_error_text E e))
           ''runtimeRecoveryFailed'' n auth None)
         else ret (Again last_after)
     | Inr r \<Rightarrow>
         andthen (renew_or_lose E p c ''during'') (\<lambda>_. judge_result E p c ob n auth last_after r))))))"

definition recovery_attempt ::
    "recovery_env \<Rightarrow> recovery_policy \<Rightarrow> recovery_claim \<Rightarrow> adapter_descriptor \<Rightarrow> string \<Rightarrow> health_observation \<Rightarrow> int \<Rightarrow>
     health_observation option \<Rightarrow> (attempt_end \<times> string option) recovery" where
  "recovery_attempt E p c d requested_by ob n last_after =
     andthen (authorize E (attempt_context p c requested_by n)) (\<lambda>decision.
     if \<not> ad_authorized decision
     then andthen (settle (recovery_fail E p c ob AT_PERMISSION_REQUIRED ''authorizationDenied'' (ad_reason decision)
       ''runtimeRecoveryDenied'' (n - 1) None None)) (\<lambda>r. ret (r, None))
     else
       andthen (announce E p c n (ad_authorization_ref decision)) (\<lambda>_.
       andthen (dispatch_attempt E p c d ob n (ad_authorization_ref decision) last_after) (\<lambda>r.
       ret (r, ad_authorization_ref decision))))"

subsection \<open>The recovery under a claim\<close>

fun recovery_attempts ::
    "recovery_env \<Rightarrow> recovery_policy \<Rightarrow> recovery_claim \<Rightarrow> adapter_descriptor \<Rightarrow> string \<Rightarrow> health_observation \<Rightarrow> int list \<Rightarrow>
     health_observation option \<Rightarrow> string option \<Rightarrow> recovery_outcome recovery" where
  "recovery_attempts E p c d requested_by ob [] last_after auth =
     recovery_fail E p c ob AT_FAILED ''verificationFailed'' ''runtime or expected model did not become ready''
       ''runtimeRecoveryFailed'' (rp_max_attempts p) auth last_after"
| "recovery_attempts E p c d requested_by ob (n # ns) last_after auth =
     andthen (recovery_attempt E p c d requested_by ob n last_after) (\<lambda>(r, auth).
     case r of
       Settled outcome \<Rightarrow> ret outcome
     | Again after \<Rightarrow> recovery_attempts E p c d requested_by ob ns after auth)"

definition recover_claimed ::
    "recovery_env \<Rightarrow> recovery_policy \<Rightarrow> recovery_claim \<Rightarrow> adapter_descriptor \<Rightarrow> string \<Rightarrow> string \<Rightarrow> recovery_outcome recovery" where
  "recover_claimed E p c d requested_by trigger =
     andthen (observe E p) (\<lambda>ob.
     andthen (assert_owned E c) (\<lambda>_.
     if ready_for ob p
     then
       andthen (commit E (create_attempt p c AT_OBSERVED_HEALTHY trigger requested_by ob True)) (\<lambda>_.
       andthen (commit E (append_recovery_event p c ''runtimeHealthObserved'' SEV_INFO
         ''Runtime is healthy; recovery was not executed'' [(''state'', JStr ''ready'')])) (\<lambda>_.
       ret (succeeded p c ob AT_OBSERVED_HEALTHY 0 None None)))
     else
       andthen (commit E (create_attempt p c AT_DEGRADED trigger requested_by ob False)) (\<lambda>_.
       andthen (commit E (mark_degraded p c)) (\<lambda>_.
       if \<not> rp_enabled p
       then recovery_fail E p c ob AT_PERMISSION_REQUIRED ''policyDisabled'' ''runtime recovery policy is disabled''
         ''runtimeRecoveryDenied'' 0 None None
       else recovery_attempts E p c d requested_by ob [1..rp_max_attempts p] None None))))"

definition adapter_admissible :: "recovery_policy \<Rightarrow> adapter_descriptor \<Rightarrow> unit result" where
  "adapter_admissible p d =
     bindR (raise_if (de_allows_arbitrary_commands d \<or> set (de_allowed_operations d) \<noteq> {START_RUNTIME} \<or>
         \<not> de_enforces_fencing d \<or> \<not> de_enforces_deadline d \<or> \<not> de_enforces_idempotency d)
       (ValueError ''recovery adapter must enforce a fenced, deadline-bounded, idempotent runtime.start'')) (\<lambda>_.
     bindR (raise_if (de_node_id d \<noteq> rp_node_id p)
       (ValueError ''recovery adapter node identity does not match the policy node'')) (\<lambda>_.
     raise_if (rp_lease_ttl_seconds p - 10 < de_max_operation_seconds d)
       (ValueError ''adapter operation bound must leave at least ten seconds of lease margin'')))"

text \<open>A descriptor is an instance of its class, so it has passed its own checks.\<close>

definition recovery_preconditions :: "recovery_env \<Rightarrow> recovery_policy \<Rightarrow> string \<Rightarrow> string \<Rightarrow> adapter_descriptor result" where
  "recovery_preconditions E p requested_by trigger =
     bindR (raise_if (\<not> rx_side_effect_free E)
       (ValueError ''runtime probe must explicitly declare side_effect_free=True'')) (\<lambda>_.
     case rx_descriptor E of
       None \<Rightarrow> Inl (ValueError ''recovery adapter requires a typed NodeRuntimeAdapterDescriptor'')
     | Some d \<Rightarrow>
         bindR (check_adapter_descriptor d) (\<lambda>_.
         bindR (adapter_admissible p d) (\<lambda>_.
         bindR (raise_if (\<not> attribution_match requested_by \<or> \<not> nonblank trigger)
           (ValueError ''bounded recovery attribution and trigger reason are required'')) (\<lambda>_. Inr d))))"

definition lease_was_lost :: "py_error \<Rightarrow> bool" where
  "lease_was_lost e = (case e of RecoveryLeaseLost _ \<Rightarrow> True | _ \<Rightarrow> False)"

definition release_after :: "recovery_env \<Rightarrow> recovery_claim \<Rightarrow> recovery_outcome recovery \<Rightarrow> recovery_outcome recovery" where
  "release_after E c m w =
     (case m w of
        None \<Rightarrow> None
      | Some (w', Inl e) \<Rightarrow>
          andthen (commit E (\<lambda>now. release_recovery now c (lease_was_lost e) (Some (redact_string (rx_error_text E e)))))
            (\<lambda>_. raise e) w'
      | Some (w', Inr r) \<Rightarrow> andthen (commit E (\<lambda>now. release_recovery now c False None)) (\<lambda>_. ret r) w')"

text \<open>\<open>rid\<close> and \<open>oid\<close> are the random parts of the identifiers of the recovery and of the lease owner.\<close>

definition recover_if_needed ::
    "recovery_env \<Rightarrow> string \<Rightarrow> string \<Rightarrow> string \<Rightarrow> string \<Rightarrow> string \<Rightarrow> string option \<Rightarrow> recovery_outcome recovery" where
  "recover_if_needed E rid oid pid requested_by trigger owner =
     andthen (elapse E) (\<lambda>_.
     andthen (reading (\<lambda>rv. get_policy rv pid)) (\<lambda>p.
     andthen (lift (recovery_preconditions E p requested_by trigger)) (\<lambda>d.
     andthen (commit E (\<lambda>now. try_acquire_recovery now (rp_id p)
       (if truthy owner then the owner else ''recovery-owner-'' @ oid) (''runtime-recovery-'' @ rid)
       (rp_lease_ttl_seconds p))) (\<lambda>claim.
     case claim of
       None \<Rightarrow> raise (RecoveryLeaseUnavailable (''runtime recovery policy '' @ rp_id p @ '' has a live owner''))
     | Some c \<Rightarrow> release_after E c (recover_claimed E p c d requested_by trigger)))))"

end
