(* ===== verification/Recovery_Safety.thy ===== *)
theory Recovery_Safety
  imports Node_Recovery
begin

text \<open>
  What the recovery service guarantees: its leases are fencing tokens, its attempts belong to the
  lease that made them, it calls a node adapter only with an authorized and bounded request, and it
  reports a runtime as ready only after it has seen that it is.
\<close>

lemma unique_key_eq:
  "unique_key key rows \<Longrightarrow> r \<in> set rows \<Longrightarrow> r' \<in> set rows \<Longrightarrow> key r = key r' \<Longrightarrow> r = r'"
  by (metis row_by_in option.inject)

section \<open>Steps on the recovery tables\<close>

text \<open>
  The claims that were handed out: one that bears the generation of a lease was made together with
  it. Identifiers of recoveries are random, so a new one is not in use.
\<close>

definition claim_issued :: "recovery_claim \<Rightarrow> recovery_db \<Rightarrow> bool" where
  "claim_issued c rv \<longleftrightarrow>
     (\<forall>l. recovery_lease_of rv (rk_policy_id c) = Some l \<and> rl_generation l = rk_generation c \<longrightarrow>
        rl_owner_id l = rk_owner_id c \<and> rl_active_recovery_id l = Some (rk_recovery_id c))"

definition recovery_id_fresh :: "string \<Rightarrow> recovery_db \<Rightarrow> bool" where
  "recovery_id_fresh rid rv \<longleftrightarrow>
     (\<forall>a \<in> set (rv_attempts rv). ra_id a \<noteq> rid) \<and> (\<forall>l \<in> set (rv_leases rv). rl_active_recovery_id l \<noteq> Some rid)"

inductive recovery_step :: "rat \<Rightarrow> recovery_db \<Rightarrow> recovery_db \<Rightarrow> bool" for now rv rv' where
  rs_acquire: "try_acquire_recovery now pid owner rid ttl rv = Inr (rv', r1) \<Longrightarrow> recovery_id_fresh rid rv \<Longrightarrow>
    recovery_step now rv rv'"
| rs_heartbeat: "heartbeat_recovery now c ttl rv = Inr (rv', b1) \<Longrightarrow> recovery_step now rv rv'"
| rs_release: "release_recovery now c lost err rv = Inr (rv', b2) \<Longrightarrow> recovery_step now rv rv'"
| rs_create: "create_attempt p c st trigger who ob fin now rv = Inr (rv', u1) \<Longrightarrow> rp_id p = rk_policy_id c \<Longrightarrow>
    claim_issued c rv \<Longrightarrow> recovery_step now rv rv'"
| rs_update: "update_attempt c u now rv = Inr (rv', u2) \<Longrightarrow> claim_issued c rv \<Longrightarrow> recovery_step now rv rv'"
| rs_other: "rv_leases rv' = rv_leases rv \<Longrightarrow> rv_attempts rv' = rv_attempts rv \<Longrightarrow> recovery_step now rv rv'"

text \<open>The other writes of the service, policies, monitors and every other component leave both tables alone.\<close>

lemma other_writes_keep_tables:
  "append_recovery_event p c kind sev summary payload now rv = Inr (rv', u) \<Longrightarrow> recovery_step now rv rv'"
  "mark_degraded p c now rv = Inr (rv', u) \<Longrightarrow> recovery_step now rv rv'"
  "mark_ready p c now rv = Inr (rv', u) \<Longrightarrow> recovery_step now rv rv'"
  "upsert_policy now p who rv = Inr (rv', u) \<Longrightarrow> recovery_step now rv rv'"
  by (rule rs_other; auto simp: append_recovery_event_def mark_degraded_def mark_ready_def fenced_def upsert_policy_def)+

subsection \<open>Leases\<close>

lemma try_acquire_recovery_cases:
  assumes "try_acquire_recovery now pid owner rid ttl rv = Inr (rv', r)"
  obtains (refused) l where "r = None" "rv' = rv" "recovery_lease_of rv pid = Some l" "recovery_lease_live now l"
  | (granted) row where "row_by (\<lambda>r. rp_id (pw_policy r)) pid (rv_policies rv) = Some row" "rp_id (pw_policy row) = pid"
      "\<And>l. recovery_lease_of rv pid = Some l \<Longrightarrow> \<not> recovery_lease_live now l"
      "rv' = fst (take_recovery_lease now (pw_policy row) owner rid ttl rv)"
      "r = Some (snd (take_recovery_lease now (pw_policy row) owner rid ttl rv))"
proof -
  obtain row where row: "row_by (\<lambda>r. rp_id (pw_policy r)) pid (rv_policies rv) = Some row"
    using assms by (auto simp: try_acquire_recovery_def)
  have id: "rp_id (pw_policy row) = pid" using row_by_key [OF row] .
  show ?thesis
  proof (cases "\<exists>l. recovery_lease_of rv pid = Some l \<and> recovery_lease_live now l")
    case True
    then show ?thesis using assms row refused by (auto simp: try_acquire_recovery_def)
  next
    case False
    then have "\<not> (case recovery_lease_of rv pid of None \<Rightarrow> False | Some l \<Rightarrow> recovery_lease_live now l)"
      by (simp split: option.split)
    then have "rv' = fst (take_recovery_lease now (pw_policy row) owner rid ttl rv)"
        "r = Some (snd (take_recovery_lease now (pw_policy row) owner rid ttl rv))"
      using assms row by (auto simp: try_acquire_recovery_def split: prod.split_asm)
    with False row id show ?thesis by (intro granted [of row]) auto
  qed
qed

lemma take_recovery_lease_leases:
  "recovery_lease_of (fst (take_recovery_lease now p owner rid ttl rv)) k =
     (if k = rp_id p then Some (next_recovery_lease now (rp_id p) owner rid ttl rv) else recovery_lease_of rv k)"
  by (auto simp: take_recovery_lease_def Let_def row_by_append row_by_Cons row_by_upd_by next_recovery_lease_def
      split: option.splits)

lemma next_recovery_lease_simps [simp]:
  "rl_policy_id (next_recovery_lease now pid owner rid ttl rv) = pid"
  "rl_owner_id (next_recovery_lease now pid owner rid ttl rv) = owner"
  "rl_state (next_recovery_lease now pid owner rid ttl rv) = GL_OWNED"
  "rl_expires_at (next_recovery_lease now pid owner rid ttl rv) = expires now ttl"
  "rl_active_recovery_id (next_recovery_lease now pid owner rid ttl rv) = Some rid"
  "rl_generation (next_recovery_lease now pid owner rid ttl rv) =
     (case recovery_lease_of rv pid of None \<Rightarrow> 1 | Some l \<Rightarrow> rl_generation l + 1)"
  by (simp_all add: next_recovery_lease_def Let_def)

text \<open>How the lease of a policy changes in a step.\<close>

definition recovery_follows :: "rat \<Rightarrow> recovery_lease_row \<Rightarrow> recovery_lease_row \<Rightarrow> bool" where
  "recovery_follows now l l' \<longleftrightarrow>
     rl_generation l < rl_generation l' \<or>
     rl_generation l' = rl_generation l \<and> rl_owner_id l' = rl_owner_id l \<and>
       (\<not> recovery_lease_live now l \<longrightarrow> \<not> recovery_lease_live now l')"

lemma recovery_follows_refl [simp]: "recovery_follows now l l"
  by (simp add: recovery_follows_def)

lemma recovery_step_lease:
  assumes "recovery_step now rv rv'" and l: "recovery_lease_of rv k = Some l"
  shows "\<exists>l'. recovery_lease_of rv' k = Some l' \<and> recovery_follows now l l'"
  using assms(1)
proof cases
  case (rs_acquire pid owner rid ttl r1)
  from rs_acquire(1) show ?thesis
  proof (cases rule: try_acquire_recovery_cases)
    case refused
    then show ?thesis using l by simp
  next
    case (granted row)
    then show ?thesis using l by (auto simp: take_recovery_lease_leases recovery_follows_def)
  qed
next
  case (rs_heartbeat c ttl b1)
  then have "recovery_lease_of rv' k = Some (if k = rk_policy_id c \<and> holds_recovery c l \<and> micros now < rl_expires_at l
      then l\<lparr>rl_heartbeat_at := micros now, rl_expires_at := expires now ttl\<rparr> else l)"
    using l by (auto simp: heartbeat_recovery_def row_by_upd_by)
  then show ?thesis by (auto simp: recovery_follows_def holds_recovery_def recovery_lease_live_def)
next
  case (rs_release c lost err b2)
  then show ?thesis using l
    by (auto simp: release_recovery_def row_by_upd_by recovery_follows_def holds_recovery_def recovery_lease_live_def
        split: if_split_asm)
qed (use l in \<open>auto simp: create_attempt_def update_attempt_def fenced_def insert_attempt_def write_attempt_def Let_def\<close>)

interpretation recovery_leases: expiring_tokens recovery_step recovery_lease_of rl_generation rl_owner_id recovery_lease_live
proof
  show "\<exists>l'. recovery_lease_of d' k = Some l' \<and> (rl_generation l < rl_generation l' \<or>
      rl_generation l' = rl_generation l \<and> rl_owner_id l' = rl_owner_id l)"
    if "recovery_step t d d'" "recovery_lease_of d k = Some l" for t d d' k l
    using recovery_step_lease [OF that] by (auto simp: recovery_follows_def)
  show "\<not> recovery_lease_live t l'"
    if "recovery_step t d d'" "recovery_lease_of d k = Some l" "recovery_lease_of d' k = Some l'"
      "rl_generation l' = rl_generation l" "\<not> recovery_lease_live t l" for t d d' k l l'
    using recovery_step_lease [OF that(1,2)] that by (auto simp: recovery_follows_def)
  show "\<not> recovery_lease_live t' l" if "t \<le> t'" "\<not> recovery_lease_live t l" for t t' l
    using that floor_mono [of "t * 1000000" "t' * 1000000"] by (auto simp: recovery_lease_live_def micros_def)
qed

lemma recovery_current_iff:
  "recovery_current now c rv \<longleftrightarrow> recovery_leases.current now rv (rk_policy_id c) (rk_owner_id c) (rk_generation c)"
  by (auto simp: recovery_current_def recovery_leases.current_def holds_recovery_def recovery_lease_live_def
      split: option.splits)

lemma fenced_lost: "\<not> recovery_current now c rv \<Longrightarrow> fenced op c now rv = Inl (RecoveryLeaseLost (recovery_lost_message c))"
  by (simp add: fenced_def assert_recovery_owned_def)

lemma heartbeat_lost: "\<not> recovery_current now c rv \<Longrightarrow> heartbeat_recovery now c ttl rv = Inr (rv', ok) \<Longrightarrow>
  \<not> ok \<and> recovery_lease_of rv' k = recovery_lease_of rv k"
  by (auto simp: heartbeat_recovery_def recovery_current_def row_by_upd_by split: option.splits)

text \<open>
  C1. A recovery lease that expired, was released or was taken over is lost for good. In every later
  state its owner can renew nothing, and every write it still attempts - a new attempt, a change of
  its attempt, an event, marking the node as degraded or as ready - is refused with
  \<^verbatim>\<open>RecoveryLeaseLost\<close> before it changes anything. Unlike a goal lease, an expired recovery lease cannot
  even be revived by its own heartbeat.
\<close>

theorem recovery_lease_lost_forever:
  assumes "timed_run recovery_step t rv t' rv'" and "recovery_lease_of rv (rk_policy_id c) = Some l"
    and "rk_generation c \<le> rl_generation l" and "\<not> recovery_current t c rv"
  shows "create_attempt p c st trigger who ob fin t' rv' = Inl (RecoveryLeaseLost (recovery_lost_message c)) \<and>
    update_attempt c u t' rv' = Inl (RecoveryLeaseLost (recovery_lost_message c)) \<and>
    append_recovery_event p c kind sev summary payload t' rv' = Inl (RecoveryLeaseLost (recovery_lost_message c)) \<and>
    mark_degraded p c t' rv' = Inl (RecoveryLeaseLost (recovery_lost_message c)) \<and>
    mark_ready p c t' rv' = Inl (RecoveryLeaseLost (recovery_lost_message c)) \<and>
    (heartbeat_recovery t' c ttl rv' = Inr (rv2, ok) \<longrightarrow> \<not> ok \<and> recovery_lease_of rv2 k = recovery_lease_of rv' k)"
proof -
  have "\<not> recovery_current t' c rv'"
    using recovery_leases.lost_forever [OF assms(1-3)] assms(4) by (simp add: recovery_current_iff)
  then show ?thesis
    using heartbeat_lost [of t' c rv' ttl rv2 ok k]
    by (auto simp add: create_attempt_def update_attempt_def append_recovery_event_def mark_degraded_def mark_ready_def
        fenced_lost)
qed

subsection \<open>Attempts\<close>

text \<open>
  The invariant of the tables: keys and active recovery identifiers are unique, attempts satisfy the
  checks of their table, an unfinished attempt is the active recovery of the lease of its policy,
  and the attempt a lease is active on bears the generation of the lease.
\<close>

definition attempt_owned :: "recovery_lease_row list \<Rightarrow> attempt_row \<Rightarrow> bool" where
  "attempt_owned ls a \<longleftrightarrow> attempt_checks a \<and>
     (ra_finished_at a = None \<longrightarrow>
       (\<exists>l \<in> set ls. rl_policy_id l = ra_policy_id a \<and> rl_active_recovery_id l = Some (ra_id a))) \<and>
     (\<forall>l \<in> set ls. rl_active_recovery_id l = Some (ra_id a) \<longrightarrow>
       rl_policy_id l = ra_policy_id a \<and> ra_lease_generation a = Some (rl_generation l))"

definition active_ids_unique :: "recovery_lease_row list \<Rightarrow> bool" where
  "active_ids_unique ls \<longleftrightarrow>
     (\<forall>l \<in> set ls. \<forall>l' \<in> set ls. \<forall>rid. rl_active_recovery_id l = Some rid \<and> rl_active_recovery_id l' = Some rid \<longrightarrow>
        rl_policy_id l = rl_policy_id l')"

definition recovery_inv :: "recovery_db \<Rightarrow> bool" where
  "recovery_inv rv \<longleftrightarrow>
     unique_key rl_policy_id (rv_leases rv) \<and> unique_key ra_id (rv_attempts rv) \<and>
     active_ids_unique (rv_leases rv) \<and> (\<forall>a \<in> set (rv_attempts rv). attempt_owned (rv_leases rv) a)"

lemma recovery_invI:
  assumes "unique_key rl_policy_id (rv_leases rv)" and "unique_key ra_id (rv_attempts rv)"
    and "active_ids_unique (rv_leases rv)" and "\<And>a. a \<in> set (rv_attempts rv) \<Longrightarrow> attempt_owned (rv_leases rv) a"
  shows "recovery_inv rv"
  using assms by (simp add: recovery_inv_def)

lemma recovery_invD:
  assumes "recovery_inv rv"
  shows "unique_key rl_policy_id (rv_leases rv)" "unique_key ra_id (rv_attempts rv)"
    "active_ids_unique (rv_leases rv)" "a \<in> set (rv_attempts rv) \<Longrightarrow> attempt_owned (rv_leases rv) a"
  using assms by (simp_all add: recovery_inv_def)

lemma attempt_checks_fenced: "attempt_checks a \<Longrightarrow> attempt_checks (a\<lparr>ra_state := AT_FAILED, ra_failure_code := Some code,
    ra_failure_detail := d, ra_updated_at := u, ra_finished_at := Some f\<rparr>)"
  by (simp add: attempt_checks_def attempt_final_def)

lemma recovery_inv_leases:
  assumes inv: "recovery_inv rv" and "rv_attempts rv' = rv_attempts rv"
    and "rv_leases rv' = upd_by rl_policy_id k f (rv_leases rv)"
    and "\<And>l. rl_policy_id (f l) = rl_policy_id l \<and> rl_generation (f l) = rl_generation l \<and>
      rl_active_recovery_id (f l) = rl_active_recovery_id l"
  shows "recovery_inv rv'"
proof -
  define g where "g = (\<lambda>l. if rl_policy_id l = k then f l else l)"
  have g: "rl_policy_id (g l) = rl_policy_id l" "rl_generation (g l) = rl_generation l"
    "rl_active_recovery_id (g l) = rl_active_recovery_id l" for l
    using assms(4) by (simp_all add: g_def)
  have leases: "set (rv_leases rv') = g ` set (rv_leases rv)"
    unfolding assms(3) set_upd_by g_def ..
  have "unique_key rl_policy_id (rv_leases rv') = unique_key rl_policy_id (rv_leases rv)"
    unfolding assms(3) by (rule unique_key_upd_by) (simp add: assms(4))
  moreover have "active_ids_unique (rv_leases rv') = active_ids_unique (rv_leases rv)"
    by (simp add: active_ids_unique_def leases g)
  moreover have "attempt_owned (rv_leases rv') a = attempt_owned (rv_leases rv) a" for a
    by (simp add: attempt_owned_def leases g)
  ultimately show ?thesis using inv by (simp add: recovery_inv_def assms(2))
qed

lemma fence_attempts_mem:
  assumes "a \<in> set (fence_attempts now pid stale rows)"
  shows "\<exists>a0 \<in> set rows. ra_id a = ra_id a0 \<and> ra_policy_id a = ra_policy_id a0 \<and>
    ra_lease_generation a = ra_lease_generation a0 \<and> (attempt_checks a0 \<longrightarrow> attempt_checks a) \<and>
    (ra_finished_at a = None \<longrightarrow> ra_finished_at a0 = None \<and> ra_policy_id a0 \<noteq> pid)"
  using assms unfolding fence_attempts_def
proof (rule in_upd_whereE)
  assume "a \<in> set rows" "\<not> unfinished_of pid a"
  then show ?thesis by (intro bexI [of _ a]) (auto simp: unfinished_of_def)
next
  fix a0
  assume a0: "a0 \<in> set rows" "unfinished_of pid a0" and a: "a = a0\<lparr>ra_state := AT_FAILED,
       ra_failure_code := Some (if stale then ''staleLeaseRecovered'' else ''orphanedAttemptRecovered''),
       ra_failure_detail := Some
         (if stale then ''prior recovery owner lease expired; transient attempt fenced and reconciled''
          else ''orphaned transient recovery attempt reconciled before restart''),
       ra_updated_at := Micros (micros now), ra_finished_at := Some (Micros (micros now))\<rparr>"
  show ?thesis using a0(1) unfolding a by (intro bexI [of _ a0]) (simp_all add: attempt_checks_fenced)
qed

lemma taken_leases:
  "set (rv_leases (fst (take_recovery_lease now p owner rid ttl rv))) =
     insert (next_recovery_lease now (rp_id p) owner rid ttl rv) {l \<in> set (rv_leases rv). rl_policy_id l \<noteq> rp_id p}"
  by (force simp: take_recovery_lease_def Let_def set_upd_by row_by_None_iff dest!: row_by_SomeD)

lemma taken_attempts:
  "\<exists>stale. rv_attempts (fst (take_recovery_lease now p owner rid ttl rv)) =
     fence_attempts now (rp_id p) stale (rv_attempts rv)"
proof -
  have "fence_attempts now (rp_id p) stale (rv_attempts rv) = rv_attempts rv"
    if "\<not> list_ex (unfinished_of (rp_id p)) (rv_attempts rv)" for stale
    using that by (auto simp: fence_attempts_def upd_where_def list_ex_iff map_idI)
  then show ?thesis by (auto simp: take_recovery_lease_def Let_def)
qed

lemma recovery_inv_granted:
  assumes inv: "recovery_inv rv" and fresh: "recovery_id_fresh rid rv"
  shows "recovery_inv (fst (take_recovery_lease now p owner rid ttl rv))"
proof (rule recovery_invI)
  let ?rv = "fst (take_recovery_lease now p owner rid ttl rv)"
  note inv = recovery_invD [OF inv]
  show "unique_key rl_policy_id (rv_leases ?rv)"
    using inv(1) by (auto simp: take_recovery_lease_def Let_def unique_key_snoc unique_key_upd_by)
  obtain stale where att: "rv_attempts ?rv = fence_attempts now (rp_id p) stale (rv_attempts rv)"
    using taken_attempts by blast
  show "unique_key ra_id (rv_attempts ?rv)"
    unfolding att fence_attempts_def using inv(2) by (subst unique_key_upd_where) auto
  show "active_ids_unique (rv_leases ?rv)"
    using inv(3) fresh unfolding active_ids_unique_def taken_leases recovery_id_fresh_def by auto
  fix a assume "a \<in> set (rv_attempts ?rv)"
  then obtain a0 where "a0 \<in> set (rv_attempts rv)" and a: "ra_id a = ra_id a0" "ra_policy_id a = ra_policy_id a0"
    "ra_lease_generation a = ra_lease_generation a0" "attempt_checks a0 \<longrightarrow> attempt_checks a"
    "ra_finished_at a = None \<longrightarrow> ra_finished_at a0 = None \<and> ra_policy_id a0 \<noteq> rp_id p"
    unfolding att using fence_attempts_mem by meson
  then have "attempt_owned (rv_leases rv) a0" "ra_id a0 \<noteq> rid"
    using inv(4) fresh by (auto simp: recovery_id_fresh_def)
  then show "attempt_owned (rv_leases ?rv) a"
    using a unfolding attempt_owned_def taken_leases by (intro conjI impI) auto
qed

lemma recovery_inv_insert:
  assumes inv: "recovery_inv rv" and "insert_attempt a rv = Inr (rv', u)"
    and l: "recovery_lease_of rv (ra_policy_id a) = Some l" "rl_active_recovery_id l = Some (ra_id a)"
      "ra_lease_generation a = Some (rl_generation l)"
  shows "recovery_inv rv'"
proof -
  note inv = recovery_invD [OF inv]
  have rv': "rv' = rv\<lparr>rv_attempts := rv_attempts rv @ [a]\<rparr>" and new: "row_by ra_id (ra_id a) (rv_attempts rv) = None"
    and chk: "attempt_checks a" using assms(2) by (auto simp: insert_attempt_def)
  have mem: "l \<in> set (rv_leases rv)" "rl_policy_id l = ra_policy_id a" using row_by_SomeD [OF l(1)] by simp_all
  have "l' = l" if "l' \<in> set (rv_leases rv)" "rl_active_recovery_id l' = Some (ra_id a)" for l'
  proof -
    have "rl_policy_id l' = rl_policy_id l" using inv(3) mem(1) that l(2) unfolding active_ids_unique_def by blast
    then show ?thesis by (rule unique_key_eq [OF inv(1) that(1) mem(1)])
  qed
  then have "attempt_owned (rv_leases rv) a" using chk mem l(2,3) unfolding attempt_owned_def by blast
  then show ?thesis using inv new unfolding rv' by (intro recovery_invI) (auto simp: unique_key_snoc)
qed

lemma recovery_inv_write:
  assumes inv: "recovery_inv rv" and "write_attempt rid u now rv = Inr (rv', x)"
    and l: "recovery_lease_of rv pid = Some l" "rl_active_recovery_id l = Some rid"
  shows "recovery_inv rv'"
proof (rule recovery_invI)
  note inv = recovery_invD [OF inv]
  let ?f = "updated_attempt now u"
  have rows: "rv_attempts rv' = upd_by ra_id rid ?f (rv_attempts rv)" and leases: "rv_leases rv' = rv_leases rv"
    and chk: "\<forall>a \<in> set (rv_attempts rv'). ra_id a = rid \<longrightarrow> attempt_checks a"
    using assms(2) by (auto simp: write_attempt_def Let_def list_all_iff)
  have f: "ra_id (?f a) = ra_id a" "ra_policy_id (?f a) = ra_policy_id a"
    "ra_lease_generation (?f a) = ra_lease_generation a" for a by (simp_all add: updated_attempt_def)
  have mem: "l \<in> set (rv_leases rv)" using row_by_SomeD [OF l(1)] by simp
  show "unique_key rl_policy_id (rv_leases rv')" "active_ids_unique (rv_leases rv')" using inv leases by simp_all
  show "unique_key ra_id (rv_attempts rv')" using inv(2) f(1) unfolding rows by (simp add: unique_key_upd_by)
  fix a assume a: "a \<in> set (rv_attempts rv')"
  show "attempt_owned (rv_leases rv') a"
  proof (cases "ra_id a = rid")
    case True
    then obtain a0 where a0: "a0 \<in> set (rv_attempts rv)" "a = ?f a0" "ra_id a0 = rid"
      using a unfolding rows by (auto elim!: in_upd_byE)
    have "attempt_checks a" using chk a True by blast
    then show ?thesis using inv(4) [OF a0(1)] a0(2,3) mem l(2) unfolding attempt_owned_def leases by (auto simp: f)
  next
    case False
    then have "a \<in> set (rv_attempts rv)" using a f(1) unfolding rows by (auto elim!: in_upd_byE)
    then show ?thesis using inv(4) leases by simp
  qed
qed

lemma current_issued:
  assumes "recovery_current now c rv" and "claim_issued c rv"
  obtains l where "recovery_lease_of rv (rk_policy_id c) = Some l" "rl_active_recovery_id l = Some (rk_recovery_id c)"
    "rl_generation l = rk_generation c"
  using assms by (auto simp: recovery_current_def claim_issued_def holds_recovery_def split: option.split_asm)

lemma recovery_step_inv:
  assumes "recovery_step now rv rv'" and inv: "recovery_inv rv"
  shows "recovery_inv rv'"
  using assms(1)
proof cases
  case (rs_acquire pid owner rid ttl r1)
  from rs_acquire(1) show ?thesis
  proof (cases rule: try_acquire_recovery_cases)
    case (granted row)
    then show ?thesis using recovery_inv_granted [OF inv rs_acquire(2)] by simp
  qed (use inv in simp)
next
  case (rs_heartbeat c ttl b1)
  then have "rv_attempts rv' = rv_attempts rv"
    and "rv_leases rv' = upd_by rl_policy_id (rk_policy_id c) (\<lambda>l. if holds_recovery c l \<and> micros now < rl_expires_at l
      then l\<lparr>rl_heartbeat_at := micros now, rl_expires_at := expires now ttl\<rparr> else l) (rv_leases rv)"
    by (auto simp: heartbeat_recovery_def)
  then show ?thesis by (rule recovery_inv_leases [OF inv]) simp
next
  case (rs_release c lost err b2)
  show ?thesis
  proof (cases "rv' = rv")
    case False
    then have "rv_attempts rv' = rv_attempts rv"
      and "rv_leases rv' = upd_by rl_policy_id (rk_policy_id c) (\<lambda>l. l\<lparr>
          rl_state := (if lost then GL_LOST else GL_RELEASED), rl_heartbeat_at := micros now,
          rl_expires_at := micros now, rl_released_at := Some (micros now),
          rl_recovery_state := (if lost then GR_LOST else GR_COMPLETE), rl_last_error := clip_opt err\<rparr>) (rv_leases rv)"
      using rs_release by (auto simp: release_recovery_def split: if_split_asm)
    then show ?thesis by (rule recovery_inv_leases [OF inv]) simp
  qed (use inv in simp)
next
  case (rs_create p c st trigger who ob fin u1)
  have cur: "recovery_current now c rv"
    and ins: "insert_attempt (new_attempt now p c st trigger who ob fin) rv = Inr (rv', u1)"
    using rs_create(1) by (auto simp: create_attempt_def fenced_def assert_recovery_owned_def)
  obtain l where "recovery_lease_of rv (rk_policy_id c) = Some l" "rl_active_recovery_id l = Some (rk_recovery_id c)"
    "rl_generation l = rk_generation c" by (rule current_issued [OF cur rs_create(3)])
  then show ?thesis using rs_create(2) by (intro recovery_inv_insert [OF inv ins]) (auto simp: new_attempt_def)
next
  case (rs_update c u u2)
  have cur: "recovery_current now c rv" and wr: "write_attempt (rk_recovery_id c) u now rv = Inr (rv', u2)"
    using rs_update(1) by (auto simp: update_attempt_def fenced_def assert_recovery_owned_def)
  obtain l where "recovery_lease_of rv (rk_policy_id c) = Some l" "rl_active_recovery_id l = Some (rk_recovery_id c)"
    by (rule current_issued [OF cur rs_update(2)])
  then show ?thesis by (rule recovery_inv_write [OF inv wr])
qed (use inv in \<open>simp add: recovery_inv_def\<close>)

lemma recovery_run_inv: "timed_run recovery_step t rv t' rv' \<Longrightarrow> recovery_inv rv \<Longrightarrow> recovery_inv rv'"
  by (induction rule: timed_run.induct) (auto intro: recovery_step_inv)

text \<open>
  C2. However the operations of concurrent recoveries interleave, a policy never has two unfinished
  attempts. The unfinished one belongs to the lease of its policy: it is the recovery the lease is
  active on and bears its generation, so whoever takes the lease over has closed it. Every attempt
  satisfies the constraints of its table, so no update of the service is refused by the database.
\<close>

theorem recovery_attempts_fenced:
  assumes "timed_run recovery_step t rv t' rv'" and "recovery_inv rv"
    and "a \<in> set (rv_attempts rv')" and "ra_finished_at a = None"
  shows "(b \<in> set (rv_attempts rv') \<and> ra_policy_id b = ra_policy_id a \<and> ra_finished_at b = None \<longrightarrow> b = a) \<and>
    (\<exists>l. recovery_lease_of rv' (ra_policy_id a) = Some l \<and> rl_active_recovery_id l = Some (ra_id a) \<and>
       ra_lease_generation a = Some (rl_generation l)) \<and>
    attempt_checks a \<and> ra_state a \<in> {AT_DEGRADED, AT_RECOVERING, AT_VERIFYING} \<and> ra_failure_code a = None"
proof -
  have inv: "recovery_inv rv'" by (rule recovery_run_inv [OF assms(1,2)])
  note I = recovery_invD [OF inv]
  have lease: "\<exists>l. recovery_lease_of rv' (ra_policy_id x) = Some l \<and> rl_active_recovery_id l = Some (ra_id x) \<and>
      ra_lease_generation x = Some (rl_generation l)"
    if x: "x \<in> set (rv_attempts rv')" "ra_finished_at x = None" for x
  proof -
    obtain l where l: "l \<in> set (rv_leases rv')" "rl_policy_id l = ra_policy_id x" "rl_active_recovery_id l = Some (ra_id x)"
      using I(4) [OF x(1)] x(2) by (auto simp: attempt_owned_def)
    then show ?thesis using I(4) [OF x(1)] row_by_in [OF I(1) l(1)] by (auto simp: attempt_owned_def)
  qed
  have "b = a" if b: "b \<in> set (rv_attempts rv')" "ra_policy_id b = ra_policy_id a" "ra_finished_at b = None"
  proof -
    have "ra_id b = ra_id a" using lease [OF assms(3,4)] lease [OF b(1,3)] b(2) by auto
    then show ?thesis by (rule unique_key_eq [OF I(2) b(1) assms(3)])
  qed
  moreover have "attempt_checks a" using I(4) [OF assms(3)] by (simp add: attempt_owned_def)
  moreover from this have "ra_state a \<in> {AT_DEGRADED, AT_RECOVERING, AT_VERIFYING} \<and> ra_failure_code a = None"
    using assms(4) by (cases "ra_state a") (simp_all add: attempt_checks_def attempt_final_def)
  ultimately show ?thesis using lease [OF assms(3,4)] by blast
qed

section \<open>Calls of the node adapter\<close>

text \<open>
  The requests a node adapter may see: well formed, for the node, runtime and loopback endpoint of an
  enabled policy, covered by an authorization given for this very recovery and capability within the
  bound on attempts, and with a deadline that leaves ten seconds of the lease.
\<close>

definition authorized_request :: "recovery_env \<Rightarrow> recovery_policy \<Rightarrow> recovery_request \<Rightarrow> bool" where
  "authorized_request E p req \<longleftrightarrow>
     (\<exists>f ctx w w' d. rx_authorizer E = Some f \<and> f ctx w = (w', Inr d) \<and> ad_authorized d \<and>
        ad_authorization_ref d = Some (rr_authorization_ref req) \<and> au_recovery_id ctx = rr_recovery_id req \<and>
        au_node_id ctx = rr_node_id req \<and> au_runtime_id ctx = rr_runtime_id req \<and>
        au_capability ctx = rp_required_capability p \<and> au_operation ctx = rr_operation req \<and>
        1 \<le> au_attempt ctx \<and> au_attempt ctx \<le> rp_max_attempts p)"

definition legal_request :: "recovery_env \<Rightarrow> recovery_policy \<Rightarrow> recovery_request \<Rightarrow> bool" where
  "legal_request E p req \<longleftrightarrow>
     rp_enabled p \<and> check_recovery_request req = Inr () \<and> authorized_request E p req \<and>
     rr_policy_id req = rp_id p \<and> rr_node_id req = rp_node_id p \<and> rr_runtime_id req = rp_runtime_id p \<and>
     rr_backend_endpoint req = rp_backend_endpoint p \<and> loopback_endpoint (rr_backend_endpoint req) \<and>
     rr_operation req = START_RUNTIME \<and>
     rr_deadline_at req - rr_requested_at req \<le> rp_lease_ttl_seconds p - 10"

lemma andthen_cong:
  assumes "m w = m' w" and "\<And>w1 x. m' w = Some (w1, Inr x) \<Longrightarrow> f x w1 = f' x w1"
  shows "andthen m f w = andthen m' f' w"
  using assms by (auto simp: andthen_def split: option.splits sum.splits)

abbreviation with_adapter where
  "with_adapter E g \<equiv> rx_recover_update (\<lambda>_. g) E"

lemma with_adapter_commit [simp]: "elapse (with_adapter E g) = elapse E" "commit (with_adapter E g) = commit E"
  by (simp_all add: fun_eq_iff elapse_def commit_def)

lemma with_adapter_parts [simp]:
  "observe (with_adapter E g) = observe E"
  "assert_owned (with_adapter E g) = assert_owned E"
  "recovery_fail (with_adapter E g) = recovery_fail E"
  "authorize (with_adapter E g) = authorize E"
  "renew_or_lose (with_adapter E g) = renew_or_lose E"
  "announce (with_adapter E g) = announce E"
  "recovery_preconditions (with_adapter E g) = recovery_preconditions E"
  by (intro ext; simp add: observe_def probe_error_def assert_owned_def recovery_fail_def authorize_def renew_or_lose_def
      announce_def recovery_preconditions_def)+

lemma with_adapter_verify [simp]:
  "verify_attempt (with_adapter E g) = verify_attempt E"
  "judge_result (with_adapter E g) = judge_result E"
  by (intro ext; simp add: verify_attempt_def judge_result_def cong: if_cong)+

lemmas with_adapter_simps = with_adapter_commit with_adapter_parts with_adapter_verify

lemma authorize_granted:
  assumes "authorize E ctx w = Some (w', Inr d)" and "ad_authorized d"
  shows "\<exists>f w1. rx_authorizer E = Some f \<and> f ctx w = (w1, Inr d) \<and> check_authorization_decision d = Inr ()"
  using assms
  by (auto simp: authorize_def ret_def deny_all_def checked_def andthen_Some await_def lift_def split: option.split_asm)

lemma dispatch_attempt_legal:
  assumes legal: "\<And>req w. legal_request E p req \<Longrightarrow> g req w = rx_recover E req w"
    and p: "rp_enabled p" "check_recovery_policy p = Inr ()" "adapter_admissible p d = Inr ()"
    and auth: "\<And>req. rr_authorization_ref req = ref \<and> rr_recovery_id req = rk_recovery_id c \<and> rr_node_id req = rp_node_id p \<and>
      rr_runtime_id req = rp_runtime_id p \<and> rr_operation req = START_RUNTIME \<Longrightarrow> authorized_request E p req"
  shows "dispatch_attempt (with_adapter E g) p c d ob n (Some ref) la w = dispatch_attempt E p c d ob n (Some ref) la w"
  unfolding dispatch_attempt_def with_adapter_simps
proof (intro andthen_cong refl, goal_cases)
  case (1 w1 u1 w2 u2 w3 now w4 u4)
  let ?req = "start_request p c d (Some ref) now"
  have "legal_request E p ?req"
    using 1 p auth [of ?req]
    by (auto simp: legal_request_def start_request_def lift_def adapter_admissible_def check_recovery_policy_def
        validate_loopback_endpoint_def)
  then show ?case by (simp add: call_adapter_def checked_def andthen_def catch_def await_def legal)
qed (simp split: sum.split)

lemma recovery_attempts_legal:
  assumes legal: "\<And>req w. legal_request E p req \<Longrightarrow> g req w = rx_recover E req w"
    and p: "rp_enabled p" "check_recovery_policy p = Inr ()" "adapter_admissible p d = Inr ()"
    and ns: "\<forall>n \<in> set ns. 1 \<le> n \<and> n \<le> rp_max_attempts p"
  shows "recovery_attempts (with_adapter E g) p c d who ob ns la auth w = recovery_attempts E p c d who ob ns la auth w"
  using ns
proof (induction ns arbitrary: la auth w)
  case (Cons n ns)
  have one: "recovery_attempt (with_adapter E g) p c d who ob n la w = recovery_attempt E p c d who ob n la w" for la w
    unfolding recovery_attempt_def with_adapter_simps
  proof (intro andthen_cong refl, goal_cases)
    case (1 w1 decision)
    show ?case
    proof (cases "ad_authorized decision")
      case True
      obtain f w2 where f: "rx_authorizer E = Some f" "f (attempt_context p c who n) w = (w2, Inr decision)"
        and chk: "check_authorization_decision decision = Inr ()"
        using authorize_granted [OF 1 True] by blast
      obtain ref where ref: "ad_authorization_ref decision = Some ref"
        using chk True by (auto simp: check_authorization_decision_def split: option.split_asm)
      have auth: "authorized_request E p req"
        if "rr_authorization_ref req = ref \<and> rr_recovery_id req = rk_recovery_id c \<and> rr_node_id req = rp_node_id p \<and>
          rr_runtime_id req = rp_runtime_id p \<and> rr_operation req = START_RUNTIME" for req
        unfolding authorized_request_def using f True ref that Cons.prems
        by (intro exI [of _ f] exI [of _ "attempt_context p c who n"] exI [of _ w] exI [of _ w2] exI [of _ decision])
          (simp add: attempt_context_def)
      show ?thesis
        by (simp add: True ref) (intro andthen_cong refl dispatch_attempt_legal [OF legal p auth]; assumption?)
    qed simp
  qed
  show ?case
    by (simp only: recovery_attempts.simps)
      (rule andthen_cong [OF one], auto split: attempt_end.splits intro!: Cons.IH simp: Cons.prems)
qed simp

text \<open>
  C3. A node adapter sees nothing but legal requests. Two adapters that behave alike on legal requests
  are indistinguishable to the whole recovery, whatever they would do on others. In particular the
  adapter is not consulted when the policy is disabled or when there is no authorizer.
\<close>

theorem recovery_adapter_contract:
  assumes "get_policy (store (rx_others E w)) pid = Inr p"
    and "\<And>req w. legal_request E p req \<Longrightarrow> g req w = rx_recover E req w"
  shows "recover_if_needed (with_adapter E g) rid oid pid who trigger owner w =
    recover_if_needed E rid oid pid who trigger owner w"
proof -
  have run: "recover_claimed (with_adapter E g) p c d who trigger w1 = recover_claimed E p c d who trigger w1"
    if d: "recovery_preconditions E p who trigger = Inr d" for c d w1
  proof -
    have chk: "check_recovery_policy p = Inr ()" using assms(1) by (auto simp: get_policy_def policy_from_row_def)
    have adm: "adapter_admissible p d = Inr ()" using d by (auto simp: recovery_preconditions_def split: option.split_asm)
    show ?thesis
      unfolding recover_claimed_def with_adapter_simps
      by (intro andthen_cong refl) (auto intro!: andthen_cong recovery_attempts_legal [OF assms(2) _ chk adm])
  qed
  have start: "andthen (elapse E) (\<lambda>_. andthen (reading (\<lambda>rv. get_policy rv pid)) f) w = f p (rx_others E w)"
    for f :: "recovery_policy \<Rightarrow> 'c recovery"
    using assms(1) by (simp add: andthen_def elapse_def await_def reading_def)
  show ?thesis
    unfolding recover_if_needed_def with_adapter_simps start
    by (intro andthen_cong refl) (auto simp: lift_def release_after_def run split: option.split)
qed

section \<open>What an outcome means\<close>

lemma recovery_fail_result:
  assumes "recovery_fail E p c ob st code detail kind n auth after w = Some (w', Inr r)"
  shows "oc_state r = st \<and> oc_attempt_count r = n \<and> oc_failure_code r = Some code \<and> oc_policy_id r = rp_id p \<and>
    oc_before r = ob"
  using assms by (auto simp: recovery_fail_def andthen_Some ret_def)

text \<open>A start the adapter accepted under the current generation of the lease.\<close>

definition acknowledged :: "recovery_env \<Rightarrow> recovery_claim \<Rightarrow> bool" where
  "acknowledged E c \<longleftrightarrow> (\<exists>req w w' res. rx_recover E req w = (w', Inr res) \<and> rz_accepted res \<and>
     rr_recovery_id req = rk_recovery_id c \<and> rr_lease_generation req = rk_generation c \<and>
     rz_observed_fencing_generation res = Some (rk_generation c))"

definition outcome_ok :: "recovery_env \<Rightarrow> recovery_policy \<Rightarrow> recovery_claim \<Rightarrow> health_observation \<Rightarrow> int \<Rightarrow> recovery_outcome \<Rightarrow> bool" where
  "outcome_ok E p c ob lo r \<longleftrightarrow>
     oc_policy_id r = rp_id p \<and> oc_before r = ob \<and> lo \<le> oc_attempt_count r \<and> oc_attempt_count r \<le> rp_max_attempts p \<and>
     (oc_state r \<in> {AT_FAILED, AT_PERMISSION_REQUIRED} \<and> oc_failure_code r \<noteq> None \<or>
      oc_state r = AT_READY \<and> oc_failure_code r = None \<and> acknowledged E c \<and> 1 \<le> oc_attempt_count r \<and>
        oc_lease_generation r = Some (rk_generation c) \<and> oc_id r = rk_recovery_id c \<and>
        (\<exists>after. oc_after r = Some after \<and> ready_for after p) \<and>
        (\<exists>ref. oc_authorization_ref r = Some ref \<and> authorization_ref_match ref))"

lemma recovery_fail_ok:
  assumes "recovery_fail E p c ob st code detail kind n auth after w = Some (w', Inr r)"
    and "st \<in> {AT_FAILED, AT_PERMISSION_REQUIRED}" and "lo \<le> n" and "n \<le> rp_max_attempts p"
  shows "outcome_ok E p c ob lo r"
  using recovery_fail_result [OF assms(1)] assms(2-) by (auto simp: outcome_ok_def)

lemma verify_attempt_ok:
  assumes "verify_attempt E p c ob n (Some ref) w = Some (w', Inr (Settled r))"
    and "acknowledged E c" and "authorization_ref_match ref" and "1 \<le> n" and "n \<le> rp_max_attempts p"
  shows "outcome_ok E p c ob 0 r"
  using assms by (auto simp: verify_attempt_def andthen_Some ret_def outcome_ok_def succeeded_def split: if_split_asm)

lemma judge_result_ok:
  assumes "judge_result E p c ob n (Some ref) la res w = Some (w', Inr (Settled r))"
    and "rz_accepted res \<Longrightarrow> rz_observed_fencing_generation res = Some (rk_generation c) \<Longrightarrow> acknowledged E c"
    and "authorization_ref_match ref" and "1 \<le> n" and "n \<le> rp_max_attempts p"
  shows "outcome_ok E p c ob 0 r"
  using assms verify_attempt_ok
  by (auto simp: judge_result_def settle_def andthen_Some ret_def split: if_split_asm
      elim!: recovery_fail_ok)

lemma dispatch_attempt_ok:
  assumes "dispatch_attempt E p c d ob n (Some ref) la w = Some (w', Inr (Settled r))"
    and "authorization_ref_match ref" and "1 \<le> n" and "n \<le> rp_max_attempts p"
  shows "outcome_ok E p c ob 0 r"
proof -
  obtain now w1 w2 x where call: "call_adapter E (start_request p c d (Some ref) now) w1 = Some (w2, Inr x)"
    and rest: "(case x of
        Inl e \<Rightarrow> if n = rp_max_attempts p
          then settle (recovery_fail E p c ob AT_FAILED ''recoveryAdapterFailed'' (clip (rx_error_text E e))
            ''runtimeRecoveryFailed'' n (Some ref) None) else ret (Again la)
      | Inr res \<Rightarrow> andthen (renew_or_lose E p c ''during'') (\<lambda>_. judge_result E p c ob n (Some ref) la res)) w2 =
      Some (w', Inr (Settled r))"
    using assms(1) unfolding dispatch_attempt_def andthen_Some by blast
  show ?thesis
  proof (cases x)
    case (Inl e)
    then show ?thesis using rest assms(3,4)
      by (auto simp: settle_def andthen_Some ret_def split: if_split_asm elim!: recovery_fail_ok)
  next
    case (Inr res)
    have "acknowledged E c" if "rz_accepted res" "rz_observed_fencing_generation res = Some (rk_generation c)"
      using call that unfolding Inr acknowledged_def call_adapter_def catch_def checked_def
      by (auto simp: andthen_def await_def lift_def ret_def start_request_def split: option.splits sum.splits prod.splits)
        (metis recovery_request.select_convs)
    then show ?thesis using rest judge_result_ok [OF _ _ assms(2-4)] unfolding Inr by (auto simp: andthen_Some)
  qed
qed

lemma recovery_attempt_ok:
  assumes "recovery_attempt E p c d who ob n la w = Some (w', Inr (Settled r, auth))"
    and "1 \<le> n" and "n \<le> rp_max_attempts p"
  shows "outcome_ok E p c ob 0 r"
proof -
  obtain w1 decision where dec: "authorize E (attempt_context p c who n) w = Some (w1, Inr decision)"
    using assms(1) by (auto simp: recovery_attempt_def andthen_Some)
  show ?thesis
  proof (cases "ad_authorized decision")
    case False
    then show ?thesis using assms dec
      by (auto simp: recovery_attempt_def andthen_Some settle_def ret_def elim!: recovery_fail_ok)
  next
    case True
    have chk: "check_authorization_decision decision = Inr ()" using authorize_granted [OF dec True] by blast
    obtain ref where ref: "ad_authorization_ref decision = Some ref" "authorization_ref_match ref"
      using chk True by (auto simp: check_authorization_decision_def split: option.split_asm)
    obtain w2 w3 where "dispatch_attempt E p c d ob n (Some ref) la w2 = Some (w3, Inr (Settled r))"
      using assms(1) dec True ref(1) by (auto simp: recovery_attempt_def andthen_Some ret_def)
    then show ?thesis by (rule dispatch_attempt_ok [OF _ ref(2) assms(2,3)])
  qed
qed

lemma recovery_attempts_ok:
  assumes "recovery_attempts E p c d who ob ns la auth w = Some (w', Inr r)"
    and "\<forall>n \<in> set ns. 1 \<le> n \<and> n \<le> rp_max_attempts p" and "1 \<le> rp_max_attempts p"
  shows "outcome_ok E p c ob 0 r"
  using assms(1,2)
proof (induction ns arbitrary: la auth w)
  case Nil
  then show ?case using assms(3) by (auto elim!: recovery_fail_ok)
next
  case (Cons n ns)
  obtain w1 x auth1 where one: "recovery_attempt E p c d who ob n la w = Some (w1, Inr (x, auth1))"
    and rest: "(case x of Settled outcome \<Rightarrow> ret outcome | Again after \<Rightarrow> recovery_attempts E p c d who ob ns after auth1) w1 =
      Some (w', Inr r)"
    using Cons.prems(1) by (auto simp: andthen_Some)
  show ?case
  proof (cases x)
    case (Settled r1)
    then show ?thesis using rest one Cons.prems(2) by (auto simp: ret_def intro: recovery_attempt_ok)
  next
    case (Again after)
    then show ?thesis using rest Cons by auto
  qed
qed

lemma recover_claimed_ok:
  assumes "recover_claimed E p c d who trigger w = Some (w', Inr r)" and "check_recovery_policy p = Inr ()"
  shows "(\<exists>ob. ready_for ob p \<and> r = succeeded p c ob AT_OBSERVED_HEALTHY 0 None None) \<or>
    (\<exists>ob. \<not> ready_for ob p \<and> outcome_ok E p c ob 0 r \<and> (oc_state r = AT_READY \<longrightarrow> rp_enabled p))"
proof -
  have max: "1 \<le> rp_max_attempts p" using assms(2) by (auto simp: check_recovery_policy_def)
  obtain w1 ob where obs: "observe E p w = Some (w1, Inr ob)"
    using assms(1) by (auto simp: recover_claimed_def andthen_Some)
  show ?thesis
  proof (cases "ready_for ob p")
    case True
    then show ?thesis using assms(1) obs by (auto simp: recover_claimed_def andthen_Some ret_def)
  next
    case False
    then obtain w2 where rest: "(if \<not> rp_enabled p
       then recovery_fail E p c ob AT_PERMISSION_REQUIRED ''policyDisabled'' ''runtime recovery policy is disabled''
         ''runtimeRecoveryDenied'' 0 None None
       else recovery_attempts E p c d who ob [1..rp_max_attempts p] None None) w2 = Some (w', Inr r)"
      using assms(1) obs by (auto simp: recover_claimed_def andthen_Some)
    show ?thesis
    proof (cases "rp_enabled p")
      case True
      then show ?thesis using rest False max recovery_attempts_ok [of E p c d who ob "[1..rp_max_attempts p]"] by auto
    next
      case disabled: False
      then have "outcome_ok E p c ob 0 r" "oc_state r = AT_PERMISSION_REQUIRED"
        using rest max recovery_fail_result by (auto elim!: recovery_fail_ok)
      then show ?thesis using False by auto
    qed
  qed
qed

lemma release_after_result:
  "release_after E c m w = Some (w', Inr r) \<Longrightarrow> \<exists>w1. m w = Some (w1, Inr r)"
  by (auto simp: release_after_def andthen_Some raise_def ret_def split: option.split_asm sum.split_asm prod.split_asm)

lemma recover_if_needed_claimed:
  assumes "recover_if_needed E rid oid pid who trigger owner w = Some (w', Inr r)"
    and "get_policy (store (rx_others E w)) pid = Inr p"
  shows "\<exists>c d w1 w2. recover_claimed E p c d who trigger w1 = Some (w2, Inr r)"
proof -
  obtain d w1 claim where "(case claim of
       None \<Rightarrow> raise (RecoveryLeaseUnavailable (''runtime recovery policy '' @ rp_id p @ '' has a live owner''))
     | Some c \<Rightarrow> release_after E c (recover_claimed E p c d who trigger)) w1 = Some (w', Inr r)"
    using assms unfolding recover_if_needed_def andthen_Some elapse_def await_def reading_def by auto
  then show ?thesis using release_after_result by (cases claim) (fastforce simp: raise_def)+
qed

text \<open>
  C4. A recovery reports what it has seen. It ends as healthy exactly when the first observation found
  the runtime ready, and then made no attempt. It ends as ready only for an enabled policy, after the
  adapter accepted a start under the generation of this lease, with an authorization, and after a
  later observation found the runtime and its models ready. Everything else is a failure with a
  code, and the attempts counted never exceed the bound of the policy.
\<close>

theorem recovery_outcome_sound:
  assumes "recover_if_needed E rid oid pid who trigger owner w = Some (w', Inr r)"
    and "get_policy (store (rx_others E w)) pid = Inr p"
  shows "attempt_final (oc_state r) \<and> oc_policy_id r = pid \<and>
    0 \<le> oc_attempt_count r \<and> oc_attempt_count r \<le> rp_max_attempts p \<and> rp_max_attempts p \<le> 3 \<and>
    (oc_state r = AT_OBSERVED_HEALTHY \<longleftrightarrow> ready_for (oc_before r) p) \<and>
    (oc_state r = AT_OBSERVED_HEALTHY \<longrightarrow> oc_attempt_count r = 0 \<and> oc_authorization_ref r = None) \<and>
    (oc_state r = AT_READY \<longrightarrow> rp_enabled p \<and> 1 \<le> oc_attempt_count r \<and>
       (\<exists>after. oc_after r = Some after \<and> ready_for after p) \<and>
       (\<exists>ref. oc_authorization_ref r = Some ref \<and> authorization_ref_match ref) \<and>
       (\<exists>req w1 w2 res. rx_recover E req w1 = (w2, Inr res) \<and> rz_accepted res \<and> rr_recovery_id req = oc_id r \<and>
          Some (rr_lease_generation req) = oc_lease_generation r \<and>
          rz_observed_fencing_generation res = oc_lease_generation r)) \<and>
    (oc_state r \<in> {AT_FAILED, AT_PERMISSION_REQUIRED} \<longleftrightarrow> oc_failure_code r \<noteq> None)"
proof -
  have chk: "check_recovery_policy p = Inr ()" and id: "rp_id p = pid"
    using assms(2) row_by_key by (auto simp: get_policy_def policy_from_row_def)
  have max: "rp_max_attempts p \<le> 3" "0 \<le> rp_max_attempts p" using chk by (auto simp: check_recovery_policy_def)
  obtain c d w1 w2 where claimed: "recover_claimed E p c d who trigger w1 = Some (w2, Inr r)"
    using recover_if_needed_claimed [OF assms] by blast
  from recover_claimed_ok [OF claimed chk] show ?thesis
  proof (elim disjE exE conjE)
    fix ob assume "ready_for ob p" "r = succeeded p c ob AT_OBSERVED_HEALTHY 0 None None"
    then show ?thesis using max id by (simp add: succeeded_def attempt_final_def)
  next
    fix ob assume nr: "\<not> ready_for ob p" and ok: "outcome_ok E p c ob 0 r" and en: "oc_state r = AT_READY \<longrightarrow> rp_enabled p"
    show ?thesis
    proof (cases "oc_state r = AT_READY")
      case True
      then have "acknowledged E c" and gen: "oc_lease_generation r = Some (rk_generation c)" "oc_id r = rk_recovery_id c"
        using ok by (auto simp: outcome_ok_def)
      then have "\<exists>req w1 w2 res. rx_recover E req w1 = (w2, Inr res) \<and> rz_accepted res \<and> rr_recovery_id req = oc_id r \<and>
          Some (rr_lease_generation req) = oc_lease_generation r \<and> rz_observed_fencing_generation res = oc_lease_generation r"
        unfolding acknowledged_def gen by blast
      then show ?thesis using ok nr en True max id by (auto simp: outcome_ok_def attempt_final_def)
    next
      case False
      then show ?thesis using ok nr max id by (auto simp: outcome_ok_def attempt_final_def)
    qed
  qed
qed

section \<open>Examples\<close>

definition sample_policy :: recovery_policy where
  "sample_policy = \<lparr>rp_id = ''p'', rp_node_id = ''n'', rp_runtime_id = ''r'', rp_backend_endpoint = ''http://localhost:80'',
     rp_required_capability = ''service.start'', rp_expected_models = [''m''], rp_worker_ids = [], rp_enabled = True,
     rp_max_attempts = 1, rp_monitor_interval_seconds = 30, rp_failure_backoff_seconds = 60, rp_lease_ttl_seconds = 60\<rparr>"

definition sample_node_row :: node_row where
  "sample_node_row = \<lparr>nd_id = ''n'', nd_hostname = ''h'', nd_display_name = ''h'', nd_role = ''r'', nd_state = NODE_ONLINE,
     nd_operating_system = None, nd_hardware_summary = None, nd_private_endpoint = None, nd_capabilities = [],
     nd_last_heartbeat_at = None, nd_created_at = 0, nd_updated_at = 0\<rparr>"

definition recovery_sample :: recovery_db where
  "recovery_sample = \<lparr>rv_db = empty_db\<lparr>nodes := [sample_node_row]\<rparr>,
     rv_policies = [\<lparr>pw_policy = sample_policy, pw_created_at = 0, pw_updated_at = 0\<rparr>],
     rv_attempts = [], rv_leases = [], rv_monitors = [], rv_checkpoints = []\<rparr>"

definition sample_descriptor :: adapter_descriptor where
  "sample_descriptor = \<lparr>de_adapter_id = ''a'', de_node_id = ''n'', de_protocol_version = ''1.0'', de_max_operation_seconds = 30,
     de_allowed_operations = [START_RUNTIME], de_allows_arbitrary_commands = False, de_enforces_fencing = True,
     de_enforces_deadline = True, de_enforces_idempotency = True\<rparr>"

definition sample_observation :: "bool \<Rightarrow> health_observation" where
  "sample_observation ready = \<lparr>hv_reachable = ready, hv_runtime_ready = ready, hv_models = Some [''m''], hv_observed_at = 0,
     hv_tz_aware = True, hv_source = ''s'', hv_detail = None\<rparr>"

definition sample_env :: recovery_env where
  "sample_env = \<lparr>rx_side_effect_free = True, rx_observe = \<lambda>p w. (w, Inr (sample_observation True)),
     rx_descriptor = Some sample_descriptor, rx_recover = \<lambda>req w. (w, Inl (RuntimeError ''down'')),
     rx_authorizer = None, rx_error_text = \<lambda>e. [], rx_others = \<lambda>w. w\<rparr>"

definition recovery_start :: recovery_world where
  "recovery_start = \<lparr>clock = 0, store = recovery_sample\<rparr>"

lemma char_classes [simp]:
  "ascii_letter c \<longleftrightarrow> lower_letter c \<or> (CHR ''A'' \<le> c \<and> c \<le> CHR ''Z'')"
  "lower_letter c \<longleftrightarrow> (CHR ''a'' \<le> c \<and> c \<le> CHR ''z'')"
  by (simp_all add: ascii_letter_def lower_letter_def)

lemma sample_policy_ok: "get_policy recovery_sample ''p'' = Inr sample_policy"
  by (simp add: get_policy_def fetch_def recovery_sample_def sample_policy_def row_simps policy_from_row_def
      check_recovery_policy_def validate_loopback_endpoint_def loopback_endpoint_def port_text_def scope_fullmatch_def
      lower_alnum_def scope_separator_def py_isspace_def unique_nonblank_def nonblank_def ascii_digit_def less_eq_char_def
      digit_value_def Let_def)

lemma sample_preconditions: "recovery_preconditions sample_env sample_policy ''who'' ''t'' = Inr sample_descriptor"
  by (simp add: recovery_preconditions_def sample_env_def sample_descriptor_def sample_policy_def check_adapter_descriptor_def
      adapter_admissible_def attribution_match_def identity_match_def attribution_char_def ref_char_def ascii_digit_def
      protocol_version_match_def Let_def less_eq_char_def py_isspace_def)

definition sample_recovery_claim :: recovery_claim where
  "sample_recovery_claim = \<lparr>rk_policy_id = ''p'', rk_owner_id = ''recovery-owner-2'', rk_generation = 1,
     rk_recovery_id = ''runtime-recovery-1'', rk_expires_at = 60, rk_stale_owner_recovered = False\<rparr>"

definition owned_sample :: recovery_db where
  "owned_sample = fst (take_recovery_lease 0 sample_policy ''recovery-owner-2'' ''runtime-recovery-1'' 60 recovery_sample)"

lemma sample_acquire:
  "try_acquire_recovery 0 ''p'' ''recovery-owner-2'' ''runtime-recovery-1'' 60 recovery_sample =
     Inr (owned_sample, Some sample_recovery_claim)"
  by (simp add: try_acquire_recovery_def fetch_def attribution_match_def identity_match_def attribution_char_def ref_char_def
      ascii_digit_def less_eq_char_def owned_sample_def take_recovery_lease_def sample_recovery_claim_def Let_def
      recovery_sample_def sample_policy_def row_simps next_recovery_lease_def recovery_lease_stale_def)

lemma sample_lease: "recovery_lease_of owned_sample k =
    (if k = ''p'' then Some (next_recovery_lease 0 ''p'' ''recovery-owner-2'' ''runtime-recovery-1'' 60 recovery_sample) else None)"
  unfolding owned_sample_def take_recovery_lease_leases by (simp add: sample_policy_def recovery_sample_def)

lemma owned_sample_tables [simp]:
  "rv_attempts owned_sample = []" "nodes (rv_db owned_sample) = [sample_node_row]"
  "rv_policies owned_sample = rv_policies recovery_sample"
  "recovery_lease_of recovery_sample k = None"
  by (simp_all add: owned_sample_def take_recovery_lease_def Let_def recovery_sample_def recovery_lease_stale_def)

lemma sample_current: "micros t < 60000000 \<Longrightarrow> rv_leases rv = rv_leases owned_sample \<Longrightarrow> recovery_current t sample_recovery_claim rv"
  using sample_lease [of "''p''"]
  by (simp add: recovery_current_def sample_recovery_claim_def holds_recovery_def expires_def micros_def)

lemma sample_recovery:
  "\<exists>w' r. recover_if_needed sample_env ''1'' ''2'' ''p'' ''who'' ''t'' None recovery_start = Some (w', Inr r)"
proof -
  have cur: "fenced op sample_recovery_claim 0 rv = op 0 rv" if "rv_leases rv = rv_leases owned_sample" for op rv
    using sample_current [of 0 rv] that by (simp add: fenced_def assert_recovery_owned_def micros_def)
  have own: "assert_recovery_owned 0 sample_recovery_claim owned_sample = Inr ()"
    using sample_current [of 0 owned_sample] by (simp add: assert_recovery_owned_def micros_def)
  have ready: "ready_for (sample_observation True) sample_policy" "check_health_observation (sample_observation True) = Inr ()"
    by (simp_all add: ready_for_def sample_observation_def sample_policy_def check_health_observation_def attribution_match_def
        identity_match_def unique_nonblank_def less_eq_char_def py_isspace_def)
  have ids: "rp_id sample_policy = ''p''" "rp_lease_ttl_seconds sample_policy = 60" "rp_node_id sample_policy = ''n''"
    by (simp_all add: sample_policy_def)
  have ins: "insert_attempt (new_attempt 0 sample_policy sample_recovery_claim AT_OBSERVED_HEALTHY ''t'' ''who'' (sample_observation True) True)
      owned_sample = Inr (owned_sample\<lparr>rv_attempts := [new_attempt 0 sample_policy sample_recovery_claim AT_OBSERVED_HEALTHY ''t'' ''who''
        (sample_observation True) True]\<rparr>, ())"
    by (simp add: insert_attempt_def new_attempt_def recovery_sample_def row_simps ids sample_node_row_def
        attempt_checks_def attempt_final_def)
  have env: "rx_observe sample_env p w = (w, Inr (sample_observation True))" "rx_others sample_env = (\<lambda>w. w)" for p w
    by (simp_all add: sample_env_def)
  have acq: "try_acquire_recovery 0 ''p'' (''recovery-owner-'' @ ''2'') (''runtime-recovery-'' @ ''1'') 60 recovery_sample =
     Inr (owned_sample, Some sample_recovery_claim)" using sample_acquire by simp
  show ?thesis
    unfolding recover_if_needed_def recover_claimed_def commit_def elapse_def env recovery_start_def
    by (simp add: andthen_def await_def reading_def sample_policy_ok lift_def sample_preconditions transact_def ids truthy_def
        sample_acquire release_after_def observe_def checked_def catch_def env ret_def ready assert_owned_def commit_def
        elapse_def own create_attempt_def cur ins append_recovery_event_def release_recovery_def)
qed

theorem recovery_outcome_sound_witness:
  "\<exists>w' r. recover_if_needed sample_env ''1'' ''2'' ''p'' ''who'' ''t'' None recovery_start = Some (w', Inr r) \<and>
     attempt_final (oc_state r) \<and> 0 \<le> oc_attempt_count r \<and> oc_attempt_count r \<le> 1"
proof -
  obtain w' r where r: "recover_if_needed sample_env ''1'' ''2'' ''p'' ''who'' ''t'' None recovery_start = Some (w', Inr r)"
    using sample_recovery by blast
  have p: "get_policy (store (rx_others sample_env recovery_start)) ''p'' = Inr sample_policy"
    using sample_policy_ok by (simp add: sample_env_def recovery_start_def)
  have "rp_max_attempts sample_policy = 1" by (simp add: sample_policy_def)
  with recovery_outcome_sound [OF r p] r show ?thesis by auto
qed

theorem recovery_adapter_contract_witness:
  "recover_if_needed (with_adapter sample_env (\<lambda>req w. (w, Inl ZeroDivisionError))) ''1'' ''2'' ''p'' ''who'' ''t'' None recovery_start =
     recover_if_needed sample_env ''1'' ''2'' ''p'' ''who'' ''t'' None recovery_start"
proof (rule recovery_adapter_contract)
  show "get_policy (store (rx_others sample_env recovery_start)) ''p'' = Inr sample_policy"
    using sample_policy_ok by (simp add: sample_env_def recovery_start_def)
  show "(w, Inl ZeroDivisionError) = rx_recover sample_env req w" if "legal_request sample_env sample_policy req" for req w
    using that by (simp add: legal_request_def authorized_request_def sample_env_def)
qed

text \<open>The attempt of a recovery that has started under the sample claim.\<close>

definition attempted_sample :: recovery_db where
  "attempted_sample = owned_sample\<lparr>rv_attempts := [new_attempt 5 sample_policy sample_recovery_claim AT_DEGRADED ''t'' ''who''
     (sample_observation False) False]\<rparr>"

theorem recovery_attempts_fenced_witness:
  "timed_run recovery_step 0 recovery_sample 5 attempted_sample \<and> length (rv_attempts attempted_sample) = 1 \<and>
     (\<exists>l. recovery_lease_of attempted_sample ''p'' = Some l \<and> rl_active_recovery_id l = Some ''runtime-recovery-1'')"
proof -
  let ?a = "new_attempt 5 sample_policy sample_recovery_claim AT_DEGRADED ''t'' ''who'' (sample_observation False) False"
  have "recovery_step 0 recovery_sample owned_sample"
    by (rule rs_acquire [OF sample_acquire]) (simp add: recovery_id_fresh_def recovery_sample_def)
  then have one: "timed_run recovery_step 0 recovery_sample 5 owned_sample"
    by (rule run_step [OF run_wait [OF order_refl]]) simp
  have cur: "recovery_current 5 sample_recovery_claim owned_sample" by (rule sample_current) (simp_all add: micros_def)
  have issued: "claim_issued sample_recovery_claim owned_sample"
    by (simp add: claim_issued_def sample_lease sample_recovery_claim_def)
  have "create_attempt sample_policy sample_recovery_claim AT_DEGRADED ''t'' ''who'' (sample_observation False) False 5 owned_sample =
      Inr (attempted_sample, ())"
    using cur by (simp add: create_attempt_def fenced_def assert_recovery_owned_def insert_attempt_def new_attempt_def attempted_sample_def
        recovery_sample_def row_simps sample_policy_def sample_node_row_def attempt_checks_def attempt_final_def)
  from rs_create [OF this _ issued] have "recovery_step 5 owned_sample attempted_sample"
    by (simp add: sample_policy_def sample_recovery_claim_def)
  from run_step [OF one this] have run: "timed_run recovery_step 0 recovery_sample 5 attempted_sample" by simp
  have inv: "recovery_inv recovery_sample"
    by (simp add: recovery_inv_def recovery_sample_def unique_key_def active_ids_unique_def)
  have a: "?a \<in> set (rv_attempts attempted_sample)" "ra_finished_at ?a = None" "ra_policy_id ?a = ''p''"
    "ra_id ?a = ''runtime-recovery-1''" "length (rv_attempts attempted_sample) = 1"
    by (simp_all add: attempted_sample_def new_attempt_def sample_policy_def sample_recovery_claim_def)
  show ?thesis using recovery_attempts_fenced [OF run inv a(1,2), of ?a] run a(5) unfolding a(3,4) by blast
qed

theorem recovery_lease_lost_forever_witness:
  "\<exists>rv. release_recovery 5 sample_recovery_claim False None owned_sample = Inr (rv, True) \<and>
     mark_ready sample_policy sample_recovery_claim 9 rv = Inl (RecoveryLeaseLost (recovery_lost_message sample_recovery_claim))"
proof -
  obtain rv where rv: "release_recovery 5 sample_recovery_claim False None owned_sample = Inr (rv, True)"
    and lease: "\<And>k. recovery_lease_of rv k = map_option (\<lambda>l. if rl_policy_id l = ''p'' then l\<lparr>rl_state := GL_RELEASED,
       rl_heartbeat_at := micros 5, rl_expires_at := micros 5, rl_released_at := Some (micros 5),
       rl_recovery_state := GR_COMPLETE, rl_last_error := None\<rparr> else l) (recovery_lease_of owned_sample k)"
    by (auto simp: release_recovery_def sample_lease sample_recovery_claim_def holds_recovery_def row_by_upd_by clip_opt_def
        truthy_def)
  obtain l where l: "recovery_lease_of rv (rk_policy_id sample_recovery_claim) = Some l" "rl_generation l = 1" "rl_state l = GL_RELEASED"
    by (simp add: lease sample_lease sample_recovery_claim_def)
  have lost: "\<not> recovery_current 5 sample_recovery_claim rv" "rk_generation sample_recovery_claim \<le> rl_generation l"
    using l by (simp_all add: recovery_current_def holds_recovery_def sample_recovery_claim_def)
  have "timed_run recovery_step 5 rv 9 rv" by (rule run_wait) simp
  from recovery_lease_lost_forever [OF this l(1) lost(2,1)] rv show ?thesis by blast
qed

end
