(* ===== verification/Node_Monitor.thy ===== *)
theory Node_Monitor
  imports Recovery_Safety
begin

text \<open>
  The recovery monitor, \<^verbatim>\<open>src/project_supervisor/node_recovery_host.py\<close>: monitor identities, checkpoints with
  their back-off, and the rounds that run the recovery service on the policies that are due. The
  policies of a round run as concurrent tasks; the model runs them in order, with what the others
  do among the steps of others, as are the heartbeats sent while a round waits for its tasks.
\<close>

section \<open>Configuration\<close>

record monitor_config =
  mc_discovery_poll_seconds :: rat
  mc_host_heartbeat_seconds :: rat
  mc_host_stale_after_seconds :: rat
  mc_max_concurrent_policies :: int

definition check_monitor_config :: "monitor_config \<Rightarrow> unit result" where
  "check_monitor_config c =
     bindR (raise_if (\<not> (1/20 \<le> mc_discovery_poll_seconds c \<and> mc_discovery_poll_seconds c \<le> 60))
       (ValueError ''discovery_poll_seconds must be between 0.05 and 60'')) (\<lambda>_.
     bindR (raise_if (\<not> (1/20 \<le> mc_host_heartbeat_seconds c \<and> mc_host_heartbeat_seconds c \<le> 60))
       (ValueError ''host_heartbeat_seconds must be between 0.05 and 60'')) (\<lambda>_.
     bindR (raise_if (\<not> (1/10 \<le> mc_host_stale_after_seconds c \<and> mc_host_stale_after_seconds c \<le> 300))
       (ValueError ''host_stale_after_seconds must be between 0.1 and 300'')) (\<lambda>_.
     bindR (raise_if (mc_host_stale_after_seconds c \<le> mc_host_heartbeat_seconds c)
       (ValueError ''host_stale_after_seconds must exceed host_heartbeat_seconds'')) (\<lambda>_.
     raise_if (\<not> (1 \<le> mc_max_concurrent_policies c \<and> mc_max_concurrent_policies c \<le> 32))
       (ValueError ''max_concurrent_policies must be between 1 and 32'')))))"

section \<open>Monitor identities\<close>

definition get_monitor :: "recovery_db \<Rightarrow> string \<Rightarrow> monitor_row result" where
  "get_monitor rv mid = fetch rm_monitor_id mid (rv_monitors rv) (KeyError mid)"

definition monitor_active :: "monitor_row \<Rightarrow> bool" where
  "monitor_active m \<longleftrightarrow> rm_state m \<in> {MON_STARTING, MON_RUNNING, MON_STOPPING}"

definition monitor_event :: "string \<Rightarrow> event_severity \<Rightarrow> string \<Rightarrow> string \<Rightarrow> (string \<times> json) list \<Rightarrow> event" where
  "monitor_event kind severity mid summary payload =
     mk_event kind severity ''nodeRuntimeRecoveryMonitor'' mid None None None None summary payload
       (''node-recovery-monitor:'' @ mid)"

text \<open>A new identity starts its counters at zero; one that is registered again keeps them.\<close>

definition registered_monitor :: "rat \<Rightarrow> string \<Rightarrow> int \<Rightarrow> (string \<times> json) list \<Rightarrow> monitor_row option \<Rightarrow> monitor_row" where
  "registered_monitor now mid pid metadata old =
     \<lparr>rm_monitor_id = mid, rm_process_id = pid, rm_state = MON_STARTING, rm_started_at = micros now,
      rm_heartbeat_at = micros now, rm_stopped_at = None, rm_active_policy_count = 0,
      rm_observation_count = (case old of None \<Rightarrow> 0 | Some m \<Rightarrow> rm_observation_count m),
      rm_recovery_count = (case old of None \<Rightarrow> 0 | Some m \<Rightarrow> rm_recovery_count m),
      rm_stale_takeover_count = (case old of None \<Rightarrow> 0 | Some m \<Rightarrow> rm_stale_takeover_count m),
      rm_last_error = None, rm_metadata = redact_dict metadata\<rparr>"

definition register_monitor ::
    "rat \<Rightarrow> string \<Rightarrow> int \<Rightarrow> rat \<Rightarrow> (string \<times> json) list \<Rightarrow> recovery_db \<Rightarrow> (recovery_db \<times> monitor_row) result" where
  "register_monitor now mid pid stale_after metadata rv =
     bindR (raise_if (\<not> monitor_id_match mid \<or> pid \<le> 0)
       (ValueError ''monitor_id and a positive process_id are required'')) (\<lambda>_.
     let old = row_by rm_monitor_id mid (rv_monitors rv);
         stale_before = micros (now - stale_after);
         recovered = (case old of None \<Rightarrow> False | Some m \<Rightarrow> monitor_active m \<and> rm_heartbeat_at m \<le> stale_before);
         new = registered_monitor now mid pid metadata old
     in bindR (raise_if (case old of None \<Rightarrow> False | Some m \<Rightarrow> monitor_active m \<and> stale_before < rm_heartbeat_at m)
          (RecoveryMonitorIdentityInUse (''runtime recovery monitor identity '' @ mid @ '' has a live heartbeat''))) (\<lambda>_.
        let rv = journal now (monitor_event
              (if recovered then ''runtimeRecoveryMonitorRecovered'' else ''runtimeRecoveryMonitorStarted'')
              (if recovered then SEV_WARNING else SEV_NOTICE) mid
              (if recovered then ''Stale runtime recovery monitor identity recovered''
               else ''Runtime recovery monitor registered'') [(''processID'', JInt pid)])
              (rv\<lparr>rv_monitors := upsert_by rm_monitor_id new (\<lambda>_. new) (rv_monitors rv)\<rparr>)
        in bindR (get_monitor rv mid) (\<lambda>m. Inr (rv, m))))"

definition heartbeat_monitor ::
    "rat \<Rightarrow> string \<Rightarrow> int \<Rightarrow> int \<Rightarrow> int \<Rightarrow> int \<Rightarrow> monitor_state \<Rightarrow> string option \<Rightarrow> recovery_db \<Rightarrow> (recovery_db \<times> bool) result" where
  "heartbeat_monitor now mid active observations recoveries takeovers st last_error rv =
     bindR (raise_if (active < 0 \<or> observations < 0 \<or> recoveries < 0 \<or> takeovers < 0)
       (ValueError ''monitor counts cannot be negative'')) (\<lambda>_.
     Inr (rv\<lparr>rv_monitors := upd_by rm_monitor_id mid (\<lambda>m. m\<lparr>rm_state := st, rm_heartbeat_at := micros now,
         rm_active_policy_count := active, rm_observation_count := rm_observation_count m + observations,
         rm_recovery_count := rm_recovery_count m + recoveries,
         rm_stale_takeover_count := rm_stale_takeover_count m + takeovers,
         rm_last_error := coalesce (clip_opt last_error) (rm_last_error m)\<rparr>) (rv_monitors rv)\<rparr>,
       row_by rm_monitor_id mid (rv_monitors rv) \<noteq> None))"

definition stop_monitor :: "rat \<Rightarrow> string \<Rightarrow> bool \<Rightarrow> string option \<Rightarrow> recovery_db \<Rightarrow> (recovery_db \<times> unit) result" where
  "stop_monitor now mid failed last_error rv =
     (let st = (if failed then MON_FAILED else MON_STOPPED) in
      Inr (journal now (monitor_event ''runtimeRecoveryMonitorStopped'' (if failed then SEV_ERROR else SEV_NOTICE) mid
          ''Runtime recovery monitor stopped''
          [(''state'', JStr (monitor_state_value st)), (''error'', json_opt JStr (redact_opt last_error))])
        (rv\<lparr>rv_monitors := upd_by rm_monitor_id mid (\<lambda>m. m\<lparr>rm_state := st, rm_heartbeat_at := micros now,
           rm_stopped_at := Some (micros now), rm_active_policy_count := 0,
           rm_last_error := coalesce (clip_opt last_error) (rm_last_error m)\<rparr>) (rv_monitors rv)\<rparr>), ()))"

section \<open>Due policies and checkpoints\<close>

definition policy_due :: "int \<Rightarrow> recovery_db \<Rightarrow> policy_row \<Rightarrow> bool" where
  "policy_due now rv r \<longleftrightarrow>
     (let pid = rp_id (pw_policy r) in rp_enabled (pw_policy r) \<and>
      (case row_by ck_policy_id pid (rv_checkpoints rv) of None \<Rightarrow> True | Some c \<Rightarrow> ck_next_observation_at c \<le> now) \<and>
      (case recovery_lease_of rv pid of None \<Rightarrow> True | Some l \<Rightarrow> rl_state l \<noteq> GL_OWNED \<or> rl_expires_at l \<le> now))"

definition due_order :: "recovery_db \<Rightarrow> policy_row \<Rightarrow> (int \<times> int) \<times> string" where
  "due_order rv r =
     (case row_by ck_policy_id (rp_id (pw_policy r)) (rv_checkpoints rv) of
        None \<Rightarrow> (iso_key (Seconds (pw_created_at r)), rp_id (pw_policy r))
      | Some c \<Rightarrow> (iso_key (Micros (ck_next_observation_at c)), rp_id (pw_policy r)))"

definition due_policy_ids :: "rat \<Rightarrow> recovery_db \<Rightarrow> int \<Rightarrow> string list" where
  "due_policy_ids now rv limit =
     (if limit < 1 then []
      else map (\<lambda>r. rp_id (pw_policy r)) (take (nat limit)
        (sort_key (due_order rv) (filter (policy_due (micros now) rv) (rv_policies rv)))))"

text \<open>The delay to the next observation.\<close>

definition observation_delay :: "recovery_policy \<Rightarrow> int \<Rightarrow> rat" where
  "observation_delay p n =
     (if n = 0 then rp_monitor_interval_seconds p
      else min 86400 (rp_failure_backoff_seconds p * 2 ^ nat (min (n - 1) 8)))"

definition healthy_state :: "string \<Rightarrow> bool" where
  "healthy_state st \<longleftrightarrow> st \<in> {attempt_state_value AT_OBSERVED_HEALTHY, attempt_state_value AT_READY}"

definition next_checkpoint ::
    "rat \<Rightarrow> string \<Rightarrow> recovery_policy \<Rightarrow> string \<Rightarrow> string option \<Rightarrow> string option \<Rightarrow> checkpoint_row option \<Rightarrow> checkpoint_row" where
  "next_checkpoint now mid p st rid error current =
     (let prior = (case current of None \<Rightarrow> 0 | Some c \<Rightarrow> ck_consecutive_failures c);
          fails = (if healthy_state st then 0 else prior + 1)
      in \<lparr>ck_policy_id = rp_id p, ck_monitor_id = Some mid, ck_last_recovery_id = rid, ck_last_state = Some st,
          ck_consecutive_failures = fails, ck_last_observed_at = Some (micros now),
          ck_next_observation_at = micros (now + observation_delay p fails), ck_last_error = clip_opt error,
          ck_updated_at = micros now\<rparr>)"

definition checkpoint_event :: "string \<Rightarrow> checkpoint_row \<Rightarrow> string \<Rightarrow> event" where
  "checkpoint_event mid c st =
     mk_event ''runtimeRecoveryMonitorStateChanged'' (if healthy_state st then SEV_INFO else SEV_WARNING)
       ''nodeRuntimeRecoveryPolicy'' (ck_policy_id c) None None None None ''Runtime recovery monitor state changed''
       [(''monitorID'', JStr mid), (''state'', JStr st), (''consecutiveFailures'', JInt (ck_consecutive_failures c)),
        (''nextObservationAt'', JMicros (ck_next_observation_at c)), (''error'', json_opt JStr (ck_last_error c))]
       (''node-recovery-monitor:'' @ mid)"

definition record_checkpoint ::
    "rat \<Rightarrow> string \<Rightarrow> recovery_policy \<Rightarrow> string \<Rightarrow> string option \<Rightarrow> string option \<Rightarrow> recovery_db \<Rightarrow> (recovery_db \<times> unit) result" where
  "record_checkpoint now mid p st rid error rv =
     (let current = row_by ck_policy_id (rp_id p) (rv_checkpoints rv);
          new = next_checkpoint now mid p st rid error current;
          rv' = rv\<lparr>rv_checkpoints := upsert_by ck_policy_id new (\<lambda>_. new) (rv_checkpoints rv)\<rparr>
      in bindR (raise_if (row_by (\<lambda>r. rp_id (pw_policy r)) (rp_id p) (rv_policies rv) = None \<or>
             row_by rm_monitor_id mid (rv_monitors rv) = None)
           (IntegrityError ''node_runtime_recovery_checkpoints'')) (\<lambda>_.
         Inr (if current = None \<or> ck_last_state (the current) \<noteq> Some st
              then journal now (checkpoint_event mid new st) rv' else rv', ())))"

definition get_checkpoint :: "recovery_db \<Rightarrow> string \<Rightarrow> checkpoint_row option" where
  "get_checkpoint rv pid = row_by ck_policy_id pid (rv_checkpoints rv)"

section \<open>The monitor\<close>

text \<open>
  \<open>mo_binding\<close> is the binding provider; the environment it returns is the probe, adapter and
  authorizer of a policy. \<open>mo_uuids\<close> gives the random parts of the identifiers of a recovery.
\<close>

record monitor =
  mo_config :: monitor_config
  mo_monitor_id :: string
  mo_process_id :: int
  mo_registered :: bool
  mo_binding :: "recovery_policy \<Rightarrow> recovery_world \<Rightarrow> recovery_world \<times> recovery_env option result"
  mo_uuids :: "recovery_world \<Rightarrow> string \<times> string"
  mo_error_text :: "py_error \<Rightarrow> string"
  mo_others :: "recovery_world \<Rightarrow> recovery_world"

definition monitor_commit :: "monitor \<Rightarrow> (rat \<Rightarrow> recovery_db \<Rightarrow> (recovery_db \<times> 'a) result) \<Rightarrow> 'a recovery" where
  "monitor_commit M op = andthen (await (\<lambda>w. (mo_others M w, Inr ()))) (\<lambda>_. transact op)"

definition beat :: "monitor \<Rightarrow> int \<Rightarrow> int \<Rightarrow> int \<Rightarrow> int \<Rightarrow> bool recovery" where
  "beat M active observations recoveries takeovers =
     monitor_commit M (\<lambda>now. heartbeat_monitor now (mo_monitor_id M) active observations recoveries takeovers
       MON_RUNNING None)"

definition ensure_monitor_registered :: "monitor \<Rightarrow> monitor recovery" where
  "ensure_monitor_registered M =
     (if mo_registered M then ret M
      else
        andthen (monitor_commit M (\<lambda>now. register_monitor now (mo_monitor_id M) (mo_process_id M)
          (mc_host_stale_after_seconds (mo_config M))
          [(''maxConcurrentPolicies'', JInt (mc_max_concurrent_policies (mo_config M)))])) (\<lambda>_.
        andthen (beat M 0 0 0 0) (\<lambda>_. ret (M\<lparr>mo_registered := True\<rparr>))))"

definition checkpoint :: "monitor \<Rightarrow> recovery_policy \<Rightarrow> string \<Rightarrow> string option \<Rightarrow> string option \<Rightarrow> unit recovery" where
  "checkpoint M p st rid error =
     monitor_commit M (\<lambda>now. record_checkpoint now (mo_monitor_id M) p st rid error)"

definition binding_missing :: string where
  "binding_missing = ''no reviewed runtime recovery binding is configured for this policy''"

definition run_recovery :: "monitor \<Rightarrow> recovery_policy \<Rightarrow> recovery_env \<Rightarrow> (string \<times> json) list recovery" where
  "run_recovery M p E w =
     (let (rid, oid) = mo_uuids M w; who = ''monitor:'' @ mo_monitor_id M in
      andthen (recover_if_needed E rid oid (rp_id p) who ''bounded periodic runtime health observation'' (Some who)) (\<lambda>r.
      andthen (checkpoint M p (attempt_state_value (oc_state r)) (Some (oc_id r)) (oc_failure_detail r)) (\<lambda>_.
      ret (outcome_to_protocol r))) w)"

definition observe_policy :: "monitor \<Rightarrow> recovery_policy \<Rightarrow> (string \<times> json) list recovery" where
  "observe_policy M p =
     andthen (await (mo_binding M p)) (\<lambda>binding. case binding of
       None \<Rightarrow>
         andthen (checkpoint M p ''bindingUnavailable'' None (Some binding_missing)) (\<lambda>_.
         ret [(''policyID'', JStr (rp_id p)), (''state'', JStr ''bindingUnavailable''), (''error'', JStr binding_missing)])
     | Some E \<Rightarrow> run_recovery M p E)"

definition monitor_handler :: "monitor \<Rightarrow> recovery_policy \<Rightarrow> py_error \<Rightarrow> (string \<times> json) list recovery" where
  "monitor_handler M p e =
     (case e of
        RecoveryLeaseUnavailable _ \<Rightarrow>
          ret [(''policyID'', JStr (rp_id p)), (''state'', JStr ''leased''), (''skipped'', JBool True)]
      | _ \<Rightarrow>
          andthen (checkpoint M p ''monitorError'' None (Some (clip (mo_error_text M e)))) (\<lambda>_.
          ret [(''policyID'', JStr (rp_id p)), (''state'', JStr ''monitorError''),
               (''error'', JStr (clip (mo_error_text M e)))]))"

definition run_policy :: "monitor \<Rightarrow> string \<Rightarrow> (string \<times> json) list recovery" where
  "run_policy M pid =
     andthen (await (\<lambda>w. (mo_others M w, Inr ()))) (\<lambda>_.
     andthen (reading (\<lambda>rv. get_policy rv pid)) (\<lambda>p.
     catch (observe_policy M p) (monitor_handler M p)))"

fun run_policies :: "monitor \<Rightarrow> string list \<Rightarrow> (string \<times> json) list list recovery" where
  "run_policies M [] = ret []"
| "run_policies M (pid # pids) =
     andthen (run_policy M pid) (\<lambda>r. andthen (run_policies M pids) (\<lambda>rs. ret (r # rs)))"

definition recoveries_of :: "(string \<times> json) list list \<Rightarrow> int" where
  "recoveries_of rs = int (length (filter (\<lambda>r. map_of r ''state'' = Some (JStr (attempt_state_value AT_READY))) rs))"

definition takeovers_of :: "(string \<times> json) list list \<Rightarrow> int" where
  "takeovers_of rs = int (length (filter (\<lambda>r. map_of r ''staleOwnerRecovered'' = Some (JBool True)) rs))"

definition monitor_run_once :: "monitor \<Rightarrow> (monitor \<times> (string \<times> json) list list) recovery" where
  "monitor_run_once M =
     andthen (ensure_monitor_registered M) (\<lambda>M.
     andthen (await (\<lambda>w. (mo_others M w, Inr ()))) (\<lambda>_ w.
     (let pids = due_policy_ids (clock w) (store w) (mc_max_concurrent_policies (mo_config M)) in
      if pids = [] then andthen (beat M 0 0 0 0) (\<lambda>_. ret (M, [])) w
      else
        andthen (beat M (int (length pids)) 0 0 0) (\<lambda>_.
        andthen (run_policies M pids) (\<lambda>rs.
        andthen (beat M 0 (int (length rs)) (recoveries_of rs) (takeovers_of rs)) (\<lambda>_. ret (M, rs)))) w)))"

text \<open>\<^verbatim>\<open>serve\<close>, for a shutdown that is requested after some rounds; between rounds time passes.\<close>

fun monitor_rounds :: "nat \<Rightarrow> monitor \<Rightarrow> unit recovery" where
  "monitor_rounds 0 M = ret ()"
| "monitor_rounds (Suc n) M =
     andthen (monitor_run_once M) (\<lambda>(M, _).
     andthen (await (\<lambda>w. (mo_others M w, Inr ()))) (\<lambda>_. monitor_rounds n M))"

definition monitor_serve :: "nat \<Rightarrow> monitor \<Rightarrow> unit recovery" where
  "monitor_serve n M =
     andthen (ensure_monitor_registered M) (\<lambda>M w.
     case monitor_rounds n M w of
       None \<Rightarrow> None
     | Some (w', Inl e) \<Rightarrow>
         andthen (monitor_commit M (\<lambda>now. stop_monitor now (mo_monitor_id M) True
           (Some (redact_string (mo_error_text M e))))) (\<lambda>_. raise e) w'
     | Some (w', Inr _) \<Rightarrow> monitor_commit M (\<lambda>now. stop_monitor now (mo_monitor_id M) False None) w')"

section \<open>Back-off\<close>

lemma observation_delay_bounds:
  assumes "check_recovery_policy p = Inr ()" and "0 \<le> n"
  shows "5 \<le> observation_delay p n" and "observation_delay p n \<le> 86400"
proof -
  have p: "5 \<le> rp_monitor_interval_seconds p" "rp_monitor_interval_seconds p \<le> 3600" "5 \<le> rp_failure_backoff_seconds p"
    using assms(1) by (auto simp: check_recovery_policy_def)
  have "(1::rat) \<le> 2 ^ nat (min (n - 1) 8)" by simp
  then have "5 \<le> rp_failure_backoff_seconds p * 2 ^ nat (min (n - 1) 8)"
    using p(3) mult_mono [of 5 "rp_failure_backoff_seconds p" 1 "2 ^ nat (min (n - 1) 8)"] by simp
  then show "5 \<le> observation_delay p n" "observation_delay p n \<le> 86400"
    using p by (simp_all add: observation_delay_def)
qed

lemma observation_delay_step:
  assumes "1 \<le> n" and "0 \<le> rp_failure_backoff_seconds p"
  shows "observation_delay p (n + 1) = (if n \<le> 8 then min 86400 (2 * observation_delay p n) else observation_delay p n)"
proof (cases "n \<le> 8")
  case True
  have "nat (min n 8) = Suc (nat (min (n - 1) 8))" using True assms(1) by auto
  then show ?thesis using True assms(1) by (simp add: observation_delay_def min_def)
next
  case False
  then have "min (n - 1) 8 = 8" "min n 8 = 8" by simp_all
  then show ?thesis using False assms(1) by (simp add: observation_delay_def)
qed

lemma record_checkpoint_row:
  assumes "record_checkpoint now mid p st rid err rv = Inr (rv', u)"
  shows "row_by ck_policy_id k (rv_checkpoints rv') =
      (if k = rp_id p then Some (next_checkpoint now mid p st rid err (row_by ck_policy_id (rp_id p) (rv_checkpoints rv)))
       else row_by ck_policy_id k (rv_checkpoints rv)) \<and>
    rv_policies rv' = rv_policies rv \<and> rv_monitors rv' = rv_monitors rv \<and> rv_leases rv' = rv_leases rv"
proof -
  let ?new = "next_checkpoint now mid p st rid err (row_by ck_policy_id (rp_id p) (rv_checkpoints rv))"
  have new: "ck_policy_id ?new = rp_id p" by (simp add: next_checkpoint_def Let_def)
  have rows: "rv_checkpoints rv' = upsert_by ck_policy_id ?new (\<lambda>_. ?new) (rv_checkpoints rv)" "rv_policies rv' = rv_policies rv"
    "rv_monitors rv' = rv_monitors rv" "rv_leases rv' = rv_leases rv"
    using assms by (auto simp: record_checkpoint_def Let_def split: if_split_asm)
  show ?thesis unfolding rows using new by (simp add: row_by_upsert_by split: option.split)
qed

text \<open>
  C1. The back-off of the monitor. A checkpoint counts the consecutive failures, zero after a healthy
  observation. The next observation is at least five seconds and at most a day away, the delay
  doubles with every further failure up to the ninth and never exceeds a day, and until that time
  has come no round takes the policy up.
\<close>

theorem monitor_backoff:
  assumes "record_checkpoint now mid p st rid err rv = Inr (rv', u)" and "check_recovery_policy p = Inr ()"
    and "row_by ck_policy_id (rp_id p) (rv_checkpoints rv) = Some old" and "0 \<le> ck_consecutive_failures old"
  shows "\<exists>new. row_by ck_policy_id (rp_id p) (rv_checkpoints rv') = Some new \<and>
    ck_consecutive_failures new = (if healthy_state st then 0 else ck_consecutive_failures old + 1) \<and>
    ck_next_observation_at new = micros (now + observation_delay p (ck_consecutive_failures new)) \<and>
    5 \<le> observation_delay p (ck_consecutive_failures new) \<and> observation_delay p (ck_consecutive_failures new) \<le> 86400 \<and>
    (2 \<le> ck_consecutive_failures new \<longrightarrow>
      observation_delay p (ck_consecutive_failures new) =
        (if ck_consecutive_failures new \<le> 9 then min 86400 (2 * observation_delay p (ck_consecutive_failures new - 1))
         else observation_delay p (ck_consecutive_failures new - 1))) \<and>
    (rp_id p \<in> set (due_policy_ids later rv' limit) \<longrightarrow> ck_next_observation_at new \<le> micros later)"
proof -
  let ?new = "next_checkpoint now mid p st rid err (Some old)"
  have new: "row_by ck_policy_id (rp_id p) (rv_checkpoints rv') = Some ?new"
    using record_checkpoint_row [OF assms(1)] assms(3) by simp
  have n: "ck_consecutive_failures ?new = (if healthy_state st then 0 else ck_consecutive_failures old + 1)"
    "ck_next_observation_at ?new = micros (now + observation_delay p (ck_consecutive_failures ?new))"
    by (simp_all add: next_checkpoint_def Let_def)
  then have pos: "0 \<le> ck_consecutive_failures ?new" using assms(4) by simp
  have nonneg: "0 \<le> rp_failure_backoff_seconds p" using assms(2) by (auto simp: check_recovery_policy_def)
  have due: "ck_next_observation_at ?new \<le> micros later" if taken: "rp_id p \<in> set (due_policy_ids later rv' limit)"
  proof -
    obtain r where "policy_due (micros later) rv' r" "rp_id (pw_policy r) = rp_id p"
      using taken by (auto simp: due_policy_ids_def split: if_split_asm dest!: in_set_takeD)
    then show ?thesis using new by (simp add: policy_due_def Let_def)
  qed
  have double: "observation_delay p (ck_consecutive_failures ?new) =
      (if ck_consecutive_failures ?new \<le> 9 then min 86400 (2 * observation_delay p (ck_consecutive_failures ?new - 1))
       else observation_delay p (ck_consecutive_failures ?new - 1))" if "2 \<le> ck_consecutive_failures ?new"
    using observation_delay_step [of "ck_consecutive_failures ?new - 1" p] that nonneg by simp
  show ?thesis
    using new n pos due double observation_delay_bounds [OF assms(2) pos] by (intro exI [of _ ?new]) blast
qed

section \<open>The monitor survives its policies\<close>

text \<open>
  What every operation, and everyone else, keeps: rows of policies and monitors are never deleted,
  and a policy that is stored is valid.
\<close>

definition policies_valid :: "recovery_db \<Rightarrow> bool" where
  "policies_valid rv \<longleftrightarrow> (\<forall>r \<in> set (rv_policies rv). check_recovery_policy (pw_policy r) = Inr ())"

definition rows_kept :: "recovery_world \<Rightarrow> recovery_world \<Rightarrow> bool" where
  "rows_kept w w' \<longleftrightarrow>
     (policies_valid (store w) \<longrightarrow> policies_valid (store w')) \<and>
     (\<forall>pid. row_by (\<lambda>r. rp_id (pw_policy r)) pid (rv_policies (store w)) \<noteq> None \<longrightarrow>
        row_by (\<lambda>r. rp_id (pw_policy r)) pid (rv_policies (store w')) \<noteq> None) \<and>
     (\<forall>mid. row_by rm_monitor_id mid (rv_monitors (store w)) \<noteq> None \<longrightarrow>
        row_by rm_monitor_id mid (rv_monitors (store w')) \<noteq> None)"

lemma rows_kept_refl [simp]: "rows_kept w w"
  by (simp add: rows_kept_def)

lemma rows_kept_trans [trans]: "rows_kept w w' \<Longrightarrow> rows_kept w' w'' \<Longrightarrow> rows_kept w w''"
  by (simp add: rows_kept_def)

lemma rows_kept_same:
  "rv_policies (store w') = rv_policies (store w) \<Longrightarrow> rv_monitors (store w') = rv_monitors (store w) \<Longrightarrow> rows_kept w w'"
  by (simp add: rows_kept_def policies_valid_def)

text \<open>Programs that return and keep the rows.\<close>

definition safe :: "'a recovery \<Rightarrow> bool" where
  "safe m \<longleftrightarrow> (\<forall>w. \<exists>w' r. m w = Some (w', r) \<and> rows_kept w w')"

lemma safeD: "safe m \<Longrightarrow> \<exists>w' r. m w = Some (w', r) \<and> rows_kept w w'"
  by (simp add: safe_def)

lemma safe_andthen [intro]:
  assumes "safe m" and "\<And>x. safe (f x)"
  shows "safe (andthen m f)"
  unfolding safe_def
proof
  fix w
  obtain w1 r where m: "m w = Some (w1, r)" "rows_kept w w1" using safeD [OF assms(1)] by blast
  show "\<exists>w' r. andthen m f w = Some (w', r) \<and> rows_kept w w'"
  proof (cases r)
    case (Inr x)
    then show ?thesis using m safeD [OF assms(2), of x w1] by (auto simp: andthen_def intro: rows_kept_trans)
  qed (use m in \<open>simp add: andthen_def\<close>)
qed

lemma safe_catch [intro]:
  assumes "safe m" and "\<And>e. safe (h e)"
  shows "safe (catch m h)"
  unfolding safe_def
proof
  fix w
  obtain w1 r where m: "m w = Some (w1, r)" "rows_kept w w1" using safeD [OF assms(1)] by blast
  show "\<exists>w' r. catch m h w = Some (w', r) \<and> rows_kept w w'"
  proof (cases r)
    case (Inl e)
    then show ?thesis using m safeD [OF assms(2), of e w1] by (auto simp: catch_def intro: rows_kept_trans)
  qed (use m in \<open>simp add: catch_def\<close>)
qed

lemma safe_basic [intro, simp]: "safe (ret x)" "safe (raise e)" "safe (lift r)" "safe (reading f)" "safe now_of"
  by (simp_all add: safe_def ret_def raise_def lift_def reading_def now_of_def)

lemma safe_await [intro]: "(\<And>w. rows_kept w (fst (f w))) \<Longrightarrow> safe (await f)"
  by (auto simp: safe_def await_def) (metis fst_conv surj_pair)

lemma safe_transact [intro]:
  assumes "\<And>now rv rv' x. op now rv = Inr (rv', x) \<Longrightarrow> rv_policies rv' = rv_policies rv \<and> rv_monitors rv' = rv_monitors rv"
  shows "safe (transact op)"
proof -
  have "rows_kept w (w\<lparr>store := rv'\<rparr>)" if "op (clock w) (store w) = Inr (rv', x)" for w rv' x
    using assms [OF that] by (intro rows_kept_same) simp_all
  then show ?thesis by (auto simp: safe_def transact_def split: sum.splits)
qed

lemma safe_checked [intro]: "safe m \<Longrightarrow> safe (checked chk m)"
  unfolding checked_def by (intro safe_andthen) auto

text \<open>An environment whose parts keep the rows.\<close>

definition env_safe :: "recovery_env \<Rightarrow> bool" where
  "env_safe E \<longleftrightarrow>
     (\<forall>w. rows_kept w (rx_others E w)) \<and> (\<forall>p w. rows_kept w (fst (rx_observe E p w))) \<and>
     (\<forall>r w. rows_kept w (fst (rx_recover E r w))) \<and>
     (\<forall>f c w. rx_authorizer E = Some f \<longrightarrow> rows_kept w (fst (f c w)))"

lemma fenced_keeps:
  assumes "fenced op c now rv = Inr (rv', x)"
    and "\<And>rv'. op now rv = Inr (rv', x) \<Longrightarrow> rv_policies rv' = rv_policies rv \<and> rv_monitors rv' = rv_monitors rv"
  shows "rv_policies rv' = rv_policies rv \<and> rv_monitors rv' = rv_monitors rv"
  using assms by (auto simp: fenced_def)

lemma safe_writes:
  "safe (transact (create_attempt p c st trigger who ob fin))" "safe (transact (update_attempt c u))"
  "safe (transact (append_recovery_event p c kind sev summary payload))" "safe (transact (mark_degraded p c))"
  "safe (transact (mark_ready p c))" "safe (transact (\<lambda>now. heartbeat_recovery now c ttl))"
  "safe (transact (\<lambda>now. release_recovery now c lost err))"
  "safe (transact (\<lambda>now rv. bindR (assert_recovery_owned now c rv) (\<lambda>_. Inr (rv, ()))))"
  by (rule safe_transact; auto simp: create_attempt_def update_attempt_def append_recovery_event_def mark_degraded_def
      mark_ready_def heartbeat_recovery_def release_recovery_def insert_attempt_def write_attempt_def Let_def fenced_def
      split: if_split_asm)+

lemma safe_acquire: "safe (transact (\<lambda>now. try_acquire_recovery now pid owner rid ttl))"
  by (rule safe_transact) (auto simp: try_acquire_recovery_def take_recovery_lease_def Let_def split: if_split_asm)

lemma safe_commit:
  assumes "env_safe E" and "safe (transact op)"
  shows "safe (commit E op)"
  using assms unfolding commit_def elapse_def env_safe_def by (intro safe_andthen safe_await) auto

lemma safe_service:
  assumes E: "env_safe E"
  shows "safe (observe E p)" "safe (assert_owned E c)"
    "safe (recovery_fail E p c ob st code detail kind n auth after)" "safe (authorize E ctx)"
    "safe (renew_or_lose E p c phase)" "safe (announce E p c n auth)" "safe (call_adapter E req)" "safe (elapse E)"
  using E
  by (auto simp: observe_def assert_owned_def recovery_fail_def authorize_def renew_or_lose_def announce_def call_adapter_def
      elapse_def env_safe_def split: option.split intro!: safe_commit [OF E] safe_writes safe_andthen safe_catch safe_checked
      safe_await)

lemma safe_settle [intro]: "safe m \<Longrightarrow> safe (settle m)"
  unfolding settle_def by (intro safe_andthen) auto

lemma safe_attempt:
  assumes E: "env_safe E"
  shows "safe (verify_attempt E p c ob n auth)" "safe (judge_result E p c ob n auth la res)"
    "safe (dispatch_attempt E p c d ob n auth la)" "safe (recovery_attempt E p c d who ob n la)"
proof -
  note s = safe_service [OF E] safe_commit [OF E] safe_writes
  show v: "safe (verify_attempt E p c ob n auth)" for n auth
    unfolding verify_attempt_def by (intro safe_andthen s) (auto intro!: s)
  show j: "safe (judge_result E p c ob n auth la res)" for n auth res
    unfolding judge_result_def by (auto intro!: s v)
  show d: "safe (dispatch_attempt E p c d ob n auth la)" for n auth
    unfolding dispatch_attempt_def by (intro safe_andthen s) (auto intro!: s j split: sum.split)
  show "safe (recovery_attempt E p c d who ob n la)"
    unfolding recovery_attempt_def by (intro safe_andthen s) (auto intro!: s d)
qed

lemma safe_recovery_attempts:
  assumes E: "env_safe E"
  shows "safe (recovery_attempts E p c d who ob ns la auth)"
proof (induction ns arbitrary: la auth)
  case Nil
  then show ?case by (simp add: safe_service [OF E])
next
  case (Cons n ns)
  then show ?case
    by (auto simp only: recovery_attempts.simps intro!: safe_andthen safe_attempt [OF E] split: prod.split attempt_end.split)
qed

lemma safe_recover_if_needed:
  assumes E: "env_safe E"
  shows "safe (recover_if_needed E rid oid pid who trigger owner)"
proof -
  note s = safe_service [OF E] safe_commit [OF E] safe_writes safe_acquire safe_recovery_attempts [OF E]
  have claimed: "safe (recover_claimed E p c d who trigger)" for p c d
    unfolding recover_claimed_def by (intro safe_andthen s) (auto intro!: s)
  have rel: "safe (andthen (commit E (\<lambda>now. release_recovery now c lost err)) f)" if "\<And>x. safe (f x)" for c lost err f
    using that by (intro safe_andthen s)
  have "safe (release_after E c m)" if m: "safe m" for c m
    unfolding safe_def
  proof
    fix w
    obtain w1 r where m1: "m w = Some (w1, r)" "rows_kept w w1" using safeD [OF m] by blast
    show "\<exists>w' r. release_after E c m w = Some (w', r) \<and> rows_kept w w'"
    proof (cases r)
      case (Inl e)
      then show ?thesis using m1 safeD [OF rel [of "\<lambda>_. raise e" c "lease_was_lost e" "Some (redact_string (rx_error_text E e))"], of w1]
        by (auto simp: release_after_def intro: rows_kept_trans)
    next
      case (Inr x)
      then show ?thesis using m1 safeD [OF rel [of "\<lambda>_. ret x" c False None], of w1]
        by (auto simp: release_after_def intro: rows_kept_trans)
    qed
  qed
  then show ?thesis
    unfolding recover_if_needed_def by (intro safe_andthen s) (auto intro!: s claimed split: option.split)
qed

text \<open>A monitor whose binding provider and whose bindings keep the rows, and the state it works in.\<close>

definition monitor_safe :: "monitor \<Rightarrow> bool" where
  "monitor_safe M \<longleftrightarrow>
     (\<forall>w. rows_kept w (mo_others M w)) \<and> (\<forall>p w. rows_kept w (fst (mo_binding M p w))) \<and>
     (\<forall>p w w' E. mo_binding M p w = (w', Inr (Some E)) \<longrightarrow> env_safe E)"

definition monitored :: "monitor \<Rightarrow> recovery_world \<Rightarrow> bool" where
  "monitored M w \<longleftrightarrow> policies_valid (store w) \<and> row_by rm_monitor_id (mo_monitor_id M) (rv_monitors (store w)) \<noteq> None"

definition known_policy :: "recovery_world \<Rightarrow> string \<Rightarrow> bool" where
  "known_policy w pid \<longleftrightarrow> row_by (\<lambda>r. rp_id (pw_policy r)) pid (rv_policies (store w)) \<noteq> None"

lemma rows_kept_monitored: "rows_kept w w' \<Longrightarrow> monitored M w \<Longrightarrow> monitored M w'"
  by (simp add: rows_kept_def monitored_def)

lemma rows_kept_known: "rows_kept w w' \<Longrightarrow> known_policy w pid \<Longrightarrow> known_policy w' pid"
  by (simp add: rows_kept_def known_policy_def)

lemma get_policy_known:
  assumes "monitored M w" and "known_policy w pid"
  shows "\<exists>p. get_policy (store w) pid = Inr p \<and> rp_id p = pid"
proof -
  obtain r where r: "row_by (\<lambda>r. rp_id (pw_policy r)) pid (rv_policies (store w)) = Some r"
    using assms(2) by (auto simp: known_policy_def)
  have "check_recovery_policy (pw_policy r) = Inr ()" "rp_id (pw_policy r) = pid"
    using row_by_SomeD [OF r] assms(1) by (auto simp: monitored_def policies_valid_def)
  then show ?thesis using r by (simp add: get_policy_def fetch_def policy_from_row_def)
qed

lemma checkpoint_succeeds:
  assumes M: "monitor_safe M" and "monitored M w" and "known_policy w (rp_id p)"
  shows "\<exists>w'. checkpoint M p st rid err w = Some (w', Inr ()) \<and> rows_kept w w'"
proof -
  let ?w = "mo_others M w"
  have kept: "rows_kept w ?w" using M by (simp add: monitor_safe_def)
  then have "row_by (\<lambda>r. rp_id (pw_policy r)) (rp_id p) (rv_policies (store ?w)) \<noteq> None"
    "row_by rm_monitor_id (mo_monitor_id M) (rv_monitors (store ?w)) \<noteq> None"
    using rows_kept_known [OF kept assms(3)] rows_kept_monitored [OF kept assms(2)]
    by (simp_all add: known_policy_def monitored_def)
  then obtain rv' where r: "record_checkpoint (clock ?w) (mo_monitor_id M) p st rid err (store ?w) = Inr (rv', ())"
    by (auto simp: record_checkpoint_def Let_def)
  have "rows_kept ?w (?w\<lparr>store := rv'\<rparr>)" using record_checkpoint_row [OF r] by (intro rows_kept_same) simp_all
  then show ?thesis using r rows_kept_trans [OF kept]
    by (simp add: checkpoint_def monitor_commit_def andthen_def await_def transact_def)
qed

lemma safe_checkpoint:
  assumes "monitor_safe M"
  shows "safe (checkpoint M p st rid err)"
  unfolding checkpoint_def monitor_commit_def
  by (intro safe_andthen safe_await safe_transact) (use assms record_checkpoint_row in \<open>auto simp: monitor_safe_def\<close>)

lemma safe_run_recovery:
  assumes "monitor_safe M" and "env_safe E"
  shows "safe (run_recovery M p E)"
proof -
  have "safe (andthen (recover_if_needed E rid oid pid who trigger owner) (\<lambda>r.
      andthen (checkpoint M p (attempt_state_value (oc_state r)) (Some (oc_id r)) (oc_failure_detail r)) (\<lambda>_.
      ret (outcome_to_protocol r))))" for rid oid pid who trigger owner
    by (intro safe_andthen safe_recover_if_needed safe_checkpoint safe_basic assms)
  then show ?thesis unfolding safe_def run_recovery_def by (simp add: Let_def split: prod.split)
qed

lemma safe_observe_policy:
  assumes M: "monitor_safe M"
  shows "safe (observe_policy M p)"
  unfolding safe_def
proof
  fix w
  obtain w1 b where b: "mo_binding M p w = (w1, b)" by fastforce
  then have k: "rows_kept w w1" using M by (metis monitor_safe_def fst_conv)
  show "\<exists>w' r. observe_policy M p w = Some (w', r) \<and> rows_kept w w'"
  proof (cases b)
    case (Inl e)
    then show ?thesis using b k by (simp add: observe_policy_def andthen_def await_def)
  next
    case (Inr x)
    have "safe (case x of None \<Rightarrow>
         andthen (checkpoint M p ''bindingUnavailable'' None (Some binding_missing)) (\<lambda>_.
         ret [(''policyID'', JStr (rp_id p)), (''state'', JStr ''bindingUnavailable''), (''error'', JStr binding_missing)])
       | Some E \<Rightarrow> run_recovery M p E)"
      using b M by (auto simp: Inr monitor_safe_def intro!: safe_checkpoint [OF M] safe_run_recovery [OF M] split: option.split)
    from safeD [OF this, of w1] show ?thesis using b k Inr
      by (auto simp: observe_policy_def andthen_def await_def intro: rows_kept_trans)
  qed
qed

lemma run_policy_returns:
  assumes M: "monitor_safe M" and mon: "monitored M w" and pid: "known_policy w pid"
  shows "\<exists>w' r. run_policy M pid w = Some (w', Inr r) \<and> rows_kept w w'"
proof -
  let ?w = "mo_others M w"
  have k0: "rows_kept w ?w" using M by (simp add: monitor_safe_def)
  obtain p where p: "get_policy (store ?w) pid = Inr p" "rp_id p = pid"
    using get_policy_known rows_kept_monitored [OF k0 mon] rows_kept_known [OF k0 pid] by blast
  obtain w1 x where x: "observe_policy M p ?w = Some (w1, x)" and k1: "rows_kept ?w w1"
    using safeD [OF safe_observe_policy [OF M]] by blast
  have k: "rows_kept w w1" using k0 k1 by (rule rows_kept_trans)
  have handled: "\<exists>w' r. monitor_handler M p e w1 = Some (w', Inr r) \<and> rows_kept w w'" for e
  proof (cases "\<exists>m. e = RecoveryLeaseUnavailable m")
    case True
    then show ?thesis using k by (auto simp: monitor_handler_def ret_def)
  next
    case False
    obtain w2 where "checkpoint M p ''monitorError'' None (Some (clip (mo_error_text M e))) w1 = Some (w2, Inr ())" "rows_kept w1 w2"
      using checkpoint_succeeds [OF M rows_kept_monitored [OF k mon]] rows_kept_known [OF k pid] p(2) by blast
    then show ?thesis using False rows_kept_trans [OF k, of w2]
      by (cases e) (simp_all add: monitor_handler_def andthen_def ret_def)
  qed
  show ?thesis using p(1) x k handled
    by (cases x) (auto simp: run_policy_def andthen_def await_def reading_def catch_def)
qed

lemma run_policies_return:
  assumes M: "monitor_safe M"
  shows "monitored M w \<Longrightarrow> \<forall>pid \<in> set pids. known_policy w pid \<Longrightarrow>
    \<exists>w' rs. run_policies M pids w = Some (w', Inr rs) \<and> length rs = length pids \<and> rows_kept w w'"
proof (induction pids arbitrary: w)
  case (Cons pid pids)
  obtain w1 r where r: "run_policy M pid w = Some (w1, Inr r)" "rows_kept w w1"
    using run_policy_returns [OF M Cons.prems(1), of pid] Cons.prems(2) by auto
  obtain w2 rs where "run_policies M pids w1 = Some (w2, Inr rs)" "length rs = length pids" "rows_kept w1 w2"
    using Cons.IH [OF rows_kept_monitored [OF r(2) Cons.prems(1)]] Cons.prems(2) rows_kept_known [OF r(2)] by auto
  then show ?case using r rows_kept_trans by (auto simp: andthen_def ret_def)
qed (simp add: ret_def)

lemma beat_returns:
  assumes "monitor_safe M" and "0 \<le> a" "0 \<le> b" "0 \<le> c" "0 \<le> d"
  shows "\<exists>w' ok. beat M a b c d w = Some (w', Inr ok) \<and> rows_kept w w'"
proof -
  let ?w = "mo_others M w"
  obtain rv' ok where h: "heartbeat_monitor (clock ?w) (mo_monitor_id M) a b c d MON_RUNNING None (store ?w) = Inr (rv', ok)"
    using assms by (simp add: heartbeat_monitor_def)
  then have "rows_kept ?w (?w\<lparr>store := rv'\<rparr>)"
    by (auto simp: heartbeat_monitor_def rows_kept_def policies_valid_def row_by_upd_by)
  then have "rows_kept w (?w\<lparr>store := rv'\<rparr>)" using assms(1) rows_kept_trans by (metis monitor_safe_def)
  then show ?thesis using h by (simp add: beat_def monitor_commit_def andthen_def await_def transact_def)
qed

lemma due_known: "pid \<in> set (due_policy_ids (clock w) (store w) limit) \<Longrightarrow> known_policy w pid"
  by (auto simp: due_policy_ids_def known_policy_def row_by_None_iff split: if_split_asm dest!: in_set_takeD)

lemma monitor_run_once_returns:
  assumes M: "monitor_safe M" and reg: "mo_registered M" and mon: "monitored M w"
  shows "\<exists>w' rs. monitor_run_once M w = Some (w', Inr (M, rs)) \<and> rows_kept w w' \<and>
    length rs = length (due_policy_ids (clock (mo_others M w)) (store (mo_others M w)) (mc_max_concurrent_policies (mo_config M)))"
proof -
  let ?w = "mo_others M w"
  define pids where "pids = due_policy_ids (clock ?w) (store ?w) (mc_max_concurrent_policies (mo_config M))"
  have k: "rows_kept w ?w" using M by (simp add: monitor_safe_def)
  have start: "monitor_run_once M w = (if pids = [] then andthen (beat M 0 0 0 0) (\<lambda>_. ret (M, [])) ?w
      else andthen (beat M (int (length pids)) 0 0 0) (\<lambda>_. andthen (run_policies M pids) (\<lambda>rs.
        andthen (beat M 0 (int (length rs)) (recoveries_of rs) (takeovers_of rs)) (\<lambda>_. ret (M, rs)))) ?w)"
    using reg by (simp add: monitor_run_once_def ensure_monitor_registered_def andthen_def await_def ret_def pids_def Let_def)
  obtain w1 ok where b1: "beat M (int (length pids)) 0 0 0 ?w = Some (w1, Inr ok)" "rows_kept ?w w1"
    using beat_returns [OF M, of "int (length pids)" 0 0 0 ?w] by auto
  have k1: "rows_kept w w1" using k b1(2) by (rule rows_kept_trans)
  have known: "\<forall>pid \<in> set pids. known_policy w1 pid"
    unfolding pids_def using due_known [of _ ?w] rows_kept_known [OF b1(2)] by blast
  obtain w2 rs where rs: "run_policies M pids w1 = Some (w2, Inr rs)" "length rs = length pids" "rows_kept w1 w2"
    using run_policies_return [OF M rows_kept_monitored [OF k1 mon] known] by blast
  obtain w3 ok3 where b3: "beat M 0 (int (length rs)) (recoveries_of rs) (takeovers_of rs) w2 = Some (w3, Inr ok3)" "rows_kept w2 w3"
    using beat_returns [OF M, of 0 "int (length rs)" "recoveries_of rs" "takeovers_of rs" w2]
    by (auto simp: recoveries_of_def takeovers_of_def)
  obtain w4 ok4 where b4: "beat M 0 0 0 0 ?w = Some (w4, Inr ok4)" "rows_kept ?w w4"
    using beat_returns [OF M, of 0 0 0 0 ?w] by auto
  have "rows_kept w w3" "rows_kept w w4" using k k1 rs(3) b3(2) b4(2) rows_kept_trans by blast+
  then show ?thesis unfolding start using b1 rs b3 b4 by (auto simp: andthen_def ret_def pids_def [symmetric])
qed

lemma monitor_rounds_return:
  assumes M: "monitor_safe M" and reg: "mo_registered M"
  shows "monitored M w \<Longrightarrow> \<exists>w'. monitor_rounds n M w = Some (w', Inr ()) \<and> rows_kept w w'"
proof (induction n arbitrary: w)
  case (Suc n)
  obtain w1 rs where r: "monitor_run_once M w = Some (w1, Inr (M, rs))" "rows_kept w w1"
    using monitor_run_once_returns [OF M reg Suc.prems] by blast
  have k: "rows_kept w (mo_others M w1)" using r(2) M rows_kept_trans by (metis monitor_safe_def)
  show ?case using Suc.IH [OF rows_kept_monitored [OF k Suc.prems]] r k rows_kept_trans
    by (auto simp: andthen_def await_def)
qed (simp add: ret_def)

text \<open>
  C2. The monitor survives its policies. Whatever the binding provider, the probes, the adapters and
  the authorizers do - they may raise, answer nonsense or lose every lease - each round yields one
  result per due policy, and serving ends without an exception, as stopped and not as failed, when
  shutdown is requested. All it needs is that nobody deletes rows of policies and monitors.
\<close>

theorem monitor_survives:
  assumes "monitor_safe M" and "mo_registered M" and "monitored M w"
  shows "(\<exists>w' rs. monitor_run_once M w = Some (w', Inr (M, rs)) \<and>
      length rs = length (due_policy_ids (clock (mo_others M w)) (store (mo_others M w))
        (mc_max_concurrent_policies (mo_config M)))) \<and>
    (\<exists>w' m. monitor_serve n M w = Some (w', Inr ()) \<and>
      row_by rm_monitor_id (mo_monitor_id M) (rv_monitors (store w')) = Some m \<and> rm_state m = MON_STOPPED)"
proof -
  obtain w1 where w1: "monitor_rounds n M w = Some (w1, Inr ())" "rows_kept w w1"
    using monitor_rounds_return [OF assms] by blast
  have "rows_kept w (mo_others M w1)" using w1(2) assms(1) rows_kept_trans by (metis monitor_safe_def)
  from rows_kept_monitored [OF this assms(3)]
  obtain m where m: "row_by rm_monitor_id (mo_monitor_id M) (rv_monitors (store (mo_others M w1))) = Some m"
    by (auto simp: monitored_def)
  have "\<exists>w' m. monitor_serve n M w = Some (w', Inr ()) \<and>
      row_by rm_monitor_id (mo_monitor_id M) (rv_monitors (store w')) = Some m \<and> rm_state m = MON_STOPPED"
    using w1 m assms(2)
    by (simp add: monitor_serve_def ensure_monitor_registered_def andthen_def ret_def monitor_commit_def await_def
        transact_def stop_monitor_def Let_def row_by_upd_by)
  then show ?thesis using monitor_run_once_returns [OF assms] by blast
qed

section \<open>Examples\<close>

definition sample_monitor_row :: monitor_row where
  "sample_monitor_row = registered_monitor 0 ''mon'' 7 [] None"

definition monitor_sample :: recovery_db where
  "monitor_sample = \<lparr>rv_db = empty_db, rv_policies = [\<lparr>pw_policy = sample_policy, pw_created_at = 0, pw_updated_at = 0\<rparr>],
     rv_attempts = [], rv_leases = [], rv_monitors = [sample_monitor_row],
     rv_checkpoints = [next_checkpoint 0 ''mon'' sample_policy ''failed'' None None None]\<rparr>"

definition sample_monitor :: monitor where
  "sample_monitor = \<lparr>mo_config = \<lparr>mc_discovery_poll_seconds = 1, mc_host_heartbeat_seconds = 2, mc_host_stale_after_seconds = 10,
       mc_max_concurrent_policies = 2\<rparr>, mo_monitor_id = ''mon'', mo_process_id = 7, mo_registered = True,
     mo_binding = \<lambda>p w. (w, Inl (RuntimeError ''no binding'')), mo_uuids = \<lambda>w. (''1'', ''2''), mo_error_text = \<lambda>e. ''x'',
     mo_others = \<lambda>w. w\<lparr>clock := clock w + 1\<rparr>\<rparr>"

lemma sample_monitor_setting:
  "monitor_safe sample_monitor" "mo_registered sample_monitor" "monitored sample_monitor \<lparr>clock = 100, store = monitor_sample\<rparr>"
  "check_recovery_policy sample_policy = Inr ()"
proof -
  show chk: "check_recovery_policy sample_policy = Inr ()"
    using sample_policy_ok by (auto simp: get_policy_def policy_from_row_def)
  show "monitor_safe sample_monitor" by (simp add: monitor_safe_def sample_monitor_def rows_kept_same)
  show "mo_registered sample_monitor" by (simp add: sample_monitor_def)
  show "monitored sample_monitor \<lparr>clock = 100, store = monitor_sample\<rparr>"
    using chk by (simp add: monitored_def policies_valid_def monitor_sample_def sample_monitor_def sample_monitor_row_def
        registered_monitor_def row_simps)
qed

theorem monitor_survives_witness:
  "\<exists>w'. monitor_serve 3 sample_monitor \<lparr>clock = 100, store = monitor_sample\<rparr> = Some (w', Inr ())"
  using monitor_survives [OF sample_monitor_setting(1-3), of 3] by blast

theorem monitor_backoff_witness:
  "\<exists>rv' u new. record_checkpoint 100 ''mon'' sample_policy ''failed'' None None monitor_sample = Inr (rv', u) \<and>
     row_by ck_policy_id ''p'' (rv_checkpoints rv') = Some new \<and> ck_next_observation_at new = micros 220"
proof -
  have id: "rp_id sample_policy = ''p''" by (simp add: sample_policy_def)
  obtain rv' where r: "record_checkpoint 100 ''mon'' sample_policy ''failed'' None None monitor_sample = Inr (rv', ())"
    by (auto simp: record_checkpoint_def monitor_sample_def row_simps sample_monitor_row_def registered_monitor_def Let_def)
  let ?old = "next_checkpoint 0 ''mon'' sample_policy ''failed'' None None None"
  have old: "row_by ck_policy_id (rp_id sample_policy) (rv_checkpoints monitor_sample) = Some ?old"
    "ck_consecutive_failures ?old = 1"
    by (simp_all add: monitor_sample_def row_simps next_checkpoint_def Let_def healthy_state_def)
  have "\<not> healthy_state ''failed''" by (simp add: healthy_state_def)
  moreover have "observation_delay sample_policy 2 = 120" by (simp add: observation_delay_def sample_policy_def)
  ultimately show ?thesis
    using monitor_backoff [OF r sample_monitor_setting(4) old(1), of 0 0] r old(2) unfolding id by auto
qed

end
