(* ===== verification/Resource_Usage.thy ===== *)
theory Resource_Usage
  imports Telemetry Hybrid "HOL-Library.AList"
begin

text \<open>
  The resource ledger, \<^verbatim>\<open>src/project_supervisor/resource_usage.py\<close>, with its tables
  (\<^verbatim>\<open>migrations/0006\<close>): observations with the origin of every value, the audit after a task has ended and
  the events it writes, and the aggregates. A value of unknown origin is never taken for zero.
\<close>

section \<open>Enumerations\<close>

datatype usage_provenance =
    PROV_PROVIDER_REPORTED | PROV_LOCALLY_MEASURED | PROV_INFERRED | PROV_UNKNOWN

definition all_usage_provenance :: "usage_provenance list" where
  "all_usage_provenance =
    [PROV_PROVIDER_REPORTED, PROV_LOCALLY_MEASURED, PROV_INFERRED, PROV_UNKNOWN]"

primrec usage_provenance_value :: "usage_provenance \<Rightarrow> string" where
  "usage_provenance_value PROV_PROVIDER_REPORTED = ''PROVIDER_REPORTED''"
| "usage_provenance_value PROV_LOCALLY_MEASURED = ''LOCALLY_MEASURED''"
| "usage_provenance_value PROV_INFERRED = ''INFERRED''"
| "usage_provenance_value PROV_UNKNOWN = ''UNKNOWN''"

datatype quota_state =
    QUOTA_AVAILABLE | QUOTA_WARNING | QUOTA_CRITICAL | QUOTA_EXHAUSTED
  | QUOTA_UNKNOWN

definition all_quota_state :: "quota_state list" where
  "all_quota_state =
    [QUOTA_AVAILABLE, QUOTA_WARNING, QUOTA_CRITICAL, QUOTA_EXHAUSTED,
     QUOTA_UNKNOWN]"

primrec quota_state_value :: "quota_state \<Rightarrow> string" where
  "quota_state_value QUOTA_AVAILABLE = ''available''"
| "quota_state_value QUOTA_WARNING = ''warning''"
| "quota_state_value QUOTA_CRITICAL = ''critical''"
| "quota_state_value QUOTA_EXHAUSTED = ''exhausted''"
| "quota_state_value QUOTA_UNKNOWN = ''unknown''"

datatype freshness =
    FR_FRESH | FR_STALE | FR_UNKNOWN

definition all_freshness :: "freshness list" where
  "all_freshness =
    [FR_FRESH, FR_STALE, FR_UNKNOWN]"

primrec freshness_value :: "freshness \<Rightarrow> string" where
  "freshness_value FR_FRESH = ''fresh''"
| "freshness_value FR_STALE = ''stale''"
| "freshness_value FR_UNKNOWN = ''unknown''"

interpretation usage_provenance_wire: wire_enum all_usage_provenance usage_provenance_value
proof
  show "x \<in> set all_usage_provenance" for x
    by (cases x) (simp_all add: all_usage_provenance_def)
  show "distinct (map usage_provenance_value all_usage_provenance)"
    by (simp add: all_usage_provenance_def)
qed

interpretation quota_state_wire: wire_enum all_quota_state quota_state_value
proof
  show "x \<in> set all_quota_state" for x
    by (cases x) (simp_all add: all_quota_state_def)
  show "distinct (map quota_state_value all_quota_state)"
    by (simp add: all_quota_state_def)
qed

interpretation freshness_wire: wire_enum all_freshness freshness_value
proof
  show "x \<in> set all_freshness" for x
    by (cases x) (simp_all add: all_freshness_def)
  show "distinct (map freshness_value all_freshness)"
    by (simp add: all_freshness_def)
qed

section \<open>Observed values\<close>

record usage_dimension =
  un_value :: "string option"
  un_provenance :: usage_provenance
  un_reason :: "unavailable_reason option"

definition check_usage_dimension :: "usage_dimension \<Rightarrow> unit result" where
  "check_usage_dimension d =
     (case un_value d of
        None \<Rightarrow> raise_if (un_provenance d \<noteq> PROV_UNKNOWN \<or> un_reason d = None)
          (ValueError ''unavailable dimension requires UNKNOWN provenance and a reason'')
      | Some v \<Rightarrow>
          bindR (raise_if (\<not> nonblank v) (ValueError ''known dimension must not be empty'')) (\<lambda>_.
          raise_if (un_provenance d = PROV_UNKNOWN \<or> un_reason d \<noteq> None)
            (ValueError ''known dimension requires non-UNKNOWN provenance and no reason'')))"

definition known_dimension :: "string \<Rightarrow> usage_provenance \<Rightarrow> usage_dimension" where
  "known_dimension v p = \<lparr>un_value = Some v, un_provenance = p, un_reason = None\<rparr>"

definition unknown_dimension :: "unavailable_reason \<Rightarrow> usage_dimension" where
  "unknown_dimension r = \<lparr>un_value = None, un_provenance = PROV_UNKNOWN, un_reason = Some r\<rparr>"

text \<open>The wire form of an unavailable value; its reason is there once the value has been checked.\<close>

definition unavailable_json :: "unavailable_reason option \<Rightarrow> usage_provenance \<Rightarrow> (string \<times> json) list" where
  "unavailable_json r p =
     [(''state'', JStr ''unavailable''), (''reason'', json_opt (\<lambda>r. JStr (unavailable_reason_value r)) r),
      (''provenance'', JStr (usage_provenance_value p))]"

definition usage_dimension_to_protocol :: "usage_dimension \<Rightarrow> (string \<times> json) list" where
  "usage_dimension_to_protocol d =
     (case un_value d of
        None \<Rightarrow> unavailable_json (un_reason d) (un_provenance d)
      | Some v \<Rightarrow> [(''state'', JStr ''known''), (''value'', JStr v),
          (''provenance'', JStr (usage_provenance_value (un_provenance d)))])"

record usage_metric =
  um_value :: "number option"
  um_unit :: "string option"
  um_provenance :: usage_provenance
  um_reason :: "unavailable_reason option"

text \<open>A \<open>number\<close> is numeric and finite, so those two checks always pass.\<close>

definition check_usage_metric :: "usage_metric \<Rightarrow> unit result" where
  "check_usage_metric m =
     (case um_value m of
        None \<Rightarrow>
          bindR (raise_if (um_unit m \<noteq> None) (ValueError ''unavailable metric cannot claim a unit'')) (\<lambda>_.
          raise_if (um_provenance m \<noteq> PROV_UNKNOWN \<or> um_reason m = None)
            (ValueError ''unavailable metric requires UNKNOWN provenance and a reason''))
      | Some v \<Rightarrow>
          bindR (raise_if (num_value v < 0) (ValueError ''known metric value must be finite and non-negative'')) (\<lambda>_.
          bindR (raise_if (case um_unit m of None \<Rightarrow> True | Some u \<Rightarrow> \<not> nonblank u)
            (ValueError ''known metric requires a unit'')) (\<lambda>_.
          raise_if (um_provenance m = PROV_UNKNOWN \<or> um_reason m \<noteq> None)
            (ValueError ''known metric requires non-UNKNOWN provenance and no reason''))))"

definition known_usage :: "number \<Rightarrow> string \<Rightarrow> usage_provenance \<Rightarrow> usage_metric" where
  "known_usage v unit p = \<lparr>um_value = Some v, um_unit = Some unit, um_provenance = p, um_reason = None\<rparr>"

definition unknown_usage :: "unavailable_reason \<Rightarrow> usage_metric" where
  "unknown_usage r = \<lparr>um_value = None, um_unit = None, um_provenance = PROV_UNKNOWN, um_reason = Some r\<rparr>"

definition usage_metric_to_protocol :: "usage_metric \<Rightarrow> (string \<times> json) list" where
  "usage_metric_to_protocol m =
     (case um_value m of
        None \<Rightarrow> unavailable_json (um_reason m) (um_provenance m) @ [(''unit'', JNull)]
      | Some v \<Rightarrow> [(''state'', JStr ''known''), (''value'', json_number v), (''unit'', json_opt JStr (um_unit m)),
          (''provenance'', JStr (usage_provenance_value (um_provenance m)))])"

record usage_instant =
  ui_value :: "moment option"
  ui_provenance :: usage_provenance
  ui_reason :: "unavailable_reason option"

definition check_usage_instant :: "usage_instant \<Rightarrow> unit result" where
  "check_usage_instant i =
     (case ui_value i of
        None \<Rightarrow> raise_if (ui_provenance i \<noteq> PROV_UNKNOWN \<or> ui_reason i = None)
          (ValueError ''unavailable instant requires UNKNOWN provenance and a reason'')
      | Some t \<Rightarrow>
          bindR (raise_if (\<not> zoned t) (ValueError ''known instant must be timezone-aware'')) (\<lambda>_.
          raise_if (ui_provenance i = PROV_UNKNOWN \<or> ui_reason i \<noteq> None)
            (ValueError ''known instant requires non-UNKNOWN provenance and no reason'')))"

definition unknown_instant :: "unavailable_reason \<Rightarrow> usage_instant" where
  "unknown_instant r = \<lparr>ui_value = None, ui_provenance = PROV_UNKNOWN, ui_reason = Some r\<rparr>"

text \<open>\<^verbatim>\<open>_format_time\<close> drops the microseconds; \<^verbatim>\<open>_parse_time\<close> reads the whole second back in UTC.\<close>

definition format_time :: "moment \<Rightarrow> int" where
  "format_time t = timestamp (moment_at t)"

definition parse_time :: "int \<Rightarrow> moment" where
  "parse_time t = Zoned (of_int t)"

definition usage_instant_to_protocol :: "usage_instant \<Rightarrow> (string \<times> json) list" where
  "usage_instant_to_protocol i =
     (case ui_value i of
        None \<Rightarrow> unavailable_json (ui_reason i) (ui_provenance i)
      | Some t \<Rightarrow> [(''state'', JStr ''known''), (''value'', JTime (format_time t)),
          (''provenance'', JStr (usage_provenance_value (ui_provenance i)))])"

section \<open>Observations and snapshots\<close>

record resource_observation =
  ro_provider :: string
  ro_quota_pool_id :: string
  ro_account_scope :: usage_dimension
  ro_plan_tier :: usage_dimension
  ro_worker_id :: "string option"
  ro_model :: usage_dimension
  ro_quota_window :: usage_dimension
  ro_used :: usage_metric
  ro_remaining :: usage_metric
  ro_reset_at :: usage_instant
  ro_task_calls :: usage_metric
  ro_input_tokens :: usage_metric
  ro_output_tokens :: usage_metric
  ro_cached_tokens :: usage_metric
  ro_cost :: usage_metric
  ro_quota_state :: quota_state
  ro_quota_state_provenance :: usage_provenance
  ro_source :: string
  ro_confidence :: evidence_confidence
  ro_observed_at :: moment
  ro_fresh_until :: "moment option"
  ro_reset_observed :: bool
  ro_metadata :: "(string \<times> json) list"

definition validate_count_metric :: "usage_metric \<Rightarrow> string \<Rightarrow> unit result" where
  "validate_count_metric m unit =
     (case um_value m of
        None \<Rightarrow> Inr ()
      | Some v \<Rightarrow>
          bindR (raise_if (\<not> is_int v) (ValueError (unit @ '' metric must be an integer''))) (\<lambda>_.
          raise_if (um_unit m \<noteq> Some unit) (ValueError (''count metric unit must be '' @ unit))))"

definition check_observation_times :: "resource_observation \<Rightarrow> unit result" where
  "check_observation_times ob =
     bindR (raise_if (\<not> zoned (ro_observed_at ob)) (ValueError ''observed_at must be timezone-aware'')) (\<lambda>_.
     case ro_fresh_until ob of
       None \<Rightarrow> Inr ()
     | Some f \<Rightarrow>
         bindR (raise_if (\<not> zoned f) (ValueError ''fresh_until must be timezone-aware'')) (\<lambda>_.
         raise_if (moment_at f < moment_at (ro_observed_at ob)) (ValueError ''fresh_until cannot precede observed_at'')))"

definition check_quota_claim :: "resource_observation \<Rightarrow> unit result" where
  "check_quota_claim ob =
     bindR (raise_if (ro_quota_state ob = QUOTA_EXHAUSTED \<and>
         (case um_value (ro_remaining ob) of None \<Rightarrow> True | Some v \<Rightarrow> num_value v \<noteq> 0))
       (ValueError ''exhausted quota requires observed zero remaining'')) (\<lambda>_.
     raise_if ((ro_quota_state ob = QUOTA_UNKNOWN \<and> ro_quota_state_provenance ob \<noteq> PROV_UNKNOWN) \<or>
         (ro_quota_state ob \<noteq> QUOTA_UNKNOWN \<and> ro_quota_state_provenance ob = PROV_UNKNOWN))
       (ValueError ''quota state requires explicit matching provenance''))"

definition check_observation :: "resource_observation \<Rightarrow> unit result" where
  "check_observation ob =
     bindR (first_blank [(''provider'', ro_provider ob), (''quota_pool_id'', ro_quota_pool_id ob),
       (''source'', ro_source ob)]) (\<lambda>_.
     bindR (raise_if (case ro_worker_id ob of None \<Rightarrow> False | Some w \<Rightarrow> \<not> nonblank w)
       (ValueError ''worker_id must be non-empty when supplied'')) (\<lambda>_.
     bindR (check_observation_times ob) (\<lambda>_.
     bindR (validate_count_metric (ro_task_calls ob) ''calls'') (\<lambda>_.
     bindR (map_result (\<lambda>m. validate_count_metric m ''tokens'')
       [ro_input_tokens ob, ro_output_tokens ob, ro_cached_tokens ob]) (\<lambda>_.
     check_quota_claim ob)))))"

definition observation_dimensions :: "resource_observation \<Rightarrow> usage_dimension list" where
  "observation_dimensions ob = [ro_account_scope ob, ro_plan_tier ob, ro_model ob, ro_quota_window ob]"

definition observation_metrics :: "resource_observation \<Rightarrow> usage_metric list" where
  "observation_metrics ob =
     [ro_used ob, ro_remaining ob, ro_task_calls ob, ro_input_tokens ob, ro_output_tokens ob, ro_cached_tokens ob,
      ro_cost ob]"

text \<open>An observation whose parts were constructed, each with its checks, and then itself.\<close>

definition construct_observation :: "resource_observation \<Rightarrow> resource_observation result" where
  "construct_observation ob =
     bindR (map_result check_usage_dimension (observation_dimensions ob)) (\<lambda>_.
     bindR (map_result check_usage_metric (observation_metrics ob)) (\<lambda>_.
     bindR (check_usage_instant (ro_reset_at ob)) (\<lambda>_.
     bindR (check_observation ob) (\<lambda>_. Inr ob))))"

record resource_snapshot =
  qs_id :: string
  qs_audit_id :: string
  qs_project_id :: string
  qs_goal_id :: "string option"
  qs_task_id :: string
  qs_run_id :: "string option"
  qs_observation :: resource_observation

definition snapshot_freshness :: "moment \<Rightarrow> resource_snapshot \<Rightarrow> freshness result" where
  "snapshot_freshness as_of s =
     (case ro_fresh_until (qs_observation s) of
        None \<Rightarrow> Inr FR_UNKNOWN
      | Some f \<Rightarrow>
          bindR (raise_if (\<not> zoned as_of) (ValueError ''as_of must be timezone-aware'')) (\<lambda>_.
          Inr (if moment_at as_of \<le> moment_at f then FR_FRESH else FR_STALE)))"

definition snapshot_to_protocol :: "moment \<Rightarrow> resource_snapshot \<Rightarrow> (string \<times> json) list result" where
  "snapshot_to_protocol as_of s =
     (let ob = qs_observation s in
      bindR (snapshot_freshness as_of s) (\<lambda>fresh.
      Inr [(''id'', JStr (qs_id s)), (''auditID'', JStr (qs_audit_id s)), (''projectID'', JStr (qs_project_id s)),
       (''goalID'', json_opt JStr (qs_goal_id s)), (''taskID'', JStr (qs_task_id s)),
       (''runID'', json_opt JStr (qs_run_id s)), (''provider'', JStr (ro_provider ob)),
       (''accountScope'', JObj (usage_dimension_to_protocol (ro_account_scope ob))),
       (''planTier'', JObj (usage_dimension_to_protocol (ro_plan_tier ob))),
       (''workerID'', json_opt JStr (ro_worker_id ob)),
       (''model'', JObj (usage_dimension_to_protocol (ro_model ob))),
       (''quotaPoolID'', JStr (ro_quota_pool_id ob)),
       (''quotaWindow'', JObj (usage_dimension_to_protocol (ro_quota_window ob))),
       (''used'', JObj (usage_metric_to_protocol (ro_used ob))),
       (''remaining'', JObj (usage_metric_to_protocol (ro_remaining ob))),
       (''resetAt'', JObj (usage_instant_to_protocol (ro_reset_at ob))),
       (''taskLocal'', JObj [(''calls'', JObj (usage_metric_to_protocol (ro_task_calls ob))),
          (''inputTokens'', JObj (usage_metric_to_protocol (ro_input_tokens ob))),
          (''outputTokens'', JObj (usage_metric_to_protocol (ro_output_tokens ob))),
          (''cachedTokens'', JObj (usage_metric_to_protocol (ro_cached_tokens ob))),
          (''cost'', JObj (usage_metric_to_protocol (ro_cost ob)))]),
       (''quotaState'', JStr (quota_state_value (ro_quota_state ob))),
       (''quotaStateProvenance'', JStr (usage_provenance_value (ro_quota_state_provenance ob))),
       (''observedAt'', JTime (format_time (ro_observed_at ob))),
       (''freshUntil'', json_opt (\<lambda>t. JTime (format_time t)) (ro_fresh_until ob)),
       (''freshness'', JStr (freshness_value fresh)), (''source'', JStr (ro_source ob)),
       (''confidence'', JStr (evidence_confidence_value (ro_confidence ob))),
       (''metadata'', JObj (redact_dict (ro_metadata ob)))]))"

section \<open>The tables\<close>

record audit_row =
  pa_id :: string
  pa_audit_key :: string
  pa_project_id :: string
  pa_goal_id :: "string option"
  pa_task_id :: string
  pa_run_id :: "string option"
  pa_terminal_state :: string
  pa_status :: string
  pa_observer_count :: nat
  pa_snapshot_count :: nat
  pa_errors :: "string list"
  pa_observed_at :: int
  pa_created_at :: int

text \<open>
  A row of \<^verbatim>\<open>resource_usage_snapshots\<close> is kept as the snapshot that reading it gives: times are whole
  seconds, \<^verbatim>\<open>REAL\<close> columns floats, the metadata redacted, and \<^verbatim>\<open>reset_observed\<close> is not stored.
\<close>

record resource_db =
  rd_usage :: usage_tables
  rd_audits :: "audit_row list"
  rd_snapshots :: "resource_snapshot list"

definition real_usage :: "usage_metric \<Rightarrow> usage_metric" where
  "real_usage m = m\<lparr>um_value := map_option (\<lambda>v. FloatNum (num_value v)) (um_value m)\<rparr>"

definition whole_second :: "moment \<Rightarrow> moment" where
  "whole_second t = parse_time (format_time t)"

definition observation_row :: "resource_observation \<Rightarrow> resource_observation" where
  "observation_row ob =
     ob\<lparr>ro_used := real_usage (ro_used ob), ro_remaining := real_usage (ro_remaining ob),
        ro_cost := real_usage (ro_cost ob),
        ro_reset_at := (ro_reset_at ob)\<lparr>ui_value := map_option whole_second (ui_value (ro_reset_at ob))\<rparr>,
        ro_observed_at := whole_second (ro_observed_at ob),
        ro_fresh_until := map_option whole_second (ro_fresh_until ob), ro_reset_observed := False,
        ro_metadata := redact_dict (ro_metadata ob)\<rparr>"

text \<open>
  The \<^verbatim>\<open>CHECK\<close> constraints: a value and its provenance, unit and reason are all there or all missing.
\<close>

definition dimension_columns_ok :: "usage_dimension \<Rightarrow> bool" where
  "dimension_columns_ok d \<longleftrightarrow>
     (if un_value d = None then un_provenance d = PROV_UNKNOWN \<and> un_reason d \<noteq> None
      else un_provenance d \<noteq> PROV_UNKNOWN \<and> un_reason d = None)"

definition usage_columns_ok :: "(string \<Rightarrow> bool) \<Rightarrow> usage_metric \<Rightarrow> bool" where
  "usage_columns_ok units m \<longleftrightarrow>
     (case um_value m of
        None \<Rightarrow> um_unit m = None \<and> um_provenance m = PROV_UNKNOWN \<and> um_reason m \<noteq> None
      | Some v \<Rightarrow> 0 \<le> num_value v \<and> (case um_unit m of None \<Rightarrow> False | Some u \<Rightarrow> units u) \<and>
          um_provenance m \<noteq> PROV_UNKNOWN \<and> um_reason m = None)"

definition snapshot_checks :: "resource_observation \<Rightarrow> bool" where
  "snapshot_checks ob \<longleftrightarrow>
     list_all dimension_columns_ok (observation_dimensions ob) \<and>
     list_all (usage_columns_ok (\<lambda>u. True)) [ro_used ob, ro_remaining ob, ro_cost ob] \<and>
     (if ui_value (ro_reset_at ob) = None
      then ui_provenance (ro_reset_at ob) = PROV_UNKNOWN \<and> ui_reason (ro_reset_at ob) \<noteq> None
      else ui_provenance (ro_reset_at ob) \<noteq> PROV_UNKNOWN \<and> ui_reason (ro_reset_at ob) = None) \<and>
     usage_columns_ok (\<lambda>u. u = ''calls'') (ro_task_calls ob) \<and>
     list_all (usage_columns_ok (\<lambda>u. u = ''tokens'')) [ro_input_tokens ob, ro_output_tokens ob, ro_cached_tokens ob] \<and>
     (ro_quota_state ob = QUOTA_UNKNOWN) = (ro_quota_state_provenance ob = PROV_UNKNOWN)"

definition bindable_usage :: "usage_metric \<Rightarrow> bool" where
  "bindable_usage m = (case um_value m of Some (IntNum n) \<Rightarrow> sqlite_int n | _ \<Rightarrow> True)"

definition snapshot_references :: "db \<Rightarrow> resource_snapshot \<Rightarrow> bool" where
  "snapshot_references db s \<longleftrightarrow>
     row_by pj_id (qs_project_id s) (projects db) \<noteq> None \<and>
     (case qs_goal_id s of None \<Rightarrow> True | Some g \<Rightarrow> row_by go_id g (autonomous_goals db) \<noteq> None) \<and>
     row_by tk_id (qs_task_id s) (tasks db) \<noteq> None \<and>
     (case qs_run_id s of None \<Rightarrow> True | Some r \<Rightarrow> row_by rn_id r (worker_runs db) \<noteq> None) \<and>
     (case ro_worker_id (qs_observation s) of None \<Rightarrow> True | Some w \<Rightarrow> row_by wk_id w (workers db) \<noteq> None)"

definition insert_snapshot :: "resource_snapshot \<Rightarrow> resource_db \<Rightarrow> resource_db result" where
  "insert_snapshot s rd =
     bindR (raise_if (\<not> list_all bindable_usage (observation_metrics (qs_observation s)))
       (OverflowError ''Python int too large to convert to SQLite INTEGER'')) (\<lambda>_.
     bindR (raise_if (\<not> snapshot_checks (qs_observation s) \<or> row_by qs_id (qs_id s) (rd_snapshots rd) \<noteq> None \<or>
         row_by pa_id (qs_audit_id s) (rd_audits rd) = None \<or> \<not> snapshot_references (ud_db (rd_usage rd)) s)
       (IntegrityError ''resource_usage_snapshots'')) (\<lambda>_.
     Inr (rd\<lparr>rd_snapshots := rd_snapshots rd @ [s\<lparr>qs_observation := observation_row (qs_observation s)\<rparr>]\<rparr>)))"

text \<open>\<^verbatim>\<open>ORDER BY observed_at,id\<close>; the newest of a pool comes last in this order.\<close>

definition observed_key :: "resource_snapshot \<Rightarrow> int \<times> string" where
  "observed_key s = (format_time (ro_observed_at (qs_observation s)), qs_id s)"

definition latest_where :: "(resource_snapshot \<Rightarrow> bool) \<Rightarrow> resource_db \<Rightarrow> resource_snapshot option" where
  "latest_where P rd =
     (case rev (sort_key observed_key (filter P (rd_snapshots rd))) of [] \<Rightarrow> None | s # _ \<Rightarrow> Some s)"

definition pool_of :: "resource_snapshot \<Rightarrow> string" where
  "pool_of s = ro_quota_pool_id (qs_observation s)"

definition latest_pool_row :: "resource_db \<Rightarrow> string \<Rightarrow> resource_snapshot option" where
  "latest_pool_row rd pool = latest_where (\<lambda>s. pool_of s = pool) rd"

section \<open>Events of a snapshot\<close>

definition resource_event ::
    "string \<Rightarrow> event_severity \<Rightarrow> resource_snapshot \<Rightarrow> string \<Rightarrow> (string \<times> json) list \<Rightarrow> event" where
  "resource_event kind severity s summary payload =
     mk_event kind severity ''resourcePool'' (pool_of s) (Some (qs_project_id s)) (Some (qs_task_id s))
       (ro_worker_id (qs_observation s)) (qs_run_id s) summary (redact_dict payload) ''resource-auditor''"

definition reset_detected :: "resource_snapshot option \<Rightarrow> resource_observation \<Rightarrow> bool" where
  "reset_detected previous ob =
     (case (previous, ui_value (ro_reset_at ob)) of
        (Some p, Some reset) \<Rightarrow>
          (case ui_value (ro_reset_at (qs_observation p)) of
             None \<Rightarrow> False
           | Some old \<Rightarrow> moment_at old \<le> moment_at (ro_observed_at ob) \<and> moment_at old < moment_at reset)
      | _ \<Rightarrow> False)"

definition event_base :: "resource_snapshot \<Rightarrow> (string \<times> json) list" where
  "event_base s =
     (let ob = qs_observation s in
      [(''snapshotID'', JStr (qs_id s)), (''goalID'', json_opt JStr (qs_goal_id s)), (''provider'', JStr (ro_provider ob)),
       (''quotaPoolID'', JStr (ro_quota_pool_id ob)), (''quotaState'', JStr (quota_state_value (ro_quota_state ob))),
       (''quotaStateProvenance'', JStr (usage_provenance_value (ro_quota_state_provenance ob))),
       (''source'', JStr (ro_source ob)), (''confidence'', JStr (evidence_confidence_value (ro_confidence ob))),
       (''observedAt'', JTime (format_time (ro_observed_at ob)))])"

definition usage_deltas :: "resource_observation \<Rightarrow> (string \<times> json) list" where
  "usage_deltas ob =
     map (\<lambda>(name, m). (name, JObj (usage_metric_to_protocol m)))
       (filter (\<lambda>(name, m). um_value m \<noteq> None)
         [(''calls'', ro_task_calls ob), (''inputTokens'', ro_input_tokens ob), (''outputTokens'', ro_output_tokens ob),
          (''cachedTokens'', ro_cached_tokens ob), (''cost'', ro_cost ob)])"

definition unknown_fields :: "resource_observation \<Rightarrow> string list" where
  "unknown_fields ob =
     map fst (filter (\<lambda>(name, missing). missing)
       [(''accountScope'', un_value (ro_account_scope ob) = None), (''planTier'', un_value (ro_plan_tier ob) = None),
        (''quotaWindow'', un_value (ro_quota_window ob) = None), (''used'', um_value (ro_used ob) = None),
        (''remaining'', um_value (ro_remaining ob) = None), (''resetAt'', ui_value (ro_reset_at ob) = None),
        (''cost'', um_value (ro_cost ob) = None)])"

definition state_event :: "quota_state \<Rightarrow> (string \<times> event_severity) option" where
  "state_event q =
     (case q of
        QUOTA_WARNING \<Rightarrow> Some (''quota_warning'', SEV_WARNING)
      | QUOTA_CRITICAL \<Rightarrow> Some (''quota_critical'', SEV_WARNING)
      | QUOTA_EXHAUSTED \<Rightarrow> Some (''quota_exhausted'', SEV_ERROR)
      | _ \<Rightarrow> None)"

definition snapshot_events :: "rat \<Rightarrow> resource_snapshot option \<Rightarrow> resource_snapshot \<Rightarrow> event list" where
  "snapshot_events now previous s =
     (let ob = qs_observation s; base = event_base s in
      [resource_event ''quota_snapshot'' SEV_INFO s (''Resource snapshot recorded for '' @ ro_quota_pool_id ob) base] @
      (if usage_deltas ob = [] then []
       else [resource_event ''usage_delta'' SEV_INFO s ''Observed task-local resource usage''
         (base @ [(''taskLocal'', JObj (usage_deltas ob))])]) @
      (case state_event (ro_quota_state ob) of
         None \<Rightarrow> []
       | Some (kind, severity) \<Rightarrow>
           [resource_event kind severity s (''Quota pool is '' @ quota_state_value (ro_quota_state ob)) base]) @
      (if unknown_fields ob = [] then []
       else [resource_event ''usage_unknown'' SEV_INFO s ''Some resource usage fields are unavailable''
         (base @ [(''unknownFields'', JList (map JStr (unknown_fields ob)))])]) @
      (case ro_fresh_until ob of
         None \<Rightarrow> []
       | Some f \<Rightarrow> if moment_at f < now then [resource_event ''usage_stale'' SEV_WARNING s ''Resource usage snapshot is stale'' base] else []) @
      (if ro_reset_observed ob \<or> reset_detected previous ob
       then [resource_event ''quota_reset_observed'' SEV_NOTICE s ''Quota reset observed''
         (base @ [(''resetAt'', JObj (usage_instant_to_protocol (ro_reset_at ob)))])] else []))"

definition journal_usage :: "rat \<Rightarrow> event list \<Rightarrow> resource_db \<Rightarrow> resource_db" where
  "journal_usage now es rd =
     rd\<lparr>rd_usage := (rd_usage rd)\<lparr>ud_db := append_events now es (ud_db (rd_usage rd))\<rparr>\<rparr>"

section \<open>Audits\<close>

record resource_audit =
  aq_row :: audit_row
  aq_snapshots :: "resource_snapshot list"

definition read_snapshot :: "resource_snapshot \<Rightarrow> resource_snapshot result" where
  "read_snapshot s = bindR (construct_observation (qs_observation s)) (\<lambda>_. Inr s)"

definition list_snapshots_for_audit :: "resource_db \<Rightarrow> string \<Rightarrow> resource_snapshot list result" where
  "list_snapshots_for_audit rd audit_id =
     map_result read_snapshot (sort_key observed_key (filter (\<lambda>s. qs_audit_id s = audit_id) (rd_snapshots rd)))"

definition audit_from_row :: "resource_db \<Rightarrow> audit_row \<Rightarrow> resource_audit result" where
  "audit_from_row rd row =
     bindR (list_snapshots_for_audit rd (pa_id row)) (\<lambda>ss. Inr \<lparr>aq_row = row, aq_snapshots = ss\<rparr>)"

definition optional_audit :: "resource_db \<Rightarrow> audit_row option \<Rightarrow> resource_audit option result" where
  "optional_audit rd row =
     (case row of None \<Rightarrow> Inr None | Some r \<Rightarrow> bindR (audit_from_row rd r) (\<lambda>a. Inr (Some a)))"

definition get_audit :: "resource_db \<Rightarrow> string \<Rightarrow> resource_audit option result" where
  "get_audit rd audit_id = optional_audit rd (row_by pa_id audit_id (rd_audits rd))"

definition audit_by_key :: "resource_db \<Rightarrow> string \<Rightarrow> resource_audit option result" where
  "audit_by_key rd key = optional_audit rd (row_by pa_audit_key key (rd_audits rd))"

text \<open>
  The goal of a task. \<^verbatim>\<open>UNION\<close> removes duplicates through a temporary index, which is then read in key
  order, so \<^verbatim>\<open>LIMIT 1\<close> keeps the smallest identifier.
\<close>

definition audited_goal :: "db \<Rightarrow> string \<Rightarrow> string option" where
  "audited_goal db task_id =
     (case sort (map ac_goal_id (filter (\<lambda>a. ac_task_id a = Some task_id) (autonomous_actions db)) @
         map dt_goal_id (filter (\<lambda>d. dt_task_id d = task_id) (autonomy_decision_tasks db))) of
        [] \<Rightarrow> None | g # _ \<Rightarrow> Some g)"

text \<open>The observations of an audit are written one after the other; \<open>uuid n\<close> is the random part of the n-th identifier.\<close>

fun record_snapshots ::
    "rat \<Rightarrow> (nat \<Rightarrow> string) \<Rightarrow> nat \<Rightarrow> audit_row \<Rightarrow> resource_observation list \<Rightarrow> resource_db \<Rightarrow> resource_db result" where
  "record_snapshots now uuid n row [] rd = Inr rd"
| "record_snapshots now uuid n row (ob # obs) rd =
     (let previous = latest_pool_row rd (ro_quota_pool_id ob);
          s = \<lparr>qs_id = ''resource-snapshot-'' @ uuid n, qs_audit_id = pa_id row, qs_project_id = pa_project_id row,
            qs_goal_id = pa_goal_id row, qs_task_id = pa_task_id row, qs_run_id = pa_run_id row, qs_observation = ob\<rparr>
      in bindR (insert_snapshot s rd) (\<lambda>rd.
         record_snapshots now uuid (Suc n) row obs (journal_usage now (snapshot_events now previous s) rd)))"

definition audit_references :: "db \<Rightarrow> audit_row \<Rightarrow> bool" where
  "audit_references db row \<longleftrightarrow>
     row_by pj_id (pa_project_id row) (projects db) \<noteq> None \<and>
     (case pa_goal_id row of None \<Rightarrow> True | Some g \<Rightarrow> row_by go_id g (autonomous_goals db) \<noteq> None)"

definition check_audited_run :: "db \<Rightarrow> string \<Rightarrow> string option \<Rightarrow> unit result" where
  "check_audited_run db task_id run_id =
     (case run_id of
        None \<Rightarrow> Inr ()
      | Some r \<Rightarrow>
          bindR (fetch rn_id r (worker_runs db) (KeyError r)) (\<lambda>run.
          raise_if (rn_task_id run \<noteq> task_id) (ValueError ''run does not belong to audited task'')))"

definition safe_errors :: "string list \<Rightarrow> string list" where
  "safe_errors errors = map (\<lambda>e. take 160 (redact_string e)) errors"

definition new_audit_row ::
    "rat \<Rightarrow> string \<Rightarrow> string \<Rightarrow> string \<Rightarrow> string option \<Rightarrow> string \<Rightarrow> string option \<Rightarrow> string \<Rightarrow> nat \<Rightarrow> nat \<Rightarrow>
     string list \<Rightarrow> moment \<Rightarrow> audit_row" where
  "new_audit_row now audit_id key project_id goal_id task_id run_id terminal_state observers snapshots errors observed_at =
     \<lparr>pa_id = audit_id, pa_audit_key = key, pa_project_id = project_id, pa_goal_id = goal_id, pa_task_id = task_id,
      pa_run_id = run_id, pa_terminal_state = terminal_state,
      pa_status = (if errors = [] then ''completed'' else ''completedWithErrors''), pa_observer_count = observers,
      pa_snapshot_count = snapshots, pa_errors = errors, pa_observed_at = format_time observed_at,
      pa_created_at = timestamp now\<rparr>"

text \<open>The transaction of \<^verbatim>\<open>record_audit\<close>; it gives the identifier of the audit with that key.\<close>

definition commit_audit ::
    "rat \<Rightarrow> (nat \<Rightarrow> string) \<Rightarrow> string \<Rightarrow> string \<Rightarrow> string \<Rightarrow> string option \<Rightarrow> string \<Rightarrow> resource_observation list \<Rightarrow> nat \<Rightarrow>
     string list \<Rightarrow> moment \<Rightarrow> resource_db \<Rightarrow> (resource_db \<times> string) result" where
  "commit_audit now uuid audit_id key task_id run_id terminal_state obs observers errors observed_at rd =
     (case row_by pa_audit_key key (rd_audits rd) of
        Some row \<Rightarrow> Inr (rd, pa_id row)
      | None \<Rightarrow>
          (let db = ud_db (rd_usage rd) in
           bindR (fetch tk_id task_id (tasks db) (KeyError task_id)) (\<lambda>task.
           bindR (check_audited_run db task_id run_id) (\<lambda>_.
           let row = new_audit_row now audit_id key (tk_project_id task) (audited_goal db task_id) task_id run_id
                 terminal_state observers (length obs) errors observed_at
           in bindR (raise_if (row_by pa_id audit_id (rd_audits rd) \<noteq> None \<or> \<not> audit_references db row)
                (IntegrityError ''post_task_usage_audits'')) (\<lambda>_.
              bindR (record_snapshots now uuid 0 row obs (rd\<lparr>rd_audits := rd_audits rd @ [row]\<rparr>)) (\<lambda>rd.
              Inr (rd, audit_id)))))))"

definition record_audit ::
    "rat \<Rightarrow> (nat \<Rightarrow> string) \<Rightarrow> string \<Rightarrow> string \<Rightarrow> string \<Rightarrow> string option \<Rightarrow> string \<Rightarrow> resource_observation list \<Rightarrow> nat \<Rightarrow>
     string list \<Rightarrow> moment \<Rightarrow> resource_db \<Rightarrow> (resource_db \<times> resource_audit) result" where
  "record_audit now uuid audit_id key task_id run_id terminal_state obs observers errors observed_at rd =
     bindR (raise_if (\<not> nonblank key \<or> \<not> nonblank terminal_state)
       (ValueError ''audit_key and terminal_state must not be empty'')) (\<lambda>_.
     bindR (raise_if (\<not> zoned observed_at) (ValueError ''observed_at must be timezone-aware'')) (\<lambda>_.
     bindR (commit_audit now uuid audit_id key task_id run_id terminal_state obs observers (safe_errors errors)
       observed_at rd) (\<lambda>(rd, existing_id).
     bindR (get_audit rd existing_id) (\<lambda>a.
     case a of
       None \<Rightarrow> Inl (RuntimeError ''resource audit disappeared after commit'')
     | Some a \<Rightarrow> Inr (rd, a)))))"

section \<open>Queries\<close>

record snapshot_filter =
  sf_goal_id :: "string option"
  sf_task_id :: "string option"
  sf_provider :: "string option"
  sf_model :: "string option"
  sf_worker_id :: "string option"
  sf_account_scope :: "string option"
  sf_quota_pool_id :: "string option"
  sf_observed_after :: "moment option"
  sf_observed_before :: "moment option"

definition wanted :: "'a option \<Rightarrow> 'a option \<Rightarrow> bool" where
  "wanted f v \<longleftrightarrow> f = None \<or> v = f"

definition snapshot_matches :: "snapshot_filter \<Rightarrow> resource_snapshot \<Rightarrow> bool" where
  "snapshot_matches f s \<longleftrightarrow>
     (let ob = qs_observation s; t = format_time (ro_observed_at ob) in
      wanted (sf_goal_id f) (qs_goal_id s) \<and> wanted (sf_task_id f) (Some (qs_task_id s)) \<and>
      wanted (sf_provider f) (Some (ro_provider ob)) \<and> wanted (sf_model f) (un_value (ro_model ob)) \<and>
      wanted (sf_worker_id f) (ro_worker_id ob) \<and> wanted (sf_account_scope f) (un_value (ro_account_scope ob)) \<and>
      wanted (sf_quota_pool_id f) (Some (ro_quota_pool_id ob)) \<and>
      (case sf_observed_after f of None \<Rightarrow> True | Some a \<Rightarrow> format_time a \<le> t) \<and>
      (case sf_observed_before f of None \<Rightarrow> True | Some b \<Rightarrow> t \<le> format_time b))"

definition list_snapshots :: "resource_db \<Rightarrow> snapshot_filter \<Rightarrow> int \<Rightarrow> resource_snapshot list result" where
  "list_snapshots rd f limit =
     bindR (raise_if (limit < 1 \<or> 10000 < limit) (ValueError ''limit must be between 1 and 10000'')) (\<lambda>_.
     map_result read_snapshot (take (nat limit) (sort_key observed_key (filter (snapshot_matches f) (rd_snapshots rd)))))"

definition newest :: "('a \<Rightarrow> resource_snapshot \<Rightarrow> bool) \<Rightarrow> 'a list \<Rightarrow> resource_db \<Rightarrow> ('a \<times> resource_snapshot) list result" where
  "newest P ks rd =
     map_result (\<lambda>(k, s). bindR (read_snapshot s) (\<lambda>s. Inr (k, s)))
       (concat (map (\<lambda>k. case latest_where (P k) rd of None \<Rightarrow> [] | Some s \<Rightarrow> [(k, s)]) ks))"

definition latest_by_pool :: "resource_db \<Rightarrow> (string \<times> resource_snapshot) list result" where
  "latest_by_pool rd =
     newest (\<lambda>pool s. pool_of s = pool) (sort (dict_fromkeys (map pool_of (rd_snapshots rd)))) rd"

definition latest_by_worker :: "resource_db \<Rightarrow> string list \<Rightarrow> (string \<times> resource_snapshot) list result" where
  "latest_by_worker rd worker_ids =
     newest (\<lambda>w s. ro_worker_id (qs_observation s) = Some w) (sort (dict_fromkeys worker_ids)) rd"

subsection \<open>Aggregates\<close>

record usage_aggregate =
  ug_values_by_unit :: "(string \<times> number) list"
  ug_known_count :: nat
  ug_unknown_count :: nat

definition add_to_unit :: "usage_metric \<Rightarrow> (string \<times> number) list \<Rightarrow> (string \<times> number) list" where
  "add_to_unit m totals =
     (let unit = (case um_unit m of None \<Rightarrow> [] | Some u \<Rightarrow> u);
          old = (case map_of totals unit of None \<Rightarrow> IntNum 0 | Some n \<Rightarrow> n)
      in AList.update unit (num_plus old (the (um_value m))) totals)"

definition aggregate_metric :: "(resource_observation \<Rightarrow> usage_metric) \<Rightarrow> resource_snapshot list \<Rightarrow> usage_aggregate" where
  "aggregate_metric field ss =
     (let metrics = map (\<lambda>s. field (qs_observation s)) ss; known = filter (\<lambda>m. um_value m \<noteq> None) metrics
      in \<lparr>ug_values_by_unit = fold add_to_unit known [], ug_known_count = length known,
          ug_unknown_count = length metrics - length known\<rparr>)"

text \<open>\<^verbatim>\<open>dict(Counter(...))\<close>: counts in order of first occurrence.\<close>

definition count_by :: "('a \<Rightarrow> string) \<Rightarrow> 'a list \<Rightarrow> (string \<times> nat) list" where
  "count_by key xs = map (\<lambda>k. (k, length (filter (\<lambda>x. key x = k) xs))) (dict_fromkeys (map key xs))"

definition or_unavailable :: "string option \<Rightarrow> string" where
  "or_unavailable v = (if truthy v then the v else ''unavailable'')"

definition newer_snapshot :: "resource_snapshot \<Rightarrow> resource_snapshot \<Rightarrow> bool" where
  "newer_snapshot a b \<longleftrightarrow>
     (moment_at (ro_observed_at (qs_observation b)), qs_id b) < (moment_at (ro_observed_at (qs_observation a)), qs_id a)"

definition keep_newest :: "resource_snapshot \<Rightarrow> (string \<times> resource_snapshot) list \<Rightarrow> (string \<times> resource_snapshot) list" where
  "keep_newest s latest =
     (if (case map_of latest (pool_of s) of None \<Rightarrow> True | Some c \<Rightarrow> newer_snapshot s c)
      then AList.update (pool_of s) s latest else latest)"

record resource_aggregate =
  rg_scope :: snapshot_filter
  rg_audit_count :: nat
  rg_snapshot_count :: nat
  rg_snapshots_by_provider :: "(string \<times> nat) list"
  rg_snapshots_by_model :: "(string \<times> nat) list"
  rg_snapshots_by_worker :: "(string \<times> nat) list"
  rg_snapshots_by_account_scope :: "(string \<times> nat) list"
  rg_snapshots_by_quota_pool :: "(string \<times> nat) list"
  rg_task_calls :: usage_aggregate
  rg_input_tokens :: usage_aggregate
  rg_output_tokens :: usage_aggregate
  rg_cached_tokens :: usage_aggregate
  rg_cost :: usage_aggregate
  rg_latest_by_quota_pool :: "(string \<times> resource_snapshot) list"

definition aggregate_usage :: "resource_db \<Rightarrow> snapshot_filter \<Rightarrow> resource_aggregate result" where
  "aggregate_usage rd f =
     bindR (list_snapshots rd f 10000) (\<lambda>ss.
     Inr \<lparr>rg_scope = f, rg_audit_count = length (dict_fromkeys (map qs_audit_id ss)), rg_snapshot_count = length ss,
       rg_snapshots_by_provider = count_by (\<lambda>s. ro_provider (qs_observation s)) ss,
       rg_snapshots_by_model = count_by (\<lambda>s. or_unavailable (un_value (ro_model (qs_observation s)))) ss,
       rg_snapshots_by_worker = count_by (\<lambda>s. or_unavailable (ro_worker_id (qs_observation s))) ss,
       rg_snapshots_by_account_scope = count_by (\<lambda>s. or_unavailable (un_value (ro_account_scope (qs_observation s)))) ss,
       rg_snapshots_by_quota_pool = count_by pool_of ss, rg_task_calls = aggregate_metric ro_task_calls ss,
       rg_input_tokens = aggregate_metric ro_input_tokens ss, rg_output_tokens = aggregate_metric ro_output_tokens ss,
       rg_cached_tokens = aggregate_metric ro_cached_tokens ss, rg_cost = aggregate_metric ro_cost ss,
       rg_latest_by_quota_pool = fold keep_newest ss []\<rparr>)"

section \<open>The audit after a task\<close>

record audit_context =
  cx_audit_id :: string
  cx_task_id :: string
  cx_run_id :: "string option"
  cx_project_id :: string
  cx_goal_id :: "string option"
  cx_terminal_state :: string
  cx_observed_at :: moment
  cx_cached_snapshots :: "resource_snapshot list"

text \<open>An observer is code outside the program: its exception is known by the name of its class.\<close>

record usage_observer =
  ob_name :: string
  ob_requires_inference :: bool
  ob_observe :: "audit_context \<Rightarrow> string + resource_observation list"

definition audit_context_of :: "resource_db \<Rightarrow> string \<Rightarrow> string \<Rightarrow> string option \<Rightarrow> string \<Rightarrow> moment \<Rightarrow> audit_context result" where
  "audit_context_of rd audit_id task_id run_id terminal_state observed_at =
     (let db = ud_db (rd_usage rd) in
      bindR (fetch tk_id task_id (tasks db) (KeyError task_id)) (\<lambda>task.
      bindR (latest_by_pool rd) (\<lambda>latest.
      Inr \<lparr>cx_audit_id = audit_id, cx_task_id = task_id, cx_run_id = run_id, cx_project_id = tk_project_id task,
        cx_goal_id = audited_goal db task_id, cx_terminal_state = terminal_state, cx_observed_at = observed_at,
        cx_cached_snapshots = map snd latest\<rparr>)))"

definition provenance_from_confidence :: "evidence_confidence \<Rightarrow> usage_provenance" where
  "provenance_from_confidence c =
     (case c of
        CONF_PROVIDER_REPORTED \<Rightarrow> PROV_PROVIDER_REPORTED
      | CONF_INFERRED \<Rightarrow> PROV_INFERRED
      | CONF_EXACT \<Rightarrow> PROV_LOCALLY_MEASURED
      | CONF_VERIFIED \<Rightarrow> PROV_LOCALLY_MEASURED
      | CONF_UNKNOWN \<Rightarrow> PROV_UNKNOWN)"

definition metric_from_invocation :: "observed_metric \<Rightarrow> usage_metric" where
  "metric_from_invocation m =
     (case om_value m of
        None \<Rightarrow> unknown_usage (case om_reason m of None \<Rightarrow> UNAVAIL_UNKNOWN | Some r \<Rightarrow> r)
      | Some v \<Rightarrow>
          if provenance_from_confidence (om_confidence m) = PROV_UNKNOWN then unknown_usage UNAVAIL_UNKNOWN
          else known_usage v (case om_unit m of None \<Rightarrow> ''None'' | Some u \<Rightarrow> u)
            (provenance_from_confidence (om_confidence m)))"

definition cached_from_invocation :: "invocation \<Rightarrow> usage_metric" where
  "cached_from_invocation i =
     (case (om_value (iv_cache_read_tokens i), om_value (iv_cache_write_tokens i)) of
        (Some a, Some b) \<Rightarrow>
          known_usage (num_plus a b) ''tokens'' (provenance_from_confidence (om_confidence (iv_cache_read_tokens i)))
      | _ \<Rightarrow> unknown_usage UNAVAIL_NOT_REPORTED)"

definition blank_observation :: "string \<Rightarrow> string \<Rightarrow> string \<Rightarrow> evidence_confidence \<Rightarrow> moment \<Rightarrow> resource_observation" where
  "blank_observation provider pool source c observed_at =
     \<lparr>ro_provider = provider, ro_quota_pool_id = pool, ro_account_scope = unknown_dimension UNAVAIL_NOT_REPORTED,
      ro_plan_tier = unknown_dimension UNAVAIL_NOT_REPORTED, ro_worker_id = None,
      ro_model = unknown_dimension UNAVAIL_NOT_REPORTED, ro_quota_window = unknown_dimension UNAVAIL_NOT_REPORTED,
      ro_used = unknown_usage UNAVAIL_NOT_REPORTED, ro_remaining = unknown_usage UNAVAIL_NOT_REPORTED,
      ro_reset_at = unknown_instant UNAVAIL_NOT_REPORTED, ro_task_calls = unknown_usage UNAVAIL_NOT_REPORTED,
      ro_input_tokens = unknown_usage UNAVAIL_NOT_REPORTED, ro_output_tokens = unknown_usage UNAVAIL_NOT_REPORTED,
      ro_cached_tokens = unknown_usage UNAVAIL_NOT_REPORTED, ro_cost = unknown_usage UNAVAIL_NOT_REPORTED,
      ro_quota_state = QUOTA_UNKNOWN, ro_quota_state_provenance = PROV_UNKNOWN, ro_source = source, ro_confidence = c,
      ro_observed_at = observed_at, ro_fresh_until = None, ro_reset_observed = False, ro_metadata = []\<rparr>"

definition observation_from_invocation :: "audit_context \<Rightarrow> invocation \<Rightarrow> resource_observation result" where
  "observation_from_invocation ctx i =
     construct_observation
       ((blank_observation (iv_provider i) (''local:'' @ iv_provider i @ '':worker:'' @ iv_worker_id i)
          ''invocationTelemetry'' CONF_EXACT (cx_observed_at ctx))
        \<lparr>ro_worker_id := Some (iv_worker_id i),
         ro_model := (case od_value (iv_model i) of
             Some v \<Rightarrow> known_dimension v PROV_PROVIDER_REPORTED
           | None \<Rightarrow> unknown_dimension (case od_reason (iv_model i) of None \<Rightarrow> UNAVAIL_UNKNOWN | Some r \<Rightarrow> r)),
         ro_task_calls := known_usage (IntNum 1) ''calls'' PROV_LOCALLY_MEASURED,
         ro_input_tokens := metric_from_invocation (iv_input_tokens i),
         ro_output_tokens := metric_from_invocation (iv_output_tokens i),
         ro_cached_tokens := cached_from_invocation i,
         ro_cost := metric_from_invocation (iv_cost i),
         ro_metadata := [(''runID'', JStr (iv_run_id i)), (''runOutcome'', JStr (invocation_outcome_value (iv_outcome i)))]\<rparr>)"

definition invocation_observations :: "resource_db \<Rightarrow> audit_context \<Rightarrow> resource_observation list result" where
  "invocation_observations rd ctx =
     map_result (observation_from_invocation ctx)
       (case cx_run_id ctx of
          None \<Rightarrow> sort_key recorded_key (filter (\<lambda>i. iv_task_id i = cx_task_id ctx) (ud_invocations (rd_usage rd)))
        | Some r \<Rightarrow> filter (\<lambda>i. iv_run_id i = r) (ud_invocations (rd_usage rd)))"

definition unknown_observation :: "resource_db \<Rightarrow> audit_context \<Rightarrow> resource_observation result" where
  "unknown_observation rd ctx =
     (let db = ud_db (rd_usage rd);
          row = (case cx_run_id ctx of
              None \<Rightarrow> None
            | Some r \<Rightarrow>
                (case row_by rn_id r (worker_runs db) of
                   None \<Rightarrow> None
                 | Some run \<Rightarrow> map_option (\<lambda>w. (wk_id w, provider_value (wk_provider w))) (row_by wk_id (rn_worker_id run) (workers db))));
          provider = (case row of None \<Rightarrow> ''unknown'' | Some (w, p) \<Rightarrow> p);
          worker_id = map_option fst row
      in construct_observation
           ((blank_observation provider
              (''unknown:'' @ provider @ '':'' @ (if truthy worker_id then the worker_id else cx_task_id ctx))
              ''postTaskAudit'' CONF_UNKNOWN (cx_observed_at ctx))\<lparr>ro_worker_id := worker_id\<rparr>))"

text \<open>
  A local observation is left out when the caller already supplied it: the same source, pool and
  metadata. The metadata of a local one has two keys with string values, so dictionaries are equal when
  they have the same items.
\<close>

definition same_observation :: "resource_observation \<Rightarrow> resource_observation \<Rightarrow> bool" where
  "same_observation a b \<longleftrightarrow>
     ro_source a = ro_source b \<and> ro_quota_pool_id a = ro_quota_pool_id b \<and> set (ro_metadata a) = set (ro_metadata b)"

definition add_local :: "resource_observation \<Rightarrow> resource_observation list \<Rightarrow> resource_observation list" where
  "add_local l collected = (if list_ex (\<lambda>ob. same_observation ob l) collected then collected else collected @ [l])"

text \<open>Observers that need inference are not called; a failing one only leaves an error.\<close>

record collection =
  cl_observations :: "resource_observation list"
  cl_errors :: "string list"
  cl_called :: nat

definition ask_observer :: "audit_context \<Rightarrow> usage_observer \<Rightarrow> collection \<Rightarrow> collection" where
  "ask_observer ctx obs c =
     (if ob_requires_inference obs then c\<lparr>cl_errors := cl_errors c @ [ob_name obs @ '':skippedInferenceRequired'']\<rparr>
      else (case ob_observe obs ctx of
          Inl cls \<Rightarrow> c\<lparr>cl_called := Suc (cl_called c), cl_errors := cl_errors c @ [ob_name obs @ '':'' @ cls]\<rparr>
        | Inr new \<Rightarrow> c\<lparr>cl_called := Suc (cl_called c), cl_observations := cl_observations c @ new\<rparr>))"

definition default_audit_key :: "string \<Rightarrow> string option \<Rightarrow> string \<Rightarrow> string" where
  "default_audit_key task_id run_id terminal_state =
     ''task:'' @ task_id @ '':run:'' @ (if truthy run_id then the run_id else ''none'') @ '':state:'' @ terminal_state"

definition audit_task_terminal ::
    "usage_observer list \<Rightarrow> rat \<Rightarrow> (nat \<Rightarrow> string) \<Rightarrow> string \<Rightarrow> string option \<Rightarrow> string \<Rightarrow> string option \<Rightarrow>
     resource_observation list \<Rightarrow> moment option \<Rightarrow> resource_db \<Rightarrow> (resource_db \<times> resource_audit) result" where
  "audit_task_terminal observers now uuid task_id run_id terminal_state audit_key supplied observed_at rd =
     (let key = (if truthy audit_key then the audit_key else default_audit_key task_id run_id terminal_state) in
      bindR (audit_by_key rd key) (\<lambda>existing.
      case existing of
        Some a \<Rightarrow> Inr (rd, a)
      | None \<Rightarrow>
          (let at_time = (case observed_at of None \<Rightarrow> Zoned now | Some t \<Rightarrow> t) in
           bindR (audit_context_of rd (''resource-audit-'' @ uuid 0) task_id run_id terminal_state at_time) (\<lambda>ctx.
           bindR (invocation_observations rd ctx) (\<lambda>local.
           let c = fold (ask_observer ctx) observers
                 \<lparr>cl_observations = fold add_local local supplied, cl_errors = [], cl_called = 0\<rparr>
           in bindR (if cl_observations c = [] then bindR (unknown_observation rd ctx) (\<lambda>ob. Inr [ob])
                     else Inr (cl_observations c)) (\<lambda>collected.
              record_audit now (\<lambda>n. uuid (Suc n)) (cx_audit_id ctx) key task_id run_id terminal_state collected
                (cl_called c) (cl_errors c) at_time rd))))))"

section \<open>The ledger reads back\<close>

definition valid_observation :: "resource_observation \<Rightarrow> bool" where
  "valid_observation ob \<longleftrightarrow> is_ok (construct_observation ob)"

definition ledger_valid :: "resource_db \<Rightarrow> bool" where
  "ledger_valid rd \<longleftrightarrow> (\<forall>s \<in> set (rd_snapshots rd). valid_observation (qs_observation s))"

lemma valid_observation_iff:
  "valid_observation ob \<longleftrightarrow>
     (\<forall>d \<in> set (observation_dimensions ob). check_usage_dimension d = Inr ()) \<and>
     (\<forall>m \<in> set (observation_metrics ob). check_usage_metric m = Inr ()) \<and>
     check_usage_instant (ro_reset_at ob) = Inr () \<and> check_observation ob = Inr ()"
  using map_result_units [of check_usage_dimension "observation_dimensions ob"]
    map_result_units [of check_usage_metric "observation_metrics ob"]
  by (auto simp: valid_observation_def is_ok_iff construct_observation_def)

lemma construct_observation_valid: "valid_observation ob \<Longrightarrow> construct_observation ob = Inr ob"
  by (auto simp: valid_observation_def is_ok_iff construct_observation_def)

lemma constructed_valid: "construct_observation ob = Inr ob' \<Longrightarrow> ob' = ob \<and> valid_observation ob"
  by (auto simp: valid_observation_def is_ok_iff construct_observation_def)

lemma real_usage_simps [simp]:
  "um_unit (real_usage m) = um_unit m" "um_provenance (real_usage m) = um_provenance m"
  "um_reason (real_usage m) = um_reason m"
  "um_value (real_usage m) = map_option (\<lambda>v. FloatNum (num_value v)) (um_value m)"
  by (simp_all add: real_usage_def)

lemma check_real_usage [simp]: "check_usage_metric (real_usage m) = check_usage_metric m"
  by (cases "um_value m") (simp_all add: check_usage_metric_def)

lemma whole_second_simps [simp]:
  "zoned (whole_second t)" "moment_at (whole_second t) = of_int \<lfloor>moment_at t\<rfloor>"
  by (simp_all add: whole_second_def parse_time_def format_time_def timestamp_def)

lemma format_whole_second [simp]: "format_time (whole_second t) = format_time t"
  by (simp add: format_time_def timestamp_def)

lemma check_times_row:
  "check_observation_times ob = Inr () \<Longrightarrow> check_observation_times (observation_row ob) = Inr ()"
  by (cases "ro_fresh_until ob") (auto simp: check_observation_times_def observation_row_def not_less floor_mono)

lemma check_quota_row: "check_quota_claim (observation_row ob) = check_quota_claim ob"
  by (cases "um_value (ro_remaining ob)") (simp_all add: check_quota_claim_def observation_row_def)

lemma observation_row_fields [simp]:
  "ro_provider (observation_row ob) = ro_provider ob" "ro_quota_pool_id (observation_row ob) = ro_quota_pool_id ob"
  "ro_source (observation_row ob) = ro_source ob" "ro_worker_id (observation_row ob) = ro_worker_id ob"
  "ro_task_calls (observation_row ob) = ro_task_calls ob" "ro_input_tokens (observation_row ob) = ro_input_tokens ob"
  "ro_output_tokens (observation_row ob) = ro_output_tokens ob" "ro_cached_tokens (observation_row ob) = ro_cached_tokens ob"
  "ro_quota_state (observation_row ob) = ro_quota_state ob"
  "ro_quota_state_provenance (observation_row ob) = ro_quota_state_provenance ob"
  "ro_confidence (observation_row ob) = ro_confidence ob"
  by (simp_all add: observation_row_def)

lemma valid_observation_row:
  assumes "valid_observation ob" shows "valid_observation (observation_row ob)"
proof -
  have "check_observation (observation_row ob) = Inr ()"
    using assms check_times_row [of ob] by (auto simp: valid_observation_iff check_observation_def check_quota_row)
  moreover have "check_usage_instant (ro_reset_at (observation_row ob)) = Inr ()"
    using assms
    by (cases "ui_value (ro_reset_at ob)") (auto simp: valid_observation_iff check_usage_instant_def observation_row_def)
  ultimately show ?thesis
    using assms by (auto simp: valid_observation_iff observation_dimensions_def observation_metrics_def observation_row_def)
qed

lemma insert_snapshot_rows:
  "insert_snapshot s rd = Inr rd' \<Longrightarrow>
     rd' = rd\<lparr>rd_snapshots := rd_snapshots rd @ [s\<lparr>qs_observation := observation_row (qs_observation s)\<rparr>]\<rparr> \<and>
     row_by qs_id (qs_id s) (rd_snapshots rd) = None"
  by (auto simp: insert_snapshot_def)

lemma journal_usage_simps [simp]:
  "rd_audits (journal_usage now es rd) = rd_audits rd" "rd_snapshots (journal_usage now es rd) = rd_snapshots rd"
  "ud_invocations (rd_usage (journal_usage now es rd)) = ud_invocations (rd_usage rd)"
  "ud_db (rd_usage (journal_usage now es rd)) = append_events now es (ud_db (rd_usage rd))"
  by (simp_all add: journal_usage_def)

text \<open>What writing the snapshots of an audit does to the ledger.\<close>

definition audit_snapshot :: "(nat \<Rightarrow> string) \<Rightarrow> nat \<Rightarrow> audit_row \<Rightarrow> resource_observation \<Rightarrow> resource_snapshot" where
  "audit_snapshot uuid n row ob =
     \<lparr>qs_id = ''resource-snapshot-'' @ uuid n, qs_audit_id = pa_id row, qs_project_id = pa_project_id row,
      qs_goal_id = pa_goal_id row, qs_task_id = pa_task_id row, qs_run_id = pa_run_id row,
      qs_observation = observation_row ob\<rparr>"

fun audit_snapshots :: "(nat \<Rightarrow> string) \<Rightarrow> nat \<Rightarrow> audit_row \<Rightarrow> resource_observation list \<Rightarrow> resource_snapshot list" where
  "audit_snapshots uuid n row [] = []"
| "audit_snapshots uuid n row (ob # obs) = audit_snapshot uuid n row ob # audit_snapshots uuid (Suc n) row obs"

lemma record_snapshots_rows:
  "record_snapshots now uuid n row obs rd = Inr rd' \<Longrightarrow>
     rd_snapshots rd' = rd_snapshots rd @ audit_snapshots uuid n row obs \<and> rd_audits rd' = rd_audits rd"
proof (induction obs arbitrary: n rd)
  case (Cons ob obs)
  then show ?case
    by (fastforce simp: Let_def audit_snapshot_def dest!: insert_snapshot_rows)
qed simp

lemma set_audit_snapshots:
  "s \<in> set (audit_snapshots uuid n row obs) \<Longrightarrow> \<exists>ob \<in> set obs. qs_observation s = observation_row ob \<and> qs_audit_id s = pa_id row"
  by (induction obs arbitrary: n) (auto simp: audit_snapshot_def)

lemma commit_audit_cases:
  assumes "commit_audit now uuid audit_id key task_id run_id st obs n errors t rd = Inr (rd', i)"
  obtains row where "row_by pa_audit_key key (rd_audits rd) = Some row" "rd' = rd" "i = pa_id row"
  | row where "row_by pa_audit_key key (rd_audits rd) = None" "pa_id row = audit_id" "pa_audit_key row = key"
      "row_by pa_id audit_id (rd_audits rd) = None" "i = audit_id" "rd_audits rd' = rd_audits rd @ [row]"
      "rd_snapshots rd' = rd_snapshots rd @ audit_snapshots uuid 0 row obs"
proof (cases "row_by pa_audit_key key (rd_audits rd)")
  case None
  then obtain task :: task_row where
    task: "row_by pa_id audit_id (rd_audits rd) = None" "i = audit_id"
      "record_snapshots now uuid 0 (new_audit_row now audit_id key (tk_project_id task)
          (audited_goal (ud_db (rd_usage rd)) task_id) task_id run_id st n (length obs) errors t) obs
        (rd\<lparr>rd_audits := rd_audits rd @ [new_audit_row now audit_id key (tk_project_id task)
          (audited_goal (ud_db (rd_usage rd)) task_id) task_id run_id st n (length obs) errors t]\<rparr>) = Inr rd'"
    using assms by (clarsimp simp: commit_audit_def Let_def)
  show ?thesis
    using None task(1,2) record_snapshots_rows [OF task(3)]
    by (intro that(2) [of "new_audit_row now audit_id key (tk_project_id task)
          (audited_goal (ud_db (rd_usage rd)) task_id) task_id run_id st n (length obs) errors t"])
      (simp_all add: new_audit_row_def)
next
  case (Some row)
  with assms have "rd' = rd" "i = pa_id row" by (simp_all add: commit_audit_def)
  with Some show ?thesis by (rule that(1))
qed

lemma read_snapshots_valid:
  assumes "ledger_valid rd" and "set ss \<subseteq> set (rd_snapshots rd)"
  shows "map_result read_snapshot ss = Inr ss"
proof -
  have "read_snapshot s = Inr (id s)" if "s \<in> set ss" for s
    using assms that construct_observation_valid by (auto simp: ledger_valid_def read_snapshot_def)
  then show ?thesis using map_result_total [of ss read_snapshot id] by simp
qed

lemma list_snapshots_for_audit_valid:
  "ledger_valid rd \<Longrightarrow>
     list_snapshots_for_audit rd i = Inr (sort_key observed_key (filter (\<lambda>s. qs_audit_id s = i) (rd_snapshots rd)))"
  unfolding list_snapshots_for_audit_def by (rule read_snapshots_valid) auto

lemma optional_audit_valid:
  assumes "ledger_valid rd"
  shows "optional_audit rd row = Inr (map_option (\<lambda>r. \<lparr>aq_row = r, aq_snapshots =
    sort_key observed_key (filter (\<lambda>s. qs_audit_id s = pa_id r) (rd_snapshots rd))\<rparr>) row)"
  by (cases row) (simp_all add: optional_audit_def audit_from_row_def list_snapshots_for_audit_valid [OF assms])

text \<open>Audits have unique identifiers and keys, and every snapshot belongs to one.\<close>

definition audits_keyed :: "resource_db \<Rightarrow> bool" where
  "audits_keyed rd \<longleftrightarrow> unique_key pa_id (rd_audits rd) \<and> unique_key pa_audit_key (rd_audits rd) \<and>
     (\<forall>s \<in> set (rd_snapshots rd). row_by pa_id (qs_audit_id s) (rd_audits rd) \<noteq> None)"

lemma commit_audit_keeps:
  assumes commit: "commit_audit now uuid audit_id key task_id run_id st obs n errors t rd = Inr (rd', i)"
    and "ledger_valid rd" and "audits_keyed rd" and obs: "\<And>ob. ob \<in> set obs \<Longrightarrow> valid_observation ob"
  shows "ledger_valid rd'" and "audits_keyed rd'"
    and "\<exists>row. row_by pa_audit_key key (rd_audits rd') = Some row \<and> row_by pa_id i (rd_audits rd') = Some row"
proof -
  have "ledger_valid rd' \<and> audits_keyed rd' \<and>
    (\<exists>row. row_by pa_audit_key key (rd_audits rd') = Some row \<and> row_by pa_id i (rd_audits rd') = Some row)"
    using commit
  proof (cases rule: commit_audit_cases)
    case (1 row)
    then have "row_by pa_id (pa_id row) (rd_audits rd) = Some row"
      using assms(3) row_by_SomeD row_by_in unfolding audits_keyed_def by metis
    with 1 assms show ?thesis by auto
  next
    case (2 row)
    have "ledger_valid rd'"
      using assms(2) obs valid_observation_row by (auto simp: ledger_valid_def 2 dest!: set_audit_snapshots)
    moreover have "audits_keyed rd'"
      using assms(3) 2
      by (fastforce simp: audits_keyed_def unique_key_snoc row_by_append row_by_Cons split: option.splits
          dest!: set_audit_snapshots)
    ultimately show ?thesis using 2 by (simp add: row_by_append row_by_Cons)
  qed
  then show "ledger_valid rd'" "audits_keyed rd'"
    "\<exists>row. row_by pa_audit_key key (rd_audits rd') = Some row \<and> row_by pa_id i (rd_audits rd') = Some row"
    by blast+
qed

lemma record_audit_stored:
  assumes audit: "record_audit now uuid audit_id key task_id run_id st obs n errors t rd = Inr (rd', a)"
    and "ledger_valid rd" and "audits_keyed rd" and "\<And>ob. ob \<in> set obs \<Longrightarrow> valid_observation ob"
  shows "audit_by_key rd' key = Inr (Some a)" and "ledger_valid rd'" and "audits_keyed rd'"
proof -
  obtain i where commit: "commit_audit now uuid audit_id key task_id run_id st obs n (safe_errors errors) t rd = Inr (rd', i)"
    and get: "get_audit rd' i = Inr (Some a)"
    using audit by (auto simp: record_audit_def split: option.splits)
  note kept = commit_audit_keeps [OF commit assms(2,3,4)]
  then show "ledger_valid rd'" "audits_keyed rd'" by blast+
  obtain row where "row_by pa_audit_key key (rd_audits rd') = Some row" "row_by pa_id i (rd_audits rd') = Some row"
    using kept(3) by blast
  with get show "audit_by_key rd' key = Inr (Some a)" by (simp add: get_audit_def audit_by_key_def)
qed

text \<open>Everything an audit collects was constructed, so its checks hold.\<close>

lemma invocation_observations_valid:
  assumes "invocation_observations rd ctx = Inr obs" and "ob \<in> set obs"
  shows "valid_observation ob"
  using map_result_Inr_member [OF assms [unfolded invocation_observations_def]]
  by (auto simp: observation_from_invocation_def dest: constructed_valid)

lemma fold_add_local: "ob \<in> set (fold add_local ls obs) \<Longrightarrow> ob \<in> set ls \<union> set obs"
proof (induction ls arbitrary: obs)
  case (Cons l ls)
  have "set (add_local l obs) \<subseteq> insert l (set obs)" by (auto simp: add_local_def)
  with Cons.prems Cons.IH [of "add_local l obs"] show ?case by auto
qed simp

definition observers_valid :: "usage_observer list \<Rightarrow> bool" where
  "observers_valid observers \<longleftrightarrow>
     (\<forall>o' \<in> set observers. \<forall>ctx obs. ob_observe o' ctx = Inr obs \<longrightarrow> list_all valid_observation obs)"

lemma fold_ask_observer:
  assumes "observers_valid observers" and "list_all valid_observation (cl_observations c)"
  shows "list_all valid_observation (cl_observations (fold (ask_observer ctx) observers c))"
  using assms
proof (induction observers arbitrary: c)
  case (Cons obs observers)
  then have "list_all valid_observation (cl_observations (ask_observer ctx obs c))"
    by (auto simp: ask_observer_def observers_valid_def split: sum.splits)
  moreover have "observers_valid observers" using Cons.prems by (simp add: observers_valid_def)
  ultimately show ?case using Cons.IH by simp
qed simp

text \<open>
  C1. The audit of a task is idempotent: repeating it with the same key, whatever observers are then
  registered and whatever they would report, returns the first audit and changes nothing.
\<close>

theorem audit_idempotent:
  assumes "ledger_valid rd" and "audits_keyed rd" and "observers_valid observers"
    and "list_all valid_observation supplied"
    and "audit_task_terminal observers now uuid task_id run_id st (Some key) supplied t rd = Inr (rd', a)" and "key \<noteq> []"
  shows "audit_task_terminal observers' now' uuid' task_id' run_id' st' (Some key) supplied' t' rd' = Inr (rd', a)"
proof -
  have "audit_by_key rd' key = Inr (Some a)"
  proof (cases "row_by pa_audit_key key (rd_audits rd)")
    case (Some row)
    then obtain b where "audit_by_key rd key = Inr (Some b)"
      by (simp add: audit_by_key_def optional_audit_valid [OF assms(1)])
    with assms(5,6) show ?thesis by (simp add: audit_task_terminal_def truthy_def)
  next
    case None
    define t0 where "t0 = (case t of None \<Rightarrow> Zoned now | Some t \<Rightarrow> t)"
    obtain ctx ls obs n errors where
      stored: "record_audit now (\<lambda>n. uuid (Suc n)) (cx_audit_id ctx) key task_id run_id st obs n errors t0 rd = Inr (rd', a)"
      and ls: "invocation_observations rd ctx = Inr ls"
      and obs: "(\<exists>ob. unknown_observation rd ctx = Inr ob \<and> obs = [ob]) \<or>
        obs = cl_observations (fold (ask_observer ctx) observers \<lparr>cl_observations = fold add_local ls supplied, cl_errors = [], cl_called = 0\<rparr>)"
      using assms(5,6) None
      by (auto simp: audit_task_terminal_def truthy_def audit_by_key_def optional_audit_def Let_def t0_def split: if_splits)
    have "list_all valid_observation (fold add_local ls supplied)"
      using invocation_observations_valid [OF ls] assms(4) fold_add_local by (fastforce simp: list_all_iff)
    then have "list_all valid_observation (cl_observations (fold (ask_observer ctx) observers
        \<lparr>cl_observations = fold add_local ls supplied, cl_errors = [], cl_called = 0\<rparr>))"
      by (intro fold_ask_observer [OF assms(3)]) simp
    moreover have "valid_observation ob" if "unknown_observation rd ctx = Inr ob" for ob
      using that constructed_valid unfolding unknown_observation_def Let_def by blast
    ultimately have "valid_observation ob" if "ob \<in> set obs" for ob
      using obs that by (auto simp: list_all_iff)
    then show ?thesis using record_audit_stored [OF stored assms(1,2)] by blast
  qed
  then show ?thesis using assms(6) by (simp add: audit_task_terminal_def truthy_def)
qed

section \<open>Examples\<close>

definition usage_project :: project_row where
  "usage_project = \<lparr>pj_id = ''p1'', pj_name = ''demo'', pj_root_path = ''/srv'', pj_goal = ''ship'',
     pj_phase = PHASE_INITIALIZING, pj_created_at = 0, pj_updated_at = 0\<rparr>"

definition ledger_sample :: resource_db where
  "ledger_sample = \<lparr>rd_usage = \<lparr>ud_db = running_db\<lparr>nodes := [usage_node], projects := [usage_project]\<rparr>, ud_invocations = []\<rparr>,
     rd_audits = [], rd_snapshots = []\<rparr>"

definition failing_observer :: usage_observer where
  "failing_observer = \<lparr>ob_name = ''status'', ob_requires_inference = False, ob_observe = \<lambda>_. Inl ''OSError''\<rparr>"

lemma ledger_sample_valid: "ledger_valid ledger_sample" "audits_keyed ledger_sample"
  by (simp_all add: ledger_valid_def audits_keyed_def ledger_sample_def unique_key_def)

lemmas observation_simps = construct_observation_def observation_dimensions_def observation_metrics_def
  check_usage_dimension_def check_usage_metric_def check_usage_instant_def check_observation_def
  check_observation_times_def check_quota_claim_def validate_count_metric_def first_blank_def
  blank_observation_def unknown_dimension_def unknown_usage_def unknown_instant_def

lemma ledger_sample_audit:
  "is_ok (audit_task_terminal [failing_observer] 9 show_nat ''t'' (Some ''r'') ''review'' (Some ''k'') [] None ledger_sample)"
proof -
  let ?ob = "(blank_observation ''openai'' ''unknown:openai:w'' ''postTaskAudit'' CONF_UNKNOWN (Zoned 9))\<lparr>ro_worker_id := Some ''w''\<rparr>"
  have valid: "valid_observation ?ob"
    by (simp add: valid_observation_def observation_simps py_isspace_def)
  have row: "valid_observation (observation_row ?ob)" using valid by (rule valid_observation_row)
  have "snapshot_checks ?ob" "list_all bindable_usage (observation_metrics ?ob)"
    by (simp_all add: snapshot_checks_def dimension_columns_ok_def usage_columns_ok_def bindable_usage_def observation_simps)
  then show ?thesis
    using construct_observation_valid [OF valid] construct_observation_valid [OF row]
    by (simp add: audit_task_terminal_def truthy_def audit_by_key_def optional_audit_def ledger_sample_def
        audit_context_of_def running_simps latest_by_pool_def newest_def dict_fromkeys_def audited_goal_def
        invocation_observations_def ask_observer_def failing_observer_def unknown_observation_def record_audit_def
        py_isspace_def commit_audit_def check_audited_run_def new_audit_row_def audit_references_def usage_project_def
        latest_pool_row_def latest_where_def insert_snapshot_def snapshot_references_def journal_usage_def
        get_audit_def audit_from_row_def list_snapshots_for_audit_def read_snapshot_def Let_def)
qed

theorem audit_idempotent_witness:
  "\<exists>rd' a. audit_task_terminal [failing_observer] 9 show_nat ''t'' (Some ''r'') ''review'' (Some ''k'') [] None ledger_sample = Inr (rd', a) \<and>
     audit_task_terminal [] 11 show_nat ''t'' (Some ''r'') ''review'' (Some ''k'') [] None rd' = Inr (rd', a)"
proof -
  obtain rd' a where first:
    "audit_task_terminal [failing_observer] 9 show_nat ''t'' (Some ''r'') ''review'' (Some ''k'') [] None ledger_sample = Inr (rd', a)"
    using ledger_sample_audit by (auto simp: is_ok_iff)
  have "observers_valid [failing_observer]" by (simp add: observers_valid_def failing_observer_def)
  from audit_idempotent [OF ledger_sample_valid this _ first] first show ?thesis by simp
qed

end
