(* ===== verification/Resource_Economics.thy ===== *)
theory Resource_Economics
  imports Resource_Usage
begin

text \<open>
  Derived economics, \<^verbatim>\<open>src/project_supervisor/resource_economics.py\<close>: offload ratios and tokens per successful goal
  and accepted task. A rate is known only when every goal or task it is about is covered completely.
\<close>

section \<open>Rows\<close>

record token_coverage =
  tc_invocation_count :: nat
  tc_complete_invocation_count :: nat
  tc_unknown_invocation_count :: nat
  tc_successful_goals_complete :: nat
  tc_accepted_tasks_complete :: nat
  tc_codex_call_count :: nat
  tc_offloaded_call_count :: nat
  tc_unknown_executor_call_count :: nat
  tc_scored_call_count :: nat
  tc_unscored_call_count :: nat

record economics_aggregate =
  ec_project_id :: "string option"
  ec_goal_id :: "string option"
  ec_codex_offload_ratio :: usage_metric
  ec_quality_adjusted_offload :: usage_metric
  ec_tokens_per_successful_goal :: usage_metric
  ec_tokens_per_accepted_task :: usage_metric
  ec_successful_goal_count :: nat
  ec_accepted_task_count :: nat
  ec_coverage :: token_coverage

text \<open>\<^verbatim>\<open>FROM invocation_telemetry i JOIN tasks t ON t.id=i.task_id\<close> within a project and a goal.\<close>

definition economics_rows :: "usage_tables \<Rightarrow> string option \<Rightarrow> string option \<Rightarrow> invocation list" where
  "economics_rows u project_id goal_id =
     filter (\<lambda>i. case row_by tk_id (iv_task_id i) (tasks (ud_db u)) of
         None \<Rightarrow> False
       | Some t \<Rightarrow> (project_id = None \<or> Some (tk_project_id t) = project_id) \<and> (goal_id = None \<or> iv_goal_id i = goal_id))
       (ud_invocations u)"

record classification =
  cf_total :: nat
  cf_codex :: nat
  cf_offloaded :: nat
  cf_unknown :: nat
  cf_scored :: nat
  cf_total_quality :: rat
  cf_offloaded_quality :: rat

text \<open>\<^verbatim>\<open>SUM\<close> skips the missing scores.\<close>

definition quality_sum :: "invocation list \<Rightarrow> rat" where
  "quality_sum rs =
     sum_list (map (\<lambda>r. num_value (the (om_value (iv_quality_score r))))
       (filter (\<lambda>r. om_value (iv_quality_score r) \<noteq> None) rs))"

definition classify :: "invocation list \<Rightarrow> classification" where
  "classify rs =
     \<lparr>cf_total = length rs, cf_codex = length (executed_by EXEC_CODEX rs),
      cf_offloaded = length (executed_by EXEC_OFFLOADED rs), cf_unknown = length (executed_by EXEC_UNKNOWN rs),
      cf_scored = length (filter (\<lambda>r. iv_executor_kind r \<noteq> EXEC_UNKNOWN \<and> om_value (iv_quality_score r) \<noteq> None) rs),
      cf_total_quality = quality_sum (filter (\<lambda>r. iv_executor_kind r \<noteq> EXEC_UNKNOWN) rs),
      cf_offloaded_quality = quality_sum (executed_by EXEC_OFFLOADED rs)\<rparr>"

definition token_rows :: "usage_tables \<Rightarrow> string option \<Rightarrow> string option \<Rightarrow> invocation list" where
  "token_rows u project_id goal_id = sort_key recorded_key (economics_rows u project_id goal_id)"

definition successful_goal_ids :: "db \<Rightarrow> string option \<Rightarrow> string option \<Rightarrow> string list" where
  "successful_goal_ids db project_id goal_id =
     map go_id (filter (\<lambda>g. go_state g = GOAL_TERMINATED \<and> go_termination_reason g = Some TERM_SUCCESS \<and>
       (project_id = None \<or> Some (go_project_id g) = project_id) \<and> (goal_id = None \<or> Some (go_id g) = goal_id))
       (autonomous_goals db))"

definition task_of_goal :: "db \<Rightarrow> string \<Rightarrow> string \<Rightarrow> bool" where
  "task_of_goal db task_id goal_id \<longleftrightarrow>
     list_ex (\<lambda>a. ac_task_id a = Some task_id \<and> ac_goal_id a = goal_id) (autonomous_actions db) \<or>
     list_ex (\<lambda>d. dt_task_id d = task_id \<and> dt_goal_id d = goal_id) (autonomy_decision_tasks db)"

definition accepted_task_ids :: "db \<Rightarrow> string option \<Rightarrow> string option \<Rightarrow> string list" where
  "accepted_task_ids db project_id goal_id =
     map tk_id (filter (\<lambda>t. tk_state t = TASK_SUCCEEDED \<and>
       (project_id = None \<or> Some (tk_project_id t) = project_id) \<and>
       (case goal_id of None \<Rightarrow> True | Some g \<Rightarrow> task_of_goal db (tk_id t) g)) (tasks db))"

section \<open>Rates\<close>

definition row_tokens :: "invocation \<Rightarrow> rat option" where
  "row_tokens i =
     (case (om_value (iv_input_tokens i), om_value (iv_output_tokens i)) of
        (Some a, Some b) \<Rightarrow> Some (num_value a + num_value b)
      | _ \<Rightarrow> None)"

definition entity_complete :: "(invocation \<Rightarrow> string option) \<Rightarrow> invocation list \<Rightarrow> string \<Rightarrow> bool" where
  "entity_complete key rows ident =
     (let matching = filter (\<lambda>r. key r = Some ident) rows
      in matching \<noteq> [] \<and> list_all (\<lambda>r. row_tokens r \<noteq> None) matching)"

definition tokens_per_entity :: "(invocation \<Rightarrow> string option) \<Rightarrow> invocation list \<Rightarrow> string list \<Rightarrow> usage_metric" where
  "tokens_per_entity key rows idents =
     (if idents = [] \<or> \<not> list_all (entity_complete key rows) idents then unknown_usage UNAVAIL_NOT_REPORTED
      else (let relevant = filter (\<lambda>r. case key r of None \<Rightarrow> False | Some k \<Rightarrow> k \<in> set idents) rows;
                total = sum_list (map (\<lambda>r. case row_tokens r of None \<Rightarrow> 0 | Some n \<Rightarrow> n) relevant)
            in known_usage (FloatNum (total / of_nat (length idents))) ''tokens'' PROV_INFERRED))"

definition economics_metric :: "rat option \<Rightarrow> usage_provenance \<Rightarrow> usage_metric" where
  "economics_metric v p =
     (case v of None \<Rightarrow> unknown_usage UNAVAIL_NOT_REPORTED | Some x \<Rightarrow> known_usage (FloatNum x) ''ratio'' p)"

definition offload_value :: "classification \<Rightarrow> rat option" where
  "offload_value c =
     (if cf_codex c + cf_offloaded c \<noteq> 0 then Some (of_nat (cf_offloaded c) / of_nat (cf_codex c + cf_offloaded c)) else None)"

definition quality_offload_value :: "classification \<Rightarrow> rat option" where
  "quality_offload_value c =
     (if 0 < cf_total_quality c then Some (cf_offloaded_quality c / cf_total_quality c) else None)"

definition economics_of :: "usage_tables \<Rightarrow> string option \<Rightarrow> string option \<Rightarrow> economics_aggregate" where
  "economics_of u project_id goal_id =
     (let c = classify (economics_rows u project_id goal_id); rows = token_rows u project_id goal_id;
          goals = successful_goal_ids (ud_db u) project_id goal_id;
          accepted = accepted_task_ids (ud_db u) project_id goal_id;
          complete = filter (\<lambda>r. row_tokens r \<noteq> None) rows;
          task_key = (\<lambda>r. Some (iv_task_id r))
      in \<lparr>ec_project_id = project_id, ec_goal_id = goal_id,
          ec_codex_offload_ratio = economics_metric (offload_value c) PROV_LOCALLY_MEASURED,
          ec_quality_adjusted_offload = economics_metric (quality_offload_value c) PROV_INFERRED,
          ec_tokens_per_successful_goal = tokens_per_entity iv_goal_id rows goals,
          ec_tokens_per_accepted_task = tokens_per_entity task_key rows accepted,
          ec_successful_goal_count = length goals, ec_accepted_task_count = length accepted,
          ec_coverage = \<lparr>tc_invocation_count = length rows, tc_complete_invocation_count = length complete,
            tc_unknown_invocation_count = length rows - length complete,
            tc_successful_goals_complete = length (filter (entity_complete iv_goal_id rows) goals),
            tc_accepted_tasks_complete = length (filter (entity_complete task_key rows) accepted),
            tc_codex_call_count = cf_codex c, tc_offloaded_call_count = cf_offloaded c,
            tc_unknown_executor_call_count = cf_unknown c, tc_scored_call_count = cf_scored c,
            tc_unscored_call_count = cf_total c - cf_scored c\<rparr>\<rparr>)"

text \<open>The metrics are constructed with their checks, of which only the sign of a value could fail.\<close>

definition checked_economics :: "economics_aggregate \<Rightarrow> economics_aggregate result" where
  "checked_economics a =
     bindR (map_result check_usage_metric [ec_codex_offload_ratio a, ec_quality_adjusted_offload a,
       ec_tokens_per_successful_goal a, ec_tokens_per_accepted_task a]) (\<lambda>_. Inr a)"

definition aggregate_economics :: "usage_tables \<Rightarrow> string option \<Rightarrow> string option \<Rightarrow> economics_aggregate result" where
  "aggregate_economics u project_id goal_id =
     (case goal_id of
        None \<Rightarrow> checked_economics (economics_of u project_id None)
      | Some g \<Rightarrow>
          bindR (fetch go_id g (autonomous_goals (ud_db u)) (KeyError g)) (\<lambda>goal.
          bindR (raise_if (project_id \<noteq> None \<and> project_id \<noteq> Some (go_project_id goal))
            (ValueError ''goal does not belong to requested project'')) (\<lambda>_.
          checked_economics (economics_of u (Some (go_project_id goal)) (Some g)))))"

definition coverage_to_protocol :: "token_coverage \<Rightarrow> (string \<times> json) list" where
  "coverage_to_protocol c =
     [(''invocationCount'', json_nat (tc_invocation_count c)),
      (''completeInvocationCount'', json_nat (tc_complete_invocation_count c)),
      (''unknownInvocationCount'', json_nat (tc_unknown_invocation_count c)),
      (''successfulGoalsWithCompleteTelemetry'', json_nat (tc_successful_goals_complete c)),
      (''acceptedTasksWithCompleteTelemetry'', json_nat (tc_accepted_tasks_complete c)),
      (''codexCallCount'', json_nat (tc_codex_call_count c)),
      (''offloadedCallCount'', json_nat (tc_offloaded_call_count c)),
      (''unknownExecutorCallCount'', json_nat (tc_unknown_executor_call_count c)),
      (''scoredCallCount'', json_nat (tc_scored_call_count c)),
      (''unscoredCallCount'', json_nat (tc_unscored_call_count c))]"

definition economics_to_protocol :: "economics_aggregate \<Rightarrow> (string \<times> json) list" where
  "economics_to_protocol a =
     [(''scope'', JObj [(''projectID'', json_opt JStr (ec_project_id a)), (''goalID'', json_opt JStr (ec_goal_id a))]),
      (''tokenDefinition'', JStr ''inputPlusOutput''),
      (''codexOffloadRatio'', JObj (usage_metric_to_protocol (ec_codex_offload_ratio a))),
      (''qualityAdjustedOffload'', JObj (usage_metric_to_protocol (ec_quality_adjusted_offload a))),
      (''tokensPerSuccessfulGoal'', JObj (usage_metric_to_protocol (ec_tokens_per_successful_goal a))),
      (''tokensPerAcceptedTask'', JObj (usage_metric_to_protocol (ec_tokens_per_accepted_task a))),
      (''successfulGoalCount'', json_nat (ec_successful_goal_count a)),
      (''acceptedTaskCount'', json_nat (ec_accepted_task_count a)),
      (''coverage'', JObj (coverage_to_protocol (ec_coverage a)))]"

section \<open>Agreement with the telemetry\<close>

text \<open>
  The telemetry and the economics compute the offload ratios independently, one in Python over the
  records it read and one in SQL over a join with the tasks.
\<close>

lemma economics_rows_scope:
  assumes "\<And>i. i \<in> set (ud_invocations u) \<Longrightarrow> row_by tk_id (iv_task_id i) (tasks (ud_db u)) \<noteq> None"
  shows "mset (economics_rows u None g) = mset (scoped_invocations u g None)"
proof -
  have "economics_rows u None g = filter (\<lambda>i. g = None \<or> iv_goal_id i = g) (ud_invocations u)"
    unfolding economics_rows_def
    by (intro filter_cong) (use assms in \<open>fastforce split: option.splits\<close>)+
  then show ?thesis by (simp add: scoped_invocations_def)
qed

lemma executed_by_mset: "mset xs = mset ys \<Longrightarrow> mset (executed_by k xs) = mset (executed_by k ys)"
  by (simp add: executed_by_def mset_filter)

lemma mset_sum_list: "mset xs = mset ys \<Longrightarrow> sum_list (map f xs) = (sum_list (map f ys) :: rat)"
  by (metis mset_map sum_mset_sum_list)

lemma quality_sum_value:
  "quality_sum rs = sum_list (map quality_value (filter (\<lambda>r. metric_known (iv_quality_score r)) rs))"
  unfolding quality_sum_def metric_known_def
  by (intro arg_cong [where f = sum_list] map_cong) (auto simp: quality_value_def)

lemma quality_sum_mset: "mset xs = mset ys \<Longrightarrow> quality_sum xs = quality_sum ys"
  unfolding quality_sum_value by (intro mset_sum_list) (simp add: mset_filter)

lemma offload_value_agrees:
  assumes "offload rs = Inr a" and "mset xs = mset rs"
  shows "map_option FloatNum (offload_value (classify xs)) = om_value (oa_ratio a)"
proof -
  have "length (executed_by k xs) = length (executed_by k rs)" for k
    using executed_by_mset [OF assms(2)] by (rule mset_eq_length)
  then show ?thesis
    using assms(1)
    by (auto simp: offload_def offload_value_def classify_def Let_def known_metric_Inr metric_of_def metric_unavailable_def
        split: if_splits)
qed

lemma quality_offload_value_agrees:
  assumes "quality_adjusted_offload rs = Inr a" and "mset xs = mset rs"
  shows "map_option FloatNum (quality_offload_value (classify xs)) = om_value (qa_ratio a)"
proof -
  let ?scored = "filter (\<lambda>r. iv_executor_kind r \<noteq> EXEC_UNKNOWN \<and> metric_known (iv_quality_score r)) rs"
  have "quality_sum (filter (\<lambda>r. iv_executor_kind r \<noteq> EXEC_UNKNOWN) xs) = quality_sum (filter (\<lambda>r. iv_executor_kind r \<noteq> EXEC_UNKNOWN) rs)"
    by (rule quality_sum_mset) (simp add: mset_filter assms(2))
  then have total: "cf_total_quality (classify xs) = sum_list (map quality_value ?scored)"
    by (simp add: classify_def quality_sum_value)
  have "quality_sum (executed_by EXEC_OFFLOADED xs) = quality_sum (executed_by EXEC_OFFLOADED rs)"
    by (rule quality_sum_mset) (rule executed_by_mset [OF assms(2)])
  moreover have "filter (\<lambda>r. metric_known (iv_quality_score r)) (executed_by EXEC_OFFLOADED rs) = executed_by EXEC_OFFLOADED ?scored"
    by (auto simp: executed_by_def intro!: filter_cong)
  ultimately have "cf_offloaded_quality (classify xs) = sum_list (map quality_value (executed_by EXEC_OFFLOADED ?scored))"
    by (simp add: classify_def quality_sum_value)
  with total assms(1) show ?thesis
    by (auto simp: quality_adjusted_offload_def quality_offload_value_def Let_def known_metric_Inr metric_of_def
        metric_unavailable_def split: if_splits)
qed

lemma economics_metric_value: "um_value (economics_metric v p) = map_option FloatNum v"
  by (cases v) (simp_all add: economics_metric_def unknown_usage_def known_usage_def)

text \<open>
  C1. The two computations of the quality adjusted offload agree: over a database in which every
  invocation has its task, the economics of all projects report the ratio that the telemetry reports.
\<close>

theorem quality_offload_agrees:
  assumes "telemetry_valid u" and "aggregate_economics u None None = Inr a" and "aggregate_telemetry u None None = Inr b"
    and "\<And>i. i \<in> set (ud_invocations u) \<Longrightarrow> row_by tk_id (iv_task_id i) (tasks (ud_db u)) \<noteq> None"
  shows "um_value (ec_quality_adjusted_offload a) = om_value (qa_ratio (ta_quality_adjusted_offload b)) \<and>
    um_value (ec_codex_offload_ratio a) = om_value (oa_ratio (ta_codex_offload b))"
proof -
  let ?rs = "scoped_invocations u None None"
  have "map_result construct_invocation ?rs = Inr ?rs"
    using assms(1) set_scoped_invocations by (rule valid_rows_construct)
  then have "offload ?rs = Inr (ta_codex_offload b)" "quality_adjusted_offload ?rs = Inr (ta_quality_adjusted_offload b)"
    using assms(3) by (auto simp: aggregate_telemetry_def aggregate_invocations_def)
  moreover have "mset (economics_rows u None None) = mset ?rs" using assms(4) by (rule economics_rows_scope)
  moreover have "a = economics_of u None None" using assms(2) by (auto simp: aggregate_economics_def checked_economics_def)
  ultimately show ?thesis
    using quality_offload_value_agrees offload_value_agrees
    by (simp add: economics_of_def Let_def economics_metric_value)
qed

text \<open>
  C2. The tokens per entity are known only under complete coverage: there is an entity, each has an
  invocation, and every invocation of one reports both its input and its output tokens.
\<close>

theorem token_rate_coverage:
  "um_value (tokens_per_entity key rows idents) \<noteq> None \<longleftrightarrow>
     idents \<noteq> [] \<and> set idents \<subseteq> {k. \<exists>r \<in> set rows. key r = Some k} \<and>
     {r \<in> set rows. (\<exists>k \<in> set idents. key r = Some k)} \<subseteq>
       {r. om_value (iv_input_tokens r) \<noteq> None \<and> om_value (iv_output_tokens r) \<noteq> None}"
proof -
  have tokens: "row_tokens r \<noteq> None \<longleftrightarrow> om_value (iv_input_tokens r) \<noteq> None \<and> om_value (iv_output_tokens r) \<noteq> None" for r
    by (auto simp: row_tokens_def split: option.splits)
  have "list_all (entity_complete key rows) idents \<longleftrightarrow>
      set idents \<subseteq> {k. \<exists>r \<in> set rows. key r = Some k} \<and>
      {r \<in> set rows. (\<exists>k \<in> set idents. key r = Some k)} \<subseteq> {r. row_tokens r \<noteq> None}"
    by (fastforce simp: list_all_iff entity_complete_def Let_def filter_empty_conv)
  then show ?thesis
    unfolding tokens [symmetric] by (simp add: tokens_per_entity_def Let_def unknown_usage_def known_usage_def)
qed

section \<open>The economics always come out\<close>

lemma usage_ok:
  "check_usage_metric (unknown_usage r) = Inr ()"
  "0 \<le> v \<Longrightarrow> nonblank unit \<Longrightarrow> p \<noteq> PROV_UNKNOWN \<Longrightarrow> check_usage_metric (known_usage (FloatNum v) unit p) = Inr ()"
  by (simp_all add: check_usage_metric_def unknown_usage_def known_usage_def)

lemma valid_tokens_nonneg:
  assumes "valid_invocation r" and "row_tokens r = Some n" shows "0 \<le> n"
proof -
  have "check_observed_metric (iv_input_tokens r) = Inr ()" "check_observed_metric (iv_output_tokens r) = Inr ()"
    using assms(1) by (simp_all add: valid_invocation_def construct_invocation_Inr invocation_metrics_def)
  with assms(2) show ?thesis
    using check_observed_metric_ok [of "iv_input_tokens r"] check_observed_metric_ok [of "iv_output_tokens r"]
    by (auto simp: row_tokens_def metric_known_def split: option.splits)
qed

lemma quality_sum_nonneg: "(\<And>r. r \<in> set rs \<Longrightarrow> valid_invocation r) \<Longrightarrow> 0 \<le> quality_sum rs"
  unfolding quality_sum_value by (intro sum_list_nonneg) (auto simp: quality_value_bounds)

lemma tokens_per_entity_ok:
  assumes "\<And>r. r \<in> set rs \<Longrightarrow> valid_invocation r"
  shows "check_usage_metric (tokens_per_entity key rs idents) = Inr ()"
proof -
  let ?relevant = "filter (\<lambda>r. case key r of None \<Rightarrow> False | Some k \<Rightarrow> k \<in> set idents) rs"
  have "0 \<le> sum_list (map (\<lambda>r. case row_tokens r of None \<Rightarrow> 0 | Some n \<Rightarrow> n) ?relevant)"
    by (intro sum_list_nonneg) (auto split: option.splits intro: valid_tokens_nonneg [OF assms])
  moreover have "nonblank ''tokens''" by (simp add: py_isspace_def)
  ultimately show ?thesis
    unfolding tokens_per_entity_def Let_def by (auto intro!: usage_ok simp del: nonblank_Cons)
qed

lemma checked_economics_ok:
  assumes "telemetry_valid u" shows "is_ok (checked_economics (economics_of u p g))"
proof -
  have valid: "valid_invocation r" if "r \<in> set (economics_rows u p g)" for r
    using assms that by (auto simp: telemetry_valid_def economics_rows_def)
  have ratio: "nonblank ''ratio''" by simp
  have "check_usage_metric (economics_metric (offload_value c) PROV_LOCALLY_MEASURED) = Inr ()" for c
    using ratio by (auto simp: economics_metric_def offload_value_def intro!: usage_ok simp del: nonblank_Cons)
  moreover have "0 \<le> quality_sum (executed_by EXEC_OFFLOADED (economics_rows u p g))"
    by (rule quality_sum_nonneg) (use valid in \<open>auto simp: executed_by_def\<close>)
  then have "check_usage_metric (economics_metric (quality_offload_value (classify (economics_rows u p g))) PROV_INFERRED) = Inr ()"
    using ratio
    by (auto simp: economics_metric_def quality_offload_value_def classify_def intro!: usage_ok simp del: nonblank_Cons)
  moreover have "check_usage_metric (tokens_per_entity key (token_rows u p g) idents) = Inr ()" for key idents
    by (rule tokens_per_entity_ok) (use valid in \<open>auto simp: token_rows_def\<close>)
  ultimately show ?thesis
    by (simp add: checked_economics_def economics_of_def Let_def is_ok_iff)
qed

section \<open>Examples\<close>

definition recorded_sample :: usage_tables where
  "recorded_sample = usage_sample\<lparr>ud_invocations := [invocation_row sample_invocation]\<rparr>"

lemma recorded_sample_valid: "telemetry_valid recorded_sample"
proof -
  obtain u' where u': "record_invocation sample_invocation usage_sample = Inr u'"
    using sample_recorded by (auto simp: is_ok_iff)
  then have "u' = recorded_sample"
    using record_invocation_rows [OF u'] by (simp add: recorded_sample_def usage_sample_def)
  then show ?thesis
    using record_keeps_valid [OF usage_sample_valid _ u'] sample_constructed by (simp add: valid_invocation_def)
qed

lemma recorded_sample_aggregates: "is_ok (aggregate_telemetry recorded_sample None None)"
proof -
  let ?rs = "scoped_invocations recorded_sample None None"
  have rs: "?rs = [invocation_row sample_invocation]" by (simp add: scoped_invocations_def recorded_sample_def)
  have "is_ok (aggregate_invocations ?rs None None) \<longleftrightarrow> same_unit iv_cost ?rs"
    by (rule aggregate_invocations_iff)
      (use recorded_sample_valid set_scoped_invocations [of recorded_sample None None] in \<open>auto simp: telemetry_valid_def\<close>)
  moreover have "map_result construct_invocation ?rs = Inr ?rs"
    using recorded_sample_valid set_scoped_invocations by (rule valid_rows_construct)
  ultimately show ?thesis by (simp add: aggregate_telemetry_def rs same_unit_def)
qed

theorem quality_offload_agrees_witness:
  "\<exists>a b. aggregate_economics recorded_sample None None = Inr a \<and> aggregate_telemetry recorded_sample None None = Inr b \<and>
     um_value (ec_quality_adjusted_offload a) = om_value (qa_ratio (ta_quality_adjusted_offload b))"
proof -
  obtain a where a: "aggregate_economics recorded_sample None None = Inr a"
    using checked_economics_ok [OF recorded_sample_valid] by (auto simp: aggregate_economics_def is_ok_iff)
  obtain b where b: "aggregate_telemetry recorded_sample None None = Inr b"
    using recorded_sample_aggregates by (auto simp: is_ok_iff)
  have "row_by tk_id (iv_task_id i) (tasks (ud_db recorded_sample)) \<noteq> None" if "i \<in> set (ud_invocations recorded_sample)" for i
    using that by (simp add: recorded_sample_def usage_sample_def sample_invocation_ok running_simps)
  from quality_offload_agrees [OF recorded_sample_valid a b this] a b show ?thesis by blast
qed

end
