(* ===== verification/Quota_Guard.thy ===== *)
theory Quota_Guard
  imports Resource_Usage Scheduler
begin

text \<open>
  The quota guard before a dispatch, the last part of \<^verbatim>\<open>src/project_supervisor/resource_usage.py\<close>: from the newest
  snapshot of each candidate's quota pool it derives evidence, orders the candidates and avoids scarce
  pools. Its evidence is what the scheduler of \<^verbatim>\<open>Scheduler\<close> scores with.
\<close>

section \<open>Evidence\<close>

record guard_candidate =
  gc_worker_id :: string
  gc_quota_pool_id :: string
  gc_capable :: bool
  gc_premium :: bool
  gc_provider :: "string option"

definition check_guard_candidate :: "guard_candidate \<Rightarrow> unit result" where
  "check_guard_candidate c =
     bindR (raise_if (\<not> nonblank (gc_worker_id c) \<or> \<not> nonblank (gc_quota_pool_id c))
       (ValueError ''worker_id and quota_pool_id must not be empty'')) (\<lambda>_.
     raise_if (case gc_provider c of None \<Rightarrow> False | Some p \<Rightarrow> \<not> nonblank p)
       (ValueError ''candidate provider must not be empty''))"

record guard_evidence =
  ge_worker_id :: string
  ge_quota_pool_id :: string
  ge_provider :: string
  ge_quota_state :: quota_state
  ge_freshness :: freshness
  ge_provenance :: usage_provenance
  ge_source :: string
  ge_confidence :: evidence_confidence
  ge_observed_at :: "moment option"
  ge_reason :: "string option"

primrec state_health :: "quota_state \<Rightarrow> rat" where
  "state_health QUOTA_AVAILABLE = 1"
| "state_health QUOTA_WARNING = 55 / 100"
| "state_health QUOTA_CRITICAL = 15 / 100"
| "state_health QUOTA_EXHAUSTED = 0"
| "state_health QUOTA_UNKNOWN = 25 / 100"

primrec provenance_weight :: "usage_provenance \<Rightarrow> rat" where
  "provenance_weight PROV_PROVIDER_REPORTED = 1"
| "provenance_weight PROV_LOCALLY_MEASURED = 95 / 100"
| "provenance_weight PROV_INFERRED = 8 / 10"
| "provenance_weight PROV_UNKNOWN = 0"

text \<open>Every product has at most four decimals, so rounding to six leaves it as it is.\<close>

definition guard_health_score :: "guard_evidence \<Rightarrow> rat" where
  "guard_health_score e =
     (if ge_quota_state e = QUOTA_UNKNOWN then state_health QUOTA_UNKNOWN
      else state_health (ge_quota_state e) * provenance_weight (ge_provenance e))"

definition guard_evidence_to_protocol :: "guard_evidence \<Rightarrow> (string \<times> json) list" where
  "guard_evidence_to_protocol e =
     [(''workerID'', JStr (ge_worker_id e)), (''quotaPoolID'', JStr (ge_quota_pool_id e)),
      (''provider'', JStr (ge_provider e)), (''quotaState'', JStr (quota_state_value (ge_quota_state e))),
      (''freshness'', JStr (freshness_value (ge_freshness e))),
      (''provenance'', JStr (usage_provenance_value (ge_provenance e))), (''source'', JStr (ge_source e)),
      (''confidence'', JStr (evidence_confidence_value (ge_confidence e))),
      (''observedAt'', json_opt (\<lambda>t. JTime (format_time t)) (ge_observed_at e)),
      (''healthScore'', JNum (guard_health_score e)), (''reason'', json_opt JStr (ge_reason e))]"

text \<open>A stored time is a whole second, so the routing evidence keeps it exactly.\<close>

definition evidence_time :: "moment \<Rightarrow> datetime" where
  "evidence_time t = (if zoned t then Aware (format_time t) else Naive (format_time t))"

definition to_routing_evidence :: "guard_evidence \<Rightarrow> resource_routing_evidence result" where
  "to_routing_evidence e =
     (let r = \<lparr>re_worker_id = ge_worker_id e, re_quota_pool_id = ge_quota_pool_id e, re_provider = ge_provider e,
        re_quota_state = quota_state_value (ge_quota_state e), re_freshness = freshness_value (ge_freshness e),
        re_provenance = usage_provenance_value (ge_provenance e), re_source = ge_source e,
        re_confidence = evidence_confidence_value (ge_confidence e), re_health_score = guard_health_score e,
        re_observed_at = map_option evidence_time (ge_observed_at e), re_reason = ge_reason e\<rparr>
      in bindR (check_resource_evidence r) (\<lambda>_. Inr r))"

definition no_evidence :: "guard_candidate \<Rightarrow> string \<Rightarrow> string \<Rightarrow> guard_evidence" where
  "no_evidence c source reason =
     \<lparr>ge_worker_id = gc_worker_id c, ge_quota_pool_id = gc_quota_pool_id c,
      ge_provider = (if truthy (gc_provider c) then the (gc_provider c) else ''unknown''),
      ge_quota_state = QUOTA_UNKNOWN, ge_freshness = FR_UNKNOWN, ge_provenance = PROV_UNKNOWN, ge_source = source,
      ge_confidence = CONF_UNKNOWN, ge_observed_at = None, ge_reason = Some reason\<rparr>"

text \<open>The state an observation supports for a candidate, and why it does not support more.\<close>

definition effective_state :: "guard_candidate \<Rightarrow> resource_observation \<Rightarrow> freshness \<Rightarrow> quota_state \<times> string option" where
  "effective_state c ob fresh =
     (if gc_provider c \<noteq> None \<and> gc_provider c \<noteq> Some (ro_provider ob) then (QUOTA_UNKNOWN, Some ''providerMismatch'')
      else if fresh = FR_STALE then (QUOTA_UNKNOWN, Some ''staleSnapshot'')
      else if fresh = FR_UNKNOWN then (QUOTA_UNKNOWN, Some ''freshnessUnknown'')
      else if ro_quota_state ob = QUOTA_UNKNOWN then (ro_quota_state ob, Some ''quotaStateUnknown'')
      else if ro_quota_state_provenance ob = PROV_UNKNOWN then (QUOTA_UNKNOWN, Some ''provenanceUnknown'')
      else if ro_confidence ob = CONF_UNKNOWN then (QUOTA_UNKNOWN, Some ''confidenceUnknown'')
      else (ro_quota_state ob, None))"

definition effective_evidence :: "guard_candidate \<Rightarrow> resource_snapshot option \<Rightarrow> moment \<Rightarrow> guard_evidence result" where
  "effective_evidence c snapshot as_of =
     (case snapshot of
        None \<Rightarrow> Inr (no_evidence c ''resourceLedger'' ''noSnapshot'')
      | Some s \<Rightarrow>
          (let ob = qs_observation s in
           bindR (snapshot_freshness as_of s) (\<lambda>fresh.
           Inr \<lparr>ge_worker_id = gc_worker_id c, ge_quota_pool_id = gc_quota_pool_id c, ge_provider = ro_provider ob,
             ge_quota_state = fst (effective_state c ob fresh), ge_freshness = fresh,
             ge_provenance = ro_quota_state_provenance ob, ge_source = ro_source ob, ge_confidence = ro_confidence ob,
             ge_observed_at = Some (ro_observed_at ob), ge_reason = snd (effective_state c ob fresh)\<rparr>)))"

section \<open>The decision\<close>

record guard_decision =
  gd_ordered_worker_ids :: "string list"
  gd_avoided :: "(string \<times> string) list"
  gd_pool_states :: "(string \<times> string) list"
  gd_evidence_by_worker :: "(string \<times> guard_evidence) list"
  gd_explanation :: string

definition dispatch_allowed :: "guard_decision \<Rightarrow> bool" where
  "dispatch_allowed d \<longleftrightarrow> gd_ordered_worker_ids d \<noteq> []"

primrec quota_rank :: "quota_state \<Rightarrow> nat" where
  "quota_rank QUOTA_AVAILABLE = 0"
| "quota_rank QUOTA_WARNING = 1"
| "quota_rank QUOTA_UNKNOWN = 2"
| "quota_rank QUOTA_CRITICAL = 3"
| "quota_rank QUOTA_EXHAUSTED = 4"

text \<open>A dictionary built from a list of items: the last value of a key, at the place of its first.\<close>

definition dict_of :: "('k \<times> 'v) list \<Rightarrow> ('k \<times> 'v) list" where
  "dict_of kvs = fold (\<lambda>(k, v). AList.update k v) kvs []"

text \<open>The reason to avoid a capable candidate; \<open>states\<close> are the states by worker.\<close>

definition avoid_reason ::
    "(string \<Rightarrow> quota_state) \<Rightarrow> guard_candidate list \<Rightarrow> guard_candidate \<Rightarrow> string option" where
  "avoid_reason states capable c =
     (let st = states (gc_worker_id c);
          available_exists = list_ex (\<lambda>o'. states (gc_worker_id o') = QUOTA_AVAILABLE) capable;
          non_exhausted_exists = list_ex (\<lambda>o'. states (gc_worker_id o') \<noteq> QUOTA_EXHAUSTED) capable
      in if st = QUOTA_EXHAUSTED \<and> non_exhausted_exists then Some ''quotaExhaustedAlternativeExists''
         else if st = QUOTA_CRITICAL \<and> gc_premium c \<and>
             list_ex (\<lambda>o'. gc_worker_id o' \<noteq> gc_worker_id c \<and>
               states (gc_worker_id o') \<notin> {QUOTA_CRITICAL, QUOTA_EXHAUSTED}) capable
           then Some ''premiumQuotaCriticalAlternativeExists''
         else if st = QUOTA_WARNING \<and> gc_premium c \<and> available_exists
           then Some ''premiumQuotaWarningAlternativeExists''
         else if st = QUOTA_EXHAUSTED \<and> \<not> non_exhausted_exists then Some ''allCapableQuotaPoolsExhausted''
         else None)"

definition guard_explanation :: "'a list \<Rightarrow> 'b list \<Rightarrow> quota_state list \<Rightarrow> string" where
  "guard_explanation allowed avoided states =
     (if allowed = [] then ''No capable Worker has a non-exhausted quota pool''
      else if avoided \<noteq> [] then ''Known scarce/exhausted pools were avoided deterministically''
      else if QUOTA_UNKNOWN \<in> set states then ''Unknown quota remained explicit and was ranked after known capacity''
      else ''No quota evidence required avoiding a capable Worker'')"

definition guard_evidence_of ::
    "(string \<times> resource_snapshot) list \<Rightarrow> moment \<Rightarrow> guard_candidate list \<Rightarrow> (string \<times> guard_evidence) list result" where
  "guard_evidence_of latest now capable =
     bindR (map_result (\<lambda>c. bindR (effective_evidence c (map_of latest (gc_quota_pool_id c)) now)
       (\<lambda>e. Inr (gc_worker_id c, e))) capable) (\<lambda>kvs. Inr (dict_of kvs))"

definition guard_decide :: "guard_candidate list \<Rightarrow> (string \<times> guard_evidence) list \<Rightarrow> guard_decision" where
  "guard_decide candidates evidence =
     (let capable = filter gc_capable candidates;
          ev = (\<lambda>w. the (map_of evidence w));
          states = (\<lambda>w. ge_quota_state (ev w));
          allowed = sort_key (\<lambda>c. (quota_rank (states (gc_worker_id c)),
              - guard_health_score (ev (gc_worker_id c)), gc_worker_id c))
            (filter (\<lambda>c. avoid_reason states capable c = None) capable);
          avoided = dict_of (map (\<lambda>c. (gc_worker_id c, ''capabilityRequirementsNotMet'')) (filter (\<lambda>c. \<not> gc_capable c) candidates) @
            concat (map (\<lambda>c. case avoid_reason states capable c of None \<Rightarrow> [] | Some r \<Rightarrow> [(gc_worker_id c, r)]) capable))
      in \<lparr>gd_ordered_worker_ids = map gc_worker_id allowed, gd_avoided = avoided,
          gd_pool_states = dict_of (map (\<lambda>c. (gc_worker_id c, quota_state_value
            (case map_of evidence (gc_worker_id c) of None \<Rightarrow> QUOTA_UNKNOWN | Some e \<Rightarrow> ge_quota_state e))) candidates),
          gd_evidence_by_worker = dict_of (map (\<lambda>c. (gc_worker_id c,
            case map_of evidence (gc_worker_id c) of
              None \<Rightarrow> no_evidence c ''hardConstraints'' ''capabilityRequirementsNotMet''
            | Some e \<Rightarrow> e)) candidates),
          gd_explanation = guard_explanation allowed avoided (map (\<lambda>(w, e). ge_quota_state e) evidence)\<rparr>)"

definition guard_evaluate :: "resource_db \<Rightarrow> guard_candidate list \<Rightarrow> moment \<Rightarrow> guard_decision result" where
  "guard_evaluate rd candidates now =
     bindR (latest_by_pool rd) (\<lambda>latest.
     bindR (guard_evidence_of latest now (filter gc_capable candidates)) (\<lambda>evidence.
     Inr (guard_decide candidates evidence)))"

definition routing_evidence :: "guard_decision \<Rightarrow> resource_routing_evidence list result" where
  "routing_evidence d = map_result (\<lambda>(w, e). to_routing_evidence e) (sort_key fst (gd_evidence_by_worker d))"

definition guard_decision_to_protocol :: "guard_decision \<Rightarrow> (string \<times> json) list" where
  "guard_decision_to_protocol d =
     [(''dispatchAllowed'', JBool (dispatch_allowed d)),
      (''orderedWorkerIDs'', JList (map JStr (gd_ordered_worker_ids d))),
      (''avoided'', JObj (map (\<lambda>(w, r). (w, JStr r)) (gd_avoided d))),
      (''poolStates'', JObj (map (\<lambda>(w, s). (w, JStr s)) (gd_pool_states d))),
      (''evidenceByWorker'', JObj (map (\<lambda>(w, e). (w, JObj (guard_evidence_to_protocol e)))
         (sort_key fst (gd_evidence_by_worker d)))),
      (''explanation'', JStr (gd_explanation d))]"

text \<open>The state derived from comparable known values; nothing missing is estimated.\<close>

definition infer_quota_state :: "usage_metric \<Rightarrow> usage_metric \<Rightarrow> quota_state" where
  "infer_quota_state used remaining =
     (case (um_value used, um_value remaining) of
        (Some u, Some r) \<Rightarrow>
          (if um_unit used \<noteq> um_unit remaining then QUOTA_UNKNOWN
           else (let total = num_value u + num_value r; ratio = num_value r / total in
             if num_value r = 0 then QUOTA_EXHAUSTED
             else if total \<le> 0 then QUOTA_UNKNOWN
             else if ratio \<le> 5 / 100 then QUOTA_CRITICAL
             else if ratio \<le> 20 / 100 then QUOTA_WARNING
             else QUOTA_AVAILABLE))
      | _ \<Rightarrow> QUOTA_UNKNOWN)"

section \<open>Dictionaries\<close>

lemma map_of_fold_update:
  "map_of (fold (\<lambda>(k, v). AList.update k v) kvs d) k = (case map_of (rev kvs) k of None \<Rightarrow> map_of d k | Some v \<Rightarrow> Some v)"
  by (induction kvs arbitrary: d) (auto simp: update_conv' map_add_def split: option.splits)

lemma map_of_dict_of [simp]: "map_of (dict_of kvs) k = map_of (rev kvs) k"
  by (simp add: dict_of_def map_of_fold_update split: option.splits)

lemma distinct_fold_update:
  "distinct (map fst d) \<Longrightarrow> distinct (map fst (fold (\<lambda>(k, v). AList.update k v) kvs d))"
  by (induction kvs arbitrary: d) (auto simp: distinct_update)

lemma distinct_dict_of [simp]: "distinct (map fst (dict_of kvs))"
  by (simp add: dict_of_def distinct_fold_update)

lemma dict_of_mem: "(k, v) \<in> set (dict_of kvs) \<longleftrightarrow> map_of (rev kvs) k = Some v"
  by (metis distinct_dict_of map_of_dict_of map_of_eq_Some_iff)

lemma keys_dict_of: "fst ` set (dict_of kvs) = fst ` set kvs"
  by (metis dom_map_of_conv_image_fst map_of_dict_of set_rev domIff subsetI subset_antisym)

lemma map_of_rev_distinct: "distinct (map fst kvs) \<Longrightarrow> map_of (rev kvs) = map_of kvs"
  by (metis distinct_rev map_of_inject_set rev_map set_rev)

section \<open>The evidence behind a state\<close>

lemma snapshot_freshness_fresh:
  "snapshot_freshness now s = Inr FR_FRESH \<longleftrightarrow>
     (\<exists>f. ro_fresh_until (qs_observation s) = Some f \<and> zoned now \<and> moment_at now \<le> moment_at f)"
  by (auto simp: snapshot_freshness_def split: option.splits)

text \<open>
  A snapshot that supports a state for a candidate: fresh, of the candidate's provider, with a known
  origin and confidence.
\<close>

definition supports :: "guard_candidate \<Rightarrow> resource_snapshot \<Rightarrow> moment \<Rightarrow> quota_state \<Rightarrow> bool" where
  "supports c s now q \<longleftrightarrow>
     (let ob = qs_observation s in
      ro_quota_state ob = q \<and> (gc_provider c = None \<or> gc_provider c = Some (ro_provider ob)) \<and>
      (\<exists>f. ro_fresh_until ob = Some f \<and> moment_at now \<le> moment_at f) \<and>
      ro_quota_state_provenance ob \<noteq> PROV_UNKNOWN \<and> ro_confidence ob \<noteq> CONF_UNKNOWN)"

lemma effective_state_known:
  assumes "fst (effective_state c ob fresh) \<noteq> QUOTA_UNKNOWN"
  shows "fresh = FR_FRESH \<and> fst (effective_state c ob fresh) = ro_quota_state ob \<and>
    (gc_provider c = None \<or> gc_provider c = Some (ro_provider ob)) \<and>
    ro_quota_state_provenance ob \<noteq> PROV_UNKNOWN \<and> ro_confidence ob \<noteq> CONF_UNKNOWN"
  using assms by (cases fresh) (auto simp: effective_state_def split: if_splits)

lemma effective_evidence_known:
  assumes "effective_evidence c snapshot now = Inr e" and "ge_quota_state e \<noteq> QUOTA_UNKNOWN"
  obtains s where "snapshot = Some s" and "supports c s now (ge_quota_state e)"
proof (cases snapshot)
  case None
  with assms show ?thesis by (auto simp: effective_evidence_def no_evidence_def)
next
  case (Some s)
  obtain fresh where fresh: "snapshot_freshness now s = Inr fresh"
    and st: "ge_quota_state e = fst (effective_state c (qs_observation s) fresh)"
    using assms(1) Some by (auto simp: effective_evidence_def Let_def)
  note known = effective_state_known [of c "qs_observation s" fresh]
  then have "supports c s now (ge_quota_state e)"
    using assms(2) fresh unfolding st supports_def Let_def
    by (metis snapshot_freshness_fresh)
  with Some show ?thesis by (rule that)
qed

lemma evidence_of_candidate:
  assumes "guard_evidence_of latest now capable = Inr evidence" and "c \<in> set capable"
    and "distinct (map gc_worker_id capable)"
  shows "\<exists>e. map_of evidence (gc_worker_id c) = Some e \<and>
    effective_evidence c (map_of latest (gc_quota_pool_id c)) now = Inr e"
proof -
  let ?f = "\<lambda>c. bindR (effective_evidence c (map_of latest (gc_quota_pool_id c)) now) (\<lambda>e. Inr (gc_worker_id c, e))"
  obtain kvs where kvs: "map_result ?f capable = Inr kvs" and ev: "evidence = dict_of kvs"
    using assms(1) by (auto simp: guard_evidence_of_def)
  have all2: "list_all2 (\<lambda>c kv. ?f c = Inr kv) capable kvs" using kvs by (simp add: map_result_Inr_iff)
  then have keys: "map fst kvs = map gc_worker_id capable"
    by (induction rule: list_all2_induct) auto
  obtain i where "i < length capable" "c = capable ! i" using assms(2) by (metis in_set_conv_nth)
  then obtain e where "effective_evidence c (map_of latest (gc_quota_pool_id c)) now = Inr e"
    and "(gc_worker_id c, e) \<in> set kvs"
    using all2 list_all2_lengthD [OF all2]
    by (auto simp: list_all2_conv_all_nth in_set_conv_nth) (metis)
  moreover have "distinct (map fst kvs)" using keys assms(3) by simp
  ultimately show ?thesis
    by (auto simp: ev map_of_rev_distinct map_of_eq_Some_iff)
qed

lemma latest_where_Some:
  assumes "latest_where P rd = Some s"
  shows "s \<in> set (rd_snapshots rd)" and "P s"
    and "\<And>s'. s' \<in> set (rd_snapshots rd) \<Longrightarrow> P s' \<Longrightarrow> observed_key s' \<le> observed_key s"
proof -
  let ?xs = "sort_key observed_key (filter P (rd_snapshots rd))"
  obtain ys where "rev ?xs = s # ys" using assms by (auto simp: latest_where_def split: list.splits)
  then have xs: "?xs = rev ys @ [s]" by (metis rev.simps(2) rev_rev_ident)
  have "set ?xs = {s' \<in> set (rd_snapshots rd). P s'}" by auto
  then have mem: "insert s (set ys) = {s' \<in> set (rd_snapshots rd). P s'}" unfolding xs by auto
  then show "s \<in> set (rd_snapshots rd)" "P s" by auto
  have "sorted (map observed_key ?xs)" by simp
  then have "\<forall>s' \<in> set ys. observed_key s' \<le> observed_key s"
    unfolding xs by (auto simp: sorted_append)
  with mem show "observed_key s' \<le> observed_key s" if "s' \<in> set (rd_snapshots rd)" "P s'" for s'
    using that by auto
qed

lemma latest_where_None: "latest_where P rd = None \<longleftrightarrow> (\<forall>s \<in> set (rd_snapshots rd). \<not> P s)"
proof -
  let ?xs = "sort_key observed_key (filter P (rd_snapshots rd))"
  have "latest_where P rd = None \<longleftrightarrow> set ?xs = {}" by (simp add: latest_where_def split: list.split del: set_sort)
  then show ?thesis by auto
qed

lemma newest_valid:
  assumes "ledger_valid rd"
  shows "newest P ks rd = Inr (concat (map (\<lambda>k. case latest_where (P k) rd of None \<Rightarrow> [] | Some s \<Rightarrow> [(k, s)]) ks))"
proof -
  let ?kvs = "concat (map (\<lambda>k. case latest_where (P k) rd of None \<Rightarrow> [] | Some s \<Rightarrow> [(k, s)]) ks)"
  have "(\<lambda>(k, s). bindR (read_snapshot s) (\<lambda>s. Inr (k, s))) kv = Inr (id kv)" if mem: "kv \<in> set ?kvs" for kv
  proof -
    obtain k s where kv: "kv = (k, s)" "latest_where (P k) rd = Some s"
      using mem by (auto split: option.splits)
    then have "s \<in> set (rd_snapshots rd)" by (blast dest: latest_where_Some)
    then show ?thesis
      using assms construct_observation_valid by (simp add: kv ledger_valid_def read_snapshot_def)
  qed
  then show ?thesis unfolding newest_def by (subst map_result_total [where g = id]) auto
qed

lemma map_of_newest:
  "map_of (concat (map (\<lambda>k. case g k of None \<Rightarrow> [] | Some s \<Rightarrow> [(k, s)]) ks)) k = (if k \<in> set ks then g k else None)"
  by (induction ks) (auto split: option.splits)

lemma latest_by_pool_valid:
  assumes "ledger_valid rd"
  obtains latest where "latest_by_pool rd = Inr latest" and "\<And>p. map_of latest p = latest_pool_row rd p"
proof -
  let ?ks = "sort (dict_fromkeys (map pool_of (rd_snapshots rd)))"
  have "latest_pool_row rd p = None" if "p \<notin> set ?ks" for p
    using that by (auto simp: latest_pool_row_def latest_where_None)
  then show ?thesis
    using that newest_valid [OF assms, of "\<lambda>pool s. pool_of s = pool" ?ks]
    by (simp add: latest_by_pool_def map_of_newest latest_pool_row_def)
qed

text \<open>What an evaluation rests on: each capable candidate's evidence comes from the newest snapshot of its pool.\<close>

lemma guard_evaluateE:
  assumes "guard_evaluate rd cs now = Inr d" and "ledger_valid rd" and "distinct (map gc_worker_id cs)"
  obtains evidence where "d = guard_decide cs evidence"
    and "\<And>c. c \<in> set cs \<Longrightarrow> gc_capable c \<Longrightarrow> \<exists>e. map_of evidence (gc_worker_id c) = Some e \<and>
      effective_evidence c (latest_pool_row rd (gc_quota_pool_id c)) now = Inr e"
proof -
  obtain latest where latest: "latest_by_pool rd = Inr latest" "\<And>p. map_of latest p = latest_pool_row rd p"
    using latest_by_pool_valid [OF assms(2)] by blast
  then obtain evidence where ev: "guard_evidence_of latest now (filter gc_capable cs) = Inr evidence"
    and d: "d = guard_decide cs evidence"
    using assms(1) by (auto simp: guard_evaluate_def)
  have "distinct (map gc_worker_id (filter gc_capable cs))" using assms(3) by (simp add: distinct_map_filter)
  from evidence_of_candidate [OF ev _ this] d show ?thesis
    by (intro that [of evidence]) (auto simp: latest(2))
qed

lemma decided_evidence:
  assumes "c \<in> set cs" and "distinct (map gc_worker_id cs)" and "map_of evidence (gc_worker_id c) = Some e"
  shows "map_of (gd_evidence_by_worker (guard_decide cs evidence)) (gc_worker_id c) = Some e"
proof -
  let ?kvs = "map (\<lambda>c. (gc_worker_id c, case map_of evidence (gc_worker_id c) of
    None \<Rightarrow> no_evidence c ''hardConstraints'' ''capabilityRequirementsNotMet'' | Some e \<Rightarrow> e)) cs"
  have "distinct (map fst ?kvs)" using assms(2) by (simp add: comp_def)
  moreover have "(gc_worker_id c, e) \<in> set ?kvs" using assms(1,3) by force
  ultimately show ?thesis by (simp add: guard_decide_def Let_def map_of_rev_distinct map_of_eq_Some_iff)
qed

text \<open>
  C1. The guard never trusts what it cannot support: a state other than unknown that it reports for a
  capable candidate is the state of the newest snapshot of the candidate's pool, and that snapshot is
  fresh, of the candidate's provider, and of known origin and confidence.
\<close>

theorem guard_state_supported:
  assumes "guard_evaluate rd cs now = Inr d" and "ledger_valid rd" and "distinct (map gc_worker_id cs)"
    and "c \<in> set cs" and "gc_capable c"
    and "map_of (gd_evidence_by_worker d) (gc_worker_id c) = Some e" and "ge_quota_state e \<noteq> QUOTA_UNKNOWN"
  shows "\<exists>s. latest_pool_row rd (gc_quota_pool_id c) = Some s \<and> supports c s now (ge_quota_state e)"
  using assms(1-3)
proof (cases rule: guard_evaluateE)
  case (1 evidence)
  from 1(2) [OF assms(4,5)] obtain e' where "map_of evidence (gc_worker_id c) = Some e'"
    and eff: "effective_evidence c (latest_pool_row rd (gc_quota_pool_id c)) now = Inr e'" by blast
  with decided_evidence [OF assms(4,3)] assms(6) have "e' = e" by (simp add: 1(1))
  with eff assms(7) show ?thesis using effective_evidence_known by blast
qed

section \<open>When a dispatch is allowed\<close>

lemma avoid_reason_exhausted: "avoid_reason states capable c = None \<Longrightarrow> states (gc_worker_id c) \<noteq> QUOTA_EXHAUSTED"
  by (auto simp: avoid_reason_def Let_def split: if_splits)

lemma some_candidate_kept:
  assumes "c \<in> set capable" and "states (gc_worker_id c) \<noteq> QUOTA_EXHAUSTED"
  shows "\<exists>c' \<in> set capable. avoid_reason states capable c' = None"
proof -
  consider (available) c' where "c' \<in> set capable" "states (gc_worker_id c') = QUOTA_AVAILABLE"
    | (usable) c' where "c' \<in> set capable" "states (gc_worker_id c') \<in> {QUOTA_WARNING, QUOTA_UNKNOWN}"
        "\<And>o'. o' \<in> set capable \<Longrightarrow> states (gc_worker_id o') \<noteq> QUOTA_AVAILABLE"
    | (critical) "\<And>o'. o' \<in> set capable \<Longrightarrow> states (gc_worker_id o') \<in> {QUOTA_CRITICAL, QUOTA_EXHAUSTED}"
    by (metis insert_iff quota_state.exhaust singletonI)
  then show ?thesis
  proof cases
    case available
    then show ?thesis by (intro bexI [of _ c']) (auto simp: avoid_reason_def Let_def)
  next
    case usable
    then show ?thesis by (intro bexI [of _ c']) (auto simp: avoid_reason_def Let_def list_ex_iff)
  next
    case critical
    then have "states (gc_worker_id c) = QUOTA_CRITICAL" using assms by blast
    with critical assms(1) show ?thesis
      by (intro bexI [of _ c]) (auto simp: avoid_reason_def Let_def list_ex_iff)
  qed
qed

text \<open>
  C2. The guard stops a dispatch exactly when every capable candidate's pool is exhausted: it allows one
  if some capable candidate has evidence of any other state, and every worker it offers is one.
\<close>

theorem guard_dispatch_iff:
  assumes "guard_evaluate rd cs now = Inr d" and "ledger_valid rd" and "distinct (map gc_worker_id cs)"
  shows "dispatch_allowed d \<longleftrightarrow>
    (\<exists>c e. c \<in> set cs \<and> gc_capable c \<and> map_of (gd_evidence_by_worker d) (gc_worker_id c) = Some e \<and>
       ge_quota_state e \<noteq> QUOTA_EXHAUSTED)"
  using assms
proof (cases rule: guard_evaluateE)
  case (1 evidence)
  define states where "states w = ge_quota_state (the (map_of evidence w))" for w
  have ev: "map_of (gd_evidence_by_worker d) (gc_worker_id c) = map_of evidence (gc_worker_id c)"
      "map_of evidence (gc_worker_id c) \<noteq> None" if "c \<in> set cs" "gc_capable c" for c
    using 1(2) [OF that] decided_evidence [OF that(1) assms(3)] by (auto simp: 1(1))
  have "dispatch_allowed d \<longleftrightarrow> (\<exists>c \<in> set (filter gc_capable cs). avoid_reason states (filter gc_capable cs) c = None)"
    by (auto simp: 1(1) dispatch_allowed_def guard_decide_def Let_def states_def [abs_def] filter_empty_conv
        simp flip: set_empty)
  also have "\<dots> \<longleftrightarrow> (\<exists>c \<in> set (filter gc_capable cs). states (gc_worker_id c) \<noteq> QUOTA_EXHAUSTED)"
    using avoid_reason_exhausted some_candidate_kept by metis
  also have "\<dots> \<longleftrightarrow> (\<exists>c e. c \<in> set cs \<and> gc_capable c \<and> map_of (gd_evidence_by_worker d) (gc_worker_id c) = Some e \<and>
       ge_quota_state e \<noteq> QUOTA_EXHAUSTED)"
    using ev by (fastforce simp: states_def)
  finally show ?thesis .
qed

section \<open>The scheduler accepts the evidence\<close>

lemma guard_health_unit: "0 \<le> guard_health_score e" "guard_health_score e \<le> 1"
  by (cases "ge_quota_state e"; cases "ge_provenance e"; simp add: guard_health_score_def)+

definition routable :: "guard_evidence \<Rightarrow> bool" where
  "routable e \<longleftrightarrow> nonblank (ge_worker_id e) \<and> nonblank (ge_quota_pool_id e) \<and> nonblank (ge_provider e) \<and>
     nonblank (ge_source e) \<and> (case ge_observed_at e of None \<Rightarrow> True | Some t \<Rightarrow> zoned t) \<and>
     (ge_quota_state e = QUOTA_UNKNOWN \<longrightarrow> truthy (ge_reason e))"

lemma nonblank_confidence: "nonblank (evidence_confidence_value c)"
  by (cases c) (simp_all add: py_isspace_def)

lemma to_routing_evidence_ok:
  assumes "routable e"
  obtains r where "to_routing_evidence e = Inr r" and "re_worker_id r = ge_worker_id e"
    and "check_resource_evidence r = Inr ()"
proof -
  have "quota_state_value (ge_quota_state e) \<in> set quota_states"
    by (cases "ge_quota_state e") (simp_all add: quota_states_def)
  moreover have "freshness_value (ge_freshness e) \<in> set freshness_states"
    by (cases "ge_freshness e") (simp_all add: freshness_states_def)
  moreover have "usage_provenance_value (ge_provenance e) \<in> set provenance_kinds"
    by (cases "ge_provenance e") (simp_all add: provenance_kinds_def)
  moreover have "quota_state_value (ge_quota_state e) = ''unknown'' \<longleftrightarrow> ge_quota_state e = QUOTA_UNKNOWN"
    by (cases "ge_quota_state e") simp_all
  ultimately show ?thesis
    using assms that guard_health_unit [of e] nonblank_confidence
    by (auto simp: to_routing_evidence_def Let_def check_resource_evidence_ok routable_def evidence_time_def
        split: option.splits)
qed

lemma effective_evidence_routable:
  assumes "effective_evidence c snapshot now = Inr e" and "check_guard_candidate c = Inr ()"
    and "\<And>s. snapshot = Some s \<Longrightarrow> valid_observation (qs_observation s)"
  shows "routable e \<and> ge_worker_id e = gc_worker_id c"
proof (cases snapshot)
  case None
  with assms(1,2) show ?thesis
    by (auto simp: effective_evidence_def no_evidence_def routable_def check_guard_candidate_def truthy_def py_isspace_def
        split: option.splits)
next
  case (Some s)
  let ?ob = "qs_observation s"
  have "check_observation ?ob = Inr ()" using assms(3) [OF Some] by (simp add: valid_observation_iff)
  then have "nonblank (ro_provider ?ob) \<and> nonblank (ro_source ?ob) \<and> zoned (ro_observed_at ?ob)"
    by (auto simp: check_observation_def first_blank_def check_observation_times_def split: if_splits option.splits)
  moreover have "fst (effective_state c ?ob fresh) = QUOTA_UNKNOWN \<Longrightarrow> truthy (snd (effective_state c ?ob fresh))" for fresh
    by (auto simp: effective_state_def truthy_def split: if_splits)
  ultimately show ?thesis
    using assms(1,2) Some by (auto simp: effective_evidence_def Let_def routable_def check_guard_candidate_def)
qed

lemma decided_routable:
  assumes "\<And>c. c \<in> set cs \<Longrightarrow> check_guard_candidate c = Inr ()"
    and "\<And>w e. map_of evidence w = Some e \<Longrightarrow> routable e \<and> ge_worker_id e = w"
    and "(w, e) \<in> set (gd_evidence_by_worker (guard_decide cs evidence))"
  shows "routable e \<and> ge_worker_id e = w"
proof -
  obtain c where c: "c \<in> set cs" "w = gc_worker_id c"
      "e = (case map_of evidence w of None \<Rightarrow> no_evidence c ''hardConstraints'' ''capabilityRequirementsNotMet'' | Some e \<Rightarrow> e)"
    using assms(3) by (auto simp: guard_decide_def Let_def dict_of_mem dest!: map_of_SomeD)
  have "routable (no_evidence c ''hardConstraints'' ''capabilityRequirementsNotMet'')"
    using assms(1) [OF c(1)]
    by (auto simp: no_evidence_def routable_def check_guard_candidate_def truthy_def py_isspace_def split: option.splits)
  then show ?thesis
    using c assms(2) [of w] by (cases "map_of evidence w") (simp_all add: no_evidence_def)
qed

lemma evidence_origin:
  assumes "guard_evidence_of latest now capable = Inr evidence" and "map_of evidence w = Some e"
  shows "\<exists>c \<in> set capable. w = gc_worker_id c \<and> effective_evidence c (map_of latest (gc_quota_pool_id c)) now = Inr e"
proof -
  obtain kvs where kvs: "map_result (\<lambda>c. bindR (effective_evidence c (map_of latest (gc_quota_pool_id c)) now)
      (\<lambda>e. Inr (gc_worker_id c, e))) capable = Inr kvs" and "evidence = dict_of kvs"
    using assms(1) by (auto simp: guard_evidence_of_def)
  with assms(2) have "(w, e) \<in> set kvs" by (auto dest: map_of_SomeD)
  from map_result_Inr_member [OF kvs this] show ?thesis by auto
qed

text \<open>
  C3. The guard speaks the scheduler's language: whatever the ledger holds, the evidence of a decision
  passes the checks of routing evidence, with exactly one item for each candidate.
\<close>

theorem guard_evidence_routable:
  assumes "guard_evaluate rd cs now = Inr d" and "ledger_valid rd"
    and "\<And>c. c \<in> set cs \<Longrightarrow> check_guard_candidate c = Inr ()"
  shows "\<exists>ev. routing_evidence d = Inr ev \<and> list_all (\<lambda>r. check_resource_evidence r = Inr ()) ev \<and>
    distinct (map re_worker_id ev) \<and> set (map re_worker_id ev) = set (map gc_worker_id cs)"
proof -
  obtain latest where latest: "latest_by_pool rd = Inr latest" "\<And>p. map_of latest p = latest_pool_row rd p"
    using latest_by_pool_valid [OF assms(2)] by blast
  then obtain evidence where ev: "guard_evidence_of latest now (filter gc_capable cs) = Inr evidence"
    and d: "d = guard_decide cs evidence"
    using assms(1) by (auto simp: guard_evaluate_def)
  have valid: "valid_observation (qs_observation s)" if "latest_pool_row rd p = Some s" for p s
    using that assms(2) latest_where_Some(1) by (auto simp: latest_pool_row_def ledger_valid_def)
  have routable: "routable e \<and> ge_worker_id e = w" if mem: "map_of evidence w = Some e" for w e
  proof -
    obtain c where "c \<in> set cs" "w = gc_worker_id c"
        "effective_evidence c (latest_pool_row rd (gc_quota_pool_id c)) now = Inr e"
      using evidence_origin [OF ev mem] by (auto simp: latest(2))
    with effective_evidence_routable [OF this(3)] assms(3) valid show ?thesis by blast
  qed
  let ?items = "sort_key fst (gd_evidence_by_worker d)"
  define f where "f = (\<lambda>(w :: string, e). case to_routing_evidence e of Inl _ \<Rightarrow> undefined | Inr r \<Rightarrow> r)"
  have item: "(\<lambda>(w, e). to_routing_evidence e) kv = Inr (f kv) \<and> re_worker_id (f kv) = fst kv \<and>
      check_resource_evidence (f kv) = Inr ()" if mem: "kv \<in> set ?items" for kv
  proof -
    obtain w e where kv: "kv = (w, e)" by (cases kv)
    with mem have "routable e" and w: "ge_worker_id e = w"
      using decided_routable [OF assms(3) routable] by (simp_all add: d)
    from to_routing_evidence_ok [OF this(1)] obtain r where
      "to_routing_evidence e = Inr r" "re_worker_id r = ge_worker_id e" "check_resource_evidence r = Inr ()" by blast
    with w show ?thesis by (simp add: kv f_def)
  qed
  then have "routing_evidence d = Inr (map f ?items)"
    unfolding routing_evidence_def by (intro map_result_total) blast
  moreover have ids: "map re_worker_id (map f ?items) = map fst ?items" using item by simp
  moreover have "distinct (map fst (gd_evidence_by_worker d))"
    by (simp add: d guard_decide_def Let_def)
  then have "distinct (map fst ?items)"
    using distinct_map_mset [of ?items "gd_evidence_by_worker d" fst] by simp
  moreover have "set (map fst ?items) = set (map gc_worker_id cs)"
    by (simp add: d guard_decide_def Let_def keys_dict_of image_image)
  moreover have "list_all (\<lambda>r. check_resource_evidence r = Inr ()) (map f ?items)"
    using item unfolding list_all_iff by auto
  ultimately show ?thesis by (metis (no_types, lifting))
qed

section \<open>Examples\<close>

definition quota_observation :: resource_observation where
  "quota_observation =
     (blank_observation ''openai'' ''q'' ''status'' CONF_VERIFIED (Zoned 10))
       \<lparr>ro_quota_state := QUOTA_WARNING, ro_quota_state_provenance := PROV_PROVIDER_REPORTED, ro_fresh_until := Some (Zoned 100)\<rparr>"

definition quota_ledger :: resource_db where
  "quota_ledger = ledger_sample\<lparr>rd_snapshots :=
     [\<lparr>qs_id = ''s'', qs_audit_id = ''a'', qs_project_id = ''p1'', qs_goal_id = None, qs_task_id = ''t'', qs_run_id = None,
       qs_observation = quota_observation\<rparr>]\<rparr>"

definition quota_candidates :: "guard_candidate list" where
  "quota_candidates =
     [\<lparr>gc_worker_id = ''w'', gc_quota_pool_id = ''q'', gc_capable = True, gc_premium = True, gc_provider = Some ''openai''\<rparr>,
      \<lparr>gc_worker_id = ''v'', gc_quota_pool_id = ''z'', gc_capable = True, gc_premium = False, gc_provider = None\<rparr>]"

lemma quota_ledger_valid: "ledger_valid quota_ledger"
  by (simp add: ledger_valid_def quota_ledger_def quota_observation_def valid_observation_def observation_simps py_isspace_def)

lemma quota_candidates_ok:
  "distinct (map gc_worker_id quota_candidates)" "c \<in> set quota_candidates \<Longrightarrow> check_guard_candidate c = Inr ()"
  by (auto simp: quota_candidates_def check_guard_candidate_def py_isspace_def)

lemma quota_evaluated:
  "\<exists>d e. guard_evaluate quota_ledger quota_candidates (Zoned 50) = Inr d \<and>
     map_of (gd_evidence_by_worker d) ''w'' = Some e \<and> ge_quota_state e = QUOTA_WARNING"
proof -
  obtain latest where latest: "latest_by_pool quota_ledger = Inr latest" "\<And>p. map_of latest p = latest_pool_row quota_ledger p"
    using latest_by_pool_valid [OF quota_ledger_valid] by blast
  have "latest_pool_row quota_ledger ''q'' = Some (hd (rd_snapshots quota_ledger))" "latest_pool_row quota_ledger ''z'' = None"
    by (simp_all add: latest_pool_row_def latest_where_def quota_ledger_def pool_of_def quota_observation_def blank_observation_def)
  with latest show ?thesis
    by (simp add: guard_evaluate_def guard_evidence_of_def quota_candidates_def effective_evidence_def snapshot_freshness_def
        quota_ledger_def quota_observation_def blank_observation_def effective_state_def guard_decide_def Let_def)
qed

theorem guard_state_supported_witness:
  "\<exists>s. latest_pool_row quota_ledger ''q'' = Some s \<and> supports (hd quota_candidates) s (Zoned 50) QUOTA_WARNING"
proof -
  obtain d e where d: "guard_evaluate quota_ledger quota_candidates (Zoned 50) = Inr d"
    and e: "map_of (gd_evidence_by_worker d) ''w'' = Some e" "ge_quota_state e = QUOTA_WARNING"
    using quota_evaluated by blast
  have "hd quota_candidates \<in> set quota_candidates" "gc_capable (hd quota_candidates)"
      "gc_worker_id (hd quota_candidates) = ''w''" "gc_quota_pool_id (hd quota_candidates) = ''q''"
    by (simp_all add: quota_candidates_def)
  with guard_state_supported [OF d quota_ledger_valid quota_candidates_ok(1), of "hd quota_candidates" e] e
  show ?thesis by simp
qed

theorem guard_dispatch_iff_witness:
  "\<exists>d. guard_evaluate quota_ledger quota_candidates (Zoned 50) = Inr d \<and> dispatch_allowed d"
proof -
  obtain d e where d: "guard_evaluate quota_ledger quota_candidates (Zoned 50) = Inr d"
    and e: "map_of (gd_evidence_by_worker d) ''w'' = Some e" "ge_quota_state e = QUOTA_WARNING"
    using quota_evaluated by blast
  have "hd quota_candidates \<in> set quota_candidates \<and> gc_capable (hd quota_candidates) \<and> gc_worker_id (hd quota_candidates) = ''w''"
    by (simp add: quota_candidates_def)
  with e have "\<exists>c e. c \<in> set quota_candidates \<and> gc_capable c \<and> map_of (gd_evidence_by_worker d) (gc_worker_id c) = Some e \<and>
      ge_quota_state e \<noteq> QUOTA_EXHAUSTED" by fastforce
  then show ?thesis
    using d guard_dispatch_iff [OF d quota_ledger_valid quota_candidates_ok(1)] by blast
qed

theorem guard_evidence_routable_witness:
  "\<exists>d ev. guard_evaluate quota_ledger quota_candidates (Zoned 50) = Inr d \<and> routing_evidence d = Inr ev \<and>
     list_all (\<lambda>r. check_resource_evidence r = Inr ()) ev"
proof -
  obtain d where d: "guard_evaluate quota_ledger quota_candidates (Zoned 50) = Inr d" using quota_evaluated by blast
  show ?thesis using d guard_evidence_routable [OF d quota_ledger_valid quota_candidates_ok(2)] by blast
qed

end
