(* ===== verification/Runtime_Dispatch.thy ===== *)
theory Runtime_Dispatch
  imports Quota_Guard Programs Store_Recovery Store_Verification
begin

text \<open>
  The supervisor runtime, \<^verbatim>\<open>src/project_supervisor/runtime.py\<close>: how work is submitted and dispatched.
  The runtime is a program over the database and the clock; every call of the store is a transaction of
  its own. Adapters are parameters: what an awaited adapter does to the world is an argument of the model.
  The coroutines that dispatching starts are modelled separately.
\<close>

section \<open>The database of the runtime\<close>

definition core :: "resource_db \<Rightarrow> db" where
  "core rd = ud_db (rd_usage rd)"

definition put_core :: "db \<Rightarrow> resource_db \<Rightarrow> resource_db" where
  "put_core db rd = rd\<lparr>rd_usage := (rd_usage rd)\<lparr>ud_db := db\<rparr>\<rparr>"

lemma core_put [simp]: "core (put_core db rd) = db" "put_core db' (put_core db rd) = put_core db' rd"
  by (simp_all add: core_def put_core_def)

type_synonym rt_world = "resource_db world"
type_synonym 'a rt = "(resource_db, 'a) program"

text \<open>A call of the store, with the clock and the fresh identifiers it uses.\<close>

definition call_store :: "(rat \<Rightarrow> db \<Rightarrow> (db \<times> 'a) result) \<Rightarrow> 'a rt" where
  "call_store op = transact (\<lambda>now rd. bindR (op now (core rd)) (\<lambda>(db, x). Inr (put_core db rd, x)))"

definition ask_store :: "(db \<Rightarrow> 'a result) \<Rightarrow> 'a rt" where
  "ask_store f = reading (\<lambda>rd. f (core rd))"

lemma call_store_Some:
  "call_store op w = Some (w', Inr x) \<longleftrightarrow>
     (\<exists>db. op (clock w) (core (store w)) = Inr (db, x) \<and> w' = w\<lparr>store := put_core db (store w)\<rparr>)"
  by (auto simp: call_store_def transact_Some)

lemma ask_store_Some: "ask_store f w = Some (w', Inr x) \<longleftrightarrow> w' = w \<and> f (core (store w)) = Inr x"
  by (auto simp: ask_store_def reading_def)

section \<open>Adapters\<close>

record job_support =
  js_reconcile :: bool
  js_resume :: bool
  js_cancel :: bool
  js_provider_idempotency :: bool
  js_stream_reconnect :: bool
  js_repeatable_collect :: bool
  js_idempotent_launch_lookup :: bool
  js_durable_launch_registry :: bool

text \<open>
  An adapter: the name of its class, its durable contract if it is a \<^verbatim>\<open>DurableWorkerAdapter\<close>, the
  negotiation of a \<^verbatim>\<open>NegotiatingWorkerAdapter\<close>, and its asynchronous calls.
\<close>

record durable_contract =
  dk_adapter_type :: string
  dk_adapter_instance_id :: string
  dk_protocol_version :: int
  dk_capabilities :: job_support

record worker_adapter =
  wa_class :: string
  wa_durable :: "durable_contract option"
  wa_negotiate :: "(rt_world \<Rightarrow> rt_world \<times> unit result) option"
  wa_execute :: "worker_request \<Rightarrow> rt_world \<Rightarrow> rt_world \<times> worker_result result"
  wa_start_job :: "worker_request \<Rightarrow> string \<Rightarrow> rt_world \<Rightarrow> rt_world \<times> worker_job_handle result"
  wa_resume_job :: "worker_request \<Rightarrow> worker_job_handle \<Rightarrow> rt_world \<Rightarrow> rt_world \<times> worker_result result"

type_synonym adapter_registry = "(string \<times> worker_adapter) list"

definition register_adapter :: "string \<Rightarrow> worker_adapter \<Rightarrow> adapter_registry \<Rightarrow> adapter_registry result" where
  "register_adapter worker_id a r =
     bindR (raise_if (map_of r worker_id \<noteq> None) (ValueError (''adapter already registered for '' @ worker_id))) (\<lambda>_.
     Inr (r @ [(worker_id, a)]))"

definition get_adapter :: "adapter_registry \<Rightarrow> string \<Rightarrow> worker_adapter result" where
  "get_adapter r worker_id =
     (case map_of r worker_id of
        None \<Rightarrow> Inl (KeyError (''no adapter registered for worker '' @ worker_id))
      | Some a \<Rightarrow> Inr a)"

definition contains_adapter :: "adapter_registry \<Rightarrow> string \<Rightarrow> bool" where
  "contains_adapter r worker_id \<longleftrightarrow> map_of r worker_id \<noteq> None"

text \<open>The capabilities a job is prepared with.\<close>

definition contract_capabilities :: "int \<Rightarrow> job_support \<Rightarrow> string \<Rightarrow> int option" where
  "contract_capabilities version c = map_of
     ((''protocol_version'', version) # map (\<lambda>(k, b). (k, if b then 1 else 0))
       [(''supports_reconcile'', js_reconcile c), (''supports_resume'', js_resume c), (''supports_cancel'', js_cancel c),
        (''supports_durable_cancel'', js_cancel c), (''supports_provider_idempotency'', js_provider_idempotency c),
        (''supports_stream_reconnect'', js_stream_reconnect c), (''supports_repeatable_collect'', js_repeatable_collect c),
        (''supports_idempotent_launch_lookup'', js_idempotent_launch_lookup c),
        (''supports_durable_launch_registry'', js_durable_launch_registry c)])"

definition no_support :: job_support where
  "no_support = \<lparr>js_reconcile = False, js_resume = False, js_cancel = False, js_provider_idempotency = False,
     js_stream_reconnect = False, js_repeatable_collect = False, js_idempotent_launch_lookup = False,
     js_durable_launch_registry = False\<rparr>"

definition adapter_job_contract :: "string \<Rightarrow> worker_adapter \<Rightarrow> string \<times> string \<times> (string \<Rightarrow> int option)" where
  "adapter_job_contract worker_id a =
     (case wa_durable a of
        Some k \<Rightarrow> (dk_adapter_type k, dk_adapter_instance_id k, contract_capabilities (dk_protocol_version k) (dk_capabilities k))
      | None \<Rightarrow>
          (let ty = ''legacy:'' @ wa_class a
           in (ty, ''worker:'' @ worker_id @ '':'' @ ty, contract_capabilities 1 no_support)))"

definition negotiate_adapter_job_contract :: "worker_adapter \<Rightarrow> unit rt" where
  "negotiate_adapter_job_contract a = (case wa_negotiate a of None \<Rightarrow> ret () | Some f \<Rightarrow> await f)"

section \<open>The runtime\<close>

record runtime =
  rt_id :: string
  rt_max_attempts :: int
  rt_worker_timeout :: rat
  rt_lease_ttl :: rat
  rt_wait_timeout :: rat
  rt_scheduler :: scheduler_config
  rt_adapters :: adapter_registry
  rt_observers :: "usage_observer list"
  rt_flt :: flt
  rt_digest :: "json \<Rightarrow> string"
  rt_sha :: "string \<Rightarrow> string"
  rt_uuid :: "rt_world \<Rightarrow> nat \<Rightarrow> string"
  rt_error_text :: "py_error \<Rightarrow> string"
  rt_error_class :: "py_error \<Rightarrow> string"
  rt_evidence_root :: string

definition check_runtime :: "runtime \<Rightarrow> unit result" where
  "check_runtime R =
     bindR (raise_if (rt_max_attempts R < 1) (ValueError ''max_attempts must be positive'')) (\<lambda>_.
     bindR (raise_if (rt_worker_timeout R < 1 \<or> 3600 < rt_worker_timeout R)
       (ValueError ''worker_timeout_seconds must be between 1 and 3600'')) (\<lambda>_.
     bindR (raise_if (rt_lease_ttl R < 1 \<or> 3600 < rt_lease_ttl R)
       (ValueError ''dispatch_lease_ttl_seconds must be between 1 and 3600'')) (\<lambda>_.
     raise_if (rt_wait_timeout R \<le> 0 \<or> 3600 < rt_wait_timeout R)
       (ValueError ''dispatch_wait_timeout_seconds must be between zero and 3600''))))"

text \<open>A call of the store that draws identifiers.\<close>

definition call_fresh :: "runtime \<Rightarrow> ((nat \<Rightarrow> string) \<Rightarrow> rat \<Rightarrow> db \<Rightarrow> (db \<times> 'a) result) \<Rightarrow> 'a rt" where
  "call_fresh R op w = call_store (op (rt_uuid R w)) w"

lemma call_fresh_Some:
  "call_fresh R op w = Some (w', Inr x) \<longleftrightarrow>
     (\<exists>db. op (rt_uuid R w) (clock w) (core (store w)) = Inr (db, x) \<and> w' = w\<lparr>store := put_core db (store w)\<rparr>)"
  by (simp add: call_fresh_def call_store_Some)

text \<open>The requirements a task row stores.\<close>

definition requirements_of :: "task_row \<Rightarrow> task_requirements result" where
  "requirements_of t =
     bindR (map_result (\<lambda>v. case enum_of all_task_label task_label_value v of
         None \<Rightarrow> Inl (ValueError (v @ '' is not a valid TaskLabel'')) | Some x \<Rightarrow> Inr x) (tk_labels t)) (\<lambda>labels.
     Inr \<lparr>rq_labels = set labels, rq_required_capabilities = set (tk_required_capabilities t),
          rq_permission_class = tk_permission_class t, rq_approval_state = tk_approval_state t,
          rq_minimum_context_tokens = tk_minimum_context_tokens t, rq_privacy_sensitive = tk_privacy_sensitive t,
          rq_code_write_required = tk_code_write_required t, rq_panel_size = tk_panel_size t,
          rq_preferred_workers = tk_preferred_workers t\<rparr>)"

text \<open>The role of every worker of an attempt, and whether it stands in for one that failed.\<close>

definition task_roles :: "execution_topology \<Rightarrow> string list \<Rightarrow> int \<Rightarrow> (string \<times> task_role \<times> bool) list" where
  "task_roles topology worker_ids attempt =
     (if topology = TOPO_PRIMARY_REVIEWER
      then map (\<lambda>(n, w). (w, if n = 0 then ROLE_PRIMARY else ROLE_REVIEWER, False)) (enumerate 0 worker_ids)
      else if topology = TOPO_PARALLEL_PANEL then map (\<lambda>w. (w, ROLE_PANELIST, False)) worker_ids
      else (let fallback = (topology \<in> {TOPO_FALLBACK, TOPO_CHEAP_FIRST_ESCALATION} \<and> 1 < attempt)
            in map (\<lambda>w. (w, if fallback then ROLE_FALLBACK else ROLE_PRIMARY, fallback)) worker_ids))"

section \<open>Submission\<close>

definition pad_reference :: "nat \<Rightarrow> string" where
  "pad_reference n = ''#'' @ replicate (4 - length (show_nat n)) (CHR ''0'') @ show_nat n"

record submission =
  sm_project_id :: string
  sm_title :: string
  sm_description :: string
  sm_requirements :: task_requirements
  sm_topology :: execution_topology
  sm_priority :: int
  sm_task_id :: "string option"
  sm_reference :: "string option"

definition submitted_record :: "submission \<Rightarrow> string \<Rightarrow> rat \<Rightarrow> task_record" where
  "submitted_record s task_id now =
     \<lparr>tr_id = task_id, tr_project_id = sm_project_id s, tr_title = sm_title s, tr_description = sm_description s,
      tr_state = TASK_DRAFT, tr_topology = sm_topology s, tr_requirements = sm_requirements s,
      tr_priority = sm_priority s, tr_attempt_count = 0, tr_created_at = timestamp now, tr_updated_at = timestamp now\<rparr>"

definition needs_approval :: "task_requirements \<Rightarrow> bool" where
  "needs_approval rq \<longleftrightarrow> rq_permission_class rq = PERM_RED \<and> rq_approval_state rq \<noteq> APPROVAL_APPROVED"

definition release_submission :: "runtime \<Rightarrow> submission \<Rightarrow> string \<Rightarrow> task_row rt" where
  "release_submission R s task_id =
     (if needs_approval (sm_requirements s)
      then andthen (call_fresh R (\<lambda>uuid now. request_approval now (uuid 0) (sm_project_id s)
             (permission_class_value (rq_permission_class (sm_requirements s))) ''executeTask''
             [(''taskID'', JStr task_id), (''title'', JStr (sm_title s))] ''runtime'' (Some task_id)
             (Some ''RED permission class requires explicit human approval''))) (\<lambda>_.
           call_store (\<lambda>now. transition_task now task_id TASK_BLOCKED ''supervisor''
             (Some ''Task blocked on mandatory human approval'') [(''reasonCode'', JStr ''HUMAN_APPROVAL_REQUIRED'')] None None None))
      else call_store (\<lambda>now. transition_task now task_id TASK_READY ''supervisor'' None [] None None None))"

definition submit_task :: "runtime \<Rightarrow> submission \<Rightarrow> string rt" where
  "submit_task R s w =
     (let task_id = (if truthy (sm_task_id s) then the (sm_task_id s) else ''tsk-'' @ rt_uuid R w 0) in
      (andthen (case sm_reference s of
          Some r \<Rightarrow> ret r
        | None \<Rightarrow> ask_store (\<lambda>db. Inr (pad_reference (length (list_tasks db (Some (sm_project_id s))) + 1)))) (\<lambda>reference.
      andthen (call_store (\<lambda>now. create_task now (submitted_record s task_id now) reference)) (\<lambda>_.
      andthen (call_store (\<lambda>now. transition_task now task_id TASK_QUEUED ''supervisor'' None [] None None None)) (\<lambda>_.
      andthen (release_submission R s task_id) (\<lambda>_.
      ret task_id))))) w)"

section \<open>The quota guard before routing\<close>

definition guard_candidate_of :: "task_requirements \<Rightarrow> (string \<times> resource_snapshot) list \<Rightarrow> worker_snapshot \<Rightarrow> guard_candidate result" where
  "guard_candidate_of req latest w =
     (let c = \<lparr>gc_worker_id = ws_id w,
         gc_quota_pool_id = (case map_of latest (ws_id w) of
            Some s \<Rightarrow> ro_quota_pool_id (qs_observation s)
          | None \<Rightarrow> ''local:'' @ provider_value (ws_provider w) @ '':worker:'' @ ws_id w),
         gc_capable = (hard_constraints req w = []), gc_premium = (ws_monetary_cost_score w < 1 / 2),
         gc_provider = Some (provider_value (ws_provider w))\<rparr>
      in bindR (check_guard_candidate c) (\<lambda>_. Inr c))"

record guarded =
  gu_candidates :: "worker_snapshot list"
  gu_rejections :: "rejection list"
  gu_explanation :: "(string \<times> json) list"
  gu_evidence :: "resource_routing_evidence list"

definition apply_quota_guard :: "rat \<Rightarrow> resource_db \<Rightarrow> task_requirements \<Rightarrow> worker_snapshot list \<Rightarrow> guarded result" where
  "apply_quota_guard now rd req candidates =
     bindR (latest_by_worker rd (map ws_id candidates)) (\<lambda>latest.
     bindR (map_result (guard_candidate_of req latest) candidates) (\<lambda>gcs.
     bindR (guard_evaluate rd gcs (Zoned now)) (\<lambda>d.
     let capable = (\<lambda>i. map_of (rev (map (\<lambda>w. (ws_id w, hard_constraints req w = [])) candidates)) i = Some True);
         allowed = set (gd_ordered_worker_ids d)
     in bindR (routing_evidence d) (\<lambda>evidence.
        Inr \<lparr>gu_candidates = filter (\<lambda>w. \<not> capable (ws_id w) \<or> ws_id w \<in> allowed) candidates,
             gu_rejections = map (\<lambda>(i, reason). \<lparr>rj_worker_id = i, rj_reason_code = ''QUOTA_GUARD'', rj_detail = reason\<rparr>)
               (filter (\<lambda>(i, reason). i \<notin> allowed \<and> capable i) (sort_key fst (gd_avoided d))),
             gu_explanation = guard_decision_to_protocol d, gu_evidence = evidence\<rparr>))))"

definition busy_states :: "worker_state set" where
  "busy_states = {WORKER_STARTING, WORKER_RUNNING, WORKER_WAITING}"

definition transient_capacity_possible ::
    "runtime \<Rightarrow> task_requirements \<Rightarrow> execution_topology \<Rightarrow> worker_snapshot list \<Rightarrow> resource_routing_evidence list \<Rightarrow> bool result" where
  "transient_capacity_possible R req topology candidates evidence =
     (if \<not> list_ex (\<lambda>w. ws_state w \<in> busy_states) candidates then Inr False
      else bindR (schedule (rt_flt R) (rt_scheduler R) ''__capacity_probe__'' req topology
          (map (\<lambda>w. if ws_state w \<in> busy_states then w\<lparr>ws_state := WORKER_IDLE\<rparr> else w) candidates) evidence) (\<lambda>probe.
        Inr (rd_selected_worker_ids probe \<noteq> [])))"

section \<open>Deferral\<close>

text \<open>
  One transaction: a repeated deferral for the same reason is not journalled again until the wait limit
  has passed, and then blocks a task that is still ready. The previous event is the last of its kind.
\<close>

definition last_deferral :: "db \<Rightarrow> string \<Rightarrow> event option" where
  "last_deferral db task_id =
     (case rev (sort_key ev_sequence (filter (\<lambda>e. ev_task_id e = Some task_id \<and> ev_kind e = ''dispatchDeferred'') (events db))) of
        [] \<Rightarrow> None | e # _ \<Rightarrow> Some e)"

definition deferral_payload :: "string \<Rightarrow> string \<Rightarrow> (string \<times> json) list" where
  "deferral_payload code detail = [(''reasonCode'', JStr code), (''detail'', JStr detail)]"

definition block_waiting :: "rat \<Rightarrow> rat \<Rightarrow> string \<Rightarrow> task_row \<Rightarrow> db \<Rightarrow> db" where
  "block_waiting now limit code current db =
     append_event now (mk_event ''taskStateChanged'' SEV_WARNING ''task'' (tk_id current) (Some (tk_project_id current))
         (Some (tk_id current)) None None ''Task dispatch wait limit exhausted''
         [(''from'', JStr (task_state_value TASK_READY)), (''to'', JStr (task_state_value TASK_BLOCKED)),
          (''reasonCode'', JStr ''DISPATCH_WAIT_TIMEOUT''), (''lastDeferralReason'', JStr code), (''limitSeconds'', JNum limit)] ''runtime'')
       (db\<lparr>tasks := upd_by tk_id (tk_id current)
           (\<lambda>t. t\<lparr>tk_state := TASK_BLOCKED, tk_updated_at := timestamp now, tk_version := tk_version t + 1\<rparr>) (tasks db)\<rparr>)"

definition defer_event :: "task_row \<Rightarrow> string \<Rightarrow> string \<Rightarrow> event" where
  "defer_event task code detail =
     mk_event ''dispatchDeferred'' SEV_INFO ''task'' (tk_id task) (Some (tk_project_id task)) (Some (tk_id task)) None None
       ''Task dispatch deferred for transient Worker capacity'' (deferral_payload code detail) ''runtime''"

definition record_dispatch_deferred :: "runtime \<Rightarrow> task_row \<Rightarrow> string \<Rightarrow> string \<Rightarrow> rat \<Rightarrow> db \<Rightarrow> (db \<times> bool) result" where
  "record_dispatch_deferred R task code detail now db =
     (case last_deferral db (tk_id task) of
        Some e \<Rightarrow>
          if ev_payload e = deferral_payload code detail
          then (if now - of_int (ev_created_at e) < rt_wait_timeout R then Inr (db, False)
                else case row_by tk_id (tk_id task) (tasks db) of
                  None \<Rightarrow> Inr (db, False)
                | Some current \<Rightarrow>
                    if tk_state current \<noteq> TASK_READY then Inr (db, False)
                    else Inr (block_waiting now (rt_wait_timeout R) code current db, True))
          else Inr (append_event now (defer_event task code detail) db, False)
      | None \<Rightarrow> Inr (append_event now (defer_event task code detail) db, False))"

section \<open>Terminal audits\<close>

definition task_audit_key :: "task_row \<Rightarrow> string" where
  "task_audit_key t = ''task:'' @ tk_id t @ '':version:'' @ show_int (tk_version t) @ '':state:'' @ task_state_value (tk_state t)"

definition audit_terminal :: "runtime \<Rightarrow> task_row \<Rightarrow> unit rt" where
  "audit_terminal R t w =
     (if tk_state t \<notin> {TASK_SUCCEEDED, TASK_FAILED, TASK_CANCELLED} then Some (w, Inr ())
      else andthen (transact (\<lambda>now. audit_task_terminal (rt_observers R) now (rt_uuid R w) (tk_id t) None
             (task_state_value (tk_state t)) (Some (task_audit_key t)) [] None)) (\<lambda>_. ret ()) w)"

definition audit_pending_terminal_tasks :: "runtime \<Rightarrow> string set option \<Rightarrow> unit rt" where
  "audit_pending_terminal_tasks R task_ids =
     andthen (ask_store (\<lambda>db. Inr (list_tasks db None))) (\<lambda>ts.
     for_each (filter (\<lambda>t. case task_ids of None \<Rightarrow> True | Some s \<Rightarrow> tk_id t \<in> s) ts) (audit_terminal R))"

section \<open>Dispatch\<close>

text \<open>What becomes of one task in a round.\<close>

record launch =
  la_task :: task_row
  la_requirements :: task_requirements
  la_worker_ids :: "string list"
  la_attempt :: int
  la_run_ids :: "(string \<times> string) list"
  la_generation :: int

datatype dispatch_outcome = Skipped | Launched launch | Blocked | Deferred

definition deferred_outcome :: "runtime \<Rightarrow> task_row \<Rightarrow> string \<Rightarrow> string \<Rightarrow> dispatch_outcome rt" where
  "deferred_outcome R task code detail =
     andthen (call_store (record_dispatch_deferred R task code detail)) (\<lambda>exhausted.
     ret (if exhausted then Blocked else Deferred))"

text \<open>\<^verbatim>\<open>except (RuntimeError, ValueError)\<close> for the exceptions a transition may raise.\<close>

definition runtime_or_value_error :: "py_error \<Rightarrow> bool" where
  "runtime_or_value_error e =
     (case e of
        RuntimeError _ \<Rightarrow> True | ValueError _ \<Rightarrow> True | InvalidTransition _ _ \<Rightarrow> True | ExecutionLeaseLostError _ _ _ \<Rightarrow> True
      | _ \<Rightarrow> False)"

text \<open>A task that has used up its attempts fails, unless it has meanwhile left the ready state.\<close>

definition exhaust_attempts :: "runtime \<Rightarrow> task_row \<Rightarrow> dispatch_outcome rt" where
  "exhaust_attempts R task =
     andthen (catch (andthen (call_store (\<lambda>now. transition_task now (tk_id task) TASK_FAILED ''runtime''
           (Some ''Task execution attempt limit exhausted before dispatch'')
           [(''attemptCount'', JInt (tk_attempt_count task)), (''maxAttempts'', JInt (rt_max_attempts R))]
           (Some (tk_version task)) None None)) (\<lambda>t. ret (Some t)))
       (\<lambda>e. if \<not> runtime_or_value_error e then raise e
          else andthen (ask_store (\<lambda>db. get_task db (tk_id task))) (\<lambda>current.
            if tk_state current \<noteq> TASK_READY then ret None else raise e))) (\<lambda>terminal.
     case terminal of
       None \<Rightarrow> ret Skipped
     | Some t \<Rightarrow> andthen (audit_terminal R t) (\<lambda>_. ret Skipped))"

definition failed_dependencies :: "(string \<times> task_state) list \<Rightarrow> (string \<times> task_state) list" where
  "failed_dependencies ds = filter (\<lambda>(i, st). st \<in> {TASK_FAILED, TASK_CANCELLED}) ds"

definition dispatch_candidates :: "runtime \<Rightarrow> task_row \<Rightarrow> db \<Rightarrow> worker_snapshot list" where
  "dispatch_candidates R task db =
     (let registered = filter (\<lambda>w. contains_adapter (rt_adapters R) (ws_id w)) (worker_snapshots db);
          failed = rn_worker_id ` set (filter (\<lambda>r. rn_state r \<in> {RUN_FAILED, RUN_TIMED_OUT, RUN_AUTH_REQUIRED, RUN_RATE_LIMITED})
            (list_worker_runs db (Some (tk_id task))))
      in if tk_topology task \<in> {TOPO_FALLBACK, TOPO_CHEAP_FIRST_ESCALATION}
         then filter (\<lambda>w. ws_id w \<notin> failed) registered else registered)"

definition rejection_json :: "rejection \<Rightarrow> json" where
  "rejection_json r = JObj [(''workerID'', JStr (rj_worker_id r)), (''reasonCode'', JStr (rj_reason_code r)), (''detail'', JStr (rj_detail r))]"

definition combine_decision :: "routing_decision \<Rightarrow> guarded \<Rightarrow> routing_decision" where
  "combine_decision d g =
     (let rejected = rd_rejected d @ gu_rejections g in
      d\<lparr>rd_rejected := rejected,
        rd_explanation := dict_merge (rd_explanation d)
          [(''rejected'', JList (map rejection_json rejected)), (''quotaGuard'', JObj (gu_explanation g))]\<rparr>)"

text \<open>The routing of a task: the guarded candidates and the persisted decision.\<close>

definition route_task :: "runtime \<Rightarrow> task_row \<Rightarrow> task_requirements \<Rightarrow> (guarded \<times> routing_decision) rt" where
  "route_task R task req =
     andthen (\<lambda>w. reading (\<lambda>rd. apply_quota_guard (clock w) rd req (dispatch_candidates R task (core rd))) w) (\<lambda>g.
     andthen (lift (schedule (rt_flt R) (rt_scheduler R) (tk_id task) req (tk_topology task) (gu_candidates g) (gu_evidence g))) (\<lambda>d.
     let d = combine_decision d g in
     andthen (call_fresh R (\<lambda>uuid now. persist_routing_decision now (uuid 0) (tk_id task) d ''scheduler'')) (\<lambda>_.
     ret (g, d))))"

text \<open>\<open>None\<close>: every contract was observed, or its adapter proved that nothing can be launched.\<close>

fun observe_contracts :: "runtime \<Rightarrow> task_row \<Rightarrow> string list \<Rightarrow> dispatch_outcome option rt" where
  "observe_contracts R task [] = ret None"
| "observe_contracts R task (i # is) =
     andthen (lift (get_adapter (rt_adapters R) i)) (\<lambda>a.
     andthen (catch (andthen (negotiate_adapter_job_contract a) (\<lambda>_. ret True))
        (\<lambda>e. case e of LaunchRejected st m \<Rightarrow> ret True | _ \<Rightarrow> ret False)) (\<lambda>ok.
     if ok then observe_contracts R task is
     else andthen (deferred_outcome R task ''WORKER_CONTRACT_UNAVAILABLE''
         ''Selected Worker contract could not be observed before dispatch'') (\<lambda>out. ret (Some out))))"

definition prepare_jobs :: "runtime \<Rightarrow> int \<Rightarrow> (string \<times> string) list \<Rightarrow> unit rt" where
  "prepare_jobs R generation run_ids =
     for_each run_ids (\<lambda>(worker_id, run_id).
       andthen (lift (get_adapter (rt_adapters R) worker_id)) (\<lambda>a.
       let (ty, inst, caps) = adapter_job_contract worker_id a in
       andthen (call_fresh R (\<lambda>uuid now. prepare_provider_job (rt_sha R) now (uuid 0) run_id ty inst caps (rt_id R) generation ''runtime''))
         (\<lambda>_. ret ())))"

definition claim_and_launch :: "runtime \<Rightarrow> task_row \<Rightarrow> task_requirements \<Rightarrow> string list \<Rightarrow> dispatch_outcome rt" where
  "claim_and_launch R task req chosen =
     andthen (call_fresh R (\<lambda>uuid now. claim_task_dispatch (rt_digest R) now uuid (tk_id task) chosen (tk_version task)
         (Some (timestamp (now + rt_worker_timeout R))) (Some (rt_id R)) (rt_lease_ttl R) (Some (rt_max_attempts R)) ''runtime'')) (\<lambda>claim.
     case claim of
       None \<Rightarrow>
         andthen (ask_store (\<lambda>db. get_task db (tk_id task))) (\<lambda>current.
         if tk_state current = TASK_READY
         then deferred_outcome R current ''DISPATCH_CLAIM_RACE'' ''Task or Worker reservation changed before atomic dispatch''
         else ret Skipped)
     | Some c \<Rightarrow>
         (let generation = the (dc_lease_generation c) in
          andthen (prepare_jobs R generation (dc_run_ids c)) (\<lambda>_.
          ret (Launched \<lparr>la_task = task, la_requirements = req, la_worker_ids = chosen, la_attempt = dc_attempt c,
                 la_run_ids = dc_run_ids c, la_generation = generation\<rparr>))))"

definition dispatch_task :: "runtime \<Rightarrow> task_row \<Rightarrow> dispatch_outcome rt" where
  "dispatch_task R task =
     (if rt_max_attempts R \<le> tk_attempt_count task then exhaust_attempts R task
      else andthen (ask_store (\<lambda>db. task_dependencies_of db (tk_id task))) (\<lambda>ds.
        if failed_dependencies ds \<noteq> []
        then andthen (call_store (\<lambda>now. transition_task now (tk_id task) TASK_BLOCKED ''supervisor''
               (Some ''Task blocked by failed prerequisite'')
               [(''reasonCode'', JStr ''DEPENDENCY_TERMINAL_FAILURE''),
                (''dependencies'', JList (map (\<lambda>(i, st). JObj [(''taskID'', JStr i), (''state'', JStr (task_state_value st))]) (failed_dependencies ds)))]
               None None None)) (\<lambda>_. ret Blocked)
        else if \<exists>(i, st) \<in> set ds. st \<noteq> TASK_SUCCEEDED then ret Skipped
        else andthen (lift (requirements_of task)) (\<lambda>req.
          andthen (route_task R task req) (\<lambda>(g, d).
          if rd_selected_worker_ids d = []
          then andthen (lift (transient_capacity_possible R req (tk_topology task) (gu_candidates g) (gu_evidence g))) (\<lambda>transient.
            if transient
            then deferred_outcome R task ''WORKER_CAPACITY_BUSY'' ''Otherwise eligible Worker capacity is temporarily busy''
            else andthen (call_store (\<lambda>now. transition_task now (tk_id task) TASK_BLOCKED ''supervisor'' (Some ''No eligible worker'')
                  [(''rejected'', JList (map rejection_json (rd_rejected d)))] None None None)) (\<lambda>_. ret Blocked))
          else andthen (observe_contracts R task (rd_selected_worker_ids d)) (\<lambda>early.
            case early of
              Some out \<Rightarrow> ret out
            | None \<Rightarrow> claim_and_launch R task req (rd_selected_worker_ids d))))))"

text \<open>
  A round over the tasks as they were read, in the order of their priority. The launches of the round are
  collected with the tasks they belong to; \<open>active\<close> are the tasks the runtime is already executing.
\<close>

record dispatch_summary =
  ds_launched :: "launch list"
  ds_blocked :: "string list"
  ds_deferred :: "string list"

definition add_outcome :: "string \<Rightarrow> dispatch_outcome \<Rightarrow> dispatch_summary \<Rightarrow> dispatch_summary" where
  "add_outcome task_id out s =
     (case out of
        Skipped \<Rightarrow> s
      | Launched l \<Rightarrow> s\<lparr>ds_launched := ds_launched s @ [l]\<rparr>
      | Blocked \<Rightarrow> s\<lparr>ds_blocked := ds_blocked s @ [task_id]\<rparr>
      | Deferred \<Rightarrow> s\<lparr>ds_deferred := ds_deferred s @ [task_id]\<rparr>)"

definition dispatchable :: "string set option \<Rightarrow> string set \<Rightarrow> task_row \<Rightarrow> bool" where
  "dispatchable task_ids active t \<longleftrightarrow>
     (case task_ids of None \<Rightarrow> True | Some s \<Rightarrow> tk_id t \<in> s) \<and> tk_state t = TASK_READY \<and> tk_id t \<notin> active"

fun dispatch_all :: "runtime \<Rightarrow> string set option \<Rightarrow> string set \<Rightarrow> dispatch_summary \<Rightarrow> task_row list \<Rightarrow> dispatch_summary rt" where
  "dispatch_all R task_ids active s [] = ret s"
| "dispatch_all R task_ids active s (t # ts) =
     (if \<not> dispatchable task_ids active t then dispatch_all R task_ids active s ts
      else andthen (dispatch_task R t) (\<lambda>out.
        let active = (case out of Launched l \<Rightarrow> insert (tk_id t) active | _ \<Rightarrow> active)
        in dispatch_all R task_ids active (add_outcome (tk_id t) out s) ts))"

definition dispatch_ready :: "runtime \<Rightarrow> string set option \<Rightarrow> string set \<Rightarrow> dispatch_summary rt" where
  "dispatch_ready R task_ids active =
     andthen (ask_store (\<lambda>db. Inr (sort_key (\<lambda>t. (- tk_priority t, tk_created_at t, tk_id t)) (list_tasks db None)))) (\<lambda>ts.
     dispatch_all R task_ids active \<lparr>ds_launched = [], ds_blocked = [], ds_deferred = []\<rparr> ts)"

section \<open>What a launch rests on\<close>

text \<open>
  The world a task was routed in: every chosen worker has an adapter, passed the hard constraints and was
  allowed by the quota guard. The world it was claimed in: the task was still ready at the version that was
  routed, had attempts left and no unsatisfied dependency, and the workers were idle.
\<close>

definition routed :: "runtime \<Rightarrow> rt_world \<Rightarrow> launch \<Rightarrow> bool" where
  "routed R w l \<longleftrightarrow> la_worker_ids l \<noteq> [] \<and>
     (\<exists>gcs gd. guard_evaluate (store w) gcs (Zoned (clock w)) = Inr gd \<and>
       (\<forall>i \<in> set (la_worker_ids l). contains_adapter (rt_adapters R) i \<and>
          (unique_key wk_id (workers (core (store w))) \<longrightarrow> i \<in> set (gd_ordered_worker_ids gd)) \<and>
          (\<exists>ws \<in> set (worker_snapshots (core (store w))). ws_id ws = i \<and> admissible (la_requirements l) ws)))"

definition claimed :: "runtime \<Rightarrow> rt_world \<Rightarrow> launch \<Rightarrow> bool" where
  "claimed R w l \<longleftrightarrow>
     (\<exists>task. row_by tk_id (tk_id (la_task l)) (tasks (core (store w))) = Some task \<and> tk_state task = TASK_READY \<and>
        tk_version task = tk_version (la_task l) \<and> tk_attempt_count task < rt_max_attempts R \<and> la_attempt l = tk_attempt_count task + 1) \<and>
     unsatisfied_dependencies (core (store w)) (tk_id (la_task l)) = [] \<and>
     workers_idle (core (store w)) (dict_fromkeys (la_worker_ids l))"

lemma claimed_plan:
  assumes "claim_task_dispatch digest now uuid tid ws ver tmo (Some o1) ttl (Some ma) actor db = Inr (db', Some c)"
  obtains p :: claim_plan where "row_by tk_id tid (tasks db) = Some (cp_task p)" "tk_state (cp_task p) = TASK_READY" "tk_version (cp_task p) = ver"
    "tk_attempt_count (cp_task p) < ma" "unsatisfied_dependencies db tid = []" "workers_idle db (dict_fromkeys ws)"
    "dc_attempt c = tk_attempt_count (cp_task p) + 1"
proof -
  from assms obtain p where p: "plan_dispatch digest now uuid tid (dict_fromkeys ws) ver tmo (Some o1) ttl (Some ma) actor db = Inr (Some p)"
    and c: "c = claim_result db p"
    by (auto simp: claim_task_dispatch_def Let_def split: option.splits if_splits)
  note facts = plan_dispatch_Some [OF p]
  have "tk_attempt_count (cp_task p) < ma"
    using p facts(1) unfolding plan_dispatch_def by (auto simp: not_less split: if_split_asm)
  with facts c show ?thesis by (intro that [of p]) (simp_all add: claim_result_def plan_attempt_def)
qed

lemma distinct_snapshots:
  assumes "unique_key wk_id (workers db)"
  shows "distinct (map ws_id (worker_snapshots db))"
proof -
  let ?f = "\<lambda>w. case row_by nd_id (wk_node_id w) (nodes db) of None \<Rightarrow> [] | Some n \<Rightarrow>
    [(w, n, case wk_model_id w of None \<Rightarrow> None | Some m \<Rightarrow> row_by ml_id m (models db))]"
  have "map ws_id (worker_snapshots db) = map (\<lambda>(w, n, m). wk_id w) (concat (map ?f (sort_key wk_id (workers db))))"
    by (simp add: worker_snapshots_def list_workers_def case_prod_beta)
  moreover have "distinct (map (\<lambda>(w, n, m). wk_id w) (concat (map ?f ws)))" if "distinct (map wk_id ws)" for ws
    using that by (induction ws) (auto split: option.splits)
  moreover have "distinct (map wk_id (sort_key wk_id (workers db)))"
    using assms by (simp add: unique_key_def distinct_map)
  ultimately show ?thesis by simp
qed

lemma guarded_candidates:
  assumes "apply_quota_guard now rd req cs = Inr g"
  shows "set (gu_candidates g) \<subseteq> set cs"
    and "\<exists>gcs gd. guard_evaluate rd gcs (Zoned now) = Inr gd \<and>
      (distinct (map ws_id cs) \<longrightarrow> (\<forall>ws \<in> set (gu_candidates g). admissible req ws \<longrightarrow> ws_id ws \<in> set (gd_ordered_worker_ids gd)))"
proof -
  obtain latest gcs gd ev where gd: "guard_evaluate rd gcs (Zoned now) = Inr gd"
    and g: "gu_candidates g = filter (\<lambda>w. \<not> map_of (rev (map (\<lambda>w. (ws_id w, hard_constraints req w = [])) cs)) (ws_id w) = Some True \<or>
      ws_id w \<in> set (gd_ordered_worker_ids gd)) cs"
    using assms by (auto simp: apply_quota_guard_def Let_def)
  then show "set (gu_candidates g) \<subseteq> set cs" by auto
  have "map_of (rev (map (\<lambda>w. (ws_id w, hard_constraints req w = [])) cs)) (ws_id ws) = Some (hard_constraints req ws = [])"
    if "ws \<in> set cs" "distinct (map ws_id cs)" for ws
  proof (rule map_of_is_SomeI)
    show "distinct (map fst (rev (map (\<lambda>w. (ws_id w, hard_constraints req w = [])) cs)))"
      using that(2) by (simp add: rev_map [symmetric] comp_def)
  qed (use that in auto)
  then show "\<exists>gcs gd. guard_evaluate rd gcs (Zoned now) = Inr gd \<and>
      (distinct (map ws_id cs) \<longrightarrow> (\<forall>ws \<in> set (gu_candidates g). admissible req ws \<longrightarrow> ws_id ws \<in> set (gd_ordered_worker_ids gd)))"
    using gd by (intro exI [of _ gcs] exI [of _ gd]) (auto simp: g hard_constraints_Nil_iff)
qed

lemma candidates_subset:
  "set (dispatch_candidates R task db) \<subseteq> {ws \<in> set (worker_snapshots db). contains_adapter (rt_adapters R) (ws_id ws)}"
  by (auto simp: dispatch_candidates_def Let_def)

lemma distinct_candidates:
  "unique_key wk_id (workers db) \<Longrightarrow> distinct (map ws_id (dispatch_candidates R task db))"
  using distinct_snapshots [of db] by (simp add: dispatch_candidates_def Let_def distinct_map_filter)

lemma route_task_sound:
  assumes "route_task R task req w = Some (w', Inr (g, d))" and "la_worker_ids l = rd_selected_worker_ids d" and "la_worker_ids l \<noteq> []"
    and "la_requirements l = req"
  shows "routed R w l"
proof -
  let ?cs = "dispatch_candidates R task (core (store w))"
  obtain d0 where g: "apply_quota_guard (clock w) (store w) req ?cs = Inr g"
    and d0: "schedule (rt_flt R) (rt_scheduler R) (tk_id task) req (tk_topology task) (gu_candidates g) (gu_evidence g) = Inr d0"
    and d: "rd_selected_worker_ids d = rd_selected_worker_ids d0"
    using assms(1) by (auto simp: route_task_def andthen_Some reading_def lift_def ret_def Let_def combine_decision_def)
  from guarded_candidates [OF g] obtain gcs gd where gd: "guard_evaluate (store w) gcs (Zoned (clock w)) = Inr gd"
    "distinct (map ws_id ?cs) \<longrightarrow> (\<forall>ws \<in> set (gu_candidates g). admissible req ws \<longrightarrow> ws_id ws \<in> set (gd_ordered_worker_ids gd))"
    "set (gu_candidates g) \<subseteq> set ?cs" by auto
  have "contains_adapter (rt_adapters R) i \<and>
      (unique_key wk_id (workers (core (store w))) \<longrightarrow> i \<in> set (gd_ordered_worker_ids gd)) \<and>
      (\<exists>ws \<in> set (worker_snapshots (core (store w))). ws_id ws = i \<and> admissible req ws)" if i: "i \<in> set (la_worker_ids l)" for i
  proof -
    obtain ws where ws: "ws \<in> set (gu_candidates g)" "ws_id ws = i" "admissible req ws"
      using selected_workers_admissible [OF d0] i assms(2) d by auto
    then show ?thesis using gd(2,3) candidates_subset distinct_candidates by blast
  qed
  with gd(1) assms(3,4) show ?thesis unfolding routed_def by blast
qed

lemma claim_and_launch_sound:
  assumes "claim_and_launch R task req chosen w = Some (w', Inr (Launched l))"
  shows "la_task l = task" and "la_requirements l = req" and "la_worker_ids l = chosen" and "claimed R w l"
proof -
  from assms obtain db c where
    claim: "claim_task_dispatch (rt_digest R) (clock w) (rt_uuid R w) (tk_id task) chosen (tk_version task)
         (Some (timestamp (clock w + rt_worker_timeout R))) (Some (rt_id R)) (rt_lease_ttl R) (Some (rt_max_attempts R)) ''runtime''
         (core (store w)) = Inr (db, Some c)"
    and l: "la_task l = task" "la_requirements l = req" "la_worker_ids l = chosen" "la_attempt l = dc_attempt c"
    by (auto simp: claim_and_launch_def andthen_Some call_fresh_Some deferred_outcome_def ret_def Let_def split: option.splits if_splits)
  from claimed_plan [OF claim] l show "la_task l = task" "la_requirements l = req" "la_worker_ids l = chosen" "claimed R w l"
    by (auto simp: claimed_def)
qed

lemma observe_contracts_None: "observe_contracts R task is w = Some (w', Inr (Some (Launched l))) \<Longrightarrow> False"
  by (induction "is" arbitrary: w) (auto simp: andthen_Some deferred_outcome_def ret_def split: if_splits)

lemma dispatch_task_sound:
  assumes "dispatch_task R task w = Some (w', Inr (Launched l))"
  shows "la_task l = task \<and> tk_attempt_count task < rt_max_attempts R \<and> requirements_of task = Inr (la_requirements l) \<and>
    (\<exists>w0. routed R w0 l) \<and> (\<exists>w1. claimed R w1 l)"
proof -
  from assms obtain req g d w0 w1 w2 where
    steps: "tk_attempt_count task < rt_max_attempts R" "requirements_of task = Inr req"
      "route_task R task req w0 = Some (w1, Inr (g, d))" "rd_selected_worker_ids d \<noteq> []"
      "claim_and_launch R task req (rd_selected_worker_ids d) w2 = Some (w', Inr (Launched l))"
    by (auto simp: dispatch_task_def exhaust_attempts_def deferred_outcome_def andthen_Some call_store_Some ask_store_Some lift_def ret_def
        split: if_splits option.splits dest: observe_contracts_None)
  note l = claim_and_launch_sound [OF steps(5)]
  have "routed R w0 l" using route_task_sound [OF steps(3)] l steps(4) by simp
  with l steps(1,2) show ?thesis by auto
qed

lemma dispatch_all_launched:
  assumes "dispatch_all R task_ids active s ts w = Some (w', Inr s')" and "l \<in> set (ds_launched s')"
  shows "l \<in> set (ds_launched s) \<or>
    (la_task l \<in> set ts \<and> dispatchable task_ids active (la_task l) \<and> (\<exists>w1 w2. dispatch_task R (la_task l) w1 = Some (w2, Inr (Launched l))))"
  using assms
proof (induction ts arbitrary: active s w)
  case (Cons t ts)
  show ?case
  proof (cases "dispatchable task_ids active t")
    case False
    with Cons.IH [of active s w] Cons.prems show ?thesis by auto
  next
    case True
    from Cons.prems(1) True obtain out w1 where out: "dispatch_task R t w = Some (w1, Inr out)"
      and rest: "dispatch_all R task_ids (case out of Launched l \<Rightarrow> insert (tk_id t) active | _ \<Rightarrow> active) (add_outcome (tk_id t) out s) ts w1 = Some (w', Inr s')"
      by (auto simp: andthen_Some Let_def)
    from Cons.IH [OF rest Cons.prems(2)]
    have "l \<in> set (ds_launched (add_outcome (tk_id t) out s)) \<or>
      (la_task l \<in> set ts \<and> dispatchable task_ids (case out of Launched l \<Rightarrow> insert (tk_id t) active | _ \<Rightarrow> active) (la_task l) \<and>
       (\<exists>w1 w2. dispatch_task R (la_task l) w1 = Some (w2, Inr (Launched l))))" by simp
    then show ?thesis
    proof (cases out)
      case (Launched l')
      with out dispatch_task_sound [of R t w w1 l'] have "la_task l' = t" by simp
      with \<open>_ \<or> _\<close> Launched out True show ?thesis by (cases "l = l'") (simp_all add: add_outcome_def dispatchable_def, blast+)
    qed (simp_all add: add_outcome_def, blast+)
  qed
qed (simp add: ret_def)

text \<open>
  C1. Everything a dispatch round launches is justified: the task was ready, not yet executing, and had
  attempts left; each of its workers has an adapter, passed the hard constraints of the task and was
  admitted by the quota guard when it was routed; and the claim that launched it found the task still
  ready at the version that was routed, its dependencies satisfied and its workers idle.
\<close>

theorem dispatch_launches_justified:
  assumes "dispatch_ready R task_ids active w = Some (w', Inr s)" and "l \<in> set (ds_launched s)"
  shows "tk_state (la_task l) = TASK_READY \<and> tk_id (la_task l) \<notin> active \<and> tk_attempt_count (la_task l) < rt_max_attempts R \<and>
    requirements_of (la_task l) = Inr (la_requirements l) \<and> (\<exists>w0. routed R w0 l) \<and> (\<exists>w1. claimed R w1 l)"
proof -
  from assms(1) obtain ts where "dispatch_all R task_ids active \<lparr>ds_launched = [], ds_blocked = [], ds_deferred = []\<rparr> ts w = Some (w', Inr s)"
    by (auto simp: dispatch_ready_def andthen_Some ask_store_Some)
  from dispatch_all_launched [OF this assms(2)] obtain w1 w2 where "dispatchable task_ids active (la_task l)"
    "dispatch_task R (la_task l) w1 = Some (w2, Inr (Launched l))" by auto
  with dispatch_task_sound [of R "la_task l" w1 w2 l] show ?thesis by (simp add: dispatchable_def)
qed

lemma dispatch_all_distinct:
  assumes "dispatch_all R task_ids active s ts w = Some (w', Inr s')"
    and "distinct (map (\<lambda>l. tk_id (la_task l)) (ds_launched s))" and "\<forall>l \<in> set (ds_launched s). tk_id (la_task l) \<in> active"
  shows "distinct (map (\<lambda>l. tk_id (la_task l)) (ds_launched s'))"
  using assms
proof (induction ts arbitrary: active s w)
  case (Cons t ts)
  show ?case
  proof (cases "dispatchable task_ids active t")
    case False
    with Cons.IH [of active s w] Cons.prems show ?thesis by auto
  next
    case True
    from Cons.prems(1) True obtain out w1 where out: "dispatch_task R t w = Some (w1, Inr out)"
      and rest: "dispatch_all R task_ids (case out of Launched l \<Rightarrow> insert (tk_id t) active | _ \<Rightarrow> active) (add_outcome (tk_id t) out s) ts w1 = Some (w', Inr s')"
      by (auto simp: andthen_Some Let_def)
    have "distinct (map (\<lambda>l. tk_id (la_task l)) (ds_launched (add_outcome (tk_id t) out s)))"
      "\<forall>l \<in> set (ds_launched (add_outcome (tk_id t) out s)). tk_id (la_task l) \<in> (case out of Launched l \<Rightarrow> insert (tk_id t) active | _ \<Rightarrow> active)"
    proof (atomize (full), cases out)
      case (Launched l')
      with out dispatch_task_sound [of R t w w1 l'] have "la_task l' = t" by simp
      with Launched Cons.prems(2,3) True show "distinct (map (\<lambda>l. tk_id (la_task l)) (ds_launched (add_outcome (tk_id t) out s))) \<and>
        (\<forall>l \<in> set (ds_launched (add_outcome (tk_id t) out s)). tk_id (la_task l) \<in> (case out of Launched l \<Rightarrow> insert (tk_id t) active | _ \<Rightarrow> active))"
        by (auto simp: add_outcome_def dispatchable_def)
    qed (use Cons.prems(2,3) in \<open>simp_all add: add_outcome_def\<close>)
    then show ?thesis by (rule Cons.IH [OF rest])
  qed
qed (simp add: ret_def)

text \<open>C2. A round launches no task twice.\<close>

theorem dispatch_launches_once:
  assumes "dispatch_ready R task_ids active w = Some (w', Inr s)"
  shows "distinct (map (\<lambda>l. tk_id (la_task l)) (ds_launched s))"
proof -
  from assms obtain ts where "dispatch_all R task_ids active \<lparr>ds_launched = [], ds_blocked = [], ds_deferred = []\<rparr> ts w = Some (w', Inr s)"
    by (auto simp: dispatch_ready_def andthen_Some ask_store_Some)
  from dispatch_all_distinct [OF this] show ?thesis by simp
qed

section \<open>What submission and deferral do\<close>

lemma call_transition_Some:
  assumes "call_store (\<lambda>now. transition_task now tid target actor summary payload ver lo lg) w = Some (w', Inr t)"
  obtains row :: task_row where "row_by tk_id tid (tasks (core (store w))) = Some row"
    "require_optional_lease (clock w) (core (store w)) tid lo lg = Inr ()"
    "allows TASK_TRANSITIONS (tk_state row) target" "row_by tk_id tid (tasks (core (store w'))) = Some t"
    "tk_state t = target" "tk_version t = tk_version row + 1" "tk_attempt_count t = tk_attempt_count row"
    "approvals (core (store w')) = approvals (core (store w))" "clock w' = clock w"
    "worker_runs (core (store w')) = worker_runs (core (store w))"
    "task_execution_leases (core (store w')) = task_execution_leases (core (store w))"
proof -
  from assms obtain db where db: "transition_task (clock w) tid target actor summary payload ver lo lg (core (store w)) = Inr (db, t)"
    and w': "w' = w\<lparr>store := put_core db (store w)\<rparr>" by (auto simp: call_store_Some)
  from db show ?thesis
  proof (cases rule: transition_taskE)
    case (1 row e)
    have "db = db" ..
    with 1 w' show ?thesis by (intro that [of row]) (simp_all add: append_event_def)
  qed
qed

lemma approval_requested:
  "request_approval now u project permission action payload by_whom (Some tid) reason db = Inr (db', aid) \<Longrightarrow>
     \<exists>a \<in> set (approvals db'). ap_task_id a = Some tid \<and> ap_state a = ''pending'' \<and> ap_action_type a = action"
  by (auto simp: request_approval_def Let_def append_event_def)

text \<open>
  C3. A submitted task is ready unless it is of the red permission class and not approved; then it is
  blocked, with a pending approval request that names it.
\<close>

theorem submit_task_gated:
  assumes "submit_task R s w = Some (w', Inr tid)"
  shows "\<exists>t. row_by tk_id tid (tasks (core (store w'))) = Some t \<and>
    tk_state t = (if needs_approval (sm_requirements s) then TASK_BLOCKED else TASK_READY) \<and>
    (needs_approval (sm_requirements s) \<longrightarrow>
      (\<exists>a \<in> set (approvals (core (store w'))). ap_task_id a = Some tid \<and> ap_state a = ''pending'' \<and> ap_action_type a = ''executeTask''))"
proof -
  obtain w1 t where r: "release_submission R s tid w1 = Some (w', Inr t)"
    using assms unfolding submit_task_def Let_def by (auto simp: andthen_Some ret_def)
  show ?thesis
  proof (cases "needs_approval (sm_requirements s)")
    case False
    with r show ?thesis by (auto simp: release_submission_def elim: call_transition_Some)
  next
    case True
    with r obtain w2 aid where
      ap: "call_fresh R (\<lambda>uuid now. request_approval now (uuid 0) (sm_project_id s)
             (permission_class_value (rq_permission_class (sm_requirements s))) ''executeTask''
             [(''taskID'', JStr tid), (''title'', JStr (sm_title s))] ''runtime'' (Some tid)
             (Some ''RED permission class requires explicit human approval'')) w1 = Some (w2, Inr aid)"
      and t: "call_store (\<lambda>now. transition_task now tid TASK_BLOCKED ''supervisor''
               (Some ''Task blocked on mandatory human approval'') [(''reasonCode'', JStr ''HUMAN_APPROVAL_REQUIRED'')] None None None) w2 = Some (w', Inr t)"
      unfolding release_submission_def by (auto simp: andthen_Some)
    from ap have "\<exists>a \<in> set (approvals (core (store w2))). ap_task_id a = Some tid \<and> ap_state a = ''pending'' \<and> ap_action_type a = ''executeTask''"
      by (auto simp: call_fresh_Some dest!: approval_requested)
    with t True show ?thesis by (elim call_transition_Some) auto
  qed
qed

text \<open>
  C4. A deferral blocks the task exactly when the last deferral on record gave the same reason and is at
  least the wait limit old and the task is still ready; otherwise no task changes. The age is that of the
  last recorded deferral, also when the task has been executed since.
\<close>

theorem deferral_blocks_iff:
  assumes "record_dispatch_deferred R task code detail now db = Inr (db', exhausted)"
  shows "(exhausted \<longleftrightarrow> (\<exists>e row. last_deferral db (tk_id task) = Some e \<and> ev_payload e = deferral_payload code detail \<and>
        rt_wait_timeout R \<le> now - of_int (ev_created_at e) \<and>
        row_by tk_id (tk_id task) (tasks db) = Some row \<and> tk_state row = TASK_READY)) \<and>
    (exhausted \<longrightarrow> (\<exists>row. row_by tk_id (tk_id task) (tasks db') = Some row \<and> tk_state row = TASK_BLOCKED)) \<and>
    (\<not> exhausted \<longrightarrow> tasks db' = tasks db)"
proof (cases "last_deferral db (tk_id task)")
  case None
  with assms show ?thesis by (auto simp: record_dispatch_deferred_def)
next
  case (Some e)
  show ?thesis
  proof (cases "row_by tk_id (tk_id task) (tasks db)")
    case None
    with assms Some show ?thesis by (auto simp: record_dispatch_deferred_def split: if_splits)
  next
    case (Some row)
    have "tk_id row = tk_id task" using Some by (rule row_by_key)
    with assms Some \<open>last_deferral db (tk_id task) = _\<close> show ?thesis
      by (auto simp: record_dispatch_deferred_def block_waiting_def row_by_upd_by split: if_splits)
  qed
qed

section \<open>Examples\<close>

definition rt_db :: resource_db where
  "rt_db = \<lparr>rd_usage = \<lparr>ud_db = dispatch_db\<lparr>nodes := [usage_node\<lparr>nd_id := ''n1''\<rparr>], projects := [usage_project]\<rparr>, ud_invocations = []\<rparr>,
     rd_audits = [], rd_snapshots = []\<rparr>"

definition rt_start :: rt_world where
  "rt_start = \<lparr>clock = 5, store = rt_db\<rparr>"

definition quiet_adapter :: worker_adapter where
  "quiet_adapter = \<lparr>wa_class = ''quiet'', wa_durable = None, wa_negotiate = None,
     wa_execute = (\<lambda>_ w. (w, Inl (WorkerError ''WorkerUnavailable'' ''down''))),
     wa_start_job = (\<lambda>_ _ w. (w, Inl (WorkerError ''WorkerUnavailable'' ''down''))),
     wa_resume_job = (\<lambda>_ _ w. (w, Inl (WorkerError ''WorkerUnavailable'' ''down'')))\<rparr>"

definition rt_sample :: runtime where
  "rt_sample = \<lparr>rt_id = ''host'', rt_max_attempts = 2, rt_worker_timeout = 120, rt_lease_ttl = 6, rt_wait_timeout = 60,
     rt_scheduler = default_config, rt_adapters = [(''w'', quiet_adapter)], rt_observers = [], rt_flt = exact_flt,
     rt_digest = (\<lambda>_. []), rt_sha = (\<lambda>s. s), rt_uuid = (\<lambda>_. show_nat), rt_error_text = (\<lambda>_. ''error''),
     rt_error_class = (\<lambda>_. ''Error''), rt_evidence_root = ''/evidence''\<rparr>"

definition rt_worker :: worker_snapshot where
  "rt_worker = hd (worker_snapshots (core rt_db))"

definition rt_requirements :: task_requirements where
  "rt_requirements = \<lparr>rq_labels = {}, rq_required_capabilities = {}, rq_permission_class = PERM_GREEN,
     rq_approval_state = APPROVAL_NOT_REQUIRED, rq_minimum_context_tokens = None, rq_privacy_sensitive = False,
     rq_code_write_required = False, rq_panel_size = 2, rq_preferred_workers = []\<rparr>"

lemma rt_requirements_of: "requirements_of (sample_task ''t'') = Inr rt_requirements"
  by (simp add: requirements_of_def sample_task_def rt_requirements_def)

lemma rt_candidates: "dispatch_candidates rt_sample (sample_task ''t'') (core rt_db) = [rt_worker]"
  "ws_id rt_worker = ''w''" "hard_constraints rt_requirements rt_worker = []"
  by (simp_all add: dispatch_candidates_def worker_snapshots_def list_workers_def rt_db_def core_def dispatch_simps usage_node_def
      contains_adapter_def rt_sample_def Let_def rt_worker_def hard_constraints_Nil_iff admissible_def rt_requirements_def)

lemma rt_worker_fields:
  "ws_id rt_worker = ''w''" "ws_provider rt_worker = PROVIDER_OPENAI" "ws_state rt_worker = WORKER_IDLE"
  by (simp_all add: rt_worker_def worker_snapshots_def list_workers_def rt_db_def core_def dispatch_simps usage_node_def)

lemma rt_guarded:
  "\<exists>g. apply_quota_guard 5 rt_db rt_requirements [rt_worker] = Inr g \<and> gu_candidates g = [rt_worker] \<and>
     map re_worker_id (gu_evidence g) = [''w''] \<and> gu_rejections g = []"
proof -
  have latest: "latest_by_worker rt_db [''w''] = Inr []" "latest_by_pool rt_db = Inr []"
    by (simp_all add: latest_by_worker_def latest_by_pool_def newest_def latest_where_def rt_db_def dict_fromkeys_def)
  show ?thesis
    by (simp add: apply_quota_guard_def latest rt_worker_fields rt_candidates(3) guard_candidate_of_def check_guard_candidate_def Let_def
        guard_evaluate_def guard_evidence_of_def effective_evidence_def guard_decide_def avoid_reason_def routing_evidence_def
        no_evidence_def to_routing_evidence_def dict_of_def truthy_def check_resource_evidence_def guard_health_score_def
        provenance_kinds_def freshness_states_def quota_states_def py_isspace_def)
qed

lemma rt_scheduled:
  assumes "map re_worker_id ev = [''w'']"
  shows "\<exists>d c. schedule exact_flt default_config ''t'' rt_requirements TOPO_SINGLE [rt_worker] ev = Inr d \<and> rd_selected_worker_ids d = [''w''] \<and>
    rd_rejected d = [] \<and> rd_candidates d = [c] \<and> cs_worker_id c = ''w''"
proof -
  obtain e where ev: "ev = [e]" "re_worker_id e = ''w''" using assms by auto
  have dict: "resource_evidence_dict [] ev = Inr [(''w'', e)]" by (simp add: ev)
  have el: "eligible_workers rt_requirements [rt_worker] = [rt_worker]" "rejected_workers rt_requirements [rt_worker] = []"
    by (simp_all add: eligible_workers_def rejected_workers_def rt_candidates(3))
  have "score_value exact_flt (sc_weights default_config) comps \<noteq> Inl x" for comps x
    by (simp add: score_value_def exact_flt_def default_config_def default_weights_def weights_as_dict_def Let_def)
  then obtain v where "score_value exact_flt (sc_weights default_config) (score_components exact_flt rt_requirements rt_worker (Some e)) = Inr v"
    by (cases "score_value exact_flt (sc_weights default_config) (score_components exact_flt rt_requirements rt_worker (Some e))") auto
  then obtain c where c: "score exact_flt default_config rt_requirements rt_worker (Some e) = Inr c" "cs_worker_id c = ''w''"
    by (simp add: score_def Let_def rt_worker_fields)
  have "ranked_workers sc [rt_worker] = [rt_worker]" for sc by (simp add: ranked_workers_def)
  moreover have "select TOPO_SINGLE rt_requirements [rt_worker] sc = [''w'']" for sc
    using select_topology(1) [of "[rt_worker]"] by (simp add: rt_worker_fields)
  moreover have "enforce_topology TOPO_SINGLE rt_requirements [''w''] = ([''w''], [])" by (simp add: enforce_topology_def)
  ultimately show ?thesis
    by (simp add: schedule_def dict el c rt_worker_fields Let_def)
qed

lemma rt_fields [simp]:
  "rt_adapters rt_sample = [(''w'', quiet_adapter)]" "rt_max_attempts rt_sample = 2" "rt_id rt_sample = ''host''" "rt_uuid rt_sample w = show_nat"
  "rt_flt rt_sample = exact_flt" "rt_scheduler rt_sample = default_config" "rt_digest rt_sample = (\<lambda>_. [])" "rt_sha rt_sample = (\<lambda>s. s)"
  "rt_worker_timeout rt_sample = 120" "rt_lease_ttl rt_sample = 6" "rt_wait_timeout rt_sample = 60"
  by (simp_all add: rt_sample_def)

definition rt_frame :: "db \<Rightarrow> bool" where
  "rt_frame db \<longleftrightarrow> tasks db = [sample_task ''t''] \<and> workers db = [sample_worker_row ''w''] \<and> task_dependencies db = [] \<and>
     worker_runs db = [] \<and> provider_jobs db = [] \<and> task_execution_leases db = []"

lemma sample_task_fields [simp]: "tk_id (sample_task i) = i" "tk_topology (sample_task i) = TOPO_SINGLE" "tk_version (sample_task i) = 1"
  "tk_attempt_count (sample_task i) = 0" "tk_state (sample_task i) = TASK_READY"
  by (simp_all add: sample_task_def)

lemma rt_routed:
  "\<exists>w g d. route_task rt_sample (sample_task ''t'') rt_requirements rt_start = Some (w, Inr (g, d)) \<and>
     rd_selected_worker_ids d = [''w''] \<and> clock w = 5 \<and> rt_frame (core (store w))"
proof -
  obtain g where g: "apply_quota_guard 5 rt_db rt_requirements [rt_worker] = Inr g" "gu_candidates g = [rt_worker]"
    "map re_worker_id (gu_evidence g) = [''w'']" "gu_rejections g = []" using rt_guarded by (elim exE conjE) (rule that)
  obtain d c where d: "schedule exact_flt default_config ''t'' rt_requirements TOPO_SINGLE [rt_worker] (gu_evidence g) = Inr d"
    "rd_selected_worker_ids d = [''w'']" "rd_rejected d = []" "rd_candidates d = [c]" "cs_worker_id c = ''w''"
    using rt_scheduled [OF g(3)] by (elim exE conjE) (rule that)
  let ?d = "combine_decision d g"
  have d': "rd_selected_worker_ids ?d = [''w'']" "rd_rejected ?d = []" "rd_candidates ?d = [c]"
    by (simp_all add: combine_decision_def Let_def d g)
  have "last_routing_decision (core rt_db) ''t'' = None" "row_by tk_id ''t'' (tasks (core rt_db)) = Some (sample_task ''t'')"
    "routing_decisions (core rt_db) = []" "routing_candidates (core rt_db) = []" "rt_frame (core rt_db)"
    by (simp_all add: last_routing_decision_def list_last_def list_hd_def rt_db_def core_def rt_frame_def dispatch_simps)
  then obtain db did where "persist_routing_decision 5 (show_nat 0) ''t'' ?d ''scheduler'' (core rt_db) = Inr (db, did)" "rt_frame db"
    by (auto simp: persist_routing_decision_def fetch_def insert_decision_def d' d(5) group_rejections_def dict_fromkeys_def unique_key_def
        rt_frame_def Let_def)
  with g(1,2) d(1) d' show ?thesis
    by (auto simp: route_task_def andthen_Some reading_def lift_def rt_start_def rt_candidates(1) call_fresh_Some ret_def Let_def)
qed

lemma protocol_of_contract: "protocol_version_of (contract_capabilities v c) = v"
  by (simp add: protocol_version_of_def contract_capabilities_def)

lemma rt_claimed:
  assumes "rt_frame (core (store w))" and "clock w = 5"
  shows "\<exists>w' l. claim_and_launch rt_sample (sample_task ''t'') rt_requirements [''w''] w = Some (w', Inr (Launched l))"
proof -
  have f: "tasks (core (store w)) = [sample_task ''t'']" "workers (core (store w)) = [sample_worker_row ''w'']"
    "task_dependencies (core (store w)) = []" "worker_runs (core (store w)) = []" "provider_jobs (core (store w)) = []"
    "task_execution_leases (core (store w)) = []"
    using assms(1) by (simp_all add: rt_frame_def)
  obtain p where plan: "plan_dispatch (\<lambda>_. []) 5 show_nat ''t'' [''w''] 1 (Some 125) (Some ''host'') 6 (Some 2) ''runtime'' (core (store w)) = Inr (Some p)"
    "cp_task p = sample_task ''t''" "cp_lease p = Some (''host'', 6)"
    "cp_runs p = [new_run (''run-'' @ show_nat 0) ''t'' ''w'' 1 (Some 125) (cp_scope_id p) (cp_revision p) (timestamp 5)]"
    by (simp add: plan_dispatch_def f sample_task_def sample_worker_row_def row_simps fetch_def task_verification_dispatch_snapshot_def
        unsatisfied_dependencies_def workers_idle_def new_run_def py_isspace_def Let_def)
  have claim: "claim_task_dispatch (\<lambda>_. []) 5 show_nat ''t'' [''w''] 1 (Some 125) (Some ''host'') 6 (Some 2) ''runtime'' (core (store w)) =
      Inr (commit_claim 5 p (core (store w)), Some (claim_result (core (store w)) p))"
    using plan by (simp add: claim_task_dispatch_def dict_fromkeys_def f sample_task_def idle_count_def sample_worker_row_def
        run_insertable_def new_run_def row_simps Let_def)
  let ?db = "commit_claim 5 p (core (store w))"
  have gen: "next_generation (core (store w)) ''t'' = 1" by (simp add: next_generation_def f)
  note lease = commit_claim_lease [OF plan(1), unfolded gen]
  have res: "dc_run_ids (claim_result (core (store w)) p) = [(''w'', ''run-'' @ show_nat 0)]" "dc_lease_generation (claim_result (core (store w)) p) = Some 1"
    by (simp_all add: claim_result_def plan(4) lease(1) new_run_def)
  have rid: "rn_id (hd (cp_runs p)) = ''run-'' @ show_nat 0" by (simp add: plan(4) new_run_def)
  have tabs: "row_by rn_id (''run-'' @ show_nat 0) (worker_runs ?db) = Some (hd (cp_runs p))" "rn_task_id (hd (cp_runs p)) = ''t''"
    "rn_worker_id (hd (cp_runs p)) = ''w''" "provider_jobs ?db = []"
    "\<exists>t. row_by tk_id ''t'' (tasks ?db) = Some t" "\<exists>x. row_by wk_id ''w'' (workers ?db) = Some x"
    by (simp_all add: commit_claim_effect plan f row_simps new_run_def claim_task_row_def reserve_workers_def sample_worker_row_def)
  from tabs(5,6) obtain task :: task_row and worker :: worker_row where rows: "row_by tk_id ''t'' (tasks ?db) = Some task"
    "row_by wk_id ''w'' (workers ?db) = Some worker" by blast
  have n: "nonblank ''legacy:quiet''" "nonblank ''worker:w:legacy:quiet''" by (simp_all add: py_isspace_def)
  obtain db job where job: "prepare_provider_job (\<lambda>s. s) 5 (show_nat 0) (''run-'' @ show_nat 0) (''legacy:quiet'') (''worker:w:legacy:quiet'')
      (contract_capabilities 1 no_support) ''host'' 1 ''runtime'' ?db = Inr (db, job)"
    using tabs(1-4) rows lease(2) n rid
    by (simp add: prepare_provider_job_def fetch_def protocol_of_contract require_task_execution_lease_def job_insertable_def
        new_provider_job_def insert_provider_job_def get_provider_job_def row_simps Let_def del: append.simps)
  have t: "timestamp 125 = 125" by (simp add: timestamp_def)
  have a: "adapter_job_contract ''w'' quiet_adapter = (''legacy:quiet'', ''worker:w:legacy:quiet'', contract_capabilities 1 no_support)"
    by (simp add: adapter_job_contract_def quiet_adapter_def Let_def)
  let ?w = "w\<lparr>store := put_core ?db (store w)\<rparr>"
  have c: "call_fresh rt_sample (\<lambda>uuid now. claim_task_dispatch (\<lambda>_. []) now uuid ''t'' [''w''] 1 (Some (timestamp (now + 120))) (Some ''host'') 6
      (Some 2) ''runtime'') w = Some (?w, Inr (Some (claim_result (core (store w)) p)))"
    using claim assms(2) by (auto simp: call_fresh_Some t)
  have "prepare_jobs rt_sample 1 [(''w'', ''run-'' @ show_nat 0)] ?w = Some (w\<lparr>store := put_core db (store w)\<rparr>, Inr ())"
    using job assms(2) by (simp add: prepare_jobs_def andthen_def get_adapter_def lift_def ret_def a call_fresh_def call_store_def transact_def)
  then show ?thesis
    using c res by (simp add: claim_and_launch_def andthen_def ret_def Let_def)
qed

lemma rt_dispatched: "\<exists>w s l. dispatch_ready rt_sample None {} rt_start = Some (w, Inr s) \<and> ds_launched s = [l] \<and> la_task l = sample_task ''t''"
proof -
  obtain w g d where r: "route_task rt_sample (sample_task ''t'') rt_requirements rt_start = Some (w, Inr (g, d))"
    "rd_selected_worker_ids d = [''w'']" "clock w = 5" "rt_frame (core (store w))"
    using rt_routed by (elim exE conjE) (rule that)
  obtain w' l where l: "claim_and_launch rt_sample (sample_task ''t'') rt_requirements [''w''] w = Some (w', Inr (Launched l))"
    using rt_claimed [OF r(4,3)] by blast
  have o: "observe_contracts rt_sample (sample_task ''t'') [''w''] w = Some (w, Inr None)"
    by (simp add: andthen_def catch_def get_adapter_def lift_def ret_def negotiate_adapter_job_contract_def quiet_adapter_def)
  have "task_dependencies_of (core rt_db) ''t'' = Inr []"
    by (simp add: task_dependencies_of_def rt_db_def core_def dispatch_simps)
  then have t: "dispatch_task rt_sample (sample_task ''t'') rt_start = Some (w', Inr (Launched l))"
    using r l o rt_requirements_of by (simp add: dispatch_task_def andthen_def ask_store_def reading_def rt_start_def failed_dependencies_def lift_def ret_def)
  have "list_tasks (core rt_db) None = [sample_task ''t'']" by (simp add: list_tasks_def rt_db_def core_def dispatch_db_def empty_db_def)
  with t claim_and_launch_sound(1) [OF l] show ?thesis
    by (simp add: dispatch_ready_def andthen_def ask_store_def reading_def rt_start_def dispatchable_def ret_def add_outcome_def Let_def)
qed

theorem dispatch_launches_justified_witness:
  "\<exists>w s l. dispatch_ready rt_sample None {} rt_start = Some (w, Inr s) \<and> l \<in> set (ds_launched s) \<and> (\<exists>w0. routed rt_sample w0 l) \<and> (\<exists>w1. claimed rt_sample w1 l)"
proof -
  obtain w s l where d: "dispatch_ready rt_sample None {} rt_start = Some (w, Inr s)" "ds_launched s = [l]" using rt_dispatched by blast
  then have "l \<in> set (ds_launched s)" by simp
  from dispatch_launches_justified [OF d(1) this] d(1) this show ?thesis by blast
qed

theorem dispatch_launches_once_witness:
  "\<exists>w s. dispatch_ready rt_sample None {} rt_start = Some (w, Inr s) \<and> distinct (map (\<lambda>l. tk_id (la_task l)) (ds_launched s))"
proof -
  obtain w s l where d: "dispatch_ready rt_sample None {} rt_start = Some (w, Inr s)" "ds_launched s = [l]" using rt_dispatched by blast
  from dispatch_launches_once [OF d(1)] d(1) show ?thesis by blast
qed

definition red_submission :: submission where
  "red_submission = \<lparr>sm_project_id = ''p1'', sm_title = ''x'', sm_description = ''y'', sm_requirements = rt_requirements\<lparr>rq_permission_class := PERM_RED\<rparr>,
     sm_topology = TOPO_SINGLE, sm_priority = 50, sm_task_id = Some ''red'', sm_reference = Some ''#0002''\<rparr>"

theorem submit_task_gated_witness:
  "\<exists>w t. submit_task rt_sample red_submission rt_start = Some (w, Inr ''red'') \<and> row_by tk_id ''red'' (tasks (core (store w))) = Some t \<and>
     tk_state t = TASK_BLOCKED"
proof -
  obtain w where w: "submit_task rt_sample red_submission rt_start = Some (w, Inr ''red'')"
    by (simp add: submit_task_def release_submission_def red_submission_def truthy_def andthen_def ret_def call_store_def call_fresh_def transact_def
        create_task_def submitted_record_def task_row_of_def task_insertable_def rt_start_def rt_db_def core_def put_core_def dispatch_db_def empty_db_def
        sample_task_def usage_project_def rt_requirements_def needs_approval_def row_simps fetch_def get_task_def append_event_def
        transition_task_def require_optional_lease_def require_def table_simps TASK_TRANSITIONS_def request_approval_def references_def Let_def)
  from submit_task_gated [OF w] w show ?thesis
    by (auto simp: red_submission_def needs_approval_def rt_requirements_def)
qed

lemma deferral_total: "\<exists>db' b. record_dispatch_deferred R task code detail now db = Inr (db', b)"
proof (cases "last_deferral db (tk_id task)")
  case (Some e)
  then show ?thesis by (cases "row_by tk_id (tk_id task) (tasks db)") (auto simp: record_dispatch_deferred_def)
qed (auto simp: record_dispatch_deferred_def)

theorem deferral_blocks_iff_witness:
  "\<exists>db. record_dispatch_deferred rt_sample (sample_task ''t'') ''c'' ''d'' 100
     (append_event 5 (defer_event (sample_task ''t'') ''c'' ''d'') dispatch_db) = Inr (db, True) \<and>
     (\<exists>row. row_by tk_id ''t'' (tasks db) = Some row \<and> tk_state row = TASK_BLOCKED)"
proof -
  let ?db = "append_event 5 (defer_event (sample_task ''t'') ''c'' ''d'') dispatch_db"
  obtain db b where r: "record_dispatch_deferred rt_sample (sample_task ''t'') ''c'' ''d'' 100 ?db = Inr (db, b)"
    using deferral_total by blast
  have "last_deferral ?db ''t'' = Some (defer_event (sample_task ''t'') ''c'' ''d''\<lparr>ev_sequence := 1, ev_created_at := 5\<rparr>)"
    by (simp add: last_deferral_def append_event_def defer_event_def mk_event_def highest_event_sequence_def dispatch_simps timestamp_def)
  then have b
    using deferral_blocks_iff [OF r, THEN conjunct1]
    by (simp add: defer_event_def mk_event_def) (simp add: dispatch_simps)
  with deferral_blocks_iff [OF r] r show ?thesis by simp
qed

end
