(* ===== verification/Spec2Isabelle.thy ===== *)
theory Spec2Isabelle
  imports Bridge Launch_Registry Node_Monitor Resource_Economics Runtime_Dispatch
begin

text \<open>
  A model of the Chips Agent Fabric project supervisor.
\<close>

end
